(* ===== verification/Kapro_Prelude.thy ===== *)
theory Kapro_Prelude
  imports Main "HOL-Library.List_Lexorder" "HOL-Library.Char_ord" "HOL-Library.AList"
begin

text \<open>
  Shared ground of the development: the collections that gather the frame and the
  unfolding lemmas of the components, the reading of Go's \<^verbatim>\<open>map[string]T\<close> as
  association lists, and the generic lemmas on lists, sums and counting that several
  components use.
\<close>

section \<open>Collections\<close>

named_theorems go_map_simps "laws of Go maps read as association lists"
named_theorems frame_simps "what an operation leaves unchanged"
named_theorems phase_simps "facts about the phase enumerations"

section \<open>Go maps\<close>

text \<open>
  A Go map is an association list. Go leaves the order of a \<^verbatim>\<open>range\<close> loop open: the list
  is one enumeration of the map, and a statement for every list is a statement for every
  order. A missing key reads as the zero value; \<^verbatim>\<open>nil\<close> and the empty map are both the
  empty list.
\<close>

type_synonym smap = "(string \<times> string) list"

definition smap_get :: "smap \<Rightarrow> string \<Rightarrow> string" where
  "smap_get m k = (case map_of m k of None \<Rightarrow> [] | Some v \<Rightarrow> v)"

definition smap_set :: "string \<Rightarrow> string \<Rightarrow> smap \<Rightarrow> smap" where
  "smap_set k v m = AList.update k v m"

definition smap_eq :: "smap \<Rightarrow> smap \<Rightarrow> bool" where
  "smap_eq a b \<longleftrightarrow> length a = length b \<and> list_all (\<lambda>(k, v). map_of b k = Some v) a"

definition wf_map :: "('k \<times> 'v) list \<Rightarrow> bool" where
  "wf_map m \<longleftrightarrow> distinct (map fst m)"

lemma smap_get_Nil [simp, go_map_simps]: "smap_get [] k = []"
  by (simp add: smap_get_def)

lemma smap_get_set [go_map_simps]: "smap_get (smap_set k v m) k' = (if k' = k then v else smap_get m k')"
  by (simp add: smap_get_def smap_set_def update_conv')

lemma wf_map_Nil [simp]: "wf_map []"
  by (simp add: wf_map_def)

lemma wf_map_update: "wf_map m \<Longrightarrow> wf_map (AList.update k v m)"
  by (simp add: wf_map_def distinct_update)

lemma wf_smap_set [go_map_simps]: "wf_map m \<Longrightarrow> wf_map (smap_set k v m)"
  by (simp add: smap_set_def wf_map_update)

lemma smap_eq_refl: "wf_map m \<Longrightarrow> smap_eq m m"
  by (auto simp: smap_eq_def wf_map_def list_all_iff)

lemma map_of_rev_distinct:
  assumes "distinct (map fst xs)"
  shows "map_of (rev xs) k = map_of xs k"
proof -
  have "distinct (map fst (rev xs))" using assms by (simp add: rev_map [symmetric])
  then have "map_of (rev xs) k = Some v \<longleftrightarrow> map_of xs k = Some v" for v
    using assms by (simp add: map_of_eq_Some_iff)
  then show ?thesis by (metis option.exhaust)
qed

section \<open>Sums\<close>

text \<open>A fallible call returns \<open>Inl\<close> of its error or \<open>Inr\<close> of its value.\<close>

fun sum_bind :: "'e + 'a \<Rightarrow> ('a \<Rightarrow> 'e + 'b) \<Rightarrow> 'e + 'b" where
  "sum_bind (Inl e) f = Inl e"
| "sum_bind (Inr x) f = f x"

lemma sum_bind_Inr_iff: "sum_bind r f = Inr y \<longleftrightarrow> (\<exists>x. r = Inr x \<and> f x = Inr y)"
  by (cases r) auto

section \<open>Lists\<close>

lemma length_filter_partition3:
  assumes "\<And>x. x \<in> set xs \<Longrightarrow> P x \<or> Q x \<or> R x"
    and "\<And>x. x \<in> set xs \<Longrightarrow> \<not> (P x \<and> Q x) \<and> \<not> (P x \<and> R x) \<and> \<not> (Q x \<and> R x)"
  shows "length (filter P xs) + length (filter Q xs) + length (filter R xs) = length xs"
  using assms
proof (induction xs)
  case Nil
  then show ?case by simp
next
  case (Cons x xs)
  have "length (filter P xs) + length (filter Q xs) + length (filter R xs) = length xs"
    using Cons.prems by (intro Cons.IH) auto
  with Cons.prems [of x] show ?case by auto
qed

end
