(* ===== verification/Registry_Spec.thy ===== *)
theory Registry_Spec
  imports Kapro_Prelude
begin

text \<open>
  The contract that the phase machine, the gate registry and the actuator registry share: a
  table filled once per key at start-up and read by key afterwards. Registering refuses a
  key that is taken or an entry that is not admissible; a successful registration changes
  the lookup at its own key only.
\<close>

primrec register_all ::
  "('k \<Rightarrow> 'v \<Rightarrow> 'r \<Rightarrow> 'r option) \<Rightarrow> ('k \<times> 'v) list \<Rightarrow> 'r \<Rightarrow> 'r option" where
  "register_all reg [] r = Some r"
| "register_all reg (kv # kvs) r =
     (case reg (fst kv) (snd kv) r of None \<Rightarrow> None | Some r' \<Rightarrow> register_all reg kvs r')"

locale keyed_registry =
  fixes lookup :: "'r \<Rightarrow> 'k \<Rightarrow> 'v option"
    and reg :: "'k \<Rightarrow> 'v \<Rightarrow> 'r \<Rightarrow> 'r option"
    and admissible :: "'k \<Rightarrow> 'v \<Rightarrow> bool"
  assumes reg_refused: "reg k v r = None \<longleftrightarrow> \<not> admissible k v \<or> lookup r k \<noteq> None"
    and lookup_reg: "reg k v r = Some r' \<Longrightarrow> lookup r' k' = (if k' = k then Some v else lookup r k')"
begin

lemma reg_fresh:
  assumes "admissible k v" and "lookup r k = None"
  shows "\<exists>r'. reg k v r = Some r'"
  using assms reg_refused [of k v r] by (cases "reg k v r") auto

lemma reg_twice_refused: "reg k v r = Some r' \<Longrightarrow> reg k w r' = None"
  by (simp add: reg_refused lookup_reg)

text \<open>Filling a table succeeds exactly when every entry is admissible and no key repeats.\<close>

lemma register_all_ok_iff:
  "(\<exists>r'. register_all reg kvs r = Some r') \<longleftrightarrow>
     distinct (map fst kvs) \<and> (\<forall>(k, v) \<in> set kvs. admissible k v \<and> lookup r k = None)"
proof (induction kvs arbitrary: r)
  case Nil
  then show ?case by simp
next
  case (Cons kv kvs)
  obtain k v where kv: "kv = (k, v)" by (cases kv)
  show ?case
  proof (cases "reg k v r")
    case None
    then have "\<not> (admissible k v \<and> lookup r k = None)"
      using reg_refused [of k v r] by auto
    with None kv show ?thesis by auto
  next
    case (Some r')
    have adm: "admissible k v \<and> lookup r k = None"
      using Some reg_refused [of k v r] by auto
    have "(\<exists>s. register_all reg (kv # kvs) r = Some s) \<longleftrightarrow>
      distinct (map fst kvs) \<and> (\<forall>(k', v') \<in> set kvs. admissible k' v' \<and> lookup r' k' = None)"
      using Some kv Cons.IH [of r'] by simp
    moreover have "lookup r' k' = None \<longleftrightarrow> k' \<noteq> k \<and> lookup r k' = None" for k'
      by (simp add: lookup_reg [OF Some])
    ultimately show ?thesis using adm kv by (force simp: case_prod_beta)
  qed
qed

text \<open>What a filled table answers.\<close>

lemma lookup_register_all:
  "register_all reg kvs r = Some r' \<Longrightarrow>
   lookup r' k = (case map_of kvs k of None \<Rightarrow> lookup r k | Some v \<Rightarrow> Some v)"
proof (induction kvs arbitrary: r)
  case Nil
  then show ?case by simp
next
  case (Cons kv kvs)
  then obtain s where s: "reg (fst kv) (snd kv) r = Some s" "register_all reg kvs s = Some r'"
    by (auto split: option.splits)
  have "distinct (map fst kvs) \<and> (\<forall>(k, v) \<in> set kvs. admissible k v \<and> lookup s k = None)"
    using s(2) register_all_ok_iff by blast
  then have fresh: "map_of kvs (fst kv) = None"
    using lookup_reg [OF s(1), of "fst kv"] by (force simp: map_of_eq_None_iff)
  show ?case
    using Cons.IH [OF s(2)] lookup_reg [OF s(1), of k] fresh
    by (cases kv) (auto split: option.splits)
qed

end

end
