(* ===== verification/Fsm_Machine.thy ===== *)
theory Fsm_Machine
  imports Registry_Spec
begin

text \<open>
  The declarative phase machine of \<^verbatim>\<open>internal/promotion/fsm/machine.go\<close>: a dispatch table
  from phases to handlers, the declared successors of each phase, the terminal phases and
  the handler of the zero phase. Go's \<^verbatim>\<open>var zero Phase\<close> is the argument \<open>zero\<close>; a handler is a
  function from the environment to whatever one tick returns, and \<open>noop\<close> is the tick of an
  unregistered phase (zero result, no error, no work). Registration errors are values of
  \<open>fsm_error\<close>; a registration returns the machine it leaves behind beside the error.
\<close>

section \<open>The machine\<close>

datatype 'p fsm_error =
    UseRegisterInitial
  | HandlerNil 'p
  | HandlerAlreadyRegistered 'p
  | TerminalIsZero
  | TerminalHasHandler 'p
  | InitialHandlerNil
  | InitialAlreadyRegistered
  | NotInAllowedNext 'p 'p

record ('p, 'h) transition =
  tr_Phase :: 'p
  tr_AllowedNext :: "'p list"
  tr_Handler :: "'h option"

record ('p, 'h) machine =
  m_transitions :: "('p \<times> 'h) list"
  m_allowedNext :: "('p \<times> 'p list) list"
  m_terminalSet :: "'p list"
  m_initialHandler :: "'h option"
  m_initialAllowedNext :: "'p list option"

definition new_machine :: "('p, 'h) machine" where
  "new_machine = \<lparr>m_transitions = [], m_allowedNext = [], m_terminalSet = [],
     m_initialHandler = None, m_initialAllowedNext = None\<rparr>"

section \<open>Registration\<close>

definition register_transition ::
  "'p \<Rightarrow> ('p, 'h) transition \<Rightarrow> ('p, 'h) machine \<Rightarrow> 'p fsm_error option \<times> ('p, 'h) machine" where
  "register_transition zero t m =
     (if tr_Phase t = zero then (Some UseRegisterInitial, m)
      else case tr_Handler t of
        None \<Rightarrow> (Some (HandlerNil (tr_Phase t)), m)
      | Some h \<Rightarrow>
          (if map_of (m_transitions m) (tr_Phase t) \<noteq> None
           then (Some (HandlerAlreadyRegistered (tr_Phase t)), m)
           else let m1 = m\<lparr>m_transitions := m_transitions m @ [(tr_Phase t, h)]\<rparr>
                in (None,
                    if 0 < length (tr_AllowedNext t)
                    then m1\<lparr>m_allowedNext :=
                           AList.update (tr_Phase t) (remdups (tr_AllowedNext t)) (m_allowedNext m1)\<rparr>
                    else m1)))"

definition register ::
  "'p \<Rightarrow> 'p \<Rightarrow> 'h option \<Rightarrow> ('p, 'h) machine \<Rightarrow> 'p fsm_error option \<times> ('p, 'h) machine" where
  "register zero phase h m =
     register_transition zero \<lparr>tr_Phase = phase, tr_AllowedNext = [], tr_Handler = h\<rparr> m"

fun register_terminal ::
  "'p \<Rightarrow> 'p list \<Rightarrow> ('p, 'h) machine \<Rightarrow> 'p fsm_error option \<times> ('p, 'h) machine" where
  "register_terminal zero [] m = (None, m)"
| "register_terminal zero (p # ps) m =
     (if p = zero then (Some TerminalIsZero, m)
      else if map_of (m_transitions m) p \<noteq> None then (Some (TerminalHasHandler p), m)
      else register_terminal zero ps (m\<lparr>m_terminalSet := List.insert p (m_terminalSet m)\<rparr>))"

definition register_initial ::
  "'h option \<Rightarrow> 'p list \<Rightarrow> ('p, 'h) machine \<Rightarrow> 'p fsm_error option \<times> ('p, 'h) machine" where
  "register_initial h allowedNext m =
     (case h of
        None \<Rightarrow> (Some InitialHandlerNil, m)
      | Some _ \<Rightarrow>
          (if m_initialHandler m \<noteq> None then (Some InitialAlreadyRegistered, m)
           else let m1 = m\<lparr>m_initialHandler := h\<rparr>
                in (None, if 0 < length allowedNext
                          then m1\<lparr>m_initialAllowedNext := Some (remdups allowedNext)\<rparr> else m1)))"

section \<open>Queries\<close>

definition validate_transition :: "'p \<Rightarrow> ('p, 'h) machine \<Rightarrow> 'p \<Rightarrow> 'p \<Rightarrow> 'p fsm_error option" where
  "validate_transition zero m from to =
     (if from = to then None
      else if to \<in> set (m_terminalSet m) then None
      else case (if from = zero then m_initialAllowedNext m else map_of (m_allowedNext m) from) of
        None \<Rightarrow> None
      | Some allowed \<Rightarrow> (if to \<in> set allowed then None else Some (NotInAllowedNext from to)))"

definition graph :: "'p \<Rightarrow> ('p, 'h) machine \<Rightarrow> 'p \<Rightarrow> 'p list option" where
  "graph zero m p =
     (if p = zero \<and> m_initialAllowedNext m \<noteq> None then m_initialAllowedNext m
      else if p \<in> set (m_terminalSet m) then Some []
      else map_of (m_allowedNext m) p)"

definition validate_graph :: "('p, 'h) machine \<Rightarrow> 'p list \<Rightarrow> 'p list" where
  "validate_graph m required =
     filter (\<lambda>p. map_of (m_transitions m) p = None \<and> p \<notin> set (m_terminalSet m)) required"

definition phases :: "('p, 'h) machine \<Rightarrow> 'p list" where
  "phases m = map fst (m_transitions m)"

definition step :: "'p \<Rightarrow> ('p, 'e \<Rightarrow> 'r) machine \<Rightarrow> ('e \<Rightarrow> 'r) \<Rightarrow> 'p \<Rightarrow> 'e \<Rightarrow> 'r" where
  "step zero m noop phase env =
     (if phase = zero
      then (case m_initialHandler m of None \<Rightarrow> noop env | Some h \<Rightarrow> h env)
      else (case map_of (m_transitions m) phase of None \<Rightarrow> noop env | Some h \<Rightarrow> h env))"

text \<open>
  Building a machine is a sequence of registrations, each wrapped in \<^verbatim>\<open>must\<close>, which panics on
  an error: \<open>Inl\<close> of the error is the panic.
\<close>

definition must :: "'p fsm_error option \<times> ('p, 'h) machine \<Rightarrow> 'p fsm_error + ('p, 'h) machine" where
  "must r = (case fst r of None \<Rightarrow> Inr (snd r) | Some e \<Rightarrow> Inl e)"

section \<open>Well-formed machines\<close>

definition wf_machine :: "'p \<Rightarrow> ('p, 'h) machine \<Rightarrow> bool" where
  "wf_machine zero m \<longleftrightarrow>
     distinct (phases m) \<and> zero \<notin> set (phases m) \<and> zero \<notin> set (m_terminalSet m) \<and>
     wf_map (m_allowedNext m) \<and> fst ` set (m_allowedNext m) \<subseteq> set (phases m) \<and>
     (m_initialAllowedNext m \<noteq> None \<longrightarrow> m_initialHandler m \<noteq> None)"

lemma wf_new_machine: "wf_machine zero new_machine"
  by (simp add: wf_machine_def new_machine_def phases_def)

lemma map_of_transitions_None_iff:
  "map_of (m_transitions m) p = None \<longleftrightarrow> p \<notin> set (phases m)"
  by (simp add: phases_def map_of_eq_None_iff)

lemma wf_register_transition:
  "wf_machine zero m \<Longrightarrow> wf_machine zero (snd (register_transition zero t m))"
  by (auto simp: wf_machine_def register_transition_def Let_def phases_def map_of_eq_None_iff
        wf_map_update dom_update split: option.splits)

lemma wf_insert_terminal:
  "wf_machine zero m \<Longrightarrow> p \<noteq> zero \<Longrightarrow>
   wf_machine zero (m\<lparr>m_terminalSet := List.insert p (m_terminalSet m)\<rparr>)"
  by (auto simp: wf_machine_def phases_def)

lemma wf_register_terminal:
  "wf_machine zero m \<Longrightarrow> wf_machine zero (snd (register_terminal zero ps m))"
proof (induction zero ps m rule: register_terminal.induct)
  case (2 zero p ps m)
  show ?case
  proof (cases "p = zero \<or> map_of (m_transitions m) p \<noteq> None")
    case True
    with 2 show ?thesis by auto
  next
    case False
    with 2 show ?thesis by (simp add: wf_insert_terminal)
  qed
qed simp

lemma wf_register_initial:
  "wf_machine zero m \<Longrightarrow> wf_machine zero (snd (register_initial h ns m))"
  by (auto simp: wf_machine_def register_initial_def Let_def phases_def split: option.splits)


section \<open>The machine as a registry of handlers\<close>

definition machine_reg :: "'p \<Rightarrow> 'p \<Rightarrow> 'h \<Rightarrow> ('p, 'h) machine \<Rightarrow> ('p, 'h) machine option" where
  "machine_reg zero p h m =
     (case register zero p (Some h) m of (None, m') \<Rightarrow> Some m' | (Some e, _) \<Rightarrow> None)"

definition machine_lookup :: "('p, 'h) machine \<Rightarrow> 'p \<Rightarrow> 'h option" where
  "machine_lookup m p = map_of (m_transitions m) p"

interpretation phase_table: keyed_registry machine_lookup "machine_reg zero" "\<lambda>p h. p \<noteq> zero"
  by unfold_locales
    (auto simp: machine_reg_def machine_lookup_def register_def register_transition_def Let_def
      map_add_def split: if_splits option.splits)

section \<open>What the machine promises its controllers\<close>

lemma validate_transition_None_iff:
  "validate_transition zero m from to = None \<longleftrightarrow>
     from = to \<or> to \<in> set (m_terminalSet m) \<or>
     (case (if from = zero then m_initialAllowedNext m else map_of (m_allowedNext m) from) of
        None \<Rightarrow> True | Some ns \<Rightarrow> to \<in> set ns)"
  by (auto simp: validate_transition_def split: option.splits)

lemma step_registered:
  "p \<noteq> zero \<Longrightarrow> map_of (m_transitions m) p = Some h \<Longrightarrow> step zero m noop p env = h env"
  by (simp add: step_def)

lemma step_unregistered:
  "p \<noteq> zero \<Longrightarrow> p \<notin> set (phases m) \<Longrightarrow> step zero m noop p env = noop env"
  by (simp add: step_def phases_def map_of_eq_None_iff [symmetric])

end
