(* ===== verification/Go_Strings.thy ===== *)
theory Go_Strings
  imports Kapro_Prelude "HOL-Library.Word" "HOL-Library.Code_Target_Nat"
begin

text \<open>
  The parts of Go's \<^verbatim>\<open>strings\<close>, \<^verbatim>\<open>strconv\<close>, \<^verbatim>\<open>fmt\<close>, \<^verbatim>\<open>sort\<close> and \<^verbatim>\<open>hash/fnv\<close> packages that the
  controllers use. A Go string is a list of bytes (\<^typ>\<open>char list\<close>); \<open>sort.Strings\<close> orders
  strings bytewise, which is the lexicographic order of \<^verbatim>\<open>List_Lexorder\<close> over \<^verbatim>\<open>Char_ord\<close>.
\<close>

section \<open>Numbers as text\<close>

fun string_of_nat :: "nat \<Rightarrow> string" where
  "string_of_nat n =
     (if n < 10 then [char_of (48 + n)] else string_of_nat (n div 10) @ [char_of (48 + n mod 10)])"

declare string_of_nat.simps [simp del]

definition itoa :: "int \<Rightarrow> string" where
  "itoa i = (if i < 0 then CHR ''-'' # string_of_nat (nat (- i)) else string_of_nat (nat i))"

definition hex_digit :: "nat \<Rightarrow> char" where
  "hex_digit n = char_of (if n < 10 then 48 + n else 87 + n)"

text \<open>The verb \<^verbatim>\<open>%0wx\<close> on a value below \<open>16 ^ w\<close>: exactly \<open>w\<close> lower-case hexadecimal digits.\<close>

fun hex_pad :: "nat \<Rightarrow> nat \<Rightarrow> string" where
  "hex_pad 0 n = []"
| "hex_pad (Suc w) n = hex_pad w (n div 16) @ [hex_digit (n mod 16)]"

text \<open>
  The verb \<^verbatim>\<open>%q\<close>. Printable ASCII stands for itself, the quote, the backslash and the
  control characters are escaped; bytes of multi-byte runes are kept as they are.
\<close>

definition quote_char :: "char \<Rightarrow> string" where
  "quote_char c =
     (let n = (of_char c :: nat)
      in if n = 34 \<or> n = 92 then [char_of (92::nat), c]
         else if n = 7 then [char_of (92::nat), CHR ''a''] else if n = 8 then [char_of (92::nat), CHR ''b'']
         else if n = 9 then [char_of (92::nat), CHR ''t''] else if n = 10 then [char_of (92::nat), CHR ''n'']
         else if n = 11 then [char_of (92::nat), CHR ''v''] else if n = 12 then [char_of (92::nat), CHR ''f'']
         else if n = 13 then [char_of (92::nat), CHR ''r'']
         else if n < 32 \<or> n = 127 then [char_of (92::nat), CHR ''x''] @ hex_pad 2 n
         else [c])"

definition go_quote :: "string \<Rightarrow> string" where
  "go_quote s = [char_of (34::nat)] @ concat (map quote_char s) @ [char_of (34::nat)]"

section \<open>Prefixes\<close>

fun has_prefix :: "string \<Rightarrow> string \<Rightarrow> bool" where
  "has_prefix s [] = True"
| "has_prefix [] (p # ps) = False"
| "has_prefix (c # cs) (p # ps) = (c = p \<and> has_prefix cs ps)"

definition trim_prefix :: "string \<Rightarrow> string \<Rightarrow> string" where
  "trim_prefix s p = (if has_prefix s p then drop (length p) s else s)"

lemma has_prefix_iff: "has_prefix s p \<longleftrightarrow> (\<exists>t. s = p @ t)"
  by (induction s p rule: has_prefix.induct) auto

lemma trim_prefix_append [simp]: "trim_prefix (p @ t) p = t"
  by (simp add: trim_prefix_def has_prefix_iff)

section \<open>Sorting\<close>

text \<open>\<open>sort.Strings\<close>\<close>

definition sort_strings :: "string list \<Rightarrow> string list" where
  "sort_strings xs = sort xs"

section \<open>FNV-1a, 32 bit\<close>

unbundle bit_operations_syntax

definition fnv32a :: "string \<Rightarrow> 32 word" where
  "fnv32a s = fold (\<lambda>c h. (h XOR of_nat (of_char c)) * 16777619) s 2166136261"

lemma length_hex_pad [simp]: "length (hex_pad w n) = w"
  by (induction w n rule: hex_pad.induct) simp_all

end
