(* ===== verification/Go_Time.thy ===== *)
theory Go_Time
  imports Go_Strings
begin

text \<open>
  The parts of Go's \<^verbatim>\<open>time\<close> package that the controllers use. A \<^verbatim>\<open>time.Duration\<close> is an integer
  number of nanoseconds, an instant is an integer number of nanoseconds since the Unix
  epoch. \<open>parse_duration\<close> and \<open>duration_string\<close> are \<^verbatim>\<open>time.ParseDuration\<close> and
  \<^verbatim>\<open>Duration.String\<close>; \<open>format_rfc3339\<close> and \<open>parse_rfc3339\<close> are \<^verbatim>\<open>UTC().Format\<close> and
  \<^verbatim>\<open>time.Parse\<close> at the layout \<^verbatim>\<open>time.RFC3339\<close>. A failed parse is \<open>None\<close>. The fractional part of a
  duration is scaled exactly, where Go multiplies in float64.
\<close>

section \<open>Durations\<close>

abbreviation (input) microsecond :: int where "microsecond \<equiv> 1000"
abbreviation (input) millisecond :: int where "millisecond \<equiv> 1000000"

definition second :: int where "second = 1000000000"
definition minute :: int where "minute = 60 * second"
definition hour :: int where "hour = 60 * minute"

text \<open>\<^verbatim>\<open>Time.Sub\<close> saturates at the bounds of a 64-bit duration; the subtraction of durations wraps.\<close>

definition go_int64 :: "int \<Rightarrow> int" where
  "go_int64 n = signed_take_bit 63 n"

definition time_sub :: "int \<Rightarrow> int \<Rightarrow> int" where
  "time_sub t u = max (- (2 ^ 63)) (min (2 ^ 63 - 1) (t - u))"

lemma go_int64_id: "- (2 ^ 63) \<le> n \<Longrightarrow> n < 2 ^ 63 \<Longrightarrow> go_int64 n = n"
  by (simp add: go_int64_def signed_take_bit_int_eq_self_iff)

lemmas duration_units = second_def minute_def hour_def

definition is_digit :: "char \<Rightarrow> bool" where
  "is_digit c \<longleftrightarrow> 48 \<le> (of_char c :: nat) \<and> (of_char c :: nat) \<le> 57"

definition digit_val :: "char \<Rightarrow> nat" where
  "digit_val c = of_char c - 48"

definition digits_val :: "string \<Rightarrow> nat" where
  "digits_val ds = fold (\<lambda>c x. 10 * x + digit_val c) ds 0"

definition max_u63 :: nat where "max_u63 = 9223372036854775808"

text \<open>
  The fraction digits: \<open>(value, scale)\<close>. Digits that would overflow are skipped, as
  \<^verbatim>\<open>leadingFraction\<close> does.
\<close>

fun fraction_val :: "bool \<Rightarrow> nat \<Rightarrow> nat \<Rightarrow> string \<Rightarrow> nat \<times> nat" where
  "fraction_val overflow x scale [] = (x, scale)"
| "fraction_val overflow x scale (c # cs) =
     (if overflow \<or> x > (max_u63 - 1) div 10 \<or> 10 * x + digit_val c > max_u63
      then fraction_val True x scale cs
      else fraction_val False (10 * x + digit_val c) (10 * scale) cs)"

definition unit_val :: "string \<Rightarrow> nat option" where
  "unit_val u =
     (if u = ''ns'' then Some 1
      else if u = ''us'' \<or> u = [CHR 0xC2, CHR 0xB5, CHR ''s''] \<or> u = [CHR 0xCE, CHR 0xBC, CHR ''s'']
      then Some 1000
      else if u = ''ms'' then Some 1000000
      else if u = ''s'' then Some 1000000000
      else if u = ''m'' then Some 60000000000
      else if u = ''h'' then Some 3600000000000
      else None)"

definition in_unit :: "char \<Rightarrow> bool" where
  "in_unit c \<longleftrightarrow> \<not> (c = CHR ''.'' \<or> is_digit c)"

text \<open>One segment \<^verbatim>\<open>[0-9]*(.[0-9]*)?[a-z]+\<close>: its nanoseconds and the rest of the text.\<close>

definition duration_segment :: "string \<Rightarrow> (nat \<times> string) option" where
  "duration_segment s =
     (let ip = takeWhile is_digit s; s1 = dropWhile is_digit s;
          dot = (s1 \<noteq> [] \<and> hd s1 = CHR ''.'');
          fp = (if dot then takeWhile is_digit (tl s1) else []);
          s2 = (if dot then dropWhile is_digit (tl s1) else s1);
          u = takeWhile in_unit s2; s3 = dropWhile in_unit s2;
          (f, scale) = fraction_val False 0 1 fp
      in if ip = [] \<and> fp = [] then None
         else if digits_val ip > max_u63 then None
         else if u = [] then None
         else case unit_val u of
           None \<Rightarrow> None
         | Some unit \<Rightarrow>
             (if digits_val ip > max_u63 div unit then None
              else let v = digits_val ip * unit + (if f > 0 then f * unit div scale else 0)
                   in if v > max_u63 then None else Some (v, s3)))"

lemma length_dropWhile_less: "takeWhile P xs \<noteq> [] \<Longrightarrow> length (dropWhile P xs) < length xs"
  by (cases xs) (auto simp: length_dropWhile_le less_Suc_eq_le split: if_splits)

lemma duration_segment_shorter: "duration_segment s = Some (v, s') \<Longrightarrow> length s' < length s"
proof -
  assume a: "duration_segment s = Some (v, s')"
  let ?s1 = "dropWhile is_digit s"
  let ?s2 = "if ?s1 \<noteq> [] \<and> hd ?s1 = CHR ''.'' then dropWhile is_digit (tl ?s1) else ?s1"
  have s': "s' = dropWhile in_unit ?s2" and u: "takeWhile in_unit ?s2 \<noteq> []"
    using a by (auto simp: duration_segment_def Let_def split: prod.splits option.splits if_splits)
  have "length ?s2 \<le> length ?s1"
    using length_dropWhile_le [of is_digit "tl ?s1"] by auto
  also have "\<dots> \<le> length s" by (rule length_dropWhile_le)
  finally show ?thesis
    using length_dropWhile_less [OF u] s' by simp
qed

function duration_loop :: "nat \<Rightarrow> string \<Rightarrow> nat option" where
  "duration_loop d s =
     (if s = [] then Some d
      else case duration_segment s of
        None \<Rightarrow> None
      | Some (v, s') \<Rightarrow> (if d + v > max_u63 then None else duration_loop (d + v) s'))"
  by pat_completeness auto
termination
  by (relation "measure (\<lambda>(d, s). length s)") (auto dest: duration_segment_shorter)

declare duration_loop.simps [simp del]

definition parse_duration :: "string \<Rightarrow> int option" where
  "parse_duration s0 =
     (let neg = (s0 \<noteq> [] \<and> hd s0 = CHR ''-'');
          s = (if s0 \<noteq> [] \<and> (hd s0 = CHR ''-'' \<or> hd s0 = CHR ''+'') then tl s0 else s0)
      in if s = ''0'' then Some 0
         else if s = [] then None
         else case duration_loop 0 s of
           None \<Rightarrow> None
         | Some d \<Rightarrow> (if neg then Some (- int d)
                     else if d > max_u63 - 1 then None else Some (int d)))"

subsection \<open>Printing durations\<close>

text \<open>\<^verbatim>\<open>fmtFrac\<close>: the lowest \<open>prec\<close> digits as a fraction without trailing zeros, and the rest.\<close>

fun fmt_frac :: "bool \<Rightarrow> nat \<Rightarrow> nat \<Rightarrow> string \<Rightarrow> string \<times> nat" where
  "fmt_frac print 0 v acc = ((if print then CHR ''.'' # acc else acc), v)"
| "fmt_frac print (Suc prec) v acc =
     (let p = (print \<or> v mod 10 \<noteq> 0)
      in fmt_frac p prec (v div 10) (if p then char_of (48 + v mod 10) # acc else acc))"

definition duration_string_nat :: "nat \<Rightarrow> string" where
  "duration_string_nat u =
     (if u = 0 then ''0s''
      else if u < 1000 then string_of_nat u @ ''ns''
      else if u < 1000000 then
        (let (fr, v) = fmt_frac False 3 u [] in string_of_nat v @ fr @ [CHR 0xC2, CHR 0xB5, CHR ''s''])
      else if u < 1000000000 then
        (let (fr, v) = fmt_frac False 6 u [] in string_of_nat v @ fr @ ''ms'')
      else
        (let (fr, secs) = fmt_frac False 9 u []; mins = secs div 60; hrs = mins div 60
         in (if hrs > 0 then string_of_nat hrs @ ''h'' else []) @
            (if mins > 0 then string_of_nat (mins mod 60) @ ''m'' else []) @
            string_of_nat (secs mod 60) @ fr @ ''s''))"

definition duration_string :: "int \<Rightarrow> string" where
  "duration_string d =
     (if d < 0 then CHR ''-'' # duration_string_nat (nat (- d)) else duration_string_nat (nat d))"

text \<open>\<^verbatim>\<open>Duration.Round\<close>: to the nearest multiple, halves away from zero.\<close>

definition duration_round :: "int \<Rightarrow> int \<Rightarrow> int" where
  "duration_round d m =
     (let a = \<bar>d\<bar>; r = a mod m in sgn d * (if 2 * r < m then a - r else a - r + m))"

section \<open>Calendar\<close>

text \<open>Days before the first of January of year \<open>y\<close>, counted from the year 0.\<close>

definition days_before_year :: "nat \<Rightarrow> nat" where
  "days_before_year y = 365 * y + (y + 3) div 4 + (y + 399) div 400 - (y + 99) div 100"

definition is_leap :: "nat \<Rightarrow> bool" where
  "is_leap y \<longleftrightarrow> y mod 4 = 0 \<and> (y mod 100 \<noteq> 0 \<or> y mod 400 = 0)"

definition month_lengths :: "nat \<Rightarrow> nat list" where
  "month_lengths y = [31, if is_leap y then 29 else 28, 31, 30, 31, 30, 31, 31, 30, 31, 30, 31]"

lemma days_before_year_lower: "365 * y \<le> days_before_year y"
  unfolding days_before_year_def by linarith

lemma days_before_year_upper: "days_before_year y \<le> 366 * y"
proof -
  have "(y + 399) div 400 \<le> (y + 99) div 100" "(y + 3) div 4 \<le> y" by linarith+
  then show ?thesis unfolding days_before_year_def by linarith
qed

lemma ceiling_div_Suc:
  "Suc (y + k) div Suc k = (y + k) div Suc k + (if y mod Suc k = 0 then 1 else 0)"
proof -
  have "Suc (y + k) mod Suc k = y mod Suc k"
    using mod_add_self2 [of y "Suc k"] by simp
  then show ?thesis by (simp add: div_Suc)
qed

lemma days_before_year_Suc:
  "days_before_year (Suc y) = days_before_year y + sum_list (month_lengths y)"
proof -
  have sub: "(z + 99) div 100 \<le> 365 * z + (z + 3) div 4 + (z + 399) div 400" for z :: nat
    by linarith
  have ceil: "(Suc y + 3) div 4 = (y + 3) div 4 + (if y mod 4 = 0 then 1 else 0)"
    "(Suc y + 99) div 100 = (y + 99) div 100 + (if y mod 100 = 0 then 1 else 0)"
    "(Suc y + 399) div 400 = (y + 399) div 400 + (if y mod 400 = 0 then 1 else 0)"
    using ceiling_div_Suc [of y 3] ceiling_div_Suc [of y 99] ceiling_div_Suc [of y 399]
    by simp_all
  have leap: "(if y mod 4 = 0 then 1 else 0) + (if y mod 400 = 0 then 1 else 0) =
      (if is_leap y then 1 else 0) + (if y mod 100 = 0 then 1 else (0::nat))"
    using dvd_trans [of 4 100 y] dvd_trans [of 100 400 y]
    by (auto simp: is_leap_def mod_eq_0_iff_dvd)
  have months: "sum_list (month_lengths y) = 365 + (if is_leap y then 1 else 0)"
    by (simp add: month_lengths_def)
  have arith: "365 * Suc y + (a + p) + (c + r) - (b + q) = 365 * y + a + c - b + (365 + l)"
    if "b \<le> 365 * y + a + c" "p + r = l + q" for a b c p q r l :: nat
    using that by presburger
  show ?thesis
    unfolding days_before_year_def ceil months by (rule arith [OF sub leap])
qed

function year_from :: "nat \<Rightarrow> nat \<Rightarrow> nat" where
  "year_from y d = (if days_before_year (y + 1) \<le> d then year_from (y + 1) d else y)"
  by pat_completeness auto
termination
proof (relation "measure (\<lambda>(y, d). d - y)", goal_cases)
  case (2 y d)
  then show ?case using days_before_year_lower [of "y + 1"] by simp
qed simp

declare year_from.simps [simp del]

definition year_of_day :: "nat \<Rightarrow> nat" where
  "year_of_day d = year_from (d div 366) d"

lemma year_from_bounds:
  "days_before_year y \<le> d \<Longrightarrow>
   days_before_year (year_from y d) \<le> d \<and> d < days_before_year (Suc (year_from y d))"
  by (induction y d rule: year_from.induct) (subst (1 2) year_from.simps, auto)

lemma year_of_day_bounds:
  "days_before_year (year_of_day d) \<le> d" "d < days_before_year (Suc (year_of_day d))"
proof -
  have "366 * (d div 366) \<le> d" by simp
  with days_before_year_upper [of "d div 366"] have "days_before_year (d div 366) \<le> d" by linarith
  from year_from_bounds [OF this]
  show "days_before_year (year_of_day d) \<le> d" "d < days_before_year (Suc (year_of_day d))"
    by (simp_all add: year_of_day_def)
qed

text \<open>The month (from 0) and the day of the month (from 0) of a day of the year.\<close>

fun month_scan :: "nat list \<Rightarrow> nat \<Rightarrow> nat \<Rightarrow> nat \<times> nat" where
  "month_scan [] m r = (m, r)"
| "month_scan (l # ls) m r = (if r < l then (m, r) else month_scan ls (Suc m) (r - l))"

lemma month_scan_sound:
  "r < sum_list ls \<Longrightarrow> month_scan ls k r = (m, d) \<Longrightarrow>
   k \<le> m \<and> m - k < length ls \<and> d < ls ! (m - k) \<and> sum_list (take (m - k) ls) + d = r"
proof (induction ls k r rule: month_scan.induct)
  case (2 l ls k r)
  show ?case
  proof (cases "r < l")
    case True
    with 2 show ?thesis by auto
  next
    case False
    with 2 have "Suc k \<le> m \<and> m - Suc k < length ls \<and> d < ls ! (m - Suc k) \<and>
      sum_list (take (m - Suc k) ls) + d = r - l" by auto
    moreover from this have "m - k = Suc (m - Suc k)" by linarith
    ultimately show ?thesis using False by auto
  qed
qed simp

text \<open>Day number (from the year 0) of a civil date, month and day counted from 1.\<close>

definition day_number :: "nat \<Rightarrow> nat \<Rightarrow> nat \<Rightarrow> nat" where
  "day_number y m d = days_before_year y + sum_list (take (m - 1) (month_lengths y)) + (d - 1)"

lemma length_month_lengths: "length (month_lengths y) = 12"
  by (simp add: month_lengths_def)

definition epoch_day :: nat where "epoch_day = 719528"

definition civil :: "nat \<Rightarrow> nat \<times> nat \<times> nat" where
  "civil n = (let y = year_of_day n; (m, d) = month_scan (month_lengths y) 0 (n - days_before_year y)
              in (y, m + 1, d + 1))"

lemma civil_sound:
  assumes "civil n = (y, m, d)"
  shows "day_number y m d = n" "1 \<le> m" "m \<le> 12" "1 \<le> d" "d \<le> month_lengths y ! (m - 1)"
proof -
  let ?y = "year_of_day n"
  obtain m0 d0 where s: "month_scan (month_lengths ?y) 0 (n - days_before_year ?y) = (m0, d0)"
    by fastforce
  have y: "y = ?y" "m = m0 + 1" "d = d0 + 1" using assms s by (auto simp: civil_def Let_def)
  have "n - days_before_year ?y < sum_list (month_lengths ?y)"
    using year_of_day_bounds [of n] by (simp add: days_before_year_Suc less_diff_conv2)
  from month_scan_sound [OF this s]
  show "day_number y m d = n" "1 \<le> m" "m \<le> 12" "1 \<le> d" "d \<le> month_lengths y ! (m - 1)"
    using year_of_day_bounds(1) [of n] y
    by (auto simp: day_number_def length_month_lengths)
qed

lemma civil_year_bound: "n < days_before_year k \<Longrightarrow> civil n = (y, m, d) \<Longrightarrow> y < k"
proof -
  assume n: "n < days_before_year k" and "civil n = (y, m, d)"
  then have y: "y = year_of_day n" by (simp add: civil_def Let_def split: prod.splits)
  have mono: "a \<le> b \<Longrightarrow> days_before_year a \<le> days_before_year b" for a b
    by (rule lift_Suc_mono_le [of days_before_year]) (simp_all add: days_before_year_Suc)
  show "y < k" using n year_of_day_bounds(1) [of n] mono [of k y] y by (cases "k \<le> y") auto
qed

section \<open>RFC 3339\<close>

definition pad2 :: "nat \<Rightarrow> string" where
  "pad2 n = [char_of (48 + n div 10 mod 10), char_of (48 + n mod 10)]"

definition pad4 :: "nat \<Rightarrow> string" where
  "pad4 n = pad2 (n div 100) @ pad2 (n mod 100)"

text \<open>
  \<^verbatim>\<open>t.UTC().Format(time.RFC3339)\<close>, for instants of the years 0 to 9999: the fraction of the
  second is not printed.
\<close>

definition format_rfc3339 :: "int \<Rightarrow> string" where
  "format_rfc3339 t =
     (let n = nat (t div (24 * hour) + int epoch_day); s = nat (t mod (24 * hour) div second);
          (y, m, d) = civil n
      in pad4 y @ ''-'' @ pad2 m @ ''-'' @ pad2 d @ ''T'' @
         pad2 (s div 3600) @ '':'' @ pad2 (s div 60 mod 60) @ '':'' @ pad2 (s mod 60) @ ''Z'')"

lemma format_rfc3339_nonempty [simp]: "format_rfc3339 t \<noteq> []"
  by (simp add: format_rfc3339_def Let_def pad4_def pad2_def split: prod.split)

text \<open>\<^verbatim>\<open>getnum\<close>: two digits, or (when not \<open>fixed\<close>) one digit if no second one follows.\<close>

definition getnum :: "bool \<Rightarrow> string \<Rightarrow> (nat \<times> string) option" where
  "getnum fixed s =
     (case s of
        [] \<Rightarrow> None
      | a # r \<Rightarrow>
          (if \<not> is_digit a then None
           else case r of
             b # r' \<Rightarrow> (if is_digit b then Some (10 * digit_val a + digit_val b, r')
                       else if fixed then None else Some (digit_val a, r))
           | [] \<Rightarrow> (if fixed then None else Some (digit_val a, r))))"

definition expect :: "char \<Rightarrow> string \<Rightarrow> string option" where
  "expect c s = (case s of [] \<Rightarrow> None | a # r \<Rightarrow> (if a = c then Some r else None))"

definition getyear :: "string \<Rightarrow> (nat \<times> string) option" where
  "getyear s =
     Option.bind (getnum True s) (\<lambda>(a, r). Option.bind (getnum True r) (\<lambda>(b, r'). Some (100 * a + b, r')))"

text \<open>An optional fraction of a second: at most nine digits count.\<close>

definition getfrac :: "string \<Rightarrow> nat \<times> string" where
  "getfrac s =
     (case s of
        a # b # r \<Rightarrow>
          (if (a = CHR ''.'' \<or> a = CHR '','') \<and> is_digit b
           then let ds = takeWhile is_digit (b # r); used = take 9 ds
                in (digits_val used * 10 ^ (9 - length used), dropWhile is_digit (b # r))
           else (0, s))
      | _ \<Rightarrow> (0, s))"

text \<open>\<^verbatim>\<open>Z07:00\<close>: the offset in seconds.\<close>

definition getzone :: "string \<Rightarrow> (int \<times> string) option" where
  "getzone s =
     (case s of
        [] \<Rightarrow> None
      | c # r \<Rightarrow>
          (if c = CHR ''Z'' then Some (0, r)
           else Option.bind (getnum True r) (\<lambda>(hh, r1).
                Option.bind (expect (CHR '':'') r1) (\<lambda>r2.
                Option.bind (getnum True r2) (\<lambda>(mm, r3).
                  if hh > 24 \<or> mm > 60 then None
                  else if c = CHR ''+'' then Some (int (hh * 3600 + mm * 60), r3)
                  else if c = CHR ''-'' then Some (- int (hh * 3600 + mm * 60), r3)
                  else None)))))"

definition instant_of :: "nat \<Rightarrow> nat \<Rightarrow> nat \<Rightarrow> nat \<Rightarrow> nat \<Rightarrow> nat \<Rightarrow> nat \<Rightarrow> int \<Rightarrow> int" where
  "instant_of y m d hh mm ss ns off =
     (int (day_number y m d) - int epoch_day) * (24 * hour) +
     (int (hh * 3600 + mm * 60 + ss) - off) * second + int ns"

definition parse_rfc3339 :: "string \<Rightarrow> int option" where
  "parse_rfc3339 s0 =
     Option.bind (getyear s0) (\<lambda>(y, s1). Option.bind (expect (CHR ''-'') s1) (\<lambda>s2.
     Option.bind (getnum True s2) (\<lambda>(m, s3). Option.bind (expect (CHR ''-'') s3) (\<lambda>s4.
     Option.bind (getnum True s4) (\<lambda>(d, s5). Option.bind (expect (CHR ''T'') s5) (\<lambda>s6.
     Option.bind (getnum False s6) (\<lambda>(hh, s7). Option.bind (expect (CHR '':'') s7) (\<lambda>s8.
     Option.bind (getnum True s8) (\<lambda>(mm, s9). Option.bind (expect (CHR '':'') s9) (\<lambda>s10.
     Option.bind (getnum True s10) (\<lambda>(ss, s11).
       let (ns, s12) = getfrac s11
       in Option.bind (getzone s12) (\<lambda>(off, s13).
            if 1 \<le> m \<and> m \<le> 12 \<and> hh < 24 \<and> mm < 60 \<and> ss < 60 \<and>
               1 \<le> d \<and> d \<le> month_lengths y ! (m - 1) \<and> s13 = []
            then Some (instant_of y m d hh mm ss ns off) else None))))))))))))"

subsection \<open>What is printed parses back\<close>

lemma of_char_digit: "n < 10 \<Longrightarrow> (of_char (char_of (48 + n) :: char) :: nat) = 48 + n"
  by (simp add: of_char_of)

lemma digit_char [simp]:
  "is_digit (char_of (48 + n mod 10))" "digit_val (char_of (48 + n mod 10)) = n mod 10" for n :: nat
  using of_char_digit [of "n mod 10"] by (simp_all add: is_digit_def digit_val_def)

lemma getnum_pad2 [simp]: "n < 100 \<Longrightarrow> getnum fixed (pad2 n @ r) = Some (n, r)"
proof -
  assume "n < 100"
  then have "n div 10 mod 10 = n div 10" by simp
  then have "10 * (n div 10 mod 10) + n mod 10 = n" by simp
  then show ?thesis by (simp only: getnum_def pad2_def append_Cons append_Nil list.case digit_char if_True not_True_eq_False if_False)
qed

lemma getyear_pad4 [simp]: "n < 10000 \<Longrightarrow> getyear (pad4 n @ r) = Some (n, r)"
  by (simp add: getyear_def pad4_def)

lemma expect_Cons [simp]: "expect c (c # r) = Some r"
  by (simp add: expect_def)

lemma getfrac_Z [simp]: "getfrac [CHR ''Z''] = (0, [CHR ''Z''])"
  by (simp add: getfrac_def)

lemma getzone_Z [simp]: "getzone [CHR ''Z''] = Some (0, [])"
  by (simp add: getzone_def)

definition printable_instant :: "int \<Rightarrow> bool" where
  "printable_instant t \<longleftrightarrow>
     - int epoch_day * (24 * hour) \<le> t \<and> t < (int (days_before_year 10000) - int epoch_day) * (24 * hour)"

lemma month_length_le: "i < 12 \<Longrightarrow> month_lengths y ! i \<le> 31"
  by (auto simp: month_lengths_def nth_Cons split: nat.splits)

lemma second_of_day_split:
  fixes s :: nat
  shows "s div 3600 * 3600 + s div 60 mod 60 * 60 + s mod 60 = s"
proof -
  have "s div 60 div 60 * 60 + s div 60 mod 60 = s div 60" "s div 60 * 60 + s mod 60 = s"
    by (rule div_mult_mod_eq)+
  moreover have "s div 3600 = s div 60 div 60" by (simp add: div_mult2_eq [symmetric])
  ultimately show ?thesis by linarith
qed

lemma int_div_bounds:
  fixes k :: int
  assumes k: "0 < k"
  shows "a * k \<le> t \<Longrightarrow> a \<le> t div k" and "t < b * k \<Longrightarrow> t div k < b"
proof -
  show "a * k \<le> t \<Longrightarrow> a \<le> t div k" using zdiv_mono1 [OF _ k, of "a * k" t] k by simp
  have "b \<le> t div k \<Longrightarrow> b * k \<le> t"
    using mult_right_mono [of b "t div k" k] k div_mult_mod_eq [of t k] pos_mod_sign [OF k, of t]
    by linarith
  then show "t < b * k \<Longrightarrow> t div k < b" by (meson linorder_not_less)
qed

lemma parse_format_rfc3339:
  assumes t: "printable_instant t"
  shows "parse_rfc3339 (format_rfc3339 t) = Some (t - t mod second)"
proof -
  define n where "n = nat (t div (24 * hour) + int epoch_day)"
  define s where "s = nat (t mod (24 * hour) div second)"
  obtain y m d where c: "civil n = (y, m, d)" by (cases "civil n") auto
  note civ = civil_sound [OF c]
  have pos: "0 < 24 * hour" by (simp add: duration_units)
  have "- int epoch_day \<le> t div (24 * hour)" "t div (24 * hour) < int (days_before_year 10000) - int epoch_day"
    using t int_div_bounds [OF pos] unfolding printable_instant_def by blast+
  then have n_int: "int n = t div (24 * hour) + int epoch_day" and "n < days_before_year 10000"
    by (simp_all add: n_def)
  from civil_year_bound [OF this(2) c] have y: "y < 10000" .
  have s: "int s = t mod (24 * hour) div second" "s < 86400"
    by (simp_all add: s_def duration_units)
  have d: "d < 100" using civ(2,3,5) month_length_le [of "m - 1" y] by linarith
  have "parse_rfc3339 (format_rfc3339 t) =
      Some (instant_of y m d (s div 3600) (s div 60 mod 60) (s mod 60) 0 0)"
    using civ y d s(2)
    by (simp add: parse_rfc3339_def format_rfc3339_def Let_def c n_def [symmetric] s_def [symmetric])
  also have "instant_of y m d (s div 3600) (s div 60 mod 60) (s mod 60) 0 0 =
      t div (24 * hour) * (24 * hour) + int s * second"
    by (simp only: instant_of_def civ(1) n_int second_of_day_split) simp
  also have "\<dots> = t - t mod second"
  proof -
    have "t mod (24 * hour) div second * second = t mod (24 * hour) - t mod second"
      by (simp add: minus_mod_eq_div_mult [symmetric] mod_mod_cancel duration_units)
    then show ?thesis unfolding s(1) by (simp add: minus_mod_eq_div_mult [symmetric])
  qed
  finally show ?thesis .
qed

end
