(* ===== verification/Kapro_Types.thy ===== *)
theory Kapro_Types
  imports Go_Time
begin

text \<open>
  The API types of \<^verbatim>\<open>api/kapro/v1alpha1\<close> and \<^verbatim>\<open>api/kaproruntime/v1alpha1\<close> that the rollout
  controllers read and write. A Go struct is a record whose field names are the Go names
  behind a short prefix; a pointer is an \<open>option\<close>; a string enumeration is a datatype with one
  constructor per declared constant, one for the empty string where the code tests for it, and
  one for any other text. Go's \<^verbatim>\<open>int\<close>, \<^verbatim>\<open>int32\<close> and \<^verbatim>\<open>int64\<close> fields are integers; a \<^verbatim>\<open>float64\<close> is
  carried as its 64-bit pattern, since the modelled code only copies and prints it.
\<close>

section \<open>Kubernetes object metadata\<close>

text \<open>An instant is in nanoseconds since the Unix epoch; Go's zero time is the start of year one.\<close>

definition go_zero_time :: int where "go_zero_time = - 62135596800 * second"

definition is_zero_time :: "int \<Rightarrow> bool" where "is_zero_time t \<longleftrightarrow> t = go_zero_time"

text \<open>Go's \<^verbatim>\<open>int32\<close> keeps the low 32 bits of a result.\<close>

definition go_int32 :: "int \<Rightarrow> int" where
  "go_int32 n = signed_take_bit 31 n"

lemma go_int32_id: "- (2 ^ 31) \<le> n \<Longrightarrow> n < 2 ^ 31 \<Longrightarrow> go_int32 n = n"
  by (simp add: go_int32_def signed_take_bit_int_eq_self_iff)

record owner_reference =
  orf_APIVersion :: string
  orf_Kind :: string
  orf_Name :: string
  orf_UID :: string
  orf_Controller :: "bool option"

record object_meta =
  om_Name :: string
  om_Namespace :: string
  om_UID :: string
  om_Generation :: int
  om_Labels :: smap
  om_Annotations :: smap
  om_OwnerReferences :: "owner_reference list"
  om_Finalizers :: "string list"
  om_DeletionTimestamp :: "int option"
  om_CreationTimestamp :: int

record condition =
  c_Type :: string
  c_Status :: string
  c_Reason :: string
  c_Message :: string
  c_ObservedGeneration :: int
  c_LastTransitionTime :: int

record object_reference =
  or_Kind :: string
  or_Namespace :: string
  or_Name :: string
  or_UID :: string
  or_APIVersion :: string

record selector_requirement =
  sr_Key :: string
  sr_Operator :: string
  sr_Values :: "string list"

record label_selector =
  ls_MatchLabels :: smap
  ls_MatchExpressions :: "selector_requirement list"

record ctrl_result =
  Requeue :: bool
  RequeueAfter :: int

definition no_requeue :: ctrl_result where
  "no_requeue = \<lparr>Requeue = False, RequeueAfter = 0\<rparr>"

definition requeue_now :: ctrl_result where
  "requeue_now = \<lparr>Requeue = True, RequeueAfter = 0\<rparr>"

definition requeue_after :: "int \<Rightarrow> ctrl_result" where
  "requeue_after d = \<lparr>Requeue = False, RequeueAfter = d\<rparr>"

lemmas ctrl_result_defs = no_requeue_def requeue_now_def requeue_after_def

section \<open>Phases\<close>

datatype target_phase =
    PhaseNone | PhasePending | PhaseVerification | PhaseHealthCheck | PhaseSoaking
  | PhaseMetricsCheck | PhaseWaitingApproval | PhaseApplying | PhaseConverged | PhaseFailed
  | PhaseSkipped | PhaseOther string

fun target_phase_string :: "target_phase \<Rightarrow> string" where
  "target_phase_string PhaseNone = []"
| "target_phase_string PhasePending = ''Pending''"
| "target_phase_string PhaseVerification = ''Verification''"
| "target_phase_string PhaseHealthCheck = ''HealthCheck''"
| "target_phase_string PhaseSoaking = ''Soaking''"
| "target_phase_string PhaseMetricsCheck = ''MetricsCheck''"
| "target_phase_string PhaseWaitingApproval = ''WaitingApproval''"
| "target_phase_string PhaseApplying = ''Applying''"
| "target_phase_string PhaseConverged = ''Converged''"
| "target_phase_string PhaseFailed = ''Failed''"
| "target_phase_string PhaseSkipped = ''Skipped''"
| "target_phase_string (PhaseOther s) = s"

definition target_terminal :: "target_phase \<Rightarrow> bool" where
  "target_terminal p \<longleftrightarrow> p = PhaseConverged \<or> p = PhaseFailed \<or> p = PhaseSkipped"

lemma target_terminal_simps [simp, phase_simps]:
  "target_terminal PhaseConverged" "target_terminal PhaseFailed" "target_terminal PhaseSkipped"
  "\<not> target_terminal PhaseNone" "\<not> target_terminal PhasePending" "\<not> target_terminal PhaseVerification"
  "\<not> target_terminal PhaseHealthCheck" "\<not> target_terminal PhaseSoaking"
  "\<not> target_terminal PhaseMetricsCheck" "\<not> target_terminal PhaseWaitingApproval"
  "\<not> target_terminal PhaseApplying" "\<not> target_terminal (PhaseOther s)"
  by (simp_all add: target_terminal_def)

datatype gate_phase =
    GateNone | GatePending | GateRunning | GatePassed | GateFailed | GateInconclusive | GateOther string

fun gate_phase_string :: "gate_phase \<Rightarrow> string" where
  "gate_phase_string GateNone = []"
| "gate_phase_string GatePending = ''Pending''"
| "gate_phase_string GateRunning = ''Running''"
| "gate_phase_string GatePassed = ''Passed''"
| "gate_phase_string GateFailed = ''Failed''"
| "gate_phase_string GateInconclusive = ''Inconclusive''"
| "gate_phase_string (GateOther s) = s"

datatype run_phase =
    RunNone | RunPending | RunProgressing | RunComplete | RunFailed | RunSuperseded | RunOther string

fun run_phase_string :: "run_phase \<Rightarrow> string" where
  "run_phase_string RunNone = []"
| "run_phase_string RunPending = ''Pending''"
| "run_phase_string RunProgressing = ''Progressing''"
| "run_phase_string RunComplete = ''Complete''"
| "run_phase_string RunFailed = ''Failed''"
| "run_phase_string RunSuperseded = ''Superseded''"
| "run_phase_string (RunOther s) = s"

text \<open>\<^verbatim>\<open>PromotionRunPhase.IsTerminal\<close>\<close>

definition run_phase_is_terminal :: "run_phase \<Rightarrow> bool" where
  "run_phase_is_terminal p \<longleftrightarrow> p = RunComplete \<or> p = RunFailed \<or> p = RunSuperseded"

datatype cluster_phase =
    ClusterNone | ClusterPending | ClusterApplying | ClusterConverging | ClusterConverged
  | ClusterFailed | ClusterUnreachable | ClusterOther string

fun cluster_phase_string :: "cluster_phase \<Rightarrow> string" where
  "cluster_phase_string ClusterNone = []"
| "cluster_phase_string ClusterPending = ''Pending''"
| "cluster_phase_string ClusterApplying = ''Applying''"
| "cluster_phase_string ClusterConverging = ''Converging''"
| "cluster_phase_string ClusterConverged = ''Converged''"
| "cluster_phase_string ClusterFailed = ''Failed''"
| "cluster_phase_string ClusterUnreachable = ''Unreachable''"
| "cluster_phase_string (ClusterOther s) = s"

datatype delivery_phase =
    DeliveryNone | DeliveryPending | DeliveryPulling | DeliveryStaging | DeliveryApplying
  | DeliveryConverged | DeliveryFailed | DeliverySkipped | DeliveryOther string

fun delivery_phase_string :: "delivery_phase \<Rightarrow> string" where
  "delivery_phase_string DeliveryNone = []"
| "delivery_phase_string DeliveryPending = ''Pending''"
| "delivery_phase_string DeliveryPulling = ''Pulling''"
| "delivery_phase_string DeliveryStaging = ''Staging''"
| "delivery_phase_string DeliveryApplying = ''Applying''"
| "delivery_phase_string DeliveryConverged = ''Converged''"
| "delivery_phase_string DeliveryFailed = ''Failed''"
| "delivery_phase_string DeliverySkipped = ''Skipped''"
| "delivery_phase_string (DeliveryOther s) = s"

datatype substrate_mode = ModeNone | ModePush | ModePull | ModeOther string

fun substrate_mode_string :: "substrate_mode \<Rightarrow> string" where
  "substrate_mode_string ModeNone = []"
| "substrate_mode_string ModePush = ''push''"
| "substrate_mode_string ModePull = ''pull''"
| "substrate_mode_string (ModeOther s) = s"

datatype execution_mode =
    ExecNone | ExecHubPush | ExecSpokePull | ExecExternalPull | ExecOther string

datatype stage_failure_policy =
    OnFailureNone | OnFailureHalt | OnFailureSkip | OnFailureRollback | OnFailureOther string

datatype dependency_strategy = StrategyNone | StrategyAll | StrategyAny | StrategyOther string

section \<open>Gates\<close>

record gate_projection =
  gp_Horizon :: string
  gp_Value :: string
  gp_Reason :: string

record gate_evidence =
  ge_Type :: string
  ge_Provider :: string
  ge_AnalysisMode :: string
  ge_Comparator :: string
  ge_Query :: string
  ge_BaselineQuery :: string
  ge_BaselineHealthQuery :: string
  ge_Window :: string
  ge_Interval :: string
  ge_ObservedValue :: string
  ge_Threshold :: string
  ge_BaselineValue :: string
  ge_BaselineHealthy :: "bool option"
  ge_SampleCount :: int
  ge_Confidence :: "64 word option"
  ge_Alpha :: "64 word option"
  ge_PValue :: "64 word option"
  ge_EffectSize :: string
  ge_Score :: "64 word option"
  ge_DecisionRule :: string
  ge_Reason :: string
  ge_Projection :: "gate_projection option"

definition empty_evidence :: gate_evidence where
  "empty_evidence = \<lparr>ge_Type = [], ge_Provider = [], ge_AnalysisMode = [], ge_Comparator = [],
     ge_Query = [], ge_BaselineQuery = [], ge_BaselineHealthQuery = [], ge_Window = [],
     ge_Interval = [], ge_ObservedValue = [], ge_Threshold = [], ge_BaselineValue = [],
     ge_BaselineHealthy = None, ge_SampleCount = 0, ge_Confidence = None, ge_Alpha = None,
     ge_PValue = None, ge_EffectSize = [], ge_Score = None, ge_DecisionRule = [], ge_Reason = [],
     ge_Projection = None\<rparr>"

record gate_condition_result =
  gc_Name :: string
  gc_Phase :: gate_phase
  gc_Value :: string
  gc_Message :: string
  gc_Evidence :: "gate_evidence list"

record gate_run_status =
  gs_Name :: string
  gs_Phase :: gate_phase
  gs_Message :: string
  gs_StartedAt :: string
  gs_FinishedAt :: string
  gs_Attempts :: int
  gs_VendorRef :: "object_reference option"
  gs_Results :: "gate_condition_result list"
  gs_Evidence :: "gate_evidence list"

record gate_arg =
  ga_Name :: string
  ga_Value :: string

record job_gate_spec =
  jg_Image :: string
  jg_Command :: "string list"
  jg_Args :: "string list"
  jg_Env :: smap

record webhook_gate_spec =
  wg_URL :: string
  wg_PollInterval :: string

record gate_template_spec =
  gt_Name :: string
  gt_Type :: string
  gt_Args :: "gate_arg list"
  gt_FailurePolicy :: string
  gt_InconclusivePolicy :: string
  gt_Timeout :: string
  gt_MaxAttempts :: int
  gt_CEL :: "string option"
  gt_Job :: "job_gate_spec option"
  gt_Webhook :: "webhook_gate_spec option"
  gt_Plugin :: "string option"

record metric_analysis_spec =
  ma_Mode :: string
  ma_Comparator :: string
  ma_BaselineQuery :: string
  ma_BaselineHealthQuery :: string
  ma_MinSamples :: int
  ma_MaxSamples :: int
  ma_ConfidenceThreshold :: "64 word option"
  ma_Alpha :: "64 word option"
  ma_ScoreThreshold :: "64 word option"

record metric_gate =
  mg_Preset :: string
  mg_Provider :: string
  mg_Query :: string
  mg_Window :: string
  mg_Interval :: string
  mg_Endpoint :: string
  mg_Threshold :: "64 word option"
  mg_Analysis :: "metric_analysis_spec option"
  mg_Config :: string

text \<open>\<^verbatim>\<open>VerificationGateSpec\<close>: keyless (issuer, subject, Rekor URL) and key (name, namespace, key).\<close>

record verification_gate_spec =
  vg_Keyless :: "(string \<times> string \<times> string) option"
  vg_Key :: "(string \<times> string \<times> string) option"

record gate_spec =
  g_SoakTime :: string
  g_GateTimeout :: string
  g_HealthCheck :: bool
  g_Metrics :: "metric_gate list"
  g_Templates :: "gate_template_spec list"
  g_Verification :: "verification_gate_spec option"

record approval_config =
  ac_Required :: bool
  ac_Approvers :: "string list"

record email_notifier_spec =
  en_To :: "string list"
  en_From :: string
  en_SmtpSecretRef :: string

record notification_spec =
  ns_Type :: string
  ns_Events :: "string list"
  ns_Webhook :: "(string \<times> string) option"
  ns_Slack :: "string option"
  ns_Email :: "email_notifier_spec option"

record gate_policy_spec =
  pol_ExpressionRef :: string
  pol_Mode :: string
  pol_Gate :: gate_spec
  pol_Approval :: "approval_config option"
  pol_OnFailure :: string
  pol_Notifications :: "notification_spec list"

section \<open>Substrates and clusters\<close>

record substrate_binding_spec =
  sb_Mode :: substrate_mode
  sb_Ref :: string
  sb_SubstrateRef :: string
  sb_Parameters :: smap

definition substrate_binding_name :: "substrate_binding_spec \<Rightarrow> string" where
  "substrate_binding_name d = (if sb_Ref d \<noteq> [] then sb_Ref d else sb_SubstrateRef d)"

definition substrate_binding_registry_key :: "substrate_binding_spec \<Rightarrow> string" where
  "substrate_binding_registry_key d =
     substrate_mode_string (sb_Mode d) @ ''/'' @ substrate_binding_name d"

record substrate_implementation_spec =
  si_Kind :: string
  si_Actuator :: string

record substrate_spec =
  ss_ClassRef :: "string option"
  ss_Substrate :: "substrate_implementation_spec option"
  ss_Execution :: "execution_mode option"
  ss_PluginRef :: string
  ss_Parameters :: smap

definition substrate_kind :: "substrate_spec \<Rightarrow> string" where
  "substrate_kind s =
     (case ss_Substrate s of
        Some i \<Rightarrow> (if si_Kind i \<noteq> [] then si_Kind i
                   else case ss_ClassRef s of Some n \<Rightarrow> n | None \<Rightarrow> [])
      | None \<Rightarrow> (case ss_ClassRef s of Some n \<Rightarrow> n | None \<Rightarrow> []))"

definition substrate_actuator_name :: "substrate_spec \<Rightarrow> string" where
  "substrate_actuator_name s =
     (case ss_Substrate s of
        Some i \<Rightarrow> (if si_Actuator i \<noteq> [] then si_Actuator i else substrate_kind s)
      | None \<Rightarrow> substrate_kind s)"

definition substrate_execution_mode :: "substrate_spec \<Rightarrow> execution_mode" where
  "substrate_execution_mode s =
     (let by_kind = (if substrate_kind s = ''flux'' \<or> substrate_kind s = ''oci'' then ExecSpokePull
                     else if substrate_kind s = ''external'' then ExecExternalPull
                     else ExecHubPush)
      in case ss_Execution s of
           Some m \<Rightarrow> (if m \<noteq> ExecNone then m else by_kind)
         | None \<Rightarrow> by_kind)"

record substrate_status =
  st_ObservedGeneration :: int
  st_Ready :: bool

record substrate =
  sub_Meta :: object_meta
  sub_Spec :: substrate_spec
  sub_Status :: substrate_status

record cluster_health =
  h_AllWorkloadsReady :: bool
  h_ReadyWorkloads :: int
  h_FailedWorkloads :: int
  h_TotalWorkloads :: int
  h_Message :: string

record delivery_staging_status =
  dst_Type :: string
  dst_FailurePolicy :: string
  dst_StagedObjects :: int
  dst_StagingFailedObjects :: int
  dst_CommittedObjects :: int
  dst_CommitFailedObjects :: int
  dst_FailurePhase :: delivery_phase

record cluster_delivery_status =
  cd_Phase :: delivery_phase
  cd_DesiredVersion :: string
  cd_ObservedDigest :: string
  cd_LastAppliedAt :: "int option"
  cd_LastAttemptedAt :: "int option"
  cd_LastError :: string
  cd_Staging :: "delivery_staging_status option"
  cd_AppliedObjects :: int
  cd_Format :: string

record cluster_heartbeat_status =
  hb_ObservedAt :: "int option"
  hb_LeaseObservedAt :: "int option"
  hb_ConsecutiveMisses :: int
  hb_LastTransitionAt :: "int option"
  hb_Reason :: string

record target_topology =
  tp_Accelerator :: string

record cluster_spec =
  cs_Substrate :: substrate_binding_spec
  cs_DesiredVersion :: string
  cs_DesiredAppKey :: string
  cs_DesiredVersions :: smap
  cs_Suspend :: bool
  cs_ConsecutiveFailureThreshold :: "int option"
  cs_Bootstrap :: bool
  cs_Topology :: "target_topology option"

record cluster_status =
  cst_ObservedGeneration :: int
  cst_Phase :: cluster_phase
  cst_Conditions :: "condition list"
  cst_CurrentVersions :: smap
  cst_DeliverySystem :: string
  cst_Health :: cluster_health
  cst_Delivery :: "(string \<times> cluster_delivery_status) list"
  cst_ActivePromotionRun :: string
  cst_LastHeartbeat :: string
  cst_ControllerVersion :: string
  cst_Heartbeat :: "cluster_heartbeat_status option"
  cst_BootstrapUsed :: "bool option"

record cluster =
  cl_Meta :: object_meta
  cl_Spec :: cluster_spec
  cl_Status :: cluster_status

abbreviation cl_Name :: "cluster \<Rightarrow> string" where
  "cl_Name c \<equiv> om_Name (cl_Meta c)"

record approval =
  ap_Meta :: object_meta
  ap_PromotionRun :: string
  ap_Target :: string
  ap_Ref :: string
  ap_ApprovedBy :: string
  ap_Bypass :: bool
  ap_Comment :: string

section \<open>Targets\<close>

record substrate_object_status =
  so_APIVersion :: string
  so_Kind :: string
  so_Namespace :: string
  so_Name :: string
  so_Unit :: string
  so_DesiredVersion :: string
  so_CurrentVersion :: string
  so_SyncStatus :: string
  so_HealthStatus :: string
  so_Phase :: string
  so_Message :: string

record target_execution_state =
  te_PromotionRunRef :: string
  te_Target :: string
  te_PlanRef :: string
  te_Plan :: string
  te_Stage :: string
  te_Version :: string
  te_Gate :: "gate_policy_spec option"
  te_AppKey :: string
  te_DesiredVersions :: smap
  te_SubstrateObjects :: "substrate_object_status list"
  te_Phase :: target_phase
  te_StartedAt :: string
  te_FinishedAt :: string
  te_PhaseEnteredAt :: string
  te_Message :: string
  te_PreviousVersion :: string
  te_PreviousVersions :: smap
  te_ApprovalSentAt :: string
  te_Gates :: "gate_run_status list"
  te_Rollback :: bool
  te_Rejected :: bool
  te_RejectedBy :: string
  te_ApplyIssued :: bool
  te_MissingMCCount :: int
  te_HeartbeatStaleSince :: string
  te_HeartbeatStaleCount :: int

definition empty_target :: target_execution_state where
  "empty_target = \<lparr>te_PromotionRunRef = [], te_Target = [], te_PlanRef = [], te_Plan = [],
     te_Stage = [], te_Version = [], te_Gate = None, te_AppKey = [], te_DesiredVersions = [],
     te_SubstrateObjects = [], te_Phase = PhaseNone, te_StartedAt = [], te_FinishedAt = [],
     te_PhaseEnteredAt = [], te_Message = [], te_PreviousVersion = [], te_PreviousVersions = [],
     te_ApprovalSentAt = [], te_Gates = [], te_Rollback = False, te_Rejected = False,
     te_RejectedBy = [], te_ApplyIssued = False, te_MissingMCCount = 0,
     te_HeartbeatStaleSince = [], te_HeartbeatStaleCount = 0\<rparr>"

record target_spec =
  ts_PromotionRunRef :: string
  ts_Target :: string
  ts_PlanRef :: string
  ts_Plan :: string
  ts_Stage :: string
  ts_Version :: string
  ts_Gate :: "gate_policy_spec option"
  ts_AppKey :: string
  ts_DesiredVersions :: smap
  ts_Rollback :: bool
  ts_Cancelled :: bool
  ts_CancelledReason :: string
  ts_CancelledPhase :: target_phase

text \<open>\<^verbatim>\<open>TargetDecisionTrace\<close>: the audit trail of the decision server.\<close>

record decision_factor =
  df_Name :: string
  df_Value :: "64 word"
  df_Weight :: "64 word"
  df_Assessment :: string

record decision_condition =
  dc_Type :: string
  dc_Metric :: string
  dc_Operator :: string
  dc_Threshold :: "64 word"
  dc_Duration :: string
  dc_FailAction :: string

record human_confirmation =
  hc_ConfirmedBy :: string
  hc_ConfirmedAt :: string
  hc_Action :: string
  hc_Comment :: string

record decision_identity =
  di_Name :: string
  di_Type :: string
  di_Namespace :: string
  di_TrustLevel :: string
  di_JWTFingerprint :: string

record decision_entry =
  de_DecisionID :: string
  de_Decision :: string
  de_EffectiveDecision :: string
  de_Identity :: decision_identity
  de_Confidence :: "64 word"
  de_Reasoning :: string
  de_Factors :: "decision_factor list"
  de_Conditions :: "decision_condition list"
  de_DecidedAt :: string
  de_ExpiresAt :: string
  de_SupersededBy :: string
  de_SupersededReason :: string
  de_HumanConfirmation :: "human_confirmation option"

record human_override =
  ho_OverrideID :: string
  ho_OverriddenDecisionID :: string
  ho_Action :: string
  ho_Identity :: string
  ho_Reason :: string
  ho_OverriddenAt :: string

record target_decision_trace =
  tdt_Current :: "decision_entry option"
  tdt_History :: "decision_entry list"
  tdt_HumanOverrides :: "human_override list"

record target_status =
  tst_Exec :: target_execution_state
  tst_ObservedGeneration :: int
  tst_Conditions :: "condition list"
  tst_DecisionTrace :: "target_decision_trace option"

record target =
  tg_Meta :: object_meta
  tg_Spec :: target_spec
  tg_Status :: target_status

abbreviation tg_Name :: "target \<Rightarrow> string" where
  "tg_Name t \<equiv> om_Name (tg_Meta t)"

abbreviation tg_Phase :: "target \<Rightarrow> target_phase" where
  "tg_Phase t \<equiv> te_Phase (tst_Exec (tg_Status t))"

section \<open>Plans and runs\<close>

record stage_dependency =
  sd_Stage :: string
  sd_RequiredSoakTime :: "int option"
  sd_Strategy :: dependency_strategy

record stage_strategy_spec =
  sp_MaxParallel :: int
  sp_MaxUnavailable :: int

record stage =
  sg_Name :: string
  sg_Selector :: label_selector
  sg_DependsOn :: "stage_dependency list"
  sg_Strategy :: "stage_strategy_spec option"
  sg_Gate :: "gate_policy_spec option"
  sg_OnFailure :: stage_failure_policy

record plan =
  pl_Meta :: object_meta
  pl_MetricPresets :: "(string \<times> metric_gate) list"
  pl_Stages :: "stage list"

record plan_ref =
  pr_Name :: string
  pr_Plan :: string
  pr_DependsOn :: "string list"

record planner_result =
  plr_Target :: string
  plr_Plugin :: string
  plr_Phase :: string
  plr_Reason :: string
  plr_Message :: string

record stage_progress =
  sgp_Name :: string
  sgp_Phase :: string
  sgp_Total :: int
  sgp_Synced :: int
  sgp_Failed :: int
  sgp_Deferred :: int
  sgp_PlannerResults :: "planner_result list"
  sgp_Message :: string
  sgp_StartedAt :: string
  sgp_CompletedAt :: string

record plan_progress =
  pp_Name :: string
  pp_Plan :: string
  pp_ObservedGeneration :: int
  pp_Phase :: string
  pp_ActiveStage :: string
  pp_StageProgress :: "stage_progress list"

record promotion_run_spec =
  prs_DeliveryUnitRef :: string
  prs_FleetRef :: string
  prs_Version :: string
  prs_Versions :: smap
  prs_Plans :: "plan_ref list"
  prs_Suspended :: bool
  prs_Scope :: "string list option"
  prs_Timeout :: string

record run_report =
  rep_Phase :: run_phase
  rep_Artifact :: string
  rep_ResolvedVersion :: string
  rep_StartedAt :: string
  rep_CompletedAt :: string
  rep_Duration :: string
  rep_TotalTargets :: int
  rep_SyncedTargets :: int
  rep_FailedTargets :: int
  rep_PendingTargets :: int
  rep_RolledBackTargets :: int
  rep_TotalArtifacts :: int
  rep_DeltaArtifacts :: int
  rep_PendingApprovals :: "string list"

record run_summary =
  sum_TotalTargets :: int
  sum_SyncedTargets :: int
  sum_FailedTargets :: int
  sum_PendingTargets :: int
  sum_ConvergedAt :: string

record audit_entry =
  au_Artifact :: string
  au_PromotionRun :: string
  au_DerivedFrom :: string
  au_PromotionRunDerivedFrom :: string
  au_ChangedUnits :: "string list"
  au_Scope :: "string list"
  au_CompletedAt :: string

record promotion_run_status =
  rst_ObservedGeneration :: int
  rst_Phase :: run_phase
  rst_ResolvedVersion :: string
  rst_StartedAt :: string
  rst_CompletedAt :: string
  rst_PlanProgress :: "plan_progress list"
  rst_Summary :: "run_summary option"
  rst_Report :: run_report
  rst_AuditTrail :: "audit_entry list"
  rst_Conditions :: "condition list"

record promotion_run =
  run_Meta :: object_meta
  run_Spec :: promotion_run_spec
  run_Status :: promotion_run_status

abbreviation run_Name :: "promotion_run \<Rightarrow> string" where
  "run_Name r \<equiv> om_Name (run_Meta r)"

end
