(* ===== verification/Effects.thy ===== *)
theory Effects
  imports Kapro_Types
begin

text \<open>
  What a reconcile does to the outside: Kubernetes events, notifications
  (\<^verbatim>\<open>pkg/notification\<close>), decision traces (\<^verbatim>\<open>internal/controller/decisiontrace.go\<close>), CloudEvents,
  the counters of undeclared transitions and of gate evaluations, and the calls to an
  actuator. Each is one value of \<open>effect\<close>; a reconcile appends them to a log in program order.
  Writing a trace can fail, but the code only logs that failure, so a trace is an effect
  without a result. The second half of the theory is the interface to the Kubernetes client:
  a record of operations on an opaque state of the rest of the world, so that nothing is
  assumed about the server or about what other clients do between two calls.
\<close>

section \<open>Notifications\<close>

record notification_event =
  ne_Type :: string
  ne_Phase :: string
  ne_Version :: string
  ne_Target :: string
  ne_PromotionRun :: string
  ne_Plan :: string
  ne_Stage :: string
  ne_Message :: string
  ne_IsFailure :: bool
  ne_ApproveURL :: string
  ne_RejectURL :: string

record email_config =
  ec_To :: "string list"
  ec_From :: string
  ec_SMTPSecretRef :: string

record channel =
  ch_Type :: string
  ch_Target :: string
  ch_Events :: "string list"
  ch_Format :: string
  ch_Email :: "email_config option"

type_synonym notification_policy = "channel list"

definition channel_matches_event :: "channel \<Rightarrow> string \<Rightarrow> bool" where
  "channel_matches_event c event \<longleftrightarrow> ch_Events c = [] \<or> list_ex (\<lambda>e. e = event) (ch_Events c)"

definition merge_notification_policies :: "notification_policy list \<Rightarrow> notification_policy" where
  "merge_notification_policies policies = concat policies"

definition notification_channel_from :: "notification_spec \<Rightarrow> channel" where
  "notification_channel_from spec =
     (let ch = \<lparr>ch_Type = ns_Type spec, ch_Target = [], ch_Events = ns_Events spec, ch_Format = [],
                ch_Email = None\<rparr>
      in if ns_Type spec = ''slack'' then
           (case ns_Slack spec of Some c \<Rightarrow> ch\<lparr>ch_Target := c\<rparr> | None \<Rightarrow> ch)
         else if ns_Type spec = ''webhook'' then
           (case ns_Webhook spec of
              Some (url, format) \<Rightarrow> ch\<lparr>ch_Target := url, ch_Format := format\<rparr> | None \<Rightarrow> ch)
         else if ns_Type spec = ''email'' then
           (case ns_Email spec of
              Some e \<Rightarrow> ch\<lparr>ch_Email := Some \<lparr>ec_To = en_To e, ec_From = en_From e,
                                           ec_SMTPSecretRef = en_SmtpSecretRef e\<rparr>\<rparr>
            | None \<Rightarrow> ch)
         else ch)"

definition notification_policy_from :: "gate_policy_spec option \<Rightarrow> notification_policy" where
  "notification_policy_from policy =
     (case policy of None \<Rightarrow> [] | Some p \<Rightarrow> map notification_channel_from (pol_Notifications p))"

fun event_type_for_phase :: "target_phase \<Rightarrow> string" where
  "event_type_for_phase PhasePending = ''kapro.promotionrun.target.pending''"
| "event_type_for_phase PhaseVerification = ''kapro.promotionrun.target.verification''"
| "event_type_for_phase PhaseHealthCheck = ''kapro.promotionrun.target.health_check''"
| "event_type_for_phase PhaseSoaking = ''kapro.promotionrun.target.soaking''"
| "event_type_for_phase PhaseMetricsCheck = ''kapro.promotionrun.target.metrics_check''"
| "event_type_for_phase PhaseWaitingApproval = ''kapro.promotionrun.approval.required''"
| "event_type_for_phase PhaseApplying = ''kapro.promotionrun.target.applying''"
| "event_type_for_phase PhaseConverged = ''kapro.promotionrun.target.converged''"
| "event_type_for_phase PhaseFailed = ''kapro.promotionrun.target.failed''"
| "event_type_for_phase PhaseSkipped = ''kapro.promotionrun.target.skipped''"
| "event_type_for_phase PhaseNone = []"
| "event_type_for_phase (PhaseOther s) = ''kapro.promotionrun.target.unknown''"

section \<open>Decision traces\<close>

record trace_evidence =
  tre_Type :: string
  tre_Source :: string
  tre_Detail :: smap

record decision_trace_spec =
  dt_PromotionRun :: string
  dt_Plan :: string
  dt_Stage :: string
  dt_Target :: string
  dt_EventType :: string
  dt_Source :: string
  dt_Phase :: string
  dt_Reason :: string
  dt_Message :: string
  dt_Evidence :: "trace_evidence list"
  dt_Time :: "int option"

definition add_detail :: "string \<Rightarrow> string \<Rightarrow> smap \<Rightarrow> smap" where
  "add_detail key value detail = (if value \<noteq> [] then smap_set key value detail else detail)"

definition format_bool :: "bool \<Rightarrow> string" where
  "format_bool b = (if b then ''true'' else ''false'')"

text \<open>\<^verbatim>\<open>timeRFC3339Nano\<close> of an instant in UTC: the fraction without trailing zeros.\<close>

definition format_rfc3339_nano :: "int \<Rightarrow> string" where
  "format_rfc3339_nano t =
     butlast (format_rfc3339 t) @ fst (fmt_frac False 9 (nat (t mod second)) []) @ ''Z''"

definition target_phase_decision_evidence ::
  "target_execution_state \<Rightarrow> target_phase \<Rightarrow> target_phase \<Rightarrow> smap" where
  "target_phase_decision_evidence target fromPhase toPhase =
     (let d = add_detail ''applyIssued'' (format_bool (te_ApplyIssued target))
              (add_detail ''rollback'' (format_bool (te_Rollback target))
              (add_detail ''appKey'' (te_AppKey target)
              (add_detail ''version'' (te_Version target)
              (add_detail ''toPhase'' (target_phase_string toPhase)
              (add_detail ''fromPhase'' (target_phase_string fromPhase) [])))))
      in case te_Gate target of
           None \<Rightarrow> d | Some g \<Rightarrow> add_detail ''onFailure'' (pol_OnFailure g) d)"

definition delivery_decision_reason :: "cluster_delivery_status \<Rightarrow> string" where
  "delivery_decision_reason entry =
     (case cd_Phase entry of
        DeliveryConverged \<Rightarrow> ''DeliveryConverged''
      | DeliveryFailed \<Rightarrow> ''DeliveryFailed''
      | DeliverySkipped \<Rightarrow> ''DeliverySkipped''
      | _ \<Rightarrow> ''DeliveryProgressing'')"

definition delivery_decision_message :: "string \<Rightarrow> string \<Rightarrow> cluster_delivery_status \<Rightarrow> string" where
  "delivery_decision_message clusterName appKey entry =
     (let msg = ''cluster '' @ clusterName @ '' app '' @ appKey @ '' delivery '' @
                delivery_phase_string (cd_Phase entry)
      in if cd_LastError entry \<noteq> [] then msg @ '': '' @ cd_LastError entry else msg)"

definition delivery_decision_evidence :: "string \<Rightarrow> string \<Rightarrow> cluster_delivery_status \<Rightarrow> smap" where
  "delivery_decision_evidence appKey desiredVersion entry =
     (let d1 = add_detail ''appliedObjects'' (itoa (cd_AppliedObjects entry))
               (add_detail ''phase'' (delivery_phase_string (cd_Phase entry))
               (add_detail ''format'' (cd_Format entry)
               (add_detail ''observedDigest'' (cd_ObservedDigest entry)
               (add_detail ''reportedDesiredVersion'' (cd_DesiredVersion entry)
               (add_detail ''desiredVersion'' desiredVersion
               (add_detail ''appKey'' appKey []))))));
          d2 = (case cd_LastAttemptedAt entry of
                  None \<Rightarrow> d1 | Some t \<Rightarrow> add_detail ''lastAttemptedAt'' (format_rfc3339_nano t) d1);
          d3 = (case cd_LastAppliedAt entry of
                  None \<Rightarrow> d2 | Some t \<Rightarrow> add_detail ''lastAppliedAt'' (format_rfc3339_nano t) d2);
          d4 = add_detail ''lastError'' (cd_LastError entry) d3
      in case cd_Staging entry of
           None \<Rightarrow> d4
         | Some s \<Rightarrow>
             add_detail ''commitFailedObjects'' (itoa (dst_CommitFailedObjects s))
             (add_detail ''committedObjects'' (itoa (dst_CommittedObjects s))
             (add_detail ''stagingFailedObjects'' (itoa (dst_StagingFailedObjects s))
             (add_detail ''stagedObjects'' (itoa (dst_StagedObjects s))
             (add_detail ''stagingFailurePhase'' (delivery_phase_string (dst_FailurePhase s))
             (add_detail ''stagingFailurePolicy'' (dst_FailurePolicy s)
             (add_detail ''stagingType'' (dst_Type s) d4)))))))"

text \<open>\<open>fmt_float\<close> is \<^verbatim>\<open>fmt.Sprint\<close> of a \<^verbatim>\<open>float64\<close>.\<close>

definition trace_evidence_from_gate_evidence ::
  "(64 word \<Rightarrow> string) \<Rightarrow> gate_evidence \<Rightarrow> trace_evidence" where
  "trace_evidence_from_gate_evidence fmt_float e =
     (let d1 = add_detail ''reason'' (ge_Reason e)
               (add_detail ''decisionRule'' (ge_DecisionRule e)
               (add_detail ''sampleCount'' (itoa (ge_SampleCount e))
               (add_detail ''baselineValue'' (ge_BaselineValue e)
               (add_detail ''threshold'' (ge_Threshold e)
               (add_detail ''observedValue'' (ge_ObservedValue e)
               (add_detail ''window'' (ge_Window e)
               (add_detail ''baselineQuery'' (ge_BaselineQuery e)
               (add_detail ''query'' (ge_Query e)
               (add_detail ''comparator'' (ge_Comparator e)
               (add_detail ''analysisMode'' (ge_AnalysisMode e) []))))))))));
          d2 = (case ge_BaselineHealthy e of
                  None \<Rightarrow> d1 | Some b \<Rightarrow> add_detail ''baselineHealthy'' (format_bool b) d1);
          d3 = (case ge_Confidence e of
                  None \<Rightarrow> d2 | Some f \<Rightarrow> add_detail ''confidence'' (fmt_float f) d2);
          d4 = (case ge_Score e of
                  None \<Rightarrow> d3 | Some f \<Rightarrow> add_detail ''score'' (fmt_float f) d3)
      in \<lparr>tre_Type = ge_Type e, tre_Source = ge_Provider e, tre_Detail = d4\<rparr>)"

section \<open>Actuator requests\<close>

record apply_request =
  ar_Cluster :: cluster
  ar_Version :: string
  ar_PreviousVersion :: string
  ar_AppKey :: string

record delta_apply_request =
  dr_Cluster :: cluster
  dr_DesiredVersions :: smap

section \<open>The log\<close>

datatype effect =
    RunEvent string string string
  | TargetEvent string string string
  | Notified notification_event notification_policy
  | TraceEmitted decision_trace_spec
  | FsmUnexpected string string
  | GateEvaluation string string
  | GateCloudEvent string string string string string string string string
  | StageCloudEvent string string string string string
  | WaveCloudEvent string string string string
  | ApplyCalled string apply_request
  | ApplyDeltaCalled string delta_apply_request
  | RollbackCalled string cluster string string

text \<open>Effects that ask an actuator to change a cluster.\<close>

fun delivery_effect :: "effect \<Rightarrow> bool" where
  "delivery_effect (ApplyCalled k r) = True"
| "delivery_effect (ApplyDeltaCalled k r) = True"
| "delivery_effect (RollbackCalled k c v a) = True"
| "delivery_effect _ = False"

section \<open>The Kubernetes client\<close>

datatype api_error =
  ApiNotFound string | ApiConflict string | ApiAlreadyExists string | ApiForbidden string | ApiOther string

fun api_error_text :: "api_error \<Rightarrow> string" where
  "api_error_text (ApiNotFound s) = s"
| "api_error_text (ApiConflict s) = s"
| "api_error_text (ApiAlreadyExists s) = s"
| "api_error_text (ApiForbidden s) = s"
| "api_error_text (ApiOther s) = s"

fun is_not_found :: "api_error \<Rightarrow> bool" where
  "is_not_found (ApiNotFound s) = True"
| "is_not_found _ = False"

fun is_conflict :: "api_error \<Rightarrow> bool" where
  "is_conflict (ApiConflict s) = True"
| "is_conflict _ = False"

fun is_already_exists :: "api_error \<Rightarrow> bool" where
  "is_already_exists (ApiAlreadyExists s) = True"
| "is_already_exists _ = False"

fun is_forbidden :: "api_error \<Rightarrow> bool" where
  "is_forbidden (ApiForbidden s) = True"
| "is_forbidden _ = False"

type_synonym go_error = string

text \<open>
  The operations of the client, of \<^verbatim>\<open>apimachinery\<close> and of the clock that the controllers call.
  \<open>'w\<close> is everything outside the reconciler; an operation returns its result and the world it
  leaves. A successful write returns the object as the server answered it, which the client
  stores into its argument. The clock is read from the world, so time passes between calls.
\<close>

record 'w kube =
  kb_Now :: "'w \<Rightarrow> int"
  kb_GetCluster :: "string \<Rightarrow> 'w \<Rightarrow> (api_error + cluster) \<times> 'w"
  kb_GetSubstrate :: "string \<Rightarrow> 'w \<Rightarrow> (api_error + substrate) \<times> 'w"
  kb_GetApproval :: "string \<Rightarrow> 'w \<Rightarrow> (api_error + approval) \<times> 'w"
  kb_GetTarget :: "string \<Rightarrow> 'w \<Rightarrow> (api_error + target) \<times> 'w"
  kb_GetRun :: "string \<Rightarrow> 'w \<Rightarrow> (api_error + promotion_run) \<times> 'w"
  kb_GetPlan :: "string \<Rightarrow> 'w \<Rightarrow> (api_error + plan) \<times> 'w"
  kb_ListTargetsOfRun :: "string \<Rightarrow> 'w \<Rightarrow> (api_error + target list) \<times> 'w"
  kb_PatchClusterStatus :: "cluster \<Rightarrow> cluster \<Rightarrow> 'w \<Rightarrow> (api_error + cluster) \<times> 'w"
  kb_UpdateTargetStatus :: "target \<Rightarrow> 'w \<Rightarrow> (api_error + target) \<times> 'w"
  kb_PatchTarget :: "target \<Rightarrow> target \<Rightarrow> 'w \<Rightarrow> (api_error + target) \<times> 'w"
  kb_CreateTarget :: "target \<Rightarrow> 'w \<Rightarrow> (api_error + target) \<times> 'w"
  kb_PatchRunStatus :: "promotion_run \<Rightarrow> promotion_run \<Rightarrow> 'w \<Rightarrow> (api_error + promotion_run) \<times> 'w"
  kb_PatchRun :: "promotion_run \<Rightarrow> promotion_run \<Rightarrow> 'w \<Rightarrow> (api_error + promotion_run) \<times> 'w"
  kb_SelectorError :: "label_selector \<Rightarrow> go_error option"
  kb_ListClusters :: "label_selector \<Rightarrow> 'w \<Rightarrow> (api_error + cluster list) \<times> 'w"
  kb_GetFleetClusters :: "string \<Rightarrow> 'w \<Rightarrow> (api_error + string list) \<times> 'w"
  kb_SetControllerReference :: "promotion_run \<Rightarrow> object_meta \<Rightarrow> object_meta"
  kb_FindStatusCondition :: "condition list \<Rightarrow> string \<Rightarrow> condition option"
  kb_SetStatusCondition :: "condition \<Rightarrow> condition list \<Rightarrow> condition list"
  kb_RemoveStatusCondition :: "string \<Rightarrow> condition list \<Rightarrow> condition list"
  kb_SelectorMatches :: "label_selector \<Rightarrow> smap \<Rightarrow> go_error + bool"
  kb_FormatFloat :: "64 word \<Rightarrow> string"

abbreviation rfc_now :: "'w kube \<Rightarrow> 'w \<Rightarrow> string" where
  "rfc_now kb w \<equiv> format_rfc3339 (kb_Now kb w)"

end
