(* ===== verification/Gates.thy ===== *)
theory Gates
  imports Effects Registry_Spec
begin

text \<open>
  The gate contract and registry of \<^verbatim>\<open>pkg/kapro/gate\<close> and the in-process gates of
  \<^verbatim>\<open>internal/gate\<close> that the target machine resolves by name: soak, approval and verification.
  A gate is a function of the world and of a request; it returns a result or an error and the
  world it leaves (a gate may call the API server or create a Job). The decision of a gate is
  its phase; the controller alone keeps gate state. The tracing wrapper that \<^verbatim>\<open>Resolve\<close> puts
  around a predicate does not change its answer and is left out, as are the locks of the
  registry. An error that wraps a parse error is printed without the parser's own text.
\<close>

section \<open>Requests and results\<close>

record gate_result =
  res_Phase :: gate_phase
  res_Message :: string
  res_Reason :: string
  res_RetryAfter :: string
  res_VendorRef :: "object_reference option"
  res_Results :: "gate_condition_result list"
  res_Evidence :: "gate_evidence list"

definition empty_result :: gate_result where
  "empty_result = \<lparr>res_Phase = GateNone, res_Message = [], res_Reason = [], res_RetryAfter = [],
     res_VendorRef = None, res_Results = [], res_Evidence = []\<rparr>"

definition is_passed :: "gate_result \<Rightarrow> bool" where
  "is_passed r \<longleftrightarrow> res_Phase r = GatePassed"

definition is_inconclusive :: "gate_result \<Rightarrow> bool" where
  "is_inconclusive r \<longleftrightarrow> res_Phase r = GateInconclusive"

definition is_failed :: "gate_result \<Rightarrow> bool" where
  "is_failed r \<longleftrightarrow> res_Phase r = GateFailed"

definition make_passed :: "string \<Rightarrow> gate_result" where
  "make_passed msg = empty_result\<lparr>res_Phase := GatePassed, res_Message := msg\<rparr>"

definition make_failed :: "string \<Rightarrow> string \<Rightarrow> gate_result" where
  "make_failed reason msg =
     empty_result\<lparr>res_Phase := GateFailed, res_Reason := reason, res_Message := msg\<rparr>"

text \<open>\<open>retryAt\<close> is \<open>None\<close> for the zero time.\<close>

definition make_inconclusive :: "int \<Rightarrow> string \<Rightarrow> int option \<Rightarrow> gate_result" where
  "make_inconclusive now reason retryAt =
     (let result = empty_result\<lparr>res_Phase := GateInconclusive, res_Reason := reason\<rparr>
      in case retryAt of
           None \<Rightarrow> result
         | Some t \<Rightarrow> (if t - now > 0 then result\<lparr>res_RetryAfter := duration_string (t - now)\<rparr>
                     else result))"

record gate_context =
  gx_Name :: string
  gx_Namespace :: string
  gx_PromotionRunRef :: string
  gx_Target :: string
  gx_Plan :: string
  gx_Stage :: string
  gx_Version :: string
  gx_StartedAt :: string
  gx_OwnerUID :: string
  gx_OwnerName :: string

record gate_request =
  gr_Context :: "gate_context option"
  gr_Policy :: "gate_policy_spec option"
  gr_MetricIndex :: int
  gr_Template :: "gate_template_spec option"
  gr_Args :: smap
  gr_Fleet :: string
  gr_Promotion :: string
  gr_PromotionRun :: string
  gr_Plan :: string
  gr_Stage :: string
  gr_Target :: string
  gr_Version :: string
  gr_Parameters :: smap

definition phase_gate_request :: "gate_context \<Rightarrow> gate_policy_spec option \<Rightarrow> gate_request" where
  "phase_gate_request ctx policy =
     \<lparr>gr_Context = Some ctx, gr_Policy = policy, gr_MetricIndex = 0, gr_Template = None, gr_Args = [],
      gr_Fleet = [], gr_Promotion = [], gr_PromotionRun = [], gr_Plan = [], gr_Stage = [],
      gr_Target = [], gr_Version = [], gr_Parameters = []\<rparr>"

type_synonym 'w gate = "gate_request \<Rightarrow> 'w \<Rightarrow> (go_error + gate_result) \<times> 'w"

section \<open>Registry\<close>

text \<open>A map from names to predicates; a registered \<open>None\<close> is a nil predicate.\<close>

type_synonym 'w gate_registry = "(string \<times> 'w gate option) list"

definition gate_register ::
  "string \<Rightarrow> 'w gate option \<Rightarrow> 'w gate_registry \<Rightarrow> go_error option \<times> 'w gate_registry" where
  "gate_register name p r =
     (if name = [] then (Some ''predicate name is required'', r)
      else if p = None then (Some (''predicate '' @ go_quote name @ '' is nil''), r)
      else if map_of r name \<noteq> None
      then (Some (''predicate '' @ go_quote name @ '' already registered''), r)
      else (None, (name, p) # r))"

definition gate_upsert ::
  "string \<Rightarrow> 'w gate option \<Rightarrow> 'w gate_registry \<Rightarrow> 'w gate option \<times> 'w gate_registry" where
  "gate_upsert name p r =
     ((case map_of r name of None \<Rightarrow> None | Some old \<Rightarrow> old), AList.update name p r)"

definition gate_unregister ::
  "string \<Rightarrow> 'w gate_registry \<Rightarrow> ('w gate option \<times> bool) \<times> 'w gate_registry" where
  "gate_unregister name r =
     (case map_of r name of
        None \<Rightarrow> ((None, False), r)
      | Some old \<Rightarrow> ((old, True), AList.delete name r))"

definition gate_resolve :: "'w gate_registry \<Rightarrow> string \<Rightarrow> go_error + 'w gate option" where
  "gate_resolve r name =
     (case map_of r name of
        None \<Rightarrow> Inl (''unknown predicate '' @ go_quote name) | Some p \<Rightarrow> Inr p)"

definition gate_names :: "'w gate_registry \<Rightarrow> string list" where
  "gate_names r = sort_strings (map fst r)"

text \<open>Evaluating a nil predicate panics; \<open>Inl\<close> is the panic.\<close>

definition gate_evaluate :: "'w gate option \<Rightarrow> 'w gate" where
  "gate_evaluate g req w =
     (case g of None \<Rightarrow> (Inl ''invalid memory address or nil pointer dereference'', w)
              | Some f \<Rightarrow> f req w)"

definition gate_reg :: "string \<Rightarrow> 'w gate \<Rightarrow> 'w gate_registry \<Rightarrow> 'w gate_registry option" where
  "gate_reg name p r = (case gate_register name (Some p) r of (None, r') \<Rightarrow> Some r' | _ \<Rightarrow> None)"

definition gate_lookup :: "'w gate_registry \<Rightarrow> string \<Rightarrow> 'w gate option option" where
  "gate_lookup r name = map_of r name"

interpretation gate_table: keyed_registry gate_lookup
  "\<lambda>name p r. case p of None \<Rightarrow> None | Some g \<Rightarrow> gate_reg name g r"
  "\<lambda>name p. name \<noteq> [] \<and> p \<noteq> None"
  by unfold_locales
    (auto simp: gate_lookup_def gate_reg_def gate_register_def split: option.splits if_splits)

lemma gate_resolve_iff: "gate_resolve r name = Inr p \<longleftrightarrow> gate_lookup r name = Some p"
  by (simp add: gate_resolve_def gate_lookup_def split: option.splits)

lemma gate_lookup_upsert:
  "gate_lookup (snd (gate_upsert name p r)) n = (if n = name then Some p else gate_lookup r n)"
  by (simp add: gate_lookup_def gate_upsert_def update_conv')

lemma gate_lookup_unregister:
  "gate_lookup (snd (gate_unregister name r)) n = (if n = name then None else gate_lookup r n)"
  by (auto simp: gate_lookup_def gate_unregister_def delete_conv' split: option.splits)

section \<open>Soak\<close>

definition soak_evidence :: "string \<Rightarrow> string \<Rightarrow> string \<Rightarrow> gate_projection option \<Rightarrow> gate_evidence" where
  "soak_evidence observed threshold reason projection =
     empty_evidence\<lparr>ge_Type := ''soak'', ge_ObservedValue := observed, ge_Threshold := threshold,
       ge_Reason := reason, ge_Projection := projection\<rparr>"

definition soak_gate :: "'w kube \<Rightarrow> 'w gate" where
  "soak_gate kb req w =
     (let soakTime = (case gr_Policy req of None \<Rightarrow> [] | Some p \<Rightarrow> g_SoakTime (pol_Gate p))
      in if soakTime = [] then
           (Inr (empty_result\<lparr>res_Phase := GatePassed, res_Message := ''no soak configured'',
                   res_Evidence := [soak_evidence [] [] ''no soak configured'' None]\<rparr>), w)
         else case parse_duration soakTime of
           None \<Rightarrow> (Inl (''soakTime '' @ go_quote soakTime @ '' is not a valid duration''), w)
         | Some soakDuration \<Rightarrow>
             (let startedAt = (case gr_Context req of None \<Rightarrow> [] | Some c \<Rightarrow> gx_StartedAt c)
              in if startedAt = [] then
                   (Inr (empty_result\<lparr>res_Phase := GateInconclusive,
                           res_Message := ''soak clock not started'',
                           res_RetryAfter := duration_string soakDuration,
                           res_Evidence := [soak_evidence [] (duration_string soakDuration)
                                              ''clock not started'' None]\<rparr>), w)
                 else case parse_rfc3339 startedAt of
                   None \<Rightarrow> (Inl (''gate context startedAt '' @ go_quote startedAt @ '' is not RFC3339''), w)
                 | Some start \<Rightarrow>
                     (let elapsed = kb_Now kb w - start;
                          observed = duration_string (duration_round elapsed second)
                      in if elapsed < soakDuration then
                           (let remaining = soakDuration - elapsed;
                                rounded = duration_string (duration_round remaining second)
                            in (Inr (empty_result\<lparr>res_Phase := GateInconclusive,
                                      res_Message := ''soaking: '' @ rounded @ '' remaining'',
                                      res_RetryAfter := duration_string remaining,
                                      res_Evidence := [soak_evidence observed (duration_string soakDuration)
                                        ''soak period has not elapsed''
                                        (Some \<lparr>gp_Horizon = rounded, gp_Value = duration_string soakDuration,
                                           gp_Reason = ''soak will pass after remaining duration if no earlier failure occurs''\<rparr>)]\<rparr>), w))
                         else
                           (Inr (empty_result\<lparr>res_Phase := GatePassed,
                                   res_Message := ''soak period '' @ duration_string soakDuration @ '' elapsed'',
                                   res_Evidence := [soak_evidence observed (duration_string soakDuration)
                                                      ''soak period elapsed'' None]\<rparr>), w))))"

section \<open>Approval\<close>

definition approval_name :: "string \<Rightarrow> string \<Rightarrow> string" where
  "approval_name promotionrun ref = promotionrun @ ''-'' @ ref"

definition approval_evidence :: "string \<Rightarrow> gate_evidence" where
  "approval_evidence reason = empty_evidence\<lparr>ge_Type := ''approval'', ge_Reason := reason\<rparr>"

definition approver_allowed :: "gate_policy_spec option \<Rightarrow> approval \<Rightarrow> bool" where
  "approver_allowed policy a \<longleftrightarrow>
     (case policy of
        None \<Rightarrow> True
      | Some p \<Rightarrow>
          (case pol_Approval p of
             None \<Rightarrow> True
           | Some c \<Rightarrow> ac_Approvers c = [] \<or> list_ex (\<lambda>u. u = ap_ApprovedBy a) (ac_Approvers c)))"

definition approval_gate :: "'w kube \<Rightarrow> 'w gate" where
  "approval_gate kb req w =
     (case gr_Context req of
        None \<Rightarrow> (Inl ''ApprovalGate.Evaluate: context is nil'', w)
      | Some ctx \<Rightarrow>
          (let ref = (if gx_Name ctx = [] then gx_Target ctx else gx_Name ctx);
               key = approval_name (gx_PromotionRunRef ctx) ref
           in case kb_GetApproval kb key w of
                (Inl err, w1) \<Rightarrow>
                  (if is_not_found err then
                     (Inr (empty_result\<lparr>res_Phase := GateInconclusive,
                             res_Message := ''waiting for Approval '' @ go_quote key,
                             res_RetryAfter := ''30s'',
                             res_Evidence := [approval_evidence (''approval '' @ go_quote key @ '' not found'')]\<rparr>), w1)
                   else (Inl (''get approval '' @ go_quote key @ '': '' @ api_error_text err), w1))
              | (Inr a, w1) \<Rightarrow>
                  (if \<not> approver_allowed (gr_Policy req) a then
                     (Inr (empty_result\<lparr>res_Phase := GateFailed,
                             res_Message := ''approval by '' @ ap_ApprovedBy a @ '' is not allowed'',
                             res_RetryAfter := ''0'',
                             res_Evidence := [approval_evidence ''approver is not allowed by policy'']\<rparr>), w1)
                   else if ap_Bypass a then
                     (Inr (empty_result\<lparr>res_Phase := GatePassed,
                             res_Message := ''approval bypassed by '' @ ap_ApprovedBy a,
                             res_Evidence := [approval_evidence ''approval bypass flag set'']\<rparr>), w1)
                   else
                     (Inr (empty_result\<lparr>res_Phase := GatePassed,
                             res_Message := ''approved by '' @ ap_ApprovedBy a @ '': '' @ ap_Comment a,
                             res_Evidence := [approval_evidence ''approval object exists and approver is allowed'']\<rparr>), w1))))"

section \<open>Verification\<close>

definition verification_gate :: "'w gate" where
  "verification_gate req w =
     (Inr (empty_result\<lparr>res_Phase := GatePassed,
             res_Message := ''verification delegated to Flux Operator'',
             res_Evidence := [empty_evidence\<lparr>ge_Type := ''verification'',
               ge_Reason := ''artifact verification is delegated to the configured substrate''\<rparr>]\<rparr>), w)"

section \<open>What the gates decide\<close>

lemma soak_gate_world [simp, frame_simps]: "snd (soak_gate kb req w) = w"
  by (simp add: soak_gate_def Let_def split: option.splits)

lemma soak_gate_result:
  assumes "gr_Policy req = Some p" "g_SoakTime (pol_Gate p) \<noteq> []"
    and "parse_duration (g_SoakTime (pol_Gate p)) = Some d"
    and "gr_Context req = Some c" "gx_StartedAt c \<noteq> []" "parse_rfc3339 (gx_StartedAt c) = Some start"
  shows "\<exists>r. soak_gate kb req w = (Inr r, w) \<and> is_passed r = (d \<le> kb_Now kb w - start)"
proof (cases "d \<le> kb_Now kb w - start")
  case True
  with assms show ?thesis by (simp add: soak_gate_def Let_def is_passed_def empty_result_def)
next
  case False
  with assms show ?thesis by (simp add: soak_gate_def Let_def is_passed_def empty_result_def)
qed

lemma approval_gate_passed_iff:
  assumes "gr_Context req = Some c"
    and "kb_GetApproval kb (approval_name (gx_PromotionRunRef c)
           (if gx_Name c = [] then gx_Target c else gx_Name c)) w = (got, w1)"
  shows "(\<exists>r. fst (approval_gate kb req w) = Inr r \<and> is_passed r) \<longleftrightarrow>
         (\<exists>a. got = Inr a \<and> approver_allowed (gr_Policy req) a)"
  using assms
  by (cases got) (auto simp: approval_gate_def Let_def is_passed_def empty_result_def)

end
