(* ===== verification/Actuators.thy ===== *)
theory Actuators
  imports Effects Registry_Spec
begin

text \<open>
  The actuator contract and registry of \<^verbatim>\<open>pkg/kapro/actuator\<close> and the capability tests and the
  actuator resolution of \<^verbatim>\<open>internal/controller/target_controller.go\<close>. An actuator is a record
  of its methods, each a function on the world; \<open>act_SubstrateObjects\<close> is \<open>None\<close> when the
  implementation is no \<^verbatim>\<open>SubstrateObjectReporter\<close>, and \<open>act_Capabilities\<close> is \<open>None\<close> when it is no
  \<^verbatim>\<open>Substrate\<close>. The tracing wrapper of \<^verbatim>\<open>Resolve\<close> forwards every call and is left out.
\<close>

section \<open>Capabilities\<close>

record capabilities =
  ca_ContractVersion :: string
  ca_SubstrateKind :: string
  ca_Actuator :: string
  ca_ExecutionScope :: string
  ca_ExecutionModes :: "execution_mode list"
  ca_Modes :: "substrate_mode list"
  ca_SupportsApply :: bool
  ca_SupportsObserve :: bool
  ca_SupportsRollback :: bool
  ca_SupportsConvergence :: bool
  ca_SupportsDelta :: bool
  ca_SupportsTwoPhase :: bool
  ca_SupportsSubstrateObjects :: bool
  ca_SupportsDryRun :: bool
  ca_SupportsHubExecution :: bool
  ca_SupportsSpokeExecution :: bool
  ca_SupportsExternalPull :: bool

definition no_capabilities :: capabilities where
  "no_capabilities = \<lparr>ca_ContractVersion = [], ca_SubstrateKind = [], ca_Actuator = [],
     ca_ExecutionScope = [], ca_ExecutionModes = [], ca_Modes = [], ca_SupportsApply = False,
     ca_SupportsObserve = False, ca_SupportsRollback = False, ca_SupportsConvergence = False,
     ca_SupportsDelta = False, ca_SupportsTwoPhase = False, ca_SupportsSubstrateObjects = False,
     ca_SupportsDryRun = False, ca_SupportsHubExecution = False, ca_SupportsSpokeExecution = False,
     ca_SupportsExternalPull = False\<rparr>"

definition note_execution_mode :: "execution_mode \<Rightarrow> capabilities \<Rightarrow> capabilities" where
  "note_execution_mode mode c =
     (case mode of
        ExecHubPush \<Rightarrow> c\<lparr>ca_SupportsHubExecution := True\<rparr>
      | ExecSpokePull \<Rightarrow> c\<lparr>ca_SupportsSpokeExecution := True\<rparr>
      | ExecExternalPull \<Rightarrow> c\<lparr>ca_SupportsExternalPull := True\<rparr>
      | _ \<Rightarrow> c)"

definition normalize_capabilities :: "capabilities \<Rightarrow> capabilities" where
  "normalize_capabilities c =
     (let c1 = (if ca_ContractVersion c = [] then c\<lparr>ca_ContractVersion := ''v1alpha1''\<rparr> else c);
          c2 = (if ca_ExecutionScope c1 = [] then c1\<lparr>ca_ExecutionScope := ''Both''\<rparr> else c1);
          c3 = (if ca_Actuator c2 = [] then c2\<lparr>ca_Actuator := ca_SubstrateKind c2\<rparr> else c2)
      in fold note_execution_mode (ca_ExecutionModes c3) c3)"

definition supports_mode :: "capabilities \<Rightarrow> substrate_mode \<Rightarrow> bool" where
  "supports_mode c mode \<longleftrightarrow> list_ex (\<lambda>m. m = mode) (ca_Modes c)"

definition supports_execution_mode :: "capabilities \<Rightarrow> execution_mode \<Rightarrow> bool" where
  "supports_execution_mode c mode =
     (case mode of
        ExecHubPush \<Rightarrow> ca_SupportsHubExecution c
      | ExecSpokePull \<Rightarrow> ca_SupportsSpokeExecution c
      | ExecExternalPull \<Rightarrow> ca_SupportsExternalPull c
      | _ \<Rightarrow> False)"

definition capabilities_empty :: "capabilities \<Rightarrow> bool" where
  "capabilities_empty c \<longleftrightarrow>
     ca_ContractVersion c = [] \<and> ca_SubstrateKind c = [] \<and> ca_Actuator c = [] \<and>
     ca_ExecutionScope c = [] \<and> ca_ExecutionModes c = [] \<and> ca_Modes c = [] \<and>
     \<not> ca_SupportsApply c \<and> \<not> ca_SupportsObserve c \<and> \<not> ca_SupportsRollback c \<and>
     \<not> ca_SupportsConvergence c \<and> \<not> ca_SupportsDelta c \<and> \<not> ca_SupportsTwoPhase c \<and>
     \<not> ca_SupportsSubstrateObjects c \<and> \<not> ca_SupportsDryRun c \<and> \<not> ca_SupportsHubExecution c \<and>
     \<not> ca_SupportsSpokeExecution c \<and> \<not> ca_SupportsExternalPull c"

subsection \<open>Capability tests of the controllers\<close>

definition has_actuator_support_bits :: "capabilities \<Rightarrow> bool" where
  "has_actuator_support_bits c \<longleftrightarrow>
     ca_SupportsApply c \<or> ca_SupportsObserve c \<or> ca_SupportsRollback c \<or> ca_SupportsConvergence c \<or>
     ca_SupportsDelta c \<or> ca_SupportsTwoPhase c \<or> ca_SupportsSubstrateObjects c \<or> ca_SupportsDryRun c"

definition supports_actuator_apply :: "capabilities \<Rightarrow> bool" where
  "supports_actuator_apply c \<longleftrightarrow> \<not> has_actuator_support_bits c \<or> ca_SupportsApply c"

definition supports_actuator_delta :: "capabilities \<Rightarrow> bool" where
  "supports_actuator_delta c \<longleftrightarrow> \<not> has_actuator_support_bits c \<or> ca_SupportsDelta c"

definition supports_actuator_observe :: "capabilities \<Rightarrow> bool" where
  "supports_actuator_observe c \<longleftrightarrow>
     \<not> has_actuator_support_bits c \<or> ca_SupportsObserve c \<or> ca_SupportsConvergence c"

definition supports_actuator_rollback :: "capabilities \<Rightarrow> bool" where
  "supports_actuator_rollback c \<longleftrightarrow> \<not> has_actuator_support_bits c \<or> ca_SupportsRollback c"

definition supports_actuator_substrate_objects :: "capabilities \<Rightarrow> bool" where
  "supports_actuator_substrate_objects c \<longleftrightarrow>
     \<not> has_actuator_support_bits c \<or> ca_SupportsSubstrateObjects c"

section \<open>Actuators and their registry\<close>

record 'w actuator =
  act_Apply :: "apply_request \<Rightarrow> 'w \<Rightarrow> go_error option \<times> 'w"
  act_Rollback :: "cluster \<Rightarrow> string \<Rightarrow> string \<Rightarrow> 'w \<Rightarrow> go_error option \<times> 'w"
  act_ApplyDelta :: "delta_apply_request \<Rightarrow> 'w \<Rightarrow> (go_error + int) \<times> 'w"
  act_IsAllConverged :: "cluster \<Rightarrow> smap \<Rightarrow> 'w \<Rightarrow> (go_error + bool) \<times> 'w"
  act_SubstrateObjects ::
    "(cluster \<Rightarrow> smap \<Rightarrow> 'w \<Rightarrow> (go_error + substrate_object_status list) \<times> 'w) option"
  act_Capabilities :: "capabilities option"

record 'w registration =
  reg_Name :: string
  reg_Mode :: substrate_mode
  reg_Capabilities :: capabilities
  reg_Actuator :: "'w actuator option"

definition registration_registry_key :: "'w registration \<Rightarrow> string" where
  "registration_registry_key r =
     (if reg_Name r \<noteq> [] then reg_Name r
      else let mode = (if reg_Mode r = ModeNone \<and> ca_Modes (reg_Capabilities r) \<noteq> []
                       then hd (ca_Modes (reg_Capabilities r)) else reg_Mode r);
               actuator = (if ca_Actuator (reg_Capabilities r) = []
                           then ca_SubstrateKind (reg_Capabilities r)
                           else ca_Actuator (reg_Capabilities r))
           in substrate_mode_string mode @ ''/'' @ actuator)"

record 'w actuator_registry =
  ag_actuators :: "(string \<times> 'w actuator) list"
  ag_registrations :: "(string \<times> 'w registration) list"

definition new_actuator_registry :: "'w actuator_registry" where
  "new_actuator_registry = \<lparr>ag_actuators = [], ag_registrations = []\<rparr>"

definition bare_registration :: "string \<Rightarrow> 'w actuator \<Rightarrow> 'w registration" where
  "bare_registration name a =
     \<lparr>reg_Name = name, reg_Mode = ModeNone,
      reg_Capabilities = no_capabilities\<lparr>ca_ContractVersion := ''v1alpha1''\<rparr>, reg_Actuator = Some a\<rparr>"

definition actuator_put ::
  "string \<Rightarrow> 'w actuator \<Rightarrow> 'w registration \<Rightarrow> 'w actuator_registry \<Rightarrow> 'w actuator_registry" where
  "actuator_put key a reg r =
     r\<lparr>ag_actuators := AList.update key a (ag_actuators r),
       ag_registrations := AList.update key reg (ag_registrations r)\<rparr>"

definition actuator_register ::
  "string \<Rightarrow> 'w actuator \<Rightarrow> 'w actuator_registry \<Rightarrow> go_error option \<times> 'w actuator_registry" where
  "actuator_register name a r =
     (if map_of (ag_actuators r) name \<noteq> None
      then (Some (''actuator '' @ go_quote name @ '' already registered''), r)
      else (None, actuator_put name a (bare_registration name a) r))"

definition normalize_registration ::
  "'w registration \<Rightarrow> go_error + (string \<times> 'w actuator \<times> 'w registration)" where
  "normalize_registration reg =
     (case reg_Actuator reg of
        None \<Rightarrow> Inl ''actuator is nil''
      | Some a \<Rightarrow>
          (let caps = (case act_Capabilities a of
                         Some c \<Rightarrow> (if capabilities_empty (reg_Capabilities reg) then c
                                    else reg_Capabilities reg)
                       | None \<Rightarrow> reg_Capabilities reg);
               caps1 = normalize_capabilities caps;
               caps2 = (if reg_Mode reg \<noteq> ModeNone \<and> ca_Modes caps1 = []
                        then caps1\<lparr>ca_Modes := [reg_Mode reg]\<rparr> else caps1);
               reg1 = reg\<lparr>reg_Capabilities := caps2\<rparr>;
               key = registration_registry_key reg1
           in if key = [] \<or> key = ''/'' then Inl ''actuator registry key is required''
              else if reg_Name reg1 = [] \<and> hd key = CHR ''/''
              then Inl (''actuator registration requires Name or non-empty Mode/Capabilities.Modes; got key '' @ go_quote key)
              else Inr (key, a, reg1\<lparr>reg_Name := key\<rparr>)))"

definition register_registration ::
  "'w registration \<Rightarrow> 'w actuator_registry \<Rightarrow> go_error option \<times> 'w actuator_registry" where
  "register_registration reg r =
     (case normalize_registration reg of
        Inl e \<Rightarrow> (Some e, r)
      | Inr (key, a, reg') \<Rightarrow>
          (if map_of (ag_actuators r) key \<noteq> None
           then (Some (''actuator '' @ go_quote key @ '' already registered''), r)
           else (None, actuator_put key a reg' r)))"

definition actuator_upsert ::
  "string \<Rightarrow> 'w actuator \<Rightarrow> 'w actuator_registry \<Rightarrow> 'w actuator option \<times> 'w actuator_registry" where
  "actuator_upsert name a r =
     (map_of (ag_actuators r) name, actuator_put name a (bare_registration name a) r)"

definition upsert_registration ::
  "'w registration \<Rightarrow> 'w actuator_registry \<Rightarrow> (go_error + 'w actuator option) \<times> 'w actuator_registry" where
  "upsert_registration reg r =
     (case normalize_registration reg of
        Inl e \<Rightarrow> (Inl e, r)
      | Inr (key, a, reg') \<Rightarrow> (Inr (map_of (ag_actuators r) key), actuator_put key a reg' r))"

definition actuator_unregister ::
  "string \<Rightarrow> 'w actuator_registry \<Rightarrow> ('w actuator option \<times> bool) \<times> 'w actuator_registry" where
  "actuator_unregister name r =
     ((map_of (ag_actuators r) name, map_of (ag_actuators r) name \<noteq> None),
      r\<lparr>ag_actuators := AList.delete name (ag_actuators r),
        ag_registrations := AList.delete name (ag_registrations r)\<rparr>)"

definition actuator_resolve :: "'w actuator_registry \<Rightarrow> string \<Rightarrow> go_error + 'w actuator" where
  "actuator_resolve r name =
     (case map_of (ag_actuators r) name of
        None \<Rightarrow> Inl (''unknown actuator type '' @ go_quote name) | Some a \<Rightarrow> Inr a)"

definition actuator_registration :: "'w actuator_registry \<Rightarrow> string \<Rightarrow> 'w registration option" where
  "actuator_registration r name = map_of (ag_registrations r) name"

definition actuator_names :: "'w actuator_registry \<Rightarrow> string list" where
  "actuator_names r = sort_strings (map fst (ag_actuators r))"

definition actuator_capabilities_for ::
  "'w actuator_registry option \<Rightarrow> string \<Rightarrow> capabilities" where
  "actuator_capabilities_for registry key =
     (case registry of
        None \<Rightarrow> no_capabilities
      | Some r \<Rightarrow> (case actuator_registration r key of
                     None \<Rightarrow> no_capabilities | Some reg \<Rightarrow> normalize_capabilities (reg_Capabilities reg)))"

section \<open>Resolving the actuator of a cluster\<close>

definition require_target_ready_substrate :: "substrate \<Rightarrow> go_error option" where
  "require_target_ready_substrate s =
     (let name = om_Name (sub_Meta s); gen = om_Generation (sub_Meta s);
          obs = st_ObservedGeneration (sub_Status s)
      in if \<not> st_Ready (sub_Status s) then Some (''substrate '' @ go_quote name @ '' is not Ready'')
         else if gen \<noteq> 0 \<and> obs \<noteq> gen
         then Some (''substrate '' @ go_quote name @ '' Ready status is stale: observedGeneration='' @
                    itoa obs @ '' generation='' @ itoa gen)
         else None)"

definition runtime_actuator_name_for_substrate :: "substrate_spec \<Rightarrow> string" where
  "runtime_actuator_name_for_substrate s =
     (let kind = substrate_kind s
      in if kind = ''kubernetes-apply'' then ''direct''
         else if kind = ''argo'' then ''argo''
         else if kind = ''flux'' then ''flux''
         else if kind = ''oci'' then ''oci''
         else substrate_actuator_name s)"

definition canonical_actuator_key_for_substrate ::
  "substrate_binding_spec \<Rightarrow> substrate_spec \<Rightarrow> string" where
  "canonical_actuator_key_for_substrate delivery s =
     (let mode = (if sb_Mode delivery = ModeNone
                  then (case substrate_execution_mode s of
                          ExecHubPush \<Rightarrow> ModePush
                        | ExecSpokePull \<Rightarrow> ModePull
                        | ExecExternalPull \<Rightarrow> ModePull
                        | _ \<Rightarrow> ModeNone)
                  else sb_Mode delivery);
          name = runtime_actuator_name_for_substrate s
      in if substrate_mode_string mode = [] \<or> name = [] then []
         else substrate_mode_string mode @ ''/'' @ name)"

text \<open>
  \<^verbatim>\<open>resolveActuatorForCluster\<close>, with the client and the registry present. The second lookup
  of the substrate is reached only when the first one did not happen, that is never when the
  substrate has a name; with an empty name the function returns before it.
\<close>

definition resolve_actuator_for_cluster ::
  "'w kube \<Rightarrow> 'w actuator_registry \<Rightarrow> cluster \<Rightarrow> 'w \<Rightarrow>
   (go_error + (string \<times> 'w actuator \<times> capabilities)) \<times> 'w" where
  "resolve_actuator_for_cluster kb registry cl w =
     (let delivery = cs_Substrate (cl_Spec cl);
          key = substrate_binding_registry_key delivery;
          name = substrate_binding_name delivery
      in if name = [] then
           (case actuator_resolve registry key of
              Inr a \<Rightarrow> (Inr (key, a, actuator_capabilities_for (Some registry) key), w)
            | Inl err \<Rightarrow> (Inl err, w))
         else
           (case kb_GetSubstrate kb name w of
              (Inl e, w1) \<Rightarrow>
                (if is_not_found e then (Inl (''substrate '' @ go_quote name @ '' not found''), w1)
                 else (Inl (''lookup substrate '' @ go_quote name @ '': '' @ api_error_text e), w1))
            | (Inr s, w1) \<Rightarrow>
                (case require_target_ready_substrate s of
                   Some e \<Rightarrow> (Inl e, w1)
                 | None \<Rightarrow>
                     (case actuator_resolve registry key of
                        Inr a \<Rightarrow> (Inr (key, a, actuator_capabilities_for (Some registry) key), w1)
                      | Inl err \<Rightarrow>
                          (let canonical = canonical_actuator_key_for_substrate delivery (sub_Spec s)
                           in if canonical = [] \<or> canonical = key then (Inl err, w1)
                              else case actuator_resolve registry canonical of
                                Inr a \<Rightarrow>
                                  (Inr (canonical, a, actuator_capabilities_for (Some registry) canonical), w1)
                              | Inl cerr \<Rightarrow>
                                  (Inl (''resolve actuator '' @ go_quote canonical @ '' via substrate '' @
                                        go_quote (om_Name (sub_Meta s)) @ '': '' @ cerr), w1))))))"

section \<open>What registration gives\<close>

definition actuator_reg :: "string \<Rightarrow> 'w actuator \<Rightarrow> 'w actuator_registry \<Rightarrow> 'w actuator_registry option" where
  "actuator_reg name a r = (case actuator_register name a r of (None, r') \<Rightarrow> Some r' | _ \<Rightarrow> None)"

definition actuator_lookup :: "'w actuator_registry \<Rightarrow> string \<Rightarrow> 'w actuator option" where
  "actuator_lookup r name = map_of (ag_actuators r) name"

interpretation actuator_table: keyed_registry actuator_lookup actuator_reg "\<lambda>name a. True"
  by unfold_locales
    (auto simp: actuator_lookup_def actuator_reg_def actuator_register_def actuator_put_def
      update_conv' split: if_splits)

text \<open>The two maps of the registry have the same keys: every actuator has a registration.\<close>

definition wf_actuator_registry :: "'w actuator_registry \<Rightarrow> bool" where
  "wf_actuator_registry r \<longleftrightarrow>
     (\<forall>name. (map_of (ag_actuators r) name = None) = (map_of (ag_registrations r) name = None)) \<and>
     (\<forall>name reg. map_of (ag_registrations r) name = Some reg \<longrightarrow>
        reg_Actuator reg = map_of (ag_actuators r) name \<and> reg_Name reg = name)"

lemma wf_new_actuator_registry: "wf_actuator_registry new_actuator_registry"
  by (simp add: wf_actuator_registry_def new_actuator_registry_def)

lemma wf_actuator_put:
  assumes "wf_actuator_registry r" "reg_Actuator reg = Some a" "reg_Name reg = key"
  shows "wf_actuator_registry (actuator_put key a reg r)"
  using assms by (auto simp: wf_actuator_registry_def actuator_put_def update_conv')

lemma normalize_registration_entry:
  "normalize_registration reg = Inr (key, a, reg') \<Longrightarrow>
   reg_Actuator reg' = Some a \<and> reg_Name reg' = key \<and> key \<noteq> [] \<and> key \<noteq> ''/''"
  by (auto simp: normalize_registration_def Let_def split: option.splits if_splits)

lemma wf_actuator_register: "wf_actuator_registry r \<Longrightarrow> wf_actuator_registry (snd (actuator_register name a r))"
  by (simp add: actuator_register_def wf_actuator_put bare_registration_def)

lemma wf_actuator_upsert: "wf_actuator_registry r \<Longrightarrow> wf_actuator_registry (snd (actuator_upsert name a r))"
  by (simp add: actuator_upsert_def wf_actuator_put bare_registration_def)

lemma wf_register_registration:
  "wf_actuator_registry r \<Longrightarrow> wf_actuator_registry (snd (register_registration reg r))"
  by (auto simp: register_registration_def wf_actuator_put dest: normalize_registration_entry
      split: sum.splits)

lemma wf_upsert_registration:
  "wf_actuator_registry r \<Longrightarrow> wf_actuator_registry (snd (upsert_registration reg r))"
  by (auto simp: upsert_registration_def wf_actuator_put dest: normalize_registration_entry
      split: sum.splits)

lemma wf_actuator_unregister:
  "wf_actuator_registry r \<Longrightarrow> wf_actuator_registry (snd (actuator_unregister name r))"
  by (auto simp: wf_actuator_registry_def actuator_unregister_def delete_conv' split: if_splits)

text \<open>A second normalization changes nothing.\<close>

lemma note_execution_mode_fields [simp]:
  "ca_ContractVersion (note_execution_mode m c) = ca_ContractVersion c"
  "ca_ExecutionScope (note_execution_mode m c) = ca_ExecutionScope c"
  "ca_Actuator (note_execution_mode m c) = ca_Actuator c"
  "ca_SubstrateKind (note_execution_mode m c) = ca_SubstrateKind c"
  "ca_ExecutionModes (note_execution_mode m c) = ca_ExecutionModes c"
  "ca_SupportsHubExecution (note_execution_mode m c) = (ca_SupportsHubExecution c \<or> m = ExecHubPush)"
  "ca_SupportsSpokeExecution (note_execution_mode m c) = (ca_SupportsSpokeExecution c \<or> m = ExecSpokePull)"
  "ca_SupportsExternalPull (note_execution_mode m c) = (ca_SupportsExternalPull c \<or> m = ExecExternalPull)"
  by (auto simp: note_execution_mode_def split: execution_mode.splits)

lemma fold_note_execution_mode_fields [simp]:
  "ca_ContractVersion (fold note_execution_mode ms c) = ca_ContractVersion c"
  "ca_ExecutionScope (fold note_execution_mode ms c) = ca_ExecutionScope c"
  "ca_Actuator (fold note_execution_mode ms c) = ca_Actuator c"
  "ca_SubstrateKind (fold note_execution_mode ms c) = ca_SubstrateKind c"
  "ca_ExecutionModes (fold note_execution_mode ms c) = ca_ExecutionModes c"
  "ca_SupportsHubExecution (fold note_execution_mode ms c) = (ca_SupportsHubExecution c \<or> ExecHubPush \<in> set ms)"
  "ca_SupportsSpokeExecution (fold note_execution_mode ms c) = (ca_SupportsSpokeExecution c \<or> ExecSpokePull \<in> set ms)"
  "ca_SupportsExternalPull (fold note_execution_mode ms c) = (ca_SupportsExternalPull c \<or> ExecExternalPull \<in> set ms)"
  by (induction ms arbitrary: c) auto

lemma fold_note_execution_mode_noop:
  assumes "ExecHubPush \<in> set ms \<longrightarrow> ca_SupportsHubExecution c"
    and "ExecSpokePull \<in> set ms \<longrightarrow> ca_SupportsSpokeExecution c"
    and "ExecExternalPull \<in> set ms \<longrightarrow> ca_SupportsExternalPull c"
  shows "fold note_execution_mode ms c = c"
  using assms
proof (induction ms)
  case (Cons m ms)
  then have "note_execution_mode m c = c"
    by (auto simp: note_execution_mode_def split: execution_mode.splits)
  with Cons show ?case by simp
qed simp

lemma empty_actuator_kept: "ca_Actuator c = [] \<Longrightarrow> c\<lparr>ca_Actuator := []\<rparr> = c"
  for c :: capabilities
  by (cases c) simp

lemma normalize_capabilities_idem: "normalize_capabilities (normalize_capabilities c) = normalize_capabilities c"
proof -
  let ?n = "normalize_capabilities c"
  have filled: "ca_ContractVersion ?n \<noteq> []" "ca_ExecutionScope ?n \<noteq> []"
    "ca_Actuator ?n = [] \<longrightarrow> ca_SubstrateKind ?n = []"
    by (auto simp: normalize_capabilities_def Let_def)
  have "fold note_execution_mode (ca_ExecutionModes ?n) ?n = ?n"
    by (rule fold_note_execution_mode_noop) (auto simp: normalize_capabilities_def Let_def)
  then show ?thesis
    using filled by (subst normalize_capabilities_def) (simp add: Let_def empty_actuator_kept)
qed

end
