(* ===== verification/Target_Naming.thy ===== *)
theory Target_Naming
  imports Effects
begin

text \<open>
  Names, keys and versions of a target rollout: \<^verbatim>\<open>syncKey\<close>, \<^verbatim>\<open>syncName\<close>, \<^verbatim>\<open>primaryDesiredVersion\<close>,
  \<^verbatim>\<open>copyStringMap\<close>, \<^verbatim>\<open>targetStatusFromPromotionTarget\<close> and their kin in
  \<^verbatim>\<open>internal/controller/promotionrun_controller.go\<close>, and the version helpers of
  \<^verbatim>\<open>target_fsm.go\<close> and \<^verbatim>\<open>target_controller.go\<close>.
\<close>

section \<open>Names\<close>

definition sync_key :: "string \<Rightarrow> string \<Rightarrow> string \<Rightarrow> string" where
  "sync_key planRef stage target = planRef @ ''/'' @ stage @ ''/'' @ target"

definition sync_name :: "string \<Rightarrow> string \<Rightarrow> string \<Rightarrow> string \<Rightarrow> string" where
  "sync_name promotionrun planRef stage target =
     (let key = promotionrun @ ''/'' @ sync_key planRef stage target;
          prefix = (if length promotionrun > 40 then take 40 promotionrun else promotionrun)
      in prefix @ ''-'' @ hex_pad 8 (unat (fnv32a key)))"

definition promotion_target_object_name :: "target_execution_state \<Rightarrow> string" where
  "promotion_target_object_name t =
     (let name = sync_name (te_PromotionRunRef t) (te_PlanRef t) (te_Stage t) (te_Target t)
      in if te_Rollback t then name @ ''-rollback'' else name)"

section \<open>Versions\<close>

text \<open>Association lists stand for Go maps: \<^verbatim>\<open>copyStringMap\<close> is the identity on them.\<close>

definition copy_string_map :: "smap \<Rightarrow> smap" where
  "copy_string_map m = m"

definition primary_desired_version :: "smap \<Rightarrow> string \<Rightarrow> string \<Rightarrow> string \<times> string" where
  "primary_desired_version desired fallbackVersion fallbackAppKey =
     (if desired = [] then (fallbackVersion, fallbackAppKey)
      else let appKey = hd (sort_strings (map fst desired)) in (smap_get desired appKey, appKey))"

definition promotionrun_app_key :: string where
  "promotionrun_app_key = ''default''"

definition promotionrun_desired_versions_from_spec :: "promotion_run_spec \<Rightarrow> smap" where
  "promotionrun_desired_versions_from_spec spec =
     fold (\<lambda>(unit, version) desired. if unit = [] \<or> version = [] then desired
                                     else smap_set unit version desired)
       (prs_Versions spec)
       (if prs_Version spec \<noteq> [] then [(promotionrun_app_key, prs_Version spec)] else [])"

definition promotionrun_desired_versions :: "promotion_run \<Rightarrow> smap" where
  "promotionrun_desired_versions run =
     (if prs_Versions (run_Spec run) \<noteq> [] then promotionrun_desired_versions_from_spec (run_Spec run)
      else if rst_ResolvedVersion (run_Status run) = [] then []
      else [(''default'', rst_ResolvedVersion (run_Status run))])"

definition promotionrun_primary_version :: "smap \<Rightarrow> string" where
  "promotionrun_primary_version desired =
     (if smap_get desired promotionrun_app_key \<noteq> [] then smap_get desired promotionrun_app_key
      else if desired = [] then []
      else smap_get desired (hd (sort_strings (map fst desired))))"

definition target_app_key :: "target_execution_state \<Rightarrow> string" where
  "target_app_key t =
     (if te_AppKey t \<noteq> [] then te_AppKey t
      else let appKey = snd (primary_desired_version (te_DesiredVersions t) [] [])
           in if length (te_DesiredVersions t) = 1 \<and> appKey \<noteq> [] then appKey
              else te_PromotionRunRef t)"

definition target_desired_versions :: "target_execution_state \<Rightarrow> smap" where
  "target_desired_versions t =
     (if te_DesiredVersions t \<noteq> [] then copy_string_map (te_DesiredVersions t)
      else if te_Version t = [] then []
      else [(target_app_key t, te_Version t)])"

definition capture_previous_versions ::
  "cluster \<Rightarrow> smap \<Rightarrow> target_execution_state \<Rightarrow> target_execution_state" where
  "capture_previous_versions mc desiredVersions t =
     (let current = cst_CurrentVersions (cl_Status mc);
          t1 = (if te_PreviousVersions t = []
                then t\<lparr>te_PreviousVersions :=
                       fold (\<lambda>(appKey, _) m. if smap_get current appKey \<noteq> []
                                              then smap_set appKey (smap_get current appKey) m else m)
                         desiredVersions []\<rparr>
                else t)
      in if te_PreviousVersion t1 = []
         then t1\<lparr>te_PreviousVersion := smap_get (te_PreviousVersions t1) (target_app_key t1)\<rparr>
         else t1)"

text \<open>The first app key, in the order the map is walked, without a repository parameter.\<close>

definition validate_target_topology :: "cluster \<Rightarrow> smap \<Rightarrow> go_error option" where
  "validate_target_topology mc desiredVersions =
     (let sub = cs_Substrate (cl_Spec mc)
      in if length desiredVersions \<le> 1 \<or> sb_Mode sub \<noteq> ModePull \<or> substrate_binding_name sub \<noteq> ''flux''
         then None
         else case find (\<lambda>(appKey, _). smap_get (sb_Parameters sub) (''ociRepository.'' @ appKey) = []) desiredVersions of
           None \<Rightarrow> None
         | Some (appKey, _) \<Rightarrow>
             Some (''cluster '' @ cl_Name mc @ '' is missing substrate.parameters['' @
                   go_quote (''ociRepository.'' @ appKey) @
                   ''] required for multi-artifact flux delivery''))"

definition target_status_from_promotion_target :: "target \<Rightarrow> target_execution_state" where
  "target_status_from_promotion_target rt =
     (let spec = tg_Spec rt
      in (tst_Exec (tg_Status rt))\<lparr>te_PromotionRunRef := ts_PromotionRunRef spec,
           te_Target := ts_Target spec, te_PlanRef := ts_PlanRef spec, te_Plan := ts_Plan spec,
           te_Stage := ts_Stage spec, te_Version := ts_Version spec, te_Gate := ts_Gate spec,
           te_AppKey := ts_AppKey spec, te_DesiredVersions := copy_string_map (ts_DesiredVersions spec),
           te_Rollback := ts_Rollback spec\<rparr>)"

section \<open>Their laws\<close>

lemma target_desired_versions_Nil_iff:
  "target_desired_versions t = [] \<longleftrightarrow> te_DesiredVersions t = [] \<and> te_Version t = []"
  by (simp add: target_desired_versions_def copy_string_map_def)

lemma primary_desired_version_least:
  assumes "desired \<noteq> []" "primary_desired_version desired fv fk = (v, k)"
  shows "k \<in> fst ` set desired \<and> (\<forall>k' \<in> fst ` set desired. k \<le> k') \<and> v = smap_get desired k"
proof -
  let ?ks = "sort (map fst desired)"
  have ne: "?ks \<noteq> []" using assms(1) by (metis list.map_disc_iff length_0_conv length_sort)
  have k: "k = hd ?ks" "v = smap_get desired k"
    using assms by (auto simp: primary_desired_version_def Let_def sort_strings_def)
  have "sorted ?ks" by simp
  then have "\<forall>k' \<in> set ?ks. hd ?ks \<le> k'" using ne by (cases ?ks) auto
  moreover have "hd ?ks \<in> set ?ks" using ne by (rule hd_in_set)
  ultimately show ?thesis unfolding k by simp
qed

lemma map_of_fold_set:
  "smap_get (fold (\<lambda>(u, v) m. if u = [] \<or> v = [] then m else smap_set u v m) vs m0) k =
     (case map_of (rev (filter (\<lambda>(u, v). u \<noteq> [] \<and> v \<noteq> []) vs)) k of
        None \<Rightarrow> smap_get m0 k | Some v \<Rightarrow> v)"
proof (induction vs arbitrary: m0)
  case (Cons a vs)
  obtain u v where "a = (u, v)" by (cases a)
  then show ?case using Cons
    by (auto simp: smap_get_set map_add_def split: option.splits)
qed simp

lemma map_of_filter_nonempty:
  "distinct (map fst vs) \<Longrightarrow> k \<noteq> [] \<Longrightarrow>
   map_of (filter (\<lambda>(u, v). u \<noteq> [] \<and> v \<noteq> []) vs) k =
     (case map_of vs k of None \<Rightarrow> None | Some v \<Rightarrow> if v = [] then None else Some v)"
  by (induction vs) (auto simp: map_of_eq_None_iff split: option.splits)

text \<open>
  What a run asks of a unit: its entry in \<^verbatim>\<open>spec.versions\<close> when that is not empty, else
  \<^verbatim>\<open>spec.version\<close> for the default unit.
\<close>

lemma promotionrun_desired_versions_from_spec_get:
  assumes "wf_map (prs_Versions spec)" "k \<noteq> []"
  shows "smap_get (promotionrun_desired_versions_from_spec spec) k =
     (if smap_get (prs_Versions spec) k \<noteq> [] then smap_get (prs_Versions spec) k
      else if k = promotionrun_app_key then prs_Version spec else [])"
proof -
  let ?f = "filter (\<lambda>(u, v). u \<noteq> [] \<and> v \<noteq> []) (prs_Versions spec)"
  have "distinct (map fst ?f)"
    using assms(1) by (auto simp: wf_map_def distinct_map filter_map intro: inj_on_subset)
  then have "map_of (rev ?f) k = map_of ?f k" by (rule map_of_rev_distinct)
  moreover have "map_of ?f k = (case map_of (prs_Versions spec) k of
      None \<Rightarrow> None | Some v \<Rightarrow> if v = [] then None else Some v)"
    using assms unfolding wf_map_def by (rule map_of_filter_nonempty)
  ultimately have rev: "map_of (rev ?f) k = (case map_of (prs_Versions spec) k of
      None \<Rightarrow> None | Some v \<Rightarrow> if v = [] then None else Some v)"
    by simp
  have base: "smap_get (if prs_Version spec \<noteq> [] then [(promotionrun_app_key, prs_Version spec)] else []) k =
      (if k = promotionrun_app_key then prs_Version spec else [])"
    by (cases "prs_Version spec") (simp_all add: smap_get_def)
  show ?thesis
    unfolding promotionrun_desired_versions_from_spec_def map_of_fold_set rev base
    by (simp add: smap_get_def split: option.split)
qed

end
