(* ===== verification/Target_Fsm.thy ===== *)
theory Target_Fsm
  imports Fsm_Machine Gates Actuators Target_Naming
begin

text \<open>
  The state of one tick of the target machine and the two ways a handler moves it:
  \<^verbatim>\<open>transitionTo\<close> and \<^verbatim>\<open>failTarget\<close> of \<^verbatim>\<open>internal/controller/target_controller.go\<close>, with the
  dispatch table of \<^verbatim>\<open>buildFSM\<close> and the decision traces they emit. A tick carries the target
  entry being advanced, the world, and the log of effects. The table is built over any type
  of handlers: \<open>transition_to\<close> consults only the declared successors, which do not depend on
  them, so the recursion of the Go closures through \<^verbatim>\<open>r.fsmMachine\<close> does not appear.
\<close>

section \<open>Ticks\<close>

record 'w tick =
  tk_Target :: target_execution_state
  tk_World :: 'w
  tk_Log :: "effect list"

text \<open>
  What a handler can see: the reconciler's fields and the per-tick values of \<^verbatim>\<open>fsmEnv\<close>.
  \<open>ev_ApprovalURLs\<close> is \<^verbatim>\<open>buildApprovalURLs\<close> (signed tokens), \<open>None\<close> when no approval secret or
  no external URL is configured. The event recorder is present.
\<close>

record 'w target_env =
  ev_Kube :: "'w kube"
  ev_GateRegistry :: "'w gate_registry option"
  ev_ActuatorRegistry :: "'w actuator_registry option"
  ev_Notifier :: bool
  ev_StagePublisher :: bool
  ev_ApprovalURLs :: "(promotion_run \<Rightarrow> target_execution_state \<Rightarrow> 'w \<Rightarrow> (go_error + string \<times> string) \<times> 'w) option"
  ev_PromotionRun :: promotion_run
  ev_Rt :: target

type_synonym 'w handler = "'w tick \<Rightarrow> (go_error + ctrl_result) \<times> 'w tick"

definition emit :: "effect \<Rightarrow> 'w tick \<Rightarrow> 'w tick" where
  "emit e s = s\<lparr>tk_Log := tk_Log s @ [e]\<rparr>"

definition upd_target ::
  "(target_execution_state \<Rightarrow> target_execution_state) \<Rightarrow> 'w tick \<Rightarrow> 'w tick" where
  "upd_target f s = s\<lparr>tk_Target := f (tk_Target s)\<rparr>"

definition set_world :: "'w \<Rightarrow> 'w tick \<Rightarrow> 'w tick" where
  "set_world w s = s\<lparr>tk_World := w\<rparr>"

lemma tick_simps [simp]:
  "tk_Target (emit e s) = tk_Target s" "tk_World (emit e s) = tk_World s"
  "tk_Log (emit e s) = tk_Log s @ [e]"
  "tk_Target (upd_target f s) = f (tk_Target s)" "tk_World (upd_target f s) = tk_World s"
  "tk_Log (upd_target f s) = tk_Log s"
  "tk_Target (set_world w s) = tk_Target s" "tk_World (set_world w s) = w"
  "tk_Log (set_world w s) = tk_Log s"
  by (simp_all add: emit_def upd_target_def set_world_def)

section \<open>The dispatch table\<close>

record 'h target_handlers =
  th_initial :: 'h
  th_pending :: 'h
  th_verification :: 'h
  th_healthCheck :: 'h
  th_soaking :: 'h
  th_metricsCheck :: 'h
  th_waitingApproval :: 'h
  th_applying :: 'h

definition fsm_transition ::
  "target_phase \<Rightarrow> target_phase list \<Rightarrow> 'h \<Rightarrow> (target_phase, 'h) machine \<Rightarrow>
   target_phase fsm_error + (target_phase, 'h) machine" where
  "fsm_transition p next h m =
     must (register_transition PhaseNone
             \<lparr>tr_Phase = p, tr_AllowedNext = next @ [PhaseFailed, PhaseSkipped], tr_Handler = Some h\<rparr> m)"

definition build_fsm ::
  "'h target_handlers \<Rightarrow> target_phase fsm_error + (target_phase, 'h) machine" where
  "build_fsm hs =
     sum_bind (must (register_initial (Some (th_initial hs)) [PhasePending] new_machine)) (\<lambda>m0.
     sum_bind (fsm_transition PhasePending [PhaseVerification] (th_pending hs) m0) (\<lambda>m1.
     sum_bind (fsm_transition PhaseVerification [PhaseHealthCheck] (th_verification hs) m1) (\<lambda>m2.
     sum_bind (fsm_transition PhaseHealthCheck [PhaseSoaking, PhaseMetricsCheck] (th_healthCheck hs) m2) (\<lambda>m3.
     sum_bind (fsm_transition PhaseSoaking [PhaseMetricsCheck] (th_soaking hs) m3) (\<lambda>m4.
     sum_bind (fsm_transition PhaseMetricsCheck [PhaseWaitingApproval, PhaseApplying] (th_metricsCheck hs) m4) (\<lambda>m5.
     sum_bind (fsm_transition PhaseWaitingApproval [PhaseApplying] (th_waitingApproval hs) m5) (\<lambda>m6.
     sum_bind (fsm_transition PhaseApplying [PhaseConverged] (th_applying hs) m6) (\<lambda>m7.
       must (register_terminal PhaseNone [PhaseConverged, PhaseFailed, PhaseSkipped] m7)))))))))"

text \<open>The graph that the comment above \<^verbatim>\<open>buildFSM\<close> documents.\<close>

fun declared_next :: "target_phase \<Rightarrow> target_phase list option" where
  "declared_next PhaseNone = Some [PhasePending]"
| "declared_next PhasePending = Some [PhaseVerification, PhaseFailed, PhaseSkipped]"
| "declared_next PhaseVerification = Some [PhaseHealthCheck, PhaseFailed, PhaseSkipped]"
| "declared_next PhaseHealthCheck = Some [PhaseSoaking, PhaseMetricsCheck, PhaseFailed, PhaseSkipped]"
| "declared_next PhaseSoaking = Some [PhaseMetricsCheck, PhaseFailed, PhaseSkipped]"
| "declared_next PhaseMetricsCheck = Some [PhaseWaitingApproval, PhaseApplying, PhaseFailed, PhaseSkipped]"
| "declared_next PhaseWaitingApproval = Some [PhaseApplying, PhaseFailed, PhaseSkipped]"
| "declared_next PhaseApplying = Some [PhaseConverged, PhaseFailed, PhaseSkipped]"
| "declared_next PhaseConverged = Some []"
| "declared_next PhaseFailed = Some []"
| "declared_next PhaseSkipped = Some []"
| "declared_next (PhaseOther s) = None"

definition target_table :: "'h target_handlers \<Rightarrow> (target_phase, 'h) machine" where
  "target_table hs =
     \<lparr>m_transitions = [(PhasePending, th_pending hs), (PhaseVerification, th_verification hs),
        (PhaseHealthCheck, th_healthCheck hs), (PhaseSoaking, th_soaking hs),
        (PhaseMetricsCheck, th_metricsCheck hs), (PhaseWaitingApproval, th_waitingApproval hs),
        (PhaseApplying, th_applying hs)],
      m_allowedNext = map (\<lambda>p. (p, the (declared_next p)))
        [PhasePending, PhaseVerification, PhaseHealthCheck, PhaseSoaking, PhaseMetricsCheck,
         PhaseWaitingApproval, PhaseApplying],
      m_terminalSet = [PhaseSkipped, PhaseFailed, PhaseConverged],
      m_initialHandler = Some (th_initial hs), m_initialAllowedNext = Some [PhasePending]\<rparr>"

lemmas registration_defs = must_def register_transition_def register_initial_def new_machine_def

lemma build_fsm_table: "build_fsm hs = Inr (target_table hs)"
  by (simp add: build_fsm_def fsm_transition_def registration_defs Let_def target_table_def)

definition the_fsm :: "'h target_handlers \<Rightarrow> (target_phase, 'h) machine" where
  "the_fsm hs = (case build_fsm hs of Inr m \<Rightarrow> m | Inl e \<Rightarrow> new_machine)"

lemma the_fsm_table: "the_fsm hs = target_table hs"
  by (simp add: the_fsm_def build_fsm_table)

definition unit_handlers :: "unit target_handlers" where
  "unit_handlers = \<lparr>th_initial = (), th_pending = (), th_verification = (), th_healthCheck = (),
     th_soaking = (), th_metricsCheck = (), th_waitingApproval = (), th_applying = ()\<rparr>"

text \<open>\<^verbatim>\<open>r.fsmMachine.ValidateTransition\<close>\<close>

definition validate_target_transition :: "target_phase \<Rightarrow> target_phase \<Rightarrow> target_phase fsm_error option" where
  "validate_target_transition from to = validate_transition PhaseNone (the_fsm unit_handlers) from to"

lemma validate_target_transition_any_handlers:
  "validate_target_transition from to = validate_transition PhaseNone (the_fsm hs) from to"
  by (simp add: validate_target_transition_def the_fsm_table validate_transition_def target_table_def)

definition declared_step :: "target_phase \<Rightarrow> target_phase \<Rightarrow> bool" where
  "declared_step from to \<longleftrightarrow> from = to \<or> (case declared_next from of None \<Rightarrow> False | Some ns \<Rightarrow> to \<in> set ns)"

lemma declared_step_valid: "declared_step from to \<Longrightarrow> validate_target_transition from to = None"
  by (cases "from")
    (auto simp: declared_step_def validate_target_transition_def the_fsm_table
      validate_transition_None_iff target_table_def)

section \<open>Messages\<close>

definition arrow :: string where
  "arrow = [CHR 0xE2, CHR 0x86, CHR 0x92]"

definition target_fsm_error_text :: "target_phase fsm_error \<Rightarrow> string" where
  "target_fsm_error_text e =
     (case e of
        NotInAllowedNext from to \<Rightarrow>
          ''fsm: transition '' @ target_phase_string from @ '' '' @ arrow @ '' '' @ target_phase_string to @
          '' is not in declared AllowedNext''
      | UseRegisterInitial \<Rightarrow> ''fsm: use RegisterInitial for the zero-value phase, not Register''
      | HandlerNil p \<Rightarrow> ''fsm: handler for phase '' @ target_phase_string p @ '' is nil''
      | HandlerAlreadyRegistered p \<Rightarrow>
          ''fsm: handler for phase '' @ target_phase_string p @ '' already registered''
      | TerminalIsZero \<Rightarrow> ''fsm: terminal phase cannot be the zero value''
      | TerminalHasHandler p \<Rightarrow>
          ''fsm: phase '' @ target_phase_string p @ '' is registered with a handler, cannot also be terminal''
      | InitialHandlerNil \<Rightarrow> ''fsm: initial handler is nil''
      | InitialAlreadyRegistered \<Rightarrow> ''fsm: initial handler already registered'')"

definition phase_transition_message :: "target_phase \<Rightarrow> target_execution_state \<Rightarrow> string" where
  "phase_transition_message to target =
     (case to of
        PhasePending \<Rightarrow> ''queued for delivery of '' @ te_Version target
      | PhaseVerification \<Rightarrow> ''verifying artifact signature for '' @ te_Version target
      | PhaseHealthCheck \<Rightarrow> ''checking pre-deployment cluster health''
      | PhaseSoaking \<Rightarrow>
          (case te_Gate target of
             Some g \<Rightarrow> (if g_SoakTime (pol_Gate g) \<noteq> []
                        then ''soak timer started ('' @ g_SoakTime (pol_Gate g) @ '')''
                        else ''soak timer started'')
           | None \<Rightarrow> ''soak timer started'')
      | PhaseMetricsCheck \<Rightarrow> ''evaluating metrics gates''
      | PhaseWaitingApproval \<Rightarrow> ''waiting for human approval''
      | PhaseApplying \<Rightarrow> ''applying version '' @ te_Version target @ '' to cluster''
      | PhaseConverged \<Rightarrow> ''cluster converged on '' @ te_Version target
      | PhaseFailed \<Rightarrow> (if te_Message target \<noteq> [] then te_Message target else ''target failed'')
      | PhaseSkipped \<Rightarrow> ''target skipped (onFailure=continue)''
      | PhaseNone \<Rightarrow> []
      | PhaseOther s \<Rightarrow> s)"

definition slot :: "target_execution_state \<Rightarrow> string" where
  "slot t = ''['' @ te_Stage t @ ''/'' @ te_Target t @ '']''"

section \<open>Decision traces of the target controller\<close>

definition target_trace ::
  "'w target_env \<Rightarrow> target_execution_state \<Rightarrow> string \<Rightarrow> string \<Rightarrow> string \<Rightarrow> string \<Rightarrow> string \<Rightarrow>
   trace_evidence list \<Rightarrow> int option \<Rightarrow> decision_trace_spec" where
  "target_trace env t eventType source phase reason message evidence time =
     \<lparr>dt_PromotionRun = run_Name (ev_PromotionRun env), dt_Plan = te_PlanRef t, dt_Stage = te_Stage t,
      dt_Target = te_Target t, dt_EventType = eventType, dt_Source = source, dt_Phase = phase,
      dt_Reason = reason, dt_Message = message, dt_Evidence = evidence, dt_Time = time\<rparr>"

definition emit_gate_decision_trace ::
  "'w target_env \<Rightarrow> string \<Rightarrow> gate_phase \<Rightarrow> string \<Rightarrow> string \<Rightarrow> gate_evidence list \<Rightarrow> 'w tick \<Rightarrow> 'w tick" where
  "emit_gate_decision_trace env gateName phase reason message evidence s =
     emit (TraceEmitted (target_trace env (tk_Target s) ''GateEvaluate'' gateName
             (gate_phase_string phase) reason message
             (map (trace_evidence_from_gate_evidence (kb_FormatFloat (ev_Kube env))) evidence) None)) s"

definition emit_target_phase_decision_trace ::
  "'w target_env \<Rightarrow> target_phase \<Rightarrow> target_phase \<Rightarrow> string \<Rightarrow> string \<Rightarrow> 'w tick \<Rightarrow> 'w tick" where
  "emit_target_phase_decision_trace env fromPhase toPhase reason message s =
     emit (TraceEmitted (target_trace env (tk_Target s) ''Stage'' ''target-controller''
             (target_phase_string toPhase) reason message
             [\<lparr>tre_Type = ''target-fsm'', tre_Source = ''target-controller'',
               tre_Detail = target_phase_decision_evidence (tk_Target s) fromPhase toPhase\<rparr>] None)) s"

definition emit_capability_unsupported_trace ::
  "'w target_env \<Rightarrow> string \<Rightarrow> string \<Rightarrow> string \<Rightarrow> 'w tick \<Rightarrow> 'w tick" where
  "emit_capability_unsupported_trace env eventType reason message s =
     emit (TraceEmitted (target_trace env (tk_Target s) eventType ''target-controller'' ''Skipped''
             reason message [] (Some (kb_Now (ev_Kube env) (tk_World s))))) s"

text \<open>One trace per desired unit whose delivery the cluster reports, in the order of the map.\<close>

definition delivery_trace ::
  "'w target_env \<Rightarrow> cluster \<Rightarrow> string \<times> string \<Rightarrow> 'w tick \<Rightarrow> 'w tick" where
  "delivery_trace env mc kv s =
     (case map_of (cst_Delivery (cl_Status mc)) (fst kv) of
        None \<Rightarrow> s
      | Some entry \<Rightarrow>
          (if cd_Phase entry = DeliveryNone then s
           else emit (TraceEmitted (target_trace env (tk_Target s) ''Delivery'' ''cluster-delivery''
                  (delivery_phase_string (cd_Phase entry)) (delivery_decision_reason entry)
                  (delivery_decision_message (te_Target (tk_Target s)) (fst kv) entry)
                  [\<lparr>tre_Type = ''cluster-delivery'', tre_Source = cl_Name mc,
                    tre_Detail = delivery_decision_evidence (fst kv) (snd kv) entry\<rparr>]
                  (cd_LastAttemptedAt entry))) s))"

definition emit_delivery_decision_traces ::
  "'w target_env \<Rightarrow> cluster \<Rightarrow> smap \<Rightarrow> 'w tick \<Rightarrow> 'w tick" where
  "emit_delivery_decision_traces env mc desiredVersions s = fold (delivery_trace env mc) desiredVersions s"

section \<open>Moving the target\<close>

text \<open>
  The event on the target uses the message as a format string; the model records the message
  as it is, which is the text for messages without a percent sign.
\<close>

definition transition_to :: "'w target_env \<Rightarrow> target_phase \<Rightarrow> 'w tick \<Rightarrow> 'w tick" where
  "transition_to env phase s =
     (let prev = te_Phase (tk_Target s);
          now = rfc_now (ev_Kube env) (tk_World s);
          s1 = (case validate_target_transition prev phase of
                  None \<Rightarrow> s
                | Some err \<Rightarrow>
                    emit (FsmUnexpected (target_phase_string prev) (target_phase_string phase))
                      (emit (RunEvent ''Warning'' ''FSMUnexpectedTransition''
                         (slot (tk_Target s) @ '' '' @ target_fsm_error_text err)) s));
          s2 = upd_target (\<lambda>t. t\<lparr>te_Phase := phase\<rparr>) s1;
          s3 = (if phase = PhaseSoaking \<and> te_StartedAt (tk_Target s2) = []
                then upd_target (\<lambda>t. t\<lparr>te_StartedAt := now\<rparr>) s2 else s2);
          s4 = (if phase = PhaseApplying then upd_target (\<lambda>t. t\<lparr>te_ApplyIssued := False\<rparr>) s3 else s3);
          s5 = upd_target (\<lambda>t. t\<lparr>te_PhaseEnteredAt := now\<rparr>) s4;
          msg = phase_transition_message phase (tk_Target s5);
          s6 = emit (RunEvent ''Normal'' ''PhaseTransition''
                 (slot (tk_Target s5) @ '' '' @ target_phase_string prev @ '' '' @ arrow @ '' '' @
                  target_phase_string phase @ '': '' @ msg)) s5;
          s7 = emit (TargetEvent ''Normal'' (target_phase_string phase) msg) s6
      in emit_target_phase_decision_trace env prev phase ''TargetPhaseTransition'' msg s7)"

definition fail_target :: "'w target_env \<Rightarrow> string \<Rightarrow> 'w tick \<Rightarrow> 'w tick" where
  "fail_target env msg s =
     (let prev = te_Phase (tk_Target s);
          s1 = upd_target (\<lambda>t. t\<lparr>te_FinishedAt := rfc_now (ev_Kube env) (tk_World s), te_Message := msg\<rparr>) s;
          onFailure = (case te_Gate (tk_Target s1) of
                         Some g \<Rightarrow> (if pol_OnFailure g \<noteq> [] then pol_OnFailure g else ''halt'')
                       | None \<Rightarrow> ''halt'')
      in if onFailure = ''continue'' then
           (let s2 = upd_target (\<lambda>t. t\<lparr>te_Phase := PhaseSkipped\<rparr>) s1;
                s3 = emit (RunEvent ''Warning'' ''TargetSkipped''
                       (slot (tk_Target s2) @ '' skipped (onFailure=continue): '' @ msg)) s2;
                s4 = emit (TargetEvent ''Warning'' ''Skipped'' (''skipped: '' @ msg)) s3
            in emit_target_phase_decision_trace env prev PhaseSkipped ''TargetSkippedOnFailureContinue'' msg s4)
         else
           (let s2 = upd_target (\<lambda>t. t\<lparr>te_Phase := PhaseFailed\<rparr>) s1;
                s3 = emit (RunEvent ''Warning'' ''TargetFailed''
                       (slot (tk_Target s2) @ '' failed: '' @ msg)) s2;
                s4 = emit (TargetEvent ''Warning'' ''Failed'' (''failed: '' @ msg)) s3
            in emit_target_phase_decision_trace env prev PhaseFailed ''TargetFailed'' msg s4))"

definition notify_gate_event ::
  "'w target_env \<Rightarrow> string \<Rightarrow> string \<Rightarrow> string \<Rightarrow> bool \<Rightarrow> 'w tick \<Rightarrow> 'w tick" where
  "notify_gate_event env eventType gateName message isFailure s =
     (if \<not> ev_Notifier env then s
      else let t = tk_Target s; msg = (if message = [] then gateName else message)
           in emit (Notified
                \<lparr>ne_Type = eventType, ne_Phase = target_phase_string (te_Phase t),
                 ne_Version = te_Version t, ne_Target = te_Target t,
                 ne_PromotionRun = run_Name (ev_PromotionRun env), ne_Plan = te_PlanRef t,
                 ne_Stage = te_Stage t, ne_Message = gateName @ '': '' @ msg,
                 ne_IsFailure = isFailure, ne_ApproveURL = [], ne_RejectURL = []\<rparr>
                (notification_policy_from (te_Gate t))) s)"

definition publish_gate_event ::
  "'w target_env \<Rightarrow> string \<Rightarrow> string \<Rightarrow> string \<Rightarrow> string \<Rightarrow> string \<Rightarrow> 'w tick \<Rightarrow> 'w tick" where
  "publish_gate_event env gateName kind phase reason message s =
     (if \<not> ev_StagePublisher env then s
      else let t = tk_Target s
           in emit (GateCloudEvent (te_PlanRef t) (te_Stage t) gateName (te_Target t) kind phase reason message) s)"

section \<open>What an operation may change\<close>

text \<open>
  \<open>extends P s s'\<close>: the log of \<open>s'\<close> is that of \<open>s\<close> followed by effects that satisfy \<open>P\<close>. An
  effect is \<open>expected\<close> when it does not report an undeclared transition, and \<open>quiet\<close> when it
  does not call an actuator either.
\<close>

definition extends :: "(effect \<Rightarrow> bool) \<Rightarrow> 'w tick \<Rightarrow> 'w tick \<Rightarrow> bool" where
  "extends P s s' \<longleftrightarrow> (\<exists>es. tk_Log s' = tk_Log s @ es \<and> list_all P es)"

fun expected :: "effect \<Rightarrow> bool" where
  "expected (FsmUnexpected a b) = False"
| "expected e = True"

definition quiet :: "effect \<Rightarrow> bool" where
  "quiet e \<longleftrightarrow> expected e \<and> \<not> delivery_effect e"

lemma quiet_simps [simp]:
  "quiet (RunEvent a b c)" "quiet (TargetEvent a b c)" "quiet (Notified n p)" "quiet (TraceEmitted sp)"
  "quiet (GateEvaluation a b)" "quiet (GateCloudEvent a b c d e f g h)"
  "\<not> quiet (ApplyCalled k r)" "\<not> quiet (ApplyDeltaCalled k r')" "\<not> quiet (RollbackCalled k c' v a)"
  by (simp_all add: quiet_def)

lemma extends_refl [simp, intro]: "extends P s s"
  by (simp add: extends_def)

lemma extends_trans: "extends P s t \<Longrightarrow> extends P t u \<Longrightarrow> extends P s u"
  by (auto simp: extends_def)

lemma extends_mono: "extends P s t \<Longrightarrow> (\<And>e. P e \<Longrightarrow> Q e) \<Longrightarrow> extends Q s t"
  by (auto simp: extends_def list_all_iff)

lemma extends_quiet_expected: "extends quiet s t \<Longrightarrow> extends expected s t"
  by (erule extends_mono) (simp add: quiet_def)

lemma extends_emit: "extends P s t \<Longrightarrow> P e \<Longrightarrow> extends P s (emit e t)"
  by (auto simp: extends_def)

lemma extends_upd_target: "extends P s t \<Longrightarrow> extends P s (upd_target f t)"
  by (simp add: extends_def)

lemma extends_set_world: "extends P s t \<Longrightarrow> extends P s (set_world w t)"
  by (simp add: extends_def)

text \<open>The fields of a target entry that come from its spec or from a reviewer, and no handler writes.\<close>

definition same_spec :: "target_execution_state \<Rightarrow> target_execution_state \<Rightarrow> bool" where
  "same_spec t t' \<longleftrightarrow>
     te_PromotionRunRef t' = te_PromotionRunRef t \<and> te_Target t' = te_Target t \<and>
     te_PlanRef t' = te_PlanRef t \<and> te_Plan t' = te_Plan t \<and> te_Stage t' = te_Stage t \<and>
     te_Version t' = te_Version t \<and> te_Gate t' = te_Gate t \<and> te_AppKey t' = te_AppKey t \<and>
     te_DesiredVersions t' = te_DesiredVersions t \<and> te_Rollback t' = te_Rollback t \<and>
     te_Rejected t' = te_Rejected t \<and> te_RejectedBy t' = te_RejectedBy t"

lemma same_spec_trans: "same_spec t u \<Longrightarrow> same_spec u v \<Longrightarrow> same_spec t v"
  by (simp add: same_spec_def)

text \<open>
  \<open>calm s s'\<close>: only quiet effects, and neither the phase nor the issued flag nor a field of the
  spec moves. Gate evaluation, the heartbeat guard and the bookkeeping of the handlers are calm.
\<close>

definition calm :: "'w tick \<Rightarrow> 'w tick \<Rightarrow> bool" where
  "calm s s' \<longleftrightarrow> extends quiet s s' \<and> same_spec (tk_Target s) (tk_Target s') \<and>
     te_Phase (tk_Target s') = te_Phase (tk_Target s) \<and>
     te_ApplyIssued (tk_Target s') = te_ApplyIssued (tk_Target s)"

named_theorems calm_intros "operations that leave the phase, the issued flag and the spec alone"

lemma calm_refl [simp, calm_intros]: "calm s s"
  by (simp add: calm_def same_spec_def)

lemma calm_trans: "calm s t \<Longrightarrow> calm t u \<Longrightarrow> calm s u"
  by (auto simp: calm_def same_spec_def intro: extends_trans)

lemma calm_emit [calm_intros]: "calm s t \<Longrightarrow> quiet e \<Longrightarrow> calm s (emit e t)"
  by (simp add: calm_def extends_emit)

lemma calm_set_world [calm_intros]: "calm s t \<Longrightarrow> calm s (set_world w t)"
  by (simp add: calm_def extends_set_world)

lemma calm_upd_target:
  "calm s t \<Longrightarrow> same_spec (tk_Target t) (f (tk_Target t)) \<Longrightarrow>
   te_Phase (f (tk_Target t)) = te_Phase (tk_Target t) \<Longrightarrow>
   te_ApplyIssued (f (tk_Target t)) = te_ApplyIssued (tk_Target t) \<Longrightarrow> calm s (upd_target f t)"
  by (auto simp: calm_def same_spec_def extends_upd_target)

lemma calm_emit_gate_decision_trace [calm_intros]:
  "calm s t \<Longrightarrow> calm s (emit_gate_decision_trace env n p r m ev t)"
  by (simp add: emit_gate_decision_trace_def calm_emit)

lemma calm_emit_capability_unsupported_trace [calm_intros]:
  "calm s t \<Longrightarrow> calm s (emit_capability_unsupported_trace env n p r t)"
  by (simp add: emit_capability_unsupported_trace_def calm_emit)

lemma calm_notify_gate_event [calm_intros]: "calm s t \<Longrightarrow> calm s (notify_gate_event env a b c d t)"
  by (simp add: notify_gate_event_def Let_def calm_emit)

lemma calm_publish_gate_event [calm_intros]: "calm s t \<Longrightarrow> calm s (publish_gate_event env a b c d e t)"
  by (simp add: publish_gate_event_def Let_def calm_emit)

lemma emitters_keep [simp]:
  "tk_Target (emit_gate_decision_trace env n p r m ev t) = tk_Target t"
  "tk_World (emit_gate_decision_trace env n p r m ev t) = tk_World t"
  "tk_Target (notify_gate_event env a b c d t) = tk_Target t"
  "tk_World (notify_gate_event env a b c d t) = tk_World t"
  "tk_Target (publish_gate_event env a b c d' e t) = tk_Target t"
  "tk_World (publish_gate_event env a b c d' e t) = tk_World t"
  "tk_Target (emit_capability_unsupported_trace env a b c t) = tk_Target t"
  by (simp_all add: emit_gate_decision_trace_def notify_gate_event_def publish_gate_event_def
      emit_capability_unsupported_trace_def Let_def)

lemma calm_delivery_trace: "calm s t \<Longrightarrow> calm s (delivery_trace env mc kv t)"
  by (simp add: delivery_trace_def calm_emit split: option.split)

lemma calm_emit_delivery_decision_traces [calm_intros]:
  "calm s t \<Longrightarrow> calm s (emit_delivery_decision_traces env mc vs t)"
  unfolding emit_delivery_decision_traces_def
  by (induction vs arbitrary: t) (simp_all add: calm_delivery_trace)

text \<open>What a move does.\<close>

lemma transition_to_moves:
  assumes "declared_step (te_Phase (tk_Target s)) p"
  shows "te_Phase (tk_Target (transition_to env p s)) = p"
    and "same_spec (tk_Target s) (tk_Target (transition_to env p s))"
    and "extends quiet s (transition_to env p s)"
    and "te_ApplyIssued (tk_Target (transition_to env p s)) =
           (p \<noteq> PhaseApplying \<and> te_ApplyIssued (tk_Target s))"
    and "tk_World (transition_to env p s) = tk_World s"
  using declared_step_valid [OF assms]
  by (auto simp: transition_to_def Let_def emit_target_phase_decision_trace_def same_spec_def
      extends_def)

definition on_failure_continue :: "target_execution_state \<Rightarrow> bool" where
  "on_failure_continue t \<longleftrightarrow> (case te_Gate t of None \<Rightarrow> False | Some g \<Rightarrow> pol_OnFailure g = ''continue'')"

lemma fail_target_moves:
  "te_Phase (tk_Target (fail_target env msg s)) =
     (if on_failure_continue (tk_Target s) then PhaseSkipped else PhaseFailed)"
  "same_spec (tk_Target s) (tk_Target (fail_target env msg s))"
  "extends quiet s (fail_target env msg s)"
  "te_ApplyIssued (tk_Target (fail_target env msg s)) = te_ApplyIssued (tk_Target s)"
  "tk_World (fail_target env msg s) = tk_World s"
  "te_Message (tk_Target (fail_target env msg s)) = msg"
  by (simp_all add: fail_target_def Let_def emit_target_phase_decision_trace_def same_spec_def
      extends_def on_failure_continue_def split: option.split)

end
