(* ===== verification/Target_Gates.thy ===== *)
theory Target_Gates
  imports Target_Fsm
begin

text \<open>
  Gate evaluation of the target controller: the per-gate status list
  (\<^verbatim>\<open>findOrCreateGateStatus\<close> and \<^verbatim>\<open>setGateStatus\<close> of \<^verbatim>\<open>internal/controller/helpers.go\<close>), the
  gate context and arguments (\<^verbatim>\<open>target_fsm.go\<close>), the retry delays (\<^verbatim>\<open>requeue.go\<close>), and
  \<^verbatim>\<open>evaluateGateTemplates\<close>, \<^verbatim>\<open>metricsGateTimedOut\<close> and the metrics loop of
  \<^verbatim>\<open>target_controller.go\<close>. The API and the gate packages have two structurally equal types for
  evidence and for condition results; they are one record here, so \<^verbatim>\<open>toAPIGateEvidence\<close> and
  \<^verbatim>\<open>toAPIConditionResults\<close> are identities. When a template cannot be resolved the reconcile
  fails and nothing of the in-memory entry is written, so the model drops the statuses
  gathered before it.
\<close>

section \<open>Delays\<close>

definition requeueFast :: int where "requeueFast = 15 * second"
definition requeueNormal :: int where "requeueNormal = 30 * second"
definition requeueSlow :: int where "requeueSlow = 2 * minute"

definition parse_duration_or_default :: "string \<Rightarrow> int" where
  "parse_duration_or_default s =
     (if s = [] then requeueNormal
      else case parse_duration s of None \<Rightarrow> requeueNormal | Some d \<Rightarrow> d)"

section \<open>Gate statuses\<close>

fun find_or_create_gate_status :: "gate_run_status list \<Rightarrow> string \<Rightarrow> string \<Rightarrow> gate_run_status" where
  "find_or_create_gate_status [] name now =
     \<lparr>gs_Name = name, gs_Phase = GatePending, gs_Message = [], gs_StartedAt = now, gs_FinishedAt = [],
      gs_Attempts = 0, gs_VendorRef = None, gs_Results = [], gs_Evidence = []\<rparr>"
| "find_or_create_gate_status (g # gs) name now =
     (if gs_Name g = name then g else find_or_create_gate_status gs name now)"

fun set_gate_status :: "gate_run_status \<Rightarrow> gate_run_status list \<Rightarrow> gate_run_status list" where
  "set_gate_status gs [] = [gs]"
| "set_gate_status gs (g # rest) = (if gs_Name g = gs_Name gs then gs # rest else g # set_gate_status gs rest)"

text \<open>
  A list of entries with a name each, read by name and replaced by name: an update is read
  back, other names keep their entry, and names stay distinct.
\<close>

locale named_entries =
  fixes name_of :: "'e \<Rightarrow> 'n"
    and get :: "'e list \<Rightarrow> 'n \<Rightarrow> 'e"
    and put :: "'e \<Rightarrow> 'e list \<Rightarrow> 'e list"
  assumes get_put: "get (put e es) n = (if n = name_of e then e else get es n)"
    and names_put: "set (map name_of (put e es)) = insert (name_of e) (set (map name_of es))"
    and distinct_put: "distinct (map name_of es) \<Longrightarrow> distinct (map name_of (put e es))"
begin

lemma get_put_same: "get (put e es) (name_of e) = e"
  by (simp add: get_put)

lemma get_put_twice: "name_of e = name_of f \<Longrightarrow> get (put f (put e es)) n = get (put f es) n"
  by (simp add: get_put)

lemma get_puts_other: "n \<notin> name_of ` set xs \<Longrightarrow> get (fold put xs es) n = get es n"
  by (induction xs arbitrary: es) (simp_all add: get_put)

lemma distinct_puts: "distinct (map name_of es) \<Longrightarrow> distinct (map name_of (fold put xs es))"
  by (induction xs arbitrary: es) (simp_all add: distinct_put)

end

lemma names_set_gate_status:
  "set (map gs_Name (set_gate_status gs gates)) = insert (gs_Name gs) (set (map gs_Name gates))"
  by (induction gs gates rule: set_gate_status.induct) auto

interpretation gate_statuses: named_entries gs_Name
  "\<lambda>gates n. find_or_create_gate_status gates n now" set_gate_status
proof unfold_locales
  fix e es n
  show "find_or_create_gate_status (set_gate_status e es) n now =
      (if n = gs_Name e then e else find_or_create_gate_status es n now)"
    by (induction e es rule: set_gate_status.induct) auto
  show "set (map gs_Name (set_gate_status e es)) = insert (gs_Name e) (set (map gs_Name es))"
    by (rule names_set_gate_status)
  show "distinct (map gs_Name (set_gate_status e es))" if "distinct (map gs_Name es)"
    using that
  proof (induction e es rule: set_gate_status.induct)
    case (2 gs g rest)
    then show ?case using names_set_gate_status [of gs rest] by auto
  qed simp
qed

section \<open>Requests\<close>

definition target_to_gate_context :: "'w target_env \<Rightarrow> target_execution_state \<Rightarrow> gate_context" where
  "target_to_gate_context env t =
     (let run = ev_PromotionRun env
      in \<lparr>gx_Name = sync_name (run_Name run) (te_PlanRef t) (te_Stage t) (te_Target t),
          gx_Namespace = om_Namespace (run_Meta run), gx_PromotionRunRef = run_Name run,
          gx_Target = te_Target t, gx_Plan = te_Plan t, gx_Stage = te_Stage t,
          gx_Version = te_Version t, gx_StartedAt = te_StartedAt t,
          gx_OwnerUID = om_UID (tg_Meta (ev_Rt env)), gx_OwnerName = tg_Name (ev_Rt env)\<rparr>)"

definition user_gate_template_parameters :: "gate_template_spec option \<Rightarrow> smap" where
  "user_gate_template_parameters tmpl =
     (case tmpl of
        None \<Rightarrow> []
      | Some t \<Rightarrow> fold (\<lambda>a m. if ga_Value a \<noteq> [] then smap_set (ga_Name a) (ga_Value a) m else m) (gt_Args t) [])"

definition resolve_sync_args :: "gate_template_spec option \<Rightarrow> gate_context option \<Rightarrow> smap" where
  "resolve_sync_args tmpl ctx =
     (let args = user_gate_template_parameters tmpl
      in case ctx of
           None \<Rightarrow> args
         | Some c \<Rightarrow> smap_set ''stage'' (gx_Stage c) (smap_set ''promotionplan'' (gx_Plan c)
                     (smap_set ''promotionrun'' (gx_PromotionRunRef c) (smap_set ''target'' (gx_Target c)
                     (smap_set ''version'' (gx_Version c) args)))))"

definition template_request ::
  "'w target_env \<Rightarrow> gate_context \<Rightarrow> gate_template_spec \<Rightarrow> target_execution_state \<Rightarrow> gate_request" where
  "template_request env ctx tmpl t =
     (let labels = om_Labels (run_Meta (ev_PromotionRun env))
      in \<lparr>gr_Context = Some ctx, gr_Policy = None, gr_MetricIndex = 0, gr_Template = Some tmpl,
          gr_Args = resolve_sync_args (Some tmpl) (Some ctx),
          gr_Fleet = smap_get labels ''kapro.io/fleet'', gr_Promotion = smap_get labels ''kapro.io/promotion'',
          gr_PromotionRun = run_Name (ev_PromotionRun env), gr_Plan = te_PlanRef t, gr_Stage = te_Stage t,
          gr_Target = te_Target t, gr_Version = te_Version t,
          gr_Parameters = user_gate_template_parameters (Some tmpl)\<rparr>)"

text \<open>Calling a method of a nil registry panics.\<close>

definition resolve_gate :: "'w target_env \<Rightarrow> string \<Rightarrow> go_error + 'w gate option" where
  "resolve_gate env name =
     (case ev_GateRegistry env of
        None \<Rightarrow> Inl ''invalid memory address or nil pointer dereference''
      | Some r \<Rightarrow> gate_resolve r name)"

definition gate_for_template :: "'w target_env \<Rightarrow> gate_template_spec \<Rightarrow> go_error + 'w gate option" where
  "gate_for_template env tmpl =
     (case ev_GateRegistry env of
        None \<Rightarrow> Inl (''GateRegistry not configured: cannot resolve gate type '' @ go_quote (gt_Type tmpl))
      | Some r \<Rightarrow>
          (if gt_Type tmpl = ''plugin'' then
             (case gt_Plugin tmpl of
                None \<Rightarrow> Inl ''plugin gate requires plugin.name''
              | Some name \<Rightarrow> (if name = [] then Inl ''plugin gate requires plugin.name'' else gate_resolve r name))
           else gate_resolve r (gt_Type tmpl)))"

definition gate_metric_name :: "gate_template_spec \<Rightarrow> string" where
  "gate_metric_name tmpl =
     (case gt_Plugin tmpl of
        Some name \<Rightarrow> (if gt_Type tmpl = ''plugin'' \<and> name \<noteq> [] then name else gt_Type tmpl)
      | None \<Rightarrow> gt_Type tmpl)"

definition gate_metric_result :: "gate_phase \<Rightarrow> string" where
  "gate_metric_result phase =
     (case phase of GatePassed \<Rightarrow> ''passed'' | GateFailed \<Rightarrow> ''failed'' | _ \<Rightarrow> ''inconclusive'')"

section \<open>Gate templates\<close>

definition template_name :: "nat \<Rightarrow> gate_template_spec \<Rightarrow> string" where
  "template_name j tmpl = (if gt_Name tmpl = [] then ''gate-'' @ string_of_nat j else gt_Name tmpl)"

definition max_attempts :: "gate_template_spec \<Rightarrow> int" where
  "max_attempts tmpl = (if gt_MaxAttempts tmpl \<le> 0 then 3 else gt_MaxAttempts tmpl)"

definition first_evaluation :: "gate_run_status \<Rightarrow> bool" where
  "first_evaluation gs \<longleftrightarrow> gs_Attempts gs = 0 \<and> gs_Phase gs \<noteq> GatePassed \<and> gs_Phase gs \<noteq> GateFailed"

text \<open>
  One template: the new status list, whether it blocks the target, and the delay it asks for.
\<close>

type_synonym template_outcome = "gate_run_status list \<times> bool \<times> int option"

definition status_after_error :: "string \<Rightarrow> gate_template_spec \<Rightarrow> string \<Rightarrow> go_error \<Rightarrow> gate_run_status \<Rightarrow> gate_run_status" where
  "status_after_error gateName tmpl now err gs =
     (let gs1 = gs\<lparr>gs_Phase := GateRunning, gs_Message := err, gs_Attempts := gs_Attempts gs + 1\<rparr>
      in if gs_Attempts gs1 \<ge> max_attempts tmpl
         then gs1\<lparr>gs_Phase := GateFailed,
                  gs_Message := ''gate '' @ gateName @ '' exceeded maxAttempts='' @ itoa (max_attempts tmpl) @
                                '' after evaluation errors: '' @ err,
                  gs_FinishedAt := now\<rparr>
         else gs1)"

definition template_after_error ::
  "'w target_env \<Rightarrow> string \<Rightarrow> gate_template_spec \<Rightarrow> string \<Rightarrow> go_error \<Rightarrow> gate_run_status \<Rightarrow>
   gate_run_status list \<Rightarrow> 'w tick \<Rightarrow> template_outcome \<times> 'w tick" where
  "template_after_error env gateName tmpl now err gs gates s =
     (let gs' = status_after_error gateName tmpl now err gs
      in ((set_gate_status gs' gates, True, None),
          emit_gate_decision_trace env gateName (gs_Phase gs') ''GateEvaluationError'' (gs_Message gs') []
            (emit (GateEvaluation (gate_metric_name tmpl) ''error'') s)))"

definition reported_phase :: "gate_result \<Rightarrow> gate_phase" where
  "reported_phase result = (if res_Phase result = GateNone then GateInconclusive else res_Phase result)"

definition record_result :: "gate_result \<Rightarrow> gate_run_status \<Rightarrow> gate_run_status" where
  "record_result result gs =
     (let gs1 = gs\<lparr>gs_Phase := reported_phase result, gs_Message := res_Message result,
                   gs_Attempts := gs_Attempts gs + 1, gs_VendorRef := res_VendorRef result,
                   gs_Evidence := res_Evidence result\<rparr>
      in if res_Results result \<noteq> [] then gs1\<lparr>gs_Results := res_Results result\<rparr> else gs1)"

definition attempts_exhausted :: "gate_template_spec \<Rightarrow> gate_result \<Rightarrow> gate_run_status \<Rightarrow> bool" where
  "attempts_exhausted tmpl result gs \<longleftrightarrow>
     gs_Attempts gs + 1 \<ge> max_attempts tmpl \<and> reported_phase result \<noteq> GatePassed"

definition status_after_result ::
  "string \<Rightarrow> gate_template_spec \<Rightarrow> string \<Rightarrow> gate_result \<Rightarrow> gate_run_status \<Rightarrow> gate_run_status" where
  "status_after_result gateName tmpl now result gs =
     (let gs1 = record_result result gs; phase = reported_phase result;
          gs2 = (if phase \<noteq> GateRunning \<and> phase \<noteq> GatePending then gs1\<lparr>gs_FinishedAt := now\<rparr> else gs1)
      in if attempts_exhausted tmpl result gs
         then gs2\<lparr>gs_Phase := GateFailed,
                  gs_Message := ''gate '' @ gateName @ '' exceeded maxAttempts='' @ itoa (max_attempts tmpl),
                  gs_FinishedAt := now\<rparr>
         else gs2)"

definition template_after_result ::
  "'w target_env \<Rightarrow> string \<Rightarrow> gate_template_spec \<Rightarrow> string \<Rightarrow> gate_result \<Rightarrow> gate_run_status \<Rightarrow>
   gate_run_status list \<Rightarrow> 'w tick \<Rightarrow> template_outcome \<times> 'w tick" where
  "template_after_result env gateName tmpl now result gs gates s =
     (let exhausted = attempts_exhausted tmpl result gs;
          gs1 = status_after_result gateName tmpl now result gs;
          phase = gs_Phase gs1;
          gates1 = set_gate_status gs1 gates;
          delay = parse_duration_or_default (res_RetryAfter result);
          s1 = emit (GateEvaluation (gate_metric_name tmpl) (gate_metric_result (reported_phase result))) s;
          s2 = emit (RunEvent ''Normal'' ''GateEvaluated''
                 (''gate '' @ gateName @ '' for '' @ te_Target (tk_Target s) @ '': '' @ gate_phase_string phase @
                  '' '' @ [CHR 0xE2, CHR 0x80, CHR 0x94] @ '' '' @ res_Message result)) s1;
          s3 = emit_gate_decision_trace env gateName phase ''GateEvaluated'' (gs_Message gs1) (res_Evidence result) s2
      in case phase of
           GateFailed \<Rightarrow>
             (if gt_FailurePolicy tmpl = ''skip'' then
                ((set_gate_status (gs1\<lparr>gs_Phase := GatePassed, gs_Message := ''skipped (failurePolicy=skip)'',
                                       gs_FinishedAt := now\<rparr>) gates1, False, None), s3)
              else if gt_FailurePolicy tmpl = ''retry'' \<and> \<not> exhausted then
                ((set_gate_status (gs1\<lparr>gs_Phase := GateRunning,
                                       gs_Message := ''retrying after failure: '' @ res_Message result,
                                       gs_FinishedAt := []\<rparr>) gates1, True, Some delay), s3)
              else
                ((gates1, True, None),
                 publish_gate_event env gateName ''failed'' ''Failed'' ''gate evaluation failed'' (gs_Message gs1)
                   (notify_gate_event env ''kapro.promotionrun.gate.failed'' gateName (gs_Message gs1) True s3)))
         | GateInconclusive \<Rightarrow>
             (if gt_InconclusivePolicy tmpl = ''skip'' then
                ((set_gate_status (gs1\<lparr>gs_Phase := GatePassed, gs_Message := ''skipped (inconclusivePolicy=skip)'',
                                       gs_FinishedAt := now\<rparr>) gates1, False, None), s3)
              else if gt_InconclusivePolicy tmpl = ''halt'' then
                ((set_gate_status (gs1\<lparr>gs_Phase := GateFailed, gs_FinishedAt := now\<rparr>) gates1, True, None), s3)
              else ((gates1, True, Some delay), s3))
         | GateRunning \<Rightarrow> ((gates1, True, Some delay), s3)
         | GatePending \<Rightarrow> ((gates1, True, Some delay), s3)
         | GatePassed \<Rightarrow>
             ((gates1, False, None),
              publish_gate_event env gateName ''passed'' ''Passed'' ''gate passed'' (gs_Message gs1)
                (notify_gate_event env ''kapro.promotionrun.gate.passed'' gateName (gs_Message gs1) False s3))
         | _ \<Rightarrow> ((gates1, False, None), s3))"

definition evaluate_template ::
  "'w target_env \<Rightarrow> gate_context \<Rightarrow> string \<Rightarrow> nat \<Rightarrow> gate_template_spec \<Rightarrow> gate_run_status list \<Rightarrow>
   'w tick \<Rightarrow> (go_error + template_outcome) \<times> 'w tick" where
  "evaluate_template env ctx now j tmpl gates s =
     (let gateName = template_name j tmpl;
          gs = find_or_create_gate_status gates gateName now;
          s1 = (if first_evaluation gs
                then publish_gate_event env gateName ''waiting'' ''Running'' ''gate evaluation started'' [] s
                else s)
      in if gs_Phase gs = GatePassed then (Inr (gates, False, None), s1)
         else if gs_Phase gs = GateFailed then (Inr (gates, True, None), s1)
         else case gate_for_template env tmpl of
           Inl e \<Rightarrow> (Inl (''gate for template '' @ go_quote gateName @ '': '' @ e), s1)
         | Inr g \<Rightarrow>
             (case gate_evaluate g (template_request env ctx tmpl (tk_Target s1)) (tk_World s1) of
                (Inl err, w) \<Rightarrow>
                  map_prod Inr id (template_after_error env gateName tmpl now err gs gates (set_world w s1))
              | (Inr result, w) \<Rightarrow>
                  map_prod Inr id (template_after_result env gateName tmpl now result gs gates (set_world w s1))))"

definition shorten_requeue :: "int \<Rightarrow> int option \<Rightarrow> int" where
  "shorten_requeue requeueAfter delay =
     (case delay of
        None \<Rightarrow> requeueAfter
      | Some d \<Rightarrow> (if d < requeueAfter \<or> requeueAfter = requeueNormal then d else requeueAfter))"

fun evaluate_templates ::
  "'w target_env \<Rightarrow> gate_context \<Rightarrow> string \<Rightarrow> nat \<Rightarrow> gate_template_spec list \<Rightarrow> gate_run_status list \<Rightarrow>
   bool \<Rightarrow> int \<Rightarrow> 'w tick \<Rightarrow> (go_error + (gate_run_status list \<times> bool \<times> int)) \<times> 'w tick" where
  "evaluate_templates env ctx now j [] gates allPassed requeueAfter s = (Inr (gates, allPassed, requeueAfter), s)"
| "evaluate_templates env ctx now j (tmpl # tmpls) gates allPassed requeueAfter s =
     (case evaluate_template env ctx now j tmpl gates s of
        (Inl e, s') \<Rightarrow> (Inl e, s')
      | (Inr (gates', blocks, delay), s') \<Rightarrow>
          evaluate_templates env ctx now (Suc j) tmpls gates' (allPassed \<and> \<not> blocks)
            (shorten_requeue requeueAfter delay) s')"

definition evaluate_gate_templates ::
  "'w target_env \<Rightarrow> gate_context \<Rightarrow> gate_policy_spec \<Rightarrow> 'w tick \<Rightarrow> (go_error + bool \<times> int) \<times> 'w tick" where
  "evaluate_gate_templates env ctx policy s =
     (case evaluate_templates env ctx (rfc_now (ev_Kube env) (tk_World s)) 0 (g_Templates (pol_Gate policy))
             (te_Gates (tk_Target s)) True requeueNormal s of
        (Inl e, s') \<Rightarrow> (Inl e, s')
      | (Inr (gates, allPassed, requeueAfter), s') \<Rightarrow>
          (Inr (allPassed, requeueAfter), upd_target (\<lambda>t. t\<lparr>te_Gates := gates\<rparr>) s'))"

section \<open>The metrics timeout\<close>

definition metrics_gate_timed_out ::
  "int \<Rightarrow> target_execution_state \<Rightarrow> gate_policy_spec \<Rightarrow> string option" where
  "metrics_gate_timed_out now t policy =
     (let gateTimeout = g_GateTimeout (pol_Gate policy)
      in if gateTimeout = [] \<or> te_PhaseEnteredAt t = [] then None
         else case parse_duration gateTimeout of
           None \<Rightarrow> Some (''invalid gateTimeout '' @ go_quote gateTimeout)
         | Some timeout \<Rightarrow>
             (case parse_rfc3339 (te_PhaseEnteredAt t) of
                None \<Rightarrow> None
              | Some enteredAt \<Rightarrow>
                  (if now - enteredAt < timeout then None
                   else Some (''metrics gate timed out after '' @ gateTimeout @ '' (onFailure='' @
                              pol_OnFailure policy @ '')''))))"

section \<open>The metrics loop\<close>

text \<open>
  \<open>Inr None\<close>: every metric gate passed. \<open>Inr (Some r)\<close>: the handler returns \<open>r\<close> at once.
\<close>

definition metric_request ::
  "gate_context \<Rightarrow> gate_policy_spec \<Rightarrow> nat \<Rightarrow> gate_request" where
  "metric_request ctx policy idx =
     (phase_gate_request ctx (Some policy))\<lparr>gr_MetricIndex := int idx\<rparr>"

definition metric_gate_name :: "nat \<Rightarrow> string" where
  "metric_gate_name idx = ''metrics['' @ string_of_nat idx @ '']''"

definition metric_status :: "string \<Rightarrow> gate_result \<Rightarrow> gate_run_status \<Rightarrow> gate_run_status" where
  "metric_status now result gs =
     (let gs1 = record_result result gs; phase = reported_phase result
      in if phase \<noteq> GateRunning \<and> phase \<noteq> GatePending \<and> phase \<noteq> GateInconclusive
         then gs1\<lparr>gs_FinishedAt := now\<rparr> else gs1)"

definition fail_or_retry ::
  "'w target_env \<Rightarrow> gate_policy_spec \<Rightarrow> int \<Rightarrow> 'w tick \<Rightarrow> ctrl_result \<times> 'w tick" where
  "fail_or_retry env policy delay s =
     (case metrics_gate_timed_out (kb_Now (ev_Kube env) (tk_World s)) (tk_Target s) policy of
        Some failMsg \<Rightarrow> (no_requeue, fail_target env failMsg s)
      | None \<Rightarrow> (requeue_after delay, s))"

definition metric_blocked ::
  "'w target_env \<Rightarrow> gate_policy_spec \<Rightarrow> nat \<Rightarrow> gate_result \<Rightarrow> 'w tick \<Rightarrow> ctrl_result \<times> 'w tick" where
  "metric_blocked env policy idx result s =
     (let s1 = emit (RunEvent ''Warning'' ''GateFailed''
                 (slot (tk_Target s) @ '' MetricsGate['' @ string_of_nat idx @ '']: '' @ res_Message result)) s;
          s2 = emit (TargetEvent ''Warning'' ''MetricsFailed''
                 (''metrics gate['' @ string_of_nat idx @ '']: '' @ res_Message result)) s1;
          s3 = notify_gate_event env ''kapro.promotionrun.gate.failed'' (metric_gate_name idx) (res_Message result) True s2
      in fail_or_retry env policy (parse_duration_or_default (res_RetryAfter result)) s3)"

fun evaluate_metrics ::
  "'w target_env \<Rightarrow> gate_context \<Rightarrow> gate_policy_spec \<Rightarrow> 'w gate option \<Rightarrow> string \<Rightarrow> nat \<Rightarrow>
   metric_gate list \<Rightarrow> gate_run_status list \<Rightarrow> 'w tick \<Rightarrow> ctrl_result option \<times> 'w tick" where
  "evaluate_metrics env ctx policy g now idx [] gates s = (None, s)"
| "evaluate_metrics env ctx policy g now idx (metric # metrics) gates s =
     (let gateName = metric_gate_name idx; gs = find_or_create_gate_status gates gateName now
      in case gate_evaluate g (metric_request ctx policy idx) (tk_World s) of
           (Inl err, w) \<Rightarrow>
             (Some (requeue_after requeueNormal),
              emit_gate_decision_trace env gateName GateRunning ''GateEvaluationError'' err [] (set_world w s))
         | (Inr result, w) \<Rightarrow>
             (let gates' = set_gate_status (metric_status now result gs) gates;
                  s1 = upd_target (\<lambda>t. t\<lparr>te_Gates := gates'\<rparr>) (set_world w s);
                  s2 = emit_gate_decision_trace env gateName (reported_phase result) ''MetricsGateEvaluated''
                         (res_Message result) (res_Evidence result) s1
              in if is_passed result then evaluate_metrics env ctx policy g now (Suc idx) metrics gates' s2
                 else map_prod Some id (metric_blocked env policy idx result s2)))"

end
