(* ===== verification/Target_Handlers.thy ===== *)
theory Target_Handlers
  imports Target_Gates
begin

text \<open>
  The phase handlers of \<^verbatim>\<open>internal/controller/target_controller.go\<close> and the heartbeat guard of
  \<^verbatim>\<open>heartbeat.go\<close>. A handler maps a tick to its result (or error) and the tick it leaves. Log
  lines are left out; everything else a handler does to the target, to the world or through an
  emitter is in the model.
\<close>

section \<open>Heartbeat\<close>

text \<open>\<open>None\<close>: proceed. \<open>Some r\<close>: the handler returns \<open>r\<close> (the guard never returns an error).\<close>

definition clear_heartbeat :: "target_execution_state \<Rightarrow> target_execution_state" where
  "clear_heartbeat t = t\<lparr>te_HeartbeatStaleSince := [], te_HeartbeatStaleCount := 0\<rparr>"

definition defer_stale ::
  "'w target_env \<Rightarrow> string \<Rightarrow> string \<Rightarrow> string \<Rightarrow> 'w tick \<Rightarrow> ctrl_result option \<times> 'w tick" where
  "defer_stale env reason eventMsg message s =
     (let s1 = upd_target (\<lambda>t. t\<lparr>te_HeartbeatStaleCount := te_HeartbeatStaleCount t + 1\<rparr>) s;
          s2 = (if te_HeartbeatStaleSince (tk_Target s1) = []
                then emit (RunEvent ''Warning'' reason eventMsg)
                       (upd_target (\<lambda>t. t\<lparr>te_HeartbeatStaleSince := rfc_now (ev_Kube env) (tk_World s)\<rparr>) s1)
                else s1)
      in (Some (requeue_after requeueNormal), upd_target (\<lambda>t. t\<lparr>te_Message := message\<rparr>) s2))"

definition require_fresh_heartbeat ::
  "'w target_env \<Rightarrow> cluster \<Rightarrow> 'w tick \<Rightarrow> ctrl_result option \<times> 'w tick" where
  "require_fresh_heartbeat env mc s =
     (let t = tk_Target s;
          ready = kb_FindStatusCondition (ev_Kube env) (cst_Conditions (cl_Status mc)) ''Ready''
      in if sb_Mode (cs_Substrate (cl_Spec mc)) \<noteq> ModePull then (None, upd_target clear_heartbeat s)
         else case ready of
           Some c \<Rightarrow>
             (if c_Status c = ''True'' then (None, upd_target clear_heartbeat s)
              else if c_Status c = ''False'' \<and> c_Reason c = ''Unreachable'' then
                defer_stale env ''ClusterUnreachable''
                  (slot t @ '' cluster '' @ cl_Name mc @
                   '' is Unreachable per heartbeat threshold; deferring promotion: '' @ c_Message c)
                  (''cluster '' @ cl_Name mc @ '' Unreachable: '' @ c_Message c) s
              else
                defer_stale env (c_Reason c)
                  (slot t @ '' cluster '' @ cl_Name mc @ '' heartbeat not fresh: '' @ c_Message c)
                  (''cluster '' @ cl_Name mc @ '' heartbeat not fresh ('' @ c_Reason c @ ''): '' @ c_Message c) s)
         | None \<Rightarrow>
             defer_stale env ''HeartbeatNotReady''
               (slot t @ '' cluster '' @ cl_Name mc @
                '' heartbeat not fresh: FleetCluster Ready condition not yet observed'')
               (''cluster '' @ cl_Name mc @
                '' heartbeat not fresh (HeartbeatNotReady): FleetCluster Ready condition not yet observed'') s)"

section \<open>Reading the cluster\<close>

definition missingMCFailThreshold :: int where "missingMCFailThreshold = 10"

text \<open>
  The block that three handlers open with: read the cluster, count misses, reset the count on
  success, then require a fresh heartbeat. \<open>Inl\<close> is what the handler returns.
\<close>

definition cluster_missing :: "'w target_env \<Rightarrow> 'w tick \<Rightarrow> (go_error + ctrl_result) \<times> 'w tick" where
  "cluster_missing env s =
     (let s1 = upd_target (\<lambda>t. t\<lparr>te_MissingMCCount := te_MissingMCCount t + 1\<rparr>) s; t = tk_Target s1
      in if te_MissingMCCount t \<ge> missingMCFailThreshold
         then (Inr no_requeue,
               fail_target env (''FleetCluster '' @ go_quote (te_Target t) @ '' not found after '' @
                                itoa (te_MissingMCCount t) @ '' attempts'') s1)
         else (Inr (requeue_after requeueFast), s1))"

definition with_fresh_cluster ::
  "'w target_env \<Rightarrow> (cluster \<Rightarrow> 'w handler) \<Rightarrow> 'w handler" where
  "with_fresh_cluster env k s =
     (case kb_GetCluster (ev_Kube env) (te_Target (tk_Target s)) (tk_World s) of
        (Inl err, w) \<Rightarrow>
          (if is_not_found err then cluster_missing env (set_world w s)
           else (Inl (api_error_text err), set_world w s))
      | (Inr mc, w) \<Rightarrow>
          (case require_fresh_heartbeat env mc
                  (upd_target (\<lambda>t. t\<lparr>te_MissingMCCount := 0\<rparr>) (set_world w s)) of
             (Some r, s') \<Rightarrow> (Inr r, s')
           | (None, s') \<Rightarrow> k mc s'))"

section \<open>From the first tick to the health check\<close>

definition handle_initial :: "'w target_env \<Rightarrow> 'w handler" where
  "handle_initial env s = (Inr requeue_now, transition_to env PhasePending s)"

definition handle_pending :: "'w target_env \<Rightarrow> 'w handler" where
  "handle_pending env =
     with_fresh_cluster env (\<lambda>mc s. (Inr requeue_now, transition_to env PhaseVerification s))"

definition handle_verification :: "'w target_env \<Rightarrow> 'w handler" where
  "handle_verification env s =
     (case resolve_gate env ''verification'' of
        Inl err \<Rightarrow> (Inl (''verification gate: '' @ err), s)
      | Inr g \<Rightarrow>
          (case gate_evaluate g (phase_gate_request (target_to_gate_context env (tk_Target s)) (te_Gate (tk_Target s)))
                  (tk_World s) of
             (Inl err, w) \<Rightarrow> (Inl (''verification gate: '' @ err), set_world w s)
           | (Inr result, w) \<Rightarrow>
               (let s0 = set_world w s; t = tk_Target s0
                in if is_passed result then
                     (let s1 = emit (RunEvent ''Normal'' ''GatePassed'' (slot t @ '' artifact signature verified'')) s0;
                          s2 = emit (TargetEvent ''Normal'' ''VerificationPassed'' ''artifact signature verified'') s1;
                          s3 = notify_gate_event env ''kapro.promotionrun.gate.passed'' ''verification''
                                 ''artifact signature verified'' False s2
                      in (Inr requeue_now, transition_to env PhaseHealthCheck s3))
                   else if res_Phase result = GateFailed then
                     (Inr no_requeue,
                      fail_target env (res_Message result)
                        (notify_gate_event env ''kapro.promotionrun.gate.failed'' ''verification''
                           (res_Message result) True s0))
                   else
                     (let s1 = emit (RunEvent ''Warning'' ''GateFailed''
                                 (slot t @ '' verification: '' @ res_Message result)) s0;
                          s2 = emit (TargetEvent ''Warning'' ''VerificationFailed''
                                 (''verification: '' @ res_Message result)) s1
                      in (Inr (requeue_after (parse_duration_or_default (res_RetryAfter result))),
                          notify_gate_event env ''kapro.promotionrun.gate.failed'' ''verification''
                            (res_Message result) True s2)))))"

definition transition_to_soak_or_metrics :: "'w target_env \<Rightarrow> 'w handler" where
  "transition_to_soak_or_metrics env s =
     (if (case te_Gate (tk_Target s) of None \<Rightarrow> True | Some g \<Rightarrow> g_SoakTime (pol_Gate g) = [])
      then (Inr requeue_now, transition_to env PhaseMetricsCheck s)
      else (Inr requeue_now, transition_to env PhaseSoaking s))"

definition handle_health_check :: "'w target_env \<Rightarrow> 'w handler" where
  "handle_health_check env =
     with_fresh_cluster env (\<lambda>mc s.
       let h = cst_Health (cl_Status mc)
       in if h_AllWorkloadsReady h then transition_to_soak_or_metrics env s
          else if h_FailedWorkloads h > 0 then
            (Inr no_requeue,
             fail_target env (''health check: '' @ itoa (h_FailedWorkloads h) @ ''/'' @ itoa (h_TotalWorkloads h) @
                              '' workloads failed: '' @ h_Message h) s)
          else (Inr (requeue_after requeueNormal), s))"

section \<open>Soaking, metrics, approval\<close>

definition handle_soaking :: "'w target_env \<Rightarrow> 'w handler" where
  "handle_soaking env s =
     (if te_Gate (tk_Target s) = None then (Inr requeue_now, transition_to env PhaseMetricsCheck s)
      else case resolve_gate env ''soak'' of
        Inl err \<Rightarrow> (Inl (''soak gate: '' @ err), s)
      | Inr g \<Rightarrow>
          (case gate_evaluate g (phase_gate_request (target_to_gate_context env (tk_Target s)) (te_Gate (tk_Target s)))
                  (tk_World s) of
             (Inl err, w) \<Rightarrow> (Inl (''soak gate: '' @ err), set_world w s)
           | (Inr result, w) \<Rightarrow>
               (let s0 = emit_gate_decision_trace env ''soak'' (res_Phase result) ''SoakEvaluated''
                           (res_Message result) (res_Evidence result) (set_world w s)
                in if is_passed result then
                     (let s1 = emit (RunEvent ''Normal'' ''GatePassed'' (slot (tk_Target s0) @ '' soak timer completed'')) s0;
                          s2 = emit (TargetEvent ''Normal'' ''SoakPassed'' ''soak timer completed'') s1;
                          s3 = notify_gate_event env ''kapro.promotionrun.gate.passed'' ''soak'' ''soak timer completed'' False s2
                      in (Inr requeue_now, transition_to env PhaseMetricsCheck s3))
                   else (Inr (requeue_after (parse_duration_or_default (res_RetryAfter result))), s0))))"

definition approval_required :: "target_execution_state \<Rightarrow> bool" where
  "approval_required t \<longleftrightarrow>
     (case te_Gate t of
        None \<Rightarrow> False
      | Some g \<Rightarrow> (case pol_Approval g of None \<Rightarrow> False | Some a \<Rightarrow> ac_Required a))"

definition next_after_metrics :: "'w target_env \<Rightarrow> 'w handler" where
  "next_after_metrics env s =
     (if approval_required (tk_Target s) then (Inr requeue_now, transition_to env PhaseWaitingApproval s)
      else (Inr requeue_now, transition_to env PhaseApplying s))"

definition check_templates ::
  "'w target_env \<Rightarrow> gate_context \<Rightarrow> gate_policy_spec \<Rightarrow> 'w handler" where
  "check_templates env ctx policy s =
     (if g_Templates (pol_Gate policy) = [] then next_after_metrics env s
      else case evaluate_gate_templates env ctx policy s of
        (Inl e, s') \<Rightarrow> (Inl (''evaluateGateTemplates: '' @ e), s')
      | (Inr (allPassed, requeueAfter), s') \<Rightarrow>
          (if allPassed then next_after_metrics env s'
           else map_prod Inr id (fail_or_retry env policy requeueAfter s')))"

definition handle_metrics_check :: "'w target_env \<Rightarrow> 'w handler" where
  "handle_metrics_check env s =
     (case te_Gate (tk_Target s) of
        None \<Rightarrow> next_after_metrics env s
      | Some policy \<Rightarrow>
          (if g_Metrics (pol_Gate policy) = [] \<and> g_Templates (pol_Gate policy) = []
           then next_after_metrics env s
           else
             let ctx = target_to_gate_context env (tk_Target s); now = rfc_now (ev_Kube env) (tk_World s)
             in if g_Metrics (pol_Gate policy) = [] then check_templates env ctx policy s
                else case resolve_gate env ''metrics'' of
                  Inl err \<Rightarrow> (Inl (''metrics gate: '' @ err), s)
                | Inr g \<Rightarrow>
                    (case evaluate_metrics env ctx policy g now 0 (g_Metrics (pol_Gate policy))
                            (te_Gates (tk_Target s)) s of
                       (Some r, s') \<Rightarrow> (Inr r, s')
                     | (None, s') \<Rightarrow>
                         check_templates env ctx policy
                           (notify_gate_event env ''kapro.promotionrun.gate.passed'' ''metrics''
                              ''metrics gates passed'' False s'))))"

definition handle_waiting_approval :: "'w target_env \<Rightarrow> 'w handler" where
  "handle_waiting_approval env s =
     (if te_Rejected (tk_Target s) then
        (let by = (if te_RejectedBy (tk_Target s) = [] then ''unknown'' else te_RejectedBy (tk_Target s))
         in (Inr no_requeue, fail_target env (''rejected by '' @ by) s))
      else
        let s1 = (if te_ApprovalSentAt (tk_Target s) = []
                  then upd_target (\<lambda>t. t\<lparr>te_ApprovalSentAt := rfc_now (ev_Kube env) (tk_World s)\<rparr>) s
                  else s)
        in case resolve_gate env ''approval'' of
             Inl err \<Rightarrow> (Inl (''approval gate: '' @ err), s1)
           | Inr g \<Rightarrow>
               (case gate_evaluate g (phase_gate_request (target_to_gate_context env (tk_Target s1))
                        (te_Gate (tk_Target s1))) (tk_World s1) of
                  (Inl err, w) \<Rightarrow> (Inl (''approval gate: '' @ err), set_world w s1)
                | (Inr result, w) \<Rightarrow>
                    (let s2 = emit_gate_decision_trace env ''approval'' (res_Phase result)
                                ''ApprovalGateEvaluated'' (res_Message result) (res_Evidence result) (set_world w s1)
                     in if is_passed result then (Inr requeue_now, transition_to env PhaseApplying s2)
                        else (Inr (requeue_after requeueNormal),
                              emit (RunEvent ''Normal'' ''WaitingApproval''
                                (''Waiting for Approval CR for '' @ te_Target (tk_Target s2))) s2))))"

section \<open>Applying\<close>

text \<open>\<^verbatim>\<open>applyDesiredVersions\<close>: one delta, or one \<^verbatim>\<open>Apply\<close> per unit that is not at its version.\<close>

fun apply_each ::
  "string \<Rightarrow> 'w actuator \<Rightarrow> cluster \<Rightarrow> smap \<Rightarrow> int \<Rightarrow> 'w tick \<Rightarrow> (go_error + int) \<times> 'w tick" where
  "apply_each key act mc [] applied s = (Inr applied, s)"
| "apply_each key act mc ((appKey, version) # rest) applied s =
     (let current = smap_get (cst_CurrentVersions (cl_Status mc)) appKey
      in if current = version then apply_each key act mc rest applied s
         else let req = \<lparr>ar_Cluster = mc, ar_Version = version, ar_PreviousVersion = current, ar_AppKey = appKey\<rparr>;
                  s1 = emit (ApplyCalled key req) s
              in case act_Apply act req (tk_World s1) of
                   (Some err, w) \<Rightarrow> (Inl err, set_world w s1)
                 | (None, w) \<Rightarrow> apply_each key act mc rest (applied + 1) (set_world w s1))"

definition apply_desired_versions ::
  "string \<Rightarrow> 'w actuator \<Rightarrow> capabilities \<Rightarrow> cluster \<Rightarrow> smap \<Rightarrow> 'w tick \<Rightarrow> (go_error + int) \<times> 'w tick" where
  "apply_desired_versions key act caps mc desiredVersions s =
     (if supports_actuator_delta caps then
        (let req = \<lparr>dr_Cluster = mc, dr_DesiredVersions = desiredVersions\<rparr>;
             s1 = emit (ApplyDeltaCalled key req) s
         in case act_ApplyDelta act req (tk_World s1) of (r, w) \<Rightarrow> (r, set_world w s1))
      else apply_each key act mc desiredVersions 0 s)"

definition converge :: "'w target_env \<Rightarrow> 'w handler" where
  "converge env s =
     (let s1 = transition_to env PhaseConverged s
      in (Inr no_requeue, upd_target (\<lambda>t. t\<lparr>te_FinishedAt := rfc_now (ev_Kube env) (tk_World s1)\<rparr>) s1))"

text \<open>What the handler reads off the cluster object once no actuator settled the question.\<close>

definition poll_cluster_phase :: "'w target_env \<Rightarrow> cluster \<Rightarrow> smap \<Rightarrow> string \<Rightarrow> 'w handler" where
  "poll_cluster_phase env mc desiredVersions currentVersion s =
     (let t = tk_Target s; phase = cst_Phase (cl_Status mc)
      in if phase = ClusterConverged \<and> currentVersion = te_Version t \<and> length desiredVersions = 1 then
           converge env (emit (RunEvent ''Normal'' ''Applied''
             (''Version '' @ te_Version t @ '' applied to '' @ te_Target t)) s)
         else if phase = ClusterFailed then
           (Inr no_requeue, fail_target env (''cluster '' @ te_Target t @ '' reported Failed phase'') s)
         else if phase = ClusterUnreachable then
           (let msg = (case kb_FindStatusCondition (ev_Kube env) (cst_Conditions (cl_Status mc)) ''Ready'' of
                         Some c \<Rightarrow> (if c_Message c \<noteq> []
                                    then ''cluster '' @ te_Target t @ '' is Unreachable: '' @ c_Message c @ ''; deferring''
                                    else ''cluster '' @ te_Target t @ '' is Unreachable; deferring'')
                       | None \<Rightarrow> ''cluster '' @ te_Target t @ '' is Unreachable; deferring'')
            in (Inr (requeue_after requeueNormal), emit (RunEvent ''Warning'' ''ClusterUnreachable'' msg) s))
         else (Inr (requeue_after requeueNormal), s))"

definition observe_actuator ::
  "'w target_env \<Rightarrow> string \<Rightarrow> 'w actuator \<Rightarrow> capabilities \<Rightarrow> cluster \<Rightarrow> smap \<Rightarrow> string \<Rightarrow> 'w handler" where
  "observe_actuator env key act caps mc desiredVersions currentVersion s =
     (if \<not> supports_actuator_observe caps then
        converge env (emit_capability_unsupported_trace env ''Stage'' ''ObserveUnsupported''
          (''actuator '' @ go_quote key @ '' does not support observe; trusting apply outcome'') s)
      else case act_IsAllConverged act mc desiredVersions (tk_World s) of
        (Inl err, w) \<Rightarrow> (Inr (requeue_after requeueNormal), set_world w s)
      | (Inr converged, w) \<Rightarrow>
          (let s1 = set_world w s
           in if converged then
                converge env (emit (RunEvent ''Normal'' ''Applied''
                  (''Desired versions applied to '' @ te_Target (tk_Target s1))) s1)
              else poll_cluster_phase env mc desiredVersions currentVersion s1))"

definition report_substrate_objects ::
  "'w actuator \<Rightarrow> capabilities \<Rightarrow> cluster \<Rightarrow> smap \<Rightarrow> 'w tick \<Rightarrow> bool \<times> 'w tick" where
  "report_substrate_objects act caps mc desiredVersions s =
     (if \<not> supports_actuator_substrate_objects caps then (True, s)
      else case act_SubstrateObjects act of
        None \<Rightarrow> (True, s)
      | Some reporter \<Rightarrow>
          (case reporter mc desiredVersions (tk_World s) of
             (Inl err, w) \<Rightarrow> (False, set_world w s)
           | (Inr objects, w) \<Rightarrow> (True, upd_target (\<lambda>t. t\<lparr>te_SubstrateObjects := objects\<rparr>) (set_world w s))))"

definition poll_convergence ::
  "'w target_env \<Rightarrow> (string \<times> 'w actuator \<times> capabilities) option \<Rightarrow> cluster \<Rightarrow> smap \<Rightarrow> 'w handler" where
  "poll_convergence env resolved mc desiredVersions s =
     (let currentVersion = smap_get (cst_CurrentVersions (cl_Status mc)) (target_app_key (tk_Target s))
      in case resolved of
           None \<Rightarrow> poll_cluster_phase env mc desiredVersions currentVersion s
         | Some (key, act, caps) \<Rightarrow>
             (case report_substrate_objects act caps mc desiredVersions s of
                (False, s') \<Rightarrow> (Inr (requeue_after requeueNormal), s')
              | (True, s') \<Rightarrow> observe_actuator env key act caps mc desiredVersions currentVersion s'))"

text \<open>Issue the delivery once per entry into Applying, then poll.\<close>

definition issue_apply ::
  "'w target_env \<Rightarrow> (string \<times> 'w actuator \<times> capabilities) option \<Rightarrow> cluster \<Rightarrow> smap \<Rightarrow> 'w handler" where
  "issue_apply env resolved mc desiredVersions s =
     (case resolved of
        None \<Rightarrow> poll_convergence env None mc desiredVersions s
      | Some (key, act, caps) \<Rightarrow>
          (if te_ApplyIssued (tk_Target s) then poll_convergence env resolved mc desiredVersions s
           else if \<not> supports_actuator_apply caps then
             (let msg = ''actuator '' @ go_quote key @ '' does not support apply''
              in (Inr no_requeue,
                  fail_target env msg
                    (emit_capability_unsupported_trace env ''Stage'' ''ApplyUnsupported'' msg s)))
           else case apply_desired_versions key act caps mc desiredVersions s of
             (Inl err, s') \<Rightarrow> (Inr (requeue_after requeueFast), s')
           | (Inr deltaCount, s') \<Rightarrow>
               poll_convergence env resolved mc desiredVersions
                 (upd_target (\<lambda>t. t\<lparr>te_ApplyIssued := True\<rparr>) s')))"

text \<open>Claim the cluster for this run, or wait for the run that holds it.\<close>

definition claim_cluster ::
  "'w target_env \<Rightarrow> (string \<times> 'w actuator \<times> capabilities) option \<Rightarrow> cluster \<Rightarrow> smap \<Rightarrow> 'w handler" where
  "claim_cluster env resolved mc desiredVersions s =
     (let active = cst_ActivePromotionRun (cl_Status mc); run = run_Name (ev_PromotionRun env);
          deliver = (\<lambda>mc s. issue_apply env resolved mc desiredVersions
                       (emit_delivery_decision_traces env mc desiredVersions
                          (upd_target (capture_previous_versions mc desiredVersions) s)))
      in if active \<noteq> [] \<and> active \<noteq> run then (Inr (requeue_after requeueNormal), s)
         else if active = [] then
           (case kb_PatchClusterStatus (ev_Kube env) mc
                   (mc\<lparr>cl_Status := (cl_Status mc)\<lparr>cst_ActivePromotionRun := run\<rparr>\<rparr>) (tk_World s) of
              (Inl err, w) \<Rightarrow>
                (Inl (''claim activePromotionRun for '' @ cl_Name mc @ '': '' @ api_error_text err), set_world w s)
            | (Inr mc', w) \<Rightarrow> deliver mc' (set_world w s))
         else deliver mc s)"

definition handle_applying :: "'w target_env \<Rightarrow> 'w handler" where
  "handle_applying env s =
     (let desiredVersions = target_desired_versions (tk_Target s)
      in if desiredVersions = [] then
           (Inr no_requeue, fail_target env ''target has no desired versions to apply'' s)
         else with_fresh_cluster env (\<lambda>mc s.
           case validate_target_topology mc desiredVersions of
             Some err \<Rightarrow> (Inr no_requeue, fail_target env err s)
           | None \<Rightarrow>
               (case ev_ActuatorRegistry env of
                  None \<Rightarrow> claim_cluster env None mc desiredVersions s
                | Some registry \<Rightarrow>
                    (case resolve_actuator_for_cluster (ev_Kube env) registry mc (tk_World s) of
                       (Inl err, w) \<Rightarrow> (Inr (requeue_after requeueFast), set_world w s)
                     | (Inr resolved, w) \<Rightarrow> claim_cluster env (Some resolved) mc desiredVersions (set_world w s)))) s)"

section \<open>The table\<close>

definition target_handlers :: "'w target_env \<Rightarrow> 'w handler target_handlers" where
  "target_handlers env =
     \<lparr>th_initial = handle_initial env, th_pending = handle_pending env,
      th_verification = handle_verification env, th_healthCheck = handle_health_check env,
      th_soaking = handle_soaking env, th_metricsCheck = handle_metrics_check env,
      th_waitingApproval = handle_waiting_approval env, th_applying = handle_applying env\<rparr>"

text \<open>\<^verbatim>\<open>advanceTarget\<close>: one step of the machine; an unregistered phase does nothing.\<close>

definition advance_target :: "'w target_env \<Rightarrow> 'w handler" where
  "advance_target env s =
     step PhaseNone (the_fsm (target_handlers env)) (\<lambda>s. (Inr no_requeue, s)) (te_Phase (tk_Target s)) s"

lemma advance_target_simps:
  "advance_target env s =
     (case te_Phase (tk_Target s) of
        PhaseNone \<Rightarrow> handle_initial env s
      | PhasePending \<Rightarrow> handle_pending env s
      | PhaseVerification \<Rightarrow> handle_verification env s
      | PhaseHealthCheck \<Rightarrow> handle_health_check env s
      | PhaseSoaking \<Rightarrow> handle_soaking env s
      | PhaseMetricsCheck \<Rightarrow> handle_metrics_check env s
      | PhaseWaitingApproval \<Rightarrow> handle_waiting_approval env s
      | PhaseApplying \<Rightarrow> handle_applying env s
      | _ \<Rightarrow> (Inr no_requeue, s))"
  by (simp add: advance_target_def the_fsm_table step_def target_table_def target_handlers_def
      split: target_phase.split)

end
