(* ===== verification/Target_Controller.thy ===== *)
theory Target_Controller
  imports Target_Handlers
begin

text \<open>
  The reconciler of one target: \<^verbatim>\<open>advanceTargetUntilStable\<close>, the status contract and the phase
  label, the cancellation path with \<^verbatim>\<open>StatusUpdateWithRetry\<close> (\<^verbatim>\<open>conflict_retry.go\<close>), the
  notifications that follow a persisted transition, and \<^verbatim>\<open>Reconcile\<close> itself. Reconcile
  counters and durations are left out.
\<close>

section \<open>Advancing until stable\<close>

definition maxImmediatePhaseAdvances :: nat where "maxImmediatePhaseAdvances = 8"

definition is_immediate_requeue :: "ctrl_result \<Rightarrow> bool" where
  "is_immediate_requeue r \<longleftrightarrow> Requeue r \<and> RequeueAfter r = 0"

fun advance_loop :: "'w target_env \<Rightarrow> nat \<Rightarrow> 'w handler" where
  "advance_loop env 0 s = (Inr requeue_now, s)"
| "advance_loop env (Suc n) s =
     (case advance_target env s of
        (Inl err, s') \<Rightarrow> (Inl err, s')
      | (Inr result, s') \<Rightarrow>
          (if \<not> is_immediate_requeue result then (Inr result, s')
           else if te_Phase (tk_Target s') = te_Phase (tk_Target s) then (Inr result, s')
           else if te_Phase (tk_Target s') = PhaseApplying then (Inr result, s')
           else advance_loop env n s'))"

definition advance_target_until_stable :: "'w target_env \<Rightarrow> 'w handler" where
  "advance_target_until_stable env = advance_loop env maxImmediatePhaseAdvances"

section \<open>Status contract and label\<close>

definition set_promotion_target_condition ::
  "'w kube \<Rightarrow> int \<Rightarrow> string \<Rightarrow> string \<Rightarrow> string \<Rightarrow> string \<Rightarrow> target \<Rightarrow> target" where
  "set_promotion_target_condition kb now conditionType status reason message rt =
     rt\<lparr>tg_Status := (tg_Status rt)\<lparr>tst_Conditions :=
       kb_SetStatusCondition kb
         \<lparr>c_Type = conditionType, c_Status = status, c_Reason = reason, c_Message = message,
          c_ObservedGeneration = om_Generation (tg_Meta rt), c_LastTransitionTime = now\<rparr>
         (tst_Conditions (tg_Status rt))\<rparr>\<rparr>"

definition remove_promotion_target_condition :: "'w kube \<Rightarrow> string \<Rightarrow> target \<Rightarrow> target" where
  "remove_promotion_target_condition kb conditionType rt =
     rt\<lparr>tg_Status := (tg_Status rt)\<lparr>tst_Conditions :=
       kb_RemoveStatusCondition kb conditionType (tst_Conditions (tg_Status rt))\<rparr>\<rparr>"

definition update_promotion_target_status_contract :: "'w kube \<Rightarrow> int \<Rightarrow> target \<Rightarrow> target" where
  "update_promotion_target_status_contract kb now rt =
     (let rt0 = rt\<lparr>tg_Status := (tg_Status rt)\<lparr>tst_ObservedGeneration := om_Generation (tg_Meta rt)\<rparr>\<rparr>;
          msg = te_Message (tst_Exec (tg_Status rt0));
          cond = set_promotion_target_condition kb now;
          unstall = remove_promotion_target_condition kb ''Stalled''
      in case tg_Phase rt0 of
           PhaseConverged \<Rightarrow>
             unstall (cond ''Reconciling'' ''False'' ''Converged'' ''target converged''
               (cond ''Ready'' ''True'' ''Converged'' ''target converged'' rt0))
         | PhaseFailed \<Rightarrow>
             cond ''Stalled'' ''True'' ''Failed'' msg
               (cond ''Reconciling'' ''False'' ''Failed'' ''target failed''
                 (cond ''Ready'' ''False'' ''Failed'' msg rt0))
         | PhaseSkipped \<Rightarrow>
             unstall (cond ''Reconciling'' ''False'' ''Skipped'' ''target skipped''
               (cond ''Ready'' ''False'' ''Skipped'' msg rt0))
         | p \<Rightarrow>
             (let message = (if msg \<noteq> [] then msg else ''target is progressing'')
              in unstall (cond ''Reconciling'' ''True'' (target_phase_string p) message
                   (cond ''Ready'' ''False'' (target_phase_string p) message rt0))))"

definition phase_label :: string where "phase_label = ''kapro.io/phase''"

definition sync_promotion_target_phase_label ::
  "'w kube \<Rightarrow> target \<Rightarrow> 'w \<Rightarrow> (api_error + target) \<times> 'w" where
  "sync_promotion_target_phase_label kb rt w =
     (let phase = target_phase_string (if tg_Phase rt = PhaseNone then PhasePending else tg_Phase rt);
          labels = om_Labels (tg_Meta rt)
      in if smap_get labels phase_label = phase then (Inr rt, w)
         else kb_PatchTarget kb rt
                (rt\<lparr>tg_Meta := (tg_Meta rt)\<lparr>om_Labels := smap_set phase_label phase labels\<rparr>\<rparr>) w)"

section \<open>Conflict retry\<close>

definition defaultStatusUpdateRetries :: nat where "defaultStatusUpdateRetries = 5"

text \<open>
  \<^verbatim>\<open>StatusUpdateWithRetry\<close>: \<open>refetch\<close> reads the object again, \<open>update\<close> writes its status, \<open>mutate\<close>
  sets the wanted fields; \<open>what\<close> is the type and key as error messages print them. Returns the
  error, the object as the caller sees it afterwards, and the world.
\<close>

fun status_update_loop ::
  "('w \<Rightarrow> (api_error + 'o) \<times> 'w) \<Rightarrow> ('o \<Rightarrow> 'w \<Rightarrow> (api_error + 'o) \<times> 'w) \<Rightarrow> ('w \<Rightarrow> 'o \<Rightarrow> go_error + 'o) \<Rightarrow>
   string \<Rightarrow> nat \<Rightarrow> bool \<Rightarrow> 'o \<Rightarrow> string \<Rightarrow> 'w \<Rightarrow> go_error option \<times> 'o \<times> 'w" where
  "status_update_loop refetch update mutate what 0 fresh obj lastConflict w =
     (Some (''status update for '' @ what @ '' lost '' @ string_of_nat defaultStatusUpdateRetries @
            '' conflict races: '' @ lastConflict), obj, w)"
| "status_update_loop refetch update mutate what (Suc n) fresh obj lastConflict w =
     (case (if fresh then (Inr obj, w) else refetch w) of
        (Inl e, w1) \<Rightarrow>
          (Some (''refetch '' @ what @ '' for status retry: '' @ api_error_text e), obj, w1)
      | (Inr obj1, w1) \<Rightarrow>
          (case mutate w1 obj1 of
             Inl e \<Rightarrow> (Some e, obj1, w1)
           | Inr obj2 \<Rightarrow>
               (case update obj2 w1 of
                  (Inl e, w2) \<Rightarrow>
                    (if is_conflict e
                     then status_update_loop refetch update mutate what n False obj2 (api_error_text e) w2
                     else (Some (api_error_text e), obj2, w2))
                | (Inr obj3, w2) \<Rightarrow> (None, obj3, w2))))"

definition status_update_with_retry ::
  "('w \<Rightarrow> (api_error + 'o) \<times> 'w) \<Rightarrow> ('o \<Rightarrow> 'w \<Rightarrow> (api_error + 'o) \<times> 'w) \<Rightarrow> ('w \<Rightarrow> 'o \<Rightarrow> go_error + 'o) \<Rightarrow>
   string \<Rightarrow> 'o \<Rightarrow> 'w \<Rightarrow> go_error option \<times> 'o \<times> 'w" where
  "status_update_with_retry refetch update mutate what obj w =
     status_update_loop refetch update mutate what defaultStatusUpdateRetries True obj [] w"

section \<open>Notifications after the write\<close>

definition notify_approval_request :: "'w target_env \<Rightarrow> 'w tick \<Rightarrow> 'w tick" where
  "notify_approval_request env s =
     (let t = tk_Target s;
          (urls, s1) = (case ev_ApprovalURLs env of
                          None \<Rightarrow> (([], []), s)
                        | Some build \<Rightarrow>
                            (case build (ev_PromotionRun env) t (tk_World s) of
                               (Inr u, w) \<Rightarrow> (u, set_world w s)
                             | (Inl e, w) \<Rightarrow> (([], []), set_world w s)))
      in emit (Notified
           \<lparr>ne_Type = ''kapro.promotionrun.approval.required'', ne_Phase = ''WaitingApproval'',
            ne_Version = te_Version t, ne_Target = te_Target t,
            ne_PromotionRun = run_Name (ev_PromotionRun env), ne_Plan = te_PlanRef t,
            ne_Stage = te_Stage t, ne_Message = ''Approval required to proceed'', ne_IsFailure = False,
            ne_ApproveURL = fst urls, ne_RejectURL = snd urls\<rparr>
           (notification_policy_from (te_Gate t))) s1)"

definition notify_persisted_transitions ::
  "'w target_env \<Rightarrow> target_execution_state \<Rightarrow> 'w tick \<Rightarrow> 'w tick" where
  "notify_persisted_transitions env previous s =
     (if \<not> ev_Notifier env then s
      else
        let current = tk_Target s;
            s1 = (if te_Phase previous \<noteq> te_Phase current \<and> te_Phase current \<noteq> PhaseWaitingApproval
                  then emit (Notified
                         \<lparr>ne_Type = event_type_for_phase (te_Phase current),
                          ne_Phase = target_phase_string (te_Phase current),
                          ne_Version = te_Version current, ne_Target = te_Target current,
                          ne_PromotionRun = run_Name (ev_PromotionRun env), ne_Plan = te_PlanRef current,
                          ne_Stage = te_Stage current, ne_Message = te_Message current,
                          ne_IsFailure = (te_Phase current = PhaseFailed), ne_ApproveURL = [], ne_RejectURL = []\<rparr>
                         (notification_policy_from (te_Gate current))) s
                  else s)
        in if te_ApprovalSentAt previous = [] \<and> te_ApprovalSentAt current \<noteq> []
           then notify_approval_request env s1 else s1)"

section \<open>Reconcile\<close>

definition mutate_cancelled ::
  "'w kube \<Rightarrow> target_phase \<Rightarrow> string \<Rightarrow> string \<Rightarrow> 'w \<Rightarrow> target \<Rightarrow> go_error + target" where
  "mutate_cancelled kb cancelPhase cancelReason nowStr w fresh =
     Inr (update_promotion_target_status_contract kb (kb_Now kb w)
       (fresh\<lparr>tg_Status := (tg_Status fresh)\<lparr>tst_Exec := (tst_Exec (tg_Status fresh))\<lparr>
          te_Phase := cancelPhase, te_Message := ''cancelled: '' @ cancelReason, te_FinishedAt := nowStr\<rparr>\<rparr>\<rparr>))"

definition reconcile_cancelled :: "'w target_env \<Rightarrow> target \<Rightarrow> 'w tick \<Rightarrow> (go_error + ctrl_result) \<times> 'w tick" where
  "reconcile_cancelled env rt s =
     (let kb = ev_Kube env; spec = tg_Spec rt;
          cancelPhase = (if ts_CancelledPhase spec = PhaseNone then PhaseFailed else ts_CancelledPhase spec);
          prevPhase = tg_Phase rt
      in case status_update_with_retry (kb_GetTarget kb (tg_Name rt)) (kb_UpdateTargetStatus kb)
                (mutate_cancelled kb cancelPhase (ts_CancelledReason spec) (rfc_now kb (tk_World s)))
                (''*v1alpha1.Target /'' @ tg_Name rt) rt (tk_World s) of
           (Some e, rt1, w1) \<Rightarrow> (Inl (''update cancelled PromotionTarget status: '' @ e), set_world w1 s)
         | (None, rt1, w1) \<Rightarrow>
             (case sync_promotion_target_phase_label kb rt1 w1 of
                (Inl e, w2) \<Rightarrow>
                  (Inl (''patch cancelled PromotionTarget phase label '' @ tg_Name rt1 @ '': '' @ api_error_text e),
                   set_world w2 s)
              | (Inr rt2, w2) \<Rightarrow>
                  (let t = (target_status_from_promotion_target rt2)\<lparr>te_Phase := cancelPhase,
                              te_Message := ''cancelled: '' @ ts_CancelledReason spec\<rparr>
                   in (Inr no_requeue,
                       emit_target_phase_decision_trace env prevPhase cancelPhase ''TargetCancelled'' (te_Message t)
                         (upd_target (\<lambda>_. t) (set_world w2 s))))))"

definition persist_target :: "'w target_env \<Rightarrow> target \<Rightarrow> ctrl_result \<Rightarrow> 'w tick \<Rightarrow> (go_error + ctrl_result) \<times> 'w tick" where
  "persist_target env rt result s =
     (let kb = ev_Kube env;
          rt1 = update_promotion_target_status_contract kb (kb_Now kb (tk_World s))
                  (rt\<lparr>tg_Status := (tg_Status rt)\<lparr>tst_Exec := tk_Target s\<rparr>\<rparr>)
      in case kb_UpdateTargetStatus kb rt1 (tk_World s) of
           (Inl e, w1) \<Rightarrow>
             (if is_conflict e then (Inr (requeue_after second), set_world w1 s)
              else (Inl (''update PromotionTarget status '' @ tg_Name rt @ '': '' @ api_error_text e), set_world w1 s))
         | (Inr rt2, w1) \<Rightarrow>
             (case sync_promotion_target_phase_label kb rt2 w1 of
                (Inl e, w2) \<Rightarrow>
                  (Inl (''patch PromotionTarget phase label '' @ tg_Name rt2 @ '': '' @ api_error_text e),
                   set_world w2 s)
              | (Inr rt3, w2) \<Rightarrow>
                  (Inr result, notify_persisted_transitions env (tst_Exec (tg_Status rt)) (set_world w2 s))))"

definition suspended_trace :: "promotion_run \<Rightarrow> target \<Rightarrow> decision_trace_spec" where
  "suspended_trace run rt =
     \<lparr>dt_PromotionRun = run_Name run, dt_Plan = ts_PlanRef (tg_Spec rt), dt_Stage = ts_Stage (tg_Spec rt),
      dt_Target = ts_Target (tg_Spec rt), dt_EventType = ''Suspend'', dt_Source = ''target-controller'',
      dt_Phase = target_phase_string (tg_Phase rt), dt_Reason = ''PromotionRunSuspended'',
      dt_Message = ''parent PromotionRun is suspended'', dt_Evidence = [], dt_Time = None\<rparr>"

text \<open>
  \<^verbatim>\<open>Reconcile\<close> of the target called \<open>name\<close>. \<open>env0\<close> carries the reconciler's fields; its run and
  target are those read here. The tick of \<open>s\<close> holds the world and the log; its target entry is
  replaced once the object is read.
\<close>

definition reconcile_target :: "'w target_env \<Rightarrow> string \<Rightarrow> 'w tick \<Rightarrow> (go_error + ctrl_result) \<times> 'w tick" where
  "reconcile_target env0 name s =
     (let kb = ev_Kube env0
      in case kb_GetTarget kb name (tk_World s) of
           (Inl e, w) \<Rightarrow>
             (if is_not_found e then Inr no_requeue else Inl (api_error_text e), set_world w s)
         | (Inr rt, w) \<Rightarrow>
             (if \<not> ts_Cancelled (tg_Spec rt) \<and> target_terminal (tg_Phase rt) then
                (case sync_promotion_target_phase_label kb rt w of
                   (Inl e, w1) \<Rightarrow>
                     (Inl (''patch terminal PromotionTarget phase label '' @ tg_Name rt @ '': '' @ api_error_text e),
                      set_world w1 s)
                 | (Inr rt1, w1) \<Rightarrow> (Inr no_requeue, set_world w1 s))
              else
                case kb_GetRun kb (ts_PromotionRunRef (tg_Spec rt)) w of
                  (Inl e, w1) \<Rightarrow>
                    (if is_not_found e then Inr no_requeue else Inl (api_error_text e), set_world w1 s)
                | (Inr run, w1) \<Rightarrow>
                    (let s1 = set_world w1 s; env = env0\<lparr>ev_PromotionRun := run, ev_Rt := rt\<rparr>
                     in if prs_Suspended (run_Spec run) then
                          (Inr no_requeue, emit (TraceEmitted (suspended_trace run rt)) s1)
                        else if ts_Cancelled (tg_Spec rt) then reconcile_cancelled env rt s1
                        else
                          case advance_target_until_stable env
                                 (upd_target (\<lambda>_. target_status_from_promotion_target rt) s1) of
                            (Inl e, s2) \<Rightarrow> (Inl e, s2)
                          | (Inr result, s2) \<Rightarrow> persist_target env rt result s2)))"

end
