(* ===== verification/Target_Steps.thy ===== *)
theory Target_Steps
  imports Target_Controller
begin

text \<open>
  How a tick can end. Every handler stays in its phase, moves once along its declared
  successors, converges, or fails the target; what happens before that is calm, or in Applying
  at most calls the actuator. The facts about the machine follow from this one description.
\<close>

section \<open>Outcomes of a tick\<close>

text \<open>
  \<open>busy P s s'\<close>: like calm, but the effects need only satisfy \<open>P\<close> and the issued flag may change.
  \<open>covers P\<close> says that \<open>P\<close> admits every quiet effect.
\<close>

definition busy :: "(effect \<Rightarrow> bool) \<Rightarrow> 'w tick \<Rightarrow> 'w tick \<Rightarrow> bool" where
  "busy P s s' \<longleftrightarrow> extends P s s' \<and> same_spec (tk_Target s) (tk_Target s') \<and>
     te_Phase (tk_Target s') = te_Phase (tk_Target s)"

definition covers :: "(effect \<Rightarrow> bool) \<Rightarrow> bool" where
  "covers P \<longleftrightarrow> (\<forall>e. quiet e \<longrightarrow> P e)"

lemma covers_expected [simp]: "covers expected"
  by (simp add: covers_def quiet_def)

lemma calm_busy: "covers P \<Longrightarrow> calm s t \<Longrightarrow> busy P s t"
  by (auto simp: calm_def busy_def covers_def intro: extends_mono)

lemma busy_trans: "busy P s t \<Longrightarrow> busy P t u \<Longrightarrow> busy P s u"
  by (auto simp: busy_def same_spec_def intro: extends_trans)

definition handled ::
  "('w tick \<Rightarrow> 'w tick \<Rightarrow> bool) \<Rightarrow> 'w target_env \<Rightarrow> target_phase set \<Rightarrow> 'w tick \<Rightarrow>
   (go_error + ctrl_result) \<times> 'w tick \<Rightarrow> bool" where
  "handled R env nxt s rs \<longleftrightarrow>
     (R s (snd rs) \<and> (\<forall>x. fst rs = Inr x \<longrightarrow> \<not> is_immediate_requeue x)) \<or>
     (\<exists>p \<in> nxt - {PhaseConverged}. \<exists>t. R s t \<and> rs = (Inr requeue_now, transition_to env p t)) \<or>
     (PhaseConverged \<in> nxt \<and> (\<exists>t. R s t \<and> rs = converge env t)) \<or>
     (\<exists>t msg. R s t \<and> rs = (Inr no_requeue, fail_target env msg t))"

lemma immediate_simps [simp]:
  "is_immediate_requeue requeue_now" "\<not> is_immediate_requeue no_requeue"
  "\<not> is_immediate_requeue (requeue_after d)"
  by (simp_all add: is_immediate_requeue_def ctrl_result_defs)

named_theorems handled_intros "ways a handler ends"

lemma handled_error [handled_intros]: "R s t \<Longrightarrow> handled R env nxt s (Inl e, t)"
  by (simp add: handled_def)

lemma handled_after [handled_intros]: "R s t \<Longrightarrow> handled R env nxt s (Inr (requeue_after d), t)"
  by (simp add: handled_def)

lemma handled_none [handled_intros]: "R s t \<Longrightarrow> handled R env nxt s (Inr no_requeue, t)"
  by (simp add: handled_def)

lemma handled_move [handled_intros]:
  "R s t \<Longrightarrow> p \<in> nxt \<Longrightarrow> p \<noteq> PhaseConverged \<Longrightarrow>
   handled R env nxt s (Inr requeue_now, transition_to env p t)"
  by (auto simp: handled_def)

lemma handled_fail [handled_intros]:
  "R s t \<Longrightarrow> handled R env nxt s (Inr no_requeue, fail_target env msg t)"
  by (auto simp: handled_def)

lemma handled_converge [handled_intros]:
  "R s t \<Longrightarrow> PhaseConverged \<in> nxt \<Longrightarrow> handled R env nxt s (converge env t)"
  by (auto simp: handled_def)

lemma handled_weaken:
  "handled R env nxt t rs \<Longrightarrow> (\<And>u. R t u \<Longrightarrow> Q s u) \<Longrightarrow> handled Q env nxt s rs"
  unfolding handled_def by blast

lemmas handled_calm_trans = handled_weaken [where R = calm and Q = calm, OF _ calm_trans]

section \<open>Gates are calm\<close>

lemma calm_template_after_error [calm_intros]:
  "calm s t \<Longrightarrow> calm s (snd (template_after_error env n tmpl now err gs gates t))"
  by (simp add: template_after_error_def Let_def calm_emit calm_emit_gate_decision_trace)

lemma calm_template_after_result [calm_intros]:
  "calm s t \<Longrightarrow> calm s (snd (template_after_result env n tmpl now result gs gates t))"
  by (simp add: template_after_result_def Let_def calm_emit calm_emit_gate_decision_trace
      calm_publish_gate_event calm_notify_gate_event split: gate_phase.split)

lemma calm_evaluate_template:
  "calm s t \<Longrightarrow> calm s (snd (evaluate_template env ctx now j tmpl gates t))"
  by (simp add: evaluate_template_def Let_def calm_publish_gate_event calm_set_world
      calm_template_after_error calm_template_after_result split: sum.split prod.split)

lemma calm_evaluate_templates:
  "calm s t \<Longrightarrow> calm s (snd (evaluate_templates env ctx now j tmpls gates ap rq t))"
proof (induction env ctx now j tmpls gates ap rq t rule: evaluate_templates.induct)
  case (2 env ctx now j tmpl tmpls gates ap rq t)
  have c: "calm s (snd (evaluate_template env ctx now j tmpl gates t))"
    using 2(2) by (rule calm_evaluate_template)
  obtain r t' where e: "evaluate_template env ctx now j tmpl gates t = (r, t')" by fastforce
  show ?case
  proof (cases r)
    case (Inl a)
    with c e show ?thesis by simp
  next
    case (Inr o1)
    obtain g b d where "o1 = (g, b, d)" by (cases o1)
    with 2(1) [OF e [symmetric] Inr] c e Inr show ?thesis by simp
  qed
qed simp

lemma calm_evaluate_gate_templates:
  "calm s t \<Longrightarrow> calm s (snd (evaluate_gate_templates env ctx policy t))"
  using calm_evaluate_templates [of s t env ctx "rfc_now (ev_Kube env) (tk_World t)" 0
      "g_Templates (pol_Gate policy)" "te_Gates (tk_Target t)" True requeueNormal]
  by (auto simp: evaluate_gate_templates_def same_spec_def intro: calm_upd_target
      split: sum.split prod.split)

lemma fail_or_retry_handled:
  "calm s t \<Longrightarrow> handled calm env nxt s (map_prod Inr id (fail_or_retry env policy d t))"
  by (simp add: fail_or_retry_def handled_intros split: option.split)

lemma metric_blocked_handled:
  "calm s t \<Longrightarrow> handled calm env nxt s (map_prod Inr id (metric_blocked env policy idx result t))"
  by (simp add: metric_blocked_def Let_def fail_or_retry_handled calm_emit calm_notify_gate_event)

text \<open>The metrics loop either leaves a calm tick behind or has ended the handler.\<close>

lemma evaluate_metrics_cases:
  assumes "calm s t" "evaluate_metrics env ctx policy g now idx metrics gates t = (r, t')"
  shows "case r of None \<Rightarrow> calm s t' | Some x \<Rightarrow> handled calm env nxt s (Inr x, t')"
  using assms
proof (induction env ctx policy g now idx metrics gates t rule: evaluate_metrics.induct)
  case (2 env ctx policy g now idx metric metrics gates t)
  obtain q w where ev: "gate_evaluate g (metric_request ctx policy idx) (tk_World t) = (q, w)" by fastforce
  show ?case
  proof (cases q)
    case (Inl err)
    with 2 ev show ?thesis
      by (auto simp: Let_def intro!: handled_after calm_emit_gate_decision_trace calm_set_world)
  next
    case (Inr result)
    let ?gates = "set_gate_status (metric_status now result
      (find_or_create_gate_status gates (metric_gate_name idx) now)) gates"
    let ?s2 = "emit_gate_decision_trace env (metric_gate_name idx) (reported_phase result)
      ''MetricsGateEvaluated'' (res_Message result) (res_Evidence result)
      (upd_target (\<lambda>t. t\<lparr>te_Gates := ?gates\<rparr>) (set_world w t))"
    have c: "calm s ?s2"
      using 2(2) by (intro calm_emit_gate_decision_trace calm_upd_target calm_set_world)
        (simp_all add: same_spec_def)
    show ?thesis
    proof (cases "is_passed result")
      case True
      show ?thesis
        by (rule 2(1) [OF refl refl ev [symmetric] Inr refl refl refl True c])
          (use 2(3) ev Inr True in \<open>simp add: Let_def\<close>)
    next
      case False
      then have "(r, t') = map_prod Some id (metric_blocked env policy idx result ?s2)"
        using 2(3) ev Inr by (simp add: Let_def)
      then show ?thesis
        using metric_blocked_handled [OF c, of env nxt policy idx result]
        by (cases "metric_blocked env policy idx result ?s2") simp
    qed
  qed
qed simp

section \<open>The handlers before Applying\<close>

lemma calm_clear_heartbeat [calm_intros]: "calm s t \<Longrightarrow> calm s (upd_target clear_heartbeat t)"
  by (rule calm_upd_target) (simp_all add: clear_heartbeat_def same_spec_def)

lemma defer_stale_handled:
  assumes "calm s t" "defer_stale env reason ev msg t = (r, t')"
  shows "calm s t' \<and> r = Some (requeue_after requeueNormal)"
  using assms
  by (auto simp: defer_stale_def Let_def same_spec_def intro!: calm_upd_target calm_emit)

lemma require_fresh_heartbeat_calm:
  assumes "calm s t" "require_fresh_heartbeat env mc t = (r, t')"
  shows "calm s t' \<and> (r = None \<or> r = Some (requeue_after requeueNormal))"
  using assms
  by (auto simp: require_fresh_heartbeat_def Let_def calm_clear_heartbeat
      dest: defer_stale_handled split: option.splits if_splits)

lemma cluster_missing_handled:
  "calm s t \<Longrightarrow> handled calm env nxt s (cluster_missing env t)"
  by (auto simp: cluster_missing_def Let_def same_spec_def
      intro!: handled_fail handled_after calm_upd_target)

lemma calm_reset_missing [calm_intros]:
  "calm s t \<Longrightarrow> calm s (upd_target (\<lambda>t. t\<lparr>te_MissingMCCount := 0\<rparr>) t)"
  by (rule calm_upd_target) (simp_all add: same_spec_def)

lemma with_fresh_cluster_handled:
  assumes k: "\<And>mc t. calm s t \<Longrightarrow> handled R env nxt s (k mc t)"
    and R: "\<And>t. calm s t \<Longrightarrow> R s t"
  shows "handled R env nxt s (with_fresh_cluster env k s)"
proof -
  obtain q w where g: "kb_GetCluster (ev_Kube env) (te_Target (tk_Target s)) (tk_World s) = (q, w)"
    by fastforce
  have c: "calm s (set_world w s)" by (simp add: calm_set_world)
  show ?thesis
  proof (cases q)
    case (Inl err)
    then show ?thesis
      using g handled_weaken [OF cluster_missing_handled [OF c]] R handled_error [of R] c
      by (simp add: with_fresh_cluster_def)
  next
    case (Inr mc)
    obtain r t' where h: "require_fresh_heartbeat env mc
        (upd_target (\<lambda>t. t\<lparr>te_MissingMCCount := 0\<rparr>) (set_world w s)) = (r, t')" by fastforce
    then have "calm s t' \<and> (r = None \<or> r = Some (requeue_after requeueNormal))"
      by (rule require_fresh_heartbeat_calm [OF calm_reset_missing [OF c]])
    then show ?thesis
      using g Inr h k R by (auto simp: with_fresh_cluster_def intro!: handled_after)
  qed
qed

lemma handle_initial_handled: "handled calm env {PhasePending} s (handle_initial env s)"
  by (simp add: handle_initial_def handled_move)

lemma handle_pending_handled: "handled calm env {PhaseVerification} s (handle_pending env s)"
  unfolding handle_pending_def by (rule with_fresh_cluster_handled) (simp_all add: handled_move)

lemma handle_verification_handled: "handled calm env {PhaseHealthCheck} s (handle_verification env s)"
  by (auto simp: handle_verification_def Let_def split: sum.split prod.split
      intro!: handled_intros calm_intros)

lemma handle_health_check_handled:
  "handled calm env {PhaseSoaking, PhaseMetricsCheck} s (handle_health_check env s)"
  unfolding handle_health_check_def
  by (rule with_fresh_cluster_handled)
    (auto simp: Let_def transition_to_soak_or_metrics_def intro!: handled_intros)

lemma handle_soaking_handled: "handled calm env {PhaseMetricsCheck} s (handle_soaking env s)"
  by (auto simp: handle_soaking_def Let_def split: sum.split prod.split
      intro!: handled_intros calm_intros)

text \<open>Where the metrics check leads: to the approval exactly when the gate policy requires one.\<close>

definition after_metrics :: "target_execution_state \<Rightarrow> target_phase" where
  "after_metrics t = (if approval_required t then PhaseWaitingApproval else PhaseApplying)"

lemma next_after_metrics_handled:
  "calm s t \<Longrightarrow> handled calm env {after_metrics (tk_Target s)} s (next_after_metrics env t)"
  by (auto simp: next_after_metrics_def after_metrics_def approval_required_def calm_def same_spec_def
      intro!: handled_move)

lemma check_templates_handled:
  assumes "calm s t"
  shows "handled calm env {after_metrics (tk_Target s)} s (check_templates env ctx policy t)"
proof -
  obtain r t' where e: "evaluate_gate_templates env ctx policy t = (r, t')" by fastforce
  then have c: "calm s t'" using calm_evaluate_gate_templates [OF assms, of env ctx policy] by simp
  show ?thesis
    using e c next_after_metrics_handled assms
    by (cases r) (auto simp: check_templates_def intro: fail_or_retry_handled handled_error)
qed

lemma handle_metrics_check_handled:
  "handled calm env {after_metrics (tk_Target s)} s (handle_metrics_check env s)"
proof (cases "te_Gate (tk_Target s)")
  case None
  then show ?thesis by (simp add: handle_metrics_check_def next_after_metrics_handled)
next
  case (Some policy)
  let ?ctx = "target_to_gate_context env (tk_Target s)" and ?now = "rfc_now (ev_Kube env) (tk_World s)"
  show ?thesis
  proof (cases "g_Metrics (pol_Gate policy) = []")
    case True
    with Some show ?thesis
      by (simp add: handle_metrics_check_def Let_def next_after_metrics_handled check_templates_handled)
  next
    case False
    show ?thesis
    proof (cases "resolve_gate env ''metrics''")
      case (Inl e)
      with Some False show ?thesis by (simp add: handle_metrics_check_def Let_def handled_error)
    next
      case (Inr g)
      obtain r t' where e: "evaluate_metrics env ?ctx policy g ?now 0 (g_Metrics (pol_Gate policy))
          (te_Gates (tk_Target s)) s = (r, t')" by fastforce
      from evaluate_metrics_cases [OF calm_refl e, of "{after_metrics (tk_Target s)}"]
      show ?thesis
        using Some False Inr e
        by (cases r) (auto simp: handle_metrics_check_def Let_def
            intro!: check_templates_handled calm_notify_gate_event)
    qed
  qed
qed

lemma calm_approval_sent [calm_intros]:
  "calm s t \<Longrightarrow> calm s (upd_target (\<lambda>t. t\<lparr>te_ApprovalSentAt := x\<rparr>) t)"
  by (rule calm_upd_target) (simp_all add: same_spec_def)

lemma handle_waiting_approval_handled:
  "handled calm env {PhaseApplying} s (handle_waiting_approval env s)"
  by (auto simp: handle_waiting_approval_def Let_def split: sum.split prod.split
      intro!: handled_intros calm_intros)

section \<open>Applying\<close>

lemma busy_emit: "busy P s t \<Longrightarrow> P e \<Longrightarrow> busy P s (emit e t)"
  by (simp add: busy_def extends_emit)

lemma busy_set_world: "busy P s t \<Longrightarrow> busy P s (set_world w t)"
  by (simp add: busy_def extends_set_world)

lemma busy_upd_target:
  "busy P s t \<Longrightarrow> same_spec (tk_Target t) (f (tk_Target t)) \<Longrightarrow>
   te_Phase (f (tk_Target t)) = te_Phase (tk_Target t) \<Longrightarrow> busy P s (upd_target f t)"
  by (auto simp: busy_def same_spec_def extends_upd_target)

lemma busy_calm: "covers P \<Longrightarrow> busy P s t \<Longrightarrow> calm t u \<Longrightarrow> busy P s u"
  by (blast intro: busy_trans calm_busy)

text \<open>\<open>delivers P mc\<close>: \<open>P\<close> admits the calls that deliver to the cluster \<open>mc\<close>.\<close>

definition delivers :: "(effect \<Rightarrow> bool) \<Rightarrow> cluster \<Rightarrow> bool" where
  "delivers P mc \<longleftrightarrow> (\<forall>k r. ar_Cluster r = mc \<longrightarrow> P (ApplyCalled k r)) \<and>
     (\<forall>k r. dr_Cluster r = mc \<longrightarrow> P (ApplyDeltaCalled k r))"

lemma delivers_expected [simp]: "delivers expected mc"
  by (simp add: delivers_def)

lemma busy_apply_each:
  "delivers P mc \<Longrightarrow> busy P s t \<Longrightarrow> busy P s (snd (apply_each key act mc vs n t))"
proof (induction vs arbitrary: n t)
  case (Cons kv vs)
  obtain k v where "kv = (k, v)" by (cases kv)
  with Cons show ?case
    by (auto simp: Let_def busy_emit busy_set_world delivers_def split: prod.split option.split)
qed simp

lemma busy_apply_desired_versions:
  "delivers P mc \<Longrightarrow> busy P s t \<Longrightarrow> busy P s (snd (apply_desired_versions key act caps mc vs t))"
  by (simp add: apply_desired_versions_def Let_def busy_apply_each busy_emit busy_set_world delivers_def
      split: prod.split)

text \<open>Polling is calm; only issuing a delivery is not.\<close>

lemma poll_cluster_phase_handled:
  "calm s t \<Longrightarrow> handled calm env {PhaseConverged} s (poll_cluster_phase env mc vs cur t)"
  by (auto simp: poll_cluster_phase_def Let_def intro!: handled_intros calm_emit)

lemma observe_actuator_handled:
  "calm s t \<Longrightarrow> handled calm env {PhaseConverged} s (observe_actuator env key act caps mc vs cur t)"
  by (auto simp: observe_actuator_def Let_def split: sum.split prod.split
      intro!: handled_intros poll_cluster_phase_handled calm_intros)

lemma calm_report_substrate_objects:
  "calm s t \<Longrightarrow> report_substrate_objects act caps mc vs t = (ok, t') \<Longrightarrow> calm s t'"
  by (auto simp: report_substrate_objects_def same_spec_def split: if_splits option.splits prod.splits sum.splits
      intro!: calm_set_world calm_upd_target)

lemma poll_convergence_calm:
  assumes "calm s t"
  shows "handled calm env {PhaseConverged} s (poll_convergence env resolved mc vs t)"
proof (cases resolved)
  case None
  with assms show ?thesis by (simp add: poll_convergence_def poll_cluster_phase_handled)
next
  case (Some ka)
  obtain key act caps where ka: "ka = (key, act, caps)" by (cases ka)
  obtain ok t' where r: "report_substrate_objects act caps mc vs t = (ok, t')" by fastforce
  with assms have "calm s t'" by (rule calm_report_substrate_objects)
  with Some ka r show ?thesis
    by (cases ok) (auto simp: poll_convergence_def Let_def intro: handled_after observe_actuator_handled)
qed

lemma poll_convergence_handled:
  assumes "covers P" "busy P s t"
  shows "handled (busy P) env {PhaseConverged} s (poll_convergence env resolved mc vs t)"
  by (rule handled_weaken [OF poll_convergence_calm [OF calm_refl]]) (rule busy_calm [OF assms])

lemma issue_apply_handled:
  assumes P: "covers P" "delivers P mc" and t: "busy P s t"
  shows "handled (busy P) env {PhaseConverged} s (issue_apply env resolved mc vs t)"
proof (cases resolved)
  case None
  with assms show ?thesis by (simp add: issue_apply_def poll_convergence_handled)
next
  case (Some ka)
  obtain key act caps where ka: "ka = (key, act, caps)" by (cases ka)
  obtain r t' where a: "apply_desired_versions key act caps mc vs t = (r, t')" by fastforce
  then have b: "busy P s t'" using busy_apply_desired_versions [OF P(2) t, of key act caps vs] by simp
  have "busy P s (upd_target (\<lambda>t. t\<lparr>te_ApplyIssued := True\<rparr>) t')"
    using b by (rule busy_upd_target) (simp_all add: same_spec_def)
  then show ?thesis
    using Some ka a b assms busy_calm [OF P(1) t calm_emit_capability_unsupported_trace [OF calm_refl]]
    by (cases r) (auto simp: issue_apply_def Let_def intro!: handled_intros poll_convergence_handled)
qed

lemma same_spec_capture_previous_versions: "same_spec t (capture_previous_versions mc vs t)"
  by (simp add: capture_previous_versions_def Let_def same_spec_def)

lemma capture_previous_versions_fields [simp]:
  "te_Phase (capture_previous_versions mc vs t) = te_Phase t"
  "te_ApplyIssued (capture_previous_versions mc vs t) = te_ApplyIssued t"
  by (simp_all add: capture_previous_versions_def Let_def)

text \<open>
  A delivery goes to a cluster that was read as claimed by this run, or to what the server
  answered to the claim. \<open>claim_safe\<close> collects what is then needed of \<open>P\<close>.
\<close>

definition claim_safe :: "'w target_env \<Rightarrow> (effect \<Rightarrow> bool) \<Rightarrow> bool" where
  "claim_safe env P \<longleftrightarrow>
     (\<forall>mc. cst_ActivePromotionRun (cl_Status mc) = run_Name (ev_PromotionRun env) \<longrightarrow> delivers P mc) \<and>
     (\<forall>mc w mc' w'. kb_PatchClusterStatus (ev_Kube env) mc
          (mc\<lparr>cl_Status := (cl_Status mc)\<lparr>cst_ActivePromotionRun := run_Name (ev_PromotionRun env)\<rparr>\<rparr>) w =
          (Inr mc', w') \<longrightarrow> delivers P mc')"

lemma claim_cluster_handled:
  assumes P: "covers P" "claim_safe env P" and t: "busy P s t"
  shows "handled (busy P) env {PhaseConverged} s (claim_cluster env resolved mc vs t)"
proof -
  have deliver: "handled (busy P) env {PhaseConverged} s (issue_apply env resolved mc' vs
      (emit_delivery_decision_traces env mc' vs (upd_target (capture_previous_versions mc' vs) t')))"
    if "busy P s t'" "delivers P mc'" for mc' t'
  proof (rule issue_apply_handled [OF P(1) that(2)])
    have "busy P s (upd_target (capture_previous_versions mc' vs) t')"
      using that(1) same_spec_capture_previous_versions by (rule busy_upd_target) simp
    then show "busy P s (emit_delivery_decision_traces env mc' vs
        (upd_target (capture_previous_versions mc' vs) t'))"
      by (rule busy_calm [OF P(1)]) (simp add: calm_emit_delivery_decision_traces)
  qed
  let ?run = "run_Name (ev_PromotionRun env)" and ?active = "cst_ActivePromotionRun (cl_Status mc)"
  consider (other) "?active \<noteq> []" "?active \<noteq> ?run" | (free) "?active = []" | (own) "?active \<noteq> []" "?active = ?run"
    by blast
  then show ?thesis
  proof cases
    case other
    with t show ?thesis by (simp add: claim_cluster_def handled_after)
  next
    case free
    have "delivers P mc'" if "kb_PatchClusterStatus (ev_Kube env) mc
        (mc\<lparr>cl_Status := (cl_Status mc)\<lparr>cst_ActivePromotionRun := ?run\<rparr>\<rparr>) (tk_World t) = (Inr mc', w')" for mc' w'
      using P(2) that unfolding claim_safe_def by blast
    with free t show ?thesis
      by (auto simp: claim_cluster_def Let_def split: prod.split sum.split
          intro!: handled_error deliver busy_set_world)
  next
    case own
    then have "delivers P mc" using P(2) by (simp add: claim_safe_def)
    with own show ?thesis using deliver [OF t] by (simp add: claim_cluster_def Let_def)
  qed
qed

lemma handle_applying_handled:
  assumes P: "covers P" "claim_safe env P"
  shows "handled (busy P) env {PhaseConverged} s (handle_applying env s)"
proof (cases "target_desired_versions (tk_Target s) = []")
  case True
  then show ?thesis
    by (auto simp: handle_applying_def intro!: handled_fail calm_busy [OF P(1)])
next
  case False
  note claim = claim_cluster_handled [OF P]
  show ?thesis
    unfolding handle_applying_def Let_def if_not_P [OF False]
    by (rule with_fresh_cluster_handled)
      (auto split: option.split prod.split sum.split
        intro!: handled_intros claim calm_busy [OF P(1)] calm_set_world)
qed

subsection \<open>Applying once the delivery is issued\<close>

lemma issue_apply_issued:
  assumes "te_ApplyIssued (tk_Target t)"
  shows "issue_apply env resolved mc vs t = poll_convergence env resolved mc vs t"
  using assms by (cases resolved) (auto simp: issue_apply_def)

lemma claim_cluster_issued:
  assumes "calm s t" "te_ApplyIssued (tk_Target t)"
  shows "handled calm env {PhaseConverged} s (claim_cluster env resolved mc vs t)"
proof -
  have deliver: "handled calm env {PhaseConverged} s (issue_apply env resolved mc' vs
      (emit_delivery_decision_traces env mc' vs (upd_target (capture_previous_versions mc' vs) t')))"
    if c: "calm s t'" and i: "te_ApplyIssued (tk_Target t')" for mc' t'
  proof -
    let ?u = "emit_delivery_decision_traces env mc' vs (upd_target (capture_previous_versions mc' vs) t')"
    have "calm t' ?u"
      by (intro calm_emit_delivery_decision_traces calm_upd_target)
        (simp_all add: same_spec_capture_previous_versions)
    then have "calm s ?u" "te_ApplyIssued (tk_Target ?u)"
      using c i calm_trans by (blast, simp add: calm_def)
    then show ?thesis by (simp add: issue_apply_issued poll_convergence_calm)
  qed
  show ?thesis
    using assms by (auto simp: claim_cluster_def Let_def split: prod.split sum.split
        intro!: deliver handled_intros calm_set_world)
qed

lemma handle_applying_issued:
  assumes i: "te_ApplyIssued (tk_Target s)"
  shows "handled calm env {PhaseConverged} s (handle_applying env s)"
proof (cases "target_desired_versions (tk_Target s) = []")
  case True
  then show ?thesis by (simp add: handle_applying_def handled_fail)
next
  case False
  let ?vs = "target_desired_versions (tk_Target s)"
  have claim: "handled calm env {PhaseConverged} s (claim_cluster env resolved mc ?vs (set_world w t))"
    "handled calm env {PhaseConverged} s (claim_cluster env resolved mc ?vs t)"
    if "calm s t" for resolved mc w t
    using that i by (auto intro!: claim_cluster_issued calm_set_world simp: calm_def)
  show ?thesis
    unfolding handle_applying_def Let_def if_not_P [OF False]
    by (rule with_fresh_cluster_handled)
      (auto split: option.split prod.split sum.split intro!: handled_intros claim calm_set_world)
qed

end
