(* ===== verification/Ranked_Loop.thy ===== *)
theory Ranked_Loop
  imports Kapro_Prelude
begin

text \<open>
  The contract of a bounded loop that repeats a step while it asks to be run again at once and
  moves on: if every such move climbs a rank that is bounded, then any budget above the bound
  gives the same result, so the budget is never what ends the loop.
\<close>

locale ranked_loop =
  fixes advance :: "'s \<Rightarrow> ('e + 'r) \<times> 's"
    and immediate :: "'r \<Rightarrow> bool"
    and phase :: "'s \<Rightarrow> 'p"
    and halt :: "'p \<Rightarrow> bool"
    and rank :: "'p \<Rightarrow> nat"
    and bound :: nat
    and loop :: "nat \<Rightarrow> 's \<Rightarrow> ('e + 'r) \<times> 's"
  assumes loop_Suc:
      "loop (Suc n) s =
         (case advance s of
            (Inl e, s') \<Rightarrow> (Inl e, s')
          | (Inr r, s') \<Rightarrow>
              (if \<not> immediate r then (Inr r, s')
               else if phase s' = phase s then (Inr r, s')
               else if halt (phase s') then (Inr r, s')
               else loop n s'))"
    and climbs:
      "\<lbrakk>advance s = (Inr r, s'); immediate r; phase s' \<noteq> phase s; \<not> halt (phase s')\<rbrakk> \<Longrightarrow>
       rank (phase s) < rank (phase s') \<and> rank (phase s') \<le> bound"
begin

lemma loop_budget:
  assumes "0 < n" "0 < m" "bound < n + rank (phase s)" "bound < m + rank (phase s)"
  shows "loop n s = loop m s"
  using assms
proof (induction n arbitrary: m s)
  case (Suc n)
  obtain m' where m: "m = Suc m'" using Suc.prems(2) by (cases m) auto
  obtain q s' where a: "advance s = (q, s')" by fastforce
  show ?case
  proof (cases "\<exists>r. q = Inr r \<and> immediate r \<and> phase s' \<noteq> phase s \<and> \<not> halt (phase s')")
    case True
    then obtain r where r: "q = Inr r" "immediate r" "phase s' \<noteq> phase s" "\<not> halt (phase s')" by blast
    with climbs a have k: "rank (phase s) < rank (phase s')" "rank (phase s') \<le> bound" by blast+
    have "loop n s' = loop m' s'"
      by (rule Suc.IH) (use k Suc.prems m in linarith)+
    with a r m show ?thesis by (simp add: loop_Suc)
  next
    case False
    with a m show ?thesis by (cases q) (auto simp: loop_Suc)
  qed
qed simp

corollary loop_saturates: "bound < n \<Longrightarrow> bound < m \<Longrightarrow> loop n s = loop m s"
  by (rule loop_budget) simp_all

text \<open>
  A property that every step from a phase other than the halting one preserves holds when the
  loop stops.
\<close>

lemma loop_invariant:
  assumes "I s" "\<not> halt (phase s)"
    and step: "\<And>s r s'. I s \<Longrightarrow> \<not> halt (phase s) \<Longrightarrow> advance s = (r, s') \<Longrightarrow> I s'"
    and "0 < n" "bound < n + rank (phase s)"
  shows "I (snd (loop n s))"
  using assms(1,2,4,5)
proof (induction n arbitrary: s)
  case (Suc n)
  obtain q s' where a: "advance s = (q, s')" by fastforce
  have i: "I s'" using step [OF Suc.prems(1,2) a] .
  show ?case
  proof (cases "\<exists>r. q = Inr r \<and> immediate r \<and> phase s' \<noteq> phase s \<and> \<not> halt (phase s')")
    case True
    then obtain r where r: "q = Inr r" "immediate r" "phase s' \<noteq> phase s" "\<not> halt (phase s')" by blast
    with climbs a have k: "rank (phase s) < rank (phase s')" "rank (phase s') \<le> bound" by blast+
    have "I (snd (loop n s'))"
      by (rule Suc.IH [OF i r(4)]) (use k Suc.prems in linarith)+
    with a r show ?thesis by (simp add: loop_Suc)
  next
    case False
    with a i show ?thesis by (cases q) (auto simp: loop_Suc)
  qed
qed simp

end

end
