(* ===== verification/Target_Safety.thy ===== *)
theory Target_Safety
  imports Target_Steps Ranked_Loop
begin

text \<open>
  The facts that make the target machine safe, for every world, gate and actuator: it moves along
  the declared graph only, its loop of immediate advances always ends by itself, nothing is
  delivered before the entry into Applying has been written, a delivery is issued once, and
  Applying is entered only past the approval.
\<close>

section \<open>One tick\<close>

abbreviation phase_of :: "'w tick \<Rightarrow> target_phase" where
  "phase_of s \<equiv> te_Phase (tk_Target s)"

text \<open>The phases an immediate advance can lead to.\<close>

definition nexts :: "target_execution_state \<Rightarrow> target_phase set" where
  "nexts t =
     (case te_Phase t of
        PhaseNone \<Rightarrow> {PhasePending}
      | PhasePending \<Rightarrow> {PhaseVerification}
      | PhaseVerification \<Rightarrow> {PhaseHealthCheck}
      | PhaseHealthCheck \<Rightarrow> {PhaseSoaking, PhaseMetricsCheck}
      | PhaseSoaking \<Rightarrow> {PhaseMetricsCheck}
      | PhaseMetricsCheck \<Rightarrow> {after_metrics t}
      | PhaseWaitingApproval \<Rightarrow> {PhaseApplying}
      | _ \<Rightarrow> {})"

lemma advance_target_handled:
  assumes "phase_of s \<noteq> PhaseApplying"
  shows "handled calm env (nexts (tk_Target s)) s (advance_target env s)"
  using assms handle_initial_handled [of env s] handle_pending_handled [of env s]
    handle_verification_handled [of env s] handle_health_check_handled [of env s]
    handle_soaking_handled [of env s] handle_metrics_check_handled [of env s]
    handle_waiting_approval_handled [of env s]
  by (auto simp: advance_target_simps nexts_def handled_none split: target_phase.splits)

lemma advance_target_applying:
  assumes "phase_of s = PhaseApplying"
  shows "covers P \<Longrightarrow> claim_safe env P \<Longrightarrow>
    handled (busy P) env {PhaseConverged} s (advance_target env s)"
  using assms handle_applying_handled [of P env s] by (simp add: advance_target_simps)

lemma claim_safe_expected [simp]: "claim_safe env expected"
  by (simp add: claim_safe_def)

lemma nexts_declared: "p \<in> nexts t \<Longrightarrow> declared_step (te_Phase t) p"
  by (cases "te_Phase t") (auto simp: nexts_def declared_step_def after_metrics_def)

lemma fail_declared: "q \<noteq> PhaseNone \<Longrightarrow> \<not> target_terminal q \<Longrightarrow> (\<And>x. q \<noteq> PhaseOther x) \<Longrightarrow>
    declared_step q PhaseFailed \<and> declared_step q PhaseSkipped"
  by (cases q) (auto simp: declared_step_def)

text \<open>What any outcome does to the phase, the log and the spec fields.\<close>

lemma handled_effect:
  assumes h: "handled R env nxt s rs"
    and R: "\<And>t. R s t \<Longrightarrow> extends P s t \<and> same_spec (tk_Target s) (tk_Target t) \<and> phase_of t = phase_of s"
    and P: "\<And>e. quiet e \<Longrightarrow> P e"
    and nxt: "\<And>p. p \<in> nxt \<Longrightarrow> declared_step (phase_of s) p"
    and fails: "declared_step (phase_of s) PhaseFailed \<and> declared_step (phase_of s) PhaseSkipped"
  shows "extends P s (snd rs) \<and> same_spec (tk_Target s) (tk_Target (snd rs)) \<and>
         declared_step (phase_of s) (phase_of (snd rs))"
proof -
  have quietP: "extends quiet t u \<Longrightarrow> extends P t u" for t u
    by (erule extends_mono) (rule P)
  have move: "extends P s (transition_to env p t) \<and>
      same_spec (tk_Target s) (tk_Target (transition_to env p t)) \<and> phase_of (transition_to env p t) = p"
    if "R s t" "p \<in> nxt" for t p
  proof -
    have d: "declared_step (phase_of t) p" using that nxt R by simp
    note m = transition_to_moves [OF d, of env]
    show ?thesis
      using R [OF that(1)] m(1) same_spec_trans [OF _ m(2)] extends_trans [OF _ quietP [OF m(3)]]
      by blast
  qed
  have fail: "extends P s (fail_target env msg t) \<and>
      same_spec (tk_Target s) (tk_Target (fail_target env msg t)) \<and>
      declared_step (phase_of s) (phase_of (fail_target env msg t))"
    if "R s t" for t msg
  proof -
    note m = fail_target_moves [where env = env and msg = msg and s = t]
    show ?thesis
      using R [OF that] m(1) same_spec_trans [OF _ m(2)] extends_trans [OF _ quietP [OF m(3)]] fails
      by (simp split: if_splits)
  qed
  from h show ?thesis
    unfolding handled_def
  proof (elim disjE conjE bexE exE)
    assume "R s (snd rs)"
    with R show ?thesis by (simp add: declared_step_def)
  next
    fix p t assume "p \<in> nxt - {PhaseConverged}" "R s t" "rs = (Inr requeue_now, transition_to env p t)"
    with move [of t p] nxt show ?thesis by simp
  next
    fix t assume "PhaseConverged \<in> nxt" "R s t" "rs = converge env t"
    with move [of t PhaseConverged] nxt show ?thesis
      by (simp add: converge_def Let_def extends_upd_target same_spec_def)
  next
    fix t msg assume "R s t" "rs = (Inr no_requeue, fail_target env msg t)"
    with fail [of t msg] show ?thesis by simp
  qed
qed

lemma advance_target_idle:
  "target_terminal (phase_of s) \<or> (\<exists>x. phase_of s = PhaseOther x) \<Longrightarrow> advance_target env s = (Inr no_requeue, s)"
  by (auto simp: advance_target_simps target_terminal_def)

lemma advance_target_initial:
  "phase_of s = PhaseNone \<Longrightarrow> advance_target env s = (Inr requeue_now, transition_to env PhasePending s)"
  by (simp add: advance_target_simps handle_initial_def)

lemma advance_target_quiet:
  assumes "phase_of s \<noteq> PhaseApplying"
  shows "extends quiet s (snd (advance_target env s)) \<and>
         same_spec (tk_Target s) (tk_Target (snd (advance_target env s))) \<and>
         declared_step (phase_of s) (phase_of (snd (advance_target env s)))"
proof (cases "target_terminal (phase_of s) \<or> (\<exists>x. phase_of s = PhaseOther x)")
  case True
  then show ?thesis by (simp add: advance_target_idle declared_step_def same_spec_def)
next
  case idle: False
  show ?thesis
  proof (cases "phase_of s = PhaseNone")
    case True
    have "declared_step (phase_of s) PhasePending" by (simp add: True declared_step_def)
    with True show ?thesis using transition_to_moves [of s PhasePending env]
      by (simp add: advance_target_initial)
  next
    case False
    show ?thesis
      by (rule handled_effect [OF advance_target_handled [OF assms]])
        (use False idle fail_declared [of "phase_of s"] nexts_declared in \<open>auto simp: calm_def\<close>)
  qed
qed

lemma advance_target_step:
  "extends expected s (snd (advance_target env s)) \<and>
   same_spec (tk_Target s) (tk_Target (snd (advance_target env s))) \<and>
   declared_step (phase_of s) (phase_of (snd (advance_target env s)))"
proof (cases "phase_of s = PhaseApplying")
  case True
  show ?thesis
    by (rule handled_effect [OF advance_target_applying [OF True, of expected]])
      (use True in \<open>auto simp: busy_def quiet_def declared_step_def\<close>)
next
  case False
  with advance_target_quiet [of s env] show ?thesis by (auto intro: extends_quiet_expected)
qed

section \<open>The loop of immediate advances\<close>

fun phase_rank :: "target_phase \<Rightarrow> nat" where
  "phase_rank PhaseNone = 0"
| "phase_rank PhasePending = 1"
| "phase_rank PhaseVerification = 2"
| "phase_rank PhaseHealthCheck = 3"
| "phase_rank PhaseSoaking = 4"
| "phase_rank PhaseMetricsCheck = 5"
| "phase_rank PhaseWaitingApproval = 6"
| "phase_rank _ = 7"

lemma handled_immediate:
  assumes "handled R env nxt s (Inr r, s')" "is_immediate_requeue r"
  shows "\<exists>p \<in> nxt - {PhaseConverged}. \<exists>t. R s t \<and> s' = transition_to env p t"
  using assms by (auto simp: handled_def converge_def Let_def)

lemma advance_target_climbs:
  assumes a: "advance_target env s = (Inr r, s')" and i: "is_immediate_requeue r"
    and "phase_of s' \<noteq> PhaseApplying"
  shows "phase_rank (phase_of s) < phase_rank (phase_of s') \<and> phase_rank (phase_of s') \<le> 6"
proof -
  have "phase_of s \<noteq> PhaseApplying"
    using handled_immediate [OF _ i] advance_target_applying [of s expected env] a by fastforce
  then obtain p t where p: "p \<in> nexts (tk_Target s)" "calm s t" "s' = transition_to env p t"
    using handled_immediate [of calm env _ s r s'] advance_target_handled [of s env] a i
    by (metis DiffD1)
  then have "phase_of t = phase_of s" by (simp add: calm_def)
  with p nexts_declared have "phase_of s' = p" using transition_to_moves(1) by metis
  with p assms(3) show ?thesis by (cases "phase_of s") (auto simp: nexts_def after_metrics_def split: if_splits)
qed

interpretation target_loop: ranked_loop "advance_target env" is_immediate_requeue phase_of
  "\<lambda>p. p = PhaseApplying" phase_rank 6 "advance_loop env" for env
proof unfold_locales
  fix n s
  show "advance_loop env (Suc n) s =
      (case advance_target env s of (Inl e, s') \<Rightarrow> (Inl e, s')
       | (Inr r, s') \<Rightarrow> if \<not> is_immediate_requeue r then (Inr r, s')
           else if phase_of s' = phase_of s then (Inr r, s')
           else if phase_of s' = PhaseApplying then (Inr r, s') else advance_loop env n s')"
    by simp
next
  fix s r s'
  assume "advance_target env s = (Inr r, s')" "is_immediate_requeue r" "phase_of s' \<noteq> PhaseApplying"
  then show "phase_rank (phase_of s) < phase_rank (phase_of s') \<and> phase_rank (phase_of s') \<le> 6"
    by (rule advance_target_climbs)
qed

lemma until_stable_invariant:
  assumes "I s" "phase_of s \<noteq> PhaseApplying"
    and "\<And>t r t'. I t \<Longrightarrow> phase_of t \<noteq> PhaseApplying \<Longrightarrow> advance_target env t = (r, t') \<Longrightarrow> I t'"
  shows "I (snd (advance_target_until_stable env s))"
  unfolding advance_target_until_stable_def
  using assms by (rule target_loop.loop_invariant) (simp_all add: maxImmediatePhaseAdvances_def)

lemma until_stable_quiet:
  assumes "phase_of s \<noteq> PhaseApplying"
  shows "extends quiet s (snd (advance_target_until_stable env s))"
proof (rule until_stable_invariant [where I = "extends quiet s", OF _ assms])
  show "extends quiet s t'" if "extends quiet s t" "phase_of t \<noteq> PhaseApplying" "advance_target env t = (r, t')"
    for t r t'
    using that advance_target_quiet [of t env] extends_trans by fastforce
qed simp

section \<open>After the delivery is issued\<close>

text \<open>Ticks one after the other, each in its own environment.\<close>

definition ticks :: "'w target_env list \<Rightarrow> 'w tick \<Rightarrow> 'w tick" where
  "ticks envs s = fold (\<lambda>env s. snd (advance_target env s)) envs s"

definition delivered :: "'w tick \<Rightarrow> bool" where
  "delivered s \<longleftrightarrow> (phase_of s = PhaseApplying \<and> te_ApplyIssued (tk_Target s)) \<or> target_terminal (phase_of s)"

lemma delivered_step:
  assumes "delivered s"
  shows "delivered (snd (advance_target env s)) \<and> extends quiet s (snd (advance_target env s))"
proof (cases "target_terminal (phase_of s)")
  case True
  with assms show ?thesis by (simp add: advance_target_idle)
next
  case False
  with assms have ap: "phase_of s = PhaseApplying" and i: "te_ApplyIssued (tk_Target s)"
    by (auto simp: delivered_def)
  have h: "handled calm env {PhaseConverged} s (advance_target env s)"
    using handle_applying_issued [OF i, of env] ap by (simp add: advance_target_simps)
  have d: "declared_step PhaseApplying PhaseConverged" "declared_step PhaseApplying PhaseFailed"
    "declared_step PhaseApplying PhaseSkipped" by (simp_all add: declared_step_def)
  have "extends quiet s (snd (advance_target env s))"
    using handled_effect [OF h, of quiet] d ap by (auto simp: calm_def)
  moreover have "delivered (snd (advance_target env s))"
    using h unfolding handled_def
  proof (elim disjE conjE bexE exE)
    assume "calm s (snd (advance_target env s))"
    with ap i show ?thesis by (simp add: delivered_def calm_def)
  next
    fix t assume "calm s t" "advance_target env s = converge env t"
    with d(1) ap show ?thesis using transition_to_moves(1) [of t PhaseConverged env]
      by (simp add: converge_def Let_def delivered_def calm_def)
  next
    fix t msg assume "advance_target env s = (Inr no_requeue, fail_target env msg t)"
    then show ?thesis by (simp add: delivered_def fail_target_moves)
  qed auto
  ultimately show ?thesis by simp
qed

lemma delivered_ticks: "delivered s \<Longrightarrow> delivered (ticks envs s) \<and> extends quiet s (ticks envs s)"
proof (induction envs arbitrary: s)
  case (Cons env envs)
  from delivered_step [OF Cons.prems, of env] Cons.IH show ?case
    by (auto simp: ticks_def intro: extends_trans)
qed (simp add: ticks_def)

section \<open>Entering Applying\<close>

text \<open>The approval gate, asked about this target in this world, said Passed.\<close>

definition approved :: "'w target_env \<Rightarrow> target_execution_state \<Rightarrow> 'w \<Rightarrow> bool" where
  "approved env t w \<longleftrightarrow> \<not> te_Rejected t \<and>
     (\<exists>g result w'. resolve_gate env ''approval'' = Inr g \<and>
        gate_evaluate g (phase_gate_request (target_to_gate_context env t) (te_Gate t)) w = (Inr result, w') \<and>
        is_passed result)"

lemma handle_waiting_approval_passed:
  assumes "phase_of s = PhaseWaitingApproval" "phase_of (snd (handle_waiting_approval env s)) = PhaseApplying"
  shows "approved env (tk_Target s) (tk_World s)"
proof -
  have ctx: "target_to_gate_context env (t\<lparr>te_ApprovalSentAt := x\<rparr>) = target_to_gate_context env t" for t x
    by (simp add: target_to_gate_context_def)
  show ?thesis
    using assms
    by (auto simp: handle_waiting_approval_def Let_def approved_def ctx fail_target_moves
        emit_gate_decision_trace_def split: if_splits sum.splits prod.splits)
qed

lemma enters_applying:
  assumes "phase_of s \<noteq> PhaseApplying" "phase_of (snd (advance_target env s)) = PhaseApplying"
  shows "(phase_of s = PhaseMetricsCheck \<and> \<not> approval_required (tk_Target s)) \<or>
         (phase_of s = PhaseWaitingApproval \<and> approved env (tk_Target s) (tk_World s))"
proof -
  have h: "handled calm env (nexts (tk_Target s)) s (advance_target env s)"
    by (rule advance_target_handled [OF assms(1)])
  have "PhaseApplying \<in> nexts (tk_Target s)"
    using h unfolding handled_def
  proof (elim disjE conjE bexE exE)
    assume "calm s (snd (advance_target env s))"
    with assms show ?thesis by (simp add: calm_def)
  next
    fix p t assume "p \<in> nexts (tk_Target s) - {PhaseConverged}" "calm s t"
      "advance_target env s = (Inr requeue_now, transition_to env p t)"
    moreover from this have "declared_step (phase_of t) p" using nexts_declared by (simp add: calm_def)
    ultimately show ?thesis using assms(2) transition_to_moves(1) [of t p env] by simp
  next
    assume "PhaseConverged \<in> nexts (tk_Target s)"
    then show ?thesis by (auto simp: nexts_def after_metrics_def split: target_phase.splits if_splits)
  next
    fix t msg assume "advance_target env s = (Inr no_requeue, fail_target env msg t)"
    with assms(2) show ?thesis by (simp add: fail_target_moves split: if_splits)
  qed
  then have "(phase_of s = PhaseMetricsCheck \<and> \<not> approval_required (tk_Target s)) \<or>
      phase_of s = PhaseWaitingApproval"
    by (auto simp: nexts_def after_metrics_def split: target_phase.splits if_splits)
  with handle_waiting_approval_passed [of s env] assms(2) show ?thesis
    by (auto simp: advance_target_simps)
qed

end
