(* ===== verification/Sample_World.thy ===== *)
theory Sample_World
  imports Target_Controller
begin

text \<open>
  A small concrete world: objects by name in association lists, a clock that stands still, no
  failing call and no other client. The witnesses of the development evaluate the model in it.
\<close>

record sample =
  sw_Now :: int
  sw_Clusters :: "(string \<times> cluster) list"
  sw_Approvals :: "(string \<times> approval) list"
  sw_Targets :: "(string \<times> target) list"
  sw_Runs :: "(string \<times> promotion_run) list"

definition fetch :: "(string \<times> 'o) list \<Rightarrow> string \<Rightarrow> api_error + 'o" where
  "fetch store name = (case map_of store name of None \<Rightarrow> Inl (ApiNotFound ''not found'') | Some x \<Rightarrow> Inr x)"

fun put_condition :: "condition \<Rightarrow> condition list \<Rightarrow> condition list" where
  "put_condition c [] = [c]"
| "put_condition c (d # ds) = (if c_Type d = c_Type c then c # ds else d # put_condition c ds)"

definition sample_kube :: "sample kube" where
  "sample_kube =
     \<lparr>kb_Now = sw_Now,
      kb_GetCluster = (\<lambda>n w. (fetch (sw_Clusters w) n, w)),
      kb_GetSubstrate = (\<lambda>n w. (Inl (ApiNotFound ''not found''), w)),
      kb_GetApproval = (\<lambda>n w. (fetch (sw_Approvals w) n, w)),
      kb_GetTarget = (\<lambda>n w. (fetch (sw_Targets w) n, w)),
      kb_GetRun = (\<lambda>n w. (fetch (sw_Runs w) n, w)),
      kb_GetPlan = (\<lambda>n w. (Inl (ApiNotFound ''not found''), w)),
      kb_ListTargetsOfRun = (\<lambda>n w. (Inr (map snd (sw_Targets w)), w)),
      kb_PatchClusterStatus =
        (\<lambda>old new w. (Inr new, w\<lparr>sw_Clusters := AList.update (cl_Name new) new (sw_Clusters w)\<rparr>)),
      kb_UpdateTargetStatus =
        (\<lambda>t w. (Inr t, w\<lparr>sw_Targets := AList.update (tg_Name t) t (sw_Targets w)\<rparr>)),
      kb_PatchTarget =
        (\<lambda>old new w. (Inr new, w\<lparr>sw_Targets := AList.update (tg_Name new) new (sw_Targets w)\<rparr>)),
      kb_CreateTarget =
        (\<lambda>t w. (Inr t, w\<lparr>sw_Targets := AList.update (tg_Name t) t (sw_Targets w)\<rparr>)),
      kb_PatchRunStatus = (\<lambda>old new w. (Inr new, w\<lparr>sw_Runs := AList.update (run_Name new) new (sw_Runs w)\<rparr>)),
      kb_PatchRun = (\<lambda>old new w. (Inr new, w\<lparr>sw_Runs := AList.update (run_Name new) new (sw_Runs w)\<rparr>)),
      kb_SelectorError = (\<lambda>sel. None),
      kb_ListClusters = (\<lambda>sel w. (Inr (filter (\<lambda>c. list_all (\<lambda>(k, v). smap_get (om_Labels (cl_Meta c)) k = v)
        (ls_MatchLabels sel)) (map snd (sw_Clusters w))), w)),
      kb_GetFleetClusters = (\<lambda>n w. (Inl (ApiNotFound ''not found''), w)),
      kb_SetControllerReference = (\<lambda>run m. m\<lparr>om_OwnerReferences :=
        [\<lparr>orf_APIVersion = ''kapro.io/v1alpha1'', orf_Kind = ''PromotionRun'', orf_Name = run_Name run,
          orf_UID = om_UID (run_Meta run), orf_Controller = Some True\<rparr>]\<rparr>),
      kb_FindStatusCondition = (\<lambda>cs t. find (\<lambda>c. c_Type c = t) cs),
      kb_SetStatusCondition = put_condition,
      kb_RemoveStatusCondition = (\<lambda>t cs. filter (\<lambda>c. c_Type c \<noteq> t) cs),
      kb_SelectorMatches = (\<lambda>sel labels. Inr (list_all (\<lambda>(k, v). smap_get labels k = v) (ls_MatchLabels sel))),
      kb_FormatFloat = (\<lambda>x. [])\<rparr>"

definition named :: "string \<Rightarrow> object_meta" where
  "named n = \<lparr>om_Name = n, om_Namespace = [], om_UID = [], om_Generation = 1, om_Labels = [],
     om_Annotations = [], om_OwnerReferences = [], om_Finalizers = [], om_DeletionTimestamp = None,
     om_CreationTimestamp = go_zero_time\<rparr>"

definition sample_cluster :: cluster where
  "sample_cluster =
     \<lparr>cl_Meta = named ''eu-1'',
      cl_Spec = \<lparr>cs_Substrate = \<lparr>sb_Mode = ModePush, sb_Ref = [], sb_SubstrateRef = [], sb_Parameters = []\<rparr>,
        cs_DesiredVersion = [], cs_DesiredAppKey = [], cs_DesiredVersions = [], cs_Suspend = False,
        cs_ConsecutiveFailureThreshold = None, cs_Bootstrap = False, cs_Topology = None\<rparr>,
      cl_Status = \<lparr>cst_ObservedGeneration = 0, cst_Phase = ClusterPending, cst_Conditions = [],
        cst_CurrentVersions = [(''default'', ''v1'')], cst_DeliverySystem = [],
        cst_Health = \<lparr>h_AllWorkloadsReady = True, h_ReadyWorkloads = 1, h_FailedWorkloads = 0,
          h_TotalWorkloads = 1, h_Message = []\<rparr>,
        cst_Delivery = [], cst_ActivePromotionRun = [], cst_LastHeartbeat = [], cst_ControllerVersion = [],
        cst_Heartbeat = None, cst_BootstrapUsed = None\<rparr>\<rparr>"

definition sample_run :: promotion_run where
  "sample_run =
     \<lparr>run_Meta = named ''r1'',
      run_Spec = \<lparr>prs_DeliveryUnitRef = [], prs_FleetRef = [], prs_Version = ''v2'', prs_Versions = [],
        prs_Plans = [], prs_Suspended = False, prs_Scope = None, prs_Timeout = []\<rparr>,
      run_Status = \<lparr>rst_ObservedGeneration = 0, rst_Phase = RunProgressing, rst_ResolvedVersion = ''v2'',
        rst_StartedAt = [], rst_CompletedAt = [], rst_PlanProgress = [], rst_Summary = None,
        rst_Report = \<lparr>rep_Phase = RunProgressing, rep_Artifact = [], rep_ResolvedVersion = [],
          rep_StartedAt = [], rep_CompletedAt = [], rep_Duration = [], rep_TotalTargets = 0,
          rep_SyncedTargets = 0, rep_FailedTargets = 0, rep_PendingTargets = 0, rep_RolledBackTargets = 0,
          rep_TotalArtifacts = 0, rep_DeltaArtifacts = 0, rep_PendingApprovals = []\<rparr>,
        rst_AuditTrail = [], rst_Conditions = []\<rparr>\<rparr>"

definition sample_policy :: gate_policy_spec where
  "sample_policy =
     \<lparr>pol_ExpressionRef = [], pol_Mode = [],
      pol_Gate = \<lparr>g_SoakTime = [], g_GateTimeout = [], g_HealthCheck = False, g_Metrics = [],
        g_Templates = [], g_Verification = None\<rparr>,
      pol_Approval = Some \<lparr>ac_Required = True, ac_Approvers = [''ann'']\<rparr>, pol_OnFailure = [],
      pol_Notifications = []\<rparr>"

definition sample_exec :: target_execution_state where
  "sample_exec = empty_target\<lparr>te_PromotionRunRef := ''r1'', te_Target := ''eu-1'', te_PlanRef := ''p'',
     te_Plan := ''plan'', te_Stage := ''canary'', te_Version := ''v2'', te_Gate := Some sample_policy,
     te_AppKey := ''default'', te_DesiredVersions := [(''default'', ''v2'')]\<rparr>"

definition sample_target :: target where
  "sample_target =
     \<lparr>tg_Meta = named ''t1'',
      tg_Spec = \<lparr>ts_PromotionRunRef = ''r1'', ts_Target = ''eu-1'', ts_PlanRef = ''p'', ts_Plan = ''plan'',
        ts_Stage = ''canary'', ts_Version = ''v2'', ts_Gate = Some sample_policy, ts_AppKey = ''default'',
        ts_DesiredVersions = [(''default'', ''v2'')], ts_Rollback = False, ts_Cancelled = False,
        ts_CancelledReason = [], ts_CancelledPhase = PhaseNone\<rparr>,
      tg_Status = \<lparr>tst_Exec = empty_target, tst_ObservedGeneration = 0, tst_Conditions = [], tst_DecisionTrace = None\<rparr>\<rparr>"

definition sample_approval :: approval where
  "sample_approval = \<lparr>ap_Meta = named ''a'', ap_PromotionRun = ''r1'', ap_Target = ''eu-1'', ap_Ref = [],
     ap_ApprovedBy = ''ann'', ap_Bypass = False, ap_Comment = ''ok''\<rparr>"

definition sample_actuator :: "sample actuator" where
  "sample_actuator =
     \<lparr>act_Apply = (\<lambda>r w. (None, w)), act_Rollback = (\<lambda>c v k w. (None, w)), act_ApplyDelta = (\<lambda>r w. (Inr 1, w)),
      act_IsAllConverged = (\<lambda>c vs w. (Inr False, w)), act_SubstrateObjects = None, act_Capabilities = None\<rparr>"

definition sample_gates :: "sample gate_registry" where
  "sample_gates = [(''soak'', Some (soak_gate sample_kube)), (''approval'', Some (approval_gate sample_kube)),
     (''verification'', Some verification_gate)]"

definition sample_env :: "sample target_env" where
  "sample_env =
     \<lparr>ev_Kube = sample_kube, ev_GateRegistry = Some sample_gates,
      ev_ActuatorRegistry = Some (snd (actuator_register ''push/'' sample_actuator new_actuator_registry)),
      ev_Notifier = True, ev_StagePublisher = False, ev_ApprovalURLs = None, ev_PromotionRun = sample_run,
      ev_Rt = sample_target\<rparr>"

definition sample_world :: sample where
  "sample_world =
     \<lparr>sw_Now = 1700000000 * second, sw_Clusters = [(''eu-1'', sample_cluster)],
      sw_Approvals = [(approval_name ''r1'' (sync_name ''r1'' ''p'' ''canary'' ''eu-1''), sample_approval)],
      sw_Targets = [(''t1'', sample_target)], sw_Runs = [(''r1'', sample_run)]\<rparr>"

definition sample_tick :: "target_phase \<Rightarrow> sample tick" where
  "sample_tick p = \<lparr>tk_Target = sample_exec\<lparr>te_Phase := p\<rparr>, tk_World = sample_world, tk_Log = []\<rparr>"

end
