(* ===== verification/Target_Properties.thy ===== *)
theory Target_Properties
  imports Target_Safety Sample_World
begin

text \<open>
  The properties of the target rollout: graph, budget, delivery, approval, soak, missing
  cluster, heartbeat, and the reconciler around them, each with a witness in the sample world
  where it has hypotheses.
\<close>

section \<open>The machine\<close>

text \<open>Building the dispatch table never panics, and the adjacency it publishes through
  \<^verbatim>\<open>Graph\<close> is exactly the graph that the comment in \<^verbatim>\<open>buildFSM\<close> documents: seven handled phases,
  the empty phase leading to Pending, three terminal phases, nothing for any other text.\<close>

theorem target_fsm_graph:
  "\<exists>m. build_fsm hs = Inr m \<and> wf_machine PhaseNone m \<and> (\<forall>p. graph PhaseNone m p = declared_next p) \<and>
       validate_graph m [PhasePending, PhaseVerification, PhaseHealthCheck, PhaseSoaking, PhaseMetricsCheck,
         PhaseWaitingApproval, PhaseApplying, PhaseConverged, PhaseFailed, PhaseSkipped] = []"
proof -
  have "graph PhaseNone (target_table hs) p = declared_next p" for p
    by (cases p) (simp_all add: graph_def target_table_def)
  moreover have "wf_machine PhaseNone (target_table hs)"
    by (simp add: wf_machine_def target_table_def phases_def wf_map_def)
  ultimately show ?thesis by (auto simp: build_fsm_table validate_graph_def target_table_def)
qed

text \<open>C9. Whatever the world, the gates and the actuators answer, one tick of the target machine
  stays in its phase or moves along the declared graph, never reports an undeclared transition,
  and never writes a field that belongs to the spec of the target or to a reviewer.\<close>

theorem advance_target_follows_graph:
  "declared_step (te_Phase (tk_Target s)) (te_Phase (tk_Target (snd (advance_target env s)))) \<and>
   extends expected s (snd (advance_target env s)) \<and>
   same_spec (tk_Target s) (tk_Target (snd (advance_target env s)))"
  using advance_target_step by blast

text \<open>The budget of eight immediate advances never decides a reconcile: the loop gives the
  same result with any budget of seven or more, so it always ends because a phase waits, ends
  or reaches Applying.\<close>

theorem advance_budget_never_binds:
  "advance_loop env (7 + n) s = advance_target_until_stable env s"
  unfolding advance_target_until_stable_def maxImmediatePhaseAdvances_def
  by (rule target_loop.loop_saturates) simp_all

section \<open>Delivery\<close>

lemma reconcile_cancelled_quiet: "extends quiet s (snd (reconcile_cancelled env rt s))"
  by (auto simp: reconcile_cancelled_def Let_def emit_target_phase_decision_trace_def
      intro!: extends_emit extends_upd_target extends_set_world split: prod.split option.split sum.split)

lemma notify_persisted_transitions_quiet: "extends quiet s (notify_persisted_transitions env prev s)"
  by (auto simp: notify_persisted_transitions_def notify_approval_request_def Let_def
      intro!: extends_emit extends_set_world split: prod.split option.split sum.split)

lemma persist_target_quiet: "extends quiet s (snd (persist_target env rt r s))"
  by (auto simp: persist_target_def Let_def split: prod.split sum.split
      intro!: extends_set_world extends_trans [OF extends_set_world notify_persisted_transitions_quiet])

text \<open>C8. A reconcile that reads a target in any phase but Applying never calls an actuator: the
  entry into Applying is written to the API server before anything is delivered, and the
  cancellation and terminal paths deliver nothing.\<close>

theorem reconcile_delivers_only_from_applying:
  assumes "kb_GetTarget (ev_Kube env) name (tk_World s) = (Inr rt, w)" "tg_Phase rt \<noteq> PhaseApplying"
  shows "extends quiet s (snd (reconcile_target env name s))"
proof -
  have adv: "extends quiet s (snd (persist_target env' rt r s'))"
    if "advance_target_until_stable env' (upd_target (\<lambda>_. target_status_from_promotion_target rt) (set_world w1 s)) =
        (Inr r, s')" for env' r s' w1
  proof -
    let ?s0 = "upd_target (\<lambda>_. target_status_from_promotion_target rt) (set_world w1 s)"
    have "te_Phase (tk_Target ?s0) \<noteq> PhaseApplying"
      using assms(2) by (simp add: target_status_from_promotion_target_def Let_def)
    from until_stable_quiet [OF this, of env'] that have "extends quiet ?s0 s'" by simp
    then have "extends quiet s s'" by (simp add: extends_def)
    then show ?thesis by (rule extends_trans [OF _ persist_target_quiet])
  qed
  have err: "extends quiet s s'"
    if "advance_target_until_stable env' (upd_target (\<lambda>_. target_status_from_promotion_target rt) (set_world w1 s)) =
        (Inl e, s')" for env' e s' w1
  proof -
    let ?s0 = "upd_target (\<lambda>_. target_status_from_promotion_target rt) (set_world w1 s)"
    have "te_Phase (tk_Target ?s0) \<noteq> PhaseApplying"
      using assms(2) by (simp add: target_status_from_promotion_target_def Let_def)
    from until_stable_quiet [OF this, of env'] that show ?thesis by (simp add: extends_def)
  qed
  have canc: "extends quiet s (snd (reconcile_cancelled env' rt (set_world w1 s)))" for env' w1
    by (rule extends_trans [OF _ reconcile_cancelled_quiet]) (simp add: extends_set_world)
  show ?thesis
    using assms(1)
    by (auto simp: reconcile_target_def Let_def adv err canc split: prod.split sum.split
        intro!: extends_set_world extends_emit)
qed

theorem reconcile_delivers_only_from_applying_witness:
  "tg_Phase sample_target \<noteq> PhaseApplying \<and>
   extends quiet (sample_tick PhaseNone) (snd (reconcile_target sample_env ''t1'' (sample_tick PhaseNone)))"
  using reconcile_delivers_only_from_applying
    [of sample_env "''t1''" "sample_tick PhaseNone" sample_target sample_world]
  by (simp add: sample_env_def sample_kube_def sample_tick_def sample_world_def fetch_def sample_target_def
      empty_target_def)

text \<open>C2. Once a delivery has been issued in Applying, no sequence of later ticks, in whatever
  environments, issues another Apply, ApplyDelta or Rollback, and the target stays in Applying or ends. (The
  polls of convergence, which call the actuator to read, go on.)\<close>

theorem delivery_issued_once:
  assumes "te_Phase (tk_Target s) = PhaseApplying" "te_ApplyIssued (tk_Target s)"
  shows "extends quiet s (ticks envs s) \<and>
    (te_Phase (tk_Target (ticks envs s)) = PhaseApplying \<or> target_terminal (te_Phase (tk_Target (ticks envs s))))"
  using delivered_ticks [of s envs] assms by (auto simp: delivered_def)

definition issued_tick :: "sample tick" where
  "issued_tick = upd_target (\<lambda>t. t\<lparr>te_ApplyIssued := True\<rparr>) (sample_tick PhaseApplying)"

theorem delivery_issued_once_witness:
  "te_Phase (tk_Target issued_tick) = PhaseApplying \<and> te_ApplyIssued (tk_Target issued_tick) \<and>
   extends quiet issued_tick (ticks [sample_env, sample_env] issued_tick)"
  using delivery_issued_once [of issued_tick "[sample_env, sample_env]"]
  by (simp add: issued_tick_def sample_tick_def)

text \<open>An effect that delivers does so to a cluster that carries the claim of \<open>run\<close>.\<close>

fun claimed_by :: "string \<Rightarrow> effect \<Rightarrow> bool" where
  "claimed_by run (ApplyCalled k r) = (cst_ActivePromotionRun (cl_Status (ar_Cluster r)) = run)"
| "claimed_by run (ApplyDeltaCalled k r) = (cst_ActivePromotionRun (cl_Status (dr_Cluster r)) = run)"
| "claimed_by run e = (\<not> delivery_effect e)"

text \<open>What a status patch answers: the object with the patched claim.\<close>

definition patch_keeps_claim :: "'w kube \<Rightarrow> bool" where
  "patch_keeps_claim kb \<longleftrightarrow>
     (\<forall>old new w mc' w'. kb_PatchClusterStatus kb old new w = (Inr mc', w') \<longrightarrow>
        cst_ActivePromotionRun (cl_Status mc') = cst_ActivePromotionRun (cl_Status new))"

text \<open>C1. Every actuator call of a tick is for a cluster object that carries the claim of this very
  run, as it was read or as the server answered the claiming patch; a cluster claimed by
  another run receives nothing.\<close>

theorem deliveries_carry_own_claim:
  assumes "patch_keeps_claim (ev_Kube env)"
  shows "extends (claimed_by (run_Name (ev_PromotionRun env))) s (snd (advance_target env s))"
proof (cases "te_Phase (tk_Target s) = PhaseApplying")
  case True
  let ?P = "claimed_by (run_Name (ev_PromotionRun env))"
  have cov: "covers ?P" by (auto simp: covers_def quiet_def elim: delivery_effect.elims)
  have del: "delivers ?P mc" if "cst_ActivePromotionRun (cl_Status mc) = run_Name (ev_PromotionRun env)" for mc
    using that by (auto simp: delivers_def)
  have "claim_safe env ?P"
    using assms del unfolding claim_safe_def patch_keeps_claim_def by fastforce
  from handled_effect [OF advance_target_applying [OF True cov this], of ?P] show ?thesis
    using True cov by (auto simp: busy_def covers_def declared_step_def)
next
  case False
  have "quiet e \<Longrightarrow> claimed_by (run_Name (ev_PromotionRun env)) e" for e
    by (cases e) (simp_all add: quiet_def)
  then show ?thesis using advance_target_quiet [OF False, of env] by (blast intro: extends_mono)
qed

theorem deliveries_carry_own_claim_witness:
  "patch_keeps_claim (ev_Kube sample_env) \<and>
   extends (claimed_by ''r1'') (sample_tick PhaseApplying) (snd (advance_target sample_env (sample_tick PhaseApplying)))"
proof -
  have "patch_keeps_claim (ev_Kube sample_env)"
    by (simp add: patch_keeps_claim_def sample_env_def sample_kube_def)
  moreover from deliveries_carry_own_claim [OF this, of "sample_tick PhaseApplying"]
  have "extends (claimed_by ''r1'') (sample_tick PhaseApplying) (snd (advance_target sample_env (sample_tick PhaseApplying)))"
    by (simp add: sample_env_def sample_run_def named_def)
  ultimately show ?thesis by simp
qed

end
