(* ===== verification/Target_Gate_Properties.thy ===== *)
theory Target_Gate_Properties
  imports Target_Safety Sample_World
begin

text \<open>
  The properties of the gates as the target controller uses them: approval before Applying, the
  soak period, the attempts and the stickiness of gate templates, and the metrics timeout.
\<close>

section \<open>Approval\<close>

lemma sync_name_nonempty [simp]: "sync_name r p st t \<noteq> []"
  by (simp add: sync_name_def Let_def)

definition target_approval_name :: "'w target_env \<Rightarrow> target_execution_state \<Rightarrow> string" where
  "target_approval_name env t =
     approval_name (run_Name (ev_PromotionRun env))
       (sync_name (run_Name (ev_PromotionRun env)) (te_PlanRef t) (te_Stage t) (te_Target t))"

lemma approved_by_approval_gate:
  assumes "approved env t w" "resolve_gate env ''approval'' = Inr (Some (approval_gate (ev_Kube env)))"
  shows "\<not> te_Rejected t \<and>
    (\<exists>a w'. kb_GetApproval (ev_Kube env) (target_approval_name env t) w = (Inr a, w') \<and>
            approver_allowed (te_Gate t) a)"
proof -
  let ?req = "phase_gate_request (target_to_gate_context env t) (te_Gate t)"
  obtain got w' where g: "kb_GetApproval (ev_Kube env) (target_approval_name env t) w = (got, w')" by fastforce
  have ctx: "gr_Context ?req = Some (target_to_gate_context env t)" "gr_Policy ?req = te_Gate t"
    by (simp_all add: phase_gate_request_def)
  have name: "approval_name (gx_PromotionRunRef (target_to_gate_context env t))
      (if gx_Name (target_to_gate_context env t) = [] then gx_Target (target_to_gate_context env t)
       else gx_Name (target_to_gate_context env t)) = target_approval_name env t"
    by (simp add: target_to_gate_context_def target_approval_name_def Let_def)
  from approval_gate_passed_iff [OF ctx(1), of "ev_Kube env" w got w'] assms g name ctx(2)
  show ?thesis by (fastforce simp: approved_def gate_evaluate_def)
qed

text \<open>C3. When the gate policy of a target requires approval, a tick that brings it into Applying
  started in WaitingApproval, with the target not rejected, and read from the world of that tick
  the Approval object with the one name derived from run, plan, stage and cluster, by an
  approver the policy allows.\<close>

theorem applying_requires_approval:
  assumes "te_Phase (tk_Target s) \<noteq> PhaseApplying" "approval_required (tk_Target s)"
    and "resolve_gate env ''approval'' = Inr (Some (approval_gate (ev_Kube env)))"
    and "te_Phase (tk_Target (snd (advance_target env s))) = PhaseApplying"
  shows "te_Phase (tk_Target s) = PhaseWaitingApproval \<and> \<not> te_Rejected (tk_Target s) \<and>
    (\<exists>a w'. kb_GetApproval (ev_Kube env) (target_approval_name env (tk_Target s)) (tk_World s) = (Inr a, w') \<and>
            approver_allowed (te_Gate (tk_Target s)) a)"
  using enters_applying [OF assms(1,4)] assms(2) approved_by_approval_gate [OF _ assms(3)] by blast

lemmas sample_simps = sample_env_def sample_kube_def sample_tick_def sample_world_def fetch_def
  sample_exec_def sample_policy_def sample_gates_def empty_target_def

lemma sample_waiting_approval:
  "phase_of (snd (advance_target sample_env (sample_tick PhaseWaitingApproval))) = PhaseApplying"
proof -
  have h: "\<exists>t. calm (sample_tick PhaseWaitingApproval) t \<and>
      advance_target sample_env (sample_tick PhaseWaitingApproval) = (Inr requeue_now, transition_to sample_env PhaseApplying t)"
    by (rule exI, rule conjI, rule_tac [2] trans, rule_tac [2] advance_target_simps)
      (auto simp: sample_simps handle_waiting_approval_def Let_def resolve_gate_def gate_resolve_def
        gate_evaluate_def approval_gate_def phase_gate_request_def target_to_gate_context_def
        sample_run_def named_def approver_allowed_def sample_approval_def is_passed_def
        intro!: calm_intros)
  then obtain t where t: "calm (sample_tick PhaseWaitingApproval) t"
    "advance_target sample_env (sample_tick PhaseWaitingApproval) = (Inr requeue_now, transition_to sample_env PhaseApplying t)"
    by blast
  have "declared_step (phase_of t) PhaseApplying"
    using t(1) by (simp add: calm_def sample_tick_def declared_step_def)
  with t(2) show ?thesis by (simp add: transition_to_moves(1))
qed

theorem applying_requires_approval_witness:
  "approval_required (tk_Target (sample_tick PhaseWaitingApproval)) \<and>
   (\<exists>a w'. kb_GetApproval (ev_Kube sample_env)
      (target_approval_name sample_env (tk_Target (sample_tick PhaseWaitingApproval)))
      (tk_World (sample_tick PhaseWaitingApproval)) = (Inr a, w') \<and>
      approver_allowed (te_Gate (tk_Target (sample_tick PhaseWaitingApproval))) a)"
  using applying_requires_approval [OF _ _ _ sample_waiting_approval]
  by (simp add: sample_simps approval_required_def resolve_gate_def gate_resolve_def)

section \<open>Soak\<close>

text \<open>With a soak time configured and the soak clock started, a tick leaves Soaking for the metrics
  check exactly when the configured time has passed since the clock was started.\<close>

lemma soak_tick_outcome:
  assumes "te_Phase (tk_Target s) = PhaseSoaking" "te_Gate (tk_Target s) = Some g"
    and "parse_duration (g_SoakTime (pol_Gate g)) = Some d" "g_SoakTime (pol_Gate g) \<noteq> []"
    and "parse_rfc3339 (te_StartedAt (tk_Target s)) = Some started" "te_StartedAt (tk_Target s) \<noteq> []"
    and "resolve_gate env ''soak'' = Inr (Some (soak_gate (ev_Kube env)))"
  shows "te_Phase (tk_Target (snd (advance_target env s))) =
    (if d \<le> kb_Now (ev_Kube env) (tk_World s) - started then PhaseMetricsCheck else PhaseSoaking)"
proof -
  let ?req = "phase_gate_request (target_to_gate_context env (tk_Target s)) (te_Gate (tk_Target s))"
  let ?ctx = "target_to_gate_context env (tk_Target s)"
  have req: "gr_Policy ?req = Some g" "gr_Context ?req = Some ?ctx"
    "gx_StartedAt ?ctx = te_StartedAt (tk_Target s)"
    using assms(2) by (simp_all add: phase_gate_request_def target_to_gate_context_def Let_def)
  have started: "gx_StartedAt ?ctx \<noteq> []" "parse_rfc3339 (gx_StartedAt ?ctx) = Some started"
    using assms(5,6) req(3) by simp_all
  obtain r where r: "soak_gate (ev_Kube env) ?req (tk_World s) = (Inr r, tk_World s)"
    "is_passed r = (d \<le> kb_Now (ev_Kube env) (tk_World s) - started)"
    using soak_gate_result [OF req(1) assms(4,3) req(2) started, where kb = "ev_Kube env" and w = "tk_World s"]
    by blast
  have m: "declared_step PhaseSoaking PhaseMetricsCheck" by (simp add: declared_step_def)
  show ?thesis
    using assms(1,2,7) r m
    by (simp add: advance_target_simps handle_soaking_def Let_def gate_evaluate_def transition_to_moves(1))
qed

text \<open>A target whose policy has a soak time, entering Soaking for the first time, leaves it for the
  metrics check at the first tick whose clock is at least that time after the entry, the entry
  being rounded down to the second it is recorded with; any earlier tick keeps it in Soaking.\<close>

theorem soak_lasts_from_entry:
  assumes "te_Phase (tk_Target s) = PhaseHealthCheck" "te_StartedAt (tk_Target s) = []"
    and "te_Gate (tk_Target s) = Some g" "g_SoakTime (pol_Gate g) \<noteq> []"
    and "parse_duration (g_SoakTime (pol_Gate g)) = Some d"
    and "printable_instant (kb_Now (ev_Kube env) (tk_World s))"
    and "resolve_gate env ''soak'' = Inr (Some (soak_gate (ev_Kube env)))"
  shows "te_Phase (tk_Target (snd (advance_target env (set_world w (transition_to env PhaseSoaking s))))) =
    (if d \<le> kb_Now (ev_Kube env) w - kb_Now (ev_Kube env) (tk_World s) div second * second
     then PhaseMetricsCheck else PhaseSoaking)"
proof -
  let ?now = "kb_Now (ev_Kube env) (tk_World s)" and ?s = "set_world w (transition_to env PhaseSoaking s)"
  have d: "declared_step (phase_of s) PhaseSoaking" using assms(1) by (simp add: declared_step_def)
  have "phase_of ?s = PhaseSoaking" "te_Gate (tk_Target ?s) = Some g"
    using transition_to_moves(1,2) [OF d, of env] assms(3) by (simp_all add: same_spec_def)
  moreover have started: "te_StartedAt (tk_Target ?s) = format_rfc3339 ?now"
    using assms(2) declared_step_valid [OF d]
    by (simp add: transition_to_def Let_def emit_target_phase_decision_trace_def)
  moreover have "parse_rfc3339 (te_StartedAt (tk_Target ?s)) = Some (?now div second * second)"
    unfolding started using parse_format_rfc3339 [OF assms(6)] by (simp add: minus_mod_eq_div_mult)
  ultimately show ?thesis
    using soak_tick_outcome [of ?s g d "?now div second * second" env] assms(4,5,7)
    by (simp add: format_rfc3339_nonempty)
qed

definition soak_policy :: gate_policy_spec where
  "soak_policy = sample_policy\<lparr>pol_Gate := (pol_Gate sample_policy)\<lparr>g_SoakTime := ''30m''\<rparr>\<rparr>"

definition soak_tick :: "sample tick" where
  "soak_tick = upd_target (\<lambda>t. t\<lparr>te_Gate := Some soak_policy\<rparr>) (sample_tick PhaseHealthCheck)"

theorem soak_lasts_from_entry_witness:
  "te_Phase (tk_Target (snd (advance_target sample_env (set_world (sample_world\<lparr>sw_Now := 1700001800 * second\<rparr>)
     (transition_to sample_env PhaseSoaking soak_tick))))) = PhaseMetricsCheck \<and>
   te_Phase (tk_Target (snd (advance_target sample_env (set_world (sample_world\<lparr>sw_Now := 1700001799 * second\<rparr>)
     (transition_to sample_env PhaseSoaking soak_tick))))) = PhaseSoaking"
proof -
  have p: "printable_instant (1700000000 * second)"
    by (simp add: printable_instant_def duration_units epoch_day_def days_before_year_def)
  have d: "parse_duration ''30m'' = Some 1800000000000" by code_simp
  have r: "resolve_gate sample_env ''soak'' = Inr (Some (soak_gate (ev_Kube sample_env)))"
    by (simp add: sample_env_def sample_gates_def resolve_gate_def gate_resolve_def)
  have t: "te_Phase (tk_Target soak_tick) = PhaseHealthCheck" "te_StartedAt (tk_Target soak_tick) = []"
    "te_Gate (tk_Target soak_tick) = Some soak_policy" "g_SoakTime (pol_Gate soak_policy) = ''30m''"
    "kb_Now (ev_Kube sample_env) w = sw_Now w" "sw_Now (tk_World soak_tick) = 1700000000 * second" for w
    by (simp_all add: soak_tick_def soak_policy_def sample_simps)
  show ?thesis
    using soak_lasts_from_entry [OF t(1-3), of 1800000000000 sample_env "sample_world\<lparr>sw_Now := 1700001800 * second\<rparr>"]
      soak_lasts_from_entry [OF t(1-3), of 1800000000000 sample_env "sample_world\<lparr>sw_Now := 1700001799 * second\<rparr>"]
    by (simp add: t p d r) (simp add: duration_units)
qed

section \<open>Gate templates\<close>

definition decided :: "gate_run_status \<Rightarrow> bool" where
  "decided gs \<longleftrightarrow> gs_Phase gs = GatePassed \<or> gs_Phase gs = GateFailed"

lemma max_attempts_pos: "1 \<le> max_attempts tmpl"
  by (simp add: max_attempts_def)

lemma find_name [simp]: "gs_Name (find_or_create_gate_status gates n now) = n"
  by (induction gates n now rule: find_or_create_gate_status.induct) auto

lemma status_names [simp]:
  "gs_Name (status_after_error n tmpl now err gs) = gs_Name gs"
  "gs_Name (status_after_result n tmpl now result gs) = gs_Name gs"
  by (simp_all add: status_after_error_def status_after_result_def record_result_def Let_def)

lemma status_attempts [simp]:
  "gs_Attempts (status_after_error n tmpl now err gs) = gs_Attempts gs + 1"
  "gs_Attempts (status_after_result n tmpl now result gs) = gs_Attempts gs + 1"
  by (simp_all add: status_after_error_def status_after_result_def record_result_def Let_def)

lemma status_after_error_phase:
  "gs_Phase (status_after_error n tmpl now err gs) =
     (if gs_Attempts gs + 1 \<ge> max_attempts tmpl then GateFailed else GateRunning)"
  by (simp add: status_after_error_def Let_def)

lemma status_after_result_phase:
  "gs_Phase (status_after_result n tmpl now result gs) =
     (if attempts_exhausted tmpl result gs then GateFailed else reported_phase result)"
  by (simp add: status_after_result_def record_result_def Let_def)

text \<open>What one evaluation leaves for its template.\<close>

abbreviation status_of :: "nat \<Rightarrow> gate_template_spec \<Rightarrow> string \<Rightarrow> gate_run_status list \<Rightarrow> gate_run_status" where
  "status_of j tmpl now gates \<equiv> find_or_create_gate_status gates (template_name j tmpl) now"

lemma find_set [simp]:
  "find_or_create_gate_status (set_gate_status e es) n now =
     (if n = gs_Name e then e else find_or_create_gate_status es n now)"
  by (rule gate_statuses.get_put)

lemma evaluate_template_decided:
  assumes "decided (status_of j tmpl now gates)"
  shows "evaluate_template env ctx now j tmpl gates s =
    (Inr (gates, gs_Phase (status_of j tmpl now gates) = GateFailed, None), s)"
  using assms by (auto simp: evaluate_template_def Let_def decided_def first_evaluation_def)

lemma evaluate_template_undecided:
  assumes u: "\<not> decided (status_of j tmpl now gates)"
    and e: "evaluate_template env ctx now j tmpl gates s = (Inr (gates', b, d), s')"
  shows "gs_Attempts (status_of j tmpl now' gates') = gs_Attempts (status_of j tmpl now gates) + 1"
    and "gs_Attempts (status_of j tmpl now gates) + 1 \<ge> max_attempts tmpl \<Longrightarrow> decided (status_of j tmpl now' gates')"
proof -
  let ?n = "template_name j tmpl" and ?gs = "status_of j tmpl now gates"
  have "gs_Attempts (status_of j tmpl now' gates') = gs_Attempts ?gs + 1 \<and>
    (gs_Attempts ?gs + 1 \<ge> max_attempts tmpl \<longrightarrow> decided (status_of j tmpl now' gates'))"
  proof -
    have res: "gs_Attempts (status_of j tmpl now' g1) = gs_Attempts ?gs + 1 \<and>
        (gs_Attempts ?gs + 1 \<ge> max_attempts tmpl \<longrightarrow> decided (status_of j tmpl now' g1))"
      if "template_after_result env ?n tmpl now result ?gs gates t = ((g1, b1, d1), t1)" for result t g1 b1 d1 t1
      using that
      by (auto simp: template_after_result_def Let_def decided_def status_after_result_phase
          attempts_exhausted_def split: if_splits gate_phase.splits)
    have err: "gs_Attempts (status_of j tmpl now' g1) = gs_Attempts ?gs + 1 \<and>
        (gs_Attempts ?gs + 1 \<ge> max_attempts tmpl \<longrightarrow> decided (status_of j tmpl now' g1))"
      if "template_after_error env ?n tmpl now er ?gs gates t = ((g1, b1, d1), t1)" for er t g1 b1 d1 t1
      using that by (auto simp: template_after_error_def Let_def decided_def status_after_error_phase)
    show ?thesis
      using e u by (auto simp: evaluate_template_def Let_def decided_def map_prod_def
          split: if_splits sum.splits prod.splits dest!: res err)
  qed
  then show "gs_Attempts (status_of j tmpl now' gates') = gs_Attempts ?gs + 1"
    and "gs_Attempts ?gs + 1 \<ge> max_attempts tmpl \<Longrightarrow> decided (status_of j tmpl now' gates')"
    by blast+
qed

text \<open>Rounds of evaluation of one template: its environment, context and time string may differ each time.\<close>

fun template_rounds ::
  "('w target_env \<times> gate_context \<times> string) list \<Rightarrow> nat \<Rightarrow> gate_template_spec \<Rightarrow> gate_run_status list \<Rightarrow>
   'w tick \<Rightarrow> (gate_run_status list \<times> 'w tick)" where
  "template_rounds [] j tmpl gates s = (gates, s)"
| "template_rounds ((env, ctx, now) # rs) j tmpl gates s =
     (case evaluate_template env ctx now j tmpl gates s of
        (Inl e, s') \<Rightarrow> template_rounds rs j tmpl gates s'
      | (Inr (gates', blocks, delay), s') \<Rightarrow> template_rounds rs j tmpl gates' s')"

lemma decided_now: "decided (status_of j tmpl now gates) = decided (status_of j tmpl now' gates)"
  by (induction gates "template_name j tmpl" now rule: find_or_create_gate_status.induct)
    (auto simp: decided_def)

lemma attempts_now: "gs_Attempts (status_of j tmpl now gates) = gs_Attempts (status_of j tmpl now' gates)"
  by (induction gates "template_name j tmpl" now rule: find_or_create_gate_status.induct) auto

lemma evaluate_template_resolved:
  assumes "gate_for_template env tmpl = Inr g"
  shows "\<exists>gates' b d s'. evaluate_template env ctx now j tmpl gates s = (Inr (gates', b, d), s')"
  using assms
  by (auto simp: evaluate_template_def Let_def map_prod_def split: prod.split sum.split)

lemma template_rounds_keep_decision:
  assumes "decided (status_of j tmpl [] gates)"
  shows "decided (status_of j tmpl [] (fst (template_rounds rs j tmpl gates s)))"
  using assms
proof (induction rs arbitrary: s)
  case (Cons r rs)
  obtain env ctx now where r: "r = (env, ctx, now)" by (cases r)
  have d: "decided (status_of j tmpl now gates)" using Cons.prems decided_now by blast
  from Cons show ?case by (simp add: r evaluate_template_decided [OF d])
qed simp

text \<open>The measure of one template: its attempts stay within the bound and reach it only when decided.\<close>

definition within_attempts :: "nat \<Rightarrow> gate_template_spec \<Rightarrow> gate_run_status list \<Rightarrow> bool" where
  "within_attempts j tmpl gates \<longleftrightarrow>
     gs_Attempts (status_of j tmpl [] gates) \<le> max_attempts tmpl \<and>
     (gs_Attempts (status_of j tmpl [] gates) = max_attempts tmpl \<longrightarrow> decided (status_of j tmpl [] gates))"

lemma evaluate_template_round:
  assumes g: "gate_for_template env tmpl = Inr g" and w: "within_attempts j tmpl gates"
  obtains gates' b d s' where
    "evaluate_template env ctx now j tmpl gates s = (Inr (gates', b, d), s')"
    "within_attempts j tmpl gates'"
    "decided (status_of j tmpl [] gates) \<Longrightarrow> gates' = gates"
    "\<not> decided (status_of j tmpl [] gates) \<Longrightarrow>
       gs_Attempts (status_of j tmpl [] gates') = gs_Attempts (status_of j tmpl [] gates) + 1"
proof -
  obtain gates' b d s' where e: "evaluate_template env ctx now j tmpl gates s = (Inr (gates', b, d), s')"
    using evaluate_template_resolved [OF g] by blast
  show thesis
  proof (cases "decided (status_of j tmpl [] gates)")
    case True
    then have d: "decided (status_of j tmpl now gates)" using decided_now by blast
    have "gates' = gates" using e by (simp add: evaluate_template_decided [OF d])
    with that [OF e] w True show thesis by simp
  next
    case False
    then have u: "\<not> decided (status_of j tmpl now gates)" using decided_now by blast
    note step = evaluate_template_undecided [OF u e, where now' = "[]"]
    have a: "gs_Attempts (status_of j tmpl [] gates') = gs_Attempts (status_of j tmpl [] gates) + 1"
      using step(1) attempts_now [of gates j tmpl now "[]"] by simp
    have lt: "gs_Attempts (status_of j tmpl [] gates) < max_attempts tmpl"
      using w False unfolding within_attempts_def by linarith
    have "within_attempts j tmpl gates'"
      using step(2) a lt attempts_now [of gates j tmpl now "[]"] unfolding within_attempts_def by auto
    with that [OF e] a False show thesis by simp
  qed
qed

lemma template_rounds_progress:
  assumes "\<forall>(env, ctx, now) \<in> set rs. \<exists>g. gate_for_template env tmpl = Inr g"
    and "within_attempts j tmpl gates"
  shows "within_attempts j tmpl (fst (template_rounds rs j tmpl gates s)) \<and>
    (decided (status_of j tmpl [] (fst (template_rounds rs j tmpl gates s))) \<or>
     gs_Attempts (status_of j tmpl [] (fst (template_rounds rs j tmpl gates s))) =
       gs_Attempts (status_of j tmpl [] gates) + int (length rs))"
  using assms
proof (induction rs arbitrary: gates s)
  case Nil
  then show ?case by simp
next
  case (Cons r rs)
  obtain env ctx now where r: "r = (env, ctx, now)" by (cases r)
  obtain g where g: "gate_for_template env tmpl = Inr g" using Cons.prems(1) r by auto
  obtain gates' b d s' where e: "evaluate_template env ctx now j tmpl gates s = (Inr (gates', b, d), s')"
      "within_attempts j tmpl gates'" "decided (status_of j tmpl [] gates) \<Longrightarrow> gates' = gates"
      "\<not> decided (status_of j tmpl [] gates) \<Longrightarrow>
       gs_Attempts (status_of j tmpl [] gates') = gs_Attempts (status_of j tmpl [] gates) + 1"
    by (rule evaluate_template_round [OF g Cons.prems(2), of ctx now s]) blast
  have unroll: "template_rounds (r # rs) j tmpl gates s = template_rounds rs j tmpl gates' s'"
    using r e(1) by simp
  have IH: "within_attempts j tmpl (fst (template_rounds rs j tmpl gates' s')) \<and>
    (decided (status_of j tmpl [] (fst (template_rounds rs j tmpl gates' s'))) \<or>
     gs_Attempts (status_of j tmpl [] (fst (template_rounds rs j tmpl gates' s'))) =
       gs_Attempts (status_of j tmpl [] gates') + int (length rs))"
    using Cons.IH [OF _ e(2)] Cons.prems(1) by simp
  show ?case
  proof (cases "decided (status_of j tmpl [] gates)")
    case True
    then have "decided (status_of j tmpl [] gates')" using e(3) by simp
    then have "decided (status_of j tmpl [] (fst (template_rounds rs j tmpl gates' s')))"
      by (rule template_rounds_keep_decision)
    with IH unroll show ?thesis by simp
  next
    case False
    with IH unroll e(4) show ?thesis by auto
  qed
qed

text \<open>A gate template that can be resolved is decided after at most \<^verbatim>\<open>maxAttempts\<close> evaluations (three
  when none is configured), whatever the gate answers: from no status, that many rounds leave
  it Passed or Failed, and no number of rounds counts more attempts than that.\<close>

theorem gate_template_is_decided:
  assumes "\<forall>(env, ctx, now) \<in> set rs. \<exists>g. gate_for_template env tmpl = Inr g"
  shows "gs_Attempts (status_of j tmpl now (fst (template_rounds rs j tmpl [] s))) \<le> max_attempts tmpl \<and>
    (int (length rs) \<ge> max_attempts tmpl \<longrightarrow>
     decided (status_of j tmpl now (fst (template_rounds rs j tmpl [] s))))"
proof -
  have w: "within_attempts j tmpl []"
    using max_attempts_pos [of tmpl] by (simp add: within_attempts_def)
  let ?after = "fst (template_rounds rs j tmpl [] s)"
  have "decided (status_of j tmpl now ?after) = decided (status_of j tmpl [] ?after)"
    and "gs_Attempts (status_of j tmpl now ?after) = gs_Attempts (status_of j tmpl [] ?after)"
    by (rule decided_now, rule attempts_now)
  with template_rounds_progress [OF assms w, of s] show ?thesis
    unfolding within_attempts_def by auto
qed

definition verify_template :: gate_template_spec where
  "verify_template = \<lparr>gt_Name = ''signed'', gt_Type = ''verification'', gt_Args = [], gt_FailurePolicy = [],
     gt_InconclusivePolicy = [], gt_Timeout = [], gt_MaxAttempts = 0, gt_CEL = None, gt_Job = None,
     gt_Webhook = None, gt_Plugin = None\<rparr>"

theorem gate_template_is_decided_witness:
  "decided (status_of 0 verify_template [] (fst (template_rounds
     (replicate 3 (sample_env, target_to_gate_context sample_env sample_exec, []))
     0 verify_template [] (sample_tick PhaseMetricsCheck))))"
  using gate_template_is_decided [where tmpl = verify_template and j = 0 and now = "[]" and s = "sample_tick PhaseMetricsCheck"
      and rs = "replicate 3 (sample_env, target_to_gate_context sample_env sample_exec, [])"]
  by (simp add: gate_for_template_def verify_template_def sample_env_def sample_gates_def gate_resolve_def max_attempts_def)

text \<open>A template whose gate answers with a phase the controller does not know, before its attempts
  are exhausted, does not block the target: the evaluation reports no blocking gate, although
  the gate has neither passed nor been skipped.\<close>

theorem unknown_gate_phase_does_not_block:
  assumes "\<not> decided (status_of j tmpl now gates)" "gate_for_template env tmpl = Inr g"
    and "gate_evaluate g (template_request env ctx tmpl (tk_Target s)) (tk_World s) = (Inr result, w)"
    and "res_Phase result = GateOther x" "gs_Attempts (status_of j tmpl now gates) + 1 < max_attempts tmpl"
  shows "\<exists>gates' s'. evaluate_template env ctx now j tmpl gates s = (Inr (gates', False, None), s') \<and>
    gs_Phase (status_of j tmpl now gates') = GateOther x"
proof -
  have "\<not> attempts_exhausted tmpl result (status_of j tmpl now gates)"
    using assms(5) by (simp add: attempts_exhausted_def)
  with assms show ?thesis
    by (auto simp: evaluate_template_def Let_def decided_def template_after_result_def
        status_after_result_phase reported_phase_def)
qed

definition odd_gate :: "sample gate" where
  "odd_gate req w = (Inr (empty_result\<lparr>res_Phase := GateOther ''Degraded''\<rparr>), w)"

definition odd_env :: "sample target_env" where
  "odd_env = sample_env\<lparr>ev_GateRegistry := Some [(''verification'', Some odd_gate)]\<rparr>"

theorem unknown_gate_phase_does_not_block_witness:
  "\<exists>gates' s'. evaluate_template odd_env (target_to_gate_context odd_env sample_exec) [] 0 verify_template []
      (sample_tick PhaseMetricsCheck) = (Inr (gates', False, None), s') \<and>
    gs_Phase (status_of 0 verify_template [] gates') = GateOther ''Degraded''"
  by (rule unknown_gate_phase_does_not_block [where g = "Some odd_gate" and w = sample_world
        and result = "empty_result\<lparr>res_Phase := GateOther ''Degraded''\<rparr>"])
    (simp_all add: decided_def odd_env_def odd_gate_def verify_template_def sample_tick_def max_attempts_def
      gate_for_template_def gate_resolve_def gate_evaluate_def)

section \<open>The metrics timeout\<close>

text \<open>Once gate templates have been evaluated and some gate still blocks, the target fails if and
  only if a gate timeout is configured, the phase clock is set, and the timeout does not parse
  or has passed since the phase was entered; otherwise it stays in MetricsCheck. Without a
  configured timeout a blocked target therefore waits for ever.\<close>

theorem metrics_timeout_decides:
  assumes "te_Phase (tk_Target s) = PhaseMetricsCheck" "g_Templates (pol_Gate policy) \<noteq> []"
    and "evaluate_gate_templates env ctx policy s = (Inr (False, delay), s')"
  shows "(let t = tk_Target s'; limit = g_GateTimeout (pol_Gate policy);
              expired = (limit \<noteq> [] \<and> te_PhaseEnteredAt t \<noteq> [] \<and>
                (case parse_duration limit of
                   None \<Rightarrow> True
                 | Some d \<Rightarrow> (case parse_rfc3339 (te_PhaseEnteredAt t) of
                                None \<Rightarrow> False
                              | Some entered \<Rightarrow> d \<le> kb_Now (ev_Kube env) (tk_World s') - entered)))
          in te_Phase (tk_Target (snd (check_templates env ctx policy s))) =
               (if expired then if on_failure_continue t then PhaseSkipped else PhaseFailed
                else PhaseMetricsCheck))"
proof -
  have "te_Phase (tk_Target s') = PhaseMetricsCheck"
    using calm_evaluate_gate_templates [of s s env ctx policy] assms(1,3) by (simp add: calm_def)
  with assms show ?thesis
    by (auto simp: check_templates_def fail_or_retry_def metrics_gate_timed_out_def Let_def fail_target_moves
        split: option.splits)
qed

definition failed_templates_policy :: "string \<Rightarrow> gate_policy_spec" where
  "failed_templates_policy limit =
     sample_policy\<lparr>pol_Gate := (pol_Gate sample_policy)\<lparr>g_Templates := [verify_template], g_GateTimeout := limit\<rparr>\<rparr>"

definition failed_gate_tick :: "string \<Rightarrow> sample tick" where
  "failed_gate_tick limit = upd_target (\<lambda>t. t\<lparr>te_Gate := Some (failed_templates_policy limit),
     te_Gates := [(find_or_create_gate_status [] ''signed'' [])\<lparr>gs_Phase := GateFailed\<rparr>]\<rparr>) (sample_tick PhaseMetricsCheck)"

lemma failed_gate_blocks:
  "evaluate_gate_templates sample_env ctx (failed_templates_policy limit) (failed_gate_tick limit) =
     (Inr (False, requeueNormal), failed_gate_tick limit)"
  by (simp add: evaluate_gate_templates_def evaluate_template_def Let_def failed_gate_tick_def
      failed_templates_policy_def first_evaluation_def template_name_def verify_template_def shorten_requeue_def
      sample_policy_def upd_target_def)

theorem metrics_timeout_decides_witness:
  "te_Phase (tk_Target (snd (check_templates sample_env (target_to_gate_context sample_env sample_exec)
     (failed_templates_policy []) (failed_gate_tick [])))) = PhaseMetricsCheck"
  using metrics_timeout_decides [OF _ _ failed_gate_blocks, of "[]"]
  by (simp add: failed_gate_tick_def sample_tick_def failed_templates_policy_def)

end
