(* ===== verification/Target_Failure_Properties.thy ===== *)
theory Target_Failure_Properties
  imports Target_Safety Sample_World
begin

text \<open>
  What the target controller does when things go wrong, and that it gets somewhere when they do
  not: missing clusters, stale heartbeats, terminal and cancelled targets, lost status races,
  and the way from the first tick to Applying in a healthy world.
\<close>

section \<open>Missing clusters\<close>

text \<open>The phases whose handler reads the cluster first, and can do so.\<close>

definition reads_cluster :: "target_execution_state \<Rightarrow> bool" where
  "reads_cluster t \<longleftrightarrow> te_Phase t = PhasePending \<or> te_Phase t = PhaseHealthCheck \<or>
     (te_Phase t = PhaseApplying \<and> target_desired_versions t \<noteq> [])"

lemma advance_target_reads_cluster:
  "reads_cluster (tk_Target s) \<Longrightarrow> \<exists>k. advance_target env s = with_fresh_cluster env k s"
  by (auto simp: reads_cluster_def advance_target_simps handle_pending_def handle_health_check_def
      handle_applying_def Let_def)

definition cluster_absent :: "'w target_env \<Rightarrow> string \<Rightarrow> bool" where
  "cluster_absent env name \<longleftrightarrow>
     (\<forall>w. \<exists>m w'. kb_GetCluster (ev_Kube env) name w = (Inl (ApiNotFound m), w'))"

lemma advance_target_absent:
  assumes r: "reads_cluster (tk_Target s)" and a: "cluster_absent env (te_Target (tk_Target s))"
  obtains w where "advance_target env s = cluster_missing env (set_world w s)"
proof -
  obtain k where k: "advance_target env s = with_fresh_cluster env k s"
    using advance_target_reads_cluster [OF r] by blast
  obtain m w where "kb_GetCluster (ev_Kube env) (te_Target (tk_Target s)) (tk_World s) = (Inl (ApiNotFound m), w)"
    using a unfolding cluster_absent_def by blast
  with k that show thesis by (simp add: with_fresh_cluster_def)
qed

lemma cluster_missing_counts:
  "tk_Target (snd (cluster_missing env s)) =
     (if te_MissingMCCount (tk_Target s) + 1 \<ge> missingMCFailThreshold
      then (tk_Target s)\<lparr>te_MissingMCCount := te_MissingMCCount (tk_Target s) + 1,
             te_Phase := (if on_failure_continue (tk_Target s) then PhaseSkipped else PhaseFailed),
             te_FinishedAt := rfc_now (ev_Kube env) (tk_World s),
             te_Message := ''FleetCluster '' @ go_quote (te_Target (tk_Target s)) @ '' not found after '' @
               itoa (te_MissingMCCount (tk_Target s) + 1) @ '' attempts''\<rparr>
      else (tk_Target s)\<lparr>te_MissingMCCount := te_MissingMCCount (tk_Target s) + 1\<rparr>)"
  by (simp add: cluster_missing_def Let_def fail_target_def emit_target_phase_decision_trace_def
      on_failure_continue_def split: option.split)

lemma ticks_terminal: "target_terminal (phase_of s) \<Longrightarrow> ticks envs s = s"
  by (induction envs) (simp_all add: ticks_def advance_target_idle)

lemma ticks_absent:
  assumes "reads_cluster (tk_Target s)" "te_MissingMCCount (tk_Target s) < missingMCFailThreshold"
    and "\<forall>env \<in> set envs. cluster_absent env (te_Target (tk_Target s))"
  shows "phase_of (ticks envs s) =
    (if te_MissingMCCount (tk_Target s) + int (length envs) < missingMCFailThreshold then phase_of s
     else if on_failure_continue (tk_Target s) then PhaseSkipped else PhaseFailed)"
  using assms
proof (induction envs arbitrary: s)
  case (Cons env envs)
  obtain w where w: "advance_target env s = cluster_missing env (set_world w s)"
    using advance_target_absent [OF Cons.prems(1)] Cons.prems(3) by auto
  let ?s = "snd (cluster_missing env (set_world w s))"
  have step: "ticks (env # envs) s = ticks envs ?s" by (simp add: ticks_def w)
  note t = cluster_missing_counts [of env "set_world w s"]
  show ?case
  proof (cases "te_MissingMCCount (tk_Target s) + 1 \<ge> missingMCFailThreshold")
    case True
    then have p: "phase_of ?s = (if on_failure_continue (tk_Target s) then PhaseSkipped else PhaseFailed)"
      using t by simp
    then have "ticks envs ?s = ?s" by (intro ticks_terminal) (simp add: target_terminal_def)
    with step p True Cons.prems(2) show ?thesis by simp
  next
    case False
    have same: "reads_cluster (tk_Target ?s)" "te_Target (tk_Target ?s) = te_Target (tk_Target s)"
      "on_failure_continue (tk_Target ?s) = on_failure_continue (tk_Target s)"
      using Cons.prems(1) False t
      by (simp_all add: reads_cluster_def target_desired_versions_Nil_iff on_failure_continue_def)
    with Cons.IH [OF same(1)] Cons.prems(3) False t step show ?thesis by (simp add: algebra_simps)
  qed
qed (simp add: ticks_def)

text \<open>While the cluster of a target does not exist, a target in Pending, HealthCheck or Applying
  stays where it is for nine ticks and ends with the tenth, Failed or, under onFailure=continue,
  Skipped; no number of ticks makes it end earlier or later.\<close>

theorem missing_cluster_fails_at_tenth:
  assumes "reads_cluster (tk_Target s)" "te_MissingMCCount (tk_Target s) = 0"
    and "\<forall>env \<in> set envs. cluster_absent env (te_Target (tk_Target s))"
  shows "te_Phase (tk_Target (ticks envs s)) =
    (if length envs < 10 then te_Phase (tk_Target s)
     else if on_failure_continue (tk_Target s) then PhaseSkipped else PhaseFailed)"
  using ticks_absent [of s envs] assms by (simp add: missingMCFailThreshold_def)

definition lonely_tick :: "sample tick" where
  "lonely_tick = upd_target (\<lambda>t. t\<lparr>te_Target := ''us-9''\<rparr>) (sample_tick PhasePending)"

definition lonely_env :: "sample target_env" where
  "lonely_env = sample_env\<lparr>ev_Kube := sample_kube\<lparr>kb_GetCluster := (\<lambda>n w. (Inl (ApiNotFound ''not found''), w))\<rparr>\<rparr>"

theorem missing_cluster_fails_at_tenth_witness:
  "te_Phase (tk_Target (ticks (replicate 9 lonely_env) lonely_tick)) = PhasePending \<and>
   te_Phase (tk_Target (ticks (replicate 10 lonely_env) lonely_tick)) = PhaseFailed"
  using missing_cluster_fails_at_tenth [of lonely_tick "replicate 9 lonely_env"]
    missing_cluster_fails_at_tenth [of lonely_tick "replicate 10 lonely_env"]
  by (simp add: lonely_tick_def lonely_env_def reads_cluster_def cluster_absent_def sample_tick_def sample_exec_def
      empty_target_def on_failure_continue_def sample_policy_def)

section \<open>Stale heartbeats\<close>

text \<open>Every read finds the cluster, pull-mode and without a true Ready condition.\<close>

definition cluster_stale :: "'w target_env \<Rightarrow> string \<Rightarrow> bool" where
  "cluster_stale env name \<longleftrightarrow>
     (\<forall>w. \<exists>mc w'. kb_GetCluster (ev_Kube env) name w = (Inr mc, w') \<and>
        sb_Mode (cs_Substrate (cl_Spec mc)) = ModePull \<and>
        (case kb_FindStatusCondition (ev_Kube env) (cst_Conditions (cl_Status mc)) ''Ready'' of
           None \<Rightarrow> True | Some c \<Rightarrow> c_Status c \<noteq> ''True''))"

definition deferred :: "'w tick \<Rightarrow> 'w tick \<Rightarrow> bool" where
  "deferred s s' \<longleftrightarrow> extends quiet s s' \<and> same_spec (tk_Target s) (tk_Target s') \<and> phase_of s' = phase_of s \<and>
     te_HeartbeatStaleCount (tk_Target s') = te_HeartbeatStaleCount (tk_Target s) + 1"

lemma defer_stale_result:
  "\<exists>s'. defer_stale env reason ev m s = (Some (requeue_after requeueNormal), s') \<and> deferred s s'"
  by (auto simp: defer_stale_def Let_def extends_def deferred_def same_spec_def)

lemma require_fresh_heartbeat_stale:
  assumes "sb_Mode (cs_Substrate (cl_Spec mc)) = ModePull"
    and "case kb_FindStatusCondition (ev_Kube env) (cst_Conditions (cl_Status mc)) ''Ready'' of
           None \<Rightarrow> True | Some c \<Rightarrow> c_Status c \<noteq> ''True''"
  shows "\<exists>reason ev m. require_fresh_heartbeat env mc s = defer_stale env reason ev m s"
proof (cases "kb_FindStatusCondition (ev_Kube env) (cst_Conditions (cl_Status mc)) ''Ready''")
  case None
  with assms(1) show ?thesis unfolding require_fresh_heartbeat_def Let_def by (simp, blast)
next
  case (Some c)
  with assms show ?thesis
    unfolding require_fresh_heartbeat_def Let_def
    by (cases "c_Status c = ''False'' \<and> c_Reason c = ''Unreachable''") (simp_all only: simp_thms if_True if_False option.case, auto)
qed

lemma advance_target_stale:
  assumes r: "reads_cluster (tk_Target s)" and a: "cluster_stale env (te_Target (tk_Target s))"
  shows "deferred s (snd (advance_target env s))"
proof -
  obtain k where k: "advance_target env s = with_fresh_cluster env k s"
    using advance_target_reads_cluster [OF r] by blast
  obtain mc w where mc: "kb_GetCluster (ev_Kube env) (te_Target (tk_Target s)) (tk_World s) = (Inr mc, w)"
    "sb_Mode (cs_Substrate (cl_Spec mc)) = ModePull"
    "case kb_FindStatusCondition (ev_Kube env) (cst_Conditions (cl_Status mc)) ''Ready'' of
       None \<Rightarrow> True | Some c \<Rightarrow> c_Status c \<noteq> ''True''"
    using a unfolding cluster_stale_def by blast
  let ?s = "upd_target (\<lambda>t. t\<lparr>te_MissingMCCount := 0\<rparr>) (set_world w s)"
  obtain s' where d: "require_fresh_heartbeat env mc ?s = (Some (requeue_after requeueNormal), s')" "deferred ?s s'"
    using require_fresh_heartbeat_stale [OF mc(2,3), of ?s] defer_stale_result [of env _ _ _ ?s] by metis
  have "with_fresh_cluster env k s = (Inr (requeue_after requeueNormal), s')"
    unfolding with_fresh_cluster_def using mc(1) d(1) by simp
  with k d(2) show ?thesis by (simp add: deferred_def extends_def same_spec_def)
qed

text \<open>A pull-mode cluster whose heartbeat is not fresh only defers its target: however many ticks
  find it stale, the target keeps its phase, each tick is counted, nothing is delivered, and
  the target never fails for it.\<close>

theorem stale_heartbeat_only_defers:
  assumes "reads_cluster (tk_Target s)"
    and "\<forall>env \<in> set envs. cluster_stale env (te_Target (tk_Target s))"
  shows "te_Phase (tk_Target (ticks envs s)) = te_Phase (tk_Target s) \<and>
    te_HeartbeatStaleCount (tk_Target (ticks envs s)) =
      te_HeartbeatStaleCount (tk_Target s) + int (length envs) \<and>
    extends quiet s (ticks envs s)"
  using assms
proof (induction envs arbitrary: s)
  case (Cons env envs)
  let ?s = "snd (advance_target env s)"
  have d: "deferred s ?s" using advance_target_stale [OF Cons.prems(1)] Cons.prems(2) by simp
  then have "reads_cluster (tk_Target ?s)" "te_Target (tk_Target ?s) = te_Target (tk_Target s)"
    using Cons.prems(1)
    by (simp_all add: reads_cluster_def target_desired_versions_Nil_iff deferred_def same_spec_def)
  with Cons.IH [of ?s] Cons.prems(2) d show ?case
    by (auto simp: ticks_def deferred_def intro: extends_trans)
qed (simp add: ticks_def)

definition stale_env :: "sample target_env" where
  "stale_env = sample_env\<lparr>ev_Kube := sample_kube\<lparr>kb_GetCluster := (\<lambda>n w. (Inr (sample_cluster\<lparr>cl_Spec :=
     (cl_Spec sample_cluster)\<lparr>cs_Substrate := (cs_Substrate (cl_Spec sample_cluster))\<lparr>sb_Mode := ModePull\<rparr>\<rparr>\<rparr>), w))\<rparr>\<rparr>"

theorem stale_heartbeat_only_defers_witness:
  "te_Phase (tk_Target (ticks (replicate 50 stale_env) (sample_tick PhaseApplying))) = PhaseApplying"
  using stale_heartbeat_only_defers [of "sample_tick PhaseApplying" "replicate 50 stale_env"]
  by (simp add: stale_env_def reads_cluster_def cluster_stale_def sample_tick_def sample_exec_def
      target_desired_versions_Nil_iff sample_kube_def sample_cluster_def)

section \<open>Terminal and cancelled targets\<close>

text \<open>A reconcile of a target that is Converged, Failed or Skipped and not cancelled does nothing
  but repair its phase label: no effect is emitted, no requeue is asked for, the target entry is
  left alone, and when the label is right the world is as the read left it.\<close>

theorem terminal_target_is_left_alone:
  assumes "kb_GetTarget (ev_Kube env) name (tk_World s) = (Inr rt, w)"
    and "target_terminal (tg_Phase rt)" "\<not> ts_Cancelled (tg_Spec rt)"
  shows "tk_Log (snd (reconcile_target env name s)) = tk_Log s \<and>
    tk_Target (snd (reconcile_target env name s)) = tk_Target s \<and>
    (case fst (reconcile_target env name s) of Inr r \<Rightarrow> r = no_requeue | Inl e \<Rightarrow> True) \<and>
    (smap_get (om_Labels (tg_Meta rt)) phase_label = target_phase_string (tg_Phase rt) \<longrightarrow>
       fst (reconcile_target env name s) = Inr no_requeue \<and> tk_World (snd (reconcile_target env name s)) = w)"
  using assms
  by (auto simp: reconcile_target_def Let_def sync_promotion_target_phase_label_def target_terminal_def
      split: sum.splits prod.splits)

definition done_target :: target where
  "done_target = sample_target\<lparr>tg_Meta := (named ''t1'')\<lparr>om_Labels := [(phase_label, ''Converged'')]\<rparr>,
     tg_Status := (tg_Status sample_target)\<lparr>tst_Exec := empty_target\<lparr>te_Phase := PhaseConverged\<rparr>\<rparr>\<rparr>"

definition done_tick :: "target \<Rightarrow> sample tick" where
  "done_tick rt = \<lparr>tk_Target = empty_target, tk_World = sample_world\<lparr>sw_Targets := [(''t1'', rt)]\<rparr>, tk_Log = []\<rparr>"

theorem terminal_target_is_left_alone_witness:
  "fst (reconcile_target sample_env ''t1'' (done_tick done_target)) = Inr no_requeue \<and>
   tk_Log (snd (reconcile_target sample_env ''t1'' (done_tick done_target))) = []"
  using terminal_target_is_left_alone [of sample_env "''t1''" "done_tick done_target" done_target]
  by (simp add: sample_env_def sample_kube_def done_tick_def fetch_def done_target_def sample_target_def
      target_terminal_def named_def smap_get_def)

text \<open>A cancelled target of a live run that is not suspended takes the cancellation phase whatever
  phase it had: a reconcile that does not end in an error leaves the entry in that phase, so a
  target that had already Converged is recorded as Failed (or Skipped) all the same.\<close>

theorem cancellation_overrides_every_phase:
  assumes "kb_GetTarget (ev_Kube env) name (tk_World s) = (Inr rt, w)" "ts_Cancelled (tg_Spec rt)"
    and "kb_GetRun (ev_Kube env) (ts_PromotionRunRef (tg_Spec rt)) w = (Inr run, w1)"
    and "\<not> prs_Suspended (run_Spec run)"
    and "fst (reconcile_target env name s) = Inr r"
  shows "r = no_requeue \<and> extends quiet s (snd (reconcile_target env name s)) \<and>
    te_Phase (tk_Target (snd (reconcile_target env name s))) =
      (if ts_CancelledPhase (tg_Spec rt) = PhaseNone then PhaseFailed else ts_CancelledPhase (tg_Spec rt)) \<and>
    te_Message (tk_Target (snd (reconcile_target env name s))) = ''cancelled: '' @ ts_CancelledReason (tg_Spec rt)"
  using assms
  by (auto simp: reconcile_target_def Let_def reconcile_cancelled_def emit_target_phase_decision_trace_def
      extends_def split: sum.splits prod.splits option.splits if_splits)

definition cancelled_target :: target where
  "cancelled_target = done_target\<lparr>tg_Spec := (tg_Spec sample_target)\<lparr>ts_Cancelled := True, ts_CancelledReason := ''superseded''\<rparr>\<rparr>"

theorem cancellation_overrides_every_phase_witness:
  "tg_Phase cancelled_target = PhaseConverged \<and>
   te_Phase (tk_Target (snd (reconcile_target sample_env ''t1'' (done_tick cancelled_target)))) = PhaseFailed"
proof -
  have ok: "\<exists>r. fst (reconcile_target sample_env ''t1'' (done_tick cancelled_target)) = Inr r"
    by (simp add: reconcile_target_def Let_def reconcile_cancelled_def sample_env_def sample_kube_def done_tick_def
        fetch_def cancelled_target_def done_target_def sample_target_def named_def sample_world_def sample_run_def
        status_update_with_retry_def defaultStatusUpdateRetries_def eval_nat_numeral mutate_cancelled_def
        sync_promotion_target_phase_label_def split: prod.split)
  then obtain r where "fst (reconcile_target sample_env ''t1'' (done_tick cancelled_target)) = Inr r" ..
  from cancellation_overrides_every_phase [OF _ _ _ _ this, of cancelled_target "tk_World (done_tick cancelled_target)"
      sample_run "tk_World (done_tick cancelled_target)"]
  show ?thesis
    by (simp add: sample_env_def sample_kube_def done_tick_def fetch_def cancelled_target_def done_target_def
        sample_target_def named_def sample_world_def sample_run_def)
qed

section \<open>Lost status races\<close>

text \<open>A world that counts the reads and the writes of a status update.\<close>

definition counted_get :: "('w \<Rightarrow> (api_error + 'o) \<times> 'w) \<Rightarrow> nat \<times> nat \<times> 'w \<Rightarrow> (api_error + 'o) \<times> nat \<times> nat \<times> 'w" where
  "counted_get get = (\<lambda>(gets, puts, w). case get w of (r, w') \<Rightarrow> (r, Suc gets, puts, w'))"

definition counted_put ::
  "('o \<Rightarrow> 'w \<Rightarrow> (api_error + 'o) \<times> 'w) \<Rightarrow> 'o \<Rightarrow> nat \<times> nat \<times> 'w \<Rightarrow> (api_error + 'o) \<times> nat \<times> nat \<times> 'w" where
  "counted_put put obj = (\<lambda>(gets, puts, w). case put obj w of (r, w') \<Rightarrow> (r, gets, Suc puts, w'))"

lemma status_update_loop_counts:
  assumes "status_update_loop (counted_get get) (counted_put put) mutate what n fresh obj lc (g, p, w) = (err, obj', g', p', w')"
  shows "p' \<le> p + n \<and> g' + (if fresh \<and> n > 0 then 1 else 0) \<le> g + n"
  using assms
proof (induction n arbitrary: fresh obj lc g p w)
  case (Suc n)
  let ?get = "counted_get get" and ?put = "counted_put put"
  obtain r g1 w1 where f: "(if fresh then (Inr obj, g, p, w) else ?get (g, p, w)) = (r, g1, p, w1)"
    and g1: "g1 = (if fresh then g else Suc g)"
    by (cases fresh; cases "get w") (auto simp: counted_get_def)
  show ?case
  proof (cases r)
    case (Inl e)
    with Suc.prems f g1 show ?thesis by auto
  next
    case (Inr o1)
    show ?thesis
    proof (cases "mutate (g1, p, w1) o1")
      case (Inl e)
      with Suc.prems f g1 Inr show ?thesis by auto
    next
      case m: (Inr o2)
      obtain q w2 where u: "?put o2 (g1, p, w1) = (q, g1, Suc p, w2)"
        by (cases "put o2 w1") (auto simp: counted_put_def)
      show ?thesis
      proof (cases "\<exists>e. q = Inl e \<and> is_conflict e")
        case True
        then obtain e where "q = Inl e" "is_conflict e" by blast
        with Suc.prems f Inr m u
        have "status_update_loop ?get ?put mutate what n False o2 (api_error_text e) (g1, Suc p, w2) =
            (err, obj', g', p', w')" by simp
        from Suc.IH [OF this] g1 show ?thesis by auto
      next
        case False
        with Suc.prems f Inr m u have "g' = g1 \<and> p' = Suc p" by (cases q) auto
        with g1 show ?thesis by auto
      qed
    qed
  qed
qed simp

text \<open>A status update with conflict retry writes at most five times and reads again at most four
  times, whatever the server answers and whatever the mutation does.\<close>

theorem status_update_is_bounded:
  "case status_update_with_retry (counted_get get) (counted_put put) mutate what obj (0, 0, w) of
     (err, obj', gets, puts, w') \<Rightarrow> puts \<le> 5 \<and> gets \<le> 4"
proof -
  obtain err obj' g p w' where
    e: "status_update_with_retry (counted_get get) (counted_put put) mutate what obj (0, 0, w) = (err, obj', g, p, w')"
    by (cases "status_update_with_retry (counted_get get) (counted_put put) mutate what obj (0, 0, w)")
  from status_update_loop_counts [OF e [unfolded status_update_with_retry_def]] e show ?thesis
    by (simp add: defaultStatusUpdateRetries_def)
qed

text \<open>The mutation is applied to the object of the attempt, so what is written always carries it.\<close>

lemma status_update_loop_writes:
  assumes "status_update_loop refetch update mutate what n fresh obj lc w = (None, obj', w')"
  shows "\<exists>o1 o2 w1. mutate w1 o1 = Inr o2 \<and> update o2 w1 = (Inr obj', w') \<and>
     ((fresh \<and> o1 = obj \<and> w1 = w) \<or> (\<exists>w0. refetch w0 = (Inr o1, w1)))"
  using assms
proof (induction n arbitrary: fresh obj lc w)
  case (Suc n)
  obtain r w1 where f: "(if fresh then (Inr obj, w) else refetch w) = (r, w1)" by fastforce
  show ?case
  proof (cases r)
    case (Inl e)
    with Suc.prems f show ?thesis by simp
  next
    case (Inr o1)
    obtain o2 where m: "mutate w1 o1 = Inr o2"
      using Suc.prems f Inr by (cases "mutate w1 o1") auto
    obtain q w2 where u: "update o2 w1 = (q, w2)" by fastforce
    show ?thesis
    proof (cases q)
      case (Inl e)
      with Suc.prems f Inr m u
      have "status_update_loop refetch update mutate what n False o2 (api_error_text e) w2 = (None, obj', w')"
        by (auto split: if_splits)
      from Suc.IH [OF this] show ?thesis by blast
    next
      case (Inr o3)
      with Suc.prems f \<open>r = Inr o1\<close> m u have "update o2 w1 = (Inr obj', w')" by simp
      with m f \<open>r = Inr o1\<close> show ?thesis by (auto split: if_splits)
    qed
  qed
qed simp

text \<open>When a status update with conflict retry reports success, the last write was accepted by
  the server and was the mutation of an object that is either the one the caller passed or a
  fresh read: a conflict never writes a stale mutation result back.\<close>

theorem status_update_applies_mutation:
  assumes "status_update_with_retry refetch update mutate what obj w = (None, obj', w')"
  shows "\<exists>o1 o2 w1. mutate w1 o1 = Inr o2 \<and> update o2 w1 = (Inr obj', w') \<and>
     ((o1 = obj \<and> w1 = w) \<or> (\<exists>w0. refetch w0 = (Inr o1, w1)))"
  using status_update_loop_writes [OF assms [unfolded status_update_with_retry_def]] by blast

text \<open>A server that holds one number and loses the first race.\<close>

theorem status_update_applies_mutation_witness:
  "\<exists>o1 o2 w1 :: nat. (Inr (o1 + 1) :: go_error + nat) = Inr o2 \<and>
     (if w1 = 0 then (Inl (ApiConflict ''conflict''), 7) else (Inr o2, o2)) = (Inr (8::nat) :: api_error + nat, 8::nat) \<and>
     ((o1 = 3 \<and> w1 = 0) \<or> (\<exists>w0. (Inr w0, w0) = (Inr o1 :: api_error + nat, w1)))"
  by (rule status_update_applies_mutation
      [where refetch = "\<lambda>w. (Inr w, w)" and mutate = "\<lambda>w x. Inr (x + 1)" and obj = 3 and w = 0 and what = "[]"
        and update = "\<lambda>x w. if w = 0 then (Inl (ApiConflict ''conflict''), 7) else (Inr x, x)"])
    (simp add: status_update_with_retry_def defaultStatusUpdateRetries_def eval_nat_numeral)

end
