(* ===== verification/Target_Progress_Properties.thy ===== *)
theory Target_Progress_Properties
  imports Target_Safety Sample_World
begin

text \<open>
  That the target machine gets somewhere: from the first tick to Applying in one reconcile when
  nothing stands in the way, from Applying to Converged in one more, and out of Soaking once the
  time stamped at its entry has passed.
\<close>

section \<open>To Applying\<close>

definition healthy_cluster :: "'w target_env \<Rightarrow> cluster \<Rightarrow> bool" where
  "healthy_cluster env mc \<longleftrightarrow>
     (sb_Mode (cs_Substrate (cl_Spec mc)) = ModePull \<longrightarrow>
        (case kb_FindStatusCondition (ev_Kube env) (cst_Conditions (cl_Status mc)) ''Ready'' of
           None \<Rightarrow> False | Some c \<Rightarrow> c_Status c = ''True'')) \<and>
     h_AllWorkloadsReady (cst_Health (cl_Status mc))"

definition cluster_healthy :: "'w target_env \<Rightarrow> string \<Rightarrow> bool" where
  "cluster_healthy env name \<longleftrightarrow>
     (\<forall>w. \<exists>mc w'. kb_GetCluster (ev_Kube env) name w = (Inr mc, w') \<and> healthy_cluster env mc)"

text \<open>No soak time, no metrics, no templates and no approval.\<close>

definition ungated :: "target_execution_state \<Rightarrow> bool" where
  "ungated t \<longleftrightarrow>
     (case te_Gate t of
        None \<Rightarrow> True
      | Some g \<Rightarrow> g_SoakTime (pol_Gate g) = [] \<and> g_Metrics (pol_Gate g) = [] \<and> g_Templates (pol_Gate g) = []) \<and>
     \<not> approval_required t"

lemma require_fresh_heartbeat_healthy:
  "healthy_cluster env mc \<Longrightarrow> require_fresh_heartbeat env mc s = (None, upd_target clear_heartbeat s)"
  by (auto simp: require_fresh_heartbeat_def healthy_cluster_def Let_def split: option.splits)

lemma with_fresh_cluster_healthy:
  assumes "cluster_healthy env (te_Target (tk_Target s))"
  shows "\<exists>mc t. healthy_cluster env mc \<and> calm s t \<and> (\<forall>k. with_fresh_cluster env k s = k mc t)"
proof -
  obtain mc w where "kb_GetCluster (ev_Kube env) (te_Target (tk_Target s)) (tk_World s) = (Inr mc, w)"
    and h: "healthy_cluster env mc"
    using assms unfolding cluster_healthy_def by blast
  then have "with_fresh_cluster env k s =
      k mc (upd_target clear_heartbeat (upd_target (\<lambda>t. t\<lparr>te_MissingMCCount := 0\<rparr>) (set_world w s)))" for k
    by (simp add: with_fresh_cluster_def require_fresh_heartbeat_healthy)
  moreover have "calm s (upd_target clear_heartbeat (upd_target (\<lambda>t. t\<lparr>te_MissingMCCount := 0\<rparr>) (set_world w s)))"
    by (intro calm_intros)
  ultimately show ?thesis using h by blast
qed

text \<open>One tick that moves on, and what it keeps.\<close>

definition moves_to :: "'w target_env \<Rightarrow> target_phase \<Rightarrow> 'w tick \<Rightarrow> bool" where
  "moves_to env p s \<longleftrightarrow> (\<exists>s'. advance_target env s = (Inr requeue_now, s') \<and> phase_of s' = p \<and>
     same_spec (tk_Target s) (tk_Target s'))"

lemma moves_toI:
  assumes "advance_target env s = (Inr requeue_now, transition_to env p t)" "calm s t"
    and "declared_step (phase_of s) p"
  shows "moves_to env p s"
proof -
  have "declared_step (phase_of t) p" using assms(2,3) by (simp add: calm_def)
  note m = transition_to_moves [OF this, of env]
  show ?thesis
    using assms(1,2) m(1) same_spec_trans [OF _ m(2)] unfolding moves_to_def calm_def by blast
qed

lemma ungated_moves:
  assumes "ungated (tk_Target s)" "cluster_healthy env (te_Target (tk_Target s))"
    and "resolve_gate env ''verification'' = Inr (Some verification_gate)"
  shows "phase_of s = PhaseNone \<Longrightarrow> moves_to env PhasePending s"
    and "phase_of s = PhasePending \<Longrightarrow> moves_to env PhaseVerification s"
    and "phase_of s = PhaseVerification \<Longrightarrow> moves_to env PhaseHealthCheck s"
    and "phase_of s = PhaseHealthCheck \<Longrightarrow> moves_to env PhaseMetricsCheck s"
    and "phase_of s = PhaseMetricsCheck \<Longrightarrow> moves_to env PhaseApplying s"
proof -
  show "moves_to env PhasePending s" if "phase_of s = PhaseNone"
    by (rule moves_toI [where t = s])
      (simp_all add: that advance_target_simps handle_initial_def declared_step_def)
  obtain mc t where mc: "healthy_cluster env mc" and t: "calm s t"
    and k: "\<And>k. with_fresh_cluster env k s = k mc t"
    using with_fresh_cluster_healthy [OF assms(2)] by blast
  show "moves_to env PhaseVerification s" if "phase_of s = PhasePending"
    by (rule moves_toI [OF _ t]) (simp_all add: that advance_target_simps handle_pending_def k declared_step_def)
  show "moves_to env PhaseHealthCheck s" if "phase_of s = PhaseVerification"
  proof -
    have "\<exists>t. calm s t \<and> advance_target env s = (Inr requeue_now, transition_to env PhaseHealthCheck t)"
      by (simp add: that advance_target_simps handle_verification_def assms(3) gate_evaluate_def
          verification_gate_def is_passed_def Let_def)
        (intro exI conjI, rule_tac [2] refl, intro calm_intros quiet_simps)
    then show ?thesis using moves_toI that by (fastforce simp: declared_step_def)
  qed
  have gate: "te_Gate (tk_Target t) = te_Gate (tk_Target s)" using t by (simp add: calm_def same_spec_def)
  have "handle_health_check env s = transition_to_soak_or_metrics env t"
    using mc by (simp add: handle_health_check_def k healthy_cluster_def)
  also have "\<dots> = (Inr requeue_now, transition_to env PhaseMetricsCheck t)"
    using assms(1) gate by (auto simp: transition_to_soak_or_metrics_def ungated_def split: option.splits)
  finally show "moves_to env PhaseMetricsCheck s" if "phase_of s = PhaseHealthCheck"
    by (intro moves_toI [OF _ t]) (simp_all add: that advance_target_simps declared_step_def)
  show "moves_to env PhaseApplying s" if "phase_of s = PhaseMetricsCheck"
    by (rule moves_toI [where t = s])
      (use that assms(1) in \<open>auto simp: advance_target_simps handle_metrics_check_def next_after_metrics_def
        ungated_def declared_step_def split: option.splits\<close>)
qed

lemma advance_loop_moves:
  assumes "moves_to env p s" "p \<noteq> phase_of s"
  shows "\<exists>s'. phase_of s' = p \<and> same_spec (tk_Target s) (tk_Target s') \<and>
    advance_loop env (Suc n) s = (if p = PhaseApplying then (Inr requeue_now, s') else advance_loop env n s')"
proof -
  obtain s' where "advance_target env s = (Inr requeue_now, s')" "phase_of s' = p" "same_spec (tk_Target s) (tk_Target s')"
    using assms(1) unfolding moves_to_def by blast
  then show ?thesis using assms(2) by (intro exI [of _ s']) simp
qed

text \<open>In a healthy world a target without soak, metrics, templates or approval goes from its first
  tick to Applying within one reconcile, and the reconcile then asks to be run again at once.\<close>

theorem healthy_target_reaches_applying:
  assumes "te_Phase (tk_Target s) = PhaseNone" "ungated (tk_Target s)"
    and "cluster_healthy env (te_Target (tk_Target s))"
    and "resolve_gate env ''verification'' = Inr (Some verification_gate)"
  shows "fst (advance_target_until_stable env s) = Inr requeue_now \<and>
    te_Phase (tk_Target (snd (advance_target_until_stable env s))) = PhaseApplying"
proof -
  have inv: "ungated (tk_Target t) \<and> cluster_healthy env (te_Target (tk_Target t))"
    if "same_spec (tk_Target s) (tk_Target t)" for t
    using that assms(2,3) by (simp add: same_spec_def ungated_def approval_required_def)
  note moves = ungated_moves [OF conjunct1 [OF inv] conjunct2 [OF inv] assms(4)]
  have s0: "same_spec (tk_Target s) (tk_Target s)" by (simp add: same_spec_def)
  obtain s1 where s1: "phase_of s1 = PhasePending" "same_spec (tk_Target s) (tk_Target s1)"
    "advance_loop env 8 s = advance_loop env 7 s1"
    using advance_loop_moves [OF moves(1) [OF s0 s0 assms(1)], of 7] assms(1) by (auto simp: eval_nat_numeral)
  obtain s2 where s2: "phase_of s2 = PhaseVerification" "same_spec (tk_Target s) (tk_Target s2)"
    "advance_loop env 7 s1 = advance_loop env 6 s2"
    using advance_loop_moves [OF moves(2) [OF s1(2,2,1)], of 6] s1(1) same_spec_trans [OF s1(2)]
    by (auto simp: eval_nat_numeral)
  obtain s3 where s3: "phase_of s3 = PhaseHealthCheck" "same_spec (tk_Target s) (tk_Target s3)"
    "advance_loop env 6 s2 = advance_loop env 5 s3"
    using advance_loop_moves [OF moves(3) [OF s2(2,2,1)], of 5] s2(1) same_spec_trans [OF s2(2)]
    by (auto simp: eval_nat_numeral)
  obtain s4 where s4: "phase_of s4 = PhaseMetricsCheck" "same_spec (tk_Target s) (tk_Target s4)"
    "advance_loop env 5 s3 = advance_loop env 4 s4"
    using advance_loop_moves [OF moves(4) [OF s3(2,2,1)], of 4] s3(1) same_spec_trans [OF s3(2)]
    by (auto simp: eval_nat_numeral)
  obtain s5 where s5: "phase_of s5 = PhaseApplying" "advance_loop env 4 s4 = (Inr requeue_now, s5)"
    using advance_loop_moves [OF moves(5) [OF s4(2,2,1)], of 3] s4(1) by (auto simp: eval_nat_numeral)
  have "advance_target_until_stable env s = (Inr requeue_now, s5)"
    unfolding advance_target_until_stable_def maxImmediatePhaseAdvances_def
    using s1(3) s2(3) s3(3) s4(3) s5(2) by simp
  with s5(1) show ?thesis by simp
qed

definition fresh_tick :: "sample tick" where
  "fresh_tick = upd_target (\<lambda>t. t\<lparr>te_Gate := None\<rparr>) (sample_tick PhaseNone)"

definition healthy_env :: "sample target_env" where
  "healthy_env = sample_env\<lparr>ev_Kube := sample_kube\<lparr>kb_GetCluster := (\<lambda>n w. (Inr sample_cluster, w))\<rparr>\<rparr>"

theorem healthy_target_reaches_applying_witness:
  "te_Phase (tk_Target (snd (advance_target_until_stable healthy_env fresh_tick))) = PhaseApplying"
  using healthy_target_reaches_applying [of fresh_tick healthy_env]
  by (simp add: fresh_tick_def sample_tick_def sample_exec_def healthy_env_def ungated_def approval_required_def
      cluster_healthy_def healthy_cluster_def sample_cluster_def sample_env_def sample_gates_def resolve_gate_def
      gate_resolve_def)

section \<open>To Converged\<close>

lemma extends_quiet_deliveries:
  "extends quiet s t \<Longrightarrow> filter delivery_effect (tk_Log t) = filter delivery_effect (tk_Log s)"
  by (auto simp: extends_def list_all_iff quiet_def filter_empty_conv)

text \<open>
  What Applying needs to finish in one tick: the cluster is there, healthy, claimed by this run
  and of a fitting topology; its actuator is found, delivers deltas, is observed and reports
  convergence.
\<close>

definition delivery_ready ::
  "'w target_env \<Rightarrow> target_execution_state \<Rightarrow> cluster \<Rightarrow> string \<Rightarrow> 'w actuator \<Rightarrow> capabilities \<Rightarrow> bool" where
  "delivery_ready env t mc key act caps \<longleftrightarrow>
     (\<forall>w. \<exists>w'. kb_GetCluster (ev_Kube env) (te_Target t) w = (Inr mc, w')) \<and> healthy_cluster env mc \<and>
     cst_ActivePromotionRun (cl_Status mc) = run_Name (ev_PromotionRun env) \<and> run_Name (ev_PromotionRun env) \<noteq> [] \<and>
     validate_target_topology mc (target_desired_versions t) = None \<and>
     (\<exists>registry. ev_ActuatorRegistry env = Some registry \<and>
        (\<forall>w. \<exists>w'. resolve_actuator_for_cluster (ev_Kube env) registry mc w = (Inr (key, act, caps), w'))) \<and>
     supports_actuator_apply caps \<and> supports_actuator_delta caps \<and> supports_actuator_observe caps \<and>
     (supports_actuator_substrate_objects caps \<longrightarrow> act_SubstrateObjects act = None) \<and>
     (\<forall>r w. \<exists>n w'. act_ApplyDelta act r w = (Inr n, w')) \<and>
     (\<forall>vs w. \<exists>w'. act_IsAllConverged act mc vs w = (Inr True, w'))"

lemma poll_convergence_converged:
  assumes "delivery_ready env t mc key act caps"
  shows "\<exists>u. calm s u \<and> poll_convergence env (Some (key, act, caps)) mc vs s = converge env u"
proof -
  obtain w where w: "act_IsAllConverged act mc vs (tk_World s) = (Inr True, w)"
    using assms unfolding delivery_ready_def by blast
  have p: "poll_convergence env (Some (key, act, caps)) mc vs s =
      converge env (emit (RunEvent ''Normal'' ''Applied''
        (''Desired versions applied to '' @ te_Target (tk_Target s))) (set_world w s))"
    using assms w
    by (simp add: poll_convergence_def report_substrate_objects_def observe_actuator_def delivery_ready_def Let_def)
  show ?thesis by (intro exI conjI, rule_tac [2] p) (intro calm_intros quiet_simps)
qed

lemma issue_apply_delta:
  assumes "delivery_ready env t mc key act caps" "\<not> te_ApplyIssued (tk_Target s)"
  shows "\<exists>w. issue_apply env (Some (key, act, caps)) mc vs s =
    poll_convergence env (Some (key, act, caps)) mc vs
      (upd_target (\<lambda>t. t\<lparr>te_ApplyIssued := True\<rparr>)
        (set_world w (emit (ApplyDeltaCalled key \<lparr>dr_Cluster = mc, dr_DesiredVersions = vs\<rparr>) s)))"
proof -
  let ?r = "\<lparr>dr_Cluster = mc, dr_DesiredVersions = vs\<rparr>"
  obtain n w where "act_ApplyDelta act ?r (tk_World s) = (Inr n, w)"
    using assms(1) unfolding delivery_ready_def by blast
  with assms show ?thesis
    by (auto simp: issue_apply_def apply_desired_versions_def delivery_ready_def Let_def)
qed

lemma handle_applying_ready:
  assumes r: "delivery_ready env (tk_Target s) mc key act caps"
    and vs: "target_desired_versions (tk_Target s) \<noteq> []"
  shows "\<exists>t. calm s t \<and> handle_applying env s =
    issue_apply env (Some (key, act, caps)) mc (target_desired_versions (tk_Target s)) t"
proof -
  let ?vs = "target_desired_versions (tk_Target s)"
  obtain w where g: "kb_GetCluster (ev_Kube env) (te_Target (tk_Target s)) (tk_World s) = (Inr mc, w)"
    using r unfolding delivery_ready_def by blast
  let ?s1 = "upd_target clear_heartbeat (upd_target (\<lambda>t. t\<lparr>te_MissingMCCount := 0\<rparr>) (set_world w s))"
  obtain registry w1 where reg: "ev_ActuatorRegistry env = Some registry"
    "resolve_actuator_for_cluster (ev_Kube env) registry mc (tk_World ?s1) = (Inr (key, act, caps), w1)"
    using r unfolding delivery_ready_def by blast
  let ?s2 = "emit_delivery_decision_traces env mc ?vs
    (upd_target (capture_previous_versions mc ?vs) (set_world w1 ?s1))"
  have "require_fresh_heartbeat env mc s' = (None, upd_target clear_heartbeat s')" for s'
    using r require_fresh_heartbeat_healthy unfolding delivery_ready_def by blast
  then have "handle_applying env s = issue_apply env (Some (key, act, caps)) mc ?vs ?s2"
    using vs g reg r
    by (auto simp: handle_applying_def Let_def with_fresh_cluster_def claim_cluster_def delivery_ready_def)
  moreover have "calm s ?s2"
    by (intro calm_intros calm_upd_target) (simp_all add: same_spec_capture_previous_versions)
  ultimately show ?thesis by blast
qed

text \<open>C36. A target in Applying whose delivery has not been issued, with everything ready for it, is
  delivered by exactly one delta call with its desired versions for its cluster and is
  Converged at the end of that same tick.\<close>

theorem ready_target_converges:
  assumes "te_Phase (tk_Target s) = PhaseApplying" "\<not> te_ApplyIssued (tk_Target s)"
    and "target_desired_versions (tk_Target s) \<noteq> []"
    and "delivery_ready env (tk_Target s) mc key act caps"
  shows "fst (advance_target env s) = Inr no_requeue \<and>
    te_Phase (tk_Target (snd (advance_target env s))) = PhaseConverged \<and>
    filter delivery_effect (tk_Log (snd (advance_target env s))) =
      filter delivery_effect (tk_Log s) @
        [ApplyDeltaCalled key \<lparr>dr_Cluster = mc, dr_DesiredVersions = target_desired_versions (tk_Target s)\<rparr>]"
proof -
  let ?vs = "target_desired_versions (tk_Target s)" and ?k = "Some (key, act, caps)"
  obtain t where t: "calm s t" "handle_applying env s = issue_apply env ?k mc ?vs t"
    using handle_applying_ready [OF assms(4,3)] by blast
  have "\<not> te_ApplyIssued (tk_Target t)" using t(1) assms(2) by (simp add: calm_def)
  then obtain w where i: "issue_apply env ?k mc ?vs t = poll_convergence env ?k mc ?vs
      (upd_target (\<lambda>t. t\<lparr>te_ApplyIssued := True\<rparr>)
        (set_world w (emit (ApplyDeltaCalled key \<lparr>dr_Cluster = mc, dr_DesiredVersions = ?vs\<rparr>) t)))"
    using issue_apply_delta [OF assms(4)] by blast
  let ?t = "upd_target (\<lambda>t. t\<lparr>te_ApplyIssued := True\<rparr>)
        (set_world w (emit (ApplyDeltaCalled key \<lparr>dr_Cluster = mc, dr_DesiredVersions = ?vs\<rparr>) t))"
  obtain u where u: "calm ?t u" "poll_convergence env ?k mc ?vs ?t = converge env u"
    using poll_convergence_converged [OF assms(4)] by blast
  have ph: "phase_of u = PhaseApplying" using u(1) t(1) assms(1) by (simp add: calm_def)
  have adv: "advance_target env s = converge env u"
    using assms(1) t(2) i u(2) by (simp add: advance_target_simps)
  have dc: "declared_step (phase_of u) PhaseConverged" by (simp add: ph declared_step_def)
  have "filter delivery_effect (tk_Log (transition_to env PhaseConverged u)) = filter delivery_effect (tk_Log ?t)"
    using extends_quiet_deliveries [OF transition_to_moves(3) [OF dc, of env]]
      extends_quiet_deliveries [of ?t u] u(1) by (simp add: calm_def)
  moreover have "filter delivery_effect (tk_Log t) = filter delivery_effect (tk_Log s)"
    using extends_quiet_deliveries [of s t] t(1) by (simp add: calm_def)
  ultimately show ?thesis
    using adv transition_to_moves(1) [OF dc, of env] by (simp add: converge_def Let_def)
qed

definition good_actuator :: "sample actuator" where
  "good_actuator = sample_actuator\<lparr>act_IsAllConverged := (\<lambda>c vs w. (Inr True, w))\<rparr>"

definition claimed_cluster :: cluster where
  "claimed_cluster = sample_cluster\<lparr>cl_Status := (cl_Status sample_cluster)\<lparr>cst_ActivePromotionRun := ''r1''\<rparr>\<rparr>"

definition good_env :: "sample target_env" where
  "good_env = sample_env\<lparr>ev_Kube := sample_kube\<lparr>kb_GetCluster := (\<lambda>n w. (Inr claimed_cluster, w))\<rparr>,
     ev_ActuatorRegistry := Some (snd (actuator_register ''push/'' good_actuator new_actuator_registry))\<rparr>"

definition good_caps :: capabilities where
  "good_caps = actuator_capabilities_for (ev_ActuatorRegistry good_env) ''push/''"

lemma good_delivery: "delivery_ready good_env (tk_Target (sample_tick PhaseApplying)) claimed_cluster ''push/'' good_actuator good_caps"
proof -
  have key: "substrate_binding_registry_key (cs_Substrate (cl_Spec claimed_cluster)) = ''push/''"
    "substrate_binding_name (cs_Substrate (cl_Spec claimed_cluster)) = []"
    by (simp_all add: claimed_cluster_def sample_cluster_def substrate_binding_registry_key_def
        substrate_binding_name_def)
  have caps: "\<not> has_actuator_support_bits good_caps"
    by (simp add: good_caps_def good_env_def actuator_capabilities_for_def actuator_registration_def
        actuator_register_def new_actuator_registry_def actuator_put_def bare_registration_def
        normalize_capabilities_def no_capabilities_def has_actuator_support_bits_def)
  show ?thesis
    unfolding delivery_ready_def
  proof (intro conjI)
    show "\<exists>registry. ev_ActuatorRegistry good_env = Some registry \<and>
      (\<forall>w. \<exists>w'. resolve_actuator_for_cluster (ev_Kube good_env) registry claimed_cluster w =
         (Inr (''push/'', good_actuator, good_caps), w'))"
      by (simp add: resolve_actuator_for_cluster_def key Let_def good_env_def good_caps_def actuator_resolve_def
          actuator_register_def new_actuator_registry_def actuator_put_def)
  qed (use caps in \<open>simp_all add: good_env_def claimed_cluster_def sample_cluster_def sample_env_def sample_run_def
      named_def healthy_cluster_def validate_target_topology_def sample_tick_def sample_exec_def
      target_desired_versions_def copy_string_map_def good_actuator_def sample_actuator_def
      supports_actuator_apply_def supports_actuator_delta_def supports_actuator_observe_def\<close>)
qed

theorem ready_target_converges_witness:
  "te_Phase (tk_Target (snd (advance_target good_env (sample_tick PhaseApplying)))) = PhaseConverged"
  using ready_target_converges [OF _ _ _ good_delivery]
  by (simp add: sample_tick_def sample_exec_def empty_target_def target_desired_versions_def copy_string_map_def)

end
