(* ===== verification/Planner.thy ===== *)
theory Planner
  imports Effects "HOL-Library.Product_Lexorder" "HOL-Library.Multiset"
begin

text \<open>
  The planner of \<^verbatim>\<open>pkg/planner\<close>: scheduler-style plugins that filter, score, order and admit the
  clusters of one stage. A plugin is a record of the phases it implements, \<open>None\<close> for an
  interface it does not; each phase is a function of the cycle state and the outside world,
  which stay in one opaque type, since a plugin may call a remote process. The lock of the
  framework is left out: a planning cycle works on a snapshot of the plugin list. Scores are
  unbounded integers here and 64-bit in the source; a total stays within a hundred times the
  number of plugins.
\<close>

section \<open>Statuses\<close>

datatype planner_code = CodeNone | CodeSuccess | CodeError | CodeSkip | CodeOther string

fun planner_code_string :: "planner_code \<Rightarrow> string" where
  "planner_code_string CodeNone = []"
| "planner_code_string CodeSuccess = ''Success''"
| "planner_code_string CodeError = ''Error''"
| "planner_code_string CodeSkip = ''Skip''"
| "planner_code_string (CodeOther s) = s"

record planner_status =
  ps_Code :: planner_code
  ps_Reason :: string
  ps_Message :: string

text \<open>A status pointer; \<open>None\<close> is nil.\<close>

definition is_success :: "planner_status option \<Rightarrow> bool" where
  "is_success s \<longleftrightarrow>
     (case s of None \<Rightarrow> True
      | Some st \<Rightarrow> ps_Code st = CodeNone \<or> ps_Code st = CodeSuccess \<or> ps_Code st = CodeSkip)"

definition as_error :: "planner_status option \<Rightarrow> string \<Rightarrow> string \<Rightarrow> go_error option" where
  "as_error s plugin phase =
     (case s of
        None \<Rightarrow> None
      | Some st \<Rightarrow>
          (if is_success s then None
           else if ps_Message st = []
           then Some (''planner plugin '' @ go_quote plugin @ '' failed at '' @ phase)
           else Some (''planner plugin '' @ go_quote plugin @ '' failed at '' @ phase @ '': '' @ ps_Message st)))"

definition new_status :: "planner_code \<Rightarrow> string \<Rightarrow> planner_status option" where
  "new_status code message = Some \<lparr>ps_Code = code, ps_Reason = [], ps_Message = message\<rparr>"

definition new_status_reason :: "planner_code \<Rightarrow> string \<Rightarrow> string \<Rightarrow> planner_status option" where
  "new_status_reason code reason message = Some \<lparr>ps_Code = code, ps_Reason = reason, ps_Message = message\<rparr>"

definition is_skip :: "planner_status option \<Rightarrow> bool" where
  "is_skip s \<longleftrightarrow> (case s of None \<Rightarrow> False | Some st \<Rightarrow> ps_Code st = CodeSkip)"

section \<open>Requests, results, plugins\<close>

record planner_request =
  rq_PromotionRun :: "promotion_run option"
  rq_PlanRefName :: string
  rq_Plan :: "plan option"
  rq_Stage :: stage

record planner_decision =
  pd_Target :: string
  pd_Plugin :: string
  pd_Phase :: string
  pd_Reason :: string
  pd_Message :: string

record plan_result =
  plan_Targets :: "cluster list"
  plan_Decisions :: "planner_decision list"

type_synonym node_score = "string \<times> int"

type_synonym 's target_hook = "'s \<Rightarrow> planner_request \<Rightarrow> cluster \<Rightarrow> planner_status option \<times> 's"

record 's planner_plugin =
  pn_Name :: string
  pn_PreFilter :: "('s \<Rightarrow> planner_request \<Rightarrow> cluster list \<Rightarrow> planner_status option \<times> 's) option"
  pn_Filter :: "'s target_hook option"
  pn_Score :: "('s \<Rightarrow> planner_request \<Rightarrow> cluster \<Rightarrow> (int \<times> planner_status option) \<times> 's) option"
  pn_NormalizeScore ::
    "('s \<Rightarrow> planner_request \<Rightarrow> node_score list \<Rightarrow> (planner_status option \<times> node_score list) \<times> 's) option"
  pn_Reserve :: "'s target_hook option"
  pn_Permit :: "'s target_hook option"

definition plain_plugin :: "string \<Rightarrow> 's planner_plugin" where
  "plain_plugin name = \<lparr>pn_Name = name, pn_PreFilter = None, pn_Filter = None, pn_Score = None,
     pn_NormalizeScore = None, pn_Reserve = None, pn_Permit = None\<rparr>"

definition decision_from_status :: "string \<Rightarrow> string \<Rightarrow> string \<Rightarrow> planner_status option \<Rightarrow> planner_decision" where
  "decision_from_status target plugin phase s =
     (case s of
        None \<Rightarrow> \<lparr>pd_Target = target, pd_Plugin = plugin, pd_Phase = phase, pd_Reason = [], pd_Message = []\<rparr>
      | Some st \<Rightarrow>
          \<lparr>pd_Target = target, pd_Plugin = plugin, pd_Phase = phase,
           pd_Reason = (if ps_Reason st = [] then planner_code_string (ps_Code st) else ps_Reason st),
           pd_Message = ps_Message st\<rparr>)"

section \<open>The framework\<close>

type_synonym 's framework = "'s planner_plugin list"

text \<open>\<^verbatim>\<open>Upsert\<close> and \<^verbatim>\<open>Unregister\<close> on a framework that is not nil and a plugin that is not nil.\<close>

fun planner_upsert :: "'s planner_plugin \<Rightarrow> 's framework \<Rightarrow> 's planner_plugin option \<times> 's framework" where
  "planner_upsert p [] = (None, [p])"
| "planner_upsert p (q # qs) =
     (if pn_Name q = pn_Name p then (Some q, p # qs)
      else case planner_upsert p qs of (old, qs') \<Rightarrow> (old, q # qs'))"

fun planner_unregister :: "string \<Rightarrow> 's framework \<Rightarrow> 's planner_plugin option \<times> 's framework" where
  "planner_unregister name [] = (None, [])"
| "planner_unregister name (q # qs) =
     (if pn_Name q = name then (Some q, qs)
      else case planner_unregister name qs of (old, qs') \<Rightarrow> (old, q # qs'))"

fun run_pre_filter ::
  "'s planner_plugin list \<Rightarrow> 's \<Rightarrow> planner_request \<Rightarrow> cluster list \<Rightarrow> go_error option \<times> 's" where
  "run_pre_filter [] s req targets = (None, s)"
| "run_pre_filter (p # ps) s req targets =
     (case pn_PreFilter p of
        None \<Rightarrow> run_pre_filter ps s req targets
      | Some f \<Rightarrow>
          (case f s req targets of
             (status, s') \<Rightarrow>
               (case as_error status (pn_Name p) ''PreFilter'' of
                  Some e \<Rightarrow> (Some e, s')
                | None \<Rightarrow> run_pre_filter ps s' req targets)))"

text \<open>
  The plugins on one target. The answer is an error, a decision that leaves the target out, or
  nothing; \<open>hook\<close> selects the phase.
\<close>

fun run_target_hooks ::
  "('s planner_plugin \<Rightarrow> 's target_hook option) \<Rightarrow> string \<Rightarrow> 's planner_plugin list \<Rightarrow> 's \<Rightarrow>
   planner_request \<Rightarrow> cluster \<Rightarrow> (go_error + planner_decision option) \<times> 's" where
  "run_target_hooks hook phase [] s req target = (Inr None, s)"
| "run_target_hooks hook phase (p # ps) s req target =
     (case hook p of
        None \<Rightarrow> run_target_hooks hook phase ps s req target
      | Some f \<Rightarrow>
          (case f s req target of
             (status, s') \<Rightarrow>
               (case as_error status (pn_Name p) phase of
                  Some e \<Rightarrow> (Inl e, s')
                | None \<Rightarrow>
                    (if is_skip status
                     then (Inr (Some (decision_from_status (cl_Name target) (pn_Name p) phase status)), s')
                     else run_target_hooks hook phase ps s' req target))))"

fun filter_targets ::
  "'s planner_plugin list \<Rightarrow> 's \<Rightarrow> planner_request \<Rightarrow> cluster list \<Rightarrow> cluster list \<Rightarrow> planner_decision list \<Rightarrow>
   go_error option \<times> cluster list \<times> planner_decision list \<times> 's" where
  "filter_targets ps s req [] kept decisions = (None, kept, decisions, s)"
| "filter_targets ps s req (t # ts) kept decisions =
     (case run_target_hooks pn_Filter ''Filter'' ps s req t of
        (Inl e, s') \<Rightarrow> (Some e, kept, decisions, s')
      | (Inr (Some d), s') \<Rightarrow> filter_targets ps s' req ts kept (decisions @ [d])
      | (Inr None, s') \<Rightarrow> filter_targets ps s' req ts (kept @ [t]) decisions)"

definition clamp_score :: "int \<Rightarrow> int" where
  "clamp_score score = (if score < 0 then 0 else if score > 100 then 100 else score)"

fun score_target ::
  "'s planner_plugin list \<Rightarrow> 's \<Rightarrow> planner_request \<Rightarrow> cluster \<Rightarrow> int \<Rightarrow> int \<times> 's" where
  "score_target [] s req target acc = (acc, s)"
| "score_target (p # ps) s req target acc =
     (case pn_Score p of
        None \<Rightarrow> score_target ps s req target acc
      | Some f \<Rightarrow>
          (case f s req target of
             ((score, status), s') \<Rightarrow>
               (if \<not> is_success status then score_target ps s' req target acc
                else score_target ps s' req target (acc + clamp_score score))))"

fun score_targets ::
  "'s planner_plugin list \<Rightarrow> 's \<Rightarrow> planner_request \<Rightarrow> cluster list \<Rightarrow> node_score list \<Rightarrow>
   node_score list \<times> 's" where
  "score_targets ps s req [] scores = (scores, s)"
| "score_targets ps s req (t # ts) scores =
     (case score_target ps s req t 0 of
        (acc, s') \<Rightarrow> score_targets ps s' req ts (AList.update (cl_Name t) acc scores))"

fun run_normalizers ::
  "'s planner_plugin list \<Rightarrow> 's \<Rightarrow> planner_request \<Rightarrow> node_score list \<Rightarrow>
   (go_error + node_score list) \<times> 's" where
  "run_normalizers [] s req scores = (Inr scores, s)"
| "run_normalizers (p # ps) s req scores =
     (case pn_NormalizeScore p of
        None \<Rightarrow> run_normalizers ps s req scores
      | Some f \<Rightarrow>
          (case f s req scores of
             ((status, scores'), s') \<Rightarrow>
               (case as_error status (pn_Name p) ''NormalizeScore'' of
                  Some e \<Rightarrow> (Inl e, s')
                | None \<Rightarrow> run_normalizers ps s' req scores')))"

definition normalize_scores ::
  "'s planner_plugin list \<Rightarrow> 's \<Rightarrow> planner_request \<Rightarrow> node_score list \<Rightarrow> (go_error + node_score list) \<times> 's" where
  "normalize_scores ps s req scores =
     (case run_normalizers ps s req (sort_key fst scores) of
        (Inl e, s') \<Rightarrow> (Inl e, s')
      | (Inr scoreList, s') \<Rightarrow>
          (Inr (fold (\<lambda>(name, score). AList.update name (clamp_score score)) scoreList scores), s'))"

definition score_of :: "node_score list \<Rightarrow> cluster \<Rightarrow> int" where
  "score_of scores c = (case map_of scores (cl_Name c) of None \<Rightarrow> 0 | Some x \<Rightarrow> x)"

text \<open>\<^verbatim>\<open>sort.SliceStable\<close>: higher scores first, equal scores by name.\<close>

definition order_targets :: "node_score list \<Rightarrow> cluster list \<Rightarrow> cluster list" where
  "order_targets scores = sort_key (\<lambda>c. (- score_of scores c, cl_Name c))"

fun run_reserve ::
  "'s planner_plugin list \<Rightarrow> 's \<Rightarrow> planner_request \<Rightarrow> cluster \<Rightarrow> go_error option \<times> 's" where
  "run_reserve [] s req target = (None, s)"
| "run_reserve (p # ps) s req target =
     (case pn_Reserve p of
        None \<Rightarrow> run_reserve ps s req target
      | Some f \<Rightarrow>
          (case f s req target of
             (status, s') \<Rightarrow>
               (case as_error status (pn_Name p) ''Reserve'' of
                  Some e \<Rightarrow> (Some e, s')
                | None \<Rightarrow> run_reserve ps s' req target)))"

definition run_permit ::
  "'s planner_plugin list \<Rightarrow> 's \<Rightarrow> planner_request \<Rightarrow> cluster \<Rightarrow> (go_error + planner_decision option) \<times> 's" where
  "run_permit = run_target_hooks pn_Permit ''Permit''"

fun admit_targets ::
  "'s planner_plugin list \<Rightarrow> 's \<Rightarrow> planner_request \<Rightarrow> cluster list \<Rightarrow> cluster list \<Rightarrow> planner_decision list \<Rightarrow>
   go_error option \<times> cluster list \<times> planner_decision list \<times> 's" where
  "admit_targets ps s req [] planned decisions = (None, planned, decisions, s)"
| "admit_targets ps s req (t # ts) planned decisions =
     (case run_reserve ps s req t of
        (Some e, s') \<Rightarrow> (Some e, planned, decisions, s')
      | (None, s') \<Rightarrow>
          (case run_permit ps s' req t of
             (Inl e, s'') \<Rightarrow> (Some e, planned, decisions, s'')
           | (Inr (Some d), s'') \<Rightarrow> admit_targets ps s'' req ts planned (decisions @ [d])
           | (Inr None, s'') \<Rightarrow> admit_targets ps s'' req ts (planned @ [t]) decisions))"

text \<open>\<^verbatim>\<open>PlanWithResult\<close>; a nil framework has no plugins. An error keeps the decisions made so far.\<close>

definition plan_with_result ::
  "'s framework \<Rightarrow> 's \<Rightarrow> planner_request \<Rightarrow> cluster list \<Rightarrow> (go_error option \<times> plan_result) \<times> 's" where
  "plan_with_result ps s req targets =
     (case run_pre_filter ps s req targets of
        (Some e, s1) \<Rightarrow> ((Some e, \<lparr>plan_Targets = [], plan_Decisions = []\<rparr>), s1)
      | (None, s1) \<Rightarrow>
          (case filter_targets ps s1 req targets [] [] of
             (Some e, kept, ds, s2) \<Rightarrow> ((Some e, \<lparr>plan_Targets = [], plan_Decisions = ds\<rparr>), s2)
           | (None, kept, ds, s2) \<Rightarrow>
               (case score_targets ps s2 req kept [] of
                  (scores, s3) \<Rightarrow>
                    (case normalize_scores ps s3 req scores of
                       (Inl e, s4) \<Rightarrow> ((Some e, \<lparr>plan_Targets = [], plan_Decisions = ds\<rparr>), s4)
                     | (Inr scores', s4) \<Rightarrow>
                         (case admit_targets ps s4 req (order_targets scores' kept) [] ds of
                            (Some e, planned, ds', s5) \<Rightarrow> ((Some e, \<lparr>plan_Targets = [], plan_Decisions = ds'\<rparr>), s5)
                          | (None, planned, ds', s5) \<Rightarrow>
                              ((None, \<lparr>plan_Targets = planned, plan_Decisions = ds'\<rparr>), s5))))))"

definition plan_targets ::
  "'s framework \<Rightarrow> 's \<Rightarrow> planner_request \<Rightarrow> cluster list \<Rightarrow> (go_error + cluster list) \<times> 's" where
  "plan_targets ps s req targets =
     (case plan_with_result ps s req targets of
        ((Some e, r), s') \<Rightarrow> (Inl e, s') | ((None, r), s') \<Rightarrow> (Inr (plan_Targets r), s'))"

section \<open>The built-in plugins\<close>

definition readiness_filter :: "'w kube \<Rightarrow> 's planner_plugin" where
  "readiness_filter kb = (plain_plugin ''readiness'')\<lparr>pn_Filter := Some (\<lambda>s req target.
     (case kb_FindStatusCondition kb (cst_Conditions (cl_Status target)) ''Ready'' of
        Some c \<Rightarrow> (if c_Status c = ''False''
                   then new_status_reason CodeSkip ''ClusterNotReady'' ''cluster Ready condition is false''
                   else None)
      | None \<Rightarrow> None, s))\<rparr>"

definition active_promotion_run_filter :: "'s planner_plugin" where
  "active_promotion_run_filter = (plain_plugin ''active-promotionrun'')\<lparr>pn_Filter := Some (\<lambda>s req target.
     (case rq_PromotionRun req of
        None \<Rightarrow> None
      | Some run \<Rightarrow>
          (if cst_ActivePromotionRun (cl_Status target) = [] \<or> cst_ActivePromotionRun (cl_Status target) = run_Name run
           then None
           else new_status_reason CodeSkip ''DifferentActivePromotionRun''
                  ''cluster is already processing another promotionrun''), s))\<rparr>"

definition deterministic_order :: "'s planner_plugin" where
  "deterministic_order = (plain_plugin ''deterministic-order'')\<lparr>pn_Score := Some (\<lambda>s req target. ((0, None), s))\<rparr>"

definition new_default_framework :: "'w kube \<Rightarrow> 's framework" where
  "new_default_framework kb = [readiness_filter kb, active_promotion_run_filter, deterministic_order]"

end
