(* ===== verification/Run_State.thy ===== *)
theory Run_State
  imports Planner Target_Gates
begin

text \<open>
  The state of one reconcile of a promotion run
  (\<^verbatim>\<open>internal/controller/promotionrun_controller.go\<close>): the run object as the reconciler holds and
  mutates it, the controller-local buffer of target entries, the world and the log of effects;
  the conditions, the phase with its declared graph, the CloudEvents and the notifications
  (\<^verbatim>\<open>promotionrun_notifications.go\<close>). Log lines and the status-write counters are left out.
\<close>

section \<open>Ticks of a run\<close>

record 'w run_tick =
  rk_World :: 'w
  rk_Log :: "effect list"
  rk_Run :: promotion_run
  rk_Targets :: "target_execution_state list"

text \<open>
  The reconciler's fields. The cycle state of a planning cycle carries values of any type,
  which stand as text.
\<close>

record 'w run_env =
  rv_Kube :: "'w kube"
  rv_ActuatorRegistry :: "'w actuator_registry option"
  rv_Notifier :: bool
  rv_Planner :: "(smap \<times> 'w) framework option"
  rv_StagePublisher :: bool

type_synonym ('w, 'a) run_op = "'w run_tick \<Rightarrow> (go_error + 'a) \<times> 'w run_tick"

definition run_bind :: "('w, 'a) run_op \<Rightarrow> ('a \<Rightarrow> ('w, 'b) run_op) \<Rightarrow> ('w, 'b) run_op" where
  "run_bind m f s = (case m s of (Inl e, s') \<Rightarrow> (Inl e, s') | (Inr x, s') \<Rightarrow> f x s')"

definition run_return :: "'a \<Rightarrow> ('w, 'a) run_op" where
  "run_return x s = (Inr x, s)"

text \<open>An error with the text that wraps it.\<close>

definition run_wrap :: "string \<Rightarrow> ('w, 'a) run_op \<Rightarrow> ('w, 'a) run_op" where
  "run_wrap prefix m s = (case m s of (Inl e, s') \<Rightarrow> (Inl (prefix @ e), s') | (Inr x, s') \<Rightarrow> (Inr x, s'))"

definition run_emit :: "effect \<Rightarrow> 'w run_tick \<Rightarrow> 'w run_tick" where
  "run_emit e s = s\<lparr>rk_Log := rk_Log s @ [e]\<rparr>"

definition run_world :: "'w \<Rightarrow> 'w run_tick \<Rightarrow> 'w run_tick" where
  "run_world w s = s\<lparr>rk_World := w\<rparr>"

definition upd_run :: "(promotion_run \<Rightarrow> promotion_run) \<Rightarrow> 'w run_tick \<Rightarrow> 'w run_tick" where
  "upd_run f s = s\<lparr>rk_Run := f (rk_Run s)\<rparr>"

definition upd_status :: "(promotion_run_status \<Rightarrow> promotion_run_status) \<Rightarrow> 'w run_tick \<Rightarrow> 'w run_tick" where
  "upd_status f = upd_run (\<lambda>r. r\<lparr>run_Status := f (run_Status r)\<rparr>)"

definition set_targets :: "target_execution_state list \<Rightarrow> 'w run_tick \<Rightarrow> 'w run_tick" where
  "set_targets ts s = s\<lparr>rk_Targets := ts\<rparr>"

lemma run_tick_simps [simp]:
  "rk_World (run_emit e s) = rk_World s" "rk_Run (run_emit e s) = rk_Run s"
  "rk_Targets (run_emit e s) = rk_Targets s" "rk_Log (run_emit e s) = rk_Log s @ [e]"
  "rk_World (run_world w s) = w" "rk_Run (run_world w s) = rk_Run s"
  "rk_Targets (run_world w s) = rk_Targets s" "rk_Log (run_world w s) = rk_Log s"
  "rk_World (upd_run f s) = rk_World s" "rk_Run (upd_run f s) = f (rk_Run s)"
  "rk_Targets (upd_run f s) = rk_Targets s" "rk_Log (upd_run f s) = rk_Log s"
  "rk_World (upd_status g s) = rk_World s"
  "rk_Run (upd_status g s) = (rk_Run s)\<lparr>run_Status := g (run_Status (rk_Run s))\<rparr>"
  "rk_Targets (upd_status g s) = rk_Targets s" "rk_Log (upd_status g s) = rk_Log s"
  "rk_World (set_targets ts s) = rk_World s" "rk_Run (set_targets ts s) = rk_Run s"
  "rk_Targets (set_targets ts s) = ts" "rk_Log (set_targets ts s) = rk_Log s"
  by (simp_all add: run_emit_def run_world_def upd_run_def upd_status_def set_targets_def)

section \<open>Decision traces and CloudEvents\<close>

definition run_trace ::
  "promotion_run \<Rightarrow> string \<Rightarrow> string \<Rightarrow> string \<Rightarrow> string \<Rightarrow> string \<Rightarrow> string \<Rightarrow> string \<Rightarrow> string \<Rightarrow>
   trace_evidence list \<Rightarrow> effect" where
  "run_trace run plan stage target eventType source phase reason message evidence =
     TraceEmitted \<lparr>dt_PromotionRun = run_Name run, dt_Plan = plan, dt_Stage = stage, dt_Target = target,
       dt_EventType = eventType, dt_Source = source, dt_Phase = phase, dt_Reason = reason,
       dt_Message = message, dt_Evidence = evidence, dt_Time = None\<rparr>"

definition publish_wave_event ::
  "'w run_env \<Rightarrow> string \<Rightarrow> string \<Rightarrow> string \<Rightarrow> string \<Rightarrow> 'w run_tick \<Rightarrow> 'w run_tick" where
  "publish_wave_event env wave kind phase reason s =
     (let s1 = run_emit (run_trace (rk_Run s) wave [] [] ''BatchProgress'' ''promotionrun-controller''
                 phase kind reason []) s
      in if rv_StagePublisher env then run_emit (WaveCloudEvent wave kind phase reason) s1 else s1)"

definition publish_stage_event ::
  "'w run_env \<Rightarrow> string \<Rightarrow> string \<Rightarrow> string \<Rightarrow> string \<Rightarrow> string \<Rightarrow> 'w run_tick \<Rightarrow> 'w run_tick" where
  "publish_stage_event env wave stage kind phase reason s =
     (let s1 = run_emit (run_trace (rk_Run s) wave stage [] ''Stage'' ''promotionrun-controller''
                 phase kind reason []) s
      in if rv_StagePublisher env then run_emit (StageCloudEvent wave stage kind phase reason) s1 else s1)"

section \<open>Conditions\<close>

definition set_run_condition ::
  "'w run_env \<Rightarrow> string \<Rightarrow> string \<Rightarrow> string \<Rightarrow> string \<Rightarrow> 'w run_tick \<Rightarrow> 'w run_tick" where
  "set_run_condition env conditionType status reason message s =
     upd_status (\<lambda>st. st\<lparr>rst_Conditions :=
       kb_SetStatusCondition (rv_Kube env)
         \<lparr>c_Type = conditionType, c_Status = status, c_Reason = reason, c_Message = message,
          c_ObservedGeneration = om_Generation (run_Meta (rk_Run s)),
          c_LastTransitionTime = kb_Now (rv_Kube env) (rk_World s)\<rparr>
         (rst_Conditions st)\<rparr>) s"

definition maxPromotionRunReadyMessageSize :: nat where "maxPromotionRunReadyMessageSize = 256"

definition set_promotionrun_ready_condition ::
  "'w run_env \<Rightarrow> string \<Rightarrow> string \<Rightarrow> string \<Rightarrow> 'w run_tick \<Rightarrow> 'w run_tick" where
  "set_promotionrun_ready_condition env status reason message =
     set_run_condition env ''Ready'' status reason (take maxPromotionRunReadyMessageSize message)"

definition set_reconciling_condition ::
  "'w run_env \<Rightarrow> string \<Rightarrow> string \<Rightarrow> string \<Rightarrow> 'w run_tick \<Rightarrow> 'w run_tick" where
  "set_reconciling_condition env status reason message = set_run_condition env ''Reconciling'' status reason message"

definition set_stalled_condition :: "'w run_env \<Rightarrow> string \<Rightarrow> string \<Rightarrow> 'w run_tick \<Rightarrow> 'w run_tick" where
  "set_stalled_condition env reason message = set_run_condition env ''Stalled'' ''True'' reason message"

definition clear_stalled_condition :: "'w run_env \<Rightarrow> 'w run_tick \<Rightarrow> 'w run_tick" where
  "clear_stalled_condition env =
     upd_status (\<lambda>st. st\<lparr>rst_Conditions := kb_RemoveStatusCondition (rv_Kube env) ''Stalled'' (rst_Conditions st)\<rparr>)"

definition observe_generation :: "'w run_tick \<Rightarrow> 'w run_tick" where
  "observe_generation s =
     upd_status (\<lambda>st. st\<lparr>rst_ObservedGeneration := om_Generation (run_Meta (rk_Run s))\<rparr>) s"

definition stamp_completed :: "'w run_env \<Rightarrow> 'w run_tick \<Rightarrow> 'w run_tick" where
  "stamp_completed env s =
     upd_status (\<lambda>st. st\<lparr>rst_CompletedAt := rfc_now (rv_Kube env) (rk_World s)\<rparr>) s"

section \<open>The phase of a run\<close>

record 'h run_handlers =
  rh_pending :: 'h
  rh_progressing :: 'h
  rh_failed :: 'h

definition build_run_fsm :: "'h run_handlers \<Rightarrow> run_phase fsm_error + (run_phase, 'h) machine" where
  "build_run_fsm hs =
     sum_bind (must (register_initial (Some (rh_pending hs)) [RunProgressing] new_machine)) (\<lambda>m0.
     sum_bind (must (register_transition RunNone
       \<lparr>tr_Phase = RunPending, tr_AllowedNext = [RunProgressing, RunFailed],
        tr_Handler = Some (rh_pending hs)\<rparr> m0)) (\<lambda>m1.
     sum_bind (must (register_transition RunNone
       \<lparr>tr_Phase = RunProgressing, tr_AllowedNext = [RunComplete, RunFailed],
        tr_Handler = Some (rh_progressing hs)\<rparr> m1)) (\<lambda>m2.
     sum_bind (must (register_transition RunNone
       \<lparr>tr_Phase = RunFailed, tr_AllowedNext = [], tr_Handler = Some (rh_failed hs)\<rparr> m2)) (\<lambda>m3.
     sum_bind (must (register_terminal RunNone [RunComplete] m3)) (\<lambda>m4.
       must (register_terminal RunNone [RunSuperseded] m4))))))"

text \<open>The graph that the comment above \<^verbatim>\<open>buildRunFSM\<close> documents.\<close>

fun run_declared_next :: "run_phase \<Rightarrow> run_phase list option" where
  "run_declared_next RunNone = Some [RunProgressing]"
| "run_declared_next RunPending = Some [RunProgressing, RunFailed]"
| "run_declared_next RunProgressing = Some [RunComplete, RunFailed]"
| "run_declared_next RunFailed = Some []"
| "run_declared_next RunComplete = Some []"
| "run_declared_next RunSuperseded = Some []"
| "run_declared_next (RunOther s) = None"

definition run_table :: "'h run_handlers \<Rightarrow> (run_phase, 'h) machine" where
  "run_table hs = (case build_run_fsm hs of Inr m \<Rightarrow> m | Inl e \<Rightarrow> new_machine)"

definition run_fsm_error_text :: "run_phase fsm_error \<Rightarrow> string" where
  "run_fsm_error_text e =
     (case e of
        NotInAllowedNext from to \<Rightarrow>
          ''fsm: transition '' @ run_phase_string from @ '' '' @ arrow @ '' '' @ run_phase_string to @
          '' is not in declared AllowedNext''
      | UseRegisterInitial \<Rightarrow> ''fsm: use RegisterInitial for the zero-value phase, not Register''
      | HandlerNil p \<Rightarrow> ''fsm: handler for phase '' @ run_phase_string p @ '' is nil''
      | HandlerAlreadyRegistered p \<Rightarrow> ''fsm: handler for phase '' @ run_phase_string p @ '' already registered''
      | TerminalIsZero \<Rightarrow> ''fsm: terminal phase cannot be the zero value''
      | TerminalHasHandler p \<Rightarrow>
          ''fsm: phase '' @ run_phase_string p @ '' is registered with a handler, cannot also be terminal''
      | InitialHandlerNil \<Rightarrow> ''fsm: initial handler is nil''
      | InitialAlreadyRegistered \<Rightarrow> ''fsm: initial handler already registered'')"

definition unit_run_handlers :: "unit run_handlers" where
  "unit_run_handlers = \<lparr>rh_pending = (), rh_progressing = (), rh_failed = ()\<rparr>"

definition set_run_phase :: "run_phase \<Rightarrow> 'w run_tick \<Rightarrow> 'w run_tick" where
  "set_run_phase newPhase s =
     (let prev = rst_Phase (run_Status (rk_Run s));
          s1 = (case validate_transition RunNone (run_table unit_run_handlers) prev newPhase of
                  None \<Rightarrow> s
                | Some err \<Rightarrow>
                    run_emit (FsmUnexpected (run_phase_string prev) (run_phase_string newPhase))
                      (run_emit (RunEvent ''Warning'' ''FSMUnexpectedTransition''
                         (''[promotionrun/'' @ run_Name (rk_Run s) @ ''] '' @ run_fsm_error_text err)) s))
      in upd_status (\<lambda>st. st\<lparr>rst_Phase := newPhase\<rparr>) s1)"

section \<open>Writing the run\<close>

text \<open>
  \<^verbatim>\<open>patchPromotionRunStatus\<close>: the patch is taken against the run as it was when the handler made
  its copy, \<open>before\<close>; the client stores the answer into the run.
\<close>

definition patch_promotionrun_status :: "'w run_env \<Rightarrow> promotion_run \<Rightarrow> ('w, unit) run_op" where
  "patch_promotionrun_status env before s =
     (case kb_PatchRunStatus (rv_Kube env) before (rk_Run s) (rk_World s) of
        (Inl e, w) \<Rightarrow> (Inl (api_error_text e), run_world w s)
      | (Inr run, w) \<Rightarrow> (Inr (), upd_run (\<lambda>_. run) (run_world w s)))"

section \<open>Notifications\<close>

fun notification_policy_for_promotionrun ::
  "'w run_env \<Rightarrow> plan_ref list \<Rightarrow> notification_policy list \<Rightarrow> 'w \<Rightarrow> notification_policy \<times> 'w" where
  "notification_policy_for_promotionrun env [] policies w = (merge_notification_policies policies, w)"
| "notification_policy_for_promotionrun env (ref # refs) policies w =
     (case kb_GetPlan (rv_Kube env) (pr_Plan ref) w of
        (Inl e, w') \<Rightarrow> notification_policy_for_promotionrun env refs policies w'
      | (Inr p, w') \<Rightarrow>
          notification_policy_for_promotionrun env refs
            (policies @ map (\<lambda>st. notification_policy_from (sg_Gate st)) (pl_Stages p)) w')"

fun notification_policy_for_stage ::
  "'w run_env \<Rightarrow> plan_ref list \<Rightarrow> string \<Rightarrow> string \<Rightarrow> 'w \<Rightarrow> notification_policy \<times> 'w" where
  "notification_policy_for_stage env [] planRefName stageName w = ([], w)"
| "notification_policy_for_stage env (ref # refs) planRefName stageName w =
     (if pr_Name ref \<noteq> planRefName then notification_policy_for_stage env refs planRefName stageName w
      else case kb_GetPlan (rv_Kube env) (pr_Plan ref) w of
        (Inl e, w') \<Rightarrow> ([], w')
      | (Inr p, w') \<Rightarrow>
          (case find (\<lambda>st. sg_Name st = stageName) (pl_Stages p) of
             Some st \<Rightarrow> (notification_policy_from (sg_Gate st), w')
           | None \<Rightarrow> notification_policy_for_stage env refs planRefName stageName w'))"

definition run_notification :: "promotion_run \<Rightarrow> string \<Rightarrow> string \<Rightarrow> string \<Rightarrow> bool \<Rightarrow> notification_event" where
  "run_notification run eventType phase message isFailure =
     \<lparr>ne_Type = eventType, ne_Phase = phase, ne_Version = rst_ResolvedVersion (run_Status run),
      ne_Target = [], ne_PromotionRun = run_Name run, ne_Plan = [], ne_Stage = [],
      ne_Message = message, ne_IsFailure = isFailure, ne_ApproveURL = [], ne_RejectURL = []\<rparr>"

definition notify_promotionrun_event :: "'w run_env \<Rightarrow> string \<Rightarrow> string \<Rightarrow> 'w run_tick \<Rightarrow> 'w run_tick" where
  "notify_promotionrun_event env eventType message s =
     (if \<not> rv_Notifier env then s
      else case notification_policy_for_promotionrun env (prs_Plans (run_Spec (rk_Run s))) [] (rk_World s) of
        (policy, w) \<Rightarrow>
          run_emit (Notified (run_notification (rk_Run s) eventType
              (run_phase_string (rst_Phase (run_Status (rk_Run s)))) message
              (eventType = ''kapro.promotionrun.failed'')) policy) (run_world w s))"

definition notify_stage_event ::
  "'w run_env \<Rightarrow> string \<Rightarrow> string \<Rightarrow> string \<Rightarrow> string \<Rightarrow> 'w run_tick \<Rightarrow> 'w run_tick" where
  "notify_stage_event env planRef stage eventType message s =
     (if \<not> rv_Notifier env then s
      else case notification_policy_for_stage env (prs_Plans (run_Spec (rk_Run s))) planRef stage (rk_World s) of
        (policy, w) \<Rightarrow>
          run_emit (Notified ((run_notification (rk_Run s) eventType ''Complete'' message False)
              \<lparr>ne_Plan := planRef, ne_Stage := stage\<rparr>) policy) (run_world w s))"

end
