(* ===== verification/Run_Targets.thy ===== *)
theory Run_Targets
  imports Run_State
begin

text \<open>
  The target lifecycle of a promotion run: \<^verbatim>\<open>promotionrun_targets.go\<close> (bind, rollback, cancel,
  skip, load, persist, release of claims), \<^verbatim>\<open>triggerTargetRollback\<close> of \<^verbatim>\<open>target_fsm.go\<close>, and the
  aggregation of \<^verbatim>\<open>promotionrun_controller.go\<close> (normalisation, report, summary, audit trail). The
  parent writes the spec of its children and never their status. A raw merge patch of three
  spec fields is a patch from the object as listed to the object with those fields set.
\<close>

section \<open>Loading\<close>

definition load_promotion_targets :: "'w run_env \<Rightarrow> ('w, target_execution_state list) run_op" where
  "load_promotion_targets env s =
     (case kb_ListTargetsOfRun (rv_Kube env) (run_Name (rk_Run s)) (rk_World s) of
        (Inl e, w) \<Rightarrow> (Inl (api_error_text e), run_world w s)
      | (Inr items, w) \<Rightarrow>
          (Inr (sort_key promotion_target_object_name (map target_status_from_promotion_target items)),
           run_world w s))"

section \<open>Binding\<close>

definition target_bind_decision_evidence :: "target_execution_state \<Rightarrow> smap" where
  "target_bind_decision_evidence t =
     add_detail ''desiredVersionCount'' (string_of_nat (length (te_DesiredVersions t)))
     (add_detail ''appKey'' (te_AppKey t) (add_detail ''version'' (te_Version t)
     (add_detail ''target'' (te_Target t) (add_detail ''stage'' (te_Stage t)
     (add_detail ''plan'' (te_PlanRef t) [])))))"

definition target_key :: "target_execution_state \<Rightarrow> string" where
  "target_key t = sync_key (te_PlanRef t) (te_Stage t) (te_Target t)"

fun update_first :: "('a \<Rightarrow> bool) \<Rightarrow> ('a \<Rightarrow> 'a) \<Rightarrow> 'a list \<Rightarrow> 'a list" where
  "update_first P f [] = []"
| "update_first P f (x # xs) = (if P x then f x # xs else x # update_first P f xs)"

definition upsert_target ::
  "string \<Rightarrow> plan \<Rightarrow> stage \<Rightarrow> gate_policy_spec option \<Rightarrow> cluster \<Rightarrow> 'w run_tick \<Rightarrow> 'w run_tick" where
  "upsert_target planRefName plan stage resolvedGate mc s =
     (let run = rk_Run s;
          desired = promotionrun_desired_versions run;
          (version, appKey) = primary_desired_version desired (rst_ResolvedVersion (run_Status run)) promotionrun_app_key;
          key = sync_key planRefName (sg_Name stage) (cl_Name mc)
      in if list_ex (\<lambda>t. target_key t = key) (rk_Targets s) then
           set_targets (update_first (\<lambda>t. target_key t = key)
             (\<lambda>t. t\<lparr>te_Version := version, te_Gate := resolvedGate, te_AppKey := appKey,
                    te_DesiredVersions := copy_string_map desired\<rparr>) (rk_Targets s)) s
         else
           let newTarget = empty_target\<lparr>te_PromotionRunRef := run_Name run, te_Target := cl_Name mc,
                 te_PlanRef := planRefName, te_Plan := om_Name (pl_Meta plan), te_Stage := sg_Name stage,
                 te_Version := version, te_Gate := resolvedGate, te_AppKey := appKey,
                 te_DesiredVersions := copy_string_map desired\<rparr>
           in run_emit (run_trace run planRefName (sg_Name stage) (cl_Name mc) ''BatchProgress''
                ''promotionrun-controller'' ''Bind'' ''TargetBound''
                (''target '' @ cl_Name mc @ '' bound to stage '' @ sg_Name stage)
                [\<lparr>tre_Type = ''target-bind'', tre_Source = ''promotionrun-controller'',
                  tre_Detail = target_bind_decision_evidence newTarget\<rparr>])
                (set_targets (rk_Targets s @ [newTarget]) s))"

section \<open>Rollback\<close>

definition emit_capability_unsupported_trace_pr ::
  "'w run_env \<Rightarrow> target_execution_state \<Rightarrow> string \<Rightarrow> string \<Rightarrow> string \<Rightarrow> 'w run_tick \<Rightarrow> 'w run_tick" where
  "emit_capability_unsupported_trace_pr env t eventType reason message s =
     run_emit (TraceEmitted \<lparr>dt_PromotionRun = run_Name (rk_Run s), dt_Plan = te_PlanRef t,
       dt_Stage = te_Stage t, dt_Target = te_Target t, dt_EventType = eventType,
       dt_Source = ''promotionrun-controller'', dt_Phase = ''Skipped'', dt_Reason = reason,
       dt_Message = message, dt_Evidence = [], dt_Time = Some (kb_Now (rv_Kube env) (rk_World s))\<rparr>) s"

text \<open>The immediate call of the actuator; its failure is only logged.\<close>

definition rollback_now :: "'w run_env \<Rightarrow> target_execution_state \<Rightarrow> 'w run_tick \<Rightarrow> 'w run_tick" where
  "rollback_now env t s =
     (case kb_GetCluster (rv_Kube env) (te_Target t) (rk_World s) of
        (Inl e, w) \<Rightarrow> run_world w s
      | (Inr mc, w) \<Rightarrow>
          (let s1 = run_world w s; key = substrate_binding_registry_key (cs_Substrate (cl_Spec mc))
           in case rv_ActuatorRegistry env of
                None \<Rightarrow> s1
              | Some registry \<Rightarrow>
                  (case actuator_resolve registry key of
                     Inl e \<Rightarrow> s1
                   | Inr act \<Rightarrow>
                       (let caps = actuator_capabilities_for (Some registry) key
                        in if te_PreviousVersions t \<noteq> [] then
                             (if \<not> supports_actuator_delta caps then
                                emit_capability_unsupported_trace_pr env t ''Rollback'' ''RollbackUnsupported''
                                  (''actuator '' @ go_quote key @ '' does not support delta rollback; rollback target will re-apply'') s1
                              else
                                let req = \<lparr>dr_Cluster = mc, dr_DesiredVersions = te_PreviousVersions t\<rparr>;
                                    s2 = run_emit (ApplyDeltaCalled key req) s1
                                in run_world (snd (act_ApplyDelta act req (rk_World s2))) s2)
                           else if \<not> supports_actuator_rollback caps then
                             emit_capability_unsupported_trace_pr env t ''Rollback'' ''RollbackUnsupported''
                               (''actuator '' @ go_quote key @ '' does not support rollback; rollback target will re-apply'') s1
                           else
                             let s2 = run_emit (RollbackCalled key mc (te_PreviousVersion t) (target_app_key t)) s1
                             in run_world (snd (act_Rollback act mc (te_PreviousVersion t) (target_app_key t) (rk_World s2))) s2))))"

definition is_rollback_of :: "target_execution_state \<Rightarrow> target_execution_state \<Rightarrow> bool" where
  "is_rollback_of t r \<longleftrightarrow> te_Rollback r \<and> te_Target r = te_Target t \<and> te_PlanRef r = te_PlanRef t \<and>
     te_Stage r = te_Stage t"

definition rollback_entry :: "promotion_run \<Rightarrow> target_execution_state \<Rightarrow> target_execution_state" where
  "rollback_entry run t =
     (let r = empty_target\<lparr>te_PromotionRunRef := run_Name run, te_Target := te_Target t, te_PlanRef := te_PlanRef t,
            te_Plan := te_Plan t, te_Stage := te_Stage t, te_Version := te_PreviousVersion t, te_Gate := te_Gate t,
            te_AppKey := te_AppKey t, te_DesiredVersions := copy_string_map (te_PreviousVersions t),
            te_PreviousVersions := target_desired_versions t, te_Phase := PhasePending, te_Rollback := True\<rparr>
      in if te_DesiredVersions r \<noteq> []
         then (case primary_desired_version (te_DesiredVersions r) (te_Version r) (te_AppKey r) of
                 (version, appKey) \<Rightarrow> r\<lparr>te_Version := version, te_AppKey := appKey\<rparr>)
         else r)"

definition trigger_target_rollback :: "'w run_env \<Rightarrow> target_execution_state \<Rightarrow> 'w run_tick \<Rightarrow> 'w run_tick" where
  "trigger_target_rollback env t s =
     (let s1 = rollback_now env t s; run = rk_Run s1
      in if list_ex (is_rollback_of t) (rk_Targets s1) then s1
         else
           let r = rollback_entry run t;
               s2 = set_targets (rk_Targets s1 @ [r]) s1;
               text = ''rollback to '' @ te_Version r @ '' triggered for '' @ te_Target r;
               s3 = run_emit (run_trace run (te_PlanRef r) (te_Stage r) (te_Target r) ''Rollback''
                      ''promotionrun-controller'' ''Pending'' ''RollbackTriggered'' text
                      [\<lparr>tre_Type = ''rollback'', tre_Source = ''promotionrun-controller'',
                        tre_Detail = [(''previousVersion'', te_PreviousVersion t), (''version'', te_Version r)]\<rparr>]) s2;
               s4 = run_emit (RunEvent ''Warning'' ''RollbackTriggered''
                      (''Auto-rollback to '' @ te_PreviousVersion t @ '' triggered for '' @ te_Target t)) s3
           in if rv_Notifier env
              then run_emit (Notified
                     \<lparr>ne_Type = ''kapro.promotionrun.rollback.started'', ne_Phase = ''Failed'', ne_Version = te_Version r,
                      ne_Target = te_Target r, ne_PromotionRun = run_Name run, ne_Plan = te_PlanRef r,
                      ne_Stage = te_Stage r, ne_Message = text, ne_IsFailure = True, ne_ApproveURL = [], ne_RejectURL = []\<rparr>
                     (notification_policy_from (te_Gate t))) s4
              else s4)"

text \<open>The stages of the plan up to and including the failed one.\<close>

fun stages_upto :: "string \<Rightarrow> stage list \<Rightarrow> string list" where
  "stages_upto name [] = []"
| "stages_upto name (st # sts) = (if sg_Name st = name then [sg_Name st] else sg_Name st # stages_upto name sts)"

definition rollback_eligible :: "string \<Rightarrow> string list \<Rightarrow> target_execution_state \<Rightarrow> bool" where
  "rollback_eligible planRefName stages t \<longleftrightarrow>
     te_PlanRef t = planRefName \<and> te_Stage t \<in> set stages \<and> te_Phase t = PhaseConverged"

text \<open>The entries are those present before the first rollback entry is appended.\<close>

definition trigger_rollback_targets ::
  "'w run_env \<Rightarrow> string \<Rightarrow> plan \<Rightarrow> string \<Rightarrow> 'w run_tick \<Rightarrow> 'w run_tick" where
  "trigger_rollback_targets env planRefName plan stageName s =
     fold (trigger_target_rollback env)
       (filter (rollback_eligible planRefName (stages_upto stageName (pl_Stages plan))) (rk_Targets s)) s"

definition has_active_rollback_targets :: "target_execution_state list \<Rightarrow> bool" where
  "has_active_rollback_targets ts \<longleftrightarrow> list_ex (\<lambda>t. te_Rollback t \<and> \<not> target_terminal (te_Phase t)) ts"

section \<open>Cancelling\<close>

definition cancel_spec :: "string \<Rightarrow> target_phase \<Rightarrow> target \<Rightarrow> target" where
  "cancel_spec reason phase rt =
     rt\<lparr>tg_Spec := (tg_Spec rt)\<lparr>ts_Cancelled := True, ts_CancelledReason := reason, ts_CancelledPhase := phase\<rparr>\<rparr>"

definition haltReason :: string where
  "haltReason = ''stage halted due to peer failure (failurePolicy: halt)''"

definition cancel_pending_target ::
  "'w run_env \<Rightarrow> string \<Rightarrow> string \<Rightarrow> target \<Rightarrow> 'w run_tick \<Rightarrow> 'w run_tick" where
  "cancel_pending_target env planRefName stageName rt s =
     (if ts_PlanRef (tg_Spec rt) \<noteq> planRefName \<or> ts_Stage (tg_Spec rt) \<noteq> stageName then s
      else if target_terminal (tg_Phase rt) then s
      else if ts_Cancelled (tg_Spec rt) then s
      else case kb_PatchTarget (rv_Kube env) rt (cancel_spec haltReason PhaseFailed rt) (rk_World s) of
        (Inl e, w) \<Rightarrow> run_world w s
      | (Inr rt', w) \<Rightarrow>
          (let s1 = run_emit (run_trace (rk_Run s) planRefName stageName (ts_Target (tg_Spec rt')) ''Stage''
                      ''promotionrun-controller'' ''Failed'' ''StageHalted'' haltReason []) (run_world w s)
           in set_targets (update_first
                (\<lambda>t. te_Target t = ts_Target (tg_Spec rt') \<and> te_PlanRef t = planRefName \<and> te_Stage t = stageName)
                (\<lambda>t. t\<lparr>te_Phase := PhaseFailed, te_Message := ''cancelled: '' @ ts_CancelledReason (tg_Spec rt')\<rparr>)
                (rk_Targets s1)) s1))"

definition cancel_pending_stage_targets ::
  "'w run_env \<Rightarrow> string \<Rightarrow> string \<Rightarrow> 'w run_tick \<Rightarrow> 'w run_tick" where
  "cancel_pending_stage_targets env planRefName stageName s =
     (case kb_ListTargetsOfRun (rv_Kube env) (run_Name (rk_Run s)) (rk_World s) of
        (Inl e, w) \<Rightarrow> run_world w s
      | (Inr items, w) \<Rightarrow> fold (cancel_pending_target env planRefName stageName) items (run_world w s))"

fun mark_skipped :: "'w run_env \<Rightarrow> string \<Rightarrow> string \<Rightarrow> target list \<Rightarrow> ('w, unit) run_op" where
  "mark_skipped env planRefName stageName [] s = (Inr (), s)"
| "mark_skipped env planRefName stageName (rt # rts) s =
     (if ts_PlanRef (tg_Spec rt) \<noteq> planRefName \<or> ts_Stage (tg_Spec rt) \<noteq> stageName then mark_skipped env planRefName stageName rts s
      else if tg_Phase rt \<noteq> PhaseFailed then mark_skipped env planRefName stageName rts s
      else if ts_Cancelled (tg_Spec rt) \<and> ts_CancelledPhase (tg_Spec rt) = PhaseSkipped
      then mark_skipped env planRefName stageName rts s
      else case kb_PatchTarget (rv_Kube env) rt (cancel_spec ''skipped after failure policy'' PhaseSkipped rt) (rk_World s) of
        (Inl e, w) \<Rightarrow>
          (Inl (''mark failed PromotionTarget '' @ tg_Name rt @ '' skipped: '' @ api_error_text e), run_world w s)
      | (Inr rt', w) \<Rightarrow>
          mark_skipped env planRefName stageName rts
            (run_emit (run_trace (rk_Run s) planRefName stageName (ts_Target (tg_Spec rt')) ''Stage''
               ''promotionrun-controller'' ''Skipped'' ''SkippedAfterFailurePolicy'' ''skipped after failure policy'' [])
               (run_world w s)))"

definition mark_failed_stage_targets_skipped :: "'w run_env \<Rightarrow> string \<Rightarrow> string \<Rightarrow> ('w, unit) run_op" where
  "mark_failed_stage_targets_skipped env planRefName stageName s =
     (case kb_ListTargetsOfRun (rv_Kube env) (run_Name (rk_Run s)) (rk_World s) of
        (Inl e, w) \<Rightarrow> (Inl (api_error_text e), run_world w s)
      | (Inr items, w) \<Rightarrow> mark_skipped env planRefName stageName items (run_world w s))"

fun cancel_targets :: "'w run_env \<Rightarrow> string \<Rightarrow> string \<Rightarrow> target list \<Rightarrow> ('w, unit) run_op" where
  "cancel_targets env reason traceReason [] s = (Inr (), s)"
| "cancel_targets env reason traceReason (rt # rts) s =
     (if target_terminal (tg_Phase rt) \<or> ts_Cancelled (tg_Spec rt) then cancel_targets env reason traceReason rts s
      else case kb_PatchTarget (rv_Kube env) rt (cancel_spec reason PhaseFailed rt) (rk_World s) of
        (Inl e, w) \<Rightarrow> (Inl (''cancel PromotionTarget '' @ tg_Name rt @ '': '' @ api_error_text e), run_world w s)
      | (Inr rt', w) \<Rightarrow>
          cancel_targets env reason traceReason rts
            (run_emit (run_trace (rk_Run s) (ts_PlanRef (tg_Spec rt')) (ts_Stage (tg_Spec rt')) (ts_Target (tg_Spec rt'))
               ''Stage'' ''promotionrun-controller'' ''Failed'' traceReason reason
               [\<lparr>tre_Type = ''target-cancel'', tre_Source = ''promotionrun-controller'',
                 tre_Detail = [(''cancelledPhase'', ''Failed''), (''cancelledReason'', reason),
                   (''fromPhase'', target_phase_string (tg_Phase rt'))]\<rparr>]) (run_world w s)))"

definition cancel_promotionrun_targets_with_trace_reason ::
  "'w run_env \<Rightarrow> string \<Rightarrow> string \<Rightarrow> ('w, unit) run_op" where
  "cancel_promotionrun_targets_with_trace_reason env reason traceReason s =
     (case kb_ListTargetsOfRun (rv_Kube env) (run_Name (rk_Run s)) (rk_World s) of
        (Inl e, w) \<Rightarrow> (Inl (api_error_text e), run_world w s)
      | (Inr items, w) \<Rightarrow> cancel_targets env reason traceReason items (run_world w s))"

definition cancel_promotionrun_targets :: "'w run_env \<Rightarrow> string \<Rightarrow> ('w, unit) run_op" where
  "cancel_promotionrun_targets env reason =
     cancel_promotionrun_targets_with_trace_reason env reason ''PromotionRunTimeoutCancelled''"

end
