(* ===== verification/Run_Aggregate.thy ===== *)
theory Run_Aggregate
  imports Run_Targets
begin

text \<open>
  Persisting the target buffer of a run and aggregating it: release of the cluster claims, the
  child objects the parent writes (\<^verbatim>\<open>promotionrun_targets.go\<close>, \<^verbatim>\<open>helpers.go\<close>), the normalisation of the
  buffer, the report, the summary, the audit trail and the progress text
  (\<^verbatim>\<open>promotionrun_controller.go\<close>). Nil and empty slices and maps are one value.
\<close>

section \<open>Releasing the clusters\<close>

fun release_clusters ::
  "'w run_env \<Rightarrow> string list \<Rightarrow> target_execution_state list \<Rightarrow> 'w run_tick \<Rightarrow> 'w run_tick" where
  "release_clusters env seen [] s = s"
| "release_clusters env seen (t # ts) s =
     (if te_Target t \<in> set seen then release_clusters env seen ts s
      else case kb_GetCluster (rv_Kube env) (te_Target t) (rk_World s) of
        (Inl e, w) \<Rightarrow> release_clusters env (te_Target t # seen) ts (run_world w s)
      | (Inr mc, w) \<Rightarrow>
          release_clusters env (te_Target t # seen) ts
            (if cst_ActivePromotionRun (cl_Status mc) = run_Name (rk_Run s)
             then run_world (snd (kb_PatchClusterStatus (rv_Kube env) mc
                    (mc\<lparr>cl_Status := (cl_Status mc)\<lparr>cst_ActivePromotionRun := []\<rparr>\<rparr>) w)) s
             else run_world w s))"

text \<open>The argument is the buffer of the caller, which is read again only when it is empty.\<close>

definition clear_active_promotionrun ::
  "'w run_env \<Rightarrow> target_execution_state list \<Rightarrow> 'w run_tick \<Rightarrow> 'w run_tick" where
  "clear_active_promotionrun env targets s =
     (if targets = [] then
        (case load_promotion_targets env s of
           (Inl e, s') \<Rightarrow> s' | (Inr loaded, s') \<Rightarrow> release_clusters env [] loaded s')
      else release_clusters env [] targets s)"

section \<open>The child objects\<close>

definition promotion_target_from_status ::
  "'w kube \<Rightarrow> promotion_run \<Rightarrow> target_execution_state \<Rightarrow> target" where
  "promotion_target_from_status kb run t =
     (let labels = [(''kapro.io/promotionrun'', run_Name run), (''kapro.io/target'', te_Target t),
                    (''kapro.io/promotionplan'', te_PlanRef t), (''kapro.io/stage'', te_Stage t)];
          labels' = (if prs_DeliveryUnitRef (run_Spec run) \<noteq> []
                     then smap_set ''kapro.io/unit'' (prs_DeliveryUnitRef (run_Spec run)) labels else labels)
      in \<lparr>tg_Meta = kb_SetControllerReference kb run
            \<lparr>om_Name = promotion_target_object_name t, om_Namespace = [], om_UID = [], om_Generation = 0,
             om_Labels = labels', om_Annotations = [], om_OwnerReferences = [], om_Finalizers = [],
             om_DeletionTimestamp = None, om_CreationTimestamp = go_zero_time\<rparr>,
          tg_Spec = \<lparr>ts_PromotionRunRef = te_PromotionRunRef t, ts_Target = te_Target t, ts_PlanRef = te_PlanRef t,
             ts_Plan = te_Plan t, ts_Stage = te_Stage t, ts_Version = te_Version t, ts_Gate = te_Gate t,
             ts_AppKey = te_AppKey t, ts_DesiredVersions = copy_string_map (te_DesiredVersions t),
             ts_Rollback = te_Rollback t, ts_Cancelled = False, ts_CancelledReason = [],
             ts_CancelledPhase = PhaseNone\<rparr>,
          tg_Status = \<lparr>tst_Exec = t, tst_ObservedGeneration = 0, tst_Conditions = [], tst_DecisionTrace = None\<rparr>\<rparr>)"

definition promotion_target_spec_equal :: "target \<Rightarrow> target \<Rightarrow> bool" where
  "promotion_target_spec_equal current desired \<longleftrightarrow>
     (tg_Spec current)\<lparr>ts_DesiredVersions := []\<rparr> = (tg_Spec desired)\<lparr>ts_DesiredVersions := []\<rparr> \<and>
     smap_eq (ts_DesiredVersions (tg_Spec current)) (ts_DesiredVersions (tg_Spec desired)) \<and>
     smap_eq (om_Labels (tg_Meta current)) (om_Labels (tg_Meta desired)) \<and>
     om_OwnerReferences (tg_Meta current) = om_OwnerReferences (tg_Meta desired)"

text \<open>The object sent to the server: spec, labels and owners of the parent's view, the rest as read.\<close>

definition with_parent_fields :: "target \<Rightarrow> target \<Rightarrow> target" where
  "with_parent_fields current desired =
     current\<lparr>tg_Meta := (tg_Meta current)\<lparr>om_Labels := om_Labels (tg_Meta desired),
                om_OwnerReferences := om_OwnerReferences (tg_Meta desired)\<rparr>,
             tg_Spec := tg_Spec desired\<rparr>"

definition empty_target_status :: target_status where
  "empty_target_status = \<lparr>tst_Exec = empty_target, tst_ObservedGeneration = 0, tst_Conditions = [], tst_DecisionTrace = None\<rparr>"

text \<open>
  The loop over the buffer. \<open>existing\<close> maps a name to the object as this pass knows it; the
  patched object takes the server's answer.
\<close>

fun persist_each ::
  "'w run_env \<Rightarrow> (string \<times> target) list \<Rightarrow> target_execution_state list \<Rightarrow> ('w, unit) run_op" where
  "persist_each env existing [] s = (Inr (), s)"
| "persist_each env existing (t # ts) s =
     (let kb = rv_Kube env; name = promotion_target_object_name t;
          desired = promotion_target_from_status kb (rk_Run s) t
      in case map_of existing name of
           None \<Rightarrow>
             (case kb_CreateTarget kb (desired\<lparr>tg_Status := empty_target_status\<rparr>) (rk_World s) of
                (Inl e, w) \<Rightarrow>
                  (if is_already_exists e then persist_each env existing ts (run_world w s)
                   else (Inl (''create PromotionTarget '' @ name @ '': '' @ api_error_text e), run_world w s))
              | (Inr rt, w) \<Rightarrow> persist_each env existing ts (run_world w s))
         | Some current \<Rightarrow>
             (if promotion_target_spec_equal current desired then persist_each env existing ts s
              else case kb_PatchTarget kb current (with_parent_fields current desired) (rk_World s) of
                (Inl e, w) \<Rightarrow>
                  (Inl (''patch PromotionTarget '' @ name @ '': '' @ api_error_text e), run_world w s)
              | (Inr rt, w) \<Rightarrow> persist_each env (AList.update name rt existing) ts (run_world w s)))"

definition persist_promotion_targets ::
  "'w run_env \<Rightarrow> target_execution_state list \<Rightarrow> ('w, unit) run_op" where
  "persist_promotion_targets env targets s =
     (case kb_ListTargetsOfRun (rv_Kube env) (run_Name (rk_Run s)) (rk_World s) of
        (Inl e, w) \<Rightarrow> (Inl (api_error_text e), run_world w s)
      | (Inr items, w) \<Rightarrow>
          persist_each env (fold (\<lambda>rt. AList.update (tg_Name rt) rt) items []) targets (run_world w s))"

section \<open>Normalisation\<close>

definition maxGateRunsPerTarget :: nat where "maxGateRunsPerTarget = 16"
definition maxGateResultsPerGateRun :: nat where "maxGateResultsPerGateRun = 16"

definition last_n :: "nat \<Rightarrow> 'a list \<Rightarrow> 'a list" where
  "last_n n xs = (if length xs > n then drop (length xs - n) xs else xs)"

definition normalize_target_entry :: "target_execution_state \<Rightarrow> target_execution_state" where
  "normalize_target_entry t =
     t\<lparr>te_Gates := map (\<lambda>g. g\<lparr>gs_Results := last_n maxGateResultsPerGateRun (gs_Results g)\<rparr>)
                     (last_n maxGateRunsPerTarget (te_Gates t))\<rparr>"

definition target_row_key :: "target_execution_state \<Rightarrow> string" where
  "target_row_key t = target_key t @ (if te_Rollback t then ''/rollback'' else [])"

text \<open>The loop runs from the last entry to the first; the result is reversed at the end.\<close>

fun normalize_loop ::
  "target_execution_state list \<Rightarrow> string list \<Rightarrow> target_execution_state list \<Rightarrow> target_execution_state list" where
  "normalize_loop [] seen normalized = normalized"
| "normalize_loop (t # ts) seen normalized =
     (let target = normalize_target_entry t; key = target_row_key target
      in if key \<in> set seen then normalize_loop ts seen normalized
         else normalize_loop ts (key # seen) (normalized @ [target]))"

definition normalize_promotionrun_targets :: "target_execution_state list \<Rightarrow> target_execution_state list" where
  "normalize_promotionrun_targets ts = rev (normalize_loop (rev ts) [] [])"

section \<open>Report and summary\<close>

text \<open>
  The counters range over a map from the logical
  key to the last phase seen, so their order does not matter.
\<close>

definition report_key :: "target_execution_state \<Rightarrow> string" where
  "report_key t = te_PlanRef t @ [CHR 0x00] @ te_Stage t @ [CHR 0x00] @ te_Target t"

definition target_phases :: "target_execution_state list \<Rightarrow> (string \<times> target_phase) list" where
  "target_phases ts =
     fold (\<lambda>t m. AList.update (report_key t) (te_Phase t) m) (filter (\<lambda>t. \<not> te_Rollback t) ts) []"

definition count_phases :: "(target_phase \<Rightarrow> bool) \<Rightarrow> (string \<times> target_phase) list \<Rightarrow> int" where
  "count_phases P m = int (length (filter (\<lambda>(k, p). P p) m))"

definition synced_phase :: "target_phase \<Rightarrow> bool" where
  "synced_phase p \<longleftrightarrow> p = PhaseConverged \<or> p = PhaseSkipped"

definition report_duration :: "int \<Rightarrow> string \<Rightarrow> string \<Rightarrow> string" where
  "report_duration now startedAt completedAt =
     (if startedAt = [] then []
      else case parse_rfc3339 startedAt of
        None \<Rightarrow> []
      | Some started \<Rightarrow>
          (let endAt = (if completedAt = [] then now
                       else case parse_rfc3339 completedAt of None \<Rightarrow> now | Some c \<Rightarrow> c)
           in duration_string (duration_round (endAt - started) second)))"

definition compute_report :: "int \<Rightarrow> promotion_run \<Rightarrow> target_execution_state list \<Rightarrow> run_report" where
  "compute_report now run ts =
     (let st = run_Status run; phases = target_phases ts
      in \<lparr>rep_Phase = rst_Phase st, rep_Artifact = prs_Version (run_Spec run),
          rep_ResolvedVersion = rst_ResolvedVersion st, rep_StartedAt = rst_StartedAt st,
          rep_CompletedAt = rst_CompletedAt st,
          rep_Duration = report_duration now (rst_StartedAt st) (rst_CompletedAt st),
          rep_TotalTargets = int (length phases),
          rep_SyncedTargets = count_phases synced_phase phases,
          rep_FailedTargets = count_phases (\<lambda>p. p = PhaseFailed) phases,
          rep_PendingTargets = count_phases (\<lambda>p. \<not> synced_phase p \<and> p \<noteq> PhaseFailed) phases,
          rep_RolledBackTargets = int (length (filter te_Rollback ts)),
          rep_TotalArtifacts = 1, rep_DeltaArtifacts = 1,
          rep_PendingApprovals =
            map (\<lambda>t. approval_name (run_Name run) (sync_name (run_Name run) (te_PlanRef t) (te_Stage t) (te_Target t)))
              (filter (\<lambda>t. \<not> te_Rollback t \<and> te_Phase t = PhaseWaitingApproval) ts)\<rparr>)"

definition summary_from_report :: "run_report \<Rightarrow> run_summary" where
  "summary_from_report r =
     \<lparr>sum_TotalTargets = go_int32 (rep_TotalTargets r), sum_SyncedTargets = go_int32 (rep_SyncedTargets r),
      sum_FailedTargets = go_int32 (rep_FailedTargets r), sum_PendingTargets = go_int32 (rep_PendingTargets r),
      sum_ConvergedAt = (if rep_Phase r = RunComplete then rep_CompletedAt r else [])\<rparr>"

definition empty_summary :: run_summary where
  "empty_summary = \<lparr>sum_TotalTargets = 0, sum_SyncedTargets = 0, sum_FailedTargets = 0, sum_PendingTargets = 0,
     sum_ConvergedAt = []\<rparr>"

definition ensure_promotionrun_summary :: "'w run_tick \<Rightarrow> 'w run_tick" where
  "ensure_promotionrun_summary =
     upd_status (\<lambda>st. if rst_Summary st = None then st\<lparr>rst_Summary := Some empty_summary\<rparr> else st)"

definition set_promotionrun_summaries ::
  "'w run_env \<Rightarrow> target_execution_state list \<Rightarrow> 'w run_tick \<Rightarrow> 'w run_tick" where
  "set_promotionrun_summaries env ts s =
     (let report = compute_report (kb_Now (rv_Kube env) (rk_World s)) (rk_Run s) ts
      in upd_status (\<lambda>st. st\<lparr>rst_Report := report, rst_Summary := Some (summary_from_report report)\<rparr>) s)"

section \<open>Audit trail and progress text\<close>

definition maxAuditTrail :: nat where "maxAuditTrail = 50"

definition append_audit_entry :: "'w run_env \<Rightarrow> 'w run_tick \<Rightarrow> 'w run_tick" where
  "append_audit_entry env s =
     (let run = rk_Run s; version = prs_Version (run_Spec run); trail = rst_AuditTrail (run_Status run)
      in if list_ex (\<lambda>e. au_PromotionRun e = run_Name run \<and> au_Artifact e = version) trail then s
         else
           let entry = \<lparr>au_Artifact = version, au_PromotionRun = run_Name run, au_DerivedFrom = [],
                 au_PromotionRunDerivedFrom = [], au_ChangedUnits = [],
                 au_Scope = (case prs_Scope (run_Spec run) of None \<Rightarrow> [] | Some ts \<Rightarrow> ts),
                 au_CompletedAt = rfc_now (rv_Kube env) (rk_World s)\<rparr>
           in upd_status (\<lambda>st. st\<lparr>rst_AuditTrail := last_n maxAuditTrail (rst_AuditTrail st @ [entry])\<rparr>) s)"

definition promotionrun_progress_summary :: "promotion_run \<Rightarrow> target_execution_state list \<Rightarrow> string" where
  "promotionrun_progress_summary run ts =
     (let activePlans = length (filter (\<lambda>p. pp_Phase p = ''Progressing'' \<or> pp_Phase p = ''Pending'')
                          (rst_PlanProgress (run_Status run)));
          activeTargets = length (filter (\<lambda>t. \<not> te_Rollback t \<and> te_Phase t \<noteq> PhaseConverged \<and>
                            te_Phase t \<noteq> PhaseFailed) ts)
      in ''promotionrun progressing: '' @ string_of_nat activePlans @ '' active plans, '' @
         string_of_nat activeTargets @ '' active targets'')"

end
