(* ===== verification/Run_Stages.thy ===== *)
theory Run_Stages
  imports Run_Aggregate
begin

text \<open>
  One pass over the stages of a plan (\<^verbatim>\<open>promotionrun_controller.go\<close>): the clusters of a stage, the
  planner, the stage strategy, the gate of a stage with its metric presets, the dependencies
  between stages and their soak times, and \<^verbatim>\<open>reconcilePromotionPlanStages\<close> with its three failure
  policies.
\<close>

section \<open>The clusters of a stage\<close>

definition suspended_cluster_trace :: "promotion_run \<Rightarrow> stage \<Rightarrow> cluster \<Rightarrow> effect" where
  "suspended_cluster_trace run stage mc =
     run_trace run [] (sg_Name stage) (cl_Name mc) ''Suspend'' ''promotionrun-controller'' []
       ''ClusterSuspended'' ''cluster is suspended and was skipped for this stage'' []"

definition in_scope :: "promotion_run \<Rightarrow> cluster \<Rightarrow> bool" where
  "in_scope run mc \<longleftrightarrow>
     (case prs_Scope (run_Spec run) of None \<Rightarrow> True | Some ts \<Rightarrow> ts = [] \<or> cl_Name mc \<in> set ts)"

text \<open>The clusters of the fleet the run names, or all.\<close>

definition restrict_to_fleet :: "'w run_env \<Rightarrow> cluster list \<Rightarrow> ('w, cluster list) run_op" where
  "restrict_to_fleet env clusters s =
     (let fleetRef = prs_FleetRef (run_Spec (rk_Run s))
      in if fleetRef = [] then (Inr clusters, s)
         else case kb_GetFleetClusters (rv_Kube env) fleetRef (rk_World s) of
           (Inl e, w) \<Rightarrow>
             (Inl (''get Fleet '' @ fleetRef @ '' for PromotionRun target scope: '' @ api_error_text e), run_world w s)
         | (Inr names, w) \<Rightarrow> (Inr (filter (\<lambda>mc. cl_Name mc \<in> set names) clusters), run_world w s))"

definition list_raw_targets_for_stage :: "'w run_env \<Rightarrow> stage \<Rightarrow> ('w, cluster list) run_op" where
  "list_raw_targets_for_stage env stage s =
     (case kb_SelectorError (rv_Kube env) (sg_Selector stage) of
        Some e \<Rightarrow> (Inl (''invalid stage selector: '' @ e), s)
      | None \<Rightarrow>
          (case kb_ListClusters (rv_Kube env) (sg_Selector stage) (rk_World s) of
             (Inl e, w) \<Rightarrow> (Inl (api_error_text e), run_world w s)
           | (Inr clusters, w) \<Rightarrow>
               run_bind (restrict_to_fleet env clusters) (\<lambda>inFleet s1.
                 let s2 = fold (\<lambda>mc. run_emit (suspended_cluster_trace (rk_Run s1) stage mc))
                            (filter (\<lambda>mc. cs_Suspend (cl_Spec mc)) inFleet) s1
                 in (Inr (filter (in_scope (rk_Run s1)) (filter (\<lambda>mc. \<not> cs_Suspend (cl_Spec mc)) inFleet)), s2))
                 (run_world w s)))"

text \<open>
  A planning cycle starts from an empty cycle state; the plugins may change the world. A failed
  cycle returns its error only.
\<close>

definition plan_targets_for_stage :: "'w run_env \<Rightarrow> string \<Rightarrow> plan \<Rightarrow> stage \<Rightarrow> ('w, plan_result) run_op" where
  "plan_targets_for_stage env planRefName plan stage =
     run_bind (list_raw_targets_for_stage env stage) (\<lambda>clusters s.
       let framework = (case rv_Planner env of None \<Rightarrow> new_default_framework (rv_Kube env) | Some f \<Rightarrow> f);
           req = \<lparr>rq_PromotionRun = Some (rk_Run s), rq_PlanRefName = planRefName, rq_Plan = Some plan,
                  rq_Stage = stage\<rparr>
       in case plan_with_result framework ([], rk_World s) req clusters of
            ((Some e, r), (_, w)) \<Rightarrow> (Inl e, run_world w s)
          | ((None, r), (_, w)) \<Rightarrow> (Inr r, run_world w s))"

section \<open>Stage strategy\<close>

definition planning_target_terminal :: "target_phase \<Rightarrow> bool" where
  "planning_target_terminal p \<longleftrightarrow> p = PhaseConverged \<or> p = PhaseFailed \<or> p = PhaseSkipped"

text \<open>The entries of a stage that belong to its planned clusters, rollback entries included.\<close>

definition stage_entries ::
  "string \<Rightarrow> string \<Rightarrow> string list \<Rightarrow> target_execution_state list \<Rightarrow> target_execution_state list" where
  "stage_entries planRefName stageName planned ts =
     filter (\<lambda>t. te_PlanRef t = planRefName \<and> te_Stage t = stageName \<and> te_Target t \<in> set planned) ts"

definition max_parallel_decision :: "int \<Rightarrow> cluster \<Rightarrow> planner_decision" where
  "max_parallel_decision maxParallel mc =
     \<lparr>pd_Target = cl_Name mc, pd_Plugin = ''stage-strategy'', pd_Phase = ''Bind'', pd_Reason = ''MaxParallel'',
      pd_Message = ''deferred by stage strategy maxParallel='' @ itoa maxParallel\<rparr>"

definition apply_stage_strategy ::
  "target_execution_state list \<Rightarrow> string \<Rightarrow> stage \<Rightarrow> cluster list \<Rightarrow>
   cluster list \<times> int \<times> planner_decision list" where
  "apply_stage_strategy ts planRefName stage targets =
     (case sg_Strategy stage of
        None \<Rightarrow> (targets, 0, [])
      | Some strategy \<Rightarrow>
          (if sp_MaxParallel strategy \<le> 0 then (targets, 0, [])
           else
             let entries = stage_entries planRefName (sg_Name stage) (map cl_Name targets) ts;
                 active = length (filter (\<lambda>t. \<not> planning_target_terminal (te_Phase t)) entries);
                 capacity = nat (sp_MaxParallel strategy - int active);
                 unbound = filter (\<lambda>mc. cl_Name mc \<notin> te_Target ` set entries) targets;
                 deferred = drop capacity unbound
             in (take capacity unbound, int (length deferred),
                 map (max_parallel_decision (sp_MaxParallel strategy)) deferred)))"

definition maxPlannerResultsPerStage :: nat where "maxPlannerResultsPerStage = 32"

definition api_planner_results :: "planner_decision list \<Rightarrow> planner_result list" where
  "api_planner_results decisions =
     map (\<lambda>d. \<lparr>plr_Target = pd_Target d, plr_Plugin = pd_Plugin d, plr_Phase = pd_Phase d,
               plr_Reason = pd_Reason d, plr_Message = pd_Message d\<rparr>)
       (take maxPlannerResultsPerStage decisions)"

section \<open>The gate of a stage\<close>

definition merge_metric_preset :: "metric_gate \<Rightarrow> metric_gate \<Rightarrow> metric_gate" where
  "merge_metric_preset preset override =
     preset\<lparr>mg_Preset := mg_Preset override,
       mg_Provider := (if mg_Provider override \<noteq> [] then mg_Provider override else mg_Provider preset),
       mg_Query := (if mg_Query override \<noteq> [] then mg_Query override else mg_Query preset),
       mg_Window := (if mg_Window override \<noteq> [] then mg_Window override else mg_Window preset),
       mg_Interval := (if mg_Interval override \<noteq> [] then mg_Interval override else mg_Interval preset),
       mg_Endpoint := (if mg_Endpoint override \<noteq> [] then mg_Endpoint override else mg_Endpoint preset),
       mg_Threshold := (if mg_Threshold override \<noteq> None then mg_Threshold override else mg_Threshold preset),
       mg_Config := (if mg_Config override \<noteq> [] then mg_Config override else mg_Config preset)\<rparr>"

fun resolve_metrics ::
  "string \<Rightarrow> (string \<times> metric_gate) list \<Rightarrow> nat \<Rightarrow> metric_gate list \<Rightarrow> go_error + metric_gate list" where
  "resolve_metrics stageName presets i [] = Inr []"
| "resolve_metrics stageName presets i (m # ms) =
     (if mg_Preset m = [] then sum_bind (resolve_metrics stageName presets (Suc i) ms) (\<lambda>r. Inr (m # r))
      else case map_of presets (mg_Preset m) of
        None \<Rightarrow>
          Inl (''stage '' @ go_quote stageName @ '' metric['' @ string_of_nat i @
               ''] references unknown metric preset '' @ go_quote (mg_Preset m))
      | Some preset \<Rightarrow>
          sum_bind (resolve_metrics stageName presets (Suc i) ms) (\<lambda>r. Inr (merge_metric_preset preset m # r)))"

definition resolve_stage_gate :: "plan \<Rightarrow> stage \<Rightarrow> go_error + gate_policy_spec option" where
  "resolve_stage_gate plan stage =
     (case sg_Gate stage of
        None \<Rightarrow> Inr None
      | Some policy \<Rightarrow>
          sum_bind (resolve_metrics (sg_Name stage) (pl_MetricPresets plan) 0 (g_Metrics (pol_Gate policy)))
            (\<lambda>metrics. Inr (Some (policy\<lparr>pol_Gate := (pol_Gate policy)\<lparr>g_Metrics := metrics\<rparr>\<rparr>))))"

section \<open>Dependencies between stages\<close>

definition promotionplan_stage_by_name :: "plan \<Rightarrow> string \<Rightarrow> stage option" where
  "promotionplan_stage_by_name plan name = find (\<lambda>st. sg_Name st = name) (pl_Stages plan)"

definition dependency_target_succeeded :: "target_phase \<Rightarrow> bool" where
  "dependency_target_succeeded p \<longleftrightarrow> p = PhaseConverged \<or> p = PhaseSkipped"

definition dependency_soak_remaining :: "string \<Rightarrow> int \<Rightarrow> int \<Rightarrow> int" where
  "dependency_soak_remaining finishedAt now soak =
     (if finishedAt = [] then soak
      else case parse_rfc3339 finishedAt of
        None \<Rightarrow> soak
      | Some finished \<Rightarrow> (if now - finished < soak then soak - (now - finished) else 0))"

text \<open>
  The loop over the entries: \<open>Inl ()\<close> is the early return of the strategy \<^verbatim>\<open>any\<close>, \<open>Inr\<close> the number of
  successful entries and the shortest wait (0: none).
\<close>

fun dependency_scan ::
  "bool \<Rightarrow> int \<Rightarrow> int \<Rightarrow> target_execution_state list \<Rightarrow> nat \<Rightarrow> int \<Rightarrow> unit + nat \<times> int" where
  "dependency_scan isAny soak now [] successful shortestWait = Inr (successful, shortestWait)"
| "dependency_scan isAny soak now (t # ts) successful shortestWait =
     (if \<not> dependency_target_succeeded (te_Phase t) then dependency_scan isAny soak now ts successful shortestWait
      else
        let remaining = (if soak = 0 then 0 else dependency_soak_remaining (te_FinishedAt t) now soak)
        in if remaining \<le> 0 then
             (if isAny then Inl () else dependency_scan isAny soak now ts (Suc successful) shortestWait)
           else dependency_scan isAny soak now ts (Suc successful)
                  (if shortestWait = 0 \<or> remaining < shortestWait then remaining else shortestWait))"

definition dependency_verdict ::
  "stage_dependency \<Rightarrow> string list \<Rightarrow> int \<Rightarrow> target_execution_state list \<Rightarrow> go_error + bool \<times> int" where
  "dependency_verdict dep expectedNames now entries =
     (let strategy = (if sd_Strategy dep = StrategyNone then StrategyAll else sd_Strategy dep);
          soak = (case sd_RequiredSoakTime dep of None \<Rightarrow> 0 | Some d \<Rightarrow> d)
      in case dependency_scan (strategy = StrategyAny) soak now entries 0 0 of
           Inl u \<Rightarrow> Inr (True, 0)
         | Inr (successful, shortestWait) \<Rightarrow>
             (case strategy of
                StrategyAny \<Rightarrow> Inr (False, shortestWait)
              | StrategyAll \<Rightarrow>
                  (if successful < card (set expectedNames) then Inr (False, 0)
                   else Inr (shortestWait = 0, shortestWait))
              | StrategyOther name \<Rightarrow>
                  Inl (''stage dependency '' @ go_quote (sd_Stage dep) @ '' has unsupported strategy '' @ go_quote name)
              | StrategyNone \<Rightarrow> Inr (False, 0)))"

definition stage_dependency_satisfied ::
  "'w run_env \<Rightarrow> string \<Rightarrow> plan \<Rightarrow> stage_dependency \<Rightarrow> ('w, bool \<times> int) run_op" where
  "stage_dependency_satisfied env planRefName plan dep s =
     (case promotionplan_stage_by_name plan (sd_Stage dep) of
        None \<Rightarrow>
          (Inl (''stage dependency '' @ go_quote (sd_Stage dep) @ '' not found in promotionplan '' @
                om_Name (pl_Meta plan)), s)
      | Some depStage \<Rightarrow>
          run_bind (run_wrap (''list dependency targets for stage '' @ sd_Stage dep @ '': '')
                      (plan_targets_for_stage env planRefName plan depStage))
            (\<lambda>planned s1.
               let expectedNames = map cl_Name (plan_Targets planned)
               in if plan_Targets planned = [] then (Inr (True, 0), s1)
                  else (dependency_verdict dep expectedNames (kb_Now (rv_Kube env) (rk_World s1))
                          (stage_entries planRefName (sd_Stage dep) expectedNames (rk_Targets s1)), s1)) s)"


fun check_dependencies ::
  "'w run_env \<Rightarrow> string \<Rightarrow> plan \<Rightarrow> stage_dependency list \<Rightarrow> int \<Rightarrow> ('w, bool \<times> int) run_op" where
  "check_dependencies env planRefName plan [] nextRequeue s = (Inr (True, nextRequeue), s)"
| "check_dependencies env planRefName plan (dep # deps) nextRequeue s =
     (case stage_dependency_satisfied env planRefName plan dep s of
        (Inl e, s') \<Rightarrow> (Inl e, s')
      | (Inr (satisfied, wait), s') \<Rightarrow>
          (if satisfied then check_dependencies env planRefName plan deps nextRequeue s'
           else (Inr (False, if wait > 0 \<and> (nextRequeue = 0 \<or> wait < nextRequeue) then wait else nextRequeue), s')))"

section \<open>One stage\<close>

text \<open>What the loop over the stages carries; a cancel request is a plan reference and a stage.\<close>

type_synonym cancel_request = "string \<times> string"

record stage_pass =
  sa_Progress :: "stage_progress list"
  sa_AllComplete :: bool
  sa_AnyFailed :: bool
  sa_NextRequeue :: int
  sa_Cancels :: "cancel_request list"

definition empty_stage_progress :: "string \<Rightarrow> string \<Rightarrow> stage_progress" where
  "empty_stage_progress name phase =
     \<lparr>sgp_Name = name, sgp_Phase = phase, sgp_Total = 0, sgp_Synced = 0, sgp_Failed = 0, sgp_Deferred = 0,
      sgp_PlannerResults = [], sgp_Message = [], sgp_StartedAt = [], sgp_CompletedAt = []\<rparr>"

definition previous_stage_phase :: "promotion_run \<Rightarrow> string \<Rightarrow> string \<Rightarrow> string" where
  "previous_stage_phase run planRef stageName =
     (case find (\<lambda>sp. sgp_Name sp = stageName)
             (concat (map pp_StageProgress (filter (\<lambda>p. pp_Name p = planRef) (rst_PlanProgress (run_Status run))))) of
        None \<Rightarrow> [] | Some sp \<Rightarrow> sgp_Phase sp)"

definition previous_promotionplan_phase :: "promotion_run \<Rightarrow> string \<Rightarrow> string" where
  "previous_promotionplan_phase run planRef =
     (case find (\<lambda>p. pp_Name p = planRef) (rst_PlanProgress (run_Status run)) of None \<Rightarrow> [] | Some p \<Rightarrow> pp_Phase p)"

definition count_part :: "nat \<Rightarrow> string \<Rightarrow> string" where
  "count_part n label = (if n > 0 then '', '' @ string_of_nat n @ label else [])"

definition stage_progress_message ::
  "stage \<Rightarrow> target_execution_state list \<Rightarrow> string \<Rightarrow> nat \<Rightarrow> nat \<Rightarrow> nat \<Rightarrow> int \<Rightarrow> string" where
  "stage_progress_message stage ts planRef totalN synced failed deferred =
     (let converged = string_of_nat synced @ ''/'' @ string_of_nat totalN @ '' converged'';
          mine = filter (\<lambda>t. te_Stage t = sg_Name stage \<and> te_PlanRef t = planRef) ts;
          number = (\<lambda>p. length (filter (\<lambda>t. te_Phase t = p) mine))
      in if totalN = 0 then ''no matching clusters''
         else if synced = totalN then converged
         else converged @ count_part failed '' failed'' @
           count_part (number PhaseWaitingApproval) '' awaiting approval'' @
           count_part (number PhaseApplying) '' applying'' @ count_part (number PhaseSoaking) '' soaking'' @
           count_part (number PhaseMetricsCheck) '' checking metrics'' @ count_part (nat deferred) '' deferred'')"

definition planner_decision_trace :: "promotion_run \<Rightarrow> string \<Rightarrow> string \<Rightarrow> planner_decision \<Rightarrow> effect" where
  "planner_decision_trace run planRef stageName d =
     run_trace run planRef stageName (pd_Target d) ''BatchProgress'' (pd_Plugin d) (pd_Phase d) (pd_Reason d)
       (pd_Message d)
       [\<lparr>tre_Type = ''planner'', tre_Source = pd_Plugin d,
         tre_Detail = [(''phase'', pd_Phase d), (''reason'', pd_Reason d), (''message'', pd_Message d)]\<rparr>]"

definition stage_policy_trace :: "promotion_run \<Rightarrow> string \<Rightarrow> string \<Rightarrow> string \<Rightarrow> string \<Rightarrow> nat \<Rightarrow> string \<Rightarrow> effect" where
  "stage_policy_trace run planRef stageName phase reason failed text =
     run_trace run planRef stageName [] ''Stage'' ''promotionrun-controller'' phase reason
       (''stage has '' @ string_of_nat failed @ '' failed targets; '' @ text) []"

text \<open>The phase of a stage with planned clusters, and what its failure policy does.\<close>

definition derive_stage_phase ::
  "'w run_env \<Rightarrow> string \<Rightarrow> plan \<Rightarrow> stage \<Rightarrow> nat \<Rightarrow> nat \<Rightarrow> nat \<Rightarrow> stage_pass \<Rightarrow> ('w, string \<times> stage_pass) run_op" where
  "derive_stage_phase env planRef plan stage totalN synced failed acc s =
     (let name = sg_Name stage; run = rk_Run s
      in if failed > 0 then
           (case sg_OnFailure stage of
              OnFailureSkip \<Rightarrow>
                run_bind (mark_failed_stage_targets_skipped env planRef name)
                  (\<lambda>_ s1. (Inr (''Progressing'',
                             acc\<lparr>sa_AllComplete := False,
                                 sa_NextRequeue := (if sa_NextRequeue acc = 0 \<or> requeueNormal < sa_NextRequeue acc
                                                    then requeueNormal else sa_NextRequeue acc)\<rparr>), s1))
                  (run_emit (stage_policy_trace run planRef name ''Progressing'' ''StageFailurePolicySkip'' failed
                     ''failure policy skips them'') s)
            | OnFailureRollback \<Rightarrow>
                (Inr (''Failed'', acc\<lparr>sa_AllComplete := False, sa_AnyFailed := True\<rparr>),
                 trigger_rollback_targets env planRef plan name
                   (run_emit (stage_policy_trace run planRef name ''Failed'' ''StageFailurePolicyRollback'' failed
                      ''rollback policy triggered'') s))
            | _ \<Rightarrow>
                (Inr (''Failed'', acc\<lparr>sa_AllComplete := False, sa_AnyFailed := True,
                                      sa_Cancels := sa_Cancels acc @ [(planRef, name)]\<rparr>),
                 run_emit (stage_policy_trace run planRef name ''Failed'' ''StageFailurePolicyHalt'' failed
                   ''halting remaining targets'') s))
         else if synced = totalN then (Inr (''Complete'', acc), s)
         else (Inr (''Progressing'', acc\<lparr>sa_AllComplete := False\<rparr>), s))"

definition announce_stage :: "'w run_env \<Rightarrow> string \<Rightarrow> string \<Rightarrow> string \<Rightarrow> 'w run_tick \<Rightarrow> 'w run_tick" where
  "announce_stage env planRef name phase s =
     (let prev = previous_stage_phase (rk_Run s) planRef name;
          s1 = (if phase = ''Complete'' \<and> prev \<noteq> ''Complete''
                then publish_stage_event env planRef name ''completed'' ''Complete''
                       (''Stage '' @ planRef @ ''/'' @ name @ '' completed'')
                       (notify_stage_event env planRef name ''kapro.promotionrun.stage.completed'' ''stage completed'' s)
                else s)
      in if phase = ''Progressing'' \<and> prev \<noteq> ''Progressing'' \<and> prev \<noteq> ''Complete'' \<and> prev \<noteq> ''Failed''
         then publish_stage_event env planRef name ''entered'' ''Progressing''
                (''Stage '' @ planRef @ ''/'' @ name @ '' entered'') s1
         else s1)"

text \<open>A stage whose dependencies hold and whose planned set is not empty.\<close>

definition reconcile_planned_stage ::
  "'w run_env \<Rightarrow> string \<Rightarrow> plan \<Rightarrow> stage \<Rightarrow> plan_result \<Rightarrow> stage_pass \<Rightarrow> ('w, stage_pass) run_op" where
  "reconcile_planned_stage env planRef plan stage planned acc s =
     (let envList = plan_Targets planned; name = sg_Name stage;
          (bindTargets, deferred, strategyDecisions) = apply_stage_strategy (rk_Targets s) planRef stage envList;
          decisions = plan_Decisions planned @ strategyDecisions;
          s1 = fold (\<lambda>d. run_emit (planner_decision_trace (rk_Run s) planRef name d)) decisions s
      in case resolve_stage_gate plan stage of
           Inl e \<Rightarrow> (Inl e, s1)
         | Inr resolvedGate \<Rightarrow>
             (let s2 = fold (upsert_target planRef plan stage resolvedGate) bindTargets s1;
                  entries = stage_entries planRef name (map cl_Name envList) (rk_Targets s2);
                  synced = length (filter (\<lambda>t. synced_phase (te_Phase t)) entries);
                  failed = length (filter (\<lambda>t. te_Phase t = PhaseFailed) entries);
                  message = stage_progress_message stage (rk_Targets s2) planRef (length envList) synced failed deferred
              in case derive_stage_phase env planRef plan stage (length envList) synced failed acc s2 of
                   (Inl e, s3) \<Rightarrow> (Inl e, s3)
                 | (Inr (phase, acc1), s3) \<Rightarrow>
                     (Inr (acc1\<lparr>sa_Progress := sa_Progress acc1 @
                        [(empty_stage_progress name phase)\<lparr>sgp_Total := int (length envList), sgp_Synced := int synced,
                           sgp_Failed := int failed, sgp_Deferred := deferred,
                           sgp_PlannerResults := api_planner_results decisions, sgp_Message := message\<rparr>]\<rparr>),
                      announce_stage env planRef name phase s3)))"

definition reconcile_stage ::
  "'w run_env \<Rightarrow> string \<Rightarrow> plan \<Rightarrow> stage \<Rightarrow> stage_pass \<Rightarrow> ('w, stage_pass) run_op" where
  "reconcile_stage env planRef plan stage acc =
     run_bind (check_dependencies env planRef plan (sg_DependsOn stage) (sa_NextRequeue acc)) (\<lambda>(depsComplete, wait).
       let acc1 = acc\<lparr>sa_NextRequeue := wait\<rparr>; name = sg_Name stage
       in if \<not> depsComplete then
            run_return (acc1\<lparr>sa_AllComplete := False,
              sa_Progress := sa_Progress acc1 @ [empty_stage_progress name ''Pending'']\<rparr>)
          else
            run_bind (run_wrap (''list targets for stage '' @ name @ '': '') (plan_targets_for_stage env planRef plan stage))
              (\<lambda>planned.
                 if plan_Targets planned = [] then
                   run_return (acc1\<lparr>sa_Progress := sa_Progress acc1 @
                     [(empty_stage_progress name ''Complete'')
                        \<lparr>sgp_PlannerResults := api_planner_results (plan_Decisions planned)\<rparr>]\<rparr>)
                 else reconcile_planned_stage env planRef plan stage planned acc1))"

fun reconcile_stages ::
  "'w run_env \<Rightarrow> string \<Rightarrow> plan \<Rightarrow> stage list \<Rightarrow> stage_pass \<Rightarrow> ('w, stage_pass) run_op" where
  "reconcile_stages env planRef plan [] acc s = (Inr acc, s)"
| "reconcile_stages env planRef plan (stage # stages) acc s =
     (case reconcile_stage env planRef plan stage acc s of
        (Inl e, s') \<Rightarrow> (Inl e, s')
      | (Inr acc', s') \<Rightarrow>
          (if sa_AnyFailed acc' then (Inr acc', s') else reconcile_stages env planRef plan stages acc' s'))"

definition reconcile_promotionplan_stages :: "'w run_env \<Rightarrow> string \<Rightarrow> plan \<Rightarrow> ('w, stage_pass) run_op" where
  "reconcile_promotionplan_stages env planRef plan =
     reconcile_stages env planRef plan (pl_Stages plan)
       \<lparr>sa_Progress = [], sa_AllComplete = True, sa_AnyFailed = False, sa_NextRequeue = 0, sa_Cancels = []\<rparr>"

end
