(* ===== verification/Run_Controller.thy ===== *)
theory Run_Controller
  imports Run_Stages
begin

text \<open>
  The reconciler of a promotion run (\<^verbatim>\<open>promotionrun_controller.go\<close>): the handlers of its phases, the
  walk over the plans of the run with every early return, the global timeout, the deletion path
  and \<^verbatim>\<open>Reconcile\<close>; then the watch mappers that decide which runs a cluster or a target wakes.
  A handler takes its copy of the run when the code calls \<^verbatim>\<open>DeepCopy\<close>, and the status patch is taken
  against that copy.
\<close>

type_synonym 'w run_handler = "('w, ctrl_result) run_op"

section \<open>Pending\<close>

fun join_words :: "string list \<Rightarrow> string" where
  "join_words [] = []"
| "join_words [w] = w"
| "join_words (w # ws) = w @ '' '' @ join_words ws"

text \<open>The three conditions that most exits of a handler set together.\<close>

definition set_failure_conditions :: "'w run_env \<Rightarrow> string \<Rightarrow> string \<Rightarrow> 'w run_tick \<Rightarrow> 'w run_tick" where
  "set_failure_conditions env reason message s =
     set_reconciling_condition env ''False'' reason message
       (set_stalled_condition env reason message
         (set_promotionrun_ready_condition env ''False'' reason message s))"

definition handle_run_pending :: "'w run_env \<Rightarrow> 'w run_handler" where
  "handle_run_pending env s =
     (let run = rk_Run s; desiredVersions = promotionrun_desired_versions_from_spec (run_Spec run)
      in if desiredVersions = [] then
           run_bind (run_wrap ''patch stalled: '' (patch_promotionrun_status env run))
             (\<lambda>_. run_return no_requeue)
             (observe_generation (set_failure_conditions env ''NoVersion'' ''spec.version or spec.versions is required''
                (ensure_promotionrun_summary s)))
         else
           let resolvedVersion = promotionrun_primary_version desiredVersions;
               progress = map (\<lambda>ref. \<lparr>pp_Name = pr_Name ref, pp_Plan = pr_Plan ref, pp_ObservedGeneration = 0,
                            pp_Phase = ''Pending'', pp_ActiveStage = [], pp_StageProgress = []\<rparr>)
                            (prs_Plans (run_Spec run));
               s1 = set_run_phase RunProgressing s;
               s2 = observe_generation (upd_status (\<lambda>st. st\<lparr>rst_ResolvedVersion := resolvedVersion,
                      rst_PlanProgress := progress\<rparr>) s1);
               s3 = ensure_promotionrun_summary
                      (upd_status (\<lambda>st. st\<lparr>rst_StartedAt := rfc_now (rv_Kube env) (rk_World s2)\<rparr>) s2);
               s4 = set_reconciling_condition env ''True'' ''Progressing'' ''advancing through promotionplan DAG''
                      (clear_stalled_condition env
                        (set_promotionrun_ready_condition env ''False'' ''Progressing'' ''promotionrun is advancing'' s3));
               s5 = run_emit (RunEvent ''Normal'' ''Started''
                      (''promotionrun '' @ run_Name run @ '' started: version='' @ resolvedVersion @ '' plans=['' @
                       join_words (map pr_Plan (prs_Plans (run_Spec run))) @ '']'')) s4
           in run_bind (run_wrap ''patch PromotionRun phase: '' (patch_promotionrun_status env run))
                (\<lambda>_ s6. (Inr requeue_now,
                   notify_promotionrun_event env ''kapro.promotionrun.started'' ''promotionrun started'' s6)) s5)"

section \<open>Leaving Progressing early\<close>

definition load_into_buffer :: "'w run_env \<Rightarrow> ('w, unit) run_op" where
  "load_into_buffer env =
     run_bind (run_wrap ''load promotion targets: '' (load_promotion_targets env)) (\<lambda>ts s. (Inr (), set_targets ts s))"

text \<open>Event, notification and release that close a failed run once its status is written.\<close>

definition announce_failure :: "'w run_env \<Rightarrow> string \<Rightarrow> string \<Rightarrow> 'w run_tick \<Rightarrow> 'w run_tick" where
  "announce_failure env reason message s =
     notify_promotionrun_event env ''kapro.promotionrun.failed'' message
       (run_emit (RunEvent ''Warning'' reason message) s)"

definition handle_timeout :: "'w run_env \<Rightarrow> 'w run_handler" where
  "handle_timeout env s =
     (let before = rk_Run s;
          message = ''promotionrun exceeded timeout ('' @ prs_Timeout (run_Spec before) @ '')''
      in run_bind (load_into_buffer env) (\<lambda>_.
         run_bind (run_wrap ''cancel timed-out targets: ''
                     (cancel_promotionrun_targets env ''promotionrun exceeded timeout'')) (\<lambda>_ s1.
         let s2 = stamp_completed env (set_run_phase RunFailed s1);
             s3 = set_failure_conditions env ''Timeout'' message
                    (set_promotionrun_summaries env (rk_Targets s2) s2)
         in run_bind (run_wrap ''patch PromotionRun status (timeout): '' (patch_promotionrun_status env before))
              (\<lambda>_ s4. (Inr no_requeue,
                 clear_active_promotionrun env (rk_Targets s4) (announce_failure env ''Timeout'' message s4))) s3)) s)"

text \<open>What the loop over the plans carries.\<close>

record plan_pass =
  pa_Updated :: "plan_progress list"
  pa_AllComplete :: bool
  pa_Cancels :: "cancel_request list"
  pa_NextRequeue :: int

definition empty_plan_progress :: plan_progress where
  "empty_plan_progress = \<lparr>pp_Name = [], pp_Plan = [], pp_ObservedGeneration = 0, pp_Phase = [],
     pp_ActiveStage = [], pp_StageProgress = []\<rparr>"

text \<open>The maps built from \<^verbatim>\<open>status.planProgress\<close>: the last entry of a name counts.\<close>

definition plan_progress_of :: "promotion_run \<Rightarrow> string \<Rightarrow> plan_progress" where
  "plan_progress_of run name =
     (case map_of (rev (map (\<lambda>p. (pp_Name p, p)) (rst_PlanProgress (run_Status run)))) name of
        None \<Rightarrow> empty_plan_progress | Some p \<Rightarrow> p)"

definition carried_progress :: "plan_ref \<Rightarrow> plan_progress \<Rightarrow> string \<Rightarrow> plan_progress" where
  "carried_progress ref previous phase =
     previous\<lparr>pp_Name := pr_Name ref, pp_Plan := pr_Plan ref, pp_Phase := phase\<rparr>"

definition plan_not_found ::
  "'w run_env \<Rightarrow> promotion_run \<Rightarrow> plan_ref \<Rightarrow> plan_progress list \<Rightarrow> 'w run_handler" where
  "plan_not_found env before ref updated =
     (let message = ''promotionplan '' @ pr_Plan ref @ '' referenced by plan node '' @ pr_Name ref @
                    '' was deleted or has not been applied''
      in run_bind (run_wrap ''cancel targets after missing promotionplan: ''
           (cancel_promotionrun_targets_with_trace_reason env message ''PromotionPlanNotFoundCancelled'')) (\<lambda>_ s1.
         let s2 = stamp_completed env (observe_generation (set_run_phase RunFailed s1));
             s3 = upd_status (\<lambda>st. st\<lparr>rst_PlanProgress :=
                    updated @ [carried_progress ref empty_plan_progress ''Failed'']\<rparr>)
                    (set_failure_conditions env ''PromotionPlanNotFound'' message s2);
             s4 = set_promotionrun_summaries env (rk_Targets s3) s3
         in run_bind (run_wrap ''patch PromotionRun status (promotionplan not found): ''
                        (patch_promotionrun_status env before))
              (\<lambda>_ s5. (Inr no_requeue,
                 clear_active_promotionrun env (rk_Targets s5) (announce_failure env ''PromotionPlanNotFound'' message s5)))
              s4))"

definition plan_changed :: "'w run_env \<Rightarrow> promotion_run \<Rightarrow> plan \<Rightarrow> int \<Rightarrow> 'w run_handler" where
  "plan_changed env before plan observed s =
     (let message = ''promotionplan '' @ om_Name (pl_Meta plan) @
            '' changed during promotionrun: observed generation '' @ itoa observed @ '', current generation '' @
            itoa (om_Generation (pl_Meta plan));
          s1 = set_failure_conditions env ''PromotionPlanChanged'' message
                 (stamp_completed env (set_run_phase RunFailed s))
      in run_bind (run_wrap ''patch PromotionRun status (promotionplan changed): ''
                     (patch_promotionrun_status env before))
           (\<lambda>_ s2. (Inr no_requeue, announce_failure env ''PromotionPlanChanged'' message s2)) s1)"

definition apply_cancels :: "'w run_env \<Rightarrow> cancel_request list \<Rightarrow> 'w run_tick \<Rightarrow> 'w run_tick" where
  "apply_cancels env cancels = fold (\<lambda>(planRef, stage). cancel_pending_stage_targets env planRef stage) cancels"

text \<open>Summaries from the full buffer, then the normalised buffer is persisted.\<close>

definition persist_buffer :: "'w run_env \<Rightarrow> ('w, unit) run_op" where
  "persist_buffer env s =
     (let s1 = set_promotionrun_summaries env (rk_Targets s) s;
          s2 = set_targets (normalize_promotionrun_targets (rk_Targets s1)) s1
      in run_wrap ''persist promotion targets: '' (persist_promotion_targets env (rk_Targets s2)) s2)"

definition plan_failed ::
  "'w run_env \<Rightarrow> promotion_run \<Rightarrow> plan_ref \<Rightarrow> plan_progress list \<Rightarrow> cancel_request list \<Rightarrow> 'w run_handler" where
  "plan_failed env before ref updated cancels s =
     (let failureMsg = ''promotionplan '' @ pr_Name ref @ '' ('' @ pr_Plan ref @ '') failed'';
          s1 = upd_status (\<lambda>st. st\<lparr>rst_PlanProgress := updated\<rparr>)
                 (stamp_completed env (observe_generation (set_run_phase RunFailed s)))
      in run_bind (persist_buffer env) (\<lambda>_ s2.
           let s3 = apply_cancels env cancels s2; hasRollbacks = has_active_rollback_targets (rk_Targets s3);
               s4 = set_stalled_condition env ''SubResourceFailed'' failureMsg
                      (set_promotionrun_ready_condition env ''False'' ''SubResourceFailed'' failureMsg s3);
               s5 = (if hasRollbacks
                     then set_reconciling_condition env ''True'' ''RollbackInProgress''
                            ''promotionrun failed and rollback targets are still progressing'' s4
                     else set_reconciling_condition env ''False'' ''SubResourceFailed'' failureMsg s4);
               s6 = run_emit (RunEvent ''Warning'' ''Failed'' failureMsg) s5
           in run_bind (run_wrap ''patch PromotionRun status on failure: '' (patch_promotionrun_status env before))
                (\<lambda>_ s7.
                   let s8 = notify_promotionrun_event env ''kapro.promotionrun.failed'' failureMsg s7
                   in if hasRollbacks then (Inr requeue_now, s8)
                      else (Inr no_requeue, clear_active_promotionrun env (rk_Targets s8) s8)) s6) s1)"

section \<open>The walk over the plans\<close>

fun active_stage :: "stage_progress list \<Rightarrow> string \<Rightarrow> string" where
  "active_stage [] found = found"
| "active_stage (sp # earlier) found =
     (if sgp_Phase sp = ''Progressing'' \<or> sgp_Phase sp = ''Failed'' then sgp_Name sp
      else if sgp_Phase sp = ''Complete'' \<and> found = [] then active_stage earlier (sgp_Name sp)
      else active_stage earlier found)"

definition announce_wave :: "'w run_env \<Rightarrow> string \<Rightarrow> string \<Rightarrow> 'w run_tick \<Rightarrow> 'w run_tick" where
  "announce_wave env planRef newPhase s =
     (let prev = previous_promotionplan_phase (rk_Run s) planRef;
          s1 = (if newPhase = ''Progressing'' \<and> prev \<noteq> ''Progressing'' \<and> prev \<noteq> ''Complete'' \<and> prev \<noteq> ''Failed''
                then publish_wave_event env planRef ''entered'' newPhase (''Wave '' @ planRef @ '' entered'') s else s)
      in if (newPhase = ''Complete'' \<or> newPhase = ''Failed'') \<and> prev \<noteq> newPhase
         then publish_wave_event env planRef ''completed'' newPhase
                (''Wave '' @ planRef @ '' '' @ (if newPhase = ''Complete'' then ''complete'' else ''failed'')) s1
         else s1)"

text \<open>
  One plan node: \<open>Inl\<close> of a result is an early return of the handler, \<open>Inr\<close> goes on with the next
  node.
\<close>

definition reconcile_eligible_plan ::
  "'w run_env \<Rightarrow> promotion_run \<Rightarrow> plan_ref \<Rightarrow> plan \<Rightarrow> plan_pass \<Rightarrow> ('w, ctrl_result + plan_pass) run_op" where
  "reconcile_eligible_plan env before ref plan acc =
     run_bind (reconcile_promotionplan_stages env (pr_Name ref) plan) (\<lambda>pass s.
       let cancels = pa_Cancels acc @ sa_Cancels pass; wait = sa_NextRequeue pass;
           newPhase = (if sa_AnyFailed pass then ''Failed'' else if sa_AllComplete pass then ''Complete'' else ''Progressing'');
           s1 = announce_wave env (pr_Name ref) newPhase s;
           updated = pa_Updated acc @ [\<lparr>pp_Name = pr_Name ref, pp_Plan = pr_Plan ref,
             pp_ObservedGeneration = om_Generation (pl_Meta plan), pp_Phase = newPhase,
             pp_ActiveStage = active_stage (rev (sa_Progress pass)) [], pp_StageProgress = sa_Progress pass\<rparr>]
       in if sa_AnyFailed pass
          then run_bind (plan_failed env before ref updated cancels) (\<lambda>r. run_return (Inl r)) s1
          else (Inr (Inr (acc\<lparr>pa_Updated := updated, pa_Cancels := cancels,
                  pa_AllComplete := (pa_AllComplete acc \<and> newPhase = ''Complete''),
                  pa_NextRequeue := (if wait > 0 \<and> (pa_NextRequeue acc = 0 \<or> wait < pa_NextRequeue acc)
                                     then wait else pa_NextRequeue acc)\<rparr>)), s1))"

definition reconcile_plan_node ::
  "'w run_env \<Rightarrow> promotion_run \<Rightarrow> plan_ref \<Rightarrow> plan_pass \<Rightarrow> ('w, ctrl_result + plan_pass) run_op" where
  "reconcile_plan_node env before ref acc s =
     (let previous = plan_progress_of before (pr_Name ref); currentPhase = pp_Phase previous;
          carry = (\<lambda>phase. acc\<lparr>pa_Updated := pa_Updated acc @ [carried_progress ref previous phase]\<rparr>)
      in if currentPhase = ''Complete'' then (Inr (Inr (carry ''Complete'')), s)
         else if currentPhase = ''Failed'' then (Inr (Inr ((carry ''Failed'')\<lparr>pa_AllComplete := False\<rparr>)), s)
         else if list_ex (\<lambda>dep. pp_Phase (plan_progress_of before dep) \<noteq> ''Complete'') (pr_DependsOn ref)
         then (Inr (Inr ((carry ''Pending'')\<lparr>pa_AllComplete := False\<rparr>)), s)
         else case kb_GetPlan (rv_Kube env) (pr_Plan ref) (rk_World s) of
           (Inl e, w) \<Rightarrow>
             (if is_not_found e
              then run_bind (plan_not_found env before ref (pa_Updated acc)) (\<lambda>r. run_return (Inl r)) (run_world w s)
              else (Inl (''promotionplan '' @ pr_Plan ref @ '' not found: '' @ api_error_text e), run_world w s))
         | (Inr plan, w) \<Rightarrow>
             (if pp_ObservedGeneration previous \<noteq> 0 \<and> pp_ObservedGeneration previous \<noteq> om_Generation (pl_Meta plan)
              then run_bind (plan_changed env before plan (pp_ObservedGeneration previous)) (\<lambda>r. run_return (Inl r))
                     (run_world w s)
              else reconcile_eligible_plan env before ref plan acc (run_world w s)))"

fun reconcile_plans ::
  "'w run_env \<Rightarrow> promotion_run \<Rightarrow> plan_ref list \<Rightarrow> plan_pass \<Rightarrow> ('w, ctrl_result + plan_pass) run_op" where
  "reconcile_plans env before [] acc s = (Inr (Inr acc), s)"
| "reconcile_plans env before (ref # refs) acc s =
     (case reconcile_plan_node env before ref acc s of
        (Inr (Inr acc'), s') \<Rightarrow> reconcile_plans env before refs acc' s'
      | (r, s') \<Rightarrow> (r, s'))"

section \<open>Progressing\<close>

definition duration_truncate :: "int \<Rightarrow> int \<Rightarrow> int" where
  "duration_truncate d m = (if d < 0 then - (- d div m * m) else d div m * m)"

definition elapsed_since :: "'w run_env \<Rightarrow> 'w run_tick \<Rightarrow> string" where
  "elapsed_since env s =
     (let startedAt = rst_StartedAt (run_Status (rk_Run s))
      in if startedAt = [] then []
         else case parse_rfc3339 startedAt of
           None \<Rightarrow> []
         | Some start \<Rightarrow> duration_string (duration_truncate (kb_Now (rv_Kube env) (rk_World s) - start) second))"

definition annotate_previous_version :: "'w run_env \<Rightarrow> 'w run_tick \<Rightarrow> 'w run_tick" where
  "annotate_previous_version env s =
     (let run = rk_Run s;
          run' = run\<lparr>run_Meta := (run_Meta run)\<lparr>om_Annotations :=
            smap_set ''kapro.io/previous-version'' (rst_ResolvedVersion (run_Status run)) (om_Annotations (run_Meta run))\<rparr>\<rparr>
      in case kb_PatchRun (rv_Kube env) run run' (rk_World s) of
           (Inl e, w) \<Rightarrow> upd_run (\<lambda>_. run') (run_world w s)
         | (Inr stored, w) \<Rightarrow> upd_run (\<lambda>_. stored) (run_world w s))"

definition completed_run :: "'w run_env \<Rightarrow> plan_pass \<Rightarrow> 'w run_handler" where
  "completed_run env acc s =
     (let s1 = notify_promotionrun_event env ''kapro.promotionrun.completed'' ''promotionrun completed'' s;
          s2 = annotate_previous_version env (clear_active_promotionrun env (rk_Targets s1) s1)
      in (Inr (if pa_NextRequeue acc > 0 then requeue_after (pa_NextRequeue acc) else no_requeue), s2))"

definition progress_conditions :: "'w run_env \<Rightarrow> bool \<Rightarrow> 'w run_tick \<Rightarrow> 'w run_tick" where
  "progress_conditions env allComplete s =
     (if allComplete then
        (let s1 = set_reconciling_condition env ''False'' ''Complete'' ''all plans complete''
                    (clear_stalled_condition env
                      (set_promotionrun_ready_condition env ''True'' ''Complete'' ''all plans complete'' s))
         in run_emit (RunEvent ''Normal'' ''Complete''
              (''all plans complete: version='' @ prs_Version (run_Spec (rk_Run s1)) @ '' targets='' @
               itoa (rep_TotalTargets (rst_Report (run_Status (rk_Run s1)))) @ '' duration='' @
               elapsed_since env s1)) s1)
      else
        set_reconciling_condition env ''True'' ''Progressing'' ''promotionrun is advancing through promotionplan DAG''
          (clear_stalled_condition env
            (set_promotionrun_ready_condition env ''False'' ''Progressing''
               (promotionrun_progress_summary (rk_Run s) (rk_Targets s)) s)))"

definition finish_progressing :: "'w run_env \<Rightarrow> promotion_run \<Rightarrow> plan_pass \<Rightarrow> 'w run_handler" where
  "finish_progressing env before acc s =
     (let s1 = observe_generation (upd_status (\<lambda>st. st\<lparr>rst_PlanProgress := pa_Updated acc\<rparr>) s);
          s2 = (if pa_AllComplete acc
                then stamp_completed env (set_run_phase RunComplete (append_audit_entry env s1)) else s1)
      in run_bind (persist_buffer env) (\<lambda>_ s3.
           run_bind (run_wrap ''patch PromotionRun status: '' (patch_promotionrun_status env before))
             (\<lambda>_. if pa_AllComplete acc then completed_run env acc else run_return (requeue_after requeueNormal))
             (progress_conditions env (pa_AllComplete acc) (apply_cancels env (pa_Cancels acc) s3))) s2)"

definition timed_out :: "'w run_env \<Rightarrow> 'w run_tick \<Rightarrow> bool" where
  "timed_out env s \<longleftrightarrow>
     (let run = rk_Run s; limit = prs_Timeout (run_Spec run); startedAt = rst_StartedAt (run_Status run)
      in limit \<noteq> [] \<and> startedAt \<noteq> [] \<and>
         (case (parse_duration limit, parse_rfc3339 startedAt) of
            (Some timeout, Some started) \<Rightarrow> kb_Now (rv_Kube env) (rk_World s) - started > timeout
          | _ \<Rightarrow> False))"

definition handle_progressing :: "'w run_env \<Rightarrow> 'w run_handler" where
  "handle_progressing env s =
     (if timed_out env s then handle_timeout env s
      else
        let before = rk_Run s
        in run_bind (load_into_buffer env) (\<lambda>_.
           run_bind (reconcile_plans env before (prs_Plans (run_Spec before))
                       \<lparr>pa_Updated = [], pa_AllComplete = True, pa_Cancels = [], pa_NextRequeue = 0\<rparr>)
             (\<lambda>out. case out of Inl r \<Rightarrow> run_return r | Inr acc \<Rightarrow> finish_progressing env before acc)) s)"

section \<open>Failed, deletion, Reconcile\<close>

definition handle_failed :: "'w run_env \<Rightarrow> 'w run_handler" where
  "handle_failed env s =
     (let before = rk_Run s
      in run_bind (load_into_buffer env) (\<lambda>_ s1.
         run_bind (persist_buffer env) (\<lambda>_ s2.
           let hasRollbacks = has_active_rollback_targets (rk_Targets s2);
               s3 = set_promotionrun_ready_condition env ''False'' ''Failed'' ''promotionrun failed'' s2;
               s4 = (if hasRollbacks
                     then set_stalled_condition env ''Failed'' ''promotionrun failed and rollback is in progress''
                            (set_reconciling_condition env ''True'' ''RollbackInProgress''
                               ''promotionrun failed and rollback targets are still progressing'' s3)
                     else set_stalled_condition env ''Failed'' ''promotionrun failed''
                            (set_reconciling_condition env ''False'' ''Failed'' ''promotionrun failed'' s3))
           in run_bind (run_wrap ''patch failed PromotionRun status: '' (patch_promotionrun_status env before))
                (\<lambda>_ s5. (Inr no_requeue,
                   if hasRollbacks then s5 else clear_active_promotionrun env (rk_Targets s5) s5)) s4)
           (observe_generation s1)) s)"

definition promotionrunFinalizer :: string where "promotionrunFinalizer = ''kapro.io/promotionrun-finalizer''"

definition set_finalizers :: "string list \<Rightarrow> promotion_run \<Rightarrow> promotion_run" where
  "set_finalizers fs run = run\<lparr>run_Meta := (run_Meta run)\<lparr>om_Finalizers := fs\<rparr>\<rparr>"

definition patch_run :: "'w run_env \<Rightarrow> promotion_run \<Rightarrow> ('w, unit) run_op" where
  "patch_run env run' s =
     (case kb_PatchRun (rv_Kube env) (rk_Run s) run' (rk_World s) of
        (Inl e, w) \<Rightarrow> (Inl (api_error_text e), run_world w s)
      | (Inr stored, w) \<Rightarrow> (Inr (), upd_run (\<lambda>_. stored) (run_world w s)))"

definition handle_deletion :: "'w run_env \<Rightarrow> 'w run_handler" where
  "handle_deletion env =
     run_bind (run_wrap ''handleDeletion: load promotion targets for cleanup: '' (load_promotion_targets env)) (\<lambda>ts s.
       let s1 = clear_active_promotionrun env ts s; run = rk_Run s1
       in run_bind (run_wrap ''remove finalizer: ''
            (patch_run env (set_finalizers (filter (\<lambda>f. f \<noteq> promotionrunFinalizer) (om_Finalizers (run_Meta run))) run)))
            (\<lambda>_. run_return no_requeue) s1)"

definition handle_suspended :: "'w run_env \<Rightarrow> 'w run_handler" where
  "handle_suspended env s =
     (let run = rk_Run s; message = ''PromotionRun is suspended'';
          s1 = run_emit (run_trace run [] [] [] ''Suspend'' ''promotionrun-controller''
                 (run_phase_string (rst_Phase (run_Status run))) ''Suspended'' message []) s;
          s2 = observe_generation (clear_stalled_condition env
                 (set_reconciling_condition env ''False'' ''Suspended'' message
                   (set_promotionrun_ready_condition env ''False'' ''Suspended'' message s1)))
      in run_bind (run_wrap ''patch suspended conditions: '' (patch_promotionrun_status env run))
           (\<lambda>_. run_return no_requeue) s2)"

definition run_handlers_of :: "'w run_env \<Rightarrow> 'w run_handler run_handlers" where
  "run_handlers_of env =
     \<lparr>rh_pending = handle_run_pending env, rh_progressing = handle_progressing env, rh_failed = handle_failed env\<rparr>"

definition advance_run :: "'w run_env \<Rightarrow> 'w run_handler" where
  "advance_run env s =
     step RunNone (run_table (run_handlers_of env)) (\<lambda>s. (Inr no_requeue, s)) (rst_Phase (run_Status (rk_Run s))) s"

text \<open>\<^verbatim>\<open>Reconcile\<close> of the run called \<open>name\<close>; the tick's run is replaced by the object read.\<close>

definition reconcile_run :: "'w run_env \<Rightarrow> string \<Rightarrow> 'w run_handler" where
  "reconcile_run env name s =
     (case kb_GetRun (rv_Kube env) name (rk_World s) of
        (Inl e, w) \<Rightarrow> (if is_not_found e then Inr no_requeue else Inl (api_error_text e), run_world w s)
      | (Inr run, w) \<Rightarrow>
          (let s1 = upd_run (\<lambda>_. run) (run_world w s); finalizers = om_Finalizers (run_Meta run)
           in if om_DeletionTimestamp (run_Meta run) \<noteq> None then handle_deletion env s1
              else if promotionrunFinalizer \<notin> set finalizers then
                run_bind (run_wrap ''add finalizer: ''
                  (patch_run env (set_finalizers (finalizers @ [promotionrunFinalizer]) run)))
                  (\<lambda>_. run_return requeue_now) s1
              else if prs_Suspended (run_Spec run) then handle_suspended env s1
              else advance_run env s1))"

section \<open>Watch mappers\<close>

text \<open>
  The lists the mappers read: targets by cluster, runs by the progressing index, all runs. Runs
  are cluster-scoped, so a request is a name.
\<close>

record 'w run_lists =
  rl_TargetsOfCluster :: "string \<Rightarrow> 'w \<Rightarrow> (api_error + target list) \<times> 'w"
  rl_ProgressingRuns :: "'w \<Rightarrow> (api_error + promotion_run list) \<times> 'w"
  rl_Runs :: "'w \<Rightarrow> (api_error + promotion_run list) \<times> 'w"

definition finished_run :: "promotion_run \<Rightarrow> bool" where
  "finished_run run \<longleftrightarrow> rst_Phase (run_Status run) = RunComplete \<or> rst_Phase (run_Status run) = RunFailed"

definition promotionrun_scope_allows_cluster :: "promotion_run \<Rightarrow> string \<Rightarrow> bool" where
  "promotionrun_scope_allows_cluster run clusterName \<longleftrightarrow>
     (case prs_Scope (run_Spec run) of None \<Rightarrow> True | Some ts \<Rightarrow> ts = [] \<or> list_ex (\<lambda>n. n = clusterName) ts)"

definition plan_selects :: "'w kube \<Rightarrow> cluster \<Rightarrow> plan \<Rightarrow> bool" where
  "plan_selects kb mc plan \<longleftrightarrow>
     list_ex (\<lambda>st. kb_SelectorError kb (sg_Selector st) = None \<and>
       kb_SelectorMatches kb (sg_Selector st) (om_Labels (cl_Meta mc)) = Inr True) (pl_Stages plan)"

fun promotionrun_could_target_cluster ::
  "'w kube \<Rightarrow> cluster \<Rightarrow> plan_ref list \<Rightarrow> (string \<times> plan) list \<Rightarrow> 'w \<Rightarrow> bool \<times> (string \<times> plan) list \<times> 'w" where
  "promotionrun_could_target_cluster kb mc [] cache w = (False, cache, w)"
| "promotionrun_could_target_cluster kb mc (ref # refs) cache w =
     (case map_of cache (pr_Plan ref) of
        Some plan \<Rightarrow>
          (if plan_selects kb mc plan then (True, cache, w)
           else promotionrun_could_target_cluster kb mc refs cache w)
      | None \<Rightarrow>
          (case kb_GetPlan kb (pr_Plan ref) w of
             (Inl e, w') \<Rightarrow> promotionrun_could_target_cluster kb mc refs cache w'
           | (Inr plan, w') \<Rightarrow>
               (if plan_selects kb mc plan then (True, (pr_Plan ref, plan) # cache, w')
                else promotionrun_could_target_cluster kb mc refs ((pr_Plan ref, plan) # cache) w')))"

fun runs_targeting ::
  "'w kube \<Rightarrow> cluster \<Rightarrow> promotion_run list \<Rightarrow> (string \<times> plan) list \<Rightarrow> 'w \<Rightarrow> string list \<times> 'w" where
  "runs_targeting kb mc [] cache w = ([], w)"
| "runs_targeting kb mc (run # runs) cache w =
     (if finished_run run \<or> \<not> promotionrun_scope_allows_cluster run (cl_Name mc) then runs_targeting kb mc runs cache w
      else case promotionrun_could_target_cluster kb mc (prs_Plans (run_Spec run)) cache w of
        (hit, cache', w') \<Rightarrow>
          (case runs_targeting kb mc runs cache' w' of
             (names, w'') \<Rightarrow> (if hit then run_Name run # names else names, w'')))"

definition progressing_promotionruns_for_new_cluster ::
  "'w kube \<Rightarrow> 'w run_lists \<Rightarrow> cluster \<Rightarrow> 'w \<Rightarrow> string list \<times> 'w" where
  "progressing_promotionruns_for_new_cluster kb ls mc w =
     (case rl_ProgressingRuns ls w of
        (Inr runs, w1) \<Rightarrow> runs_targeting kb mc runs [] w1
      | (Inl e, w1) \<Rightarrow>
          (case rl_Runs ls w1 of
             (Inr runs, w2) \<Rightarrow> runs_targeting kb mc runs [] w2
           | (Inl e, w2) \<Rightarrow> ([], w2)))"

fun runs_of_targets :: "'w kube \<Rightarrow> string list \<Rightarrow> string list \<Rightarrow> 'w \<Rightarrow> string list \<times> 'w" where
  "runs_of_targets kb seen [] w = ([], w)"
| "runs_of_targets kb seen (name # names) w =
     (if name \<in> set seen then runs_of_targets kb seen names w
      else case kb_GetRun kb name w of
        (Inl e, w') \<Rightarrow> runs_of_targets kb (name # seen) names w'
      | (Inr run, w') \<Rightarrow>
          (case runs_of_targets kb (name # seen) names w' of
             (found, w'') \<Rightarrow> (if finished_run run then found else name # found, w'')))"

definition promotionruns_for_fleet_cluster ::
  "'w kube \<Rightarrow> 'w run_lists \<Rightarrow> cluster \<Rightarrow> 'w \<Rightarrow> string list \<times> 'w" where
  "promotionruns_for_fleet_cluster kb ls mc w =
     (case rl_TargetsOfCluster ls (cl_Name mc) w of
        (Inl e, w1) \<Rightarrow> ([], w1)
      | (Inr targets, w1) \<Rightarrow>
          (if targets = [] then progressing_promotionruns_for_new_cluster kb ls mc w1
           else runs_of_targets kb [] (map (\<lambda>rt. ts_PromotionRunRef (tg_Spec rt)) targets) w1))"

definition promotionrun_for_target :: "target \<Rightarrow> string list" where
  "promotionrun_for_target rt =
     (if ts_PromotionRunRef (tg_Spec rt) = [] then [] else [ts_PromotionRunRef (tg_Spec rt)])"

definition fleet_cluster_update_wakes :: "cluster \<Rightarrow> cluster \<Rightarrow> bool" where
  "fleet_cluster_update_wakes old new \<longleftrightarrow>
     om_Generation (cl_Meta old) \<noteq> om_Generation (cl_Meta new) \<or>
     \<not> smap_eq (om_Labels (cl_Meta old)) (om_Labels (cl_Meta new))"

end
