(* ===== verification/Run_Sample.thy ===== *)
theory Run_Sample
  imports Sample_World Run_Controller
begin

text \<open>
  The concrete world of the witnesses about runs: one plan with a canary stage and a production
  stage that depends on it, two clusters, one run.
\<close>

definition sample_selector :: "string \<Rightarrow> label_selector" where
  "sample_selector tier = \<lparr>ls_MatchLabels = [(''tier'', tier)], ls_MatchExpressions = []\<rparr>"

definition canary_stage :: stage where
  "canary_stage = \<lparr>sg_Name = ''canary'', sg_Selector = sample_selector ''canary'', sg_DependsOn = [],
     sg_Strategy = Some \<lparr>sp_MaxParallel = 1, sp_MaxUnavailable = 0\<rparr>, sg_Gate = None, sg_OnFailure = OnFailureHalt\<rparr>"

definition canary_dependency :: stage_dependency where
  "canary_dependency = \<lparr>sd_Stage = ''canary'', sd_RequiredSoakTime = Some (10 * minute), sd_Strategy = StrategyAll\<rparr>"

definition prod_stage :: stage where
  "prod_stage = \<lparr>sg_Name = ''prod'', sg_Selector = sample_selector ''prod'', sg_DependsOn = [canary_dependency],
     sg_Strategy = None, sg_Gate = None, sg_OnFailure = OnFailureRollback\<rparr>"

definition sample_plan :: plan where
  "sample_plan = \<lparr>pl_Meta = named ''plan'', pl_MetricPresets = [], pl_Stages = [canary_stage, prod_stage]\<rparr>"

definition labelled :: "string \<Rightarrow> string \<Rightarrow> cluster" where
  "labelled name tier = sample_cluster\<lparr>cl_Meta := (named name)\<lparr>om_Labels := [(''tier'', tier)]\<rparr>\<rparr>"

definition claimed :: "string \<Rightarrow> cluster \<Rightarrow> cluster" where
  "claimed run c = c\<lparr>cl_Status := (cl_Status c)\<lparr>cst_ActivePromotionRun := run\<rparr>\<rparr>"

definition run_sample_kube :: "sample kube" where
  "run_sample_kube = sample_kube\<lparr>kb_GetPlan := (\<lambda>n w. (fetch [(''plan'', sample_plan)] n, w))\<rparr>"

definition sample_run_env :: "sample run_env" where
  "sample_run_env = \<lparr>rv_Kube = run_sample_kube, rv_ActuatorRegistry = None, rv_Notifier = False, rv_Planner = None,
     rv_StagePublisher = False\<rparr>"

definition sample_promotion :: promotion_run where
  "sample_promotion = sample_run\<lparr>run_Spec := (run_Spec sample_run)\<lparr>
     prs_Plans := [\<lparr>pr_Name = ''p'', pr_Plan = ''plan'', pr_DependsOn = []\<rparr>]\<rparr>\<rparr>"

definition run_sample_world :: sample where
  "run_sample_world =
     \<lparr>sw_Now = 1700000000 * second,
      sw_Clusters = [(''eu-1'', labelled ''eu-1'' ''canary''), (''eu-2'', labelled ''eu-2'' ''canary''),
                     (''us-1'', claimed ''r9'' (labelled ''us-1'' ''prod''))],
      sw_Approvals = [], sw_Targets = [], sw_Runs = [(''r1'', sample_promotion)]\<rparr>"

definition sample_entry :: "string \<Rightarrow> target_phase \<Rightarrow> target_execution_state" where
  "sample_entry name phase = empty_target\<lparr>te_PromotionRunRef := ''r1'', te_Target := name, te_PlanRef := ''p'',
     te_Plan := ''plan'', te_Stage := ''canary'', te_Version := ''v2'', te_AppKey := ''default'',
     te_DesiredVersions := [(''default'', ''v2'')], te_Phase := phase\<rparr>"

definition sample_run_tick :: "target_execution_state list \<Rightarrow> sample run_tick" where
  "sample_run_tick ts = \<lparr>rk_World = run_sample_world, rk_Log = [], rk_Run = sample_promotion, rk_Targets = ts\<rparr>"

definition sample_planner_request :: planner_request where
  "sample_planner_request = \<lparr>rq_PromotionRun = Some sample_promotion, rq_PlanRefName = ''p'', rq_Plan = Some sample_plan,
     rq_Stage = canary_stage\<rparr>"

end
