(* ===== verification/Planner_Properties.thy ===== *)
theory Planner_Properties
  imports Run_Sample
begin

text \<open>
  What a planning cycle promises: it accounts for every candidate, it orders what it keeps, and
  the default framework is the filter and sort it is meant to be. Then the laws of the plugin
  table.
\<close>

section \<open>Accounting\<close>

abbreviation cluster_names :: "cluster list \<Rightarrow> string multiset" where
  "cluster_names cs \<equiv> mset (map cl_Name cs)"

abbreviation decided_names :: "planner_decision list \<Rightarrow> string multiset" where
  "decided_names ds \<equiv> mset (map pd_Target ds)"

lemma decision_from_status_target [simp]: "pd_Target (decision_from_status t p ph s) = t"
  by (simp add: decision_from_status_def split: option.split)

lemma run_target_hooks_names_target:
  "run_target_hooks hook phase ps s req t = (Inr (Some d), s') \<Longrightarrow> pd_Target d = cl_Name t"
  by (induction ps arbitrary: s) (auto split: option.splits prod.splits if_splits)

lemma filter_targets_accounts:
  "filter_targets ps s req ts kept ds = (None, kept', ds', s') \<Longrightarrow>
   cluster_names kept' + decided_names ds' = cluster_names kept + decided_names ds + cluster_names ts"
proof (induction ts arbitrary: s kept ds)
  case (Cons t ts)
  then show ?case
    by (fastforce split: prod.splits sum.splits option.splits dest!: run_target_hooks_names_target)
qed simp

lemma admit_targets_accounts:
  "admit_targets ps s req ts planned ds = (None, planned', ds', s') \<Longrightarrow>
   cluster_names planned' + decided_names ds' = cluster_names planned + decided_names ds + cluster_names ts"
proof (induction ts arbitrary: s planned ds)
  case (Cons t ts)
  then show ?case
    by (fastforce simp: run_permit_def split: prod.splits sum.splits option.splits
        dest!: run_target_hooks_names_target)
qed simp

lemma mset_order_targets: "cluster_names (order_targets scores cs) = cluster_names cs"
  by (simp add: order_targets_def)

text \<open>C35. A planning cycle that does not fail accounts for every candidate cluster exactly once,
  whatever plugins are registered: the names it plans together with the names of its skip
  decisions are, as a multiset, the names it was given.\<close>

theorem plan_accounts_for_every_target:
  assumes "plan_with_result ps s req targets = ((None, r), s')"
  shows "cluster_names (plan_Targets r) + decided_names (plan_Decisions r) = cluster_names targets"
proof -
  from assms obtain kept ds s1 s2 scores s4 planned ds' s5 where
      f: "filter_targets ps s1 req targets [] [] = (None, kept, ds, s2)"
    and a: "admit_targets ps s4 req (order_targets scores kept) [] ds = (None, planned, ds', s5)"
    and r: "r = \<lparr>plan_Targets = planned, plan_Decisions = ds'\<rparr>"
    unfolding plan_with_result_def by (auto split: prod.splits option.splits sum.splits)
  show ?thesis
    using filter_targets_accounts [OF f] admit_targets_accounts [OF a]
    by (simp add: r mset_order_targets [simplified] ac_simps)
qed

theorem plan_accounts_for_every_target_witness:
  "\<exists>r s'. plan_with_result (new_default_framework sample_kube) () sample_planner_request
      [labelled ''eu-2'' ''canary'', claimed ''r9'' (labelled ''us-1'' ''prod''), labelled ''eu-1'' ''canary''] = ((None, r), s') \<and>
    length (plan_Decisions r) = 1 \<and>
    cluster_names (plan_Targets r) + decided_names (plan_Decisions r) = {#''eu-2'', ''us-1'', ''eu-1''#}"
proof -
  let ?ts = "[labelled ''eu-2'' ''canary'', claimed ''r9'' (labelled ''us-1'' ''prod''), labelled ''eu-1'' ''canary'']"
  let ?p = "plan_with_result (new_default_framework sample_kube) () sample_planner_request ?ts"
  have e: "fst (fst ?p) = None" by code_simp
  have l: "length (plan_Decisions (snd (fst ?p))) = 1" by code_simp
  obtain r s' where p: "?p = ((None, r), s')" using e by (metis prod.collapse)
  moreover from p l have "length (plan_Decisions r) = 1" by simp
  moreover have "cluster_names (plan_Targets r) + decided_names (plan_Decisions r) = {#''eu-2'', ''us-1'', ''eu-1''#}"
    using plan_accounts_for_every_target [OF p]
    by (simp add: labelled_def claimed_def named_def sample_cluster_def)
  ultimately show ?thesis by blast
qed

section \<open>The default framework\<close>

text \<open>What the three built-in plugins are meant to do, as one filter and one sort.\<close>

definition unready :: "'w kube \<Rightarrow> cluster \<Rightarrow> bool" where
  "unready kb c \<longleftrightarrow>
     (case kb_FindStatusCondition kb (cst_Conditions (cl_Status c)) ''Ready'' of
        None \<Rightarrow> False | Some cond \<Rightarrow> c_Status cond = ''False'')"

definition claimed_by_other :: "planner_request \<Rightarrow> cluster \<Rightarrow> bool" where
  "claimed_by_other req c \<longleftrightarrow>
     (case rq_PromotionRun req of
        None \<Rightarrow> False
      | Some run \<Rightarrow> cst_ActivePromotionRun (cl_Status c) \<noteq> [] \<and> cst_ActivePromotionRun (cl_Status c) \<noteq> run_Name run)"

definition plannable :: "'w kube \<Rightarrow> planner_request \<Rightarrow> cluster \<Rightarrow> bool" where
  "plannable kb req c \<longleftrightarrow> \<not> unready kb c \<and> \<not> claimed_by_other req c"

lemma skip_status:
  "as_error (new_status_reason CodeSkip r m) p ph = None" "is_skip (new_status_reason CodeSkip r m)"
  "as_error None p ph = None" "\<not> is_skip None"
  by (simp_all add: as_error_def is_success_def is_skip_def new_status_reason_def)

lemma readiness_hook:
  "pn_Filter (readiness_filter kb) = Some (\<lambda>s req t.
     (if unready kb t then new_status_reason CodeSkip ''ClusterNotReady'' ''cluster Ready condition is false''
      else None, s))"
  by (auto simp: readiness_filter_def unready_def fun_eq_iff split: option.split)

lemma claim_hook:
  "pn_Filter active_promotion_run_filter = Some (\<lambda>s req t.
     (if claimed_by_other req t
      then new_status_reason CodeSkip ''DifferentActivePromotionRun'' ''cluster is already processing another promotionrun''
      else None, s))"
  by (auto simp: active_promotion_run_filter_def claimed_by_other_def fun_eq_iff split: option.split)

lemma plugin_names:
  "pn_Name (readiness_filter kb) = ''readiness''" "pn_Name active_promotion_run_filter = ''active-promotionrun''"
  by (simp_all add: readiness_filter_def active_promotion_run_filter_def plain_plugin_def)

lemma order_hook: "pn_Filter deterministic_order = None"
  by (simp add: deterministic_order_def plain_plugin_def)

lemma default_hooks:
  "run_target_hooks pn_Filter ''Filter'' (new_default_framework kb) s req t =
     (Inr (if unready kb t
           then Some (decision_from_status (cl_Name t) ''readiness'' ''Filter''
             (new_status_reason CodeSkip ''ClusterNotReady'' ''cluster Ready condition is false''))
           else if claimed_by_other req t
           then Some (decision_from_status (cl_Name t) ''active-promotionrun'' ''Filter''
             (new_status_reason CodeSkip ''DifferentActivePromotionRun''
                ''cluster is already processing another promotionrun''))
           else None), s)"
  unfolding new_default_framework_def run_target_hooks.simps readiness_hook claim_hook order_hook
  by (simp add: skip_status plugin_names)

lemma default_filter:
  "\<exists>ds'. filter_targets (new_default_framework kb) s req ts kept ds = (None, kept @ filter (plannable kb req) ts, ds', s)"
proof (induction ts arbitrary: kept ds)
  case (Cons t ts)
  show ?case
  proof (cases "plannable kb req t")
    case True
    then show ?thesis using Cons [of "kept @ [t]" ds] by (simp add: default_hooks plannable_def)
  next
    case False
    then obtain d where "run_target_hooks pn_Filter ''Filter'' (new_default_framework kb) s req t = (Inr (Some d), s)"
      by (cases "unready kb t") (auto simp: default_hooks plannable_def)
    then show ?thesis using False Cons [of kept "ds @ [d]"] by simp
  qed
qed simp

lemma default_permit: "run_permit (new_default_framework kb) s req t = (Inr None, s)"
  by (simp add: run_permit_def new_default_framework_def readiness_filter_def active_promotion_run_filter_def
      deterministic_order_def plain_plugin_def)

lemma default_reserve: "run_reserve (new_default_framework kb) s req t = (None, s)"
  by (simp add: new_default_framework_def readiness_filter_def active_promotion_run_filter_def
      deterministic_order_def plain_plugin_def)

lemma default_admit: "admit_targets (new_default_framework kb) s req ts planned ds = (None, planned @ ts, ds, s)"
  by (induction ts arbitrary: planned) (simp_all add: default_permit default_reserve)

lemma default_score: "score_target (new_default_framework kb) s req t acc = (acc, s)"
  by (simp add: new_default_framework_def readiness_filter_def active_promotion_run_filter_def
      deterministic_order_def plain_plugin_def is_success_def clamp_score_def)

definition zero_scores :: "node_score list \<Rightarrow> bool" where
  "zero_scores m \<longleftrightarrow> snd ` set m \<subseteq> {0}"

lemma zero_scores_update: "zero_scores m \<Longrightarrow> zero_scores (AList.update n 0 m)"
  unfolding zero_scores_def by (induction m) auto

lemma default_scores:
  "zero_scores m \<Longrightarrow> \<exists>m'. score_targets (new_default_framework kb) s req ts m = (m', s) \<and> zero_scores m'"
  by (induction ts arbitrary: m) (simp_all add: default_score zero_scores_update)

lemma zero_scores_fold:
  "zero_scores xs \<Longrightarrow> zero_scores m \<Longrightarrow>
   zero_scores (fold (\<lambda>(name, score). AList.update name (clamp_score score)) xs m)"
proof (induction xs arbitrary: m)
  case (Cons x xs)
  then obtain n where x: "x = (n, 0)" "zero_scores xs" by (cases x) (auto simp: zero_scores_def)
  then show ?case using Cons by (simp add: zero_scores_update clamp_score_def)
qed simp

lemma default_normalize:
  assumes "zero_scores m"
  shows "\<exists>m'. normalize_scores (new_default_framework kb) s req m = (Inr m', s) \<and> zero_scores m'"
proof -
  have "zero_scores (sort_key fst m)" using assms by (simp add: zero_scores_def)
  from zero_scores_fold [OF this assms] show ?thesis
    by (simp add: normalize_scores_def new_default_framework_def readiness_filter_def
        active_promotion_run_filter_def deterministic_order_def plain_plugin_def)
qed

lemma zero_scores_score_of: "zero_scores m \<Longrightarrow> score_of m c = 0"
  by (force simp: score_of_def zero_scores_def dest: map_of_SomeD split: option.split)

lemma sort_key_tag: "sort_key (\<lambda>c. (k, f c)) xs = sort_key f xs"
proof (induction xs)
  case (Cons x xs)
  have "insort_key (\<lambda>c. (k, f c)) x ys = insort_key f x ys" for ys
    by (induction ys) (simp_all add: less_eq_prod_def)
  with Cons show ?case by simp
qed simp

lemma zero_scores_order: "zero_scores m \<Longrightarrow> order_targets m cs = sort_key cl_Name cs"
  by (simp add: order_targets_def zero_scores_score_of sort_key_tag)

lemma default_plan:
  "\<exists>ds. plan_with_result (new_default_framework kb) s req targets =
     ((None, \<lparr>plan_Targets = sort_key cl_Name (filter (plannable kb req) targets), plan_Decisions = ds\<rparr>), s)"
proof -
  let ?f = "new_default_framework kb"
  have pre: "run_pre_filter ?f s req targets = (None, s)"
    by (simp add: new_default_framework_def readiness_filter_def active_promotion_run_filter_def
        deterministic_order_def plain_plugin_def)
  obtain ds where f: "filter_targets ?f s req targets [] [] = (None, filter (plannable kb req) targets, ds, s)"
    using default_filter [of kb s req targets "[]" "[]"] by auto
  obtain m where m: "score_targets ?f s req (filter (plannable kb req) targets) [] = (m, s)" "zero_scores m"
    using default_scores [where m = "[]" and ts = "filter (plannable kb req) targets"]
    unfolding zero_scores_def by (metis empty_set image_empty empty_subsetI)
  obtain m' where "normalize_scores ?f s req m = (Inr m', s)" "zero_scores m'"
    using default_normalize [OF m(2), where kb = kb and s = s and req = req] by blast
  with pre f m show ?thesis by (simp add: plan_with_result_def default_admit zero_scores_order)
qed

text \<open>The default framework, with its pre-filter, filter, scoring, normalisation and admission
  phases, computes one filter and one sort: it plans exactly the clusters that are not reported
  unready and that no other run claims, in the order of their names, and leaves its state alone.\<close>

theorem default_plan_is_filter_and_sort:
  "\<exists>ds. plan_with_result (new_default_framework kb) s req targets =
     ((None, \<lparr>plan_Targets = sort_key cl_Name (filter (plannable kb req) targets), plan_Decisions = ds\<rparr>), s)"
  by (rule default_plan)

section \<open>The plugin table\<close>

definition plugin_lookup :: "'s framework \<Rightarrow> string \<Rightarrow> 's planner_plugin option" where
  "plugin_lookup ps name = find (\<lambda>p. pn_Name p = name) ps"

lemma upsert_names:
  "map pn_Name (snd (planner_upsert p ps)) =
     (if pn_Name p \<in> pn_Name ` set ps then map pn_Name ps else map pn_Name ps @ [pn_Name p])"
  by (induction ps) (auto split: prod.split)

lemma upsert_lookup:
  "plugin_lookup (snd (planner_upsert p ps)) name = (if name = pn_Name p then Some p else plugin_lookup ps name)"
  by (induction ps) (auto simp: plugin_lookup_def split: prod.split)

lemma upsert_previous: "fst (planner_upsert p ps) = plugin_lookup ps (pn_Name p)"
  by (induction ps) (auto simp: plugin_lookup_def split: prod.split)

lemma unregister_previous: "fst (planner_unregister name ps) = plugin_lookup ps name"
  by (induction ps) (auto simp: plugin_lookup_def split: prod.split)

lemma plugin_lookup_None: "plugin_lookup ps name = None \<longleftrightarrow> name \<notin> pn_Name ` set ps"
  by (induction ps) (auto simp: plugin_lookup_def)

lemma unregister_set: "set (snd (planner_unregister name ps)) \<subseteq> set ps"
  by (induction ps) (auto split: prod.split)

lemma unregister_distinct:
  "distinct (map pn_Name ps) \<Longrightarrow> distinct (map pn_Name (snd (planner_unregister name ps)))"
proof (induction ps)
  case (Cons q ps)
  then show ?case using unregister_set [of name ps] by (fastforce split: prod.split)
qed simp

lemma unregister_lookup:
  "distinct (map pn_Name ps) \<Longrightarrow>
   plugin_lookup (snd (planner_unregister name ps)) n = (if n = name then None else plugin_lookup ps n)"
proof (induction ps)
  case (Cons q ps)
  then show ?case
    using plugin_lookup_None [of ps "pn_Name q"] by (auto simp: plugin_lookup_def split: prod.split)
qed (simp add: plugin_lookup_def)

text \<open>The table as operations on it: an update is a plugin to upsert or a name to remove.\<close>

definition plugin_update :: "'s planner_plugin + string \<Rightarrow> 's framework \<Rightarrow> 's framework" where
  "plugin_update u ps = (case u of Inl p \<Rightarrow> snd (planner_upsert p ps) | Inr name \<Rightarrow> snd (planner_unregister name ps))"

definition table_update :: "'s planner_plugin + string \<Rightarrow> (string \<rightharpoonup> 's planner_plugin) \<Rightarrow> string \<rightharpoonup> 's planner_plugin" where
  "table_update u m = (case u of Inl p \<Rightarrow> m(pn_Name p \<mapsto> p) | Inr name \<Rightarrow> m(name := None))"

text \<open>The plugin table refines a map from names to plugins: after any sequence of \<^verbatim>\<open>Upsert\<close> and
  \<^verbatim>\<open>Unregister\<close> calls no two plugins share a name, and the plugin of a name is the one the same
  sequence of updates leaves in the map.\<close>

theorem plugin_table_refines_map:
  fixes us :: "('s planner_plugin + string) list"
  shows "distinct (map pn_Name (fold plugin_update us [])) \<and>
   plugin_lookup (fold plugin_update us []) = fold table_update us Map.empty"
proof -
  have "distinct (map pn_Name ps) \<Longrightarrow>
      distinct (map pn_Name (fold plugin_update us ps)) \<and>
      plugin_lookup (fold plugin_update us ps) = fold table_update us (plugin_lookup ps)" for ps :: "'s framework"
  proof (induction us arbitrary: ps)
    case (Cons u us)
    have "distinct (map pn_Name (plugin_update u ps))"
      using Cons.prems by (auto simp: plugin_update_def upsert_names unregister_distinct split: sum.split)
    moreover have "plugin_lookup (plugin_update u ps) = table_update u (plugin_lookup ps)"
      using Cons.prems
      by (auto simp: plugin_update_def table_update_def upsert_lookup unregister_lookup fun_eq_iff split: sum.split)
    ultimately show ?case using Cons.IH by simp
  qed simp
  from this [of "[]"] have "distinct (map pn_Name (fold plugin_update us [])) \<and>
      plugin_lookup (fold plugin_update us []) = fold table_update us (plugin_lookup [])" by simp
  moreover have "plugin_lookup ([] :: 's framework) = Map.empty" by (simp add: plugin_lookup_def fun_eq_iff)
  ultimately show ?thesis by simp
qed

end
