(* ===== verification/Run_Aggregate_Properties.thy ===== *)
theory Run_Aggregate_Properties
  imports Run_Sample "HOL-Library.Sublist"
begin

text \<open>
  The target buffer of a run: what normalisation keeps, what the report counts, how the summary
  and the audit trail stay bounded, and what the parent writes into its children.
\<close>

section \<open>Bounded tails\<close>

lemma last_n_altdef: "last_n n xs = drop (length xs - n) xs"
  by (simp add: last_n_def)

lemma length_last_n: "length (last_n n xs) = min n (length xs)"
  by (simp add: last_n_altdef)

lemma last_n_idem [simp]: "last_n n (last_n n xs) = last_n n xs"
  by (simp add: last_n_def)

lemma last_n_snoc: "n > 0 \<Longrightarrow> x \<in> set (last_n n (xs @ [x]))"
  by (cases n) (auto simp: last_n_altdef)

section \<open>Normalisation\<close>

lemma target_row_key_normalize [simp]: "target_row_key (normalize_target_entry t) = target_row_key t"
  by (simp add: target_row_key_def target_key_def normalize_target_entry_def)

lemma last_n_map: "last_n n (map f xs) = map f (last_n n xs)"
  by (simp add: last_n_altdef drop_map)

lemma normalize_target_entry_idem [simp]:
  "normalize_target_entry (normalize_target_entry t) = normalize_target_entry t"
  by (simp add: normalize_target_entry_def last_n_map comp_def)

text \<open>The entries whose key is new, in the order they are met.\<close>

fun new_rows :: "string list \<Rightarrow> target_execution_state list \<Rightarrow> target_execution_state list" where
  "new_rows seen [] = []"
| "new_rows seen (t # ts) =
     (if target_row_key t \<in> set seen then new_rows seen ts else t # new_rows (target_row_key t # seen) ts)"

lemma normalize_loop_new_rows:
  "normalize_loop ts seen acc = acc @ map normalize_target_entry (new_rows seen ts)"
  by (induction ts arbitrary: seen acc) (simp_all add: Let_def)

lemma normalize_altdef: "normalize_promotionrun_targets ts = map normalize_target_entry (rev (new_rows [] (rev ts)))"
  by (simp add: normalize_promotionrun_targets_def normalize_loop_new_rows rev_map)

lemma new_rows_disjoint: "t \<in> set (new_rows seen ts) \<Longrightarrow> target_row_key t \<notin> set seen"
proof (induction ts arbitrary: seen)
  case (Cons a ts)
  then show ?case using Cons.IH [of "target_row_key a # seen"] Cons.IH [of seen] by (auto split: if_splits)
qed simp

lemma new_rows_distinct: "distinct (map target_row_key (new_rows seen ts))"
  by (induction ts arbitrary: seen) (force dest: new_rows_disjoint)+

lemma new_rows_find:
  "k \<notin> set seen \<Longrightarrow> find (\<lambda>t. target_row_key t = k) (new_rows seen ts) = find (\<lambda>t. target_row_key t = k) ts"
  by (induction ts arbitrary: seen) auto

lemma new_rows_id:
  "distinct (map target_row_key ts) \<Longrightarrow> set seen \<inter> target_row_key ` set ts = {} \<Longrightarrow> new_rows seen ts = ts"
  by (induction ts arbitrary: seen) auto

lemma find_append: "find P (xs @ ys) = (case find P xs of None \<Rightarrow> find P ys | Some x \<Rightarrow> Some x)"
  by (induction xs) auto

lemma find_distinct_rev:
  "distinct (map f xs) \<Longrightarrow> find (\<lambda>x. f x = k) (rev xs) = find (\<lambda>x. f x = k) xs"
proof (induction xs)
  case (Cons a xs)
  show ?case
  proof (cases "f a = k")
    case True
    then have "find (\<lambda>x. f x = k) (rev xs) = None" using Cons.prems by (auto simp: find_None_iff image_iff)
    then show ?thesis using True by (simp add: find_append)
  next
    case False
    then show ?thesis using Cons by (simp add: find_append split: option.split)
  qed
qed simp

lemma find_map_key:
  "(\<And>x. f (g x) = f x) \<Longrightarrow> find (\<lambda>x. f x = k) (map g xs) = map_option g (find (\<lambda>x. f x = k) xs)"
  by (induction xs) auto

text \<open>Normalising the buffer leaves one row per logical target, rollback rows apart; the row it
  keeps is the latest one with its histories bounded; and normalising again changes nothing.\<close>

theorem normalize_keeps_latest_row:
  "distinct (map target_row_key (normalize_promotionrun_targets ts)) \<and>
   (\<forall>k. find (\<lambda>t. target_row_key t = k) (normalize_promotionrun_targets ts) =
        map_option normalize_target_entry (find (\<lambda>t. target_row_key t = k) (rev ts))) \<and>
   (\<forall>t \<in> set (normalize_promotionrun_targets ts). length (te_Gates t) \<le> maxGateRunsPerTarget \<and>
      (\<forall>g \<in> set (te_Gates t). length (gs_Results g) \<le> maxGateResultsPerGateRun)) \<and>
   normalize_promotionrun_targets (normalize_promotionrun_targets ts) = normalize_promotionrun_targets ts"
proof (intro conjI)
  let ?rows = "new_rows [] (rev ts)"
  have key: "map target_row_key (map normalize_target_entry xs) = map target_row_key xs" for xs by simp
  show d: "distinct (map target_row_key (normalize_promotionrun_targets ts))"
    unfolding normalize_altdef key rev_map [symmetric] by (simp add: new_rows_distinct)
  show "\<forall>k. find (\<lambda>t. target_row_key t = k) (normalize_promotionrun_targets ts) =
        map_option normalize_target_entry (find (\<lambda>t. target_row_key t = k) (rev ts))"
    by (simp add: normalize_altdef find_map_key find_distinct_rev new_rows_distinct new_rows_find)
  show "\<forall>t \<in> set (normalize_promotionrun_targets ts). length (te_Gates t) \<le> maxGateRunsPerTarget \<and>
      (\<forall>g \<in> set (te_Gates t). length (gs_Results g) \<le> maxGateResultsPerGateRun)"
    by (auto simp: normalize_altdef normalize_target_entry_def length_last_n)
  have "new_rows [] (rev (normalize_promotionrun_targets ts)) = rev (normalize_promotionrun_targets ts)"
    using d by (intro new_rows_id) (simp_all add: rev_map [symmetric])
  then show "normalize_promotionrun_targets (normalize_promotionrun_targets ts) = normalize_promotionrun_targets ts"
    by (simp add: normalize_altdef comp_def)
qed

theorem normalize_keeps_latest_row_witness:
  "normalize_promotionrun_targets [sample_entry ''eu-1'' PhasePending, sample_entry ''eu-1'' PhaseConverged] =
     [sample_entry ''eu-1'' PhaseConverged]"
proof -
  let ?ts = "[sample_entry ''eu-1'' PhasePending, sample_entry ''eu-1'' PhaseConverged]"
  have "normalize_promotionrun_targets (normalize_promotionrun_targets ?ts) = normalize_promotionrun_targets ?ts"
    using normalize_keeps_latest_row [of ?ts] by blast
  then show ?thesis
    by (simp add: normalize_promotionrun_targets_def Let_def sample_entry_def empty_target_def
        normalize_target_entry_def target_row_key_def target_key_def last_n_def)
qed

section \<open>The report\<close>

definition counted :: "target_execution_state list \<Rightarrow> string \<Rightarrow> target_execution_state option" where
  "counted ts k = find (\<lambda>t. report_key t = k \<and> \<not> te_Rollback t) (rev ts)"

lemma fold_update_last:
  "map_of (fold (\<lambda>t. AList.update (f t) (g t)) ts m) k =
     (case find (\<lambda>t. f t = k) (rev ts) of None \<Rightarrow> map_of m k | Some t \<Rightarrow> Some (g t))"
proof (induction ts rule: rev_induct)
  case (snoc t ts)
  then show ?case by (simp add: update_conv' split: option.split)
qed simp

lemma find_filter: "find P (filter Q xs) = find (\<lambda>x. P x \<and> Q x) xs"
  by (induction xs) auto

lemma map_of_target_phases: "map_of (target_phases ts) k = map_option te_Phase (counted ts k)"
  unfolding target_phases_def counted_def
  by (simp add: fold_update_last rev_filter find_filter split: option.split)

lemma wf_fold_update: "wf_map m \<Longrightarrow> wf_map (fold (\<lambda>t. AList.update (f t) (g t)) ts m)"
  by (induction ts arbitrary: m) (simp_all add: wf_map_update)

lemma wf_target_phases: "wf_map (target_phases ts)"
  unfolding target_phases_def by (rule wf_fold_update) simp

lemma length_filter_map: "wf_map m \<Longrightarrow> length (filter (\<lambda>(k, v). P v) m) = card {k. \<exists>v. map_of m k = Some v \<and> P v}"
proof (induction m)
  case (Cons kv m)
  obtain k v where kv: "kv = (k, v)" by (cases kv)
  have k: "k \<notin> fst ` set m" "wf_map m" using Cons.prems kv by (auto simp: wf_map_def)
  let ?S = "{k. \<exists>v. map_of m k = Some v \<and> P v}"
  have fin: "finite ?S" by (rule finite_subset [OF _ finite_dom_map_of [of m]]) (auto simp: dom_def)
  have "map_of m k = None" using k by (simp add: map_of_eq_None_iff)
  then have "k \<notin> ?S" by simp
  moreover have "{k'. \<exists>v'. map_of (kv # m) k' = Some v' \<and> P v'} = (if P v then insert k ?S else ?S)"
    using \<open>map_of m k = None\<close> by (auto simp: kv split: if_splits)
  ultimately show ?case using Cons.IH [OF k(2)] fin by (simp add: kv)
qed (simp add: wf_map_def)

lemma count_phases_card:
  "count_phases P (target_phases ts) = int (card {k. \<exists>t. counted ts k = Some t \<and> P (te_Phase t)})"
  unfolding count_phases_def
  by (subst length_filter_map [OF wf_target_phases]) (auto simp: map_of_target_phases intro!: arg_cong [where f = card])

text \<open>The report of a run counts every logical target once, by its latest row, and rollback rows
  not at all: the three counters are the targets whose latest row is Converged or Skipped, is
  Failed, or is anything else, and they add up to the total.\<close>

theorem report_partitions_targets:
  "let r = compute_report now run ts in
     rep_SyncedTargets r = int (card {k. \<exists>t. counted ts k = Some t \<and> te_Phase t \<in> {PhaseConverged, PhaseSkipped}}) \<and>
     rep_FailedTargets r = int (card {k. \<exists>t. counted ts k = Some t \<and> te_Phase t = PhaseFailed}) \<and>
     rep_TotalTargets r = int (card {k. counted ts k \<noteq> None}) \<and>
     rep_TotalTargets r = rep_SyncedTargets r + rep_FailedTargets r + rep_PendingTargets r"
proof -
  have all: "int (length (target_phases ts)) = int (card {k. counted ts k \<noteq> None})"
    using count_phases_card [of "\<lambda>_. True" ts] by (simp add: count_phases_def)
  have part: "length m = length (filter (\<lambda>(k, p). synced_phase p) m) + length (filter (\<lambda>(k, p). p = PhaseFailed) m) +
      length (filter (\<lambda>(k, p). \<not> synced_phase p \<and> p \<noteq> PhaseFailed) m)" for m :: "(string \<times> target_phase) list"
    by (induction m) (auto simp: synced_phase_def)
  have sum: "int (length m) = count_phases synced_phase m + count_phases (\<lambda>p. p = PhaseFailed) m +
      count_phases (\<lambda>p. \<not> synced_phase p \<and> p \<noteq> PhaseFailed) m" for m
    using part [of m] by (simp add: count_phases_def)
  show ?thesis
    using sum [of "target_phases ts"]
    by (simp add: compute_report_def Let_def all) (simp add: count_phases_card synced_phase_def)
qed

section \<open>Summary and audit trail\<close>

lemma length_fold_update: "length (fold (\<lambda>t. AList.update (f t) (g t)) ts m) \<le> length m + length ts"
proof (induction ts arbitrary: m)
  case (Cons t ts)
  have "length (AList.update (f t) (g t) m) \<le> Suc (length m)" by (induction m) auto
  then show ?case using Cons [of "AList.update (f t) (g t) m"] by simp
qed simp

lemma length_target_phases: "length (target_phases ts) \<le> length ts"
  unfolding target_phases_def
  by (rule order_trans [OF length_fold_update]) (simp add: length_filter_le)

lemma count_phases_le: "0 \<le> count_phases P m \<and> count_phases P m \<le> int (length m)"
  by (simp add: count_phases_def)

text \<open>The 32-bit counters of the summary are the counters of the report for every buffer of less
  than two to the thirty-first rows: no conversion wraps.\<close>

theorem summary_counts_are_exact:
  assumes "length ts < 2 ^ 31"
  shows "summary_from_report (compute_report now run ts) =
     (let r = compute_report now run ts
      in \<lparr>sum_TotalTargets = rep_TotalTargets r, sum_SyncedTargets = rep_SyncedTargets r,
          sum_FailedTargets = rep_FailedTargets r, sum_PendingTargets = rep_PendingTargets r,
          sum_ConvergedAt = (if rst_Phase (run_Status run) = RunComplete then rst_CompletedAt (run_Status run) else [])\<rparr>)"
proof -
  have len: "int (length (target_phases ts)) < 2 ^ 31"
    using le_less_trans [OF length_target_phases [of ts] assms] by simp
  have "go_int32 (count_phases P (target_phases ts)) = count_phases P (target_phases ts)" for P
    using count_phases_le [of P "target_phases ts"] len by (intro go_int32_id) linarith+
  moreover have "go_int32 (int (length (target_phases ts))) = int (length (target_phases ts))"
    using len by (intro go_int32_id) simp_all
  ultimately show ?thesis by (simp add: summary_from_report_def compute_report_def Let_def)
qed

theorem summary_counts_are_exact_witness:
  "sum_FailedTargets (summary_from_report (compute_report 0 sample_promotion
     [sample_entry ''eu-1'' PhaseFailed, sample_entry ''eu-2'' PhaseConverged])) = 1"
  using summary_counts_are_exact [of "[sample_entry ''eu-1'' PhaseFailed, sample_entry ''eu-2'' PhaseConverged]" 0
      sample_promotion]
  by (simp add: Let_def compute_report_def target_phases_def count_phases_def sample_entry_def empty_target_def report_key_def)

definition recorded :: "promotion_run \<Rightarrow> audit_entry list \<Rightarrow> bool" where
  "recorded run trail \<longleftrightarrow> list_ex (\<lambda>e. au_PromotionRun e = run_Name run \<and> au_Artifact e = prs_Version (run_Spec run)) trail"

definition audit_trail :: "'w run_tick \<Rightarrow> audit_entry list" where
  "audit_trail s = rst_AuditTrail (run_Status (rk_Run s))"

lemma append_audit_entry_recorded: "recorded (rk_Run s) (audit_trail (append_audit_entry env s))"
proof -
  have "list_ex P (last_n maxAuditTrail (xs @ [x]))" if "P x" for P xs and x :: audit_entry
    using last_n_snoc [of maxAuditTrail x xs] that by (auto simp: list_ex_iff maxAuditTrail_def)
  then show ?thesis
    by (auto simp: append_audit_entry_def recorded_def audit_trail_def Let_def)
qed

text \<open>Recording a completed run keeps the audit trail within fifty entries, always leaves an
  entry for this run and version in it, drops only the oldest entries, and recording the same
  completion again changes nothing.\<close>

theorem audit_trail_is_bounded_and_idempotent:
  assumes "length (audit_trail s) \<le> maxAuditTrail"
  shows "length (audit_trail (append_audit_entry env s)) \<le> maxAuditTrail \<and>
     recorded (rk_Run s) (audit_trail (append_audit_entry env s)) \<and>
     (\<exists>new. suffix (audit_trail (append_audit_entry env s)) (audit_trail s @ new) \<and> length new \<le> 1) \<and>
     append_audit_entry env (append_audit_entry env s) = append_audit_entry env s"
proof -
  let ?s' = "append_audit_entry env s"
  have rec: "recorded (rk_Run s) (audit_trail ?s')" by (rule append_audit_entry_recorded)
  have same: "run_Name (rk_Run ?s') = run_Name (rk_Run s)" "run_Spec (rk_Run ?s') = run_Spec (rk_Run s)"
    by (simp_all add: append_audit_entry_def Let_def)
  have "append_audit_entry env ?s' = ?s'"
    using rec same unfolding recorded_def audit_trail_def append_audit_entry_def [of env ?s'] by (simp add: Let_def)
  moreover have "length (audit_trail ?s') \<le> maxAuditTrail"
    using assms by (auto simp: audit_trail_def append_audit_entry_def Let_def length_last_n)
  moreover have "\<exists>new. suffix (audit_trail ?s') (audit_trail s @ new) \<and> length new \<le> 1"
  proof (cases "recorded (rk_Run s) (audit_trail s)")
    case True
    then have "?s' = s" by (simp add: append_audit_entry_def recorded_def audit_trail_def Let_def)
    then show ?thesis by (intro exI [of _ "[]"]) simp
  next
    case False
    then obtain e where "audit_trail ?s' = last_n maxAuditTrail (audit_trail s @ [e])"
      by (simp add: append_audit_entry_def recorded_def audit_trail_def Let_def)
    then have "suffix (audit_trail ?s') (audit_trail s @ [e])" unfolding last_n_altdef by (simp only: suffix_drop)
    then show ?thesis by (intro exI [of _ "[e]"]) simp
  qed
  ultimately show ?thesis using rec by blast
qed

theorem audit_trail_is_bounded_and_idempotent_witness:
  "length (audit_trail (append_audit_entry sample_run_env (sample_run_tick []))) = 1"
proof -
  have "length (audit_trail (sample_run_tick [])) \<le> maxAuditTrail"
    by (simp add: audit_trail_def sample_run_tick_def sample_promotion_def sample_run_def)
  from audit_trail_is_bounded_and_idempotent [OF this, of sample_run_env] show ?thesis
    by (simp add: audit_trail_def append_audit_entry_def Let_def sample_run_tick_def sample_promotion_def sample_run_def
        last_n_def maxAuditTrail_def)
qed

end
