(* ===== verification/Run_Target_Properties.thy ===== *)
theory Run_Target_Properties
  imports Run_Sample
begin

text \<open>
  The life of the target rows and of their child objects: rollback rows, the release of cluster
  claims, the round trip between a row and its object, what persisting overwrites, and the names
  of the objects.
\<close>

section \<open>Rollback\<close>

lemma rollback_now_keeps [simp]:
  "rk_Targets (rollback_now env t s) = rk_Targets s" "rk_Run (rollback_now env t s) = rk_Run s"
  by (simp_all add: rollback_now_def emit_capability_unsupported_trace_pr_def Let_def split: prod.split sum.split option.split)

lemma rollback_entry_fields [simp]:
  "te_Rollback (rollback_entry run t)" "te_Target (rollback_entry run t) = te_Target t"
  "te_PlanRef (rollback_entry run t) = te_PlanRef t" "te_Stage (rollback_entry run t) = te_Stage t"
  "te_DesiredVersions (rollback_entry run t) = te_PreviousVersions t" "te_Phase (rollback_entry run t) = PhasePending"
  by (simp_all add: rollback_entry_def Let_def copy_string_map_def split: prod.split)

lemma is_rollback_of_entry [simp]: "is_rollback_of t (rollback_entry run t)"
  by (simp add: is_rollback_of_def)

lemma trigger_target_rollback_rows:
  "rk_Targets (trigger_target_rollback env t s) =
     (if list_ex (is_rollback_of t) (rk_Targets s) then rk_Targets s
      else rk_Targets s @ [rollback_entry (rk_Run s) t])"
  "rk_Run (trigger_target_rollback env t s) = rk_Run s"
  by (simp_all add: trigger_target_rollback_def Let_def)

definition rollback_id :: "target_execution_state \<Rightarrow> string \<times> string \<times> string" where
  "rollback_id t = (te_PlanRef t, te_Stage t, te_Target t)"

definition one_rollback :: "target_execution_state list \<Rightarrow> bool" where
  "one_rollback ts \<longleftrightarrow> distinct (map rollback_id (filter te_Rollback ts))"

lemma is_rollback_of_iff: "is_rollback_of t r \<longleftrightarrow> te_Rollback r \<and> rollback_id r = rollback_id t"
  by (auto simp: is_rollback_of_def rollback_id_def)

lemma one_rollback_trigger:
  "one_rollback (rk_Targets s) \<Longrightarrow> one_rollback (rk_Targets (trigger_target_rollback env t s))"
  by (auto simp: one_rollback_def trigger_target_rollback_rows list_ex_iff is_rollback_of_iff rollback_id_def)

lemma fold_rollback:
  "one_rollback (rk_Targets s) \<Longrightarrow>
   one_rollback (rk_Targets (fold (trigger_target_rollback env) es s)) \<and>
   rk_Run (fold (trigger_target_rollback env) es s) = rk_Run s \<and>
   (\<exists>new. rk_Targets (fold (trigger_target_rollback env) es s) = rk_Targets s @ new \<and>
      (\<forall>r \<in> set new. \<exists>t \<in> set es. r = rollback_entry (rk_Run s) t)) \<and>
   (\<forall>t \<in> set es. list_ex (is_rollback_of t) (rk_Targets (fold (trigger_target_rollback env) es s)))"
proof (induction es arbitrary: s)
  case (Cons e es)
  let ?s1 = "trigger_target_rollback env e s"
  note IH = Cons.IH [OF one_rollback_trigger [OF Cons.prems, of env e]]
  obtain new where new: "rk_Targets (fold (trigger_target_rollback env) es ?s1) = rk_Targets ?s1 @ new"
      "\<forall>r \<in> set new. \<exists>t \<in> set es. r = rollback_entry (rk_Run s) t"
    using IH by (auto simp: trigger_target_rollback_rows(2))
  obtain new1 where new1: "rk_Targets ?s1 = rk_Targets s @ new1" "set new1 \<subseteq> {rollback_entry (rk_Run s) e}"
    by (cases "list_ex (is_rollback_of e) (rk_Targets s)") (auto simp: trigger_target_rollback_rows)
  have "list_ex (is_rollback_of e) (rk_Targets ?s1)" by (simp add: trigger_target_rollback_rows)
  then have "list_ex (is_rollback_of e) (rk_Targets (fold (trigger_target_rollback env) es ?s1))" using new(1) by simp
  moreover have "\<exists>new'. rk_Targets (fold (trigger_target_rollback env) es ?s1) = rk_Targets s @ new' \<and>
      (\<forall>r \<in> set new'. \<exists>t \<in> set (e # es). r = rollback_entry (rk_Run s) t)"
    using new new1 by (intro exI [of _ "new1 @ new"]) auto
  ultimately show ?case using IH by (simp add: trigger_target_rollback_rows(2))
qed simp

text \<open>C28. A rollback appends rows and changes none: every row it adds is Pending and asks for the
  versions its target had before the delivery; afterwards every Converged row of the failed stage
  and of the stages before it has a rollback row, and no target has two, however often the
  rollback is triggered.\<close>

theorem rollback_covers_converged_targets_once:
  assumes "one_rollback (rk_Targets s)"
  shows "let s' = trigger_rollback_targets env planRef plan stageName s;
             eligible = rollback_eligible planRef (stages_upto stageName (pl_Stages plan))
         in one_rollback (rk_Targets s') \<and>
            (\<forall>t \<in> set (rk_Targets s). eligible t \<longrightarrow> list_ex (is_rollback_of t) (rk_Targets s')) \<and>
            (\<exists>new. rk_Targets s' = rk_Targets s @ new \<and>
               (\<forall>r \<in> set new. te_Phase r = PhasePending \<and>
                  (\<exists>t \<in> set (rk_Targets s). eligible t \<and> is_rollback_of t r \<and> te_DesiredVersions r = te_PreviousVersions t)))"
proof -
  let ?el = "rollback_eligible planRef (stages_upto stageName (pl_Stages plan))"
  note F = fold_rollback [OF assms, of env "filter ?el (rk_Targets s)"]
  then obtain new where
      "rk_Targets (trigger_rollback_targets env planRef plan stageName s) = rk_Targets s @ new"
      "\<forall>r \<in> set new. \<exists>t \<in> set (filter ?el (rk_Targets s)). r = rollback_entry (rk_Run s) t"
    unfolding trigger_rollback_targets_def by blast
  then have "\<exists>new. rk_Targets (trigger_rollback_targets env planRef plan stageName s) = rk_Targets s @ new \<and>
      (\<forall>r \<in> set new. te_Phase r = PhasePending \<and>
        (\<exists>t \<in> set (rk_Targets s). ?el t \<and> is_rollback_of t r \<and> te_DesiredVersions r = te_PreviousVersions t))"
    by (intro exI [of _ new]) fastforce
  with F show ?thesis unfolding trigger_rollback_targets_def Let_def by simp
qed

definition rollback_row :: target_execution_state where
  "rollback_row = (sample_entry ''eu-1'' PhaseConverged)\<lparr>te_PreviousVersion := ''v1'', te_PreviousVersions := [(''default'', ''v1'')]\<rparr>"

theorem rollback_covers_converged_targets_once_witness:
  "map te_DesiredVersions (filter te_Rollback (rk_Targets (trigger_rollback_targets sample_run_env ''p'' sample_plan ''canary''
     (sample_run_tick [rollback_row, sample_entry ''eu-2'' PhaseFailed])))) = [[(''default'', ''v1'')]]"
proof -
  let ?s = "sample_run_tick [rollback_row, sample_entry ''eu-2'' PhaseFailed]"
  have o: "one_rollback (rk_Targets ?s)"
    by (simp add: one_rollback_def sample_run_tick_def rollback_row_def sample_entry_def empty_target_def)
  have el: "rollback_eligible ''p'' (stages_upto ''canary'' (pl_Stages sample_plan)) rollback_row"
    by (simp add: rollback_eligible_def sample_plan_def canary_stage_def rollback_row_def sample_entry_def empty_target_def)
  from rollback_covers_converged_targets_once [OF o, of sample_run_env "''p''" sample_plan "''canary''"] el
  have "list_ex (is_rollback_of rollback_row)
      (rk_Targets (trigger_rollback_targets sample_run_env ''p'' sample_plan ''canary'' ?s))"
    by (simp add: Let_def sample_run_tick_def)
  then show ?thesis
    by (simp add: trigger_rollback_targets_def trigger_target_rollback_rows sample_run_tick_def rollback_eligible_def
        sample_plan_def canary_stage_def rollback_row_def sample_entry_def empty_target_def is_rollback_of_def)
qed

section \<open>Releasing claims\<close>

text \<open>
  An invariant of the outside world that reading keeps, and that a write which releases a cluster
  carrying the claim of \<open>run\<close> keeps.
\<close>

definition kept_by_release :: "'w kube \<Rightarrow> string \<Rightarrow> ('w \<Rightarrow> bool) \<Rightarrow> bool" where
  "kept_by_release kb run I \<longleftrightarrow>
     (\<forall>w n. I w \<longrightarrow> I (snd (kb_GetCluster kb n w))) \<and> (\<forall>w n. I w \<longrightarrow> I (snd (kb_ListTargetsOfRun kb n w))) \<and>
     (\<forall>w w' n mc. I w \<longrightarrow> kb_GetCluster kb n w = (Inr mc, w') \<longrightarrow> cst_ActivePromotionRun (cl_Status mc) = run \<longrightarrow>
        I (snd (kb_PatchClusterStatus kb mc (mc\<lparr>cl_Status := (cl_Status mc)\<lparr>cst_ActivePromotionRun := []\<rparr>\<rparr>) w')))"

lemma kept_by_release_get:
  "kept_by_release kb run I \<Longrightarrow> I w \<Longrightarrow> kb_GetCluster kb n w = (r, w') \<Longrightarrow> I w'"
  unfolding kept_by_release_def by (metis snd_conv)

lemma kept_by_release_list:
  "kept_by_release kb run I \<Longrightarrow> I w \<Longrightarrow> kb_ListTargetsOfRun kb n w = (r, w') \<Longrightarrow> I w'"
  unfolding kept_by_release_def by (metis snd_conv)

lemma release_clusters_keeps:
  "kept_by_release (rv_Kube env) (run_Name (rk_Run s)) I \<Longrightarrow> I (rk_World s) \<Longrightarrow>
   I (rk_World (release_clusters env seen ts s))"
proof (induction ts arbitrary: seen s)
  case (Cons t ts)
  show ?case
  proof (cases "te_Target t \<in> set seen")
    case False
    obtain r w where g: "kb_GetCluster (rv_Kube env) (te_Target t) (rk_World s) = (r, w)" by fastforce
    have "I w" by (rule kept_by_release_get [OF Cons.prems g])
    moreover have "I (snd (kb_PatchClusterStatus (rv_Kube env) mc
        (mc\<lparr>cl_Status := (cl_Status mc)\<lparr>cst_ActivePromotionRun := []\<rparr>\<rparr>) w))"
      if "r = Inr mc" "cst_ActivePromotionRun (cl_Status mc) = run_Name (rk_Run s)" for mc
      using Cons.prems g that unfolding kept_by_release_def by blast
    ultimately show ?thesis using False g Cons by (auto split: sum.split)
  qed (use Cons in simp)
qed simp

text \<open>Releasing the clusters of a run touches no claim but its own: whatever holds of the world
  is kept, provided reads keep it and so does clearing a claim that the cluster object just read
  shows to be this run's. In particular the claim of any other run survives.\<close>

theorem release_touches_own_claims_only:
  assumes "kept_by_release (rv_Kube env) (run_Name (rk_Run s)) I" and "I (rk_World s)"
  shows "I (rk_World (clear_active_promotionrun env targets s))"
proof (cases "targets = []")
  case True
  obtain r w where l: "kb_ListTargetsOfRun (rv_Kube env) (run_Name (rk_Run s)) (rk_World s) = (r, w)" by fastforce
  have "I w" by (rule kept_by_release_list [OF assms l])
  then have "I (rk_World (release_clusters env [] ts (run_world w s)))" for ts
    using release_clusters_keeps [of env "run_world w s" I "[]" ts] assms(1) by simp
  then show ?thesis using True l \<open>I w\<close>
    by (cases r) (simp_all add: clear_active_promotionrun_def load_promotion_targets_def)
next
  case False
  have "I (rk_World (release_clusters env [] targets s))" by (rule release_clusters_keeps [OF assms])
  with False show ?thesis by (simp add: clear_active_promotionrun_def)
qed

definition foreign_claim :: "sample \<Rightarrow> bool" where
  "foreign_claim w \<longleftrightarrow> wf_map (sw_Clusters w) \<and> (\<forall>(n, c) \<in> set (sw_Clusters w). cl_Name c = n) \<and>
     (case map_of (sw_Clusters w) ''us-1'' of None \<Rightarrow> False | Some c \<Rightarrow> cst_ActivePromotionRun (cl_Status c) = ''r9'')"

lemma names_match_update:
  "\<forall>(m, c) \<in> set xs. cl_Name c = m \<Longrightarrow> \<forall>(m, c) \<in> set (AList.update (cl_Name d) d' xs). cl_Name c = m"
  if "cl_Name d' = cl_Name d"
  using that by (induction xs) auto

lemma foreign_claim_kept: "kept_by_release run_sample_kube ''r1'' foreign_claim"
proof -
  have upd: "foreign_claim (w\<lparr>sw_Clusters := AList.update (cl_Name mc) (mc\<lparr>cl_Status := st\<rparr>) (sw_Clusters w)\<rparr>)"
    if "foreign_claim w" "map_of (sw_Clusters w) n = Some mc" "cst_ActivePromotionRun (cl_Status mc) = ''r1''" for w n mc st
  proof -
    have "cl_Name mc = n" using that(1,2) by (force simp: foreign_claim_def dest: map_of_SomeD)
    moreover have "n \<noteq> ''us-1''" using that by (auto simp: foreign_claim_def)
    moreover have "\<forall>(m, c) \<in> set (AList.update (cl_Name mc) (mc\<lparr>cl_Status := st\<rparr>) (sw_Clusters w)). cl_Name c = m"
      using that(1) by (intro names_match_update) (simp_all add: foreign_claim_def)
    ultimately show ?thesis using that(1) by (simp add: foreign_claim_def wf_map_update update_conv')
  qed
  show ?thesis
    by (auto simp: kept_by_release_def run_sample_kube_def sample_kube_def fetch_def split: option.splits intro: upd)
qed

theorem release_touches_own_claims_only_witness:
  "foreign_claim (rk_World (clear_active_promotionrun sample_run_env
     [sample_entry ''us-1'' PhaseFailed, sample_entry ''eu-1'' PhaseConverged] (sample_run_tick [])))"
proof (rule release_touches_own_claims_only)
  show "kept_by_release (rv_Kube sample_run_env) (run_Name (rk_Run (sample_run_tick []))) foreign_claim"
    using foreign_claim_kept by (simp add: sample_run_env_def sample_run_tick_def sample_promotion_def sample_run_def named_def)
  show "foreign_claim (rk_World (sample_run_tick []))"
    by (simp add: foreign_claim_def sample_run_tick_def run_sample_world_def labelled_def claimed_def named_def
        sample_cluster_def wf_map_def)
qed

section \<open>Rows and child objects\<close>

text \<open>A row survives its child object: reading back the object built for a row gives the row,
  and the object as it is created, with an empty status, reads back as a row with the same
  identity, versions and gate that has not started.\<close>

theorem row_survives_child_object:
  "target_status_from_promotion_target (promotion_target_from_status kb run t) = t \<and>
   (let fresh = target_status_from_promotion_target
                  ((promotion_target_from_status kb run t)\<lparr>tg_Status := empty_target_status\<rparr>)
    in te_Phase fresh = PhaseNone \<and> \<not> te_ApplyIssued fresh \<and> target_key fresh = target_key t \<and>
       promotion_target_object_name fresh = promotion_target_object_name t \<and>
       target_desired_versions fresh = target_desired_versions t \<and> te_Gate fresh = te_Gate t)"
  by (simp add: target_status_from_promotion_target_def promotion_target_from_status_def Let_def copy_string_map_def
      empty_target_status_def empty_target_def target_key_def promotion_target_object_name_def
      target_desired_versions_def target_app_key_def)

definition keeps_labels :: "'w kube \<Rightarrow> bool" where
  "keeps_labels kb \<longleftrightarrow> (\<forall>run m. om_Labels (kb_SetControllerReference kb run m) = om_Labels m)"

lemma desired_labels:
  "keeps_labels kb \<Longrightarrow> map_of (om_Labels (tg_Meta (promotion_target_from_status kb run t))) ''kapro.io/phase'' = None"
  by (simp add: keeps_labels_def promotion_target_from_status_def Let_def smap_set_def update_conv')

text \<open>Persisting the buffer withdraws what others wrote into a child: when the stored object of a
  row carries a cancellation or the phase label of the target controller, the parent sends a patch
  whose spec is not cancelled and which has no phase label, although nothing in the row changed.
  The owner reference helper is assumed to leave labels alone, as it is documented to.\<close>

theorem persist_withdraws_cancellation:
  assumes "keeps_labels (rv_Kube env)" and "map_of existing (promotion_target_object_name t) = Some current"
    and "ts_Cancelled (tg_Spec current) \<or> phase_label \<in> fst ` set (om_Labels (tg_Meta current))"
  shows "\<exists>sent. \<not> ts_Cancelled (tg_Spec sent) \<and> phase_label \<notin> fst ` set (om_Labels (tg_Meta sent)) \<and>
     tg_Status sent = tg_Status current \<and>
     persist_each env existing (t # ts) s =
       (case kb_PatchTarget (rv_Kube env) current sent (rk_World s) of
          (Inl e, w) \<Rightarrow> (Inl (''patch PromotionTarget '' @ promotion_target_object_name t @ '': '' @ api_error_text e), run_world w s)
        | (Inr rt, w) \<Rightarrow>
            persist_each env (AList.update (promotion_target_object_name t) rt existing) ts (run_world w s))"
proof -
  let ?d = "promotion_target_from_status (rv_Kube env) (rk_Run s) t"
  have lab: "phase_label \<notin> fst ` set (om_Labels (tg_Meta ?d))"
    using desired_labels [OF assms(1)] by (simp add: phase_label_def map_of_eq_None_iff)
  have nc: "\<not> ts_Cancelled (tg_Spec ?d)" by (simp add: promotion_target_from_status_def Let_def)
  have "\<not> promotion_target_spec_equal current ?d"
  proof
    assume eq: "promotion_target_spec_equal current ?d"
    have "ts_Cancelled (tg_Spec current) = ts_Cancelled (tg_Spec ?d)"
      using arg_cong [where f = ts_Cancelled, OF conjunct1 [OF eq [unfolded promotion_target_spec_equal_def]]] by simp
    moreover have "phase_label \<notin> fst ` set (om_Labels (tg_Meta current))"
    proof
      assume "phase_label \<in> fst ` set (om_Labels (tg_Meta current))"
      then obtain v where "(phase_label, v) \<in> set (om_Labels (tg_Meta current))" by auto
      with eq have "map_of (om_Labels (tg_Meta ?d)) phase_label = Some v"
        unfolding promotion_target_spec_equal_def smap_eq_def list_all_iff by blast
      then show False using lab by (force dest: map_of_SomeD)
    qed
    ultimately show False using assms(3) nc by simp
  qed
  then show ?thesis using assms(2) nc lab
    by (intro exI [of _ "with_parent_fields current ?d"]) (simp add: Let_def with_parent_fields_def)
qed

definition cancelled_child :: target where
  "cancelled_child = cancel_spec ''skipped after failure policy'' PhaseSkipped sample_target"

theorem persist_withdraws_cancellation_witness:
  "\<exists>s'. persist_each sample_run_env [(promotion_target_object_name (sample_entry ''eu-1'' PhaseFailed), cancelled_child)]
      [sample_entry ''eu-1'' PhaseFailed] (sample_run_tick []) = (Inr (), s') \<and> ts_Cancelled (tg_Spec cancelled_child)"
proof -
  have labels: "keeps_labels (rv_Kube sample_run_env)"
    by (simp add: keeps_labels_def sample_run_env_def run_sample_kube_def sample_kube_def)
  have child: "ts_Cancelled (tg_Spec cancelled_child)" by (simp add: cancelled_child_def cancel_spec_def)
  have patch: "kb_PatchTarget (rv_Kube sample_run_env) =
      (\<lambda>old new w. (Inr new, w\<lparr>sw_Targets := AList.update (tg_Name new) new (sw_Targets w)\<rparr>))"
    by (simp add: sample_run_env_def run_sample_kube_def sample_kube_def)
  from persist_withdraws_cancellation [OF labels, where t = "sample_entry ''eu-1'' PhaseFailed"
      and existing = "[(promotion_target_object_name (sample_entry ''eu-1'' PhaseFailed), cancelled_child)]"
      and current = cancelled_child and ts = "[]" and s = "sample_run_tick []"] child
  show ?thesis by (auto simp: patch)
qed

section \<open>Names\<close>

text \<open>The name of a child object is the prefix of the run and a 32-bit hash, so two targets of one
  stage can share it: for these two clusters the rows stay apart in the buffer while both map to
  one object.\<close>

theorem child_names_collide:
  "promotion_target_object_name (sample_entry ''cqc0alpy'' PhasePending) =
     promotion_target_object_name (sample_entry ''cqy22el1'' PhasePending) \<and>
   target_row_key (sample_entry ''cqc0alpy'' PhasePending) \<noteq> target_row_key (sample_entry ''cqy22el1'' PhasePending)"
  by code_simp

end
