(* ===== verification/Run_Stage_Properties.thy ===== *)
theory Run_Stage_Properties
  imports Planner_Properties
begin

text \<open>
  One stage of a plan: how many targets it starts, when it is complete, when a dependency on it
  holds, and what an empty planned set means.
\<close>

section \<open>Rows of a stage\<close>

text \<open>What the stage pass observes of a row.\<close>

type_synonym row_view = "string \<times> string \<times> string \<times> target_phase"

definition view :: "target_execution_state \<Rightarrow> row_view" where
  "view t = (te_PlanRef t, te_Stage t, te_Target t, te_Phase t)"

definition view_of_stage :: "string \<Rightarrow> string \<Rightarrow> string list \<Rightarrow> (target_phase \<Rightarrow> bool) \<Rightarrow> row_view \<Rightarrow> bool" where
  "view_of_stage planRef stageName names P = (\<lambda>(p, st, t, ph). p = planRef \<and> st = stageName \<and> t \<in> set names \<and> P ph)"

lemma stage_entries_view:
  "map view (filter (\<lambda>t. P (te_Phase t)) (stage_entries planRef stageName names ts)) =
     filter (view_of_stage planRef stageName names P) (map view ts)"
  unfolding stage_entries_def by (induction ts) (auto simp: view_def view_of_stage_def)

lemma count_view:
  "length (filter (\<lambda>t. P (te_Phase t)) (stage_entries planRef stageName names ts)) =
     length (filter (view_of_stage planRef stageName names P) (map view ts))"
  using arg_cong [where f = length, OF stage_entries_view] by simp

text \<open>Binding a cluster leaves the observed rows alone and adds at most one fresh row.\<close>

lemma map_update_first: "(\<And>x. g (f x) = g x) \<Longrightarrow> map g (update_first Q f xs) = map g xs"
  by (induction xs) auto

lemma target_key_view: "view t = view u \<Longrightarrow> target_key t = target_key u"
  by (simp add: view_def target_key_def)

definition bound_view :: "string \<Rightarrow> stage \<Rightarrow> cluster \<Rightarrow> row_view" where
  "bound_view planRef stage mc = (planRef, sg_Name stage, cl_Name mc, PhaseNone)"

lemma upsert_target_rows:
  "map view (rk_Targets (upsert_target planRef plan stage gate mc s)) =
     (if list_ex (\<lambda>t. target_key t = sync_key planRef (sg_Name stage) (cl_Name mc)) (rk_Targets s)
      then map view (rk_Targets s) else map view (rk_Targets s) @ [bound_view planRef stage mc])"
  by (simp add: upsert_target_def Let_def map_update_first view_def bound_view_def empty_target_def split: prod.split)

text \<open>Two rows of a stage never share a cluster.\<close>

definition rows_distinct :: "string \<Rightarrow> string \<Rightarrow> row_view list \<Rightarrow> bool" where
  "rows_distinct planRef stageName vs \<longleftrightarrow>
     distinct (map (\<lambda>(p, st, t, ph). t) (filter (\<lambda>(p, st, t, ph). p = planRef \<and> st = stageName) vs))"

lemma rows_distinct_upsert:
  "rows_distinct planRef (sg_Name stage) (map view (rk_Targets s)) \<Longrightarrow>
   rows_distinct planRef (sg_Name stage) (map view (rk_Targets (upsert_target planRef plan stage gate mc s)))"
  by (auto simp: upsert_target_rows rows_distinct_def bound_view_def view_def target_key_def list_ex_iff)

lemma fold_upsert_rows:
  "\<exists>new. map view (rk_Targets (fold (upsert_target planRef plan stage gate) mcs s)) = map view (rk_Targets s) @ new \<and>
     length new \<le> length mcs \<and> set new \<subseteq> bound_view planRef stage ` set mcs"
  "rows_distinct planRef (sg_Name stage) (map view (rk_Targets s)) \<Longrightarrow>
   rows_distinct planRef (sg_Name stage) (map view (rk_Targets (fold (upsert_target planRef plan stage gate) mcs s)))"
proof (induction mcs arbitrary: s)
  case (Cons mc mcs)
  {
    case 1
    let ?s1 = "upsert_target planRef plan stage gate mc s"
    obtain new where "map view (rk_Targets (fold (upsert_target planRef plan stage gate) mcs ?s1)) =
        map view (rk_Targets ?s1) @ new" "length new \<le> length mcs" "set new \<subseteq> bound_view planRef stage ` set mcs"
      using Cons.IH(1) [of ?s1] by blast
    moreover obtain new1 where "map view (rk_Targets ?s1) = map view (rk_Targets s) @ new1"
        "length new1 \<le> 1" "set new1 \<subseteq> {bound_view planRef stage mc}"
    proof (cases "list_ex (\<lambda>t. target_key t = sync_key planRef (sg_Name stage) (cl_Name mc)) (rk_Targets s)")
      case True
      with that [of "[]"] show ?thesis by (simp add: upsert_target_rows)
    next
      case False
      with that [of "[bound_view planRef stage mc]"] show ?thesis by (simp add: upsert_target_rows)
    qed
    ultimately show ?case by (intro exI [of _ "new1 @ new"]) auto
  next
    case 2
    show ?case using Cons.IH(2) [OF rows_distinct_upsert [OF 2]] by simp
  }
qed simp_all

section \<open>The stage strategy\<close>

definition active_rows :: "string \<Rightarrow> stage \<Rightarrow> cluster list \<Rightarrow> target_execution_state list \<Rightarrow> nat" where
  "active_rows planRef stage mcs ts =
     length (filter (\<lambda>t. \<not> planning_target_terminal (te_Phase t)) (stage_entries planRef (sg_Name stage) (map cl_Name mcs) ts))"

lemma active_rows_bind:
  "active_rows planRef stage mcs (rk_Targets (fold (upsert_target planRef plan stage gate) binds s)) \<le>
     active_rows planRef stage mcs (rk_Targets s) + length binds"
proof -
  obtain new where new: "map view (rk_Targets (fold (upsert_target planRef plan stage gate) binds s)) =
      map view (rk_Targets s) @ new" "length new \<le> length binds"
    using fold_upsert_rows(1) by blast
  let ?Q = "view_of_stage planRef (sg_Name stage) (map cl_Name mcs) (\<lambda>p. \<not> planning_target_terminal p)"
  have "length (filter ?Q new) \<le> length binds" using new(2) length_filter_le [of ?Q new] by linarith
  then show ?thesis
    unfolding active_rows_def count_view [where P = "\<lambda>p. \<not> planning_target_terminal p"] new(1) by simp
qed

text \<open>C29. A stage with a parallelism limit never binds beyond it: among its planned clusters the
  number of unfinished targets after binding is at most the limit, or what it already was; and the
  clusters that are neither bound before nor bound now are exactly the deferred ones, each with its
  decision, and none is deferred while there is room.\<close>

theorem stage_strategy_bounds_parallelism:
  assumes "sg_Strategy stage = Some st" and "0 < sp_MaxParallel st"
    and "apply_stage_strategy (rk_Targets s) planRef stage mcs = (binds, deferred, ds)"
  shows "int (active_rows planRef stage mcs (rk_Targets (fold (upsert_target planRef plan stage gate) binds s))) \<le>
       max (sp_MaxParallel st) (int (active_rows planRef stage mcs (rk_Targets s))) \<and>
     (\<exists>rest. binds @ rest = filter (\<lambda>mc. \<forall>t \<in> set (rk_Targets s). \<not> (te_PlanRef t = planRef \<and> te_Stage t = sg_Name stage \<and>
                               te_Target t = cl_Name mc)) mcs \<and>
        deferred = int (length rest) \<and> map pd_Target ds = map cl_Name rest \<and>
        (rest \<noteq> [] \<longrightarrow> sp_MaxParallel st \<le> int (active_rows planRef stage mcs (rk_Targets s)) + int (length binds)))"
proof -
  let ?entries = "stage_entries planRef (sg_Name stage) (map cl_Name mcs) (rk_Targets s)"
  let ?active = "active_rows planRef stage mcs (rk_Targets s)"
  let ?cap = "nat (sp_MaxParallel st - int ?active)"
  let ?unbound = "filter (\<lambda>mc. cl_Name mc \<notin> te_Target ` set ?entries) mcs"
  have r: "binds = take ?cap ?unbound" "deferred = int (length (drop ?cap ?unbound))"
      "ds = map (max_parallel_decision (sp_MaxParallel st)) (drop ?cap ?unbound)"
    using assms by (auto simp: apply_stage_strategy_def Let_def active_rows_def)
  have "length binds \<le> ?cap" by (simp add: r)
  then have "int (active_rows planRef stage mcs (rk_Targets (fold (upsert_target planRef plan stage gate) binds s))) \<le>
      max (sp_MaxParallel st) (int ?active)"
    using active_rows_bind [of planRef stage mcs plan gate binds s] by linarith
  moreover have "?unbound = filter (\<lambda>mc. \<forall>t \<in> set (rk_Targets s). \<not> (te_PlanRef t = planRef \<and> te_Stage t = sg_Name stage \<and>
                               te_Target t = cl_Name mc)) mcs"
    by (rule filter_cong) (force simp: stage_entries_def)+
  moreover have "drop ?cap ?unbound \<noteq> [] \<Longrightarrow> sp_MaxParallel st \<le> int ?active + int (length binds)"
    by (auto simp: r)
  ultimately show ?thesis
    by (intro conjI exI [of _ "drop ?cap ?unbound"]) (simp_all add: r max_parallel_decision_def comp_def)
qed

theorem stage_strategy_bounds_parallelism_witness:
  "apply_stage_strategy [sample_entry ''eu-1'' PhaseApplying] ''p'' canary_stage
       [labelled ''eu-1'' ''canary'', labelled ''eu-2'' ''canary''] =
     ([], 1, [max_parallel_decision 1 (labelled ''eu-2'' ''canary'')]) \<and>
   int (active_rows ''p'' canary_stage [labelled ''eu-1'' ''canary'', labelled ''eu-2'' ''canary'']
     (rk_Targets (sample_run_tick [sample_entry ''eu-1'' PhaseApplying]))) \<le> 1"
proof -
  let ?mcs = "[labelled ''eu-1'' ''canary'', labelled ''eu-2'' ''canary'']"
  let ?s = "sample_run_tick [sample_entry ''eu-1'' PhaseApplying]"
  have a: "apply_stage_strategy [sample_entry ''eu-1'' PhaseApplying] ''p'' canary_stage ?mcs =
      ([], 1, [max_parallel_decision 1 (labelled ''eu-2'' ''canary'')])"
    by (simp add: apply_stage_strategy_def Let_def canary_stage_def labelled_def named_def sample_entry_def empty_target_def
        stage_entries_def planning_target_terminal_def)
  have "sg_Strategy canary_stage = Some \<lparr>sp_MaxParallel = 1, sp_MaxUnavailable = 0\<rparr>" by (simp add: canary_stage_def)
  from stage_strategy_bounds_parallelism [OF this, where s = ?s and planRef = "''p''" and mcs = ?mcs
      and plan = sample_plan and gate = None] a
  have "int (active_rows ''p'' canary_stage ?mcs (rk_Targets ?s)) \<le>
      max 1 (int (active_rows ''p'' canary_stage ?mcs (rk_Targets ?s)))"
    by (simp add: sample_run_tick_def)
  moreover have "active_rows ''p'' canary_stage ?mcs (rk_Targets ?s) = 1"
    by (simp add: active_rows_def canary_stage_def labelled_def named_def sample_entry_def empty_target_def
        stage_entries_def planning_target_terminal_def sample_run_tick_def)
  ultimately show ?thesis using a by simp
qed

text \<open>The limit counts planned clusters only. When a cluster leaves the planned set while its
  target is running (it turned unready, say), the stage binds another one: here the limit is one,
  one target is applying, and the stage binds a second.\<close>

lemma max_parallel_ignores_unplanned_rows:
  "fst (apply_stage_strategy [sample_entry ''eu-1'' PhaseApplying] ''p'' canary_stage [labelled ''eu-2'' ''canary'']) =
     [labelled ''eu-2'' ''canary''] \<and>
   length (filter (\<lambda>t. \<not> planning_target_terminal (te_Phase t)) (rk_Targets
     (upsert_target ''p'' sample_plan canary_stage None (labelled ''eu-2'' ''canary'')
       (sample_run_tick [sample_entry ''eu-1'' PhaseApplying])))) = 2 \<and>
   sg_Strategy canary_stage = Some \<lparr>sp_MaxParallel = 1, sp_MaxUnavailable = 0\<rparr>"
proof -
  have "map te_Phase (rk_Targets (upsert_target ''p'' sample_plan canary_stage None (labelled ''eu-2'' ''canary'')
       (sample_run_tick [sample_entry ''eu-1'' PhaseApplying]))) = [PhaseApplying, PhaseNone]"
    by code_simp
  from arg_cong [where f = "\<lambda>ps. length (filter (\<lambda>p. \<not> planning_target_terminal p) ps)", OF this]
  have "length (filter (\<lambda>t. \<not> planning_target_terminal (te_Phase t)) (rk_Targets
     (upsert_target ''p'' sample_plan canary_stage None (labelled ''eu-2'' ''canary'')
       (sample_run_tick [sample_entry ''eu-1'' PhaseApplying])))) = 2"
    by (simp add: filter_map comp_def planning_target_terminal_def)
  then show ?thesis
    by (simp add: apply_stage_strategy_def Let_def canary_stage_def labelled_def named_def sample_entry_def empty_target_def
        stage_entries_def planning_target_terminal_def)
qed

section \<open>Completion\<close>

lemma derive_stage_phase_complete:
  assumes "derive_stage_phase env planRef plan stage n synced failed acc s = (Inr (phase, acc'), s')"
    and "phase = ''Complete''"
  shows "failed = 0 \<and> synced = n \<and> acc' = acc \<and> s' = s"
  using assms by (auto simp: derive_stage_phase_def Let_def run_bind_def split: if_splits stage_failure_policy.splits prod.splits sum.splits)

lemma pigeonhole_list:
  assumes "distinct xs" "set xs \<subseteq> set ys" "length xs = length ys"
  shows "set xs = set ys"
proof -
  have "card (set xs) = length ys" using assms by (simp add: distinct_card)
  moreover have "card (set ys) \<le> length ys" by (rule card_length)
  ultimately show ?thesis using assms(2) by (metis card_seteq finite_set)
qed

lemma rows_distinct_entries:
  assumes "rows_distinct planRef name (map view ts)"
  shows "distinct (map te_Target (filter (\<lambda>t. P (te_Phase t)) (stage_entries planRef name names ts)))"
proof -
  let ?rows = "filter (\<lambda>t. P (te_Phase t)) (stage_entries planRef name names ts)"
  have "map (\<lambda>(p, st, t, ph). t) (filter (\<lambda>(p, st, t, ph). p = planRef \<and> st = name) (map view ts)) =
      map te_Target (filter (\<lambda>t. te_PlanRef t = planRef \<and> te_Stage t = name) ts)"
    by (induction ts) (auto simp: view_def)
  then have "distinct (map te_Target (filter (\<lambda>t. te_PlanRef t = planRef \<and> te_Stage t = name) ts))"
    using assms by (simp add: rows_distinct_def)
  moreover have "?rows = filter (\<lambda>t. te_Target t \<in> set names \<and> P (te_Phase t))
      (filter (\<lambda>t. te_PlanRef t = planRef \<and> te_Stage t = name) ts)"
    by (auto simp: stage_entries_def intro!: filter_cong)
  ultimately show ?thesis by (simp only: distinct_map_filter)
qed

lemma all_synced:
  assumes "rows_distinct planRef name (map view ts)"
    and "length (filter (\<lambda>t. P (te_Phase t)) (stage_entries planRef name names ts)) = length names"
  shows "\<forall>n \<in> set names. \<exists>t \<in> set ts. te_PlanRef t = planRef \<and> te_Stage t = name \<and> te_Target t = n \<and> P (te_Phase t)"
proof -
  let ?rows = "filter (\<lambda>t. P (te_Phase t)) (stage_entries planRef name names ts)"
  have "distinct (map te_Target ?rows)" by (rule rows_distinct_entries [OF assms(1)])
  moreover have "set (map te_Target ?rows) \<subseteq> set names" by (auto simp: stage_entries_def)
  ultimately have "set (map te_Target ?rows) = set names" using assms(2) by (intro pigeonhole_list) simp_all
  then show ?thesis by (force simp: stage_entries_def)
qed

text \<open>C7. A stage with planned clusters is reported Complete only when every one of them has a row in
  the buffer that was Converged or Skipped before this pass; rows bound in the pass never count.\<close>

theorem stage_complete_means_every_target_synced:
  assumes "reconcile_planned_stage env planRef plan stage planned acc s = (Inr acc', s')"
    and "sgp_Phase (last (sa_Progress acc')) = ''Complete''"
    and "rows_distinct planRef (sg_Name stage) (map view (rk_Targets s))"
  shows "\<forall>mc \<in> set (plan_Targets planned). \<exists>t \<in> set (rk_Targets s). te_PlanRef t = planRef \<and> te_Stage t = sg_Name stage \<and>
     te_Target t = cl_Name mc \<and> te_Phase t \<in> {PhaseConverged, PhaseSkipped}"
proof -
  let ?names = "map cl_Name (plan_Targets planned)" and ?name = "sg_Name stage"
  obtain binds deferred ds where st: "apply_stage_strategy (rk_Targets s) planRef stage (plan_Targets planned) = (binds, deferred, ds)"
    by (metis prod_cases3)
  define s1 where "s1 = fold (\<lambda>d. run_emit (planner_decision_trace (rk_Run s) planRef ?name d)) (plan_Decisions planned @ ds) s"
  have "rk_Targets (fold (\<lambda>d. run_emit (f d)) xs u) = rk_Targets u" for f :: "planner_decision \<Rightarrow> effect" and xs and u :: "'a run_tick"
    by (induction xs arbitrary: u) simp_all
  then have s1: "rk_Targets s1 = rk_Targets s" by (simp add: s1_def)
  obtain gate where g: "resolve_stage_gate plan stage = Inr gate"
    using assms(1) st by (cases "resolve_stage_gate plan stage") (auto simp: reconcile_planned_stage_def Let_def)
  define s2 where s2: "s2 = fold (upsert_target planRef plan stage gate) binds s1"
  define synced where "synced = length (filter (\<lambda>t. synced_phase (te_Phase t)) (stage_entries planRef ?name ?names (rk_Targets s2)))"
  define failed where "failed = length (filter (\<lambda>t. te_Phase t = PhaseFailed) (stage_entries planRef ?name ?names (rk_Targets s2)))"
  obtain phase acc1 s3 where d: "derive_stage_phase env planRef plan stage (length (plan_Targets planned)) synced failed acc s2 =
      (Inr (phase, acc1), s3)"
    using assms(1) unfolding reconcile_planned_stage_def st g Let_def prod.case sum.case s1_def [symmetric] s2 [symmetric]
      synced_def [symmetric] failed_def [symmetric]
    by (auto split: prod.splits sum.splits)
  have phase: "phase = sgp_Phase (last (sa_Progress acc'))"
    using assms(1) unfolding reconcile_planned_stage_def st g Let_def prod.case sum.case s1_def [symmetric] s2 [symmetric]
      synced_def [symmetric] failed_def [symmetric]
    by (auto simp: d empty_stage_progress_def)
  have dist: "rows_distinct planRef ?name (map view (rk_Targets s2))"
    unfolding s2 by (rule fold_upsert_rows(2)) (simp add: s1 assms(3))
  have synced: "length (filter (\<lambda>t. synced_phase (te_Phase t)) (stage_entries planRef ?name ?names (rk_Targets s2))) = length ?names"
    using derive_stage_phase_complete [OF d] phase assms(2) by (simp add: synced_def)
  obtain new where new: "map view (rk_Targets s2) = map view (rk_Targets s) @ new" "set new \<subseteq> bound_view planRef stage ` set binds"
    using fold_upsert_rows(1) [of planRef plan stage gate binds s1] by (auto simp: s2 s1)
  show ?thesis
  proof
    fix mc assume "mc \<in> set (plan_Targets planned)"
    then obtain t where t: "t \<in> set (rk_Targets s2)" "te_PlanRef t = planRef" "te_Stage t = ?name" "te_Target t = cl_Name mc"
        "synced_phase (te_Phase t)"
      using all_synced [OF dist synced] by auto
    have "view t \<in> set (map view (rk_Targets s2))" using t(1) by simp
    moreover have "view t \<notin> set new" using new(2) t(5) by (auto simp: bound_view_def view_def synced_phase_def)
    ultimately obtain u where "u \<in> set (rk_Targets s)" "view u = view t" unfolding new(1) by force
    then show "\<exists>t \<in> set (rk_Targets s). te_PlanRef t = planRef \<and> te_Stage t = ?name \<and> te_Target t = cl_Name mc \<and>
        te_Phase t \<in> {PhaseConverged, PhaseSkipped}"
      using t by (intro bexI [of _ u]) (auto simp: view_def synced_phase_def)
  qed
qed

definition finished_canary :: "sample run_tick" where
  "finished_canary = sample_run_tick [sample_entry ''eu-1'' PhaseConverged, sample_entry ''eu-2'' PhaseSkipped]"

definition planned_canary :: plan_result where
  "planned_canary = \<lparr>plan_Targets = [labelled ''eu-1'' ''canary'', labelled ''eu-2'' ''canary''], plan_Decisions = []\<rparr>"

definition empty_pass :: stage_pass where
  "empty_pass = \<lparr>sa_Progress = [], sa_AllComplete = True, sa_AnyFailed = False, sa_NextRequeue = 0, sa_Cancels = []\<rparr>"

theorem stage_complete_means_every_target_synced_witness:
  "\<exists>acc' s'. reconcile_planned_stage sample_run_env ''p'' sample_plan canary_stage planned_canary empty_pass finished_canary =
      (Inr acc', s') \<and> sgp_Phase (last (sa_Progress acc')) = ''Complete'' \<and>
      (\<exists>t \<in> set (rk_Targets finished_canary). te_Target t = ''eu-2'' \<and> te_Phase t \<in> {PhaseConverged, PhaseSkipped})"
proof -
  let ?r = "reconcile_planned_stage sample_run_env ''p'' sample_plan canary_stage planned_canary empty_pass finished_canary"
  have "case fst ?r of Inl e \<Rightarrow> False | Inr acc \<Rightarrow> sgp_Phase (last (sa_Progress acc)) = ''Complete''" by code_simp
  then obtain acc' s' where r: "?r = (Inr acc', s')" "sgp_Phase (last (sa_Progress acc')) = ''Complete''"
    by (cases ?r) (auto split: sum.splits)
  have "rows_distinct ''p'' (sg_Name canary_stage) (map view (rk_Targets finished_canary))" by code_simp
  from stage_complete_means_every_target_synced [OF r this] show ?thesis
    using r by (auto simp: planned_canary_def labelled_def named_def)
qed

section \<open>Dependencies\<close>

definition soaked :: "int \<Rightarrow> int \<Rightarrow> target_execution_state \<Rightarrow> bool" where
  "soaked soak now t \<longleftrightarrow> (\<exists>finished. parse_rfc3339 (te_FinishedAt t) = Some finished \<and> finished + soak \<le> now)"

lemma remaining_soaked: "soak > 0 \<Longrightarrow> dependency_soak_remaining (te_FinishedAt t) now soak \<le> 0 \<longleftrightarrow> te_FinishedAt t \<noteq> [] \<and> soaked soak now t"
  by (auto simp: dependency_soak_remaining_def soaked_def split: option.splits)

lemma parse_rfc3339_Nil: "parse_rfc3339 [] = None"
  by code_simp

lemma remaining_soaked': "soak > 0 \<Longrightarrow> dependency_soak_remaining (te_FinishedAt t) now soak \<le> 0 \<longleftrightarrow> soaked soak now t"
  using remaining_soaked [of soak t now] by (auto simp: soaked_def parse_rfc3339_Nil)

lemma dependency_scan_any:
  "soak > 0 \<Longrightarrow> dependency_scan True soak now ts n w = Inl () \<longleftrightarrow>
     (\<exists>t \<in> set ts. dependency_target_succeeded (te_Phase t) \<and> soaked soak now t)"
  by (induction ts arbitrary: n w) (auto simp: Let_def remaining_soaked')

lemma dependency_scan_all:
  assumes "soak > 0" "w \<ge> 0" "dependency_scan False soak now ts n w = r"
  shows "\<exists>n' w'. r = Inr (n', w') \<and> n' = n + length (filter (\<lambda>t. dependency_target_succeeded (te_Phase t)) ts) \<and> w' \<ge> 0 \<and>
     (w' = 0 \<longleftrightarrow> w = 0 \<and> (\<forall>t \<in> set ts. dependency_target_succeeded (te_Phase t) \<longrightarrow> soaked soak now t))"
  using assms(2,3)
proof (induction ts arbitrary: n w)
  case (Cons t ts)
  let ?r = "dependency_soak_remaining (te_FinishedAt t) now soak"
  consider "\<not> dependency_target_succeeded (te_Phase t)" | "dependency_target_succeeded (te_Phase t)" "?r \<le> 0" |
    "dependency_target_succeeded (te_Phase t)" "?r > 0" by linarith
  then show ?case
  proof cases
    case 1
    then show ?thesis using Cons by simp
  next
    case 2
    then show ?thesis using Cons.IH [of w "Suc n"] Cons.prems assms(1) remaining_soaked' [OF assms(1), of t now]
      by (simp add: Let_def)
  next
    case 3
    let ?w = "if w = 0 \<or> ?r < w then ?r else w"
    have w: "?w > 0" using 3 Cons.prems(1) by auto
    have "dependency_scan False soak now ts (Suc n) ?w = r"
      using Cons.prems(2) 3 assms(1) by (simp add: Let_def split: if_splits)
    from Cons.IH [OF less_imp_le [OF w] this] obtain n' w' where "r = Inr (n', w')"
        "n' = Suc n + length (filter (\<lambda>t. dependency_target_succeeded (te_Phase t)) ts)" "w' \<ge> 0"
        "w' = 0 \<longrightarrow> ?w = 0"
      by blast
    moreover from this(4) w have "w' \<noteq> 0" by linarith
    ultimately show ?thesis using 3 remaining_soaked' [OF assms(1), of t now] by auto
  qed
qed force

lemma stage_entries_idem: "stage_entries p st names (stage_entries p st names ts) = stage_entries p st names ts"
  by (simp add: stage_entries_def)

text \<open>C11. A dependency with a soak time lets the next stage start only after the soak: with strategy
  all, every cluster planned for the dependency has a Converged or Skipped row that finished at
  least the soak time ago; with strategy any, one row has.\<close>

theorem dependency_waits_for_soak:
  assumes "sd_RequiredSoakTime dep = Some soak" "0 < soak" and "distinct names"
    and "rows_distinct planRef (sd_Stage dep) (map view ts)"
    and "dependency_verdict dep names now (stage_entries planRef (sd_Stage dep) names ts) = Inr (True, wait)"
  shows "if sd_Strategy dep = StrategyAny
    then \<exists>t \<in> set ts. te_PlanRef t = planRef \<and> te_Stage t = sd_Stage dep \<and> te_Target t \<in> set names \<and>
           te_Phase t \<in> {PhaseConverged, PhaseSkipped} \<and> soaked soak now t
    else \<forall>n \<in> set names. \<exists>t \<in> set ts. te_PlanRef t = planRef \<and> te_Stage t = sd_Stage dep \<and> te_Target t = n \<and>
           te_Phase t \<in> {PhaseConverged, PhaseSkipped} \<and> soaked soak now t"
proof -
  let ?es = "stage_entries planRef (sd_Stage dep) names ts"
  have succ: "dependency_target_succeeded p \<longleftrightarrow> p \<in> {PhaseConverged, PhaseSkipped}" for p
    by (auto simp: dependency_target_succeeded_def)
  show ?thesis
  proof (cases "sd_Strategy dep = StrategyAny")
    case True
    then have "dependency_scan True soak now ?es 0 0 = Inl ()"
      using assms(1,5) by (auto simp: dependency_verdict_def Let_def split: sum.splits)
    then show ?thesis using True dependency_scan_any [OF assms(2)] by (auto simp: succ stage_entries_def)
  next
    case False
    let ?k = "length (filter (\<lambda>t. dependency_target_succeeded (te_Phase t)) ?es)"
    obtain w' where scan: "dependency_scan False soak now ?es 0 0 = Inr (?k, w')"
        "w' = 0 \<longleftrightarrow> (\<forall>t \<in> set ?es. dependency_target_succeeded (te_Phase t) \<longrightarrow> soaked soak now t)"
      using dependency_scan_all [OF assms(2), of 0 now ?es 0] by auto
    have v: "card (set names) \<le> ?k" "w' = 0"
      using assms(1,5) False scan(1)
      by (auto simp: dependency_verdict_def Let_def split: sum.splits if_splits dependency_strategy.splits)
    have "?k \<le> length names"
    proof -
      have "distinct (map te_Target (filter (\<lambda>t. dependency_target_succeeded (te_Phase t)) ?es))"
        by (rule rows_distinct_entries [OF assms(4)])
      moreover have "set (map te_Target (filter (\<lambda>t. dependency_target_succeeded (te_Phase t)) ?es)) \<subseteq> set names"
        by (auto simp: stage_entries_def)
      ultimately show ?thesis by (metis card_mono distinct_card finite_set length_map assms(3))
    qed
    with v(1) assms(3) have "?k = length names" by (simp add: distinct_card)
    from all_synced [OF assms(4) this] have "\<forall>n \<in> set names. \<exists>t \<in> set ts. te_PlanRef t = planRef \<and> te_Stage t = sd_Stage dep \<and>
        te_Target t = n \<and> dependency_target_succeeded (te_Phase t)" .
    moreover have "soaked soak now t" if "t \<in> set ts" "te_PlanRef t = planRef" "te_Stage t = sd_Stage dep" "te_Target t \<in> set names"
        "dependency_target_succeeded (te_Phase t)" for t
      using scan(2) v(2) that by (auto simp: stage_entries_def)
    ultimately have "\<forall>n \<in> set names. \<exists>t \<in> set ts. te_PlanRef t = planRef \<and> te_Stage t = sd_Stage dep \<and> te_Target t = n \<and>
        dependency_target_succeeded (te_Phase t) \<and> soaked soak now t" by metis
    then show ?thesis using False unfolding succ by simp
  qed
qed

definition soaked_row :: "string \<Rightarrow> target_execution_state" where
  "soaked_row name = (sample_entry name PhaseConverged)\<lparr>te_FinishedAt := ''2023-11-14T21:00:00Z''\<rparr>"

theorem dependency_waits_for_soak_witness:
  "dependency_verdict canary_dependency [''eu-1'', ''eu-2''] (1700000000 * second)
     (stage_entries ''p'' ''canary'' [''eu-1'', ''eu-2''] [soaked_row ''eu-1'', soaked_row ''eu-2'']) = Inr (True, 0) \<and>
   (\<exists>t \<in> set [soaked_row ''eu-1'', soaked_row ''eu-2'']. te_Target t = ''eu-2'' \<and> soaked (10 * minute) (1700000000 * second) t)"
proof -
  let ?ts = "[soaked_row ''eu-1'', soaked_row ''eu-2'']" and ?names = "[''eu-1'', ''eu-2'']"
  have dep: "sd_RequiredSoakTime canary_dependency = Some (10 * minute)" "sd_Stage canary_dependency = ''canary''"
      "sd_Strategy canary_dependency \<noteq> StrategyAny"
    by (simp_all add: canary_dependency_def)
  have pos: "0 < 10 * minute" by (simp add: duration_units)
  have rows: "rows_distinct ''p'' ''canary'' (map view ?ts)" by code_simp
  have v: "dependency_verdict canary_dependency ?names (1700000000 * second) (stage_entries ''p'' ''canary'' ?names ?ts) = Inr (True, 0)"
    by code_simp
  have "\<forall>n \<in> set ?names. \<exists>t \<in> set ?ts. te_PlanRef t = ''p'' \<and> te_Stage t = ''canary'' \<and> te_Target t = n \<and>
      te_Phase t \<in> {PhaseConverged, PhaseSkipped} \<and> soaked (10 * minute) (1700000000 * second) t"
    using dependency_waits_for_soak [where dep = canary_dependency and names = ?names and ts = ?ts and planRef = "''p''"
        and now = "1700000000 * second" and wait = 0, OF dep(1) pos] rows v dep(2,3)
    by simp
  then have "\<exists>t \<in> set ?ts. te_Target t = ''eu-2'' \<and> soaked (10 * minute) (1700000000 * second) t"
    by (metis list.set_intros(1) list.set_intros(2))
  with v show ?thesis by blast
qed

section \<open>Empty stages\<close>

definition out_of_plan :: "'w run_env \<Rightarrow> promotion_run \<Rightarrow> cluster \<Rightarrow> bool" where
  "out_of_plan env run c \<longleftrightarrow> cs_Suspend (cl_Spec c) \<or> \<not> in_scope run c \<or> unready (rv_Kube env) c \<or>
     (cst_ActivePromotionRun (cl_Status c) \<noteq> [] \<and> cst_ActivePromotionRun (cl_Status c) \<noteq> run_Name run)"

lemma fold_emit_keeps:
  "rk_Run (fold (\<lambda>c. run_emit (f c)) xs s) = rk_Run s" "rk_World (fold (\<lambda>c. run_emit (f c)) xs s) = rk_World s"
  "rk_Targets (fold (\<lambda>c. run_emit (f c)) xs s) = rk_Targets s"
  by (induction xs arbitrary: s) simp_all

lemma plan_targets_none:
  assumes "rv_Planner env = None" and "kb_SelectorError (rv_Kube env) (sg_Selector stage) = None"
    and "prs_FleetRef (run_Spec (rk_Run s)) = []"
    and "kb_ListClusters (rv_Kube env) (sg_Selector stage) (rk_World s) = (Inr clusters, w)"
    and "\<forall>c \<in> set clusters. out_of_plan env (rk_Run s) c"
  shows "\<exists>ds s'. plan_targets_for_stage env planRef plan stage s = (Inr \<lparr>plan_Targets = [], plan_Decisions = ds\<rparr>, s') \<and>
     rk_Targets s' = rk_Targets s"
proof -
  let ?raw = "filter (in_scope (rk_Run s)) (filter (\<lambda>mc. \<not> cs_Suspend (cl_Spec mc)) clusters)"
  obtain s1 where raw: "list_raw_targets_for_stage env stage s = (Inr ?raw, s1)" "rk_Run s1 = rk_Run s" "rk_Targets s1 = rk_Targets s"
    using assms by (simp add: list_raw_targets_for_stage_def restrict_to_fleet_def run_bind_def Let_def fold_emit_keeps)
  let ?req = "\<lparr>rq_PromotionRun = Some (rk_Run s1), rq_PlanRefName = planRef, rq_Plan = Some plan, rq_Stage = stage\<rparr>"
  have "filter (plannable (rv_Kube env) ?req) ?raw = []"
    using assms(5) raw(2) by (auto simp: filter_empty_conv plannable_def claimed_by_other_def out_of_plan_def)
  then have none: "sort_key cl_Name (filter (plannable (rv_Kube env) ?req) ?raw) = []" by simp
  obtain ds where "plan_with_result (new_default_framework (rv_Kube env)) ([] :: smap, rk_World s1) ?req ?raw =
      ((None, \<lparr>plan_Targets = [], plan_Decisions = ds\<rparr>), ([], rk_World s1))"
    using default_plan [where kb = "rv_Kube env" and s = "([] :: smap, rk_World s1)" and req = ?req and targets = ?raw]
    unfolding none by blast
  then show ?thesis
    using raw assms(1) by (simp add: plan_targets_for_stage_def run_bind_def Let_def)
qed

text \<open>A stage is Complete when nothing of it can be planned: if every cluster its selector finds is
  suspended, out of scope, reported unready or claimed by another run, a stage without dependencies
  is reported Complete with a total of zero and no target is bound, so the stages after it start.\<close>

theorem stage_without_plannable_clusters_completes:
  assumes "rv_Planner env = None" and "kb_SelectorError (rv_Kube env) (sg_Selector stage) = None"
    and "prs_FleetRef (run_Spec (rk_Run s)) = []" and "sg_DependsOn stage = []"
    and "kb_ListClusters (rv_Kube env) (sg_Selector stage) (rk_World s) = (Inr clusters, w)"
    and "\<forall>c \<in> set clusters. out_of_plan env (rk_Run s) c"
  shows "\<exists>row s'. reconcile_stage env planRef plan stage acc s = (Inr (acc\<lparr>sa_Progress := sa_Progress acc @ [row]\<rparr>), s') \<and>
     sgp_Phase row = ''Complete'' \<and> sgp_Total row = 0 \<and> rk_Targets s' = rk_Targets s"
proof -
  obtain ds s' where "plan_targets_for_stage env planRef plan stage s = (Inr \<lparr>plan_Targets = [], plan_Decisions = ds\<rparr>, s')"
      "rk_Targets s' = rk_Targets s"
    using plan_targets_none [OF assms(1-3,5,6)] by blast
  then show ?thesis
    using assms(4)
    by (intro exI [of _ "(empty_stage_progress (sg_Name stage) ''Complete'')\<lparr>sgp_PlannerResults := api_planner_results ds\<rparr>"]
        exI [of _ s'])
      (simp add: reconcile_stage_def run_bind_def run_wrap_def run_return_def Let_def empty_stage_progress_def)
qed

theorem stage_without_plannable_clusters_completes_witness:
  "\<exists>row s'. reconcile_stage sample_run_env ''p'' sample_plan (prod_stage\<lparr>sg_DependsOn := []\<rparr>) empty_pass (sample_run_tick []) =
     (Inr (empty_pass\<lparr>sa_Progress := sa_Progress empty_pass @ [row]\<rparr>), s') \<and> sgp_Phase row = ''Complete''"
proof -
  let ?stage = "prod_stage\<lparr>sg_DependsOn := []\<rparr>"
  have l: "kb_ListClusters (rv_Kube sample_run_env) (sg_Selector ?stage) (rk_World (sample_run_tick [])) =
      (Inr [claimed ''r9'' (labelled ''us-1'' ''prod'')], run_sample_world)"
    by (simp add: sample_run_env_def run_sample_kube_def sample_kube_def sample_run_tick_def run_sample_world_def prod_stage_def
        sample_selector_def labelled_def claimed_def named_def sample_cluster_def smap_get_def)
  have "\<exists>row s'. reconcile_stage sample_run_env ''p'' sample_plan ?stage empty_pass (sample_run_tick []) =
      (Inr (empty_pass\<lparr>sa_Progress := sa_Progress empty_pass @ [row]\<rparr>), s') \<and>
      sgp_Phase row = ''Complete'' \<and> sgp_Total row = 0 \<and> rk_Targets s' = rk_Targets (sample_run_tick [])"
  proof (rule stage_without_plannable_clusters_completes [OF _ _ _ _ l])
    show "\<forall>c \<in> set [claimed ''r9'' (labelled ''us-1'' ''prod'')]. out_of_plan sample_run_env (rk_Run (sample_run_tick [])) c"
      by (simp add: out_of_plan_def claimed_def labelled_def named_def sample_cluster_def sample_run_tick_def
          sample_promotion_def sample_run_def)
  qed (simp_all add: sample_run_env_def run_sample_kube_def sample_kube_def sample_run_tick_def sample_promotion_def sample_run_def)
  then show ?thesis by blast
qed

end
