(* ===== verification/Run_Frame.thy ===== *)
theory Run_Frame
  imports Run_Sample
begin

text \<open>
  What every operation of the run controller leaves alone: the phase of the run changes in
  \<^verbatim>\<open>setRunPhase\<close> only, and no operation but that one can report an undeclared transition. The status
  patch is assumed to answer with the phase it was sent. Each operation is proved steady once; a
  handler is then a chain of steady operations around at most one change of phase.
\<close>

named_theorems steady_intros

section \<open>Steady operations\<close>

abbreviation phase_of_run :: "'w run_tick \<Rightarrow> run_phase" where
  "phase_of_run s \<equiv> rst_Phase (run_Status (rk_Run s))"

definition declared_effect :: "effect \<Rightarrow> bool" where
  "declared_effect e \<longleftrightarrow> (case e of FsmUnexpected a b \<Rightarrow> False | _ \<Rightarrow> True)"

lemma declared_effect_simps [simp]:
  "declared_effect (RunEvent a b c)" "declared_effect (TraceEmitted t)" "declared_effect (Notified n p)"
  "declared_effect (StageCloudEvent a b c d e')" "declared_effect (WaveCloudEvent a b c d)"
  "declared_effect (ApplyDeltaCalled k r)" "declared_effect (RollbackCalled k mc v a)" "\<not> declared_effect (FsmUnexpected a b)"
  by (simp_all add: declared_effect_def)

lemma declared_run_trace [simp]: "declared_effect (run_trace run p st t ev src ph r m es)"
  by (simp add: run_trace_def)

definition grows :: "'w run_tick \<Rightarrow> 'w run_tick \<Rightarrow> bool" where
  "grows s s' \<longleftrightarrow> (\<exists>new. rk_Log s' = rk_Log s @ new \<and> list_all declared_effect new)"

definition steady :: "'w run_tick \<Rightarrow> 'w run_tick \<Rightarrow> bool" where
  "steady s s' \<longleftrightarrow> grows s s' \<and> phase_of_run s' = phase_of_run s"

lemma grows_refl [simp]: "grows s s" by (simp add: grows_def)

lemma grows_trans: "grows a b \<Longrightarrow> grows b c \<Longrightarrow> grows a c"
  by (auto simp: grows_def)

lemma steady_refl [simp, steady_intros]: "steady s s" by (simp add: steady_def)

lemma steady_trans: "steady a b \<Longrightarrow> steady b c \<Longrightarrow> steady a c"
  by (auto simp: steady_def intro: grows_trans)

lemma steady_emit [steady_intros]: "steady s x \<Longrightarrow> declared_effect e \<Longrightarrow> steady s (run_emit e x)"
  by (auto simp: steady_def grows_def)

lemma steady_world [steady_intros]: "steady s x \<Longrightarrow> steady s (run_world w x)"
  by (simp add: steady_def grows_def)

lemma steady_targets [steady_intros]: "steady s x \<Longrightarrow> steady s (set_targets ts x)"
  by (simp add: steady_def grows_def)

lemma steady_status [steady_intros]: "steady s x \<Longrightarrow> (\<And>st. rst_Phase (g st) = rst_Phase st) \<Longrightarrow> steady s (upd_status g x)"
  by (simp add: steady_def grows_def)

lemma steady_fold: "(\<And>a x. steady s x \<Longrightarrow> steady s (f a x)) \<Longrightarrow> steady s x \<Longrightarrow> steady s (fold f as x)"
  by (induction as arbitrary: x) simp_all

text \<open>Operations that can fail.\<close>

definition steady_op :: "('w, 'a) run_op \<Rightarrow> bool" where
  "steady_op m \<longleftrightarrow> (\<forall>s. steady s (snd (m s)))"

lemma steady_opI: "(\<And>s. steady s (snd (m s))) \<Longrightarrow> steady_op m"
  by (simp add: steady_op_def)

lemma steady_opD: "steady_op m \<Longrightarrow> steady s x \<Longrightarrow> steady s (snd (m x))"
  by (metis steady_op_def steady_trans)

lemma steady_op_bind: "steady_op m \<Longrightarrow> (\<And>a. steady_op (f a)) \<Longrightarrow> steady_op (run_bind m f)"
  unfolding steady_op_def run_bind_def by (force split: prod.split sum.split intro: steady_trans)

lemma snd_run_wrap: "snd (run_wrap p m s) = snd (m s)"
  by (simp add: run_wrap_def split: prod.split sum.split)

lemma steady_op_wrap: "steady_op m \<Longrightarrow> steady_op (run_wrap p m)"
  by (simp add: steady_op_def snd_run_wrap)

lemma steady_op_return: "steady_op (run_return a)"
  by (simp add: steady_op_def run_return_def)

lemma steady_bind: "steady_op m \<Longrightarrow> (\<And>a. steady_op (f a)) \<Longrightarrow> steady s x \<Longrightarrow> steady s (snd (run_bind m f x))"
  by (rule steady_opD [OF steady_op_bind])

lemmas steady_ops = steady_op_bind steady_op_wrap steady_op_return

section \<open>State and events\<close>

lemma steady_conditions [steady_intros]:
  "steady s x \<Longrightarrow> steady s (set_promotionrun_ready_condition env a b c x)"
  "steady s x \<Longrightarrow> steady s (set_reconciling_condition env a b c x)"
  "steady s x \<Longrightarrow> steady s (set_stalled_condition env b c x)"
  "steady s x \<Longrightarrow> steady s (clear_stalled_condition env x)"
  by (auto simp: set_promotionrun_ready_condition_def set_reconciling_condition_def set_stalled_condition_def
      clear_stalled_condition_def set_run_condition_def intro!: steady_intros)

lemma steady_fields [steady_intros]:
  "steady s x \<Longrightarrow> steady s (observe_generation x)"
  "steady s x \<Longrightarrow> steady s (stamp_completed env x)"
  "steady s x \<Longrightarrow> steady s (ensure_promotionrun_summary x)"
  "steady s x \<Longrightarrow> steady s (set_promotionrun_summaries env ts x)"
  "steady s x \<Longrightarrow> steady s (append_audit_entry env x)"
  by (auto simp: observe_generation_def stamp_completed_def ensure_promotionrun_summary_def set_promotionrun_summaries_def
      append_audit_entry_def Let_def intro!: steady_intros)

lemma steady_events [steady_intros]:
  "steady s x \<Longrightarrow> steady s (publish_wave_event env a b c d x)"
  "steady s x \<Longrightarrow> steady s (publish_stage_event env a b c d e x)"
  "steady s x \<Longrightarrow> steady s (notify_promotionrun_event env a b x)"
  "steady s x \<Longrightarrow> steady s (notify_stage_event env a b c d x)"
  by (auto simp: publish_wave_event_def publish_stage_event_def notify_promotionrun_event_def notify_stage_event_def Let_def
      intro!: steady_intros split: prod.split)

section \<open>Targets\<close>

lemma steady_load: "steady_op (load_promotion_targets env)"
  by (rule steady_opI) (auto simp: load_promotion_targets_def intro!: steady_intros split: prod.split sum.split)

lemma steady_upsert [steady_intros]: "steady s x \<Longrightarrow> steady s (upsert_target planRef plan stage gate mc x)"
  by (auto simp: upsert_target_def Let_def intro!: steady_intros split: prod.split)

lemma steady_rollback_now [steady_intros]: "steady s x \<Longrightarrow> steady s (rollback_now env t x)"
  by (simp add: rollback_now_def emit_capability_unsupported_trace_pr_def Let_def steady_intros
      split: prod.split sum.split option.split)

lemma steady_rollback [steady_intros]: "steady s x \<Longrightarrow> steady s (trigger_target_rollback env t x)"
  by (auto simp: trigger_target_rollback_def Let_def intro!: steady_intros)

lemma steady_rollbacks [steady_intros]: "steady s x \<Longrightarrow> steady s (trigger_rollback_targets env planRef plan stageName x)"
  unfolding trigger_rollback_targets_def by (rule steady_fold) (simp_all add: steady_intros)

lemma steady_cancel_pending [steady_intros]: "steady s x \<Longrightarrow> steady s (cancel_pending_target env planRef stageName rt x)"
  by (auto simp: cancel_pending_target_def Let_def intro!: steady_intros split: prod.split sum.split)

lemma steady_cancel_stage [steady_intros]: "steady s x \<Longrightarrow> steady s (cancel_pending_stage_targets env planRef stageName x)"
  unfolding cancel_pending_stage_targets_def
  by (auto intro!: steady_fold steady_intros split: prod.split sum.split)

lemma steady_mark_skipped: "steady s x \<Longrightarrow> steady s (snd (mark_skipped env planRef stageName rts x))"
  by (induction rts arbitrary: x) (simp_all add: steady_intros split: prod.split sum.split)

lemma steady_mark: "steady_op (mark_failed_stage_targets_skipped env planRef stageName)"
  by (rule steady_opI)
    (auto simp: mark_failed_stage_targets_skipped_def intro!: steady_intros steady_mark_skipped split: prod.split sum.split)

lemma steady_cancel_targets: "steady s x \<Longrightarrow> steady s (snd (cancel_targets env reason tr rts x))"
  by (induction rts arbitrary: x) (simp_all add: steady_intros split: prod.split sum.split)

lemma steady_cancel_run: "steady_op (cancel_promotionrun_targets_with_trace_reason env reason tr)"
  by (rule steady_opI)
    (auto simp: cancel_promotionrun_targets_with_trace_reason_def intro!: steady_intros steady_cancel_targets
      split: prod.split sum.split)

lemma steady_release: "steady s x \<Longrightarrow> steady s (release_clusters env seen ts x)"
  by (induction ts arbitrary: seen x) (simp_all add: steady_intros split: prod.split sum.split)

lemma steady_clear [steady_intros]: "steady s x \<Longrightarrow> steady s (clear_active_promotionrun env ts x)"
  using steady_opD [OF steady_load, of s x env]
  by (auto simp: clear_active_promotionrun_def intro!: steady_release split: prod.split sum.split)

lemma steady_persist_each: "steady s x \<Longrightarrow> steady s (snd (persist_each env existing ts x))"
  by (induction ts arbitrary: existing x) (simp_all add: Let_def steady_intros split: prod.split sum.split option.split)

lemma steady_persist: "steady_op (persist_promotion_targets env ts)"
  by (rule steady_opI)
    (auto simp: persist_promotion_targets_def intro!: steady_intros steady_persist_each split: prod.split sum.split)

section \<open>Stages\<close>

lemma steady_raw_targets:
  fixes env :: "'w run_env"
  shows "steady_op (list_raw_targets_for_stage env stage)"
proof (rule steady_opI)
  fix s :: "'w run_tick"
  have fleet: "steady_op (restrict_to_fleet env clusters)" for clusters
    by (rule steady_opI) (simp add: restrict_to_fleet_def Let_def steady_intros split: prod.split sum.split)
  have tail: "steady_op (run_bind (restrict_to_fleet env clusters) (\<lambda>inFleet s1.
      let s2 = fold (\<lambda>mc. run_emit (suspended_cluster_trace (rk_Run s1) stage mc))
                 (filter (\<lambda>mc. cs_Suspend (cl_Spec mc)) inFleet) s1
      in (Inr (filter (in_scope (rk_Run s1)) (filter (\<lambda>mc. \<not> cs_Suspend (cl_Spec mc)) inFleet)), s2)))" for clusters
    by (rule steady_op_bind [OF fleet], rule steady_opI)
      (auto simp: Let_def suspended_cluster_trace_def intro!: steady_fold steady_intros)
  obtain r w where l: "kb_ListClusters (rv_Kube env) (sg_Selector stage) (rk_World s) = (r, w)" by fastforce
  have w: "steady s (run_world w s)" by (simp add: steady_intros)
  show "steady s (snd (list_raw_targets_for_stage env stage s))"
    using steady_opD [OF tail w] w
    by (cases "kb_SelectorError (rv_Kube env) (sg_Selector stage)"; cases r) (simp_all add: list_raw_targets_for_stage_def l)
qed

lemma steady_plan: "steady_op (plan_targets_for_stage env planRef plan stage)"
  unfolding plan_targets_for_stage_def
  by (rule steady_op_bind [OF steady_raw_targets], rule steady_opI)
    (simp add: Let_def steady_intros split: prod.split option.split)

lemma steady_dependency: "steady_op (stage_dependency_satisfied env planRef plan dep)"
proof (rule steady_opI)
  fix s
  have rest: "steady_op (\<lambda>s1. let names = f planned in if g planned then (Inr a, s1) else (h planned names s1, s1))" for f g a h planned
    by (rule steady_opI) (simp add: Let_def)
  show "steady s (snd (stage_dependency_satisfied env planRef plan dep s))"
    unfolding stage_dependency_satisfied_def
    by (auto simp: steady_intros split: option.split
        intro!: steady_opD [OF steady_op_bind [OF steady_op_wrap [OF steady_plan] rest]])
qed

lemma steady_dependencies: "steady s x \<Longrightarrow> steady s (snd (check_dependencies env planRef plan deps n x))"
proof (induction deps arbitrary: n x)
  case (Cons dep deps)
  from steady_opD [OF steady_dependency Cons.prems, of env planRef plan dep] Cons.IH show ?case
    by (auto split: prod.split sum.split)
qed simp

lemma steady_derive: "steady_op (derive_stage_phase env planRef plan stage n synced failed acc)"
proof (rule steady_opI)
  fix s
  have "steady_op (run_bind (mark_failed_stage_targets_skipped env planRef (sg_Name stage)) (\<lambda>_ s1. (Inr r, s1)))" for r
    by (rule steady_op_bind [OF steady_mark], rule steady_opI) simp
  then show "steady s (snd (derive_stage_phase env planRef plan stage n synced failed acc s))"
    unfolding derive_stage_phase_def Let_def
    by (auto simp: stage_policy_trace_def intro!: steady_intros steady_opD split: stage_failure_policy.split)
qed

lemma steady_announce [steady_intros]: "steady s x \<Longrightarrow> steady s (announce_stage env planRef name phase x)"
  by (simp add: announce_stage_def Let_def steady_intros)

lemma steady_planned_stage:
  fixes env :: "'w run_env"
  shows "steady_op (reconcile_planned_stage env planRef plan stage planned acc)"
proof (rule steady_opI)
  fix s :: "'w run_tick"
  have traces: "steady s x \<Longrightarrow> steady s (fold (\<lambda>d. run_emit (planner_decision_trace run planRef name d)) ds x)"
    for run name ds and x :: "'w run_tick"
    by (rule steady_fold) (simp_all add: steady_intros planner_decision_trace_def)
  have binds: "steady s x \<Longrightarrow> steady s (fold (upsert_target planRef plan stage gate) mcs x)" for gate mcs x
    by (rule steady_fold) (simp_all add: steady_intros)
  have derive: "steady s x \<Longrightarrow> derive_stage_phase env planRef plan stage n synced failed acc x = (r, x') \<Longrightarrow> steady s x'"
    for n synced failed and x :: "'w run_tick" and r x'
    using steady_opD [OF steady_derive] by (metis snd_conv)
  show "steady s (snd (reconcile_planned_stage env planRef plan stage planned acc s))"
    unfolding reconcile_planned_stage_def Let_def
    by (auto split: prod.split sum.split intro!: steady_intros traces binds
        dest!: derive [rotated] intro: binds traces)
qed

lemma steady_stage: "steady_op (reconcile_stage env planRef plan stage acc)"
proof -
  have deps: "steady_op (check_dependencies env planRef plan deps n)" for deps n
    by (rule steady_opI) (simp add: steady_dependencies)
  show ?thesis
    unfolding reconcile_stage_def
    by (rule steady_op_bind [OF deps])
      (auto simp: Let_def split: prod.split intro!: steady_ops steady_plan steady_planned_stage)
qed

lemma steady_stages: "steady s x \<Longrightarrow> steady s (snd (reconcile_stages env planRef plan stages acc x))"
proof (induction stages arbitrary: acc x)
  case (Cons stage stages)
  from steady_opD [OF steady_stage Cons.prems, of env planRef plan stage acc] Cons.IH show ?case
    by (auto split: prod.split sum.split)
qed simp

lemma steady_plan_stages: "steady_op (reconcile_promotionplan_stages env planRef plan)"
  unfolding reconcile_promotionplan_stages_def by (rule steady_opI) (simp add: steady_stages)

section \<open>Writing the run\<close>

text \<open>A patch answers with the phase it was sent.\<close>

definition answers_phase :: "'w kube \<Rightarrow> bool" where
  "answers_phase kb \<longleftrightarrow>
     (\<forall>old new w r w'. kb_PatchRunStatus kb old new w = (Inr r, w') \<longrightarrow> rst_Phase (run_Status r) = rst_Phase (run_Status new)) \<and>
     (\<forall>old new w r w'. kb_PatchRun kb old new w = (Inr r, w') \<longrightarrow> rst_Phase (run_Status r) = rst_Phase (run_Status new))"

lemma steady_run: "steady s x \<Longrightarrow> rst_Phase (run_Status (f (rk_Run x))) = phase_of_run x \<Longrightarrow> steady s (upd_run f x)"
  by (simp add: steady_def grows_def)

lemma answers_phaseD:
  "answers_phase kb \<Longrightarrow> kb_PatchRunStatus kb old new w = (Inr r, w') \<Longrightarrow> rst_Phase (run_Status r) = rst_Phase (run_Status new)"
  "answers_phase kb \<Longrightarrow> kb_PatchRun kb old new w = (Inr r, w') \<Longrightarrow> rst_Phase (run_Status r) = rst_Phase (run_Status new)"
  unfolding answers_phase_def by blast+

lemma steady_patch: "answers_phase (rv_Kube env) \<Longrightarrow> steady_op (patch_promotionrun_status env before)"
  by (rule steady_opI)
    (auto simp: patch_promotionrun_status_def split: prod.split sum.split intro!: steady_intros steady_run
      dest: answers_phaseD(1))

lemma steady_annotate: "answers_phase (rv_Kube env) \<Longrightarrow> steady s x \<Longrightarrow> steady s (annotate_previous_version env x)"
  by (auto simp: annotate_previous_version_def Let_def split: prod.split sum.split
      intro!: steady_intros steady_run dest: answers_phaseD(2))

lemma steady_load_buffer: "steady_op (load_into_buffer env)"
  unfolding load_into_buffer_def
  by (rule steady_op_bind [OF steady_op_wrap [OF steady_load]], rule steady_opI) (simp add: steady_intros)

lemma steady_persist_buffer: "steady_op (persist_buffer env)"
  by (rule steady_opI)
    (auto simp: persist_buffer_def Let_def snd_run_wrap intro!: steady_intros steady_opD [OF steady_persist])

lemma steady_cancels [steady_intros]: "steady s x \<Longrightarrow> steady s (apply_cancels env cs x)"
  unfolding apply_cancels_def by (rule steady_fold) (auto intro!: steady_intros split: prod.split)

lemma steady_failure [steady_intros]:
  "steady s x \<Longrightarrow> steady s (set_failure_conditions env a b x)"
  "steady s x \<Longrightarrow> steady s (announce_failure env a b x)"
  "steady s x \<Longrightarrow> steady s (announce_wave env a b x)"
  by (auto simp: set_failure_conditions_def announce_failure_def announce_wave_def Let_def intro!: steady_intros)

lemma steady_progress_conditions [steady_intros]: "steady s x \<Longrightarrow> steady s (progress_conditions env b x)"
  by (auto simp: progress_conditions_def Let_def intro!: steady_intros)

section \<open>One change of phase\<close>

definition settled :: "run_phase set \<Rightarrow> 'w run_tick \<Rightarrow> 'w run_tick \<Rightarrow> bool" where
  "settled A s x \<longleftrightarrow> grows s x \<and> phase_of_run x \<in> A"

definition ends_op :: "run_phase set \<Rightarrow> 'w run_tick \<Rightarrow> ('w, 'a) run_op \<Rightarrow> bool" where
  "ends_op A s m \<longleftrightarrow> (\<forall>x. steady s x \<longrightarrow> settled A s (snd (m x)))"

lemma settled_steady: "settled A s x \<Longrightarrow> steady x y \<Longrightarrow> settled A s y"
  by (auto simp: settled_def steady_def intro: grows_trans)

lemma steady_settled: "steady s x \<Longrightarrow> phase_of_run s \<in> A \<Longrightarrow> settled A s x"
  by (simp add: settled_def steady_def)

lemma ends_op_steady: "steady_op m \<Longrightarrow> phase_of_run s \<in> A \<Longrightarrow> ends_op A s m"
  unfolding ends_op_def by (blast intro: steady_settled steady_opD)

lemma ends_op_bind:
  assumes "steady_op m" "phase_of_run s \<in> A" "\<And>a. ends_op A s (f a)"
  shows "ends_op A s (run_bind m f)"
  unfolding ends_op_def
proof (intro allI impI)
  fix x assume x: "steady s x"
  obtain r y where m: "m x = (r, y)" by fastforce
  have y: "steady s y" using steady_opD [OF assms(1) x] by (simp add: m)
  show "settled A s (snd (run_bind m f x))"
    using steady_settled [OF y assms(2)] assms(3) y by (cases r) (simp_all add: run_bind_def m ends_op_def)
qed

lemma ends_op_then:
  "ends_op A s m \<Longrightarrow> (\<And>a. steady_op (f a)) \<Longrightarrow> ends_op A s (run_bind m f)"
  unfolding ends_op_def run_bind_def
  by (auto split: prod.split sum.split) (metis settled_steady snd_conv steady_op_def)+

text \<open>The tail of a handler: the phase is set, the rest is steady.\<close>

lemma ends_op_tail:
  assumes "\<And>x. steady s x \<Longrightarrow> settled A s (f x)" and "steady_op m"
  shows "ends_op A s (\<lambda>x. m (f x))"
  unfolding ends_op_def using assms by (metis settled_steady steady_op_def)

lemma ends_op_tail_bind:
  "(\<And>x. steady s x \<Longrightarrow> settled A s (f x)) \<Longrightarrow> steady_op m \<Longrightarrow> (\<And>a. steady_op (k a)) \<Longrightarrow> ends_op A s (\<lambda>x. run_bind m k (f x))"
  by (rule ends_op_tail [OF _ steady_op_bind])

lemma set_run_phase_declared:
  "phase_of_run x = q \<Longrightarrow> (q, p) \<in> {(RunNone, RunProgressing), (RunPending, RunProgressing), (RunProgressing, RunComplete),
      (RunProgressing, RunFailed)} \<Longrightarrow>
   set_run_phase p x = upd_status (\<lambda>st. st\<lparr>rst_Phase := p\<rparr>) x"
proof -
  have "validate_transition RunNone (run_table unit_run_handlers) RunNone RunProgressing = None"
    "validate_transition RunNone (run_table unit_run_handlers) RunPending RunProgressing = None"
    "validate_transition RunNone (run_table unit_run_handlers) RunProgressing RunComplete = None"
    "validate_transition RunNone (run_table unit_run_handlers) RunProgressing RunFailed = None"
    by code_simp+
  then show "phase_of_run x = q \<Longrightarrow> (q, p) \<in> {(RunNone, RunProgressing), (RunPending, RunProgressing),
      (RunProgressing, RunComplete), (RunProgressing, RunFailed)} \<Longrightarrow> ?thesis"
    by (auto simp: set_run_phase_def Let_def)
qed

lemma settled_set_phase:
  assumes "steady s x" "phase_of_run s = q" "p \<in> A"
    and "(q, p) \<in> {(RunNone, RunProgressing), (RunPending, RunProgressing), (RunProgressing, RunComplete),
      (RunProgressing, RunFailed)}"
  shows "settled A s (set_run_phase p x)"
proof -
  have "phase_of_run x = q" using assms(1,2) by (simp add: steady_def)
  from set_run_phase_declared [OF this assms(4)] show ?thesis
    using assms(1,3) by (simp add: settled_def steady_def grows_def)
qed

section \<open>Handlers\<close>

abbreviation progressing_ends :: "run_phase set" where
  "progressing_ends \<equiv> {RunProgressing, RunComplete, RunFailed}"

lemma patch_then:
  "answers_phase (rv_Kube env) \<Longrightarrow> (\<And>x y. steady x y \<Longrightarrow> steady x (g y)) \<Longrightarrow>
   steady_op (run_bind (run_wrap p (patch_promotionrun_status env before)) (\<lambda>_ y. (Inr (h y), g y)))"
  by (rule steady_op_bind [OF steady_op_wrap [OF steady_patch]], assumption, rule steady_opI) simp

lemma ends_opD: "ends_op A s m \<Longrightarrow> settled A s (snd (m s))"
  by (simp add: ends_op_def)

lemma settled_failed:
  "steady s x \<Longrightarrow> phase_of_run s = RunProgressing \<Longrightarrow> steady (set_run_phase RunFailed x) y \<Longrightarrow> settled progressing_ends s y"
  by (rule settled_steady [OF settled_set_phase]) simp_all

lemma settled_complete:
  "steady s x \<Longrightarrow> phase_of_run s = RunProgressing \<Longrightarrow> steady (set_run_phase RunComplete x) y \<Longrightarrow> settled progressing_ends s y"
  by (rule settled_steady [OF settled_set_phase]) simp_all

lemma timeout_settles:
  assumes "answers_phase (rv_Kube env)" "phase_of_run s = RunProgressing"
  shows "settled progressing_ends s (snd (handle_timeout env s))"
proof -
  let ?msg = "''promotionrun exceeded timeout ('' @ prs_Timeout (run_Spec (rk_Run s)) @ '')''"
  have set: "settled progressing_ends s (set_failure_conditions env ''Timeout'' ?msg (set_promotionrun_summaries env
      (rk_Targets (stamp_completed env (set_run_phase RunFailed x))) (stamp_completed env (set_run_phase RunFailed x))))"
    if "steady s x" for x
    by (rule settled_failed [OF that assms(2)]) (intro steady_intros)
  have tail: "steady_op (run_bind (run_wrap ''patch PromotionRun status (timeout): '' (patch_promotionrun_status env (rk_Run s)))
      (\<lambda>_ y. (Inr no_requeue, clear_active_promotionrun env (rk_Targets y) (announce_failure env ''Timeout'' ?msg y))))"
    by (rule patch_then [OF assms(1)]) (intro steady_intros)
  show ?thesis
    unfolding handle_timeout_def Let_def cancel_promotionrun_targets_def
    by (rule ends_opD, intro ends_op_bind ends_op_tail [OF set tail] steady_load_buffer steady_op_wrap steady_cancel_run)
      (simp_all add: assms(2))
qed

lemma plan_not_found_ends:
  assumes "answers_phase (rv_Kube env)" "phase_of_run s = RunProgressing"
  shows "ends_op progressing_ends s (plan_not_found env before ref updated)"
proof -
  let ?msg = "''promotionplan '' @ pr_Plan ref @ '' referenced by plan node '' @ pr_Name ref @ '' was deleted or has not been applied''"
  let ?s3 = "\<lambda>x. upd_status (\<lambda>st. st\<lparr>rst_PlanProgress := updated @ [carried_progress ref empty_plan_progress ''Failed'']\<rparr>)
     (set_failure_conditions env ''PromotionPlanNotFound'' ?msg (stamp_completed env (observe_generation (set_run_phase RunFailed x))))"
  have set: "settled progressing_ends s (set_promotionrun_summaries env (rk_Targets (?s3 x)) (?s3 x))" if "steady s x" for x
    by (rule settled_failed [OF that assms(2)]) (intro steady_intros, simp)
  have tail: "steady_op (run_bind (run_wrap ''patch PromotionRun status (promotionplan not found): '' (patch_promotionrun_status env before))
      (\<lambda>_ y. (Inr no_requeue, clear_active_promotionrun env (rk_Targets y) (announce_failure env ''PromotionPlanNotFound'' ?msg y))))"
    by (rule patch_then [OF assms(1)]) (intro steady_intros)
  show ?thesis
    unfolding plan_not_found_def Let_def
    by (intro ends_op_bind ends_op_tail [OF set tail] steady_op_wrap steady_cancel_run) (simp_all add: assms(2))
qed

lemma plan_changed_ends:
  assumes "answers_phase (rv_Kube env)" "phase_of_run s = RunProgressing"
  shows "ends_op progressing_ends s (plan_changed env before plan observed)"
proof -
  let ?msg = "''promotionplan '' @ om_Name (pl_Meta plan) @ '' changed during promotionrun: observed generation '' @
     itoa observed @ '', current generation '' @ itoa (om_Generation (pl_Meta plan))"
  have set: "settled progressing_ends s (set_failure_conditions env ''PromotionPlanChanged'' ?msg
      (stamp_completed env (set_run_phase RunFailed x)))" if "steady s x" for x
    by (rule settled_failed [OF that assms(2)]) (intro steady_intros)
  have tail: "steady_op (run_bind (run_wrap ''patch PromotionRun status (promotionplan changed): '' (patch_promotionrun_status env before))
      (\<lambda>_ y. (Inr no_requeue, announce_failure env ''PromotionPlanChanged'' ?msg y)))"
    by (rule patch_then [OF assms(1)]) (intro steady_intros)
  show ?thesis unfolding plan_changed_def Let_def by (rule ends_op_tail [OF set tail])
qed

lemma plan_failed_ends:
  assumes "answers_phase (rv_Kube env)" "phase_of_run s = RunProgressing"
  shows "ends_op progressing_ends s (plan_failed env before ref updated cancels)"
proof -
  have set: "settled progressing_ends s (upd_status (\<lambda>st. st\<lparr>rst_PlanProgress := updated\<rparr>)
      (stamp_completed env (observe_generation (set_run_phase RunFailed x))))" if "steady s x" for x
    by (rule settled_failed [OF that assms(2)]) (intro steady_intros, simp)
  show ?thesis
    unfolding plan_failed_def Let_def
    by (rule ends_op_tail_bind [OF set steady_persist_buffer], assumption, rule steady_opI,
        rule steady_bind [OF steady_op_wrap [OF steady_patch [OF assms(1)]]], rule steady_opI)
      (auto intro!: steady_intros)
qed

text \<open>The walk over the plans: it goes on only from a steady state.\<close>

definition walks :: "'w run_tick \<Rightarrow> (go_error + ctrl_result + plan_pass) \<times> 'w run_tick \<Rightarrow> bool" where
  "walks s r \<longleftrightarrow> settled progressing_ends s (snd r) \<and> (\<forall>acc. fst r = Inr (Inr acc) \<longrightarrow> steady s (snd r))"

lemma walks_steady: "phase_of_run s = RunProgressing \<Longrightarrow> steady s x \<Longrightarrow> walks s (r, x)"
  by (simp add: walks_def steady_settled)

lemma walks_return:
  assumes "ends_op progressing_ends s m" "steady s x"
  shows "walks s (run_bind m (\<lambda>r. run_return (Inl r)) x)"
proof -
  obtain r y where "m x = (r, y)" by fastforce
  moreover from this assms have "settled progressing_ends s y" by (metis ends_op_def snd_conv)
  ultimately show ?thesis by (cases r) (simp_all add: walks_def run_bind_def run_return_def)
qed

lemma eligible_plan_walks:
  assumes "answers_phase (rv_Kube env)" "phase_of_run s = RunProgressing" "steady s x"
  shows "walks s (reconcile_eligible_plan env before ref plan acc x)"
proof -
  obtain r y where st: "reconcile_promotionplan_stages env (pr_Name ref) plan x = (r, y)" by fastforce
  have y: "steady s y" using steady_opD [OF steady_plan_stages assms(3), of env "pr_Name ref" plan] by (simp add: st)
  show ?thesis
  proof (cases r)
    case (Inl e)
    then show ?thesis using walks_steady [OF assms(2) y] by (simp add: reconcile_eligible_plan_def run_bind_def st)
  next
    case (Inr pass)
    have "steady s (announce_wave env (pr_Name ref) ph y)" for ph using y by (intro steady_intros)
    then show ?thesis using Inr walks_steady [OF assms(2)] walks_return [OF plan_failed_ends [OF assms(1,2)]]
      by (simp add: reconcile_eligible_plan_def run_bind_def [of "reconcile_promotionplan_stages env (pr_Name ref) plan"] st Let_def)
  qed
qed

lemma plan_node_walks:
  assumes "answers_phase (rv_Kube env)" "phase_of_run s = RunProgressing" "steady s x"
  shows "walks s (reconcile_plan_node env before ref acc x)"
proof -
  obtain r w where g: "kb_GetPlan (rv_Kube env) (pr_Plan ref) (rk_World x) = (r, w)" by fastforce
  have w: "steady s (run_world w x)" using assms(3) by (intro steady_intros)
  note outs = walks_steady [OF assms(2) assms(3)] walks_steady [OF assms(2) w] eligible_plan_walks [OF assms(1,2) w]
    walks_return [OF plan_not_found_ends [OF assms(1,2)] w] walks_return [OF plan_changed_ends [OF assms(1,2)] w]
  show ?thesis by (cases r) (simp_all add: reconcile_plan_node_def Let_def g outs)
qed

lemma plans_walk:
  assumes "answers_phase (rv_Kube env)" "phase_of_run s = RunProgressing"
  shows "steady s x \<Longrightarrow> walks s (reconcile_plans env before refs acc x)"
proof (induction refs arbitrary: acc x)
  case Nil
  then show ?case using walks_steady [OF assms(2)] by simp
next
  case (Cons ref refs)
  obtain r y where n: "reconcile_plan_node env before ref acc x = (r, y)" by fastforce
  have w: "walks s (r, y)" using plan_node_walks [OF assms Cons.prems, of before ref acc] by (simp add: n)
  show ?case
  proof (cases "\<exists>acc'. r = Inr (Inr acc')")
    case True
    then show ?thesis using Cons.IH w by (auto simp: n walks_def)
  next
    case False
    then show ?thesis using w by (auto simp: n split: sum.split)
  qed
qed

lemma finish_settles:
  assumes "answers_phase (rv_Kube env)" "phase_of_run s = RunProgressing" "steady s x"
  shows "settled progressing_ends s (snd (finish_progressing env before acc x))"
proof -
  let ?s1 = "observe_generation (upd_status (\<lambda>st. st\<lparr>rst_PlanProgress := pa_Updated acc\<rparr>) x)"
  let ?s2 = "if pa_AllComplete acc then stamp_completed env (set_run_phase RunComplete (append_audit_entry env ?s1)) else ?s1"
  have s1: "steady s ?s1" using assms(3) by (intro steady_intros) simp_all
  have audit: "steady s (append_audit_entry env ?s1)" by (rule steady_fields(5) [OF s1])
  have s2: "settled progressing_ends s ?s2"
    using settled_complete [OF audit assms(2)] steady_settled [OF s1] assms(2) by (simp add: steady_intros)
  have last: "steady_op (if pa_AllComplete acc then completed_run env acc else run_return (requeue_after requeueNormal))"
    by (auto simp: completed_run_def Let_def steady_op_return intro!: steady_opI steady_annotate [OF assms(1)] steady_intros)
  have op: "steady_op (run_bind (persist_buffer env) (\<lambda>_ s3. run_bind
      (run_wrap ''patch PromotionRun status: '' (patch_promotionrun_status env before))
      (\<lambda>_. if pa_AllComplete acc then completed_run env acc else run_return (requeue_after requeueNormal))
      (progress_conditions env (pa_AllComplete acc) (apply_cancels env (pa_Cancels acc) s3))))"
    by (rule steady_op_bind [OF steady_persist_buffer], rule steady_opI,
        rule steady_bind [OF steady_op_wrap [OF steady_patch [OF assms(1)]] last]) (intro steady_intros)
  from settled_steady [OF s2, of "snd (run_bind (persist_buffer env) _ ?s2)", OF op [unfolded steady_op_def, rule_format]]
  show ?thesis unfolding finish_progressing_def Let_def .
qed

lemma progressing_settles:
  assumes "answers_phase (rv_Kube env)" "phase_of_run s = RunProgressing"
  shows "settled progressing_ends s (snd (handle_progressing env s))"
proof (cases "timed_out env s")
  case True
  then show ?thesis using timeout_settles [OF assms] by (simp add: handle_progressing_def)
next
  case False
  let ?init = "\<lparr>pa_Updated = [], pa_AllComplete = True, pa_Cancels = [], pa_NextRequeue = 0\<rparr>"
  have inner: "ends_op progressing_ends s (run_bind (reconcile_plans env (rk_Run s) refs ?init)
      (\<lambda>out. case out of Inl r \<Rightarrow> run_return r | Inr acc \<Rightarrow> finish_progressing env (rk_Run s) acc))" for refs
    unfolding ends_op_def
  proof (intro allI impI)
    fix x assume x: "steady s x"
    obtain r y where p: "reconcile_plans env (rk_Run s) refs ?init x = (r, y)" by fastforce
    have "walks s (r, y)" using plans_walk [OF assms x, of "rk_Run s" refs ?init] by (simp add: p)
    then show "settled progressing_ends s (snd (run_bind (reconcile_plans env (rk_Run s) refs ?init)
      (\<lambda>out. case out of Inl r \<Rightarrow> run_return r | Inr acc \<Rightarrow> finish_progressing env (rk_Run s) acc) x))"
      using finish_settles [OF assms]
      by (auto simp: run_bind_def p walks_def run_return_def split: sum.split)
  qed
  have "ends_op progressing_ends s (run_bind (load_into_buffer env) (\<lambda>_. run_bind (reconcile_plans env (rk_Run s) refs ?init)
      (\<lambda>out. case out of Inl r \<Rightarrow> run_return r | Inr acc \<Rightarrow> finish_progressing env (rk_Run s) acc)))" for refs
    by (rule ends_op_bind [OF steady_load_buffer _ inner]) (simp add: assms(2))
  from ends_opD [OF this] show ?thesis using False by (simp add: handle_progressing_def Let_def)
qed

lemma failed_steady: "answers_phase (rv_Kube env) \<Longrightarrow> steady s (snd (handle_failed env s))"
  unfolding handle_failed_def Let_def
  by (rule steady_bind [OF steady_load_buffer], rule steady_opI, rule steady_bind [OF steady_persist_buffer], rule steady_opI,
      rule steady_bind [OF steady_op_wrap [OF steady_patch]], assumption, rule steady_opI)
    (auto intro!: steady_intros)

lemma pending_settles:
  assumes "answers_phase (rv_Kube env)" "phase_of_run s = RunNone \<or> phase_of_run s = RunPending"
  shows "settled {phase_of_run s, RunProgressing} s (snd (handle_run_pending env s))"
proof (cases "promotionrun_desired_versions_from_spec (run_Spec (rk_Run s)) = []")
  case True
  have "steady s (snd (run_bind (run_wrap ''patch stalled: '' (patch_promotionrun_status env (rk_Run s))) (\<lambda>_. run_return no_requeue)
      (observe_generation (set_failure_conditions env a b (ensure_promotionrun_summary s)))))" for a b
    by (rule steady_bind [OF steady_op_wrap [OF steady_patch [OF assms(1)]] steady_op_return]) (intro steady_intros)
  then show ?thesis using True by (simp add: handle_run_pending_def Let_def steady_settled)
next
  case False
  have set: "settled {phase_of_run s, RunProgressing} s (set_run_phase RunProgressing s)"
    using assms(2) by (intro settled_set_phase [OF steady_refl refl]) auto
  show ?thesis
    unfolding handle_run_pending_def Let_def if_not_P [OF False]
    by (rule settled_steady [OF set], rule steady_bind [OF steady_op_wrap [OF steady_patch [OF assms(1)]]], rule steady_opI)
      (auto intro!: steady_intros)
qed

lemma run_table_simps:
  "map_of (m_transitions (run_table hs)) p =
     (case p of RunPending \<Rightarrow> Some (rh_pending hs) | RunProgressing \<Rightarrow> Some (rh_progressing hs) | RunFailed \<Rightarrow> Some (rh_failed hs) | _ \<Rightarrow> None)"
  "m_initialHandler (run_table hs) = Some (rh_pending hs)"
  by (cases p) (simp_all add: run_table_def build_run_fsm_def must_def register_initial_def register_transition_def
      new_machine_def Let_def)

lemma advance_run_simps:
  "advance_run env s =
     (case phase_of_run s of
        RunNone \<Rightarrow> handle_run_pending env s | RunPending \<Rightarrow> handle_run_pending env s
      | RunProgressing \<Rightarrow> handle_progressing env s | RunFailed \<Rightarrow> handle_failed env s | _ \<Rightarrow> (Inr no_requeue, s))"
  by (simp add: advance_run_def step_def run_table_simps run_handlers_of_def split: run_phase.split)

end
