(* ===== verification/Run_Properties.thy ===== *)
theory Run_Properties
  imports Run_Frame
begin

text \<open>
  The run as a whole: its phase graph, what completion means, what a timeout does, and which runs a
  change of a cluster wakes.
\<close>

section \<open>Phases\<close>

text \<open>Building the dispatch table of the run never panics, and the adjacency it publishes is the
  documented one for every phase but Failed: the empty phase leads to Progressing, Pending to
  Progressing or Failed, Progressing to Complete or Failed, Complete and Superseded are terminal.
  Failed is meant to be sticky, but an empty list of successors is no entry at all, and the
  machine accepts any transition out of it.\<close>

theorem run_fsm_graph:
  "\<exists>m. build_run_fsm hs = Inr m \<and> wf_machine RunNone m \<and>
     (\<forall>p. graph RunNone m p = (if p = RunFailed then None else run_declared_next p)) \<and>
     (\<forall>q. validate_transition RunNone m RunFailed q = None)"
proof -
  obtain m where m: "build_run_fsm hs = Inr m"
    by (simp add: build_run_fsm_def must_def register_initial_def register_transition_def new_machine_def Let_def)
  note unfold = build_run_fsm_def must_def register_initial_def register_transition_def new_machine_def Let_def
  have "graph RunNone m p = (if p = RunFailed then None else run_declared_next p)" for p
    using m by (cases p) (auto simp: unfold graph_def)
  moreover have "wf_machine RunNone m"
    using m by (auto simp: unfold wf_machine_def phases_def wf_map_def)
  moreover have "validate_transition RunNone m RunFailed q = None" for q
    using m by (auto simp: unfold validate_transition_def)
  ultimately show ?thesis using m by blast
qed

text \<open>C12. Whatever the world, the planner and the actuators answer, one step of the run keeps its phase
  or moves it along the declared graph, and never reports an undeclared transition. The server is
  assumed to answer a patch with the phase it was sent.\<close>

theorem run_phase_follows_graph:
  assumes "answers_phase (rv_Kube env)"
  shows "grows s (snd (advance_run env s)) \<and>
    (phase_of_run (snd (advance_run env s)) = phase_of_run s \<or>
     (\<exists>next. run_declared_next (phase_of_run s) = Some next \<and> phase_of_run (snd (advance_run env s)) \<in> set next))"
proof (cases "phase_of_run s")
  case RunNone
  then show ?thesis using pending_settles [OF assms, of s] by (auto simp: advance_run_simps settled_def)
next
  case RunPending
  then show ?thesis using pending_settles [OF assms, of s] by (auto simp: advance_run_simps settled_def)
next
  case RunProgressing
  then show ?thesis using progressing_settles [OF assms, of s] by (auto simp: advance_run_simps settled_def)
next
  case RunFailed
  then show ?thesis using failed_steady [OF assms, of s] by (auto simp: advance_run_simps steady_def)
qed (simp_all add: advance_run_simps)

lemma sample_answers_phase: "answers_phase (rv_Kube sample_run_env)"
  by (simp add: answers_phase_def sample_run_env_def run_sample_kube_def sample_kube_def)

theorem run_phase_follows_graph_witness:
  "phase_of_run (sample_run_tick []) = RunProgressing \<and>
   phase_of_run (snd (advance_run sample_run_env (sample_run_tick []))) \<in> {RunProgressing, RunComplete, RunFailed}"
  using run_phase_follows_graph [OF sample_answers_phase, of "sample_run_tick []"]
  by (auto simp: sample_run_tick_def sample_promotion_def sample_run_def)

section \<open>Completion\<close>

lemma derive_pass:
  assumes "derive_stage_phase env planRef plan stage n synced failed acc s = (Inr (phase, acc1), s')"
  shows "sa_Progress acc1 = sa_Progress acc \<and> (sa_AllComplete acc1 \<longrightarrow> phase = ''Complete'' \<and> acc1 = acc)"
  using assms
  by (auto simp: derive_stage_phase_def Let_def run_bind_def split: if_splits stage_failure_policy.splits prod.splits sum.splits)

lemma stage_pass:
  assumes "reconcile_stage env planRef plan stage acc s = (Inr acc', s')"
  shows "\<exists>row. sa_Progress acc' = sa_Progress acc @ [row] \<and> sgp_Name row = sg_Name stage \<and>
    (sa_AllComplete acc' \<longrightarrow> sa_AllComplete acc \<and> sa_AnyFailed acc' = sa_AnyFailed acc \<and> sgp_Phase row = ''Complete'')"
proof -
  have planned: "\<exists>row. sa_Progress acc' = sa_Progress a @ [row] \<and> sgp_Name row = sg_Name stage \<and>
      (sa_AllComplete acc' \<longrightarrow> sa_AllComplete a \<and> sa_AnyFailed acc' = sa_AnyFailed a \<and> sgp_Phase row = ''Complete'')"
    if "reconcile_planned_stage env planRef plan stage planned a x = (Inr acc', y)" for planned a x y
    using that unfolding reconcile_planned_stage_def
    by (auto simp: Let_def empty_stage_progress_def split: prod.splits sum.splits dest!: derive_pass)
  show ?thesis
    using assms unfolding reconcile_stage_def
    by (auto simp: run_bind_def run_wrap_def run_return_def Let_def empty_stage_progress_def
        split: prod.splits sum.splits if_splits dest!: planned)
qed

lemma stages_pass:
  assumes "reconcile_stages env planRef plan stages acc s = (Inr acc', s')" "sa_AllComplete acc'" "\<not> sa_AnyFailed acc"
  shows "sa_AllComplete acc \<and> \<not> sa_AnyFailed acc' \<and>
    (\<exists>rows. sa_Progress acc' = sa_Progress acc @ rows \<and> map sgp_Name rows = map sg_Name stages \<and>
       (\<forall>row \<in> set rows. sgp_Phase row = ''Complete''))"
  using assms
proof (induction stages arbitrary: acc s)
  case (Cons stage stages)
  then obtain acc1 s1 where r: "reconcile_stage env planRef plan stage acc s = (Inr acc1, s1)"
    by (auto split: prod.splits sum.splits)
  from stage_pass [OF r] obtain row where row: "sa_Progress acc1 = sa_Progress acc @ [row]" "sgp_Name row = sg_Name stage"
      "sa_AllComplete acc1 \<longrightarrow> sa_AllComplete acc \<and> sa_AnyFailed acc1 = sa_AnyFailed acc \<and> sgp_Phase row = ''Complete''"
    by blast
  show ?case
  proof (cases "sa_AnyFailed acc1")
    case True
    then have "acc' = acc1" using Cons.prems(1) r by simp
    then show ?thesis using True row(3) Cons.prems by blast
  next
    case False
    then have "reconcile_stages env planRef plan stages acc1 s1 = (Inr acc', s')" using Cons.prems(1) r by simp
    from Cons.IH [OF this Cons.prems(2) False] row show ?thesis by force
  qed
qed simp

definition complete_row :: "promotion_run \<Rightarrow> plan_ref \<Rightarrow> plan_progress \<Rightarrow> bool" where
  "complete_row before ref row \<longleftrightarrow>
     pp_Name row = pr_Name ref \<and> pp_Phase row = ''Complete'' \<and>
     (pp_Phase (plan_progress_of before (pr_Name ref)) = ''Complete'' \<or>
      ((\<forall>dep \<in> set (pr_DependsOn ref). pp_Phase (plan_progress_of before dep) = ''Complete'') \<and>
       (\<forall>sp \<in> set (pp_StageProgress row). sgp_Phase sp = ''Complete'')))"

lemma plan_node_pass:
  assumes "reconcile_plan_node env before ref acc s = (Inr (Inr acc'), s')"
  shows "\<exists>row. pa_Updated acc' = pa_Updated acc @ [row] \<and>
    (pa_AllComplete acc' \<longrightarrow> pa_AllComplete acc \<and> complete_row before ref row)"
proof -
  let ?prev = "plan_progress_of before (pr_Name ref)"
  have ret: "run_bind m (\<lambda>r. run_return (Inl r)) x \<noteq> (Inr (Inr a), y)" for m :: "('a, ctrl_result) run_op" and x and a :: plan_pass and y
    by (auto simp: run_bind_def run_return_def split: prod.splits sum.splits)
  consider (complete) "pp_Phase ?prev = ''Complete''" | (failed) "pp_Phase ?prev = ''Failed''" "pp_Phase ?prev \<noteq> ''Complete''"
    | (waits) "pp_Phase ?prev \<noteq> ''Complete''" "pp_Phase ?prev \<noteq> ''Failed''"
        "list_ex (\<lambda>dep. pp_Phase (plan_progress_of before dep) \<noteq> ''Complete'') (pr_DependsOn ref)"
    | (eligible) "pp_Phase ?prev \<noteq> ''Complete''" "pp_Phase ?prev \<noteq> ''Failed''"
        "\<forall>dep \<in> set (pr_DependsOn ref). pp_Phase (plan_progress_of before dep) = ''Complete''"
    by (auto simp: list_ex_iff)
  then show ?thesis
  proof cases
    case eligible
    then have "\<not> list_ex (\<lambda>dep. pp_Phase (plan_progress_of before dep) \<noteq> ''Complete'') (pr_DependsOn ref)"
      by (simp add: list_ex_iff)
    then obtain plan w where e: "reconcile_eligible_plan env before ref plan acc (run_world w s) = (Inr (Inr acc'), s')"
      using assms eligible ret
      by (auto simp: reconcile_plan_node_def Let_def split: prod.splits sum.splits if_splits)
    then obtain pass x where st: "reconcile_promotionplan_stages env (pr_Name ref) plan (run_world w s) = (Inr pass, x)"
      by (auto simp: reconcile_eligible_plan_def run_bind_def split: prod.splits sum.splits)
    have nf: "\<not> sa_AnyFailed pass"
      using e ret by (auto simp: reconcile_eligible_plan_def run_bind_def [of "reconcile_promotionplan_stages env (pr_Name ref) plan"] st
          Let_def split: if_splits)
    have rows: "sa_AllComplete pass \<longrightarrow> (\<forall>sp \<in> set (sa_Progress pass). sgp_Phase sp = ''Complete'')"
      using stages_pass st unfolding reconcile_promotionplan_stages_def by fastforce
    show ?thesis
      using e nf rows eligible
      by (auto simp: reconcile_eligible_plan_def run_bind_def [of "reconcile_promotionplan_stages env (pr_Name ref) plan"] st
          Let_def complete_row_def split: if_splits)
  qed (use assms in \<open>auto simp: reconcile_plan_node_def Let_def complete_row_def carried_progress_def\<close>)
qed

lemma plans_pass:
  assumes "reconcile_plans env before refs acc s = (Inr (Inr acc'), s')"
  shows "\<exists>rows. pa_Updated acc' = pa_Updated acc @ rows \<and> length rows = length refs \<and>
    (pa_AllComplete acc' \<longrightarrow> pa_AllComplete acc \<and> list_all2 (complete_row before) refs rows)"
  using assms
proof (induction refs arbitrary: acc s)
  case (Cons ref refs)
  then obtain acc1 s1 where n: "reconcile_plan_node env before ref acc s = (Inr (Inr acc1), s1)"
      and r: "reconcile_plans env before refs acc1 s1 = (Inr (Inr acc'), s')"
    by (auto split: prod.splits sum.splits)
  from plan_node_pass [OF n] obtain row where "pa_Updated acc1 = pa_Updated acc @ [row]"
      "pa_AllComplete acc1 \<longrightarrow> pa_AllComplete acc \<and> complete_row before ref row" by blast
  moreover from Cons.IH [OF r] obtain rows where "pa_Updated acc' = pa_Updated acc1 @ rows" "length rows = length refs"
      "pa_AllComplete acc' \<longrightarrow> pa_AllComplete acc1 \<and> list_all2 (complete_row before) refs rows" by blast
  ultimately show ?case by (intro exI [of _ "row # rows"]) auto
qed simp

text \<open>C10. A pass over the plans finds the run complete only when it really is: every plan node of the
  run has a row, every row is Complete, and each row was Complete before this pass or has every
  plan it depends on Complete before the pass and every one of its stages Complete in it.\<close>

theorem run_completes_only_with_every_stage:
  assumes "reconcile_plans env before (prs_Plans (run_Spec before))
       \<lparr>pa_Updated = [], pa_AllComplete = True, pa_Cancels = [], pa_NextRequeue = 0\<rparr> s = (Inr (Inr acc), s')"
    and "pa_AllComplete acc"
  shows "list_all2 (complete_row before) (prs_Plans (run_Spec before)) (pa_Updated acc)"
  using plans_pass [OF assms(1)] assms(2) by auto

definition ready_world :: sample where
  "ready_world = run_sample_world\<lparr>sw_Clusters := [(''us-1'', claimed ''r9'' (labelled ''us-1'' ''prod''))]\<rparr>"

definition ready_tick :: "sample run_tick" where
  "ready_tick = (sample_run_tick [])\<lparr>rk_World := ready_world\<rparr>"

theorem run_completes_only_with_every_stage_witness:
  "\<exists>acc s'. reconcile_plans sample_run_env sample_promotion (prs_Plans (run_Spec sample_promotion))
       \<lparr>pa_Updated = [], pa_AllComplete = True, pa_Cancels = [], pa_NextRequeue = 0\<rparr> ready_tick = (Inr (Inr acc), s') \<and>
     list_all2 (complete_row sample_promotion) (prs_Plans (run_Spec sample_promotion)) (pa_Updated acc) \<and> length (pa_Updated acc) = 1"
proof -
  let ?init = "\<lparr>pa_Updated = [], pa_AllComplete = True, pa_Cancels = [], pa_NextRequeue = 0\<rparr>"
  let ?r = "reconcile_plans sample_run_env sample_promotion (prs_Plans (run_Spec sample_promotion)) ?init ready_tick"
  have "case fst ?r of Inr (Inr acc) \<Rightarrow> pa_AllComplete acc | _ \<Rightarrow> False" by code_simp
  then obtain acc s' where r: "?r = (Inr (Inr acc), s')" "pa_AllComplete acc"
    by (cases ?r) (auto split: sum.splits)
  from run_completes_only_with_every_stage [OF this] have rows:
    "list_all2 (complete_row sample_promotion) (prs_Plans (run_Spec sample_promotion)) (pa_Updated acc)" .
  moreover from list_all2_lengthD [OF rows] have "length (pa_Updated acc) = 1" by (simp add: sample_promotion_def)
  ultimately show ?thesis using r by blast
qed

section \<open>Timeout\<close>

text \<open>A server that accepts every write and lists \<open>items\<close> for the run.\<close>

definition accepts :: "'w kube \<Rightarrow> string \<Rightarrow> target list \<Rightarrow> bool" where
  "accepts kb run items \<longleftrightarrow>
     (\<forall>w. \<exists>w'. kb_ListTargetsOfRun kb run w = (Inr items, w')) \<and>
     (\<forall>old new w. \<exists>w'. kb_PatchTarget kb old new w = (Inr new, w')) \<and>
     (\<forall>old new w. \<exists>w'. kb_PatchRunStatus kb old new w = (Inr new, w'))"

definition cancellation_trace :: "promotion_run \<Rightarrow> string \<Rightarrow> string \<Rightarrow> target \<Rightarrow> effect" where
  "cancellation_trace run reason traceReason rt =
     run_trace run (ts_PlanRef (tg_Spec rt)) (ts_Stage (tg_Spec rt)) (ts_Target (tg_Spec rt)) ''Stage''
       ''promotionrun-controller'' ''Failed'' traceReason reason
       [\<lparr>tre_Type = ''target-cancel'', tre_Source = ''promotionrun-controller'',
         tre_Detail = [(''cancelledPhase'', ''Failed''), (''cancelledReason'', reason),
           (''fromPhase'', target_phase_string (tg_Phase rt))]\<rparr>]"

lemma cancel_targets_all:
  assumes "accepts (rv_Kube env) run items"
  shows "\<exists>s'. cancel_targets env reason tr rts s = (Inr (), s') \<and> rk_Run s' = rk_Run s \<and> steady s s' \<and>
    (\<forall>rt \<in> set rts. \<not> target_terminal (tg_Phase rt) \<longrightarrow> \<not> ts_Cancelled (tg_Spec rt) \<longrightarrow>
       cancellation_trace (rk_Run s) reason tr rt \<in> set (rk_Log s'))"
proof (induction rts arbitrary: s)
  case (Cons rt rts)
  show ?case
  proof (cases "target_terminal (tg_Phase rt) \<or> ts_Cancelled (tg_Spec rt)")
    case True
    then show ?thesis using Cons by auto
  next
    case False
    obtain w where w: "kb_PatchTarget (rv_Kube env) rt (cancel_spec reason PhaseFailed rt) (rk_World s) =
        (Inr (cancel_spec reason PhaseFailed rt), w)"
      using assms unfolding accepts_def by blast
    let ?s1 = "run_emit (cancellation_trace (rk_Run s) reason tr rt) (run_world w s)"
    have t: "cancellation_trace (rk_Run s) reason tr (cancel_spec reason PhaseFailed rt) = cancellation_trace (rk_Run s) reason tr rt"
      by (simp add: cancellation_trace_def cancel_spec_def)
    have c: "cancel_targets env reason tr (rt # rts) s = cancel_targets env reason tr rts ?s1"
      using False w t by (simp add: cancellation_trace_def)
    obtain s' where s': "cancel_targets env reason tr rts ?s1 = (Inr (), s')" "rk_Run s' = rk_Run s" "steady ?s1 s'"
        "\<forall>rt \<in> set rts. \<not> target_terminal (tg_Phase rt) \<longrightarrow> \<not> ts_Cancelled (tg_Spec rt) \<longrightarrow>
           cancellation_trace (rk_Run s) reason tr rt \<in> set (rk_Log s')"
      using Cons [of ?s1] by auto
    have s1: "steady s ?s1" by (intro steady_intros) (simp add: cancellation_trace_def)
    have "cancellation_trace (rk_Run s) reason tr rt \<in> set (rk_Log s')"
      using s'(3) by (auto simp: steady_def grows_def)
    with s' steady_trans [OF s1 s'(3)] show ?thesis unfolding c by (intro exI [of _ s']) auto
  qed
qed simp

text \<open>A run past its timeout ends: when the server accepts the writes, the handler marks every child
  that is neither terminal nor already cancelled as cancelled, with a decision trace for each, sets
  the run to Failed, and asks for no further reconcile.\<close>

theorem timeout_fails_run_and_cancels_children:
  assumes "timed_out env s" and "phase_of_run s = RunProgressing" and "accepts (rv_Kube env) (run_Name (rk_Run s)) items"
  shows "fst (handle_progressing env s) = Inr no_requeue \<and> phase_of_run (snd (handle_progressing env s)) = RunFailed \<and>
    (\<forall>rt \<in> set items. \<not> target_terminal (tg_Phase rt) \<longrightarrow> \<not> ts_Cancelled (tg_Spec rt) \<longrightarrow>
       cancellation_trace (rk_Run s) ''promotionrun exceeded timeout'' ''PromotionRunTimeoutCancelled'' rt
         \<in> set (rk_Log (snd (handle_progressing env s))))"
proof -
  let ?name = "run_Name (rk_Run s)"
  define msg where "msg = ''promotionrun exceeded timeout ('' @ prs_Timeout (run_Spec (rk_Run s)) @ '')''"
  obtain w where l: "kb_ListTargetsOfRun (rv_Kube env) ?name (rk_World s) = (Inr items, w)"
    using assms(3) unfolding accepts_def by blast
  define s1 where "s1 = set_targets (sort_key promotion_target_object_name (map target_status_from_promotion_target items)) (run_world w s)"
  have load: "load_into_buffer env s = (Inr (), s1)"
    by (simp add: load_into_buffer_def run_bind_def run_wrap_def load_promotion_targets_def l s1_def)
  have s1: "steady s s1" "rk_Run s1 = rk_Run s" unfolding s1_def by (intro steady_intros) simp_all
  obtain w1 where l1: "kb_ListTargetsOfRun (rv_Kube env) ?name (rk_World s1) = (Inr items, w1)"
    using assms(3) unfolding accepts_def by blast
  obtain s2 where cancel: "cancel_targets env ''promotionrun exceeded timeout'' ''PromotionRunTimeoutCancelled'' items (run_world w1 s1) = (Inr (), s2)"
      "rk_Run s2 = rk_Run s" "steady (run_world w1 s1) s2"
    and traces: "\<forall>rt \<in> set items. \<not> target_terminal (tg_Phase rt) \<longrightarrow> \<not> ts_Cancelled (tg_Spec rt) \<longrightarrow>
       cancellation_trace (rk_Run s) ''promotionrun exceeded timeout'' ''PromotionRunTimeoutCancelled'' rt \<in> set (rk_Log s2)"
    using cancel_targets_all [OF assms(3), of "''promotionrun exceeded timeout''" "''PromotionRunTimeoutCancelled''" items "run_world w1 s1"]
    by (auto simp: s1(2))
  have s2: "phase_of_run s2 = RunProgressing" using cancel(2) assms(2) by simp
  define s3 where "s3 = stamp_completed env (set_run_phase RunFailed s2)"
  define s4 where "s4 = set_failure_conditions env ''Timeout'' msg (set_promotionrun_summaries env (rk_Targets s3) s3)"
  have "steady (set_run_phase RunFailed s2) s4" unfolding s4_def s3_def by (intro steady_intros)
  with settled_set_phase [OF steady_refl s2, of RunFailed "{RunFailed}"] have s4: "settled {RunFailed} s2 s4"
    by (auto intro: settled_steady)
  obtain w2 where p: "kb_PatchRunStatus (rv_Kube env) (rk_Run s) (rk_Run s4) (rk_World s4) = (Inr (rk_Run s4), w2)"
    using assms(3) unfolding accepts_def by blast
  define s5 where "s5 = upd_run (\<lambda>_. rk_Run s4) (run_world w2 s4)"
  define s6 where "s6 = clear_active_promotionrun env (rk_Targets s5) (announce_failure env ''Timeout'' msg s5)"
  have "steady s4 s5" unfolding s5_def by (intro steady_run steady_intros) simp
  then have "steady s4 s6" unfolding s6_def by (intro steady_intros)
  with s4 have s6: "settled {RunFailed} s2 s6" by (rule settled_steady)
  have "handle_progressing env s = (Inr no_requeue, s6)"
    unfolding handle_progressing_def if_P [OF assms(1)] handle_timeout_def Let_def msg_def [symmetric]
    by (simp add: run_bind_def run_wrap_def load cancel_promotionrun_targets_def cancel_promotionrun_targets_with_trace_reason_def
        s1(2) l1 cancel(1) patch_promotionrun_status_def p s3_def [symmetric] s4_def [symmetric] s5_def [symmetric] s6_def)
  then show ?thesis using s6 traces by (auto simp: settled_def grows_def)
qed

definition late_run :: promotion_run where
  "late_run = sample_promotion\<lparr>run_Spec := (run_Spec sample_promotion)\<lparr>prs_Timeout := ''1h''\<rparr>,
     run_Status := (run_Status sample_promotion)\<lparr>rst_StartedAt := ''2023-11-14T20:00:00Z''\<rparr>\<rparr>"

definition late_env :: "sample run_env" where
  "late_env = sample_run_env\<lparr>rv_Kube := run_sample_kube\<lparr>kb_ListTargetsOfRun := (\<lambda>n w. (Inr [sample_target], w))\<rparr>\<rparr>"

definition late_tick :: "sample run_tick" where
  "late_tick = (sample_run_tick [])\<lparr>rk_Run := late_run\<rparr>"

theorem timeout_fails_run_and_cancels_children_witness:
  "phase_of_run (snd (handle_progressing late_env late_tick)) = RunFailed \<and>
   cancellation_trace late_run ''promotionrun exceeded timeout'' ''PromotionRunTimeoutCancelled'' sample_target
     \<in> set (rk_Log (snd (handle_progressing late_env late_tick)))"
proof -
  have t: "timed_out late_env late_tick" by code_simp
  have p: "phase_of_run late_tick = RunProgressing"
    by (simp add: late_tick_def late_run_def sample_run_tick_def sample_promotion_def sample_run_def)
  have a: "accepts (rv_Kube late_env) (run_Name (rk_Run late_tick)) [sample_target]"
    by (simp add: accepts_def late_env_def sample_run_env_def run_sample_kube_def sample_kube_def)
  have "\<not> target_terminal (tg_Phase sample_target) \<and> \<not> ts_Cancelled (tg_Spec sample_target)" by code_simp
  with timeout_fails_run_and_cancels_children [OF t p a] show ?thesis by (simp add: late_tick_def)
qed

section \<open>Watches\<close>

text \<open>Reads that leave the world alone.\<close>

definition reads_only :: "'w kube \<Rightarrow> 'w run_lists \<Rightarrow> 'w \<Rightarrow> bool" where
  "reads_only kb ls w \<longleftrightarrow> (\<forall>n. snd (kb_GetRun kb n w) = w) \<and> (\<forall>n. snd (rl_TargetsOfCluster ls n w) = w)"

lemma runs_of_targets_spec:
  assumes "\<forall>n. snd (kb_GetRun kb n w) = w"
  shows "snd (runs_of_targets kb seen names w) = w \<and>
    distinct (fst (runs_of_targets kb seen names w)) \<and>
    (\<forall>n. n \<in> set (fst (runs_of_targets kb seen names w)) \<longleftrightarrow>
       n \<in> set names \<and> n \<notin> set seen \<and> (\<exists>run. fst (kb_GetRun kb n w) = Inr run \<and> \<not> finished_run run))"
proof (induction names arbitrary: seen)
  case (Cons name names)
  obtain r w1 where "kb_GetRun kb name w = (r, w1)" by fastforce
  moreover from this assms have "w1 = w" by (metis snd_conv)
  ultimately have g: "kb_GetRun kb name w = (r, w)" by simp
  show ?case
  proof (cases "name \<in> set seen")
    case True
    then show ?thesis using Cons [of seen] by auto
  next
    case False
    note IH = Cons [of "name # seen"]
    obtain found w' where f: "runs_of_targets kb (name # seen) names w = (found, w')" by fastforce
    have found: "w' = w" "distinct found" "name \<notin> set found" using IH by (auto simp: f)
    have mem: "n \<in> set found \<longleftrightarrow> n \<in> set names \<and> n \<notin> set (name # seen) \<and>
        (\<exists>run. fst (kb_GetRun kb n w) = Inr run \<and> \<not> finished_run run)" for n
      using IH unfolding f fst_conv by blast
    have keep: "runs_of_targets kb seen (name # names) w =
        ((if \<exists>run. fst (kb_GetRun kb name w) = Inr run \<and> \<not> finished_run run then name # found else found), w)"
      using False found(1) by (cases r) (simp_all add: g f)
    have "(n \<in> set (fst (runs_of_targets kb seen (name # names) w))) \<longleftrightarrow> n \<in> set (name # names) \<and> n \<notin> set seen \<and>
        (\<exists>run. fst (kb_GetRun kb n w) = Inr run \<and> \<not> finished_run run)" for n
      unfolding keep fst_conv using False found(3) mem [of n] by (cases "n = name") simp_all
    then show ?thesis using found unfolding keep by simp
  qed
qed simp

text \<open>A change of a cluster that some target already names wakes exactly the runs of those targets
  that still exist and have neither completed nor failed, each once.\<close>

theorem cluster_change_wakes_open_runs_once:
  assumes "reads_only kb ls w" and "fst (rl_TargetsOfCluster ls (cl_Name mc) w) = Inr targets" and "targets \<noteq> []"
  shows "distinct (fst (promotionruns_for_fleet_cluster kb ls mc w)) \<and>
    set (fst (promotionruns_for_fleet_cluster kb ls mc w)) =
      {n. (\<exists>rt \<in> set targets. ts_PromotionRunRef (tg_Spec rt) = n) \<and>
          (\<exists>run. fst (kb_GetRun kb n w) = Inr run \<and> \<not> finished_run run)}"
proof -
  have "rl_TargetsOfCluster ls (cl_Name mc) w = (Inr targets, w)"
    using assms(1,2) unfolding reads_only_def by (metis prod.collapse)
  then have "promotionruns_for_fleet_cluster kb ls mc w =
      runs_of_targets kb [] (map (\<lambda>rt. ts_PromotionRunRef (tg_Spec rt)) targets) w"
    using assms(3) by (simp add: promotionruns_for_fleet_cluster_def)
  moreover have "\<forall>n. snd (kb_GetRun kb n w) = w" using assms(1) by (simp add: reads_only_def)
  ultimately show ?thesis
    using runs_of_targets_spec [of kb w "[]" "map (\<lambda>rt. ts_PromotionRunRef (tg_Spec rt)) targets"] by auto
qed

definition sample_lists :: "sample run_lists" where
  "sample_lists = \<lparr>rl_TargetsOfCluster = (\<lambda>n w. (Inr [sample_target, sample_target], w)),
     rl_ProgressingRuns = (\<lambda>w. (Inr [], w)), rl_Runs = (\<lambda>w. (Inr [], w))\<rparr>"

theorem cluster_change_wakes_open_runs_once_witness:
  "set (fst (promotionruns_for_fleet_cluster sample_kube sample_lists sample_cluster run_sample_world)) = {''r1''}"
proof -
  have ro: "reads_only sample_kube sample_lists run_sample_world"
    by (simp add: reads_only_def sample_kube_def sample_lists_def)
  have t: "fst (rl_TargetsOfCluster sample_lists (cl_Name sample_cluster) run_sample_world) = Inr [sample_target, sample_target]"
    by (simp add: sample_lists_def)
  show ?thesis
    using cluster_change_wakes_open_runs_once [OF ro t]
    by (auto simp: sample_target_def sample_kube_def fetch_def run_sample_world_def sample_promotion_def sample_run_def
        finished_run_def)
qed

end
