(* ===== verification/Retention.thy ===== *)
theory Retention
  imports Effects "HOL-Library.Product_Lexorder" "HOL-Library.Multiset"
begin

text \<open>
  The retention controller of promotion runs
  (\<^verbatim>\<open>internal/controller/promotionrun_gc_controller.go\<close>): the choice of the runs to prune and the
  bounded delete loop. Go leaves the order of a \<^verbatim>\<open>range\<close> over a map open, so the two loops whose
  order could matter, the one that collects candidates and the one that makes cursors, take it
  as an argument. \<^verbatim>\<open>sort.Slice\<close> compares creation time and then name, a total order on runs of
  distinct names, so a sort by that key stands for it. Log lines are left out; the counters and
  the events of a pass are its log.
\<close>

section \<open>Configuration\<close>

record gc_config =
  gc_MaxRetainedPerPromotion :: int
  gc_MinRetainedPerOutcome :: int
  gc_MaxDeletesPerReconcile :: int
  gc_RequeueAfter :: int

definition DefaultMaxRetainedPerPromotion :: int where "DefaultMaxRetainedPerPromotion = 50"
definition DefaultMinRetainedPerOutcome :: int where "DefaultMinRetainedPerOutcome = 10"
definition DefaultMaxDeletesPerReconcile :: int where "DefaultMaxDeletesPerReconcile = 25"
definition defaultDrainRequeueAfter :: int where "defaultDrainRequeueAfter = 30 * second"

definition max_retained :: "gc_config \<Rightarrow> int" where
  "max_retained r = (if gc_MaxRetainedPerPromotion r > 0 then gc_MaxRetainedPerPromotion r
     else DefaultMaxRetainedPerPromotion)"

definition min_per_outcome :: "gc_config \<Rightarrow> int" where
  "min_per_outcome r = (if gc_MinRetainedPerOutcome r > 0 then gc_MinRetainedPerOutcome r
     else DefaultMinRetainedPerOutcome)"

definition max_deletes_per_reconcile :: "gc_config \<Rightarrow> int" where
  "max_deletes_per_reconcile r = (if gc_MaxDeletesPerReconcile r > 0 then gc_MaxDeletesPerReconcile r
     else DefaultMaxDeletesPerReconcile)"

definition drain_requeue_after :: "gc_config \<Rightarrow> int" where
  "drain_requeue_after r = (if gc_RequeueAfter r > 0 then gc_RequeueAfter r else defaultDrainRequeueAfter)"

section \<open>Buckets\<close>

abbreviation run_phase_of :: "promotion_run \<Rightarrow> run_phase" where
  "run_phase_of r \<equiv> rst_Phase (run_Status r)"

abbreviation created :: "promotion_run \<Rightarrow> int" where
  "created r \<equiv> om_CreationTimestamp (run_Meta r)"

definition age_key :: "promotion_run \<Rightarrow> int \<times> string" where
  "age_key r = (created r, run_Name r)"

type_synonym buckets = "(run_phase \<times> promotion_run list) list"

definition bucket_of :: "buckets \<Rightarrow> run_phase \<Rightarrow> promotion_run list" where
  "bucket_of B p = (case map_of B p of None \<Rightarrow> [] | Some b \<Rightarrow> b)"

fun split_runs :: "promotion_run list \<Rightarrow> promotion_run list \<Rightarrow> buckets \<Rightarrow> promotion_run list \<times> buckets" where
  "split_runs [] active B = (active, B)"
| "split_runs (run # runs) active B =
     (if \<not> run_phase_is_terminal (run_phase_of run) then split_runs runs (active @ [run]) B
      else split_runs runs active
        (AList.update (run_phase_of run) (bucket_of B (run_phase_of run) @ [run]) B))"

definition sort_buckets :: "buckets \<Rightarrow> buckets" where
  "sort_buckets B = map (\<lambda>(p, b). (p, sort_key age_key b)) B"

definition total_terminal :: "buckets \<Rightarrow> nat" where
  "total_terminal B = sum_list (map (\<lambda>(p, b). length b) B)"

section \<open>Pass one: the candidates above the floor\<close>

definition bucket_candidates :: "int \<Rightarrow> buckets \<Rightarrow> run_phase \<Rightarrow> (run_phase \<times> promotion_run) list" where
  "bucket_candidates minPerOutcome B p =
     (if int (length (bucket_of B p)) \<le> minPerOutcome then []
      else map (Pair p) (take (nat (int (length (bucket_of B p)) - minPerOutcome)) (bucket_of B p)))"

definition sorted_candidates ::
  "(run_phase list \<Rightarrow> run_phase list) \<Rightarrow> int \<Rightarrow> buckets \<Rightarrow> (run_phase \<times> promotion_run) list" where
  "sorted_candidates range_order minPerOutcome B =
     sort_key (\<lambda>c. age_key (snd c)) (concat (map (bucket_candidates minPerOutcome B) (range_order (map fst B))))"

definition donated :: "(run_phase \<times> promotion_run) list \<Rightarrow> run_phase \<Rightarrow> nat" where
  "donated taken p = length (filter (\<lambda>c. fst c = p) taken)"

definition trim_buckets :: "(run_phase \<times> promotion_run) list \<Rightarrow> buckets \<Rightarrow> buckets" where
  "trim_buckets taken B = map (\<lambda>(p, b). (p, drop (donated taken p) b)) B"

section \<open>Pass two: the oldest heads below the floor\<close>

type_synonym cursor = "run_phase \<times> nat"

definition cursor_run :: "buckets \<Rightarrow> cursor \<Rightarrow> promotion_run" where
  "cursor_run B c = bucket_of B (fst c) ! snd c"

function oldest_cursor :: "buckets \<Rightarrow> cursor list \<Rightarrow> nat \<Rightarrow> nat \<Rightarrow> nat" where
  "oldest_cursor B cs i oldest =
     (if i < length cs then
        oldest_cursor B cs (Suc i)
          (if created (cursor_run B (cs ! i)) < created (cursor_run B (cs ! oldest)) then i else oldest)
      else oldest)"
  by pat_completeness auto
termination by (relation "measure (\<lambda>(B, cs, i, oldest). length cs - i)") auto

declare oldest_cursor.simps [simp del]

definition advance_cursor :: "buckets \<Rightarrow> cursor list \<Rightarrow> nat \<Rightarrow> cursor list" where
  "advance_cursor B cs k =
     (let (p, idx) = cs ! k
      in if Suc idx \<ge> length (bucket_of B p) then take k cs @ drop (Suc k) cs else cs[k := (p, Suc idx)])"

fun drain_cursors :: "buckets \<Rightarrow> nat \<Rightarrow> cursor list \<Rightarrow> promotion_run list" where
  "drain_cursors B 0 cs = []"
| "drain_cursors B (Suc excess) cs =
     (if cs = [] then []
      else let k = oldest_cursor B cs 1 0
           in cursor_run B (cs ! k) # drain_cursors B excess (advance_cursor B cs k))"

section \<open>The selection\<close>

text \<open>\<open>candidate_order\<close> and \<open>cursor_order\<close> are the orders in which Go ranges over the map of buckets.\<close>

definition select_victims ::
  "(run_phase list \<Rightarrow> run_phase list) \<Rightarrow> (run_phase list \<Rightarrow> run_phase list) \<Rightarrow> gc_config \<Rightarrow>
   promotion_run list \<Rightarrow> promotion_run list" where
  "select_victims candidate_order cursor_order r runs =
     (if runs = [] then []
      else
        let (active, B0) = split_runs runs [] [];
            B = sort_buckets B0;
            budget = max (max_retained r - int (length active)) 0
        in if int (total_terminal B) \<le> budget then []
           else
             let excess = nat (int (total_terminal B) - budget);
                 candidates = sorted_candidates candidate_order (min_per_outcome r) B;
                 taken = take (min (length candidates) excess) candidates;
                 rest = excess - length taken;
                 B1 = trim_buckets taken B
             in if rest = 0 then map snd taken
                else map snd taken @ drain_cursors B1 rest
                  (map (\<lambda>p. (p, 0)) (filter (\<lambda>p. bucket_of B1 p \<noteq> []) (cursor_order (map fst B1)))))"

section \<open>The reconcile\<close>

datatype gc_effect =
    DeleteCalled string
  | Pruned string
  | AttemptPruned string run_phase string
  | Retained int

record 'w gc_client =
  gk_Now :: "'w \<Rightarrow> int"
  gk_GetPromotion :: "string \<Rightarrow> 'w \<Rightarrow> (api_error + string) \<times> 'w"
  gk_ListRuns :: "string \<Rightarrow> 'w \<Rightarrow> (api_error + promotion_run list) \<times> 'w"
  gk_DeleteRun :: "promotion_run \<Rightarrow> 'w \<Rightarrow> api_error option \<times> 'w"

text \<open>
  The delete loop: \<open>Inl\<close> is the wrapped error of a delete that is neither NotFound nor Forbidden,
  \<open>Inr\<close> the number of victims that are gone.
\<close>

fun delete_victims ::
  "'w gc_client \<Rightarrow> promotion_run list \<Rightarrow> nat \<Rightarrow> 'w \<Rightarrow> gc_effect list \<Rightarrow>
   (go_error + nat) \<times> 'w \<times> gc_effect list" where
  "delete_victims kb [] pruned w es = (Inr pruned, w, es)"
| "delete_victims kb (v # vs) pruned w es =
     (case gk_DeleteRun kb v w of
        (None, w1) \<Rightarrow>
          delete_victims kb vs (Suc pruned) w1
            (es @ [DeleteCalled (run_Name v), Pruned ''deleted'',
               AttemptPruned (run_Name v) (run_phase_of v)
                 (duration_string (duration_round (gk_Now kb w1 - created v) second))])
      | (Some e, w1) \<Rightarrow>
          (if is_not_found e then
             delete_victims kb vs (Suc pruned) w1 (es @ [DeleteCalled (run_Name v), Pruned ''not_found''])
           else if is_forbidden e then
             delete_victims kb vs pruned w1 (es @ [DeleteCalled (run_Name v), Pruned ''forbidden''])
           else
             (Inl (''delete PromotionRun '' @ run_Name v @ '': '' @ api_error_text e), w1,
              es @ [DeleteCalled (run_Name v), Pruned ''error''])))"

definition gc_reconcile ::
  "(run_phase list \<Rightarrow> run_phase list) \<Rightarrow> (run_phase list \<Rightarrow> run_phase list) \<Rightarrow> 'w gc_client \<Rightarrow> gc_config \<Rightarrow>
   string \<Rightarrow> 'w \<Rightarrow> (go_error + ctrl_result) \<times> 'w \<times> gc_effect list" where
  "gc_reconcile candidate_order cursor_order kb r name w =
     (case gk_GetPromotion kb name w of
        (Inl e, w1) \<Rightarrow> ((if is_not_found e then Inr no_requeue else Inl (api_error_text e)), w1, [])
      | (Inr promotion, w1) \<Rightarrow>
          (case gk_ListRuns kb promotion w1 of
             (Inl e, w2) \<Rightarrow> (Inl (''list child PromotionRuns: '' @ api_error_text e), w2, [])
           | (Inr runs, w2) \<Rightarrow>
               (let victims = select_victims candidate_order cursor_order r runs;
                    cap = nat (max_deletes_per_reconcile r);
                    remaining = length victims - cap
                in if victims = [] then (Inr no_requeue, w2, [Retained (int (length runs))])
                   else case delete_victims kb (take cap victims) 0 w2 [] of
                     (Inl e, w3, es) \<Rightarrow> (Inl e, w3, es)
                   | (Inr pruned, w3, es) \<Rightarrow>
                       (Inr (if remaining > 0 then requeue_after (drain_requeue_after r) else no_requeue), w3,
                        es @ [Retained (int (length runs) - int pruned)]))))"

end
