(* ===== verification/Retention_Properties.thy ===== *)
theory Retention_Properties
  imports Retention Sample_World
begin

text \<open>
  What the retention controller prunes. The key lemma is \<open>victims_of_outcome\<close>: whatever the order in
  which the map of buckets is walked, the victims of one outcome are a prefix of the runs of
  that outcome by age. The rest are consequences: only terminal runs, oldest first, exactly as
  many as the cap asks for, the floor where it fits below the cap, and the bounded delete loop.
\<close>

section \<open>Lists\<close>

lemma filter_take: "filter P (take n xs) = take (length (filter P (take n xs))) (filter P xs)"
proof -
  have "filter P xs = filter P (take n xs) @ filter P (drop n xs)"
    by (metis append_take_drop_id filter_append)
  then show ?thesis by simp
qed

lemma sum_list_filter_le:
  "distinct ks \<Longrightarrow> sum_list (map (\<lambda>k. length (filter (\<lambda>x. f x = k) xs)) ks) \<le> length xs"
proof (induction xs)
  case (Cons x xs)
  have "sum_list (map (\<lambda>k. if f x = k then 1 else 0 :: nat) ks) \<le> 1"
    using Cons.prems by (induction ks) (auto simp: sum_list_eq_0_iff)
  moreover have "sum_list (map (\<lambda>k. length (filter (\<lambda>y. f y = k) (x # xs))) ks) =
      sum_list (map (\<lambda>k. if f x = k then 1 else 0) ks) +
      sum_list (map (\<lambda>k. length (filter (\<lambda>y. f y = k) xs)) ks)"
    by (induction ks) auto
  ultimately show ?case using Cons.IH [OF Cons.prems] by simp
qed simp

lemma filter_concat_classes:
  assumes "distinct ks" and "\<And>k x. k \<in> set ks \<Longrightarrow> x \<in> set (g k) \<Longrightarrow> f x = k"
  shows "filter (\<lambda>x. f x = p) (concat (map g ks)) = (if p \<in> set ks then g p else [])"
  using assms
proof (induction ks)
  case (Cons k ks)
  have "filter (\<lambda>x. f x = p) (g k) = (if p = k then g k else [])"
    using Cons.prems(2) [of k] by (auto simp: filter_id_conv filter_empty_conv)
  then show ?case using Cons by auto
qed simp

section \<open>Buckets\<close>

lemma bucket_of_update [simp]: "bucket_of (AList.update k v B) p = (if p = k then v else bucket_of B p)"
  by (simp add: bucket_of_def update_conv')

lemma bucket_of_map:
  assumes "f p [] = []"
  shows "bucket_of (map (\<lambda>(p, b). (p, f p b)) B) p = f p (bucket_of B p)"
  using assms by (induction B) (auto simp: bucket_of_def)

lemma bucket_of_sort [simp]: "bucket_of (sort_buckets B) p = sort_key age_key (bucket_of B p)"
  unfolding sort_buckets_def by (rule bucket_of_map) simp

lemma bucket_of_trim [simp]: "bucket_of (trim_buckets ts B) p = drop (donated ts p) (bucket_of B p)"
  unfolding trim_buckets_def by (rule bucket_of_map) simp

lemma bucket_keys [simp]: "map fst (sort_buckets B) = map fst B" "map fst (trim_buckets ts B) = map fst B"
  by (simp_all add: sort_buckets_def trim_buckets_def case_prod_unfold comp_def)

lemma bucket_of_outside: "p \<notin> set (map fst B) \<Longrightarrow> bucket_of B p = []"
  by (simp add: bucket_of_def map_of_eq_None_iff [symmetric])

lemma total_terminal_sum:
  "distinct (map fst B) \<Longrightarrow> total_terminal B = sum_list (map (\<lambda>p. length (bucket_of B p)) (map fst B))"
proof -
  assume "distinct (map fst B)"
  then have "snd x = bucket_of B (fst x)" if "x \<in> set B" for x
    using that by (cases x) (simp add: bucket_of_def map_of_is_SomeI)
  then have "map (\<lambda>(p, b). length b) B = map (\<lambda>x. length (bucket_of B (fst x))) B"
    by (intro map_cong) (auto simp: case_prod_beta)
  then show ?thesis unfolding total_terminal_def by (simp only: map_map comp_def)
qed

lemma total_terminal_add:
  "distinct (map fst B) \<Longrightarrow>
   total_terminal (AList.update k (bucket_of B k @ [r]) B) = Suc (total_terminal B)"
  by (induction B) (auto simp: total_terminal_def bucket_of_def split: option.splits)

lemma split_runs_result:
  assumes "distinct (map fst B)"
  shows "fst (split_runs runs active B) = active @ filter (\<lambda>r. \<not> run_phase_is_terminal (run_phase_of r)) runs"
    and "bucket_of (snd (split_runs runs active B)) p =
      bucket_of B p @ filter (\<lambda>r. run_phase_is_terminal (run_phase_of r) \<and> run_phase_of r = p) runs"
    and "distinct (map fst (snd (split_runs runs active B)))"
    and "total_terminal (snd (split_runs runs active B)) =
      total_terminal B + length (filter (\<lambda>r. run_phase_is_terminal (run_phase_of r)) runs)"
  using assms
  by (induction runs active B rule: split_runs.induct)
    (auto simp: distinct_update total_terminal_add update_conv' dom_update)

section \<open>The runs of one outcome\<close>

definition terminal_runs :: "promotion_run list \<Rightarrow> promotion_run list" where
  "terminal_runs runs = filter (\<lambda>r. run_phase_is_terminal (run_phase_of r)) runs"

definition active_runs :: "promotion_run list \<Rightarrow> promotion_run list" where
  "active_runs runs = filter (\<lambda>r. \<not> run_phase_is_terminal (run_phase_of r)) runs"

text \<open>The terminal runs of one outcome, oldest first.\<close>

definition outcome :: "promotion_run list \<Rightarrow> run_phase \<Rightarrow> promotion_run list" where
  "outcome runs p = sort_key age_key (filter (\<lambda>r. run_phase_of r = p) (terminal_runs runs))"

text \<open>The number of runs over the cap, where unfinished runs use it up first.\<close>

definition overflow :: "gc_config \<Rightarrow> promotion_run list \<Rightarrow> nat" where
  "overflow r runs =
     nat (int (length (terminal_runs runs)) - max (max_retained r - int (length (active_runs runs))) 0)"

text \<open>A possible order of a \<^verbatim>\<open>range\<close> over a map: some permutation of its keys.\<close>

definition range_order :: "(run_phase list \<Rightarrow> run_phase list) \<Rightarrow> bool" where
  "range_order f \<longleftrightarrow> (\<forall>ks. mset (f ks) = mset ks)"

lemma range_order_keys:
  "range_order f \<Longrightarrow> set (f ks) = set ks \<and> distinct (f ks) = distinct ks"
  unfolding range_order_def by (metis mset_eq_imp_distinct_iff mset_eq_setD)

lemma outcome_phase: "r \<in> set (outcome runs p) \<Longrightarrow> run_phase_of r = p \<and> r \<in> set (terminal_runs runs)"
  by (auto simp: outcome_def)

lemma outcome_sorted: "sorted (map age_key (outcome runs p))"
  by (simp add: outcome_def)

lemma min_per_outcome_pos: "min_per_outcome r > 0"
  by (simp add: min_per_outcome_def DefaultMinRetainedPerOutcome_def)

lemma length_active_terminal: "length (active_runs runs) + length (terminal_runs runs) = length runs"
  by (simp add: active_runs_def terminal_runs_def sum_length_filter_compl add.commute)

section \<open>Pass one\<close>

lemma candidates_of_outcome:
  assumes B: "distinct (map fst B)" "\<And>p. sorted (map age_key (bucket_of B p))" and f: "range_order f" and m: "0 \<le> m"
  shows "filter (\<lambda>c. fst c = p) (sorted_candidates f m B) =
    map (Pair p) (take (length (bucket_of B p) - nat m) (bucket_of B p))"
proof -
  let ?b = "bucket_of B p"
  have cand: "bucket_candidates m B q = map (Pair q) (take (length (bucket_of B q) - nat m) (bucket_of B q))" for q
    using m by (auto simp: bucket_candidates_def nat_diff_distrib)
  have keys: "set (f (map fst B)) = set (map fst B)" "distinct (f (map fst B))"
    using range_order_keys [OF f, of "map fst B"] B(1) by simp_all
  have "filter (\<lambda>c. fst c = p) (concat (map (bucket_candidates m B) (f (map fst B)))) =
      (if p \<in> set (f (map fst B)) then bucket_candidates m B p else [])"
    by (rule filter_concat_classes [OF keys(2)]) (auto simp: cand)
  moreover have "p \<notin> set (f (map fst B)) \<Longrightarrow> bucket_candidates m B p = []"
    unfolding keys(1) cand by (drule bucket_of_outside) simp
  ultimately have "filter (\<lambda>c. fst c = p) (concat (map (bucket_candidates m B) (f (map fst B)))) =
      bucket_candidates m B p" by auto
  moreover have "sorted (map (\<lambda>c. age_key (snd c)) (bucket_candidates m B p))"
    using sorted_wrt_take [OF B(2) [of p], of "length ?b - nat m"] by (simp add: cand comp_def take_map)
  ultimately show ?thesis
    by (simp add: sorted_candidates_def filter_sort cand sort_key_id_if_sorted)
qed

lemma candidates_phase:
  assumes "\<And>p r. r \<in> set (bucket_of B p) \<Longrightarrow> run_phase_of r = p" and "c \<in> set (sorted_candidates f m B)"
  shows "run_phase_of (snd c) = fst c"
  using assms by (auto simp: sorted_candidates_def bucket_candidates_def dest: in_set_takeD split: if_splits)

lemma taken_of_outcome:
  assumes B: "distinct (map fst B)" "\<And>p. sorted (map age_key (bucket_of B p))"
      "\<And>p r. r \<in> set (bucket_of B p) \<Longrightarrow> run_phase_of r = p"
    and f: "range_order f" and m: "0 \<le> m" and ts_def: "ts = take n (sorted_candidates f m B)"
  shows "filter (\<lambda>r. run_phase_of r = p) (map snd ts) = take (donated ts p) (bucket_of B p)"
    and "donated ts p \<le> length (bucket_of B p) - nat m"
proof -
  let ?l = "length (bucket_of B p) - nat m"
  have ph: "run_phase_of (snd c) = fst c" if "c \<in> set ts" for c
    using candidates_phase [OF B(3)] that by (auto simp: ts_def dest: in_set_takeD)
  have fs: "filter (\<lambda>c. fst c = p) ts = map (Pair p) (take (donated ts p) (take ?l (bucket_of B p)))"
    using filter_take [of "\<lambda>c. fst c = p" n "sorted_candidates f m B"] candidates_of_outcome [OF B(1,2) f m]
    by (simp add: ts_def donated_def take_map)
  then have "donated ts p = length (take (donated ts p) (take ?l (bucket_of B p)))"
    by (metis donated_def length_map)
  then show le: "donated ts p \<le> ?l" by simp
  have "filter (\<lambda>r. run_phase_of r = p) (map snd ts) = map snd (filter (\<lambda>c. fst c = p) ts)"
    using ph by (simp add: filter_map comp_def cong: filter_cong)
  then show "filter (\<lambda>r. run_phase_of r = p) (map snd ts) = take (donated ts p) (bucket_of B p)"
    using le by (simp add: fs comp_def)
qed

section \<open>Pass two\<close>

lemma oldest_cursor_bound: "k < length cs \<Longrightarrow> oldest_cursor B cs i k < length cs"
proof (induction B cs i k rule: oldest_cursor.induct)
  case (1 B cs i k)
  then show ?case by (subst oldest_cursor.simps) simp
qed

text \<open>The position of an outcome: that of its cursor, or the end of its bucket.\<close>

definition position :: "buckets \<Rightarrow> cursor list \<Rightarrow> run_phase \<Rightarrow> nat" where
  "position B cs p = (case map_of cs p of None \<Rightarrow> length (bucket_of B p) | Some i \<Rightarrow> i)"

definition cursors_ok :: "buckets \<Rightarrow> cursor list \<Rightarrow> bool" where
  "cursors_ok B cs \<longleftrightarrow> distinct (map fst cs) \<and> (\<forall>(p, i) \<in> set cs. i < length (bucket_of B p))"

definition pending :: "buckets \<Rightarrow> cursor list \<Rightarrow> nat" where
  "pending B cs = sum_list (map (\<lambda>(p, i). length (bucket_of B p) - i) cs)"

lemma advance_cursor_ok:
  assumes ok: "cursors_ok B cs" and k: "k < length cs"
  defines "p \<equiv> fst (cs ! k)" and "i \<equiv> snd (cs ! k)"
  shows "cursors_ok B (advance_cursor B cs k)" "position B cs p = i" "i < length (bucket_of B p)"
    and "position B (advance_cursor B cs k) q = (if q = p then Suc i else position B cs q)"
    and "pending B cs = Suc (pending B (advance_cursor B cs k))"
proof -
  define xs ys where "xs = take k cs" and "ys = drop (Suc k) cs"
  have cs: "cs = xs @ (p, i) # ys"
    using id_take_nth_drop [OF k] by (simp add: xs_def ys_def p_def i_def)
  have len: "length xs = k" using k by (simp add: xs_def)
  have adv: "advance_cursor B cs k =
      (if Suc i \<ge> length (bucket_of B p) then xs @ ys else xs @ (p, Suc i) # ys)"
    unfolding advance_cursor_def Let_def cs by (simp add: nth_append len list_update_append)
  have none: "map_of xs p = None" "map_of ys p = None"
    using ok by (auto simp: cursors_ok_def cs map_of_eq_None_iff)
  show i: "i < length (bucket_of B p)" using ok by (auto simp: cursors_ok_def cs)
  have ok': "cursors_ok B (xs @ (p, i) # ys)" using ok cs by simp
  then show "cursors_ok B (advance_cursor B cs k)"
    unfolding adv by (auto simp: cursors_ok_def)
  have pos: "position B cs q = position B (xs @ (p, i) # ys) q" for q using cs by simp
  show "position B cs p = i" unfolding pos using none by (simp add: position_def map_add_def)
  show "position B (advance_cursor B cs k) q = (if q = p then Suc i else position B cs q)"
    using none i unfolding adv pos by (auto simp: position_def map_add_def split: option.splits)
  have "pending B cs = pending B (xs @ (p, i) # ys)" using cs by simp
  then show "pending B cs = Suc (pending B (advance_cursor B cs k))"
    using i unfolding adv by (auto simp: pending_def)
qed

lemma drain_of_outcome:
  assumes "cursors_ok B cs" and "\<And>p r. r \<in> set (bucket_of B p) \<Longrightarrow> run_phase_of r = p"
  shows "\<exists>j. filter (\<lambda>r. run_phase_of r = p) (drain_cursors B n cs) = take j (drop (position B cs p) (bucket_of B p))"
    and "length (drain_cursors B n cs) = min n (pending B cs)"
  using assms(1)
proof (induction n arbitrary: cs)
  case 0
  { case 1 then show ?case by (auto intro: exI [of _ 0]) }
  { case 2 then show ?case by simp }
next
  case (Suc n)
  { case 1
    let ?k = "oldest_cursor B cs 1 0"
    let ?cs = "advance_cursor B cs ?k"
    show ?case
    proof (cases "cs = []")
      case False
      then have k: "?k < length cs" using oldest_cursor_bound [of 0 cs B 1] by simp
      note adv = advance_cursor_ok [OF 1 k]
      have ph: "run_phase_of (cursor_run B (cs ! ?k)) = fst (cs ! ?k)"
        using adv(3) assms(2) by (simp add: cursor_run_def)
      obtain j where j: "filter (\<lambda>r. run_phase_of r = p) (drain_cursors B n ?cs) =
          take j (drop (position B ?cs p) (bucket_of B p))" using Suc.IH(1) [OF adv(1)] by blast
      show ?thesis
      proof (cases "p = fst (cs ! ?k)")
        case True
        have "cursor_run B (cs ! ?k) # take j (drop (Suc (snd (cs ! ?k))) (bucket_of B p)) =
            take (Suc j) (drop (snd (cs ! ?k)) (bucket_of B p))"
          using adv(3) True by (simp add: cursor_run_def Cons_nth_drop_Suc [symmetric])
        then show ?thesis
          using False True ph j adv(2,4) by (auto simp: Let_def intro!: exI [of _ "Suc j"])
      qed (use False ph j adv(4) in \<open>auto simp: Let_def\<close>)
    qed (auto intro: exI [of _ 0]) }
  { case 2
    let ?k = "oldest_cursor B cs 1 0"
    let ?cs = "advance_cursor B cs ?k"
    show ?case
    proof (cases "cs = []")
      case False
      then have "?k < length cs" using oldest_cursor_bound [of 0 cs B 1] by simp
      from advance_cursor_ok(1,5) [OF 2 this] Suc.IH(2) [of ?cs] False show ?thesis by (simp add: Let_def)
    qed (simp add: pending_def) }
qed

section \<open>The selection\<close>

text \<open>The buckets after sorting hold the runs of each outcome by age.\<close>

lemma sorted_buckets:
  assumes "B = sort_buckets (snd (split_runs runs [] []))"
  shows "bucket_of B p = outcome runs p" "distinct (map fst B)"
    and "total_terminal B = length (terminal_runs runs)"
    and "sum_list (map (\<lambda>p. length (outcome runs p)) (map fst B)) = length (terminal_runs runs)"
proof -
  let ?B0 = "snd (split_runs runs [] [])"
  note split = split_runs_result [of "[]" runs "[]"]
  have "bucket_of [] q = []" for q by (simp add: bucket_of_def)
  then show b: "bucket_of B p = outcome runs p" for p
    using split(2) by (simp add: assms outcome_def terminal_runs_def conj_commute)
  show d: "distinct (map fst B)" using split(3) by (simp add: assms)
  have "total_terminal B = total_terminal ?B0"
    by (simp add: assms total_terminal_def sort_buckets_def case_prod_unfold comp_def)
  then show "total_terminal B = length (terminal_runs runs)"
    using split(4) by (simp add: terminal_runs_def total_terminal_def)
  then show "sum_list (map (\<lambda>p. length (outcome runs p)) (map fst B)) = length (terminal_runs runs)"
    using total_terminal_sum [OF d] by (simp add: b)
qed

lemma active_of_split: "fst (split_runs runs [] []) = active_runs runs"
  using split_runs_result(1) [of "[]" runs "[]"] by (simp add: active_runs_def)

text \<open>The two passes, as functions of the runs.\<close>

definition first_pass :: "(run_phase list \<Rightarrow> run_phase list) \<Rightarrow> gc_config \<Rightarrow> promotion_run list \<Rightarrow>
  (run_phase \<times> promotion_run) list" where
  "first_pass f r runs =
     take (overflow r runs) (sorted_candidates f (min_per_outcome r) (sort_buckets (snd (split_runs runs [] []))))"

definition second_pass :: "(run_phase list \<Rightarrow> run_phase list) \<Rightarrow> (run_phase list \<Rightarrow> run_phase list) \<Rightarrow>
  gc_config \<Rightarrow> promotion_run list \<Rightarrow> promotion_run list" where
  "second_pass f g r runs =
     (let B = trim_buckets (first_pass f r runs) (sort_buckets (snd (split_runs runs [] [])))
      in drain_cursors B (overflow r runs - length (first_pass f r runs))
           (map (\<lambda>p. (p, 0)) (filter (\<lambda>p. bucket_of B p \<noteq> []) (g (map fst B)))))"

lemma select_victims_passes:
  "select_victims f g r runs = map snd (first_pass f r runs) @ second_pass f g r runs"
proof -
  have take_min: "take (min (length xs) n) xs = take n xs" for n and xs :: "(run_phase \<times> promotion_run) list"
    by (simp add: min_def)
  let ?budget = "max (max_retained r - int (length (active_runs runs))) 0"
  have le: "int (length (terminal_runs runs)) \<le> ?budget \<longleftrightarrow> overflow r runs = 0" by (simp add: overflow_def)
  have "runs = [] \<Longrightarrow> overflow r runs = 0" by (simp add: overflow_def terminal_runs_def)
  moreover have "overflow r runs = 0 \<Longrightarrow> first_pass f r runs = [] \<and> second_pass f g r runs = []"
    by (simp add: first_pass_def second_pass_def)
  moreover have "overflow r runs - length (first_pass f r runs) = 0 \<Longrightarrow> second_pass f g r runs = []"
    by (simp add: second_pass_def)
  ultimately show ?thesis
    unfolding select_victims_def Let_def case_prod_unfold active_of_split sorted_buckets(3) [OF refl]
      overflow_def [symmetric] le take_min first_pass_def [symmetric] second_pass_def [unfolded Let_def, symmetric]
    by (cases "runs = []"; cases "overflow r runs = 0") simp_all
qed

lemma victims_of_outcome:
  assumes f: "range_order f" and g: "range_order g"
  shows "\<exists>j. filter (\<lambda>v. run_phase_of v = p) (select_victims f g r runs) = take j (outcome runs p)"
    and "filter (\<lambda>v. run_phase_of v = p) (map snd (first_pass f r runs)) =
      take (donated (first_pass f r runs) p) (outcome runs p)"
    and "donated (first_pass f r runs) p \<le> length (outcome runs p) - nat (min_per_outcome r)"
    and "length (select_victims f g r runs) = overflow r runs"
proof -
  define B where "B = sort_buckets (snd (split_runs runs [] []))"
  note B = sorted_buckets [OF B_def]
  let ?ts = "first_pass f r runs" and ?B1 = "trim_buckets (first_pass f r runs) B"
  let ?cs = "map (\<lambda>p. (p, 0)) (filter (\<lambda>p. bucket_of ?B1 p \<noteq> []) (g (map fst B)))"
  have m: "0 \<le> min_per_outcome r" using min_per_outcome_pos [of r] by simp
  have sorted: "sorted (map age_key (bucket_of B q))" for q by (simp add: B(1) outcome_sorted)
  have phase: "v \<in> set (bucket_of B q) \<Longrightarrow> run_phase_of v = q" for q v by (auto simp: B(1) dest: outcome_phase)
  note pass1 = taken_of_outcome [OF B(2) sorted phase f m, of ?ts "overflow r runs"]
  have first: "filter (\<lambda>v. run_phase_of v = q) (map snd ?ts) = take (donated ?ts q) (outcome runs q)"
      "donated ?ts q \<le> length (outcome runs q) - nat (min_per_outcome r)" for q
    using pass1 [of q] by (simp_all add: first_pass_def B_def [symmetric] B(1))
  then show "filter (\<lambda>v. run_phase_of v = p) (map snd ?ts) = take (donated ?ts p) (outcome runs p)"
    "donated ?ts p \<le> length (outcome runs p) - nat (min_per_outcome r)" by blast+
  have keys: "set (g (map fst B)) = set (map fst B)" "distinct (g (map fst B))" "mset (g (map fst B)) = mset (map fst B)"
    using range_order_keys [OF g, of "map fst B"] B(2) g by (simp_all add: range_order_def)
  have ok: "cursors_ok ?B1 ?cs"
    using keys(2) by (auto simp: cursors_ok_def comp_def)
  have phase1: "v \<in> set (bucket_of ?B1 q) \<Longrightarrow> run_phase_of v = q" for q v
    using phase by (auto dest: in_set_dropD)
  have second: "second_pass f g r runs = drain_cursors ?B1 (overflow r runs - length ?ts) ?cs"
    by (simp add: second_pass_def B_def)
  show "\<exists>j. filter (\<lambda>v. run_phase_of v = p) (select_victims f g r runs) = take j (outcome runs p)"
  proof -
    have pos: "drop (position ?B1 ?cs p) (bucket_of ?B1 p) = bucket_of ?B1 p"
    proof (cases "bucket_of ?B1 p = []")
      case False
      then have "p \<in> set (map fst B)" using bucket_of_outside [of p ?B1] by auto
      with False show ?thesis using keys(1,2)
        by (auto simp: position_def map_of_map_restrict restrict_map_def)
    qed simp
    obtain j where "filter (\<lambda>v. run_phase_of v = p) (second_pass f g r runs) = take j (bucket_of ?B1 p)"
      using drain_of_outcome(1) [OF ok phase1, of p] unfolding second pos by blast
    then have "filter (\<lambda>v. run_phase_of v = p) (select_victims f g r runs) =
        take (donated ?ts p + j) (outcome runs p)"
      by (simp add: select_victims_passes first take_add B(1))
    then show ?thesis by blast
  qed
  show "length (select_victims f g r runs) = overflow r runs"
  proof -
    have le: "length ?ts \<le> overflow r runs" by (simp add: first_pass_def)
    have "pending ?B1 ?cs = sum_list (map (\<lambda>q. length (bucket_of ?B1 q)) (filter (\<lambda>q. bucket_of ?B1 q \<noteq> []) (g (map fst B))))"
      by (simp add: pending_def comp_def)
    also have "\<dots> = sum_list (map (\<lambda>q. length (bucket_of ?B1 q)) (g (map fst B)))"
      by (rule sum_list_map_filter) auto
    also have "\<dots> = sum_list (map (\<lambda>q. length (bucket_of ?B1 q)) (map fst B))"
      unfolding sum_mset_sum_list [symmetric] mset_map keys(3) ..
    also have "\<dots> + sum_list (map (\<lambda>q. donated ?ts q) (map fst B)) = length (terminal_runs runs)"
    proof -
      have "length (bucket_of ?B1 q) + donated ?ts q = length (outcome runs q)" for q
        using first(2) [of q] by (simp add: B(1))
      then show ?thesis using B(4) by (simp add: sum_list_addf [symmetric] comp_def)
    qed
    finally have "length (terminal_runs runs) \<le> pending ?B1 ?cs + length ?ts"
      using sum_list_filter_le [OF B(2), of fst ?ts] by (simp add: donated_def)
    moreover have "overflow r runs \<le> length (terminal_runs runs)" by (simp add: overflow_def)
    moreover have "length (second_pass f g r runs) = min (overflow r runs - length ?ts) (pending ?B1 ?cs)"
      unfolding second by (rule drain_of_outcome(2) [OF ok]) (fact phase1)
    ultimately have "length (second_pass f g r runs) = overflow r runs - length ?ts" by linarith
    then show ?thesis using le by (simp add: select_victims_passes)
  qed
qed

lemma mset_victims:
  assumes "range_order f" and "range_order g"
  shows "mset (select_victims f g r runs) \<subseteq># mset (terminal_runs runs)"
proof (rule mset_subset_eqI)
  fix v
  let ?vs = "select_victims f g r runs" and ?p = "run_phase_of v"
  have cnt: "count (mset (filter (\<lambda>x. run_phase_of x = ?p) xs)) v = count (mset xs) v" for xs
    by (simp add: mset_filter)
  obtain j where "filter (\<lambda>x. run_phase_of x = ?p) ?vs = take j (outcome runs ?p)"
    using victims_of_outcome(1) [OF assms] by blast
  then have "count (mset ?vs) v = count (mset (take j (outcome runs ?p))) v" by (metis cnt)
  also have "\<dots> \<le> count (mset (outcome runs ?p)) v"
    by (metis append_take_drop_id count_union le_add1 mset_append)
  also have "\<dots> = count (mset (terminal_runs runs)) v" by (simp add: outcome_def cnt)
  finally show "count (mset ?vs) v \<le> count (mset (terminal_runs runs)) v" .
qed

lemma victims_terminal:
  "range_order f \<Longrightarrow> range_order g \<Longrightarrow> v \<in> set (select_victims f g r runs) \<Longrightarrow>
   v \<in> set runs \<and> run_phase_is_terminal (run_phase_of v)"
  using mset_victims [of f g r runs] set_mset_mono by (fastforce simp: terminal_runs_def)

lemma older_is_victim:
  assumes "range_order f" and "range_order g" and v: "v \<in> set (select_victims f g r runs)"
    and s: "s \<in> set runs" "run_phase_of s = run_phase_of v" "age_key s < age_key v"
  shows "s \<in> set (select_victims f g r runs)"
proof -
  let ?p = "run_phase_of v" and ?o = "outcome runs (run_phase_of v)"
  obtain j where j: "filter (\<lambda>x. run_phase_of x = ?p) (select_victims f g r runs) = take j ?o"
    using victims_of_outcome(1) [OF assms(1,2)] by blast
  have vt: "v \<in> set (take j ?o)" unfolding j [symmetric] using v by simp
  have "s \<in> set ?o"
    using s victims_terminal [OF assms(1,2) v] by (simp add: outcome_def terminal_runs_def)
  then have "s \<in> set (take j ?o) \<or> s \<in> set (drop j ?o)" by (metis Un_iff append_take_drop_id set_append)
  moreover have "\<not> s \<in> set (drop j ?o)"
  proof
    assume "s \<in> set (drop j ?o)"
    moreover have "sorted (map age_key (take j ?o) @ map age_key (drop j ?o))"
      unfolding map_append [symmetric] append_take_drop_id by (rule outcome_sorted)
    ultimately have "age_key v \<le> age_key s" using vt unfolding sorted_append by auto
    with s(3) show False by simp
  qed
  ultimately show ?thesis unfolding j [symmetric] by simp
qed

lemma kept_runs:
  assumes "range_order f" and "range_order g" and "distinct runs" and vs_def: "vs = select_victims f g r runs"
  shows "length (filter (\<lambda>x. P x \<and> x \<notin> set vs) runs) + length (filter P vs) = length (filter P runs)"
    and "distinct vs"
proof -
  have sub: "mset vs \<subseteq># mset (terminal_runs runs)" unfolding vs_def by (rule mset_victims [OF assms(1,2)])
  have "distinct (terminal_runs runs)" using assms(3) by (simp add: terminal_runs_def)
  then show d: "distinct vs" using sub by (metis distinct_append mset_append mset_eq_imp_distinct_iff mset_subset_eq_exists_conv ex_mset)
  have "set vs \<subseteq> set runs" using victims_terminal [OF assms(1,2)] by (auto simp: vs_def)
  then have "card (set (filter P vs)) = card (set (filter (\<lambda>x. P x \<and> x \<in> set vs) runs))"
    by (intro arg_cong [of _ _ card]) auto
  then have "length (filter P vs) = length (filter (\<lambda>x. P x \<and> x \<in> set vs) runs)"
    unfolding distinct_card [OF distinct_filter [OF d]] distinct_card [OF distinct_filter [OF assms(3)]] .
  then show "length (filter (\<lambda>x. P x \<and> x \<notin> set vs) runs) + length (filter P vs) = length (filter P runs)"
    using sum_length_filter_compl [of "\<lambda>x. x \<in> set vs" "filter P runs"] by (simp add: conj_commute)
qed

section \<open>A sample\<close>

definition gc_run :: "string \<Rightarrow> run_phase \<Rightarrow> int \<Rightarrow> promotion_run" where
  "gc_run n p t = sample_run\<lparr>run_Meta := (named n)\<lparr>om_CreationTimestamp := t\<rparr>,
     run_Status := (run_Status sample_run)\<lparr>rst_Phase := p\<rparr>\<rparr>"

definition gc_runs :: "promotion_run list" where
  "gc_runs = [gc_run ''b'' RunComplete 2, gc_run ''d'' RunProgressing 4, gc_run ''c'' RunFailed 3,
     gc_run ''a'' RunComplete 1]"

definition gc_sample_config :: "int \<Rightarrow> gc_config" where
  "gc_sample_config m = \<lparr>gc_MaxRetainedPerPromotion = m, gc_MinRetainedPerOutcome = 1,
     gc_MaxDeletesPerReconcile = 1, gc_RequeueAfter = 0\<rparr>"

text \<open>A client over a list of runs, where deletes of the run named \<open>locked\<close> are forbidden.\<close>

definition gc_sample_client :: "string \<Rightarrow> promotion_run list gc_client" where
  "gc_sample_client locked =
     \<lparr>gk_Now = (\<lambda>w. 0), gk_GetPromotion = (\<lambda>n w. (Inr n, w)), gk_ListRuns = (\<lambda>n w. (Inr w, w)),
      gk_DeleteRun = (\<lambda>v w. if run_Name v = locked then (Some (ApiForbidden ''forbidden''), w)
        else (None, filter (\<lambda>x. run_Name x \<noteq> run_Name v) w))\<rparr>"

lemmas gc_sample_defs = gc_run_def gc_runs_def gc_sample_config_def gc_sample_client_def sample_run_def named_def

lemma gc_sample_facts:
  "range_order rev" "range_order id" "distinct gc_runs"
  "length (active_runs gc_runs) = 1" "length (terminal_runs gc_runs) = 3" "length gc_runs = 4"
  "max_retained (gc_sample_config 1) = 1" "max_retained (gc_sample_config 2) = 2" "max_retained (gc_sample_config 3) = 3"
  by (simp_all add: range_order_def gc_sample_defs active_runs_def terminal_runs_def run_phase_is_terminal_def max_retained_def)

section \<open>Properties\<close>

text \<open>The count, whatever the numbers: the cap, or the unfinished runs when these exceed it.\<close>

lemma retention_count:
  assumes "range_order f" and "range_order g" and "distinct runs"
  shows "length (filter (\<lambda>x. x \<notin> set (select_victims f g r runs)) runs) =
      min (length runs) (max (nat (max_retained r)) (length (active_runs runs))) \<and>
    distinct (select_victims f g r runs) \<and> set (select_victims f g r runs) \<subseteq> set (terminal_runs runs)"
proof -
  let ?vs = "select_victims f g r runs"
  have "length (filter (\<lambda>x. x \<notin> set ?vs) runs) + length ?vs = length runs"
    using kept_runs(1) [OF assms refl, of "\<lambda>x. True"] by simp
  moreover have "length ?vs = overflow r runs" by (rule victims_of_outcome(4) [OF assms(1,2)])
  moreover have "max_retained r > 0" by (simp add: max_retained_def DefaultMaxRetainedPerPromotion_def)
  ultimately have "length (filter (\<lambda>x. x \<notin> set ?vs) runs) =
      min (length runs) (max (nat (max_retained r)) (length (active_runs runs)))"
    using length_active_terminal [of runs] by (auto simp: overflow_def)
  moreover have "set ?vs \<subseteq> set (terminal_runs runs)"
    using victims_terminal [OF assms(1,2)] by (auto simp: terminal_runs_def)
  ultimately show ?thesis using kept_runs(2) [OF assms refl] by blast
qed

text \<open>The cap has room for the unfinished runs and for the floor of every outcome.\<close>

definition room_for_floors :: "gc_config \<Rightarrow> promotion_run list \<Rightarrow> bool" where
  "room_for_floors r runs \<longleftrightarrow>
     int (length (active_runs runs)) +
       (\<Sum>p \<leftarrow> [RunComplete, RunFailed, RunSuperseded]. int (min (length (outcome runs p)) (nat (min_per_outcome r))))
     \<le> max_retained r"

text \<open>Then each outcome keeps at least its floor, or all of its runs if it has fewer.\<close>

lemma retention_keeps_outcome_floor:
  assumes "range_order f" and "range_order g" and "distinct runs"
    and room: "room_for_floors r runs"
    and p: "run_phase_is_terminal p"
  shows "min (length (outcome runs p)) (nat (min_per_outcome r)) \<le>
    length (filter (\<lambda>x. run_phase_of x = p \<and> x \<notin> set (select_victims f g r runs)) runs)"
proof -
  let ?vs = "select_victims f g r runs" and ?m = "nat (min_per_outcome r)"
  define B where "B = sort_buckets (snd (split_runs runs [] []))"
  note B = sorted_buckets [OF B_def]
  let ?C = "sorted_candidates f (min_per_outcome r) B"
  have m: "0 \<le> min_per_outcome r" using min_per_outcome_pos [of r] by simp
  define above below where "above q = length (outcome runs q) - ?m" and "below q = min (length (outcome runs q)) ?m" for q
  have len: "length (outcome runs q) = above q + below q" for q by (simp add: above_def below_def)
  have C: "length (filter (\<lambda>c. fst c = q) ?C) = above q" for q
    using candidates_of_outcome [OF B(2) _ assms(1) m] by (simp add: B(1) outcome_sorted above_def)
  have "(\<Sum>q \<leftarrow> [RunComplete, RunFailed, RunSuperseded]. length (filter (\<lambda>c. fst c = q) ?C)) \<le> length ?C"
    by (rule sum_list_filter_le) simp
  then have "above RunComplete + above RunFailed + above RunSuperseded \<le> length ?C" by (simp add: C)
  moreover have "length (outcome runs RunComplete) + length (outcome runs RunFailed) + length (outcome runs RunSuperseded) =
      length (terminal_runs runs)"
    unfolding outcome_def terminal_runs_def by (induction runs) (auto simp: run_phase_is_terminal_def)
  moreover have "int (length (active_runs runs)) + int (below RunComplete + below RunFailed + below RunSuperseded) \<le> max_retained r"
    using room by (simp add: below_def room_for_floors_def)
  ultimately have "overflow r runs \<le> length ?C" unfolding overflow_def len nat_le_iff by linarith
  then have "second_pass f g r runs = []" by (simp add: second_pass_def first_pass_def B_def)
  then have "length (filter (\<lambda>x. run_phase_of x = p) ?vs) \<le> length (outcome runs p) - ?m"
    using victims_of_outcome(2,3) [OF assms(1,2), where p = p and r = r and runs = runs] by (simp add: select_victims_passes)
  moreover have "length (filter (\<lambda>x. run_phase_of x = p) runs) = length (outcome runs p)"
    using p by (auto simp: outcome_def terminal_runs_def intro!: arg_cong [of _ _ length] filter_cong)
  ultimately show ?thesis
    using kept_runs(1) [OF assms(1-3) refl, where P = "\<lambda>x. run_phase_of x = p" and r = r] by linarith
qed

text \<open>C24. When the cap has room for the unfinished runs and for the floor of every outcome, then however Go
  walks the map of buckets: the runs that are kept are the whole list, or exactly as many as the cap
  allows; every victim is a listed terminal run, chosen once; every outcome keeps at least its floor, or all of its
  runs if it has fewer; and within an outcome no run is kept that is older than a victim.\<close>

theorem retention_is_exact:
  assumes "range_order f" and "range_order g" and "distinct runs" and room: "room_for_floors r runs"
  shows "length (filter (\<lambda>x. x \<notin> set (select_victims f g r runs)) runs) = min (length runs) (nat (max_retained r)) \<and>
    distinct (select_victims f g r runs) \<and> set (select_victims f g r runs) \<subseteq> set (terminal_runs runs) \<and>
    (\<forall>p. run_phase_is_terminal p \<longrightarrow>
      min (length (outcome runs p)) (nat (min_per_outcome r)) \<le>
      length (filter (\<lambda>x. run_phase_of x = p \<and> x \<notin> set (select_victims f g r runs)) runs)) \<and>
    (\<forall>v \<in> set (select_victims f g r runs). \<forall>s \<in> set runs.
      run_phase_of s = run_phase_of v \<and> age_key s < age_key v \<longrightarrow> s \<in> set (select_victims f g r runs))"
proof -
  have "0 \<le> (\<Sum>p \<leftarrow> [RunComplete, RunFailed, RunSuperseded]. int (min (length (outcome runs p)) (nat (min_per_outcome r))))"
    by simp
  then have "length (active_runs runs) \<le> nat (max_retained r)" using room unfolding room_for_floors_def by linarith
  then have "max (nat (max_retained r)) (length (active_runs runs)) = nat (max_retained r)" by simp
  then show ?thesis
    using retention_count [OF assms(1-3), of r] retention_keeps_outcome_floor [OF assms] older_is_victim [OF assms(1,2)]
    by simp
qed

lemma gc_sample_outcomes:
  "length (outcome gc_runs RunComplete) = 2" "length (outcome gc_runs RunFailed) = 1" "length (outcome gc_runs RunSuperseded) = 0"
  by (simp_all add: outcome_def terminal_runs_def gc_sample_defs run_phase_is_terminal_def)

lemma gc_sample_room: "room_for_floors (gc_sample_config 3) gc_runs"
proof -
  have "min_per_outcome (gc_sample_config 3) = 1" by (simp add: min_per_outcome_def gc_sample_config_def)
  then show ?thesis by (simp add: room_for_floors_def gc_sample_facts gc_sample_outcomes)
qed

theorem retention_is_exact_witness:
  "length (filter (\<lambda>x. x \<notin> set (select_victims rev id (gc_sample_config 3) gc_runs)) gc_runs) = 3"
  using retention_is_exact [of rev id gc_runs "gc_sample_config 3"] gc_sample_room by (simp add: gc_sample_facts)

text \<open>When the unfinished runs alone use up the cap, every terminal run is pruned, the floors
  included. The comment in \<^verbatim>\<open>selectVictims\<close> says that no terminal run is pruned in that case.\<close>

theorem full_active_set_prunes_every_terminal_run:
  assumes "range_order f" and "range_order g" and "max_retained r \<le> int (length (active_runs runs))"
  shows "mset (select_victims f g r runs) = mset (terminal_runs runs)"
proof -
  have "length (select_victims f g r runs) = length (terminal_runs runs)"
    using victims_of_outcome(4) [OF assms(1,2)] assms(3) by (simp add: overflow_def)
  then have "size (mset (terminal_runs runs) - mset (select_victims f g r runs)) = 0"
    using size_Diff_submset [OF mset_victims [OF assms(1,2), of r runs]] by simp
  then show ?thesis
    using subset_mset.add_diff_inverse [OF mset_victims [OF assms(1,2), of r runs]] by (simp only: size_eq_0_iff_empty add_0_right)
qed

theorem full_active_set_prunes_every_terminal_run_witness:
  "set (select_victims rev id (gc_sample_config 1) gc_runs) = set (terminal_runs gc_runs)"
  by (rule mset_eq_setD [OF full_active_set_prunes_every_terminal_run]) (simp_all add: gc_sample_facts)

section \<open>The delete loop\<close>

definition deletes :: "gc_effect list \<Rightarrow> string list" where
  "deletes es = List.map_filter (\<lambda>e. case e of DeleteCalled n \<Rightarrow> Some n | _ \<Rightarrow> None) es"

lemma deletes_simps [simp]:
  "deletes [] = []" "deletes (es @ es') = deletes es @ deletes es'"
  "deletes (DeleteCalled n # es) = n # deletes es" "deletes (Pruned l # es) = deletes es"
  "deletes (AttemptPruned n p a # es) = deletes es" "deletes (Retained k # es) = deletes es"
  by (simp_all add: deletes_def map_filter_def)

lemma delete_victims_step:
  obtains k1 w1 es1 where "delete_victims kb (v # vs) k w es = delete_victims kb vs k1 w1 es1"
      "deletes es1 = deletes es @ [run_Name v]"
  | e w1 es1 where "delete_victims kb (v # vs) k w es = (Inl e, w1, es1)" "deletes es1 = deletes es @ [run_Name v]"
proof (cases "gk_DeleteRun kb v w")
  case (Pair err w1)
  show ?thesis
  proof (cases err)
    case None
    show ?thesis by (rule that(1), simp add: Pair None, simp)
  next
    case (Some e)
    show ?thesis
    proof (cases "is_not_found e")
      case True
      show ?thesis by (rule that(1), simp add: Pair Some True, simp)
    next
      case False
      show ?thesis
      proof (cases "is_forbidden e")
        case True
        show ?thesis by (rule that(1), simp add: Pair Some True False, simp)
      qed (rule that(2), simp add: Pair Some False, simp)
    qed
  qed
qed

lemma delete_victims_prefix:
  assumes "delete_victims kb vs k w es = (res, w', es')"
  shows "\<exists>j. deletes es' = deletes es @ map run_Name (take j vs) \<and> (\<forall>n. res = Inr n \<longrightarrow> j = length vs)"
  using assms
proof (induction vs arbitrary: k w es)
  case (Cons v vs)
  show ?case
  proof (rule delete_victims_step [of kb v vs k w es])
    fix k1 w1 es1
    assume step: "delete_victims kb (v # vs) k w es = delete_victims kb vs k1 w1 es1"
      "deletes es1 = deletes es @ [run_Name v]"
    then obtain j where "deletes es' = deletes es1 @ map run_Name (take j vs)" "\<forall>n. res = Inr n \<longrightarrow> j = length vs"
      using Cons.IH [of k1 w1 es1] Cons.prems by auto
    with step(2) show ?thesis by (intro exI [of _ "Suc j"]) simp
  next
    fix e w1 es1
    assume "delete_victims kb (v # vs) k w es = (Inl e, w1, es1)" "deletes es1 = deletes es @ [run_Name v]"
    with Cons.prems show ?thesis by (intro exI [of _ 1]) auto
  qed
qed simp

text \<open>One pass deletes terminal runs only, oldest first, and never more than its bound: the runs it
  calls delete on are the first victims in order, all of the first \<^verbatim>\<open>maxDeletesPerReconcile\<close> when
  it returns without an error (a run already gone and a forbidden delete do not stop it), and
  it asks to run again exactly when victims are left over.\<close>

theorem gc_pass_is_bounded:
  assumes "range_order f" and "range_order g"
    and "gk_GetPromotion kb name w = (Inr promotion, w1)" and "gk_ListRuns kb promotion w1 = (Inr runs, w2)"
    and "gc_reconcile f g kb r name w = (res, w3, es)"
  shows "\<exists>j \<le> nat (max_deletes_per_reconcile r).
    deletes es = map run_Name (take j (select_victims f g r runs)) \<and>
    (\<forall>v \<in> set (take j (select_victims f g r runs)). v \<in> set runs \<and> run_phase_is_terminal (run_phase_of v) \<and>
      (\<forall>s \<in> set runs. run_phase_of s = run_phase_of v \<and> age_key s < age_key v \<longrightarrow>
        s \<in> set (select_victims f g r runs))) \<and>
    (\<forall>result. res = Inr result \<longrightarrow>
      j = min (nat (max_deletes_per_reconcile r)) (length (select_victims f g r runs)) \<and>
      (RequeueAfter result > 0 \<longleftrightarrow> j < length (select_victims f g r runs)))"
proof -
  let ?vs = "select_victims f g r runs" and ?cap = "nat (max_deletes_per_reconcile r)"
  have safe: "\<forall>v \<in> set (take j ?vs). v \<in> set runs \<and> run_phase_is_terminal (run_phase_of v) \<and>
      (\<forall>s \<in> set runs. run_phase_of s = run_phase_of v \<and> age_key s < age_key v \<longrightarrow> s \<in> set ?vs)" for j
    using victims_terminal [OF assms(1,2)] older_is_victim [OF assms(1,2)] in_set_takeD [of _ j ?vs] by blast
  have pos: "drain_requeue_after r > 0"
    by (simp add: drain_requeue_after_def defaultDrainRequeueAfter_def second_def)
  show ?thesis
  proof (cases "?vs = []")
    case True
    then show ?thesis using assms(3-5) by (auto simp: gc_reconcile_def no_requeue_def intro!: exI [of _ 0])
  next
    case False
    obtain res' w' es' where del: "delete_victims kb (take ?cap ?vs) 0 w2 [] = (res', w', es')" by (metis surj_pair)
    obtain j where j: "deletes es' = map run_Name (take (min j ?cap) ?vs)" "\<forall>n. res' = Inr n \<longrightarrow> j = length (take ?cap ?vs)"
      using delete_victims_prefix [OF del] by (auto simp: take_take)
    have es: "deletes es = deletes es'" "\<And>result. res = Inr result \<Longrightarrow> (\<exists>n. res' = Inr n) \<and>
        result = (if length ?vs - ?cap > 0 then requeue_after (drain_requeue_after r) else no_requeue)"
      using assms(3-5) False del by (auto simp: gc_reconcile_def Let_def split: sum.splits)
    show ?thesis
      using j es safe [of "min j ?cap"] pos
      by (intro exI [of _ "min j ?cap"] conjI) (auto simp: requeue_after_def no_requeue_def split: if_splits)
  qed
qed

theorem gc_pass_is_bounded_witness:
  "\<exists>j \<le> 1. deletes (snd (snd (gc_reconcile rev id (gc_sample_client ''a'') (gc_sample_config 2) ''p'' gc_runs))) =
    map run_Name (take j (select_victims rev id (gc_sample_config 2) gc_runs))"
proof -
  obtain res w es where "gc_reconcile rev id (gc_sample_client ''a'') (gc_sample_config 2) ''p'' gc_runs = (res, w, es)"
    by (metis surj_pair)
  then show ?thesis
    using gc_pass_is_bounded [of rev id "gc_sample_client ''a''" "''p''" gc_runs "''p''" gc_runs gc_runs gc_runs
        "gc_sample_config 2" res w es]
    by (auto simp: gc_sample_facts gc_sample_client_def max_deletes_per_reconcile_def gc_sample_config_def)
qed

end
