(* ===== verification/Heartbeat.thy ===== *)
theory Heartbeat
  imports Target_Handlers
begin

text \<open>
  The heartbeat controller of clusters (\<^verbatim>\<open>internal/controller/cluster_heartbeat_controller.go\<close>, with
  the lease helpers of \<^verbatim>\<open>heartbeat.go\<close>): it reads the lease that a cluster's agent renews, counts
  consecutive misses in a 32-bit field of the status, and writes the Ready condition that the
  target controller reads before it delivers. A reconcile returns its result, the world it
  leaves and the events and metrics it reports; an error beside a requeue is the error. Log
  lines are left out.
\<close>

section \<open>Leases\<close>

record lease =
  le_RenewTime :: "int option"
  le_AcquireTime :: "int option"
  le_CreationTimestamp :: int

definition heartbeatFreshTimeout :: int where "heartbeatFreshTimeout = 2 * minute"
definition heartbeatReconcileRequeue :: int where "heartbeatReconcileRequeue = heartbeatFreshTimeout div 2"
definition defaultHeartbeatNamespace :: string where "defaultHeartbeatNamespace = ''kapro-system''"
definition heartbeatLeasePrefix :: string where "heartbeatLeasePrefix = ''kapro-heartbeat-''"
definition defaultConsecutiveFailureThreshold :: int where "defaultConsecutiveFailureThreshold = 3"

definition heartbeat_lease_name :: "string \<Rightarrow> string" where
  "heartbeat_lease_name clusterName = heartbeatLeasePrefix @ clusterName"

definition lease_heartbeat_time :: "lease \<Rightarrow> int option" where
  "lease_heartbeat_time l =
     (case le_RenewTime l of
        Some t \<Rightarrow> Some t
      | None \<Rightarrow>
          (case le_AcquireTime l of
             Some t \<Rightarrow> Some t
           | None \<Rightarrow> if \<not> is_zero_time (le_CreationTimestamp l) then Some (le_CreationTimestamp l) else None))"

section \<open>The reconciler\<close>

record 'w heartbeat_env =
  he_Kube :: "'w kube"
  he_GetLease :: "string \<Rightarrow> string \<Rightarrow> 'w \<Rightarrow> (api_error + lease) \<times> 'w"
  he_HeartbeatNamespace :: string
  he_Recorder :: bool

datatype freshness = FreshnessFresh | FreshnessStale | FreshnessMissingLease

record desired_ready =
  dy_Status :: string
  dy_Reason :: string
  dy_Message :: string
  dy_Misses :: int
  dy_LeaseObservedAt :: "int option"

datatype heartbeat_effect =
    ClusterEvent string string string
  | UnreachableTransition string
  | RecoveredTransition string
  | StatusWrite string
  | MissesGauge string int
  | MissesDropped string

definition heartbeat_namespace :: "'w heartbeat_env \<Rightarrow> string" where
  "heartbeat_namespace env =
     (if he_HeartbeatNamespace env \<noteq> [] then he_HeartbeatNamespace env else defaultHeartbeatNamespace)"

definition current_misses :: "cluster \<Rightarrow> int" where
  "current_misses fc =
     (case cst_Heartbeat (cl_Status fc) of None \<Rightarrow> 0 | Some hb \<Rightarrow> hb_ConsecutiveMisses hb)"

definition read_lease_freshness ::
  "'w heartbeat_env \<Rightarrow> cluster \<Rightarrow> int \<Rightarrow> 'w \<Rightarrow> (go_error + int option \<times> freshness) \<times> 'w" where
  "read_lease_freshness env fc now w =
     (case he_GetLease env (heartbeat_namespace env) (heartbeat_lease_name (cl_Name fc)) w of
        (Inl e, w1) \<Rightarrow>
          ((if is_not_found e then Inr (None, FreshnessMissingLease) else Inl (api_error_text e)), w1)
      | (Inr l, w1) \<Rightarrow>
          ((case lease_heartbeat_time l of
              None \<Rightarrow> Inr (None, FreshnessStale)
            | Some observed \<Rightarrow>
                if time_sub now observed < heartbeatFreshTimeout then Inr (Some observed, FreshnessFresh)
                else Inr (Some observed, FreshnessStale)), w1))"

definition failure_threshold :: "cluster \<Rightarrow> int" where
  "failure_threshold fc =
     (case cs_ConsecutiveFailureThreshold (cl_Spec fc) of
        Some t \<Rightarrow> if t > 0 then t else defaultConsecutiveFailureThreshold
      | None \<Rightarrow> defaultConsecutiveFailureThreshold)"

definition bootstrap_unfinished :: "cluster \<Rightarrow> bool" where
  "bootstrap_unfinished fc \<longleftrightarrow>
     cs_Bootstrap (cl_Spec fc) \<and>
     (case cst_BootstrapUsed (cl_Status fc) of None \<Rightarrow> True | Some used \<Rightarrow> \<not> used)"

text \<open>What a miss is reported as: the lease, its age and the count out of the threshold.\<close>

definition miss_message :: "'w heartbeat_env \<Rightarrow> cluster \<Rightarrow> int \<Rightarrow> int option \<Rightarrow> int \<Rightarrow> int \<Rightarrow> string" where
  "miss_message env fc now leaseObserved newMisses threshold =
     (let lease = heartbeat_namespace env @ ''/'' @ heartbeat_lease_name (cl_Name fc);
          tally = itoa newMisses @ ''/'' @ itoa threshold @ '' consecutive misses''
      in case leaseObserved of
           None \<Rightarrow> ''missing heartbeat Lease '' @ lease @ ''; '' @ tally
         | Some t \<Rightarrow> ''Lease '' @ lease @ '' last renewed '' @ duration_string (duration_round (time_sub now t) second) @
             '' ago; '' @ tally)"

definition desired_after_observation ::
  "'w heartbeat_env \<Rightarrow> cluster \<Rightarrow> int \<Rightarrow> go_error + int option \<times> freshness \<Rightarrow> desired_ready" where
  "desired_after_observation env fc now observation =
     (case observation of
        Inl err \<Rightarrow>
          \<lparr>dy_Status = ''Unknown'', dy_Reason = ''HeartbeatStale'',
           dy_Message = ''error reading heartbeat Lease: '' @ err, dy_Misses = current_misses fc,
           dy_LeaseObservedAt = None\<rparr>
      | Inr (leaseObserved, verdict) \<Rightarrow>
          (if verdict = FreshnessFresh then
             \<lparr>dy_Status = ''True'', dy_Reason = ''HeartbeatFresh'',
              dy_Message = ''Lease renewed '' @ duration_string (duration_round (time_sub now (the leaseObserved)) second) @ '' ago'',
              dy_Misses = 0, dy_LeaseObservedAt = leaseObserved\<rparr>
           else
             let newMisses = go_int32 (current_misses fc + 1); threshold = failure_threshold fc;
                 msg = miss_message env fc now leaseObserved newMisses threshold
             in if newMisses \<ge> threshold then
                  \<lparr>dy_Status = ''False'', dy_Reason = ''Unreachable'', dy_Message = msg,
                   dy_Misses = newMisses, dy_LeaseObservedAt = leaseObserved\<rparr>
                else
                  \<lparr>dy_Status = ''Unknown'', dy_Reason = ''HeartbeatStale'', dy_Message = msg @ '' (below threshold)'',
                   dy_Misses = newMisses, dy_LeaseObservedAt = leaseObserved\<rparr>))"

definition compute_desired_ready :: "'w heartbeat_env \<Rightarrow> cluster \<Rightarrow> int \<Rightarrow> 'w \<Rightarrow> desired_ready \<times> 'w" where
  "compute_desired_ready env fc now w =
     (if cs_Suspend (cl_Spec fc) then
        (\<lparr>dy_Status = ''Unknown'', dy_Reason = ''Suspended'',
          dy_Message = ''FleetCluster is suspended; heartbeat tracking disabled'', dy_Misses = 0,
          dy_LeaseObservedAt = None\<rparr>, w)
      else if sb_Mode (cs_Substrate (cl_Spec fc)) = ModePush then
        (\<lparr>dy_Status = ''True'', dy_Reason = ''PushModeNoHeartbeat'',
          dy_Message = ''push-mode cluster '' @ [CHR 0xE2, CHR 0x80, CHR 0x94] @ '' heartbeat not applicable'',
          dy_Misses = 0, dy_LeaseObservedAt = None\<rparr>, w)
      else if bootstrap_unfinished fc then
        (\<lparr>dy_Status = ''Unknown'', dy_Reason = ''NotRegistered'',
          dy_Message = ''FleetCluster has spec.bootstrap set but bootstrap workflow has not yet completed'',
          dy_Misses = 0, dy_LeaseObservedAt = None\<rparr>, w)
      else case read_lease_freshness env fc now w of
        (observation, w1) \<Rightarrow> (desired_after_observation env fc now observation, w1))"

section \<open>Writing the status\<close>

text \<open>Status and reason of the Ready condition as it was, \<open>Unknown\<close> and empty when there is none.\<close>

definition previous_ready :: "'w heartbeat_env \<Rightarrow> cluster \<Rightarrow> string \<times> string" where
  "previous_ready env fc =
     (case kb_FindStatusCondition (he_Kube env) (cst_Conditions (cl_Status fc)) ''Ready'' of
        None \<Rightarrow> (''Unknown'', []) | Some c \<Rightarrow> (c_Status c, c_Reason c))"

text \<open>The object \<^verbatim>\<open>applyDesired\<close> sends: the condition set and the heartbeat fields written.\<close>

definition desired_cluster :: "'w heartbeat_env \<Rightarrow> cluster \<Rightarrow> desired_ready \<Rightarrow> int \<Rightarrow> cluster" where
  "desired_cluster env fc desired now =
     (let (prevStatus, prevReason) = previous_ready env fc;
          cond = \<lparr>c_Type = ''Ready'', c_Status = dy_Status desired, c_Reason = dy_Reason desired,
            c_Message = dy_Message desired, c_ObservedGeneration = om_Generation (cl_Meta fc),
            c_LastTransitionTime = now\<rparr>;
          hb0 = (case cst_Heartbeat (cl_Status fc) of
                   None \<Rightarrow> \<lparr>hb_ObservedAt = None, hb_LeaseObservedAt = None, hb_ConsecutiveMisses = 0,
                     hb_LastTransitionAt = None, hb_Reason = []\<rparr>
                 | Some hb \<Rightarrow> hb);
          hb1 = hb0\<lparr>hb_ObservedAt := Some now, hb_LeaseObservedAt := dy_LeaseObservedAt desired,
            hb_ConsecutiveMisses := dy_Misses desired, hb_Reason := dy_Reason desired\<rparr>;
          hb = (if prevStatus \<noteq> dy_Status desired \<or> prevReason \<noteq> dy_Reason desired
                then hb1\<lparr>hb_LastTransitionAt := Some now\<rparr> else hb1)
      in fc\<lparr>cl_Status := (cl_Status fc)\<lparr>
           cst_Conditions := kb_SetStatusCondition (he_Kube env) cond (cst_Conditions (cl_Status fc)),
           cst_Heartbeat := Some hb\<rparr>\<rparr>)"

definition emit_transition_events ::
  "'w heartbeat_env \<Rightarrow> string \<Rightarrow> string \<Rightarrow> string \<Rightarrow> desired_ready \<Rightarrow> heartbeat_effect list" where
  "emit_transition_events env name prevStatus prevReason desired =
     (if \<not> he_Recorder env then []
      else if prevStatus = dy_Status desired \<and> prevReason = dy_Reason desired then []
      else if dy_Reason desired = ''Unreachable'' \<and> prevReason \<noteq> ''Unreachable'' then
        [ClusterEvent ''Warning'' ''ClusterUnreachable'' (dy_Message desired), UnreachableTransition name]
      else if prevReason = ''Unreachable'' \<and> dy_Status desired = ''True'' then
        [ClusterEvent ''Normal'' ''ClusterRecovered'' (dy_Message desired), RecoveredTransition name]
      else if dy_Reason desired = ''HeartbeatStale'' \<and> prevReason \<noteq> ''HeartbeatStale'' then
        [ClusterEvent ''Warning'' ''HeartbeatStale'' (dy_Message desired)]
      else if prevReason = ''HeartbeatStale'' \<and> dy_Status desired = ''True'' then
        [ClusterEvent ''Normal'' ''HeartbeatRecovered'' (dy_Message desired)]
      else [])"

definition apply_desired ::
  "'w heartbeat_env \<Rightarrow> cluster \<Rightarrow> desired_ready \<Rightarrow> int \<Rightarrow> 'w \<Rightarrow>
   (go_error + unit) \<times> 'w \<times> heartbeat_effect list" where
  "apply_desired env fc desired now w =
     (let (prevStatus, prevReason) = previous_ready env fc
      in case kb_PatchClusterStatus (he_Kube env) fc (desired_cluster env fc desired now) w of
           (Inl e, w1) \<Rightarrow>
             (Inl (''patch FleetCluster '' @ go_quote (cl_Name fc) @ '' status: '' @ api_error_text e), w1,
              [StatusWrite ''error''])
         | (Inr fc1, w1) \<Rightarrow>
             (Inr (), w1,
              [StatusWrite ''success'', MissesGauge (cl_Name fc1) (dy_Misses desired)] @
              emit_transition_events env (cl_Name fc1) prevStatus prevReason desired))"

definition heartbeat_reconcile ::
  "'w heartbeat_env \<Rightarrow> string \<Rightarrow> 'w \<Rightarrow> (go_error + ctrl_result) \<times> 'w \<times> heartbeat_effect list" where
  "heartbeat_reconcile env name w =
     (case kb_GetCluster (he_Kube env) name w of
        (Inl e, w1) \<Rightarrow>
          (if is_not_found e then (Inr no_requeue, w1, [MissesDropped name])
           else (Inl (''get FleetCluster '' @ go_quote name @ '': '' @ api_error_text e), w1, []))
      | (Inr fc, w1) \<Rightarrow>
          (if om_DeletionTimestamp (cl_Meta fc) \<noteq> None then (Inr no_requeue, w1, [])
           else
             let now = kb_Now (he_Kube env) w1; (desired, w2) = compute_desired_ready env fc now w1
             in case apply_desired env fc desired now w2 of
                  (Inl e, w3, es) \<Rightarrow> (Inl e, w3, es)
                | (Inr _, w3, es) \<Rightarrow> (Inr (requeue_after heartbeatReconcileRequeue), w3, es)))"

section \<open>Watches\<close>

definition lease_to_fleet_cluster :: "string \<Rightarrow> string \<Rightarrow> string \<Rightarrow> string list" where
  "lease_to_fleet_cluster heartbeatNS namespace name =
     (if namespace \<noteq> heartbeatNS then []
      else if length name \<le> length heartbeatLeasePrefix \<or>
              take (length heartbeatLeasePrefix) name \<noteq> heartbeatLeasePrefix then []
      else [drop (length heartbeatLeasePrefix) name])"

definition fleet_cluster_update_predicate :: "cluster \<Rightarrow> cluster \<Rightarrow> bool" where
  "fleet_cluster_update_predicate oldFC newFC =
     (if om_Generation (cl_Meta oldFC) \<noteq> om_Generation (cl_Meta newFC) then True
      else (cst_BootstrapUsed (cl_Status oldFC) = Some True) \<noteq> (cst_BootstrapUsed (cl_Status newFC) = Some True))"

end
