(* ===== verification/Heartbeat_Properties.thy ===== *)
theory Heartbeat_Properties
  imports Heartbeat Sample_World
begin

text \<open>
  The heartbeat controller as a counter of consecutive misses with a threshold, and what its
  verdict does to a target of the same cluster. The law of \<^verbatim>\<open>apimachinery\<close> the proofs use is that a
  condition just set is found with its status and reason.
\<close>

section \<open>Passes over one cluster\<close>

text \<open>\<^verbatim>\<open>time.Sub\<close> saturates; the freshness window is far below its bounds.\<close>

lemma lease_age: "time_sub now t < heartbeatFreshTimeout \<longleftrightarrow> now - t < heartbeatFreshTimeout"
  by (auto simp: time_sub_def heartbeatFreshTimeout_def duration_units)

definition conditions_law :: "'w kube \<Rightarrow> bool" where
  "conditions_law kb \<longleftrightarrow>
     (\<forall>c cs. \<exists>d. kb_FindStatusCondition kb (kb_SetStatusCondition kb c cs) (c_Type c) = Some d \<and>
        c_Status d = c_Status c \<and> c_Reason d = c_Reason c)"

text \<open>One pass, at the instant and in the world it reads, and a sequence of passes.\<close>

definition heartbeat_pass :: "'w heartbeat_env \<Rightarrow> cluster \<Rightarrow> int \<times> 'w \<Rightarrow> cluster" where
  "heartbeat_pass env fc p =
     desired_cluster env fc (fst (compute_desired_ready env fc (fst p) (snd p))) (fst p)"

definition heartbeat_passes :: "'w heartbeat_env \<Rightarrow> cluster \<Rightarrow> (int \<times> 'w) list \<Rightarrow> cluster" where
  "heartbeat_passes env = foldl (heartbeat_pass env)"

text \<open>A cluster whose lease counts, and what a pass sees of the lease: \<open>None\<close> when the read fails.\<close>

definition tracked :: "cluster \<Rightarrow> bool" where
  "tracked fc \<longleftrightarrow> \<not> cs_Suspend (cl_Spec fc) \<and> sb_Mode (cs_Substrate (cl_Spec fc)) \<noteq> ModePush \<and>
     \<not> bootstrap_unfinished fc"

definition observe :: "'w heartbeat_env \<Rightarrow> cluster \<Rightarrow> int \<times> 'w \<Rightarrow> freshness option" where
  "observe env fc p =
     (case fst (read_lease_freshness env fc (fst p) (snd p)) of Inl e \<Rightarrow> None | Inr (t, v) \<Rightarrow> Some v)"

text \<open>The specification: a counter and a verdict.\<close>

fun miss_count :: "int \<Rightarrow> freshness option list \<Rightarrow> int" where
  "miss_count m [] = m"
| "miss_count m (None # os) = miss_count m os"
| "miss_count m (Some FreshnessFresh # os) = miss_count 0 os"
| "miss_count m (Some FreshnessStale # os) = miss_count (m + 1) os"
| "miss_count m (Some FreshnessMissingLease # os) = miss_count (m + 1) os"

fun ready_verdict :: "int \<Rightarrow> int \<Rightarrow> freshness option \<Rightarrow> string \<times> string" where
  "ready_verdict t m None = (''Unknown'', ''HeartbeatStale'')"
| "ready_verdict t m (Some FreshnessFresh) = (''True'', ''HeartbeatFresh'')"
| "ready_verdict t m (Some v) =
     (if m \<ge> t then (''False'', ''Unreachable'') else (''Unknown'', ''HeartbeatStale''))"

lemma desired_cluster_frame [simp]:
  "cl_Spec (desired_cluster env fc d now) = cl_Spec fc" "cl_Meta (desired_cluster env fc d now) = cl_Meta fc"
  "cst_BootstrapUsed (cl_Status (desired_cluster env fc d now)) = cst_BootstrapUsed (cl_Status fc)"
  "current_misses (desired_cluster env fc d now) = dy_Misses d"
  by (simp_all add: desired_cluster_def current_misses_def Let_def case_prod_unfold)

lemma desired_cluster_ready:
  "conditions_law (he_Kube env) \<Longrightarrow>
   previous_ready env (desired_cluster env fc d now) = (dy_Status d, dy_Reason d)"
  unfolding conditions_law_def desired_cluster_def previous_ready_def Let_def case_prod_unfold
  by (auto split: option.splits) (metis condition.select_convs(1,2,3) option.inject option.distinct(1))+

lemma passes_frame:
  "cl_Spec (heartbeat_passes env fc ps) = cl_Spec fc \<and> cl_Meta (heartbeat_passes env fc ps) = cl_Meta fc \<and>
   cst_BootstrapUsed (cl_Status (heartbeat_passes env fc ps)) = cst_BootstrapUsed (cl_Status fc)"
  by (induction ps rule: rev_induct) (simp_all add: heartbeat_passes_def heartbeat_pass_def)

lemma passes_same [simp]:
  "tracked (heartbeat_passes env fc ps) = tracked fc"
  "observe env (heartbeat_passes env fc ps) = observe env fc"
  "failure_threshold (heartbeat_passes env fc ps) = failure_threshold fc"
  using passes_frame [of env fc ps]
  by (simp_all add: fun_eq_iff tracked_def observe_def read_lease_freshness_def failure_threshold_def bootstrap_unfinished_def)

lemma heartbeat_pass_result:
  assumes law: "conditions_law (he_Kube env)" and t: "tracked fc"
    and m: "0 \<le> current_misses fc" "current_misses fc + 1 < 2 ^ 31"
  shows "current_misses (heartbeat_pass env fc p) = miss_count (current_misses fc) [observe env fc p]"
    and "previous_ready env (heartbeat_pass env fc p) =
      ready_verdict (failure_threshold fc) (miss_count (current_misses fc) [observe env fc p]) (observe env fc p)"
proof -
  let ?o = "fst (read_lease_freshness env fc (fst p) (snd p))"
  let ?d = "desired_after_observation env fc (fst p) ?o"
  have pass: "heartbeat_pass env fc p = desired_cluster env fc ?d (fst p)"
    using t by (simp add: heartbeat_pass_def compute_desired_ready_def tracked_def case_prod_unfold)
  have i32: "go_int32 (current_misses fc + 1) = current_misses fc + 1" using m by (intro go_int32_id) simp_all
  have "dy_Misses ?d = miss_count (current_misses fc) [observe env fc p] \<and>
      (dy_Status ?d, dy_Reason ?d) =
      ready_verdict (failure_threshold fc) (miss_count (current_misses fc) [observe env fc p]) (observe env fc p)"
  proof (cases ?o)
    case (Inr x)
    obtain t v where "x = (t, v)" by fastforce
    with Inr show ?thesis
      by (cases v) (simp_all add: desired_after_observation_def observe_def i32 Let_def)
  qed (simp add: desired_after_observation_def observe_def)
  then show "current_misses (heartbeat_pass env fc p) = miss_count (current_misses fc) [observe env fc p]"
    "previous_ready env (heartbeat_pass env fc p) =
      ready_verdict (failure_threshold fc) (miss_count (current_misses fc) [observe env fc p]) (observe env fc p)"
    by (simp_all add: pass desired_cluster_ready [OF law])
qed

section \<open>The counter\<close>

lemma miss_count_snoc: "miss_count m (os @ [x]) = miss_count (miss_count m os) [x]"
  by (induction m os rule: miss_count.induct) simp_all

lemma miss_count_bounds: "0 \<le> m \<Longrightarrow> 0 \<le> miss_count m os \<and> miss_count m os \<le> m + int (length os)"
  by (induction m os rule: miss_count.induct) fastforce+

lemma miss_count_misses:
  "\<forall>x \<in> set os. x = Some FreshnessStale \<or> x = Some FreshnessMissingLease \<Longrightarrow> miss_count m os = m + int (length os)"
  by (induction m os rule: miss_count.induct) auto

lemma heartbeat_passes_counter:
  assumes "conditions_law (he_Kube env)" and "tracked fc"
    and "0 \<le> current_misses fc" and "current_misses fc + int (length ps) < 2 ^ 31"
  shows "current_misses (heartbeat_passes env fc ps) = miss_count (current_misses fc) (map (observe env fc) ps) \<and>
    (ps \<noteq> [] \<longrightarrow> previous_ready env (heartbeat_passes env fc ps) =
      ready_verdict (failure_threshold fc) (miss_count (current_misses fc) (map (observe env fc) ps))
        (observe env fc (last ps)))"
  using assms(4)
proof (induction ps rule: rev_induct)
  case (snoc p ps)
  let ?fc = "heartbeat_passes env fc ps"
  have IH: "current_misses ?fc = miss_count (current_misses fc) (map (observe env fc) ps)"
    using snoc by simp
  have "0 \<le> current_misses ?fc" "current_misses ?fc + 1 < 2 ^ 31"
    using miss_count_bounds [OF assms(3), of "map (observe env fc) ps"] snoc.prems by (simp_all add: IH)
  note pass = heartbeat_pass_result [OF assms(1), of ?fc p, simplified passes_same, OF assms(2) this]
  have "heartbeat_passes env fc (ps @ [p]) = heartbeat_pass env ?fc p" by (simp add: heartbeat_passes_def)
  then show ?case using pass by (simp add: IH miss_count_snoc)
qed (simp add: heartbeat_passes_def)

section \<open>A sample\<close>

definition pull_cluster :: cluster where
  "pull_cluster = sample_cluster\<lparr>cl_Spec := (cl_Spec sample_cluster)\<lparr>cs_Substrate :=
     (cs_Substrate (cl_Spec sample_cluster))\<lparr>sb_Mode := ModePull\<rparr>\<rparr>\<rparr>"

text \<open>The lease as the world has it: an instant it was renewed at, absent, or not readable.\<close>

definition sample_heartbeat_env :: "(api_error + int) heartbeat_env" where
  "sample_heartbeat_env =
     \<lparr>he_Kube = \<lparr>kb_Now = (\<lambda>w. 0),
        kb_GetCluster = (\<lambda>n w. (Inr pull_cluster, w)), kb_GetSubstrate = (\<lambda>n w. (Inl (ApiOther []), w)),
        kb_GetApproval = (\<lambda>n w. (Inl (ApiOther []), w)), kb_GetTarget = (\<lambda>n w. (Inl (ApiOther []), w)),
        kb_GetRun = (\<lambda>n w. (Inl (ApiOther []), w)), kb_GetPlan = (\<lambda>n w. (Inl (ApiOther []), w)),
        kb_ListTargetsOfRun = (\<lambda>n w. (Inr [], w)), kb_PatchClusterStatus = (\<lambda>old new w. (Inr new, w)),
        kb_UpdateTargetStatus = (\<lambda>t w. (Inr t, w)), kb_PatchTarget = (\<lambda>old new w. (Inr new, w)),
        kb_CreateTarget = (\<lambda>t w. (Inr t, w)), kb_PatchRunStatus = (\<lambda>old new w. (Inr new, w)),
        kb_PatchRun = (\<lambda>old new w. (Inr new, w)), kb_SelectorError = (\<lambda>sel. None),
        kb_ListClusters = (\<lambda>sel w. (Inr [], w)), kb_GetFleetClusters = (\<lambda>n w. (Inr [], w)),
        kb_SetControllerReference = (\<lambda>run m. m), kb_FindStatusCondition = (\<lambda>cs t. find (\<lambda>c. c_Type c = t) cs),
        kb_SetStatusCondition = put_condition,
        kb_RemoveStatusCondition = (\<lambda>t cs. filter (\<lambda>c. c_Type c \<noteq> t) cs),
        kb_SelectorMatches = (\<lambda>sel labels. Inr False), kb_FormatFloat = (\<lambda>x. [])\<rparr>,
      he_GetLease = (\<lambda>ns n w. (map_sum id (\<lambda>t. \<lparr>le_RenewTime = Some t, le_AcquireTime = None,
        le_CreationTimestamp = go_zero_time\<rparr>) w, w)),
      he_HeartbeatNamespace = [], he_Recorder = True\<rparr>"

definition sample_heartbeat_target_env :: "(api_error + int) target_env" where
  "sample_heartbeat_target_env =
     \<lparr>ev_Kube = he_Kube sample_heartbeat_env, ev_GateRegistry = None, ev_ActuatorRegistry = None, ev_Notifier = False,
      ev_StagePublisher = False, ev_ApprovalURLs = None, ev_PromotionRun = sample_run, ev_Rt = sample_target\<rparr>"

definition sample_heartbeat_tick :: "(api_error + int) tick" where
  "sample_heartbeat_tick = \<lparr>tk_Target = sample_exec, tk_World = Inr 0, tk_Log = []\<rparr>"

lemma find_put_condition: "find (\<lambda>d. c_Type d = c_Type c) (put_condition c cs) = Some c"
  by (induction cs) auto

lemma sample_lease:
  "\<exists>l. he_GetLease sample_heartbeat_env ns n (Inr t) = (Inr l, Inr t) \<and> lease_heartbeat_time l = Some t"
  by (simp add: sample_heartbeat_env_def lease_heartbeat_time_def)

lemma sample_lease_error: "he_GetLease sample_heartbeat_env ns n (Inl e) = (Inl e, Inl e)"
  by (simp add: sample_heartbeat_env_def)

lemma sample_heartbeat_facts:
  "conditions_law (he_Kube sample_heartbeat_env)" "tracked pull_cluster" "current_misses pull_cluster = 0"
  "failure_threshold pull_cluster = 3" "sb_Mode (cs_Substrate (cl_Spec pull_cluster)) = ModePull"
  "observe sample_heartbeat_env pull_cluster (now, Inl (ApiNotFound [])) = Some FreshnessMissingLease"
  "observe sample_heartbeat_env pull_cluster (now, Inl (ApiOther [])) = None"
  "observe sample_heartbeat_env pull_cluster (now, Inr t) =
     Some (if now - t < heartbeatFreshTimeout then FreshnessFresh else FreshnessStale)"
  by (simp_all add: conditions_law_def sample_heartbeat_env_def pull_cluster_def sample_cluster_def tracked_def
      bootstrap_unfinished_def current_misses_def failure_threshold_def defaultConsecutiveFailureThreshold_def
      observe_def read_lease_freshness_def lease_heartbeat_time_def find_put_condition lease_age)

section \<open>Properties\<close>

text \<open>C25. The heartbeat controller refines a counter. Over any sequence of passes on a cluster whose
  lease counts, the recorded misses are those since the last fresh lease, failed reads neither
  counted nor forgiven; and after a pass that read the lease, or found that there is none, the Ready condition is
  the verdict of the counter against the cluster's threshold, as long as the count stays below two to the
  thirty-first.\<close>

theorem heartbeat_refines_miss_counter:
  assumes "conditions_law (he_Kube env)" and "tracked fc"
    and "0 \<le> current_misses fc" and "current_misses fc + int (length ps) < 2 ^ 31"
  shows "current_misses (heartbeat_passes env fc ps) = miss_count (current_misses fc) (map (observe env fc) ps) \<and>
    (ps \<noteq> [] \<and> observe env fc (last ps) \<noteq> None \<longrightarrow>
      previous_ready env (heartbeat_passes env fc ps) =
        ready_verdict (failure_threshold fc) (miss_count (current_misses fc) (map (observe env fc) ps))
          (observe env fc (last ps)))"
  using heartbeat_passes_counter [OF assms] by blast

theorem heartbeat_refines_miss_counter_witness:
  "current_misses (heartbeat_passes sample_heartbeat_env pull_cluster
     [(0, Inl (ApiNotFound [])), (0, Inl (ApiOther [])), (0, Inl (ApiNotFound []))]) = 2 \<and>
   previous_ready sample_heartbeat_env (heartbeat_passes sample_heartbeat_env pull_cluster
     [(0, Inl (ApiNotFound [])), (0, Inl (ApiOther [])), (0, Inl (ApiNotFound []))]) = (''Unknown'', ''HeartbeatStale'')"
  using heartbeat_refines_miss_counter [of sample_heartbeat_env pull_cluster
      "[(0, Inl (ApiNotFound [])), (0, Inl (ApiOther [])), (0, Inl (ApiNotFound []))]"]
  by (simp add: sample_heartbeat_facts)

text \<open>Hysteresis. After a fresh lease, however many misses there were before it, a run of stale or
  absent leases leaves the cluster Unknown until their number reaches the threshold, and makes it
  Unreachable from then on.\<close>

theorem unreachable_after_threshold_misses:
  assumes "conditions_law (he_Kube env)" and "tracked fc" and "0 \<le> current_misses fc" "current_misses fc < 2 ^ 31 - 1"
    and "observe env fc p = Some FreshnessFresh"
    and "\<forall>q \<in> set ps. observe env fc q = Some FreshnessStale \<or> observe env fc q = Some FreshnessMissingLease"
    and "ps \<noteq> []" and "int (length ps) < 2 ^ 31"
  shows "previous_ready env (heartbeat_passes env fc [p]) = (''True'', ''HeartbeatFresh'') \<and>
    previous_ready env (heartbeat_passes env fc (p # ps)) =
      (if int (length ps) \<ge> failure_threshold fc then (''False'', ''Unreachable'') else (''Unknown'', ''HeartbeatStale''))"
proof -
  let ?fc = "heartbeat_passes env fc [p]"
  have one: "current_misses ?fc = 0" "previous_ready env ?fc = (''True'', ''HeartbeatFresh'')"
    using heartbeat_passes_counter [OF assms(1-3), of "[p]"] assms(4,5) by simp_all
  have "miss_count 0 (map (observe env fc) ps) = int (length ps)"
    using miss_count_misses [of "map (observe env fc) ps" 0] assms(6) by simp
  moreover have "ready_verdict t m (observe env fc (last ps)) =
      (if m \<ge> t then (''False'', ''Unreachable'') else (''Unknown'', ''HeartbeatStale''))" for t m
    using assms(6) last_in_set [OF assms(7)] by fastforce
  ultimately have "previous_ready env (heartbeat_passes env ?fc ps) =
      (if int (length ps) \<ge> failure_threshold fc then (''False'', ''Unreachable'') else (''Unknown'', ''HeartbeatStale''))"
    using heartbeat_passes_counter [OF assms(1), of ?fc ps] assms(2,7,8) by (simp add: one(1))
  moreover have "heartbeat_passes env fc (p # ps) = heartbeat_passes env ?fc ps" by (simp add: heartbeat_passes_def)
  ultimately show ?thesis using one(2) by simp
qed

theorem unreachable_after_threshold_misses_witness:
  "previous_ready sample_heartbeat_env (heartbeat_passes sample_heartbeat_env pull_cluster
     [(0, Inr 0), (heartbeatFreshTimeout, Inr 0), (0, Inl (ApiNotFound [])), (heartbeatFreshTimeout, Inr 0)]) =
   (''False'', ''Unreachable'')"
  using unreachable_after_threshold_misses [of sample_heartbeat_env pull_cluster "(0, Inr 0)"
      "[(heartbeatFreshTimeout, Inr 0), (0, Inl (ApiNotFound [])), (heartbeatFreshTimeout, Inr 0)]"]
  by (simp add: sample_heartbeat_facts heartbeatFreshTimeout_def minute_def second_def)

section \<open>The verdict and the target\<close>

lemma observe_fresh:
  "observe env fc (now, w) = Some FreshnessFresh \<longleftrightarrow>
   (\<exists>l t w'. he_GetLease env (heartbeat_namespace env) (heartbeat_lease_name (cl_Name fc)) w = (Inr l, w') \<and>
      lease_heartbeat_time l = Some t \<and> now - t < heartbeatFreshTimeout)"
  by (auto simp: observe_def read_lease_freshness_def lease_age split: prod.splits sum.splits option.splits if_splits)

lemma fst_defer_stale [simp]: "fst (defer_stale env reason ev m s) = Some (requeue_after requeueNormal)"
  by (simp add: defer_stale_def Let_def)

lemma require_fresh_heartbeat_verdict:
  assumes "conditions_law (ev_Kube tenv)" and "he_Kube env = ev_Kube tenv" and "tracked fc"
    and "sb_Mode (cs_Substrate (cl_Spec fc)) = ModePull" and "0 \<le> current_misses fc" "current_misses fc + 1 < 2 ^ 31"
  shows "fst (require_fresh_heartbeat tenv (heartbeat_pass env fc p) s) =
    (if observe env fc p = Some FreshnessFresh then None else Some (requeue_after requeueNormal))"
proof -
  let ?fc = "heartbeat_pass env fc p" and ?o = "observe env fc p"
  have "previous_ready env ?fc = ready_verdict (failure_threshold fc) (miss_count (current_misses fc) [?o]) ?o"
    using heartbeat_pass_result(2) [of env fc p] assms by simp
  then have "fst (previous_ready env ?fc) = ''True'' \<longleftrightarrow> ?o = Some FreshnessFresh"
    by (cases ?o; cases "the ?o") (auto split: if_splits)
  moreover have "cl_Spec ?fc = cl_Spec fc" by (simp add: heartbeat_pass_def)
  ultimately show ?thesis
    using assms(2,4)
    by (auto simp: require_fresh_heartbeat_def previous_ready_def Let_def split: option.splits)
qed

text \<open>The heartbeat controller decides delivery. A target on a pull-mode cluster passes the heartbeat
  guard after a pass of the heartbeat controller exactly when that pass read a lease renewed less
  than the freshness window before; otherwise the target is deferred.\<close>

theorem target_proceeds_only_on_fresh_lease:
  assumes "conditions_law (ev_Kube tenv)" and "he_Kube env = ev_Kube tenv" and "tracked fc"
    and "sb_Mode (cs_Substrate (cl_Spec fc)) = ModePull" and "0 \<le> current_misses fc" "current_misses fc + 1 < 2 ^ 31"
  shows "fst (require_fresh_heartbeat tenv (heartbeat_pass env fc (now, w)) s) = None \<longleftrightarrow>
    (\<exists>l t w'. he_GetLease env (heartbeat_namespace env) (heartbeat_lease_name (cl_Name fc)) w = (Inr l, w') \<and>
       lease_heartbeat_time l = Some t \<and> now - t < heartbeatFreshTimeout)"
  using require_fresh_heartbeat_verdict [OF assms, of "(now, w)" s] observe_fresh [of env fc now w] by auto

theorem target_proceeds_only_on_fresh_lease_witness:
  "fst (require_fresh_heartbeat sample_heartbeat_target_env
     (heartbeat_pass sample_heartbeat_env pull_cluster (heartbeatFreshTimeout - 1, Inr 0)) sample_heartbeat_tick) = None"
proof -
  obtain l where l: "he_GetLease sample_heartbeat_env (heartbeat_namespace sample_heartbeat_env)
      (heartbeat_lease_name (cl_Name pull_cluster)) (Inr 0) = (Inr l, Inr 0)" "lease_heartbeat_time l = Some 0"
    using sample_lease by blast
  then show ?thesis
    by (subst target_proceeds_only_on_fresh_lease) (simp_all add: sample_heartbeat_facts sample_heartbeat_target_env_def)
qed

text \<open>One failed read of the lease takes Ready away. A cluster that was Ready becomes Unknown with
  reason HeartbeatStale and a target on it is deferred, though the miss count does not move; the
  comment beside the branch says that Ready is not flipped on a single API error.\<close>

theorem lease_read_error_withdraws_ready:
  assumes "conditions_law (ev_Kube tenv)" and "he_Kube env = ev_Kube tenv" and "tracked fc"
    and "sb_Mode (cs_Substrate (cl_Spec fc)) = ModePull" and "0 \<le> current_misses fc" "current_misses fc + 1 < 2 ^ 31"
    and "previous_ready env fc = (''True'', ''HeartbeatFresh'')"
    and "he_GetLease env (heartbeat_namespace env) (heartbeat_lease_name (cl_Name fc)) w = (Inl e, w')"
    and "\<not> is_not_found e"
  shows "previous_ready env (heartbeat_pass env fc (now, w)) = (''Unknown'', ''HeartbeatStale'') \<and>
    current_misses (heartbeat_pass env fc (now, w)) = current_misses fc \<and>
    fst (require_fresh_heartbeat tenv (heartbeat_pass env fc (now, w)) s) = Some (requeue_after requeueNormal)"
proof -
  have "observe env fc (now, w) = None" using assms(8,9) by (simp add: observe_def read_lease_freshness_def)
  then show ?thesis
    using heartbeat_pass_result [of env fc "(now, w)"] require_fresh_heartbeat_verdict [OF assms(1-6), of "(now, w)" s]
      assms(1-6) by simp
qed

theorem lease_read_error_withdraws_ready_witness:
  "previous_ready sample_heartbeat_env (heartbeat_pass sample_heartbeat_env
     (heartbeat_pass sample_heartbeat_env pull_cluster (0, Inr 0)) (0, Inl (ApiOther []))) = (''Unknown'', ''HeartbeatStale'')"
proof -
  let ?fc = "heartbeat_pass sample_heartbeat_env pull_cluster (0, Inr 0)"
  have fc: "?fc = heartbeat_passes sample_heartbeat_env pull_cluster [(0, Inr 0)]" by (simp add: heartbeat_passes_def)
  have ready: "current_misses ?fc = 0" "previous_ready sample_heartbeat_env ?fc = (''True'', ''HeartbeatFresh'')"
    using heartbeat_pass_result [of sample_heartbeat_env pull_cluster "(0, Inr 0)"]
    by (simp_all add: sample_heartbeat_facts heartbeatFreshTimeout_def minute_def second_def)
  have tracked: "tracked ?fc" unfolding fc by (simp add: sample_heartbeat_facts)
  have pull: "sb_Mode (cs_Substrate (cl_Spec ?fc)) = ModePull" by (simp add: heartbeat_pass_def sample_heartbeat_facts)
  have kube: "conditions_law (ev_Kube sample_heartbeat_target_env)"
      "he_Kube sample_heartbeat_env = ev_Kube sample_heartbeat_target_env"
    by (simp_all add: sample_heartbeat_target_env_def sample_heartbeat_facts)
  have misses: "0 \<le> current_misses ?fc" "current_misses ?fc + 1 < 2 ^ 31" unfolding ready(1) by simp_all
  have "\<not> is_not_found (ApiOther [])" by simp
  from lease_read_error_withdraws_ready [OF kube tracked pull misses ready(2) sample_lease_error this,
      of 0 sample_heartbeat_tick]
  show ?thesis by (rule conjunct1)
qed

text \<open>A lease event wakes its own cluster: the lease of a named cluster maps back to that cluster, and
  every lease that maps to a cluster is in the heartbeat namespace and is that cluster's lease.\<close>

theorem lease_maps_back_to_cluster:
  "lease_to_fleet_cluster heartbeatNS namespace name = [cluster] \<longleftrightarrow>
     namespace = heartbeatNS \<and> name = heartbeat_lease_name cluster \<and> cluster \<noteq> []"
proof -
  let ?n = "length heartbeatLeasePrefix"
  have "name = heartbeatLeasePrefix @ cluster \<longleftrightarrow> take ?n name = heartbeatLeasePrefix \<and> drop ?n name = cluster"
    using append_eq_conv_conj [of heartbeatLeasePrefix cluster name] by argo
  moreover have "drop ?n name \<noteq> [] \<longleftrightarrow> \<not> length name \<le> ?n" by simp
  ultimately show ?thesis unfolding lease_to_fleet_cluster_def heartbeat_lease_name_def
    by (cases "namespace = heartbeatNS"; cases "length name \<le> ?n"; cases "take ?n name = heartbeatLeasePrefix") auto
qed

end
