(* ===== verification/Trigger_Types.thy ===== *)
theory Trigger_Types
  imports Target_Naming
begin

text \<open>
  The API types of delivery units, sources and triggers (\<^verbatim>\<open>deliveryunit_types.go\<close>,
  \<^verbatim>\<open>source_types.go\<close> and \<^verbatim>\<open>trigger_types.go\<close> of \<^verbatim>\<open>api/kapro/v1alpha1\<close>), and the helpers on strings
  and maps that their webhooks and controllers share. Of a source only the names of the units are
  read; the rest of its spec travels as one opaque text.
\<close>

section \<open>Delivery units and sources\<close>

record source_unit =
  un_Name :: string

record source_spec =
  srs_Units :: "source_unit list"
  srs_Rest :: string

record source =
  src_Meta :: object_meta
  src_Spec :: source_spec

record oci_trigger_source =
  oci_Repository :: string
  oci_TagPattern :: string
  oci_RequireSignature :: bool
  oci_PollInterval :: string
  oci_SecretRef :: "(string \<times> string) option"

record trigger_source =
  trs_Type :: string
  trs_OCI :: "oci_trigger_source option"

record delivery_unit_trigger =
  dut_Name :: string
  dut_Suspended :: "bool option"
  dut_Source :: trigger_source
  dut_FleetRef :: string
  dut_PlanRef :: string
  dut_Cooldown :: string
  dut_MaxActive :: int
  dut_DryRun :: bool
  dut_Parameters :: smap
  dut_Labels :: smap
  dut_Annotations :: smap

record delivery_unit_spec =
  dus_Source :: source_spec
  dus_Triggers :: "delivery_unit_trigger list"
  dus_DefaultFleetRef :: string
  dus_DefaultPlanRef :: string
  dus_Suspended :: bool

record delivery_unit_status =
  dust_ObservedGeneration :: int
  dust_SourceRef :: string
  dust_TriggerRefs :: "string list"
  dust_Conditions :: "condition list"

record delivery_unit =
  du_Meta :: object_meta
  du_Spec :: delivery_unit_spec
  du_Status :: delivery_unit_status

abbreviation du_Name :: "delivery_unit \<Rightarrow> string" where
  "du_Name d \<equiv> om_Name (du_Meta d)"

section \<open>Triggers\<close>

record trigger_template =
  tt_DeliveryUnitRef :: string
  tt_FleetRef :: string
  tt_PlanRef :: string
  tt_NameTemplate :: string
  tt_Plans :: "plan_ref list"
  tt_Suspended :: "bool option"
  tt_Scope :: "string list option"
  tt_Timeout :: string
  tt_Labels :: smap
  tt_Annotations :: smap

record trigger_spec =
  trg_Suspended :: "bool option"
  trg_Source :: trigger_source
  trg_Template :: trigger_template
  trg_Cooldown :: string
  trg_MaxActive :: int
  trg_DryRun :: bool
  trg_Parameters :: smap

record trigger_artifact =
  ta_Tag :: string
  ta_Digest :: string
  ta_Version :: string
  ta_ObservedAt :: string
  ta_SignatureVerified :: bool

record trigger_status =
  trt_ObservedGeneration :: int
  trt_LastCheckedAt :: string
  trt_LastTriggeredAt :: string
  trt_LastArtifact :: "trigger_artifact option"
  trt_ManagedPromotion :: string
  trt_ActivePromotionRunCount :: int
  trt_RecentArtifacts :: "trigger_artifact list"
  trt_Conditions :: "condition list"

record trigger =
  tr_Meta :: object_meta
  tr_Spec :: trigger_spec
  tr_Status :: trigger_status

abbreviation tr_Name :: "trigger \<Rightarrow> string" where
  "tr_Name t \<equiv> om_Name (tr_Meta t)"

definition MaxRecentArtifacts :: nat where "MaxRecentArtifacts = 20"

definition LabelUnit :: string where "LabelUnit = ''kapro.io/unit''"
definition LabelKaproTeam :: string where "LabelKaproTeam = ''kapro.io/team''"
definition LabelManagedBy :: string where "LabelManagedBy = ''kapro.io/managed-by''"
definition ManagedByKapro :: string where "ManagedByKapro = ''kapro''"
definition kaproGroupVersion :: string where "kaproGroupVersion = ''kapro.io/v1alpha1''"

lemmas kapro_labels = LabelUnit_def LabelKaproTeam_def LabelManagedBy_def

section \<open>Trimming\<close>

text \<open>The white space runes of \<^verbatim>\<open>unicode.IsSpace\<close>, as UTF-8.\<close>

definition space_runes :: "string list" where
  "space_runes =
     map (map char_of)
       ([[9], [10], [11], [12], [13], [32], [194, 133], [194, 160], [225, 154, 128],
         [226, 128, 168], [226, 128, 169], [226, 128, 175], [226, 129, 159], [227, 128, 128]]
        @ map (\<lambda>k. [226, 128, 128 + k]) [0..<11] :: nat list list)"

lemma find_rune_shorter:
  "find (\<lambda>r. r \<noteq> [] \<and> has_prefix s r) runes = Some r \<Longrightarrow> length (drop (length r) s) < length s"
  by (auto simp: find_Some_iff has_prefix_iff)

function trim_runes :: "string list \<Rightarrow> string \<Rightarrow> string" where
  "trim_runes runes s =
     (case find (\<lambda>r. r \<noteq> [] \<and> has_prefix s r) runes of
        None \<Rightarrow> s
      | Some r \<Rightarrow> trim_runes runes (drop (length r) s))"
  by pat_completeness auto
termination
  by (relation "measure (\<lambda>(runes, s). length s)") (use find_rune_shorter in auto)

declare trim_runes.simps [simp del]

text \<open>\<^verbatim>\<open>strings.TrimSpace\<close>\<close>

definition trim_space :: "string \<Rightarrow> string" where
  "trim_space s = rev (trim_runes (map rev space_runes) (rev (trim_runes space_runes s)))"

text \<open>\<^verbatim>\<open>firstNonEmpty\<close>, one copy in the controllers and one in the webhooks\<close>

fun first_non_empty :: "string list \<Rightarrow> string" where
  "first_non_empty [] = []"
| "first_non_empty (v # vs) = (if trim_space v \<noteq> [] then trim_space v else first_non_empty vs)"

lemma trim_runes_no_space:
  "(\<And>r. r \<in> set runes \<Longrightarrow> r \<noteq> [] \<Longrightarrow> \<not> has_prefix s r) \<Longrightarrow> trim_runes runes s = s"
  by (subst trim_runes.simps) (auto split: option.splits simp: find_Some_iff)

lemma trim_runes_Nil [simp]: "trim_runes runes [] = []"
  by (rule trim_runes_no_space) (case_tac r, simp_all)

lemma trim_runes_trimmed:
  "r \<in> set runes \<Longrightarrow> r \<noteq> [] \<Longrightarrow> \<not> has_prefix (trim_runes runes s) r"
proof (induction runes s rule: trim_runes.induct)
  case (1 runes s)
  show ?case
  proof (cases "find (\<lambda>r. r \<noteq> [] \<and> has_prefix s r) runes")
    case None
    then have "trim_runes runes s = s" by (simp add: trim_runes.simps)
    then show ?thesis using None 1(2,3) by (auto simp: find_None_iff)
  next
    case (Some x)
    then have "trim_runes runes s = trim_runes runes (drop (length x) s)" by (subst trim_runes.simps) simp
    then show ?thesis using 1 Some by simp
  qed
qed

section \<open>Fallible steps over a state\<close>

definition op_bind :: "('s \<Rightarrow> ('e + 'a) \<times> 's) \<Rightarrow> ('a \<Rightarrow> 's \<Rightarrow> ('e + 'b) \<times> 's) \<Rightarrow> 's \<Rightarrow> ('e + 'b) \<times> 's" where
  "op_bind m f s = (case m s of (Inl e, s') \<Rightarrow> (Inl e, s') | (Inr x, s') \<Rightarrow> f x s')"

definition op_return :: "'a \<Rightarrow> 's \<Rightarrow> ('e + 'a) \<times> 's" where
  "op_return x s = (Inr x, s)"

end
