(* ===== verification/Go_Sha256.thy ===== *)
theory Go_Sha256
  imports Go_Strings
begin

text \<open>
  The parts of Go's \<^verbatim>\<open>crypto/sha256\<close> and \<^verbatim>\<open>encoding/hex\<close> packages that the controllers use: the
  SHA-256 digest of a byte string, written out from its standard, and its hexadecimal text.
\<close>

unbundle bit_operations_syntax

section \<open>Constants\<close>

text \<open>The 64 round constants and the initial state, as unsigned 32-bit numbers.\<close>

definition sha256_k :: "32 word list" where
  "sha256_k = [
     1116352408, 1899447441, 3049323471, 3921009573, 961987163, 1508970993, 2453635748, 2870763221,
     3624381080, 310598401, 607225278, 1426881987, 1925078388, 2162078206, 2614888103, 3248222580,
     3835390401, 4022224774, 264347078, 604807628, 770255983, 1249150122, 1555081692, 1996064986,
     2554220882, 2821834349, 2952996808, 3210313671, 3336571891, 3584528711, 113926993, 338241895,
     666307205, 773529912, 1294757372, 1396182291, 1695183700, 1986661051, 2177026350, 2456956037,
     2730485921, 2820302411, 3259730800, 3345764771, 3516065817, 3600352804, 4094571909, 275423344,
     430227734, 506948616, 659060556, 883997877, 958139571, 1322822218, 1537002063, 1747873779,
     1955562222, 2024104815, 2227730452, 2361852424, 2428436474, 2756734187, 3204031479, 3329325298]"

definition sha256_init :: "32 word list" where
  "sha256_init = [
     1779033703, 3144134277, 1013904242, 2773480762, 1359893119, 2600822924, 528734635, 1541459225]"

section \<open>Padding\<close>

text \<open>The \<open>n\<close> low bytes of a number, most significant first.\<close>

definition be_bytes :: "nat \<Rightarrow> nat \<Rightarrow> nat list" where
  "be_bytes n x = map (\<lambda>i. x div 256 ^ (n - 1 - i) mod 256) [0..<n]"

definition sha256_pad :: "nat list \<Rightarrow> nat list" where
  "sha256_pad m = m @ [128] @ replicate ((119 - length m mod 64) mod 64) 0 @ be_bytes 8 (8 * length m)"

fun be_words :: "nat list \<Rightarrow> 32 word list" where
  "be_words (a # b # c # d # bs) = of_nat (((a * 256 + b) * 256 + c) * 256 + d) # be_words bs"
| "be_words _ = []"

section \<open>Compression\<close>

abbreviation rotr :: "nat \<Rightarrow> 32 word \<Rightarrow> 32 word" where
  "rotr n x \<equiv> word_rotr n x"

text \<open>The message schedule is kept newest first.\<close>

definition schedule_step :: "32 word list \<Rightarrow> 32 word list" where
  "schedule_step ws =
     (let w15 = ws ! 14; w2 = ws ! 1;
          s0 = rotr 7 w15 XOR rotr 18 w15 XOR drop_bit 3 w15;
          s1 = rotr 17 w2 XOR rotr 19 w2 XOR drop_bit 10 w2
      in (ws ! 15 + s0 + ws ! 6 + s1) # ws)"

definition schedule :: "32 word list \<Rightarrow> 32 word list" where
  "schedule block = rev ((schedule_step ^^ 48) (rev block))"

fun round_step :: "32 word \<times> 32 word \<Rightarrow> 32 word list \<Rightarrow> 32 word list" where
  "round_step (k, w) [a, b, c, d, e, f, g, h] =
     (let t1 = h + (rotr 6 e XOR rotr 11 e XOR rotr 25 e) + ((e AND f) XOR (NOT e AND g)) + k + w;
          t2 = (rotr 2 a XOR rotr 13 a XOR rotr 22 a) + ((a AND b) XOR (a AND c) XOR (b AND c))
      in [t1 + t2, a, b, c, d + t1, e, f, g])"
| "round_step kw hs = hs"

definition compress :: "32 word list \<Rightarrow> 32 word list \<Rightarrow> 32 word list" where
  "compress block hs = map2 (+) hs (fold round_step (zip sha256_k (schedule block)) hs)"

fun sha256_blocks :: "32 word list \<Rightarrow> 32 word list \<Rightarrow> 32 word list" where
  "sha256_blocks [] hs = hs"
| "sha256_blocks (w # ws) hs = sha256_blocks (drop 15 ws) (compress (take 16 (w # ws)) hs)"

section \<open>The digest\<close>

definition sha256 :: "string \<Rightarrow> 32 word list" where
  "sha256 s = sha256_blocks (be_words (sha256_pad (map of_char s))) sha256_init"

definition sha256_hex :: "string \<Rightarrow> string" where
  "sha256_hex s = concat (map (\<lambda>h. hex_pad 8 (unat h)) (sha256 s))"

lemma length_sha256_blocks: "length hs = 8 \<Longrightarrow> length (sha256_blocks ws hs) = 8"
proof (induction ws hs rule: sha256_blocks.induct)
  case (2 w ws hs)
  have "length (fold round_step xs hs) = 8" if "length hs = 8" for xs hs
    using that
  proof (induction xs arbitrary: hs)
    case (Cons x xs)
    have "length (round_step x hs) = length hs" by (induction x hs rule: round_step.induct) (simp_all add: Let_def)
    with Cons show ?case by simp
  qed simp
  then have "length (compress (take 16 (w # ws)) hs) = 8" using 2 by (simp add: compress_def)
  then show ?case using "2.IH" by simp
qed simp

end
