(* ===== verification/Promotion_Intent.thy ===== *)
theory Promotion_Intent
  imports Effects Trigger_Types Go_Sha256
begin

text \<open>
  The promotion intent (\<^verbatim>\<open>api/kapro/v1alpha1/promotion_types.go\<close>) and the pure parts of its
  controller (\<^verbatim>\<open>internal/controller/promotion_controller.go\<close>): the spec hash that decides whether a
  new attempt is due, the name and the spec of an attempt, the attempt history and the coarse
  phase. Fleet and delivery unit are records of the fields the controller reads. The lifecycle
  handlers of a promotion are not part of the hash and are left to the dispatcher.
\<close>

section \<open>Types\<close>

datatype promotion_phase =
    PromotionNone | PromotionPending | PromotionProgressing | PromotionPaused | PromotionRestarting
  | PromotionSucceeded | PromotionFailed | PromotionRollingBack | PromotionTerminating | PromotionOther string

fun promotion_phase_string :: "promotion_phase \<Rightarrow> string" where
  "promotion_phase_string PromotionNone = []"
| "promotion_phase_string PromotionPending = ''Pending''"
| "promotion_phase_string PromotionProgressing = ''Progressing''"
| "promotion_phase_string PromotionPaused = ''Paused''"
| "promotion_phase_string PromotionRestarting = ''Restarting''"
| "promotion_phase_string PromotionSucceeded = ''Succeeded''"
| "promotion_phase_string PromotionFailed = ''Failed''"
| "promotion_phase_string PromotionRollingBack = ''RollingBack''"
| "promotion_phase_string PromotionTerminating = ''Terminating''"
| "promotion_phase_string (PromotionOther s) = s"

record promotion_attempt_ref =
  pa_Name :: string
  pa_SpecHash :: string
  pa_Version :: string
  pa_Phase :: run_phase
  pa_StartedAt :: "int option"
  pa_CompletedAt :: "int option"
  pa_SupersededReason :: string

record promotion_spec =
  pms_DeliveryUnitRef :: string
  pms_FleetRef :: string
  pms_PlanRef :: string
  pms_Version :: string
  pms_Versions :: smap
  pms_Plans :: "plan_ref list"
  pms_Scope :: "string list option"
  pms_Timeout :: string
  pms_Suspended :: bool

record promotion_status =
  pmst_ObservedGeneration :: int
  pmst_Phase :: promotion_phase
  pmst_ActiveAttemptRef :: "promotion_attempt_ref option"
  pmst_Attempts :: "promotion_attempt_ref list"
  pmst_ResolvedVersion :: string
  pmst_Conditions :: "condition list"

record promotion =
  pm_Meta :: object_meta
  pm_Spec :: promotion_spec
  pm_Status :: promotion_status

abbreviation pm_Name :: "promotion \<Rightarrow> string" where
  "pm_Name p \<equiv> om_Name (pm_Meta p)"

record fleet =
  fl_Name :: string
  fl_Suspended :: bool
  fl_PlanStages :: "stage list"

definition MaxPromotionAttempts :: nat where "MaxPromotionAttempts = 20"
definition promotionIntentRequeue :: int where "promotionIntentRequeue = 15 * second"

definition promotionOwnerLabel :: string where "promotionOwnerLabel = ''kapro.io/promotion''"
definition promotionSpecHashLabel :: string where "promotionSpecHashLabel = ''kapro.io/promotion-spec-hash''"
definition promotionUIDLabel :: string where "promotionUIDLabel = ''kapro.io/promotion-uid''"
definition promotionFleetLabel :: string where "promotionFleetLabel = ''kapro.io/fleet''"
definition supersededReason :: string where "supersededReason = ''SupersededByNewPromotionAttempt''"

lemmas promotion_labels = promotionOwnerLabel_def promotionSpecHashLabel_def promotionUIDLabel_def
  promotionFleetLabel_def LabelUnit_def LabelKaproTeam_def

section \<open>The spec hash\<close>

definition promotion_spec_text :: "promotion_spec \<Rightarrow> string" where
  "promotion_spec_text s =
     ''du='' @ pms_DeliveryUnitRef s @ ''|'' @ ''k='' @ pms_FleetRef s @ ''|'' @
     ''pr='' @ pms_PlanRef s @ ''|'' @ ''v='' @ pms_Version s @ ''|'' @
     concat (map (\<lambda>k. ''u:'' @ k @ ''='' @ smap_get (pms_Versions s) k @ ''|'')
       (sort_strings (remdups (map fst (pms_Versions s))))) @
     concat (map (\<lambda>p. ''p:'' @ pr_Name p @ ''='' @ pr_Plan p @ ''|'') (pms_Plans s)) @
     (case pms_Scope s of None \<Rightarrow> []
      | Some targets \<Rightarrow> concat (map (\<lambda>t. ''s:'' @ t @ ''|'') (sort_strings targets))) @
     ''t='' @ pms_Timeout s @ ''|''"

definition promotion_spec_hash :: "promotion_spec \<Rightarrow> string" where
  "promotion_spec_hash s = take 12 (sha256_hex (promotion_spec_text s))"

section \<open>The attempt\<close>

text \<open>\<^verbatim>\<open>strings.TrimRight\<close> with one cut character.\<close>

definition trim_right :: "char \<Rightarrow> string \<Rightarrow> string" where
  "trim_right c s = rev (dropWhile (\<lambda>x. x = c) (rev s))"

definition attempt_name :: "string \<Rightarrow> string \<Rightarrow> string" where
  "attempt_name promotionName specHash =
     (let suffixLen = length specHash + 1;
          base = (if length promotionName + suffixLen > 63
                  then trim_right (CHR ''-'') (take (63 - suffixLen) promotionName) else promotionName)
      in base @ ''-'' @ specHash)"

definition inline_promotion_plan_name :: "string \<Rightarrow> string" where
  "inline_promotion_plan_name kaproName = kaproName @ ''-promotionplan''"

definition default_plan :: "string \<Rightarrow> string \<Rightarrow> plan_ref list" where
  "default_plan name plan = [\<lparr>pr_Name = name, pr_Plan = plan, pr_DependsOn = []\<rparr>]"

definition attempt_plans :: "promotion \<Rightarrow> fleet \<Rightarrow> delivery_unit \<Rightarrow> plan_ref list" where
  "attempt_plans p parent unit =
     (if pms_Plans (pm_Spec p) \<noteq> [] then pms_Plans (pm_Spec p)
      else if pms_PlanRef (pm_Spec p) \<noteq> [] then default_plan ''default'' (pms_PlanRef (pm_Spec p))
      else if dus_DefaultPlanRef (du_Spec unit) \<noteq> [] then default_plan ''default'' (dus_DefaultPlanRef (du_Spec unit))
      else if fl_PlanStages parent \<noteq> [] then default_plan ''inline'' (inline_promotion_plan_name (fl_Name parent))
      else [])"

definition build_run_spec :: "promotion \<Rightarrow> fleet \<Rightarrow> delivery_unit \<Rightarrow> go_error + promotion_run_spec" where
  "build_run_spec p parent unit =
     (let plans = attempt_plans p parent unit
      in if plans = [] then
           Inl ''set spec.planRef, spec.plans, DeliveryUnit.spec.defaultPlanRef, or legacy Fleet.spec.plan''
         else if pms_Version (pm_Spec p) = [] \<and> pms_Versions (pm_Spec p) = [] then
           Inl ''either spec.version or spec.versions must be set''
         else Inr \<lparr>prs_DeliveryUnitRef = pms_DeliveryUnitRef (pm_Spec p), prs_FleetRef = pms_FleetRef (pm_Spec p),
                prs_Version = pms_Version (pm_Spec p), prs_Versions = pms_Versions (pm_Spec p), prs_Plans = plans,
                prs_Suspended = pms_Suspended (pm_Spec p), prs_Scope = pms_Scope (pm_Spec p),
                prs_Timeout = pms_Timeout (pm_Spec p)\<rparr>)"

definition attempt_labels :: "promotion \<Rightarrow> string \<Rightarrow> smap" where
  "attempt_labels p specHash =
     (let l0 = [(promotionOwnerLabel, pm_Name p), (promotionSpecHashLabel, specHash)];
          l1 = (if pms_FleetRef (pm_Spec p) \<noteq> [] then smap_set promotionFleetLabel (pms_FleetRef (pm_Spec p)) l0 else l0);
          l2 = (if pms_DeliveryUnitRef (pm_Spec p) \<noteq> [] then smap_set LabelUnit (pms_DeliveryUnitRef (pm_Spec p)) l1 else l1);
          l3 = (if om_UID (pm_Meta p) \<noteq> [] then smap_set promotionUIDLabel (om_UID (pm_Meta p)) l2 else l2);
          team = smap_get (om_Labels (pm_Meta p)) LabelKaproTeam
      in if team \<noteq> [] then smap_set LabelKaproTeam team l3 else l3)"

section \<open>History and phase\<close>

text \<open>The first entry of the same name is replaced and keeps its start; otherwise the entry is new.\<close>

fun replace_attempt ::
  "promotion_attempt_ref \<Rightarrow> promotion_attempt_ref list \<Rightarrow> promotion_attempt_ref list option" where
  "replace_attempt current [] = None"
| "replace_attempt current (a # as) =
     (if pa_Name a = pa_Name current then
        let c1 = (if pa_StartedAt a \<noteq> None then current\<lparr>pa_StartedAt := pa_StartedAt a\<rparr> else current);
            c2 = (if pa_SupersededReason c1 = [] then c1\<lparr>pa_SupersededReason := pa_SupersededReason a\<rparr> else c1)
        in Some (c2 # as)
      else map_option (Cons a) (replace_attempt current as))"

definition upsert_attempt ::
  "promotion_attempt_ref list \<Rightarrow> promotion_attempt_ref \<Rightarrow> promotion_attempt_ref list" where
  "upsert_attempt as current =
     (case replace_attempt current as of
        Some as' \<Rightarrow> as'
      | None \<Rightarrow> take MaxPromotionAttempts (current # as))"

fun compute_promotion_phase :: "run_phase \<Rightarrow> bool \<Rightarrow> promotion_phase" where
  "compute_promotion_phase RunComplete prior = PromotionSucceeded"
| "compute_promotion_phase RunFailed prior = PromotionFailed"
| "compute_promotion_phase RunProgressing prior = PromotionProgressing"
| "compute_promotion_phase RunSuperseded prior = PromotionPending"
| "compute_promotion_phase RunPending prior = (if prior then PromotionRestarting else PromotionPending)"
| "compute_promotion_phase RunNone prior = (if prior then PromotionRestarting else PromotionPending)"
| "compute_promotion_phase (RunOther s) prior = PromotionOther s"

definition requeue_for_phase :: "promotion_phase \<Rightarrow> int" where
  "requeue_for_phase phase =
     (case phase of
        PromotionSucceeded \<Rightarrow> 0 | PromotionFailed \<Rightarrow> 0 | PromotionPaused \<Rightarrow> 0 | PromotionTerminating \<Rightarrow> 0
      | _ \<Rightarrow> promotionIntentRequeue)"

text \<open>The attempt as the status records it.\<close>

definition attempt_of_run :: "promotion_run \<Rightarrow> string \<Rightarrow> promotion_attempt_ref" where
  "attempt_of_run run specHash =
     (let created = om_CreationTimestamp (run_Meta run); st = run_Status run
      in \<lparr>pa_Name = run_Name run, pa_SpecHash = specHash, pa_Version = prs_Version (run_Spec run),
          pa_Phase = rst_Phase st,
          pa_StartedAt = (if is_zero_time created then None else Some created),
          pa_CompletedAt = (if run_phase_is_terminal (rst_Phase st) \<and> rst_CompletedAt st \<noteq> []
            then parse_rfc3339 (rst_CompletedAt st) else None),
          pa_SupersededReason = []\<rparr>)"

end
