(* ===== verification/Promotion_Controller.thy ===== *)
theory Promotion_Controller
  imports Promotion_Intent
begin

text \<open>
  The promotion controller (\<^verbatim>\<open>internal/controller/promotion_controller.go\<close>): it turns the intent of a
  promotion into attempts, one promotion run per spec hash, supersedes the runs of an older
  spec with their targets and claims, suspends the runs of a paused promotion, and mirrors the
  active run into the status. Every write to the server, event and lifecycle call is an entry of
  the log, in program order; the writes are logged whether or not the server accepts them. The
  process runs in UTC. \<open>newest\<close> is what \<^verbatim>\<open>sort.Slice\<close> makes of the listed runs: some order by
  descending creation time, the order of equal times being open.
\<close>

section \<open>State\<close>

datatype promotion_effect =
    CreateRunCalled promotion_run
  | PatchRunStatusCalled promotion_run
  | PatchRunCalled promotion_run
  | CancelTargetCalled target
  | PatchClusterCalled cluster
  | PatchPromotionCalled promotion
  | PromotionEvent string string string
  | AttemptEvent string string
  | PhaseTransition promotion_phase promotion_phase

record 'w promotion_tick =
  pt_World :: 'w
  pt_Log :: "promotion_effect list"
  pt_Promotion :: promotion

record 'w promotion_env =
  pe_Kube :: "'w kube"
  pe_GetPromotion :: "string \<Rightarrow> 'w \<Rightarrow> (api_error + promotion) \<times> 'w"
  pe_GetFleet :: "string \<Rightarrow> 'w \<Rightarrow> (api_error + fleet) \<times> 'w"
  pe_GetDeliveryUnit :: "string \<Rightarrow> 'w \<Rightarrow> (api_error + delivery_unit) \<times> 'w"
  pe_ListOwnedRuns :: "string \<Rightarrow> 'w \<Rightarrow> (api_error + promotion_run list) \<times> 'w"
  pe_ListTargets :: "'w \<Rightarrow> (api_error + target list) \<times> 'w"
  pe_CreateRun :: "promotion_run \<Rightarrow> 'w \<Rightarrow> (api_error + promotion_run) \<times> 'w"
  pe_PatchPromotionStatus :: "promotion \<Rightarrow> promotion \<Rightarrow> 'w \<Rightarrow> (api_error + promotion) \<times> 'w"
  pe_SetControllerReference :: "promotion \<Rightarrow> object_meta \<Rightarrow> go_error + object_meta"
  pe_Lifecycle :: bool
  pe_AttemptPublisher :: bool

type_synonym ('w, 'a) promotion_op = "'w promotion_tick \<Rightarrow> (go_error + 'a) \<times> 'w promotion_tick"

definition promotion_bind ::
  "('w, 'a) promotion_op \<Rightarrow> ('a \<Rightarrow> ('w, 'b) promotion_op) \<Rightarrow> ('w, 'b) promotion_op" where
  "promotion_bind m f s = (case m s of (Inl e, s') \<Rightarrow> (Inl e, s') | (Inr x, s') \<Rightarrow> f x s')"

definition promotion_emit :: "promotion_effect \<Rightarrow> 'w promotion_tick \<Rightarrow> 'w promotion_tick" where
  "promotion_emit e s = s\<lparr>pt_Log := pt_Log s @ [e]\<rparr>"

definition promotion_world :: "'w \<Rightarrow> 'w promotion_tick \<Rightarrow> 'w promotion_tick" where
  "promotion_world w s = s\<lparr>pt_World := w\<rparr>"

definition upd_promotion :: "(promotion \<Rightarrow> promotion) \<Rightarrow> 'w promotion_tick \<Rightarrow> 'w promotion_tick" where
  "upd_promotion f s = s\<lparr>pt_Promotion := f (pt_Promotion s)\<rparr>"

text \<open>A read or write of the client: its error, wrapped with a text, or its answer.\<close>

definition client_call ::
  "string \<Rightarrow> ('w \<Rightarrow> (api_error + 'a) \<times> 'w) \<Rightarrow> ('w, 'a) promotion_op" where
  "client_call wrap call s =
     (case call (pt_World s) of
        (Inl e, w) \<Rightarrow> (Inl (wrap @ api_error_text e), promotion_world w s)
      | (Inr x, w) \<Rightarrow> (Inr x, promotion_world w s))"

section \<open>Labels of a run\<close>

definition backfill_run_labels :: "'w promotion_env \<Rightarrow> promotion_run \<Rightarrow> ('w, promotion_run) promotion_op" where
  "backfill_run_labels env run s =
     (let p = pt_Promotion s; labels = om_Labels (run_Meta run);
          missingKapro = (pms_FleetRef (pm_Spec p) \<noteq> [] \<and> smap_get labels promotionFleetLabel = []);
          missingUnit = (pms_DeliveryUnitRef (pm_Spec p) \<noteq> [] \<and> smap_get labels LabelUnit = []);
          missingUID = (om_UID (pm_Meta p) \<noteq> [] \<and> smap_get labels promotionUIDLabel = []);
          l1 = (if missingKapro then smap_set promotionFleetLabel (pms_FleetRef (pm_Spec p)) labels else labels);
          l2 = (if missingUnit then smap_set LabelUnit (pms_DeliveryUnitRef (pm_Spec p)) l1 else l1);
          l3 = (if missingUID then smap_set promotionUIDLabel (om_UID (pm_Meta p)) l2 else l2);
          run' = run\<lparr>run_Meta := (run_Meta run)\<lparr>om_Labels := l3\<rparr>\<rparr>
      in if \<not> missingKapro \<and> \<not> missingUnit \<and> \<not> missingUID then (Inr run, s)
         else client_call [] (kb_PatchRun (pe_Kube env) run run') (promotion_emit (PatchRunCalled run') s))"

section \<open>Stamping an attempt\<close>

definition attempt_run :: "promotion \<Rightarrow> promotion_run_spec \<Rightarrow> string \<Rightarrow> promotion_run" where
  "attempt_run p spec specHash =
     \<lparr>run_Meta = \<lparr>om_Name = attempt_name (pm_Name p) specHash, om_Namespace = [], om_UID = [], om_Generation = 0,
        om_Labels = attempt_labels p specHash, om_Annotations = om_Annotations (pm_Meta p),
        om_OwnerReferences = [], om_Finalizers = [], om_DeletionTimestamp = None, om_CreationTimestamp = go_zero_time\<rparr>,
      run_Spec = spec,
      run_Status = \<lparr>rst_ObservedGeneration = 0, rst_Phase = RunNone, rst_ResolvedVersion = [], rst_StartedAt = [],
        rst_CompletedAt = [], rst_PlanProgress = [], rst_Summary = None,
        rst_Report = \<lparr>rep_Phase = RunNone, rep_Artifact = [], rep_ResolvedVersion = [], rep_StartedAt = [],
          rep_CompletedAt = [], rep_Duration = [], rep_TotalTargets = 0, rep_SyncedTargets = 0, rep_FailedTargets = 0,
          rep_PendingTargets = 0, rep_RolledBackTargets = 0, rep_TotalArtifacts = 0, rep_DeltaArtifacts = 0,
          rep_PendingApprovals = []\<rparr>,
        rst_AuditTrail = [], rst_Conditions = []\<rparr>\<rparr>"

definition stamp_attempt ::
  "'w promotion_env \<Rightarrow> promotion_run_spec \<Rightarrow> string \<Rightarrow> ('w, promotion_run) promotion_op" where
  "stamp_attempt env spec specHash s =
     (let p = pt_Promotion s; run0 = attempt_run p spec specHash
      in case pe_SetControllerReference env p (run_Meta run0) of
           Inl e \<Rightarrow> (Inl (''set Promotion owner on PromotionRun: '' @ e), s)
         | Inr m \<Rightarrow>
             (let run = run0\<lparr>run_Meta := m\<rparr>; s1 = promotion_emit (CreateRunCalled run) s
              in case pe_CreateRun env run (pt_World s1) of
                   (Inr created, w) \<Rightarrow> (Inr created, promotion_world w s1)
                 | (Inl e, w) \<Rightarrow>
                     (let s2 = promotion_world w s1
                      in if \<not> is_already_exists e then (Inl (''create PromotionRun: '' @ api_error_text e), s2)
                         else promotion_bind
                           (client_call ''re-fetch PromotionRun after AlreadyExists: ''
                              (kb_GetRun (pe_Kube env) (run_Name run0)))
                           (\<lambda>existing s3. case backfill_run_labels env existing s3 of
                              (Inl e, s4) \<Rightarrow> (Inl (''backfill labels on existing PromotionRun: '' @ e), s4)
                            | (Inr r, s4) \<Rightarrow> (Inr r, s4)) s2)))"

section \<open>Superseding\<close>

definition clear_superseded_active_claim ::
  "'w promotion_env \<Rightarrow> string \<Rightarrow> string \<Rightarrow> ('w, unit) promotion_op" where
  "clear_superseded_active_claim env runName clusterName s =
     (if clusterName = [] then (Inr (), s)
      else case kb_GetCluster (pe_Kube env) clusterName (pt_World s) of
        (Inl e, w) \<Rightarrow>
          ((if is_not_found e then Inr () else Inl (api_error_text e)), promotion_world w s)
      | (Inr cluster, w) \<Rightarrow>
          (let s1 = promotion_world w s;
               cluster' = cluster\<lparr>cl_Status := (cl_Status cluster)\<lparr>cst_ActivePromotionRun := []\<rparr>\<rparr>
           in if cst_ActivePromotionRun (cl_Status cluster) \<noteq> runName then (Inr (), s1)
              else promotion_bind
                (client_call (''clear activePromotionRun for superseded run '' @ runName @ '' on cluster '' @ clusterName @ '': '')
                   (kb_PatchClusterStatus (pe_Kube env) cluster cluster'))
                (\<lambda>_ s. (Inr (), s)) (promotion_emit (PatchClusterCalled cluster') s1)))"

definition superseded_target :: "target \<Rightarrow> target" where
  "superseded_target t = t\<lparr>tg_Spec := (tg_Spec t)\<lparr>ts_Cancelled := True,
     ts_CancelledReason := ''superseded by newer PromotionRun'', ts_CancelledPhase := PhaseFailed\<rparr>\<rparr>"

definition supersede_skips :: "string \<Rightarrow> target \<Rightarrow> bool" where
  "supersede_skips runName t \<longleftrightarrow>
     ts_PromotionRunRef (tg_Spec t) \<noteq> runName \<or>
     tg_Phase t = PhaseConverged \<or> tg_Phase t = PhaseFailed \<or> tg_Phase t = PhaseSkipped \<or>
     ts_Cancelled (tg_Spec t)"

fun cancel_superseded_targets :: "'w promotion_env \<Rightarrow> string \<Rightarrow> target list \<Rightarrow> ('w, unit) promotion_op" where
  "cancel_superseded_targets env runName [] s = (Inr (), s)"
| "cancel_superseded_targets env runName (t # ts) s =
     (if supersede_skips runName t then cancel_superseded_targets env runName ts s
      else case client_call (''cancel superseded target '' @ tg_Name t @ '': '')
                  (kb_PatchTarget (pe_Kube env) t (superseded_target t))
                  (promotion_emit (CancelTargetCalled t) s) of
        (Inl e, s1) \<Rightarrow> (Inl e, s1)
      | (Inr t', s1) \<Rightarrow>
          (case clear_superseded_active_claim env runName (ts_Target (tg_Spec t')) s1 of
             (Inl e, s2) \<Rightarrow> (Inl e, s2)
           | (Inr _, s2) \<Rightarrow> cancel_superseded_targets env runName ts s2))"

definition cancel_superseded_run_targets :: "'w promotion_env \<Rightarrow> string \<Rightarrow> ('w, unit) promotion_op" where
  "cancel_superseded_run_targets env runName =
     promotion_bind (client_call (''list targets for superseded PromotionRun '' @ runName @ '': '') (pe_ListTargets env))
       (cancel_superseded_targets env runName)"

definition superseded_run :: "'w promotion_env \<Rightarrow> int \<Rightarrow> promotion_run \<Rightarrow> promotion_run" where
  "superseded_run env now run =
     run\<lparr>run_Status := (run_Status run)\<lparr>rst_Phase := RunSuperseded, rst_CompletedAt := format_rfc3339 now,
       rst_Conditions := kb_SetStatusCondition (pe_Kube env)
         \<lparr>c_Type = ''Ready'', c_Status = ''False'', c_Reason = supersededReason,
          c_Message = ''Newer PromotionRun was stamped for this Promotion intent'',
          c_ObservedGeneration = om_Generation (run_Meta run), c_LastTransitionTime = now\<rparr>
         (rst_Conditions (run_Status run))\<rparr>\<rparr>"

fun supersede_runs ::
  "'w promotion_env \<Rightarrow> int \<Rightarrow> promotion_run list \<Rightarrow> string list \<Rightarrow> ('w, string list) promotion_op" where
  "supersede_runs env now [] superseded s = (Inr superseded, s)"
| "supersede_runs env now (run # runs) superseded s =
     (if run_phase_is_terminal (rst_Phase (run_Status run)) then supersede_runs env now runs superseded s
      else
        let run' = superseded_run env now run
        in case client_call (''supersede PromotionRun '' @ run_Name run @ '': '')
                  (kb_PatchRunStatus (pe_Kube env) run run') (promotion_emit (PatchRunStatusCalled run') s) of
          (Inl e, s1) \<Rightarrow> (Inl e, s1)
        | (Inr answer, s1) \<Rightarrow>
            (case cancel_superseded_run_targets env (run_Name answer) s1 of
               (Inl e, s2) \<Rightarrow> (Inl e, s2)
             | (Inr _, s2) \<Rightarrow> supersede_runs env now runs (superseded @ [run_Name answer]) s2))"

definition supersede_previous :: "'w promotion_env \<Rightarrow> promotion_run list \<Rightarrow> ('w, string list) promotion_op" where
  "supersede_previous env runs s = supersede_runs env (kb_Now (pe_Kube env) (pt_World s)) runs [] s"

section \<open>Suspending\<close>

fun suspend_runs :: "'w promotion_env \<Rightarrow> promotion_run list \<Rightarrow> ('w, unit) promotion_op" where
  "suspend_runs env [] s = (Inr (), s)"
| "suspend_runs env (run # runs) s =
     (if prs_Suspended (run_Spec run) \<or> run_phase_is_terminal (rst_Phase (run_Status run))
      then suspend_runs env runs s
      else
        let run' = run\<lparr>run_Spec := (run_Spec run)\<lparr>prs_Suspended := True\<rparr>\<rparr>
        in case client_call (''suspend PromotionRun '' @ run_Name run @ '': '')
                  (kb_PatchRun (pe_Kube env) run run') (promotion_emit (PatchRunCalled run') s) of
          (Inl e, s1) \<Rightarrow> (Inl e, s1)
        | (Inr _, s1) \<Rightarrow> suspend_runs env runs s1)"

definition suspend_owned_runs :: "'w promotion_env \<Rightarrow> ('w, unit) promotion_op" where
  "suspend_owned_runs env s =
     promotion_bind (client_call ''list owned PromotionRuns: '' (pe_ListOwnedRuns env (pm_Name (pt_Promotion s))))
       (suspend_runs env) s"

section \<open>The status\<close>

definition set_promotion_condition ::
  "'w promotion_env \<Rightarrow> string \<Rightarrow> string \<Rightarrow> string \<Rightarrow> string \<Rightarrow> int \<Rightarrow> promotion \<Rightarrow> promotion" where
  "set_promotion_condition env type status reason message time p =
     p\<lparr>pm_Status := (pm_Status p)\<lparr>pmst_Conditions := kb_SetStatusCondition (pe_Kube env)
       \<lparr>c_Type = type, c_Status = status, c_Reason = reason, c_Message = message,
        c_ObservedGeneration = om_Generation (pm_Meta p), c_LastTransitionTime = time\<rparr>
       (pmst_Conditions (pm_Status p))\<rparr>\<rparr>"

definition cond_bool :: "bool \<Rightarrow> string" where
  "cond_bool b = (if b then ''True'' else ''False'')"

definition set_promotion_conditions :: "'w promotion_env \<Rightarrow> int \<Rightarrow> promotion_run \<Rightarrow> promotion \<Rightarrow> promotion" where
  "set_promotion_conditions env now run p =
     (let phase = pmst_Phase (pm_Status p);
          (reason, msg) =
            (if phase = PromotionSucceeded then (''Succeeded'', ''Attempt '' @ run_Name run @ '' completed'')
             else if phase = PromotionFailed then (''Failed'', ''Attempt '' @ run_Name run @ '' failed'')
             else (''Reconciled'', ''Active attempt '' @ run_Name run @ '' in phase '' @
               run_phase_string (rst_Phase (run_Status run))));
          inFlight = (phase = PromotionProgressing \<or> phase = PromotionRestarting \<or> phase = PromotionPending);
          p1 = set_promotion_condition env ''Ready'' (cond_bool (phase = PromotionSucceeded)) reason msg now p;
          p2 = set_promotion_condition env ''Progressing'' (cond_bool inFlight)
                 (if inFlight then ''AttemptInFlight'' else ''Idle'') (promotion_phase_string phase) now p1;
          p3 = set_promotion_condition env ''Suspended'' (cond_bool (phase = PromotionPaused)) ''SpecSuspended''
                 (''spec.suspended='' @ format_bool (pms_Suspended (pm_Spec p))) now p2
      in set_promotion_condition env ''RollbackAvailable''
           (cond_bool (list_ex (\<lambda>a. pa_Phase a = RunComplete) (pmst_Attempts (pm_Status p)))) ''HistoricalSuccess''
           ''at least one prior attempt reached Succeeded'' now p3)"

definition emit_phase_transition_event ::
  "promotion_phase \<Rightarrow> string \<Rightarrow> 'w promotion_tick \<Rightarrow> 'w promotion_tick" where
  "emit_phase_transition_event prevPhase runName s =
     (let phase = pmst_Phase (pm_Status (pt_Promotion s));
          msg = ''Promotion phase: '' @ promotion_phase_string prevPhase @ '' -> '' @ promotion_phase_string phase
      in if prevPhase = phase then s
         else promotion_emit (PromotionEvent (if phase = PromotionFailed then ''Warning'' else ''Normal'')
           (promotion_phase_string phase) (if runName \<noteq> [] then msg @ '' (run '' @ runName @ '')'' else msg)) s)"

definition dispatch_lifecycle ::
  "'w promotion_env \<Rightarrow> promotion_phase \<Rightarrow> promotion_phase \<Rightarrow> 'w promotion_tick \<Rightarrow> 'w promotion_tick" where
  "dispatch_lifecycle env prev next s =
     (if \<not> pe_Lifecycle env \<or> prev = next then s else promotion_emit (PhaseTransition prev next) s)"

text \<open>The end of both status writers: the patch, the lifecycle call, the requeue.\<close>

definition write_promotion_status ::
  "'w promotion_env \<Rightarrow> promotion \<Rightarrow> promotion_phase option \<Rightarrow> ('w, ctrl_result) promotion_op" where
  "write_promotion_status env before fixed s =
     (case client_call ''patch Promotion status: ''
             (pe_PatchPromotionStatus env before (pt_Promotion s)) (promotion_emit (PatchPromotionCalled (pt_Promotion s)) s) of
        (Inl e, s1) \<Rightarrow> (Inl e, s1)
      | (Inr answer, s1) \<Rightarrow>
          (let phase = (case fixed of Some ph \<Rightarrow> ph | None \<Rightarrow> pmst_Phase (pm_Status answer))
           in (Inr (requeue_after (requeue_for_phase phase)),
               dispatch_lifecycle env (pmst_Phase (pm_Status before)) phase (upd_promotion (\<lambda>_. answer) s1))))"

definition patch_status ::
  "'w promotion_env \<Rightarrow> promotion_phase \<Rightarrow> string \<Rightarrow> string \<Rightarrow> ('w, ctrl_result) promotion_op" where
  "patch_status env phase reason msg s =
     (let p = pt_Promotion s;
          p1 = p\<lparr>pm_Status := (pm_Status p)\<lparr>pmst_Phase := phase,
                pmst_ObservedGeneration := om_Generation (pm_Meta p),
                pmst_ActiveAttemptRef := (if phase = PromotionPaused \<or> phase = PromotionTerminating then None
                  else pmst_ActiveAttemptRef (pm_Status p))\<rparr>\<rparr>;
          p2 = set_promotion_condition env ''Ready'' (cond_bool (phase = PromotionSucceeded)) reason msg go_zero_time p1;
          p3 = set_promotion_condition env ''Suspended'' (cond_bool (phase = PromotionPaused)) reason msg go_zero_time p2
      in write_promotion_status env p (Some phase)
           (emit_phase_transition_event (pmst_Phase (pm_Status p)) [] (upd_promotion (\<lambda>_. p3) s)))"

definition patch_unresolved :: "'w promotion_env \<Rightarrow> string \<Rightarrow> string \<Rightarrow> ('w, ctrl_result) promotion_op" where
  "patch_unresolved env reason msg s =
     patch_status env PromotionPending reason msg (promotion_emit (PromotionEvent ''Warning'' reason msg) s)"

definition patch_status_from_run ::
  "'w promotion_env \<Rightarrow> promotion_run \<Rightarrow> string \<Rightarrow> bool \<Rightarrow> ('w, ctrl_result) promotion_op" where
  "patch_status_from_run env run specHash priorTerminalExists s =
     (let p = pt_Promotion s; current = attempt_of_run run specHash; rst = run_Status run;
          p1 = p\<lparr>pm_Status := (pm_Status p)\<lparr>
                pmst_ActiveAttemptRef := (if \<not> run_phase_is_terminal (rst_Phase rst) then Some current else None),
                pmst_Attempts := upsert_attempt (pmst_Attempts (pm_Status p)) current,
                pmst_ResolvedVersion := (if rst_ResolvedVersion rst = [] then prs_Version (run_Spec run)
                  else rst_ResolvedVersion rst),
                pmst_Phase := compute_promotion_phase (rst_Phase rst) priorTerminalExists,
                pmst_ObservedGeneration := om_Generation (pm_Meta p)\<rparr>\<rparr>;
          p2 = set_promotion_conditions env (kb_Now (pe_Kube env) (pt_World s)) run p1
      in write_promotion_status env p None
           (emit_phase_transition_event (pmst_Phase (pm_Status p)) (run_Name run) (upd_promotion (\<lambda>_. p2) s)))"

section \<open>The reconcile\<close>

definition emit_attempt_event :: "'w promotion_env \<Rightarrow> string \<Rightarrow> string \<Rightarrow> 'w promotion_tick \<Rightarrow> 'w promotion_tick" where
  "emit_attempt_event env runName kind s =
     (if pe_AttemptPublisher env then promotion_emit (AttemptEvent runName kind) s else s)"

definition start_attempt ::
  "'w promotion_env \<Rightarrow> promotion_run_spec \<Rightarrow> string \<Rightarrow> promotion_run list \<Rightarrow> ('w, promotion_run) promotion_op" where
  "start_attempt env runSpec specHash runs =
     promotion_bind (supersede_previous env runs) (\<lambda>supersededNames.
     promotion_bind (stamp_attempt env runSpec specHash) (\<lambda>newRun s.
       (Inr newRun,
        fold (\<lambda>name. emit_attempt_event env name ''superseded'') supersededNames
          (emit_attempt_event env (run_Name newRun) ''stamped''
            (promotion_emit (PromotionEvent ''Normal'' ''AttemptStamped''
              (''Created PromotionRun '' @ run_Name newRun @ '' for spec hash '' @ specHash)) s)))))"

definition reconcile_attempt ::
  "'w promotion_env \<Rightarrow> (promotion_run list \<Rightarrow> promotion_run list) \<Rightarrow> promotion_run_spec \<Rightarrow> string \<Rightarrow>
   promotion_run list \<Rightarrow> ('w, ctrl_result) promotion_op" where
  "reconcile_attempt env newest runSpec specHash listed s =
     (let runs = newest listed;
          priorTerminalExists = list_ex (\<lambda>r. run_phase_is_terminal (rst_Phase (run_Status r))) runs;
          attempt = (case find (\<lambda>r. smap_get (om_Labels (run_Meta r)) promotionSpecHashLabel = specHash) runs of
             None \<Rightarrow> start_attempt env runSpec specHash runs
           | Some activeRun \<Rightarrow> (\<lambda>s. case backfill_run_labels env activeRun s of
               (Inl e, s1) \<Rightarrow> (Inl (''backfill labels on active PromotionRun: '' @ e), s1)
             | (Inr r, s1) \<Rightarrow> (Inr r, s1)))
      in promotion_bind attempt (\<lambda>run. patch_status_from_run env run specHash priorTerminalExists) s)"

definition reconcile_resolved ::
  "'w promotion_env \<Rightarrow> (promotion_run list \<Rightarrow> promotion_run list) \<Rightarrow> fleet \<Rightarrow> delivery_unit \<Rightarrow>
   ('w, ctrl_result) promotion_op" where
  "reconcile_resolved env newest parent unit s =
     (let p = pt_Promotion s; specHash = promotion_spec_hash (pm_Spec p)
      in if pms_Suspended (pm_Spec p) \<or> fl_Suspended parent then
           promotion_bind (suspend_owned_runs env) (\<lambda>_.
             patch_status env PromotionPaused ''Suspended'' ''Promotion or parent Fleet is suspended'') s
         else case build_run_spec p parent unit of
           Inl e \<Rightarrow> patch_unresolved env ''BuildRunSpecFailed'' e s
         | Inr runSpec \<Rightarrow>
             promotion_bind (client_call ''list owned PromotionRuns: '' (pe_ListOwnedRuns env (pm_Name p)))
               (reconcile_attempt env newest runSpec specHash) s)"

definition reconcile_promotion ::
  "'w promotion_env \<Rightarrow> (promotion_run list \<Rightarrow> promotion_run list) \<Rightarrow> ('w, ctrl_result) promotion_op" where
  "reconcile_promotion env newest s =
     (let p = pt_Promotion s; spec = pm_Spec p
      in if om_DeletionTimestamp (pm_Meta p) \<noteq> None then
           patch_status env PromotionTerminating ''Terminating''
             ''deletionTimestamp set; child PromotionRuns will be garbage-collected'' s
         else if pms_DeliveryUnitRef spec = [] then
           patch_unresolved env ''DeliveryUnitRefRequired''
             ''spec.deliveryUnitRef is required; Promotion is the explicit action for a DeliveryUnit'' s
         else case pe_GetFleet env (pms_FleetRef spec) (pt_World s) of
           (Inl e, w) \<Rightarrow>
             (if is_not_found e then
                patch_unresolved env ''FleetNotFound''
                  (''referenced Fleet '' @ go_quote (pms_FleetRef spec) @ '' does not exist'') (promotion_world w s)
              else (Inl (''get parent Fleet '' @ go_quote (pms_FleetRef spec) @ '': '' @ api_error_text e), promotion_world w s))
         | (Inr parent, w) \<Rightarrow>
             (case pe_GetDeliveryUnit env (pms_DeliveryUnitRef spec) w of
                (Inl e, w1) \<Rightarrow>
                  (if is_not_found e then
                     patch_unresolved env ''DeliveryUnitNotFound''
                       (''referenced DeliveryUnit '' @ go_quote (pms_DeliveryUnitRef spec) @ '' does not exist'')
                       (promotion_world w1 s)
                   else (Inl (''get DeliveryUnit '' @ go_quote (pms_DeliveryUnitRef spec) @ '': '' @ api_error_text e),
                     promotion_world w1 s))
              | (Inr unit, w1) \<Rightarrow> reconcile_resolved env newest parent unit (promotion_world w1 s)))"

text \<open>\<^verbatim>\<open>Reconcile\<close>: read the promotion; one that is gone needs nothing.\<close>

definition promotion_reconcile ::
  "'w promotion_env \<Rightarrow> (promotion_run list \<Rightarrow> promotion_run list) \<Rightarrow> string \<Rightarrow> 'w \<Rightarrow>
   (go_error + ctrl_result) \<times> 'w \<times> promotion_effect list" where
  "promotion_reconcile env newest name w =
     (case pe_GetPromotion env name w of
        (Inl e, w1) \<Rightarrow> ((if is_not_found e then Inr no_requeue else Inl (api_error_text e)), w1, [])
      | (Inr p, w1) \<Rightarrow>
          (case reconcile_promotion env newest \<lparr>pt_World = w1, pt_Log = [], pt_Promotion = p\<rparr> of
             (res, s) \<Rightarrow> (res, pt_World s, pt_Log s)))"

end
