(* ===== verification/Promotion_Properties.thy ===== *)
theory Promotion_Properties
  imports Promotion_Controller Sample_World "HOL-Library.Multiset"
begin

text \<open>
  The promotion controller: what a reconcile writes and in which order (the log only grows, and
  each operation grows it by its own kind of entries), when a new attempt is made, what
  suspension does, and the attempt name, hash and history.
\<close>

section \<open>The log only grows\<close>

definition adds :: "(promotion_effect \<Rightarrow> bool) \<Rightarrow> 'w promotion_tick \<Rightarrow> 'w promotion_tick \<Rightarrow> bool" where
  "adds P s s' \<longleftrightarrow> (\<exists>es. pt_Log s' = pt_Log s @ es \<and> list_all P es)"

lemma written_refl [simp, intro]: "adds P s s"
  by (auto simp: adds_def)

lemma adds_trans: "adds P s s' \<Longrightarrow> adds P s' s'' \<Longrightarrow> adds P s s''"
  unfolding adds_def by (metis append.assoc list_all_append)

lemma adds_mono: "adds P s s' \<Longrightarrow> (\<And>e. P e \<Longrightarrow> Q e) \<Longrightarrow> adds Q s s'"
  unfolding adds_def by (auto simp: list_all_iff)

lemma promotion_tick_simps [simp]:
  "pt_Log (promotion_emit e s) = pt_Log s @ [e]" "pt_World (promotion_emit e s) = pt_World s"
  "pt_Promotion (promotion_emit e s) = pt_Promotion s"
  "pt_Log (promotion_world w s) = pt_Log s" "pt_World (promotion_world w s) = w"
  "pt_Promotion (promotion_world w s) = pt_Promotion s"
  "pt_Log (upd_promotion f s) = pt_Log s" "pt_World (upd_promotion f s) = pt_World s"
  "pt_Promotion (upd_promotion f s) = f (pt_Promotion s)"
  by (simp_all add: promotion_emit_def promotion_world_def upd_promotion_def)

lemma written_emit [simp]: "P e \<Longrightarrow> adds P s (promotion_emit e s)"
  by (simp add: adds_def)

lemma adds_silent [simp]: "adds P s (promotion_world w s)" "adds P s (upd_promotion f s)"
  by (simp_all add: adds_def)

lemma client_call_log [simp]: "pt_Log (snd (client_call t c s)) = pt_Log s"
  and client_call_promotion [simp]: "pt_Promotion (snd (client_call t c s)) = pt_Promotion s"
  by (simp_all add: client_call_def split: prod.splits sum.splits)

lemma adds_call: "client_call t c s = (r, s') \<Longrightarrow> adds P s s'"
  using client_call_log [of t c s] by (simp add: adds_def)

lemma adds_write: "client_call t c (promotion_emit e s) = (r, s') \<Longrightarrow> P e \<Longrightarrow> adds P s s'"
  by (rule adds_trans [OF written_emit adds_call])

lemma adds_bind:
  assumes "promotion_bind m f s = (r, s')" and "\<And>r s'. m s = (r, s') \<Longrightarrow> adds P s s'"
    and "\<And>x s1 r s'. m s = (Inr x, s1) \<Longrightarrow> f x s1 = (r, s') \<Longrightarrow> adds P s1 s'"
  shows "adds P s s'"
proof (cases "m s")
  case (Pair r1 s1)
  then have s1: "adds P s s1" by (rule assms(2))
  show ?thesis
  proof (cases r1)
    case (Inl e)
    with assms(1) Pair s1 show ?thesis by (simp add: promotion_bind_def)
  next
    case (Inr x)
    with assms(1) Pair have "f x s1 = (r, s')" by (simp add: promotion_bind_def)
    with assms(3) Pair Inr s1 show ?thesis by (blast intro: adds_trans)
  qed
qed

section \<open>What each operation writes\<close>

fun is_create :: "promotion_effect \<Rightarrow> bool" where
  "is_create (CreateRunCalled r) = True"
| "is_create _ = False"

text \<open>Entries that touch no run, target or cluster.\<close>

fun own_effect :: "promotion_effect \<Rightarrow> bool" where
  "own_effect (PatchPromotionCalled p) = True"
| "own_effect (PromotionEvent t r m) = True"
| "own_effect (AttemptEvent n k) = True"
| "own_effect (PhaseTransition p q) = True"
| "own_effect _ = False"

fun supersede_effect :: "promotion_effect \<Rightarrow> bool" where
  "supersede_effect (PatchRunStatusCalled r) = (rst_Phase (run_Status r) = RunSuperseded)"
| "supersede_effect (CancelTargetCalled t) = True"
| "supersede_effect (PatchClusterCalled c) = (cst_ActivePromotionRun (cl_Status c) = [])"
| "supersede_effect _ = False"

fun run_patch :: "(promotion_run \<Rightarrow> bool) \<Rightarrow> promotion_effect \<Rightarrow> bool" where
  "run_patch Q (PatchRunCalled r) = Q r"
| "run_patch Q _ = False"

lemma dispatch_adds: "adds own_effect s (dispatch_lifecycle env prev next s)"
  by (simp add: dispatch_lifecycle_def)

lemma write_status_adds: "write_promotion_status env before fixed s = (r, s') \<Longrightarrow> adds own_effect s s'"
  unfolding write_promotion_status_def Let_def
  by (auto split: prod.splits sum.splits dest!: adds_write [where P = own_effect]
      intro: adds_trans [OF _ adds_trans [OF adds_silent(2) dispatch_adds]])

lemma transition_event_adds: "adds own_effect s (emit_phase_transition_event prev n s)"
  by (simp add: emit_phase_transition_event_def Let_def)

lemma upd_write_adds:
  assumes "write_promotion_status env before fixed (emit_phase_transition_event prev n (upd_promotion f s)) = (r, s')"
  shows "adds own_effect s s'"
  by (rule adds_trans [OF adds_trans [OF adds_silent(2) transition_event_adds] write_status_adds [OF assms]])

lemma patch_status_adds: "patch_status env phase reason msg s = (r, s') \<Longrightarrow> adds own_effect s s'"
  unfolding patch_status_def Let_def by (rule upd_write_adds)

lemma patch_unresolved_adds: "patch_unresolved env reason msg s = (r, s') \<Longrightarrow> adds own_effect s s'"
  unfolding patch_unresolved_def by (drule patch_status_adds) (erule adds_trans [rotated], simp)

lemma patch_from_run_adds: "patch_status_from_run env run h prior s = (r, s') \<Longrightarrow> adds own_effect s s'"
  unfolding patch_status_from_run_def Let_def by (rule upd_write_adds)

lemma clear_claim_adds: "clear_superseded_active_claim env n c s = (r, s') \<Longrightarrow> adds supersede_effect s s'"
  unfolding clear_superseded_active_claim_def promotion_bind_def Let_def
  by (auto split: if_splits prod.splits sum.splits dest!: adds_write [where P = supersede_effect]
      intro: adds_trans [OF adds_silent(1)])

lemma cancel_targets_adds: "cancel_superseded_targets env n ts s = (r, s') \<Longrightarrow> adds supersede_effect s s'"
proof (induction env n ts s rule: cancel_superseded_targets.induct)
  case (2 env n t ts s)
  show ?case
  proof (cases "supersede_skips n t")
    case False
    obtain r1 s1 where call: "client_call (''cancel superseded target '' @ tg_Name t @ '': '')
        (kb_PatchTarget (pe_Kube env) t (superseded_target t)) (promotion_emit (CancelTargetCalled t) s) = (r1, s1)"
      by fastforce
    then have s1: "adds supersede_effect s s1" by (rule adds_write) simp
    show ?thesis
    proof (cases r1)
      case (Inr t')
      obtain r2 s2 where clear: "clear_superseded_active_claim env n (ts_Target (tg_Spec t')) s1 = (r2, s2)" by fastforce
      then have "adds supersede_effect s s2" using s1 clear_claim_adds adds_trans by blast
      with 2 False call Inr clear show ?thesis by (cases r2) (auto intro: adds_trans)
    qed (use 2 False call s1 in auto)
  qed (use 2 in auto)
qed auto

lemma cancel_run_targets_adds: "cancel_superseded_run_targets env n s = (r, s') \<Longrightarrow> adds supersede_effect s s'"
  unfolding cancel_superseded_run_targets_def
  by (erule adds_bind) (auto intro: adds_call cancel_targets_adds)

lemma backfill_adds:
  "backfill_run_labels env run s = (r, s') \<Longrightarrow> adds (run_patch (\<lambda>x. run_Spec x = run_Spec run)) s s'"
  unfolding backfill_run_labels_def Let_def by (auto split: if_splits intro: adds_write)

lemma run_patch_any: "run_patch Q e \<Longrightarrow> run_patch (\<lambda>x. True) e"
  by (cases e) simp_all

lemma backfill_adds_any: "backfill_run_labels env run s = (r, s') \<Longrightarrow> adds (run_patch (\<lambda>x. True)) s s'"
  by (rule adds_mono [OF backfill_adds]) (auto intro: run_patch_any)

lemma adds_from_world [simp]: "adds P (promotion_world w s) s' = adds P s s'"
  by (simp add: adds_def)

section \<open>Superseding and stamping\<close>

lemma supersede_runs_log:
  assumes "supersede_runs env now runs acc s = (res, s')"
  shows "adds supersede_effect s s'"
    and "\<And>names run. res = Inr names \<Longrightarrow> run \<in> set runs \<Longrightarrow> \<not> run_phase_is_terminal (rst_Phase (run_Status run)) \<Longrightarrow>
      PatchRunStatusCalled (superseded_run env now run) \<in> set (drop (length (pt_Log s)) (pt_Log s'))"
proof -
  have "adds supersede_effect s s' \<and> (\<forall>names run. res = Inr names \<longrightarrow> run \<in> set runs \<longrightarrow>
      \<not> run_phase_is_terminal (rst_Phase (run_Status run)) \<longrightarrow>
      PatchRunStatusCalled (superseded_run env now run) \<in> set (drop (length (pt_Log s)) (pt_Log s')))"
    using assms
  proof (induction runs arbitrary: acc s)
    case (Cons run runs)
    show ?case
    proof (cases "run_phase_is_terminal (rst_Phase (run_Status run))")
      case True
      with Cons show ?thesis by fastforce
    next
      case False
      let ?run = "superseded_run env now run"
      obtain r1 s1 where call: "client_call (''supersede PromotionRun '' @ run_Name run @ '': '')
          (kb_PatchRunStatus (pe_Kube env) run ?run) (promotion_emit (PatchRunStatusCalled ?run) s) = (r1, s1)"
        by fastforce
      have log1: "pt_Log s1 = pt_Log s @ [PatchRunStatusCalled ?run]"
        using client_call_log [of _ _ "promotion_emit (PatchRunStatusCalled ?run) s"] call by (metis promotion_tick_simps(1) snd_conv)
      have s1: "adds supersede_effect s s1" by (rule adds_write [OF call]) (simp add: superseded_run_def)
      show ?thesis
      proof (cases r1)
        case (Inl e)
        with Cons.prems False call s1 show ?thesis by (auto simp: Let_def)
      next
        case (Inr answer)
        obtain r2 s2 where cancel: "cancel_superseded_run_targets env (run_Name answer) s1 = (r2, s2)" by fastforce
        then have s2: "adds supersede_effect s1 s2" by (rule cancel_run_targets_adds)
        show ?thesis
        proof (cases r2)
          case (Inl e)
          with Cons.prems False call Inr cancel s1 s2 show ?thesis by (auto simp: Let_def intro: adds_trans)
        next
          case (Inr u)
          with Cons.prems False call \<open>r1 = Inr answer\<close> cancel
          have rest: "supersede_runs env now runs (acc @ [run_Name answer]) s2 = (res, s')" by (simp add: Let_def)
          note IH = Cons.IH [OF rest]
          obtain es2 es3 where "pt_Log s2 = pt_Log s1 @ es2" "pt_Log s' = pt_Log s2 @ es3"
            using s2 IH unfolding adds_def by blast
          with log1 IH s1 s2 show ?thesis by (auto intro: adds_trans)
        qed
      qed
    qed
  qed simp
  then show "adds supersede_effect s s'"
    and "\<And>names run. res = Inr names \<Longrightarrow> run \<in> set runs \<Longrightarrow> \<not> run_phase_is_terminal (rst_Phase (run_Status run)) \<Longrightarrow>
      PatchRunStatusCalled (superseded_run env now run) \<in> set (drop (length (pt_Log s)) (pt_Log s'))"
    by blast+
qed

lemma stamp_attempt_log:
  assumes "stamp_attempt env spec h s = (res, s')"
  shows "\<exists>cs es. pt_Log s' = pt_Log s @ cs @ es \<and> list_all (\<lambda>e. run_patch (\<lambda>x. True) e) es \<and>
    (cs = [] \<and> es = [] \<and> (\<exists>e. res = Inl e) \<or> (\<exists>r. cs = [CreateRunCalled r] \<and> run_Spec r = spec))"
proof (cases "pe_SetControllerReference env (pt_Promotion s) (run_Meta (attempt_run (pt_Promotion s) spec h))")
  case (Inl e)
  with assms have "s' = s" "res = Inl (''set Promotion owner on PromotionRun: '' @ e)"
    unfolding stamp_attempt_def Let_def by simp_all
  then show ?thesis by simp
next
  case (Inr m)
  let ?run = "(attempt_run (pt_Promotion s) spec h)\<lparr>run_Meta := m\<rparr>"
  let ?s1 = "promotion_emit (CreateRunCalled ?run) s"
  have "adds (run_patch (\<lambda>x. True)) ?s1 s'"
    using assms unfolding stamp_attempt_def Inr Let_def promotion_bind_def
    by (auto split: prod.splits sum.splits if_splits dest!: backfill_adds_any adds_call [where P = "run_patch (\<lambda>x. True)"]
        intro: adds_trans)
  moreover have "run_Spec ?run = spec" by (simp add: attempt_run_def)
  ultimately show ?thesis unfolding adds_def by (metis append.assoc append_Cons append_Nil promotion_tick_simps(1))
qed

lemma no_create:
  "own_effect e \<Longrightarrow> \<not> is_create e" "supersede_effect e \<Longrightarrow> \<not> is_create e" "run_patch Q e \<Longrightarrow> \<not> is_create e"
  by (cases e; simp)+

lemma attempt_event_adds: "adds own_effect s (emit_attempt_event env n k s)"
  by (simp add: emit_attempt_event_def)

lemma attempt_events_adds: "adds own_effect s (fold (\<lambda>n. emit_attempt_event env n k) ns s)"
proof (induction ns arbitrary: s)
  case (Cons n ns)
  show ?case using adds_trans [OF attempt_event_adds Cons.IH] by simp
qed simp

text \<open>A new attempt: superseding entries, then at most one creation, then entries of other kinds.\<close>

lemma start_attempt_log:
  assumes "start_attempt env spec h runs s = (res, s')"
  shows "\<exists>pre cs post. pt_Log s' = pt_Log s @ pre @ cs @ post \<and> list_all (Not \<circ> is_create) (pre @ post) \<and>
    (cs = [] \<or> (\<exists>r. cs = [CreateRunCalled r] \<and> run_Spec r = spec) \<and>
      (\<exists>now. \<forall>x \<in> set runs. \<not> run_phase_is_terminal (rst_Phase (run_Status x)) \<longrightarrow>
        PatchRunStatusCalled (superseded_run env now x) \<in> set pre))"
proof -
  obtain now where now: "supersede_previous env runs s = supersede_runs env now runs [] s"
    by (simp add: supersede_previous_def)
  obtain r1 s1 where sup: "supersede_runs env now runs [] s = (r1, s1)" by fastforce
  note log1 = supersede_runs_log [OF sup]
  then obtain pre where pre: "pt_Log s1 = pt_Log s @ pre" "list_all supersede_effect pre" by (auto simp: adds_def)
  then have npre: "list_all (Not \<circ> is_create) pre" by (auto simp: list_all_iff no_create)
  show ?thesis
  proof (cases r1)
    case (Inl e)
    with assms sup now have "s' = s1" by (simp add: start_attempt_def promotion_bind_def)
    with pre npre show ?thesis by (intro exI [of _ pre] exI [of _ "[]"]) simp
  next
    case (Inr names)
    obtain r2 s2 where stamp: "stamp_attempt env spec h s1 = (r2, s2)" by fastforce
    obtain cs es where cs: "pt_Log s2 = pt_Log s1 @ cs @ es" "list_all (run_patch (\<lambda>x. True)) es"
      "cs = [] \<and> es = [] \<and> (\<exists>e. r2 = Inl e) \<or> (\<exists>r. cs = [CreateRunCalled r] \<and> run_Spec r = spec)"
      using stamp_attempt_log [OF stamp] by auto
    have cover: "\<forall>x \<in> set runs. \<not> run_phase_is_terminal (rst_Phase (run_Status x)) \<longrightarrow>
        PatchRunStatusCalled (superseded_run env now x) \<in> set pre"
      using log1(2) Inr pre(1) by simp
    have "adds own_effect s2 s'"
    proof (cases r2)
      case (Inr run)
      let ?s = "emit_attempt_event env (run_Name run) ''stamped''
        (promotion_emit (PromotionEvent ''Normal'' ''AttemptStamped''
          (''Created PromotionRun '' @ run_Name run @ '' for spec hash '' @ h)) s2)"
      have "s' = fold (\<lambda>n. emit_attempt_event env n ''superseded'') names ?s"
        using assms sup now \<open>r1 = Inr names\<close> stamp Inr by (simp add: start_attempt_def promotion_bind_def)
      moreover have "adds own_effect s2 ?s" by (rule adds_trans [OF written_emit attempt_event_adds]) simp
      ultimately show ?thesis using adds_trans attempt_events_adds by blast
    qed (use assms sup now Inr stamp in \<open>simp add: start_attempt_def promotion_bind_def\<close>)
    then obtain own where own: "pt_Log s' = pt_Log s2 @ own" "list_all own_effect own" by (auto simp: adds_def)
    have "list_all (Not \<circ> is_create) (pre @ es @ own)"
      using npre cs(2) own(2) by (auto simp: list_all_iff no_create)
    moreover have "pt_Log s' = pt_Log s @ pre @ cs @ es @ own" by (simp add: own(1) cs(1) pre(1))
    ultimately show ?thesis using cs(3) cover by (intro exI [of _ pre] exI [of _ cs] exI [of _ "es @ own"]) auto
  qed
qed

lemma unique_split:
  assumes "xs @ c # ys = pre @ d # post" and "list_all (Not \<circ> P) (xs @ ys)" and "P d"
  shows "pre = xs \<and> d = c \<and> post = ys"
  using assms
proof (induction xs arbitrary: pre)
  case Nil
  then show ?case by (cases pre) (auto simp: list_all_iff)
next
  case (Cons x xs)
  then show ?case by (cases pre) auto
qed

section \<open>New attempts\<close>

text \<open>What \<^verbatim>\<open>sort.Slice\<close> may make of the listed runs.\<close>

definition newest_first :: "(promotion_run list \<Rightarrow> promotion_run list) \<Rightarrow> bool" where
  "newest_first f \<longleftrightarrow>
     (\<forall>xs. mset (f xs) = mset xs \<and> sorted (map (\<lambda>r. - om_CreationTimestamp (run_Meta r)) (f xs)))"

abbreviation hash_label :: "promotion_run \<Rightarrow> string" where
  "hash_label r \<equiv> smap_get (om_Labels (run_Meta r)) promotionSpecHashLabel"

lemma newest_first_set: "newest_first f \<Longrightarrow> set (f xs) = set xs"
  unfolding newest_first_def by (metis set_mset_mset)

lemma find_newest:
  "newest_first f \<Longrightarrow> find P (f xs) = Some x \<Longrightarrow> x \<in> set xs \<and> P x"
  using newest_first_set [of f xs] nth_mem [of _ "f xs"] by (auto simp: find_Some_iff)

lemma reconcile_attempt_known:
  assumes "find (\<lambda>r. hash_label r = h) (newest listed) = Some old"
    and "reconcile_attempt env newest spec h listed s = (res, s')"
  shows "adds (\<lambda>e. own_effect e \<or> run_patch (\<lambda>r. run_Spec r = run_Spec old) e) s s'"
proof -
  have b: "adds (\<lambda>e. own_effect e \<or> run_patch (\<lambda>r. run_Spec r = run_Spec old) e) t t'"
    if "backfill_run_labels env old t = (r, t')" for r t t'
    by (rule adds_mono [OF backfill_adds [OF that]]) simp
  show ?thesis
    using assms unfolding reconcile_attempt_def Let_def
    by (elim adds_bind) (auto split: prod.splits sum.splits dest!: b intro: adds_mono [OF patch_from_run_adds])
qed

lemma sha256_hex_length: "length (sha256_hex s) = 64"
proof -
  have "length (sha256 s) = 8" unfolding sha256_def by (rule length_sha256_blocks) (simp add: sha256_init_def)
  moreover have "length (concat (map (\<lambda>h. hex_pad 8 (unat h)) hs)) = 8 * length hs" for hs :: "32 word list"
    by (induction hs) simp_all
  ultimately show ?thesis by (simp add: sha256_hex_def)
qed

lemma promotion_spec_hash_length: "length (promotion_spec_hash s) = 12"
  by (simp add: promotion_spec_hash_def sha256_hex_length)

section \<open>A sample\<close>

definition sample_promotion :: promotion where
  "sample_promotion =
     \<lparr>pm_Meta = named ''p'',
      pm_Spec = \<lparr>pms_DeliveryUnitRef = ''u'', pms_FleetRef = ''f'', pms_PlanRef = ''plan'', pms_Version = ''v2'',
        pms_Versions = [(''a'', ''1''), (''b'', ''2'')], pms_Plans = [], pms_Scope = Some [''eu'', ''us''], pms_Timeout = [],
        pms_Suspended = False\<rparr>,
      pm_Status = \<lparr>pmst_ObservedGeneration = 0, pmst_Phase = PromotionNone, pmst_ActiveAttemptRef = None,
        pmst_Attempts = [], pmst_ResolvedVersion = [], pmst_Conditions = []\<rparr>\<rparr>"

definition bare_unit :: "string \<Rightarrow> delivery_unit" where
  "bare_unit n = \<lparr>du_Meta = named n,
     du_Spec = \<lparr>dus_Source = \<lparr>srs_Units = [], srs_Rest = []\<rparr>, dus_Triggers = [], dus_DefaultFleetRef = [],
       dus_DefaultPlanRef = [], dus_Suspended = False\<rparr>,
     du_Status = \<lparr>dust_ObservedGeneration = 0, dust_SourceRef = [], dust_TriggerRefs = [], dust_Conditions = []\<rparr>\<rparr>"

definition sample_promotion_env :: "sample promotion_env" where
  "sample_promotion_env =
     \<lparr>pe_Kube = sample_kube, pe_GetPromotion = (\<lambda>n w. (Inr sample_promotion, w)),
      pe_GetFleet = (\<lambda>n w. (Inr \<lparr>fl_Name = n, fl_Suspended = False, fl_PlanStages = []\<rparr>, w)),
      pe_GetDeliveryUnit = (\<lambda>n w. (Inr (bare_unit n), w)),
      pe_ListOwnedRuns = (\<lambda>n w. (Inr (map snd (sw_Runs w)), w)), pe_ListTargets = (\<lambda>w. (Inr [], w)),
      pe_CreateRun = (\<lambda>r w. (Inr r, w)), pe_PatchPromotionStatus = (\<lambda>old new w. (Inr new, w)),
      pe_SetControllerReference = (\<lambda>p m. Inr m), pe_Lifecycle = True, pe_AttemptPublisher = False\<rparr>"

definition labelled_run :: "string \<Rightarrow> string \<Rightarrow> run_phase \<Rightarrow> bool \<Rightarrow> promotion_run" where
  "labelled_run n h p b = sample_run
     \<lparr>run_Meta := (named n)\<lparr>om_Labels := [(promotionSpecHashLabel, h)]\<rparr>,
      run_Spec := (run_Spec sample_run)\<lparr>prs_Suspended := b\<rparr>,
      run_Status := (run_Status sample_run)\<lparr>rst_Phase := p\<rparr>\<rparr>"

definition sample_promotion_tick :: "sample promotion_tick" where
  "sample_promotion_tick = \<lparr>pt_World = sample_world, pt_Log = [], pt_Promotion = sample_promotion\<rparr>"

definition by_age :: "promotion_run list \<Rightarrow> promotion_run list" where
  "by_age = sort_key (\<lambda>r. - om_CreationTimestamp (run_Meta r))"

lemma sample_promotion_tick_simps [simp]:
  "pt_Log sample_promotion_tick = []" "pt_World sample_promotion_tick = sample_world"
  "pt_Promotion sample_promotion_tick = sample_promotion"
  by (simp_all add: sample_promotion_tick_def)

lemma sample_promotion_env_simps:
  "kb_PatchRunStatus (pe_Kube sample_promotion_env) old new w =
     (Inr new, w\<lparr>sw_Runs := AList.update (run_Name new) new (sw_Runs w)\<rparr>)"
  "pe_ListTargets sample_promotion_env w = (Inr [], w)" "pe_CreateRun sample_promotion_env x w = (Inr x, w)"
  "pe_SetControllerReference sample_promotion_env p m = Inr m" "pe_AttemptPublisher sample_promotion_env = False"
  by (simp_all add: sample_promotion_env_def sample_kube_def)

lemma newest_first_by_age: "newest_first by_age"
  by (simp add: newest_first_def by_age_def)

lemma labelled_run_simps [simp]:
  "run_Name (labelled_run n h p b) = n" "hash_label (labelled_run n h p b) = h"
  "om_CreationTimestamp (run_Meta (labelled_run n h p b)) = go_zero_time"
  "rst_Phase (run_Status (labelled_run n h p b)) = p" "prs_Suspended (run_Spec (labelled_run n h p b)) = b"
  by (simp_all add: labelled_run_def named_def smap_get_def)

lemma run_Meta_superseded [simp]: "run_Meta (superseded_run env now run) = run_Meta run"
  by (simp add: superseded_run_def)

section \<open>Properties\<close>

text \<open>C21. A new attempt starts only for a spec that no attempt was made for, and only after every
  unfinished attempt was superseded: when a reconcile creates a run, no listed run carries the
  hash, every unfinished listed run was written Superseded before, and no other run is created.\<close>

theorem new_attempt_supersedes_first:
  assumes "newest_first newest" and "reconcile_attempt env newest spec h listed s = (res, s')"
    and "pt_Log s' = pt_Log s @ pre @ CreateRunCalled r # post"
  shows "(\<forall>x \<in> set listed. hash_label x \<noteq> h) \<and> run_Spec r = spec \<and> list_all (Not \<circ> is_create) (pre @ post) \<and>
    (\<exists>now. \<forall>x \<in> set listed. \<not> run_phase_is_terminal (rst_Phase (run_Status x)) \<longrightarrow>
      PatchRunStatusCalled (superseded_run env now x) \<in> set pre)"
proof (cases "find (\<lambda>r. hash_label r = h) (newest listed)")
  case (Some old)
  from reconcile_attempt_known [OF this assms(2)] assms(3) show ?thesis by (auto simp: adds_def)
next
  case None
  then have fresh: "\<forall>x \<in> set listed. hash_label x \<noteq> h"
    using newest_first_set [OF assms(1)] by (auto simp: find_None_iff)
  obtain r1 s1 where start: "start_attempt env spec h (newest listed) s = (r1, s1)" by fastforce
  obtain pre1 cs post1 where log1: "pt_Log s1 = pt_Log s @ pre1 @ cs @ post1" "list_all (Not \<circ> is_create) (pre1 @ post1)"
    "cs = [] \<or> (\<exists>r. cs = [CreateRunCalled r] \<and> run_Spec r = spec) \<and>
      (\<exists>now. \<forall>x \<in> set (newest listed). \<not> run_phase_is_terminal (rst_Phase (run_Status x)) \<longrightarrow>
        PatchRunStatusCalled (superseded_run env now x) \<in> set pre1)"
    using start_attempt_log [OF start] by blast
  have "adds own_effect s1 s'"
    using assms(2) None start unfolding reconcile_attempt_def Let_def promotion_bind_def
    by (auto split: sum.splits dest: patch_from_run_adds)
  then obtain own where own: "pt_Log s' = pt_Log s1 @ own" "list_all own_effect own" by (auto simp: adds_def)
  have none: "list_all (Not \<circ> is_create) (pre1 @ post1 @ own)"
    using log1(2) own(2) by (auto simp: list_all_iff no_create)
  have eq: "pre1 @ cs @ post1 @ own = pre @ CreateRunCalled r # post"
    using assms(3) own(1) log1(1) by simp
  have "cs \<noteq> []"
  proof
    assume "cs = []"
    with eq none have "list_all (Not \<circ> is_create) (pre @ CreateRunCalled r # post)" by (metis append_Nil)
    then show False by simp
  qed
  then obtain r' where r': "cs = [CreateRunCalled r']" "run_Spec r' = spec" using log1(3) by blast
  then have "pre = pre1 \<and> CreateRunCalled r = CreateRunCalled r' \<and> post = post1 @ own"
    using unique_split [of pre1 "CreateRunCalled r'" "post1 @ own" pre "CreateRunCalled r" post is_create] eq none by simp
  then show ?thesis using fresh r' none log1(3) newest_first_set [OF assms(1)] by auto
qed

theorem new_attempt_supersedes_first_witness:
  "\<exists>pre r post.
     pt_Log (snd (reconcile_attempt sample_promotion_env by_age (run_Spec sample_run) ''h2''
       [labelled_run ''p-h1'' ''h1'' RunProgressing False] sample_promotion_tick)) = pre @ CreateRunCalled r # post \<and>
     (\<exists>now. PatchRunStatusCalled (superseded_run sample_promotion_env now
       (labelled_run ''p-h1'' ''h1'' RunProgressing False)) \<in> set pre)"
proof -
  let ?run = "labelled_run ''p-h1'' ''h1'' RunProgressing False"
  let ?env = sample_promotion_env and ?spec = "run_Spec sample_run"
  obtain r1 s1 where start: "start_attempt ?env ?spec ''h2'' [?run] sample_promotion_tick = (r1, s1)" by fastforce
  have "s1 = snd (start_attempt ?env ?spec ''h2'' [?run] sample_promotion_tick)" by (simp add: start)
  then have "\<exists>e \<in> set (pt_Log s1). is_create e"
    by (simp add: start_attempt_def promotion_bind_def supersede_previous_def client_call_def run_phase_is_terminal_def
        cancel_superseded_run_targets_def stamp_attempt_def Let_def emit_attempt_event_def sample_promotion_env_simps)
  then obtain es r fs where "pt_Log s1 = es @ CreateRunCalled r # fs"
    by (metis is_create.elims(2) split_list)
  moreover obtain res s' where rec: "reconcile_attempt ?env by_age ?spec ''h2'' [?run] sample_promotion_tick = (res, s')"
    by fastforce
  moreover have "adds own_effect s1 s'"
    using rec start unfolding reconcile_attempt_def Let_def promotion_bind_def
    by (auto simp: by_age_def split: sum.splits dest: patch_from_run_adds)
  ultimately obtain pre post where log1: "pt_Log s' = pre @ CreateRunCalled r # post"
    unfolding adds_def by fastforce
  then have "pt_Log s' = pt_Log sample_promotion_tick @ pre @ CreateRunCalled r # post" by simp
  from new_attempt_supersedes_first [OF newest_first_by_age rec this] log1 rec show ?thesis
    by (auto simp: run_phase_is_terminal_def)
qed

text \<open>A promotion set back to an earlier spec starts nothing. If a listed run carries the hash, then
  whatever its outcome and whatever else is running, the reconcile makes no attempt, supersedes,
  cancels and releases nothing: its only writes are the promotion's own status and, at most, the
  labels of that run. The comment on the reconciler says that a new attempt is stamped whenever
  the hash changes and that previous unfinished runs are superseded.\<close>

theorem reverted_spec_starts_nothing:
  assumes "newest_first newest" and "old \<in> set listed" and "hash_label old = h"
    and "reconcile_attempt env newest spec h listed s = (res, s')"
  shows "\<exists>es. pt_Log s' = pt_Log s @ es \<and>
    (\<forall>e \<in> set es. own_effect e \<or> (\<exists>r. e = PatchRunCalled r \<and> (\<exists>x \<in> set listed. hash_label x = h \<and> run_Spec r = run_Spec x)))"
proof -
  have "find (\<lambda>r. hash_label r = h) (newest listed) \<noteq> None"
    using assms(2,3) newest_first_set [OF assms(1)] by (auto simp: find_None_iff)
  then obtain x where x: "find (\<lambda>r. hash_label r = h) (newest listed) = Some x" by blast
  then have "x \<in> set listed" "hash_label x = h"
    using find_newest [OF assms(1) x] by simp_all
  moreover obtain es where "pt_Log s' = pt_Log s @ es"
      "list_all (\<lambda>e. own_effect e \<or> run_patch (\<lambda>r. run_Spec r = run_Spec x) e) es"
    using reconcile_attempt_known [where newest = newest, OF x assms(4)] by (auto simp: adds_def)
  moreover have "run_patch Q e \<Longrightarrow> \<exists>r. e = PatchRunCalled r \<and> Q r" for Q e by (cases e) simp_all
  ultimately show ?thesis by (fastforce simp: list_all_iff)
qed

theorem reverted_spec_starts_nothing_witness:
  "list_all (Not \<circ> is_create) (pt_Log (snd (reconcile_attempt sample_promotion_env by_age (run_Spec sample_run) ''h1''
     [labelled_run ''p-h2'' ''h2'' RunProgressing False, labelled_run ''p-h1'' ''h1'' RunComplete False]
     sample_promotion_tick)))"
proof -
  let ?runs = "[labelled_run ''p-h2'' ''h2'' RunProgressing False, labelled_run ''p-h1'' ''h1'' RunComplete False]"
  obtain res s' where rec: "reconcile_attempt sample_promotion_env by_age (run_Spec sample_run) ''h1'' ?runs
      sample_promotion_tick = (res, s')" by fastforce
  have "labelled_run ''p-h1'' ''h1'' RunComplete False \<in> set ?runs" by simp
  from reverted_spec_starts_nothing [OF newest_first_by_age this _ rec]
  show ?thesis by (fastforce simp: rec list_all_iff dest: no_create)
qed

text \<open>Resuming a promotion does not resume its run. The runs of a paused promotion are written
  suspended; the reconcile after the pause is lifted finds them by the unchanged hash and no
  write of it makes a run unsuspended.\<close>

theorem resume_leaves_run_suspended:
  assumes "newest_first newest" and "\<exists>x \<in> set listed. hash_label x = h"
    and "\<forall>x \<in> set listed. hash_label x = h \<longrightarrow> prs_Suspended (run_Spec x)"
    and "reconcile_attempt env newest spec h listed s = (res, s')"
  shows "\<exists>es. pt_Log s' = pt_Log s @ es \<and>
    (\<forall>e \<in> set es. own_effect e \<or> (\<exists>r. e = PatchRunCalled r \<and> prs_Suspended (run_Spec r)))"
proof -
  obtain old where "find (\<lambda>r. hash_label r = h) (newest listed) = Some old"
    using assms(2) newest_first_set [OF assms(1)]
    by (cases "find (\<lambda>r. hash_label r = h) (newest listed)") (auto simp: find_None_iff)
  moreover from this have "prs_Suspended (run_Spec old)"
    using assms(3) find_newest [OF assms(1)] by blast
  ultimately obtain es where "pt_Log s' = pt_Log s @ es"
      "list_all (\<lambda>e. own_effect e \<or> run_patch (\<lambda>r. run_Spec r = run_Spec old) e) es"
    using reconcile_attempt_known [where newest = newest, OF _ assms(4)] by (auto simp: adds_def)
  moreover have "run_patch (\<lambda>r. run_Spec r = run_Spec old) e \<Longrightarrow> \<exists>r. e = PatchRunCalled r \<and> prs_Suspended (run_Spec r)" for e
    using \<open>prs_Suspended (run_Spec old)\<close> by (cases e) simp_all
  ultimately show ?thesis by (fastforce simp: list_all_iff)
qed

theorem resume_leaves_run_suspended_witness:
  "filter (\<lambda>e. \<exists>r. e = PatchRunCalled r \<and> \<not> prs_Suspended (run_Spec r))
     (pt_Log (snd (reconcile_attempt sample_promotion_env by_age (run_Spec sample_run) ''h1''
       [labelled_run ''p-h1'' ''h1'' RunProgressing True] sample_promotion_tick))) = []"
proof -
  let ?runs = "[labelled_run ''p-h1'' ''h1'' RunProgressing True]"
  obtain res s' where rec: "reconcile_attempt sample_promotion_env by_age (run_Spec sample_run) ''h1'' ?runs
      sample_promotion_tick = (res, s')" by fastforce
  from resume_leaves_run_suspended [OF newest_first_by_age _ _ rec]
  show ?thesis by (fastforce simp: rec filter_empty_conv)
qed

text \<open>The attempt name fits a label value and tells specs apart: it has at most 63 characters, and two
  specs of one promotion get the same name exactly when their hashes agree.\<close>

theorem attempt_name_is_bounded_and_injective:
  "length (attempt_name n (promotion_spec_hash s)) \<le> 63 \<and>
   (attempt_name n (promotion_spec_hash s) = attempt_name n (promotion_spec_hash s') \<longleftrightarrow>
     promotion_spec_hash s = promotion_spec_hash s')"
proof -
  have "length (trim_right c xs) \<le> length xs" for c xs
    unfolding trim_right_def by (metis length_dropWhile_le length_rev)
  then have "length (trim_right (CHR ''-'') (take 50 n)) \<le> 50" by (metis length_take min.cobounded2 order_trans)
  then show ?thesis by (simp add: attempt_name_def Let_def promotion_spec_hash_length)
qed

text \<open>The attempt history keeps its bound and its names distinct, and after an update it holds the
  current attempt at its current phase.\<close>

theorem attempt_history_invariant:
  assumes "length as \<le> MaxPromotionAttempts" and "distinct (map pa_Name as)"
  shows "length (upsert_attempt as a) \<le> MaxPromotionAttempts \<and> distinct (map pa_Name (upsert_attempt as a)) \<and>
    (\<exists>x \<in> set (upsert_attempt as a). pa_Name x = pa_Name a \<and> pa_Phase x = pa_Phase a \<and> pa_SpecHash x = pa_SpecHash a)"
proof (cases "replace_attempt a as")
  case None
  then have "pa_Name a \<notin> pa_Name ` set as" by (induction as) (auto split: if_splits simp: Let_def)
  then have "distinct (map pa_Name (take MaxPromotionAttempts (a # as)))"
    using assms(2) distinct_take [of "map pa_Name (a # as)" MaxPromotionAttempts] unfolding take_map by simp
  then show ?thesis by (simp add: upsert_attempt_def None) (simp add: MaxPromotionAttempts_def)
next
  case (Some bs)
  then have "map pa_Name bs = map pa_Name as \<and>
      (\<exists>x \<in> set bs. pa_Name x = pa_Name a \<and> pa_Phase x = pa_Phase a \<and> pa_SpecHash x = pa_SpecHash a)"
    by (induction as arbitrary: bs) (auto split: if_splits simp: Let_def)
  then show ?thesis using assms Some by (simp add: upsert_attempt_def) (metis length_map)
qed

theorem attempt_history_invariant_witness:
  "length (upsert_attempt [] (attempt_of_run sample_run ''h'')) \<le> MaxPromotionAttempts"
  using attempt_history_invariant [of "[]" "attempt_of_run sample_run ''h''"] by simp

section \<open>The hash\<close>

lemma sort_mset_eq: "mset xs = mset ys \<Longrightarrow> sort xs = (sort ys :: string list)"
  by (metis mset_sort properties_for_sort sorted_sort)

text \<open>The hash does not depend on how a spec is written down: two listings of the same version map, two
  orders of the scope and the suspension flag give the same hash, so none of them makes a new
  attempt.\<close>

theorem spec_hash_is_canonical:
  assumes "map_of vs = map_of (pms_Versions s)" and "pms_Scope s = Some ts" and "mset ts' = mset ts"
  shows "promotion_spec_hash (s\<lparr>pms_Versions := vs, pms_Scope := Some ts', pms_Suspended := b\<rparr>) = promotion_spec_hash s"
proof -
  have "set (map fst vs) = set (map fst (pms_Versions s))"
    using arg_cong [OF assms(1), of dom] by (simp add: dom_map_of_conv_image_fst)
  then have "sort (remdups (map fst vs)) = sort (remdups (map fst (pms_Versions s)))"
    by (metis sorted_list_of_set_sort_remdups)
  moreover have "smap_get vs = smap_get (pms_Versions s)" using assms(1) by (simp add: smap_get_def fun_eq_iff)
  ultimately show ?thesis
    using sort_mset_eq [OF assms(3)] assms(2) by (simp add: promotion_spec_hash_def promotion_spec_text_def sort_strings_def)
qed

theorem spec_hash_is_canonical_witness:
  "promotion_spec_hash ((pm_Spec sample_promotion)\<lparr>pms_Versions := [(''b'', ''2''), (''a'', ''1'')],
     pms_Scope := Some [''us'', ''eu''], pms_Suspended := True\<rparr>) = promotion_spec_hash (pm_Spec sample_promotion)"
  by (rule spec_hash_is_canonical [where ts = "[''eu'', ''us'']"]) (auto simp: sample_promotion_def)

text \<open>The hash misses the edges of the plan DAG. Specs that differ only in what their plans depend on
  have the same hash, though the dependencies are copied into the run, so an edit of them starts
  no attempt.\<close>

theorem spec_hash_misses_plan_dependencies:
  "promotion_spec_hash (s\<lparr>pms_Plans := map (\<lambda>p. p\<lparr>pr_DependsOn := deps p\<rparr>) (pms_Plans s)\<rparr>) = promotion_spec_hash s"
  by (simp add: promotion_spec_hash_def promotion_spec_text_def comp_def)

section \<open>Suspension\<close>

definition suspended_copy :: "promotion_run \<Rightarrow> promotion_run" where
  "suspended_copy x = x\<lparr>run_Spec := (run_Spec x)\<lparr>prs_Suspended := True\<rparr>\<rparr>"

definition running :: "promotion_run \<Rightarrow> bool" where
  "running x \<longleftrightarrow> \<not> prs_Suspended (run_Spec x) \<and> \<not> run_phase_is_terminal (rst_Phase (run_Status x))"

lemma suspend_runs_log:
  assumes "suspend_runs env runs s = (res, s')"
  shows "\<exists>xs. pt_Log s' = pt_Log s @ map (PatchRunCalled \<circ> suspended_copy) xs \<and> set xs \<subseteq> {x \<in> set runs. running x} \<and>
    (\<forall>u. res = Inr u \<longrightarrow> xs = filter running runs)"
  using assms
proof (induction runs arbitrary: s)
  case (Cons run runs)
  show ?case
  proof (cases "running run")
    case True
    let ?s = "promotion_emit (PatchRunCalled (suspended_copy run)) s"
    obtain r1 s1 where call: "client_call (''suspend PromotionRun '' @ run_Name run @ '': '')
        (kb_PatchRun (pe_Kube env) run (suspended_copy run)) ?s = (r1, s1)" by fastforce
    have log1: "pt_Log s1 = pt_Log s @ [PatchRunCalled (suspended_copy run)]"
      using client_call_log [of _ _ ?s] call by (metis promotion_tick_simps(1) snd_conv)
    show ?thesis
    proof (cases r1)
      case (Inl e)
      with Cons.prems True call log1 show ?thesis
        by (intro exI [of _ "[run]"]) (auto simp: running_def suspended_copy_def Let_def)
    next
      case (Inr y)
      with Cons.prems True call have "suspend_runs env runs s1 = (res, s')"
        by (simp add: running_def suspended_copy_def Let_def)
      from Cons.IH [OF this] obtain xs where "pt_Log s' = pt_Log s1 @ map (PatchRunCalled \<circ> suspended_copy) xs"
        "set xs \<subseteq> {x \<in> set runs. running x}" "\<forall>u. res = Inr u \<longrightarrow> xs = filter running runs" by blast
      with log1 True show ?thesis by (intro exI [of _ "run # xs"]) auto
    qed
  next
    case False
    then have "prs_Suspended (run_Spec run) \<or> run_phase_is_terminal (rst_Phase (run_Status run))"
      by (auto simp: running_def)
    with Cons.prems have "suspend_runs env runs s = (res, s')" by simp
    from Cons.IH [OF this] False show ?thesis by auto
  qed
qed simp

text \<open>A paused promotion, or one of a paused fleet, starts nothing and stops what runs: its only writes
  to runs set the suspension flag of unfinished listed runs that lack it, and all of these get
  it unless the reconcile ends in an error.\<close>

theorem paused_promotion_suspends_its_runs:
  assumes "pms_Suspended (pm_Spec (pt_Promotion s)) \<or> fl_Suspended parent"
    and "pe_ListOwnedRuns env (pm_Name (pt_Promotion s)) (pt_World s) = (Inr listed, w)"
    and "reconcile_resolved env newest parent unit s = (res, s')"
  shows "\<exists>xs own. pt_Log s' = pt_Log s @ map (PatchRunCalled \<circ> suspended_copy) xs @ own \<and>
    set xs \<subseteq> {x \<in> set listed. running x} \<and> list_all own_effect own \<and>
    (\<forall>result. res = Inr result \<longrightarrow> xs = filter running listed)"
proof -
  obtain r1 s1 where susp: "suspend_runs env listed (promotion_world w s) = (r1, s1)" by fastforce
  have owned: "suspend_owned_runs env s = (r1, s1)"
    using assms(2) susp by (simp add: suspend_owned_runs_def promotion_bind_def client_call_def)
  obtain xs where xs: "pt_Log s1 = pt_Log s @ map (PatchRunCalled \<circ> suspended_copy) xs"
    "set xs \<subseteq> {x \<in> set listed. running x}" "\<forall>u. r1 = Inr u \<longrightarrow> xs = filter running listed"
    using suspend_runs_log [OF susp] by auto
  show ?thesis
  proof (cases r1)
    case (Inl e)
    with assms(1,3) owned have "res = Inl e" "s' = s1"
      by (simp_all add: reconcile_resolved_def Let_def promotion_bind_def)
    with xs(1,2) show ?thesis by (intro exI [of _ xs] exI [of _ "[]"]) simp
  next
    case (Inr u)
    with assms(1,3) owned have "patch_status env PromotionPaused ''Suspended'' ''Promotion or parent Fleet is suspended'' s1 = (res, s')"
      by (simp add: reconcile_resolved_def Let_def promotion_bind_def)
    then obtain own where "pt_Log s' = pt_Log s1 @ own" "list_all own_effect own"
      using patch_status_adds unfolding adds_def by blast
    with xs Inr show ?thesis by (intro exI [of _ xs] exI [of _ own]) simp
  qed
qed

theorem paused_promotion_suspends_its_runs_witness:
  "\<exists>own. pt_Log (snd (reconcile_resolved sample_promotion_env by_age
       \<lparr>fl_Name = ''f'', fl_Suspended = True, fl_PlanStages = []\<rparr> (bare_unit ''u'') sample_promotion_tick)) =
     map (PatchRunCalled \<circ> suspended_copy) [sample_run] @ own"
proof -
  let ?fleet = "\<lparr>fl_Name = ''f'', fl_Suspended = True, fl_PlanStages = []\<rparr>"
  let ?unit = "(bare_unit ''u'')"
  obtain res s' where rec: "reconcile_resolved sample_promotion_env by_age ?fleet ?unit sample_promotion_tick = (res, s')"
    by fastforce
  have list: "pe_ListOwnedRuns sample_promotion_env (pm_Name (pt_Promotion sample_promotion_tick))
      (pt_World sample_promotion_tick) = (Inr [sample_run], sample_world)"
    by (simp add: sample_promotion_env_def sample_world_def)
  have "running sample_run" by (simp add: running_def sample_run_def run_phase_is_terminal_def)
  moreover have "\<exists>result. res = Inr result"
    using rec calculation
    by (auto simp: reconcile_resolved_def Let_def promotion_bind_def suspend_owned_runs_def client_call_def running_def
        sample_promotion_env_def sample_world_def sample_kube_def patch_status_def
        write_promotion_status_def)
  ultimately show ?thesis
    using paused_promotion_suspends_its_runs [OF _ list rec] by (auto simp: rec)
qed

end
