(* ===== verification/Dag_Check.thy ===== *)
theory Dag_Check
  imports Go_Strings
begin

text \<open>
  The cycle check of the admission webhooks (\<^verbatim>\<open>detectCycle\<close> and \<^verbatim>\<open>stageDependencyNames\<close> of
  \<^verbatim>\<open>internal/webhook/admission/promotionplan_validator.go\<close>): a recursive depth-first walk that marks
  the nodes on its stack and the finished ones, with the stack kept as a path. The order in which
  Go visits the node map is the list \<open>order\<close>. The recursion is bounded by fuel; a walk over \<open>n\<close> nodes
  needs at most \<open>n\<close> nested calls, and \<open>detect_cycle\<close> gives it one more.
\<close>

section \<open>The walk\<close>

datatype mark = Unvisited | InStack | Visited

type_synonym walk_state = "(string \<Rightarrow> mark) \<times> string list"

text \<open>The arrow is the rune U+2192, three bytes.\<close>

definition arrow :: string where
  "arrow = [char_of (226::nat), char_of (134::nat), char_of (146::nat)]"

definition cycle_text :: "string list \<Rightarrow> string \<Rightarrow> string" where
  "cycle_text path dep = concat (map (\<lambda>n. n @ arrow) path) @ dep"

text \<open>
  \<open>cycle_visit\<close> is the closure \<^verbatim>\<open>dfs\<close>, \<open>cycle_deps\<close> its loop over the dependencies of the node. The
  result is \<open>None\<close> when the fuel runs out, else the text (empty: no cycle) and the state.
\<close>

fun cycle_visit :: "nat \<Rightarrow> (string \<Rightarrow> string list) \<Rightarrow> string \<Rightarrow> walk_state \<Rightarrow> (string \<times> walk_state) option"
  and cycle_deps :: "nat \<Rightarrow> (string \<Rightarrow> string list) \<Rightarrow> string list \<Rightarrow> walk_state \<Rightarrow> (string \<times> walk_state) option" where
  "cycle_visit 0 deps node (st, path) = None"
| "cycle_visit (Suc n) deps node (st, path) =
     (case cycle_deps n deps (deps node) (st(node := InStack), path @ [node]) of
        None \<Rightarrow> None
      | Some (c, st', path') \<Rightarrow>
          if c \<noteq> [] then Some (c, st', path')
          else Some ([], st'(node := Visited), butlast path'))"
| "cycle_deps n deps [] s = Some ([], s)"
| "cycle_deps n deps (d # ds) (st, path) =
     (case st d of
        InStack \<Rightarrow> Some (cycle_text path d, st, path)
      | Unvisited \<Rightarrow>
          (case cycle_visit n deps d (st, path) of
             None \<Rightarrow> None
           | Some (c, s') \<Rightarrow> if c \<noteq> [] then Some (c, s') else cycle_deps n deps ds s')
      | Visited \<Rightarrow> cycle_deps n deps ds (st, path))"

fun cycle_roots :: "nat \<Rightarrow> (string \<Rightarrow> string list) \<Rightarrow> string list \<Rightarrow> walk_state \<Rightarrow> string option" where
  "cycle_roots n deps [] s = Some []"
| "cycle_roots n deps (x # xs) (st, path) =
     (if st x = Unvisited
      then case cycle_visit n deps x (st, path) of
             None \<Rightarrow> None
           | Some (c, s') \<Rightarrow> if c \<noteq> [] then Some c else cycle_roots n deps xs s'
      else cycle_roots n deps xs (st, path))"

definition detect_cycle :: "string list \<Rightarrow> (string \<Rightarrow> string list) \<Rightarrow> string option" where
  "detect_cycle order deps = cycle_roots (Suc (length order)) deps order ((\<lambda>_. Unvisited), [])"

section \<open>The graph\<close>

definition dep_edges :: "(string \<Rightarrow> string list) \<Rightarrow> (string \<times> string) set" where
  "dep_edges deps = {(u, v). v \<in> set (deps u)}"

definition dep_closed :: "string set \<Rightarrow> (string \<Rightarrow> string list) \<Rightarrow> bool" where
  "dep_closed V deps \<longleftrightarrow> (\<forall>x \<in> V. set (deps x) \<subseteq> V)"

definition dag_on :: "string set \<Rightarrow> (string \<Rightarrow> string list) \<Rightarrow> bool" where
  "dag_on V deps \<longleftrightarrow> (\<forall>x \<in> V. (x, x) \<notin> (dep_edges deps)\<^sup>+)"

text \<open>
  The invariant of the walk: the path lists the nodes on the stack, each a dependency of the
  one before it, and the finished nodes are closed under dependencies and on no cycle.
\<close>

definition walk_ok :: "string set \<Rightarrow> (string \<Rightarrow> string list) \<Rightarrow> walk_state \<Rightarrow> bool" where
  "walk_ok V deps s \<longleftrightarrow>
     (case s of (st, path) \<Rightarrow>
        distinct path \<and> set path = {x. st x = InStack} \<and> set path \<subseteq> V
        \<and> successively (\<lambda>u v. (u, v) \<in> dep_edges deps) path
        \<and> {x. st x = Visited} \<subseteq> V
        \<and> (\<forall>x y. st x = Visited \<longrightarrow> y \<in> set (deps x) \<longrightarrow> st y = Visited)
        \<and> (\<forall>x. st x = Visited \<longrightarrow> (x, x) \<notin> (dep_edges deps)\<^sup>+))"

definition unvisited :: "string set \<Rightarrow> walk_state \<Rightarrow> string set" where
  "unvisited V s = {x \<in> V. fst s x = Unvisited}"

text \<open>What a call that finds no cycle keeps: the stack, and every finished node.\<close>

definition walk_keeps :: "walk_state \<Rightarrow> walk_state \<Rightarrow> bool" where
  "walk_keeps s s' \<longleftrightarrow> snd s' = snd s \<and> (\<forall>x. fst s x = Visited \<longrightarrow> fst s' x = Visited)"

section \<open>Correctness\<close>

lemma edges_iff: "(u, v) \<in> dep_edges deps \<longleftrightarrow> v \<in> set (deps u)"
  by (simp add: dep_edges_def)

lemma cycle_text_nonempty [simp]: "path \<noteq> [] \<Longrightarrow> cycle_text path d \<noteq> []"
  by (cases path) (simp_all add: cycle_text_def arrow_def)

lemma successively_path:
  "successively (\<lambda>u v. (u, v) \<in> r) path \<Longrightarrow> x \<in> set path \<Longrightarrow> (x, last path) \<in> r\<^sup>*"
proof (induction path arbitrary: x)
  case (Cons u path)
  show ?case
  proof (cases path)
    case (Cons v rest)
    with Cons.prems(1) have "(u, v) \<in> r" "successively (\<lambda>u v. (u, v) \<in> r) path" by simp_all
    moreover from this Cons.IH have "\<forall>y \<in> set path. (y, last path) \<in> r\<^sup>*" by blast
    ultimately show ?thesis
      using Cons.prems(2) \<open>path = v # rest\<close> by (auto intro: converse_rtrancl_into_rtrancl)
  qed (use Cons.prems in simp)
qed simp

lemma closed_rtrancl:
  "(x, y) \<in> r\<^sup>* \<Longrightarrow> P x \<Longrightarrow> (\<And>u v. (u, v) \<in> r \<Longrightarrow> P u \<Longrightarrow> P v) \<Longrightarrow> P y"
  by (induction rule: rtrancl_induct) blast+

lemma walk_push:
  assumes "walk_ok V deps (st, path)" "node \<in> V" "st node = Unvisited"
    and "path = [] \<or> (last path, node) \<in> dep_edges deps"
  shows "walk_ok V deps (st(node := InStack), path @ [node])"
  using assms unfolding walk_ok_def by (auto simp: successively_append_iff)

lemma walk_pop:
  assumes ok: "walk_ok V deps (st, path @ [node])" and deps: "\<forall>d \<in> set (deps node). st d = Visited"
  shows "walk_ok V deps (st(node := Visited), path)"
proof -
  have closed: "(u, v) \<in> dep_edges deps \<Longrightarrow> st u = Visited \<Longrightarrow> st v = Visited" for u v
    using ok by (auto simp: walk_ok_def edges_iff)
  have "set (path @ [node]) = {x. st x = InStack}" using ok by (simp add: walk_ok_def)
  then have "node \<in> {x. st x = InStack}" by (metis in_set_conv_decomp)
  then have "st node \<noteq> Visited" by simp
  have "(node, node) \<notin> (dep_edges deps)\<^sup>+"
  proof
    assume "(node, node) \<in> (dep_edges deps)\<^sup>+"
    then obtain d where "(node, d) \<in> dep_edges deps" "(d, node) \<in> (dep_edges deps)\<^sup>*"
      by (metis tranclD)
    then have "st d = Visited" "(d, node) \<in> (dep_edges deps)\<^sup>*" using deps by (simp_all add: edges_iff)
    from closed_rtrancl [OF this(2), of "\<lambda>x. st x = Visited"] this(1) closed \<open>st node \<noteq> Visited\<close>
    show False by blast
  qed
  then show ?thesis using ok deps unfolding walk_ok_def by (auto simp: successively_append_iff)
qed

lemma walk_found:
  assumes ok: "walk_ok V deps (st, path)" and "path \<noteq> []" "d \<in> set (deps (last path))" "st d = InStack"
  shows "\<not> dag_on V deps"
proof -
  have "d \<in> set path" using ok assms(4) by (auto simp: walk_ok_def)
  then have "(d, last path) \<in> (dep_edges deps)\<^sup>*" 
    using ok successively_path [of "dep_edges deps" path d] by (simp add: walk_ok_def)
  then have "(d, d) \<in> (dep_edges deps)\<^sup>+" using assms(3) by (simp add: edges_iff rtrancl_into_trancl1)
  then show ?thesis using ok \<open>d \<in> set path\<close> by (auto simp: walk_ok_def dag_on_def)
qed

lemma walk_unvisited:
  assumes "walk_ok V deps s" "walk_ok V deps s'" "walk_keeps s s'"
  shows "unvisited V s' \<subseteq> unvisited V s"
proof
  fix x assume x: "x \<in> unvisited V s'"
  have "{y. fst s y = InStack} = {y. fst s' y = InStack}"
    using assms by (auto simp: walk_ok_def walk_keeps_def split: prod.splits)
  with x assms(3) show "x \<in> unvisited V s"
    by (cases "fst s x") (auto simp: unvisited_def walk_keeps_def set_eq_iff)
qed

lemma unvisited_push:
  "finite V \<Longrightarrow> node \<in> V \<Longrightarrow> st node = Unvisited \<Longrightarrow>
   card (unvisited V (st(node := InStack), path')) < card (unvisited V (st, path))"
  by (rule psubset_card_mono) (auto simp: unvisited_def)

lemma walk_keeps_trans: "walk_keeps s t \<Longrightarrow> walk_keeps t u \<Longrightarrow> walk_keeps s u"
  by (simp add: walk_keeps_def)

text \<open>The outcome of a call: a cycle exists, or the walk goes on with the given nodes finished.\<close>

definition walk_outcome ::
  "string set \<Rightarrow> (string \<Rightarrow> string list) \<Rightarrow> walk_state \<Rightarrow> string set \<Rightarrow> string \<times> walk_state \<Rightarrow> bool" where
  "walk_outcome V deps s done r \<longleftrightarrow>
     (if fst r \<noteq> [] then \<not> dag_on V deps
      else walk_ok V deps (snd r) \<and> walk_keeps s (snd r) \<and> (\<forall>d \<in> done. fst (snd r) d = Visited))"

lemma walk_outcome_goes_on:
  assumes "walk_outcome V deps s A ([], s1)" and "walk_outcome V deps s1 B r"
  shows "walk_outcome V deps s (A \<union> B) r"
  using assms unfolding walk_outcome_def
  by (auto intro: walk_keeps_trans simp: walk_keeps_def)

lemma cycle_visit_correct:
  assumes fin: "finite V"
  shows "dep_closed V deps \<Longrightarrow> walk_ok V deps s \<Longrightarrow> node \<in> V \<Longrightarrow> fst s node = Unvisited \<Longrightarrow>
      snd s = [] \<or> (last (snd s), node) \<in> dep_edges deps \<Longrightarrow> card (unvisited V s) \<le> n \<Longrightarrow>
      \<exists>r. cycle_visit n deps node s = Some r \<and> walk_outcome V deps s {node} r"
    and "dep_closed V deps \<Longrightarrow> walk_ok V deps s \<Longrightarrow> snd s \<noteq> [] \<Longrightarrow> last (snd s) \<in> V \<Longrightarrow>
      set ds \<subseteq> set (deps (last (snd s))) \<Longrightarrow> card (unvisited V s) \<le> n \<Longrightarrow>
      \<exists>r. cycle_deps n deps ds s = Some r \<and> walk_outcome V deps s (set ds) r"
proof (induction n deps node s and n deps ds s rule: cycle_visit_cycle_deps.induct)
  case (1 deps node st path)
  then have "unvisited V (st, path) \<noteq> {}" by (auto simp: unvisited_def)
  moreover have "finite (unvisited V (st, path))" using fin by (simp add: unvisited_def)
  ultimately show ?case using 1 by simp
next
  case (2 n deps node st path)
  let ?s = "(st(node := InStack), path @ [node])"
  have "walk_ok V deps ?s" using 2 by (intro walk_push) auto
  moreover have "card (unvisited V ?s) \<le> n"
    using unvisited_push [OF fin, of node st "path @ [node]" path] 2 by simp
  ultimately obtain r where r: "cycle_deps n deps (deps node) ?s = Some r" "walk_outcome V deps ?s (set (deps node)) r"
    using 2 by auto
  obtain c st' path' where [simp]: "r = (c, st', path')" by (cases r)
  show ?case
  proof (cases "c = []")
    case True
    then have "walk_ok V deps (st', path @ [node])" "path' = path @ [node]" "\<forall>d \<in> set (deps node). st' d = Visited"
      and keeps: "\<forall>x. (st(node := InStack)) x = Visited \<longrightarrow> st' x = Visited"
      using r(2) by (auto simp: walk_outcome_def walk_keeps_def)
    moreover from this have "walk_ok V deps (st'(node := Visited), path)" by (intro walk_pop)
    ultimately show ?thesis using True r(1) 2 by (auto simp: walk_outcome_def walk_keeps_def)
  next
    case False
    then show ?thesis using r by (simp add: walk_outcome_def)
  qed
next
  case (3 n deps s)
  then show ?case by (simp add: walk_outcome_def walk_keeps_def)
next
  case (4 n deps d ds st path)
  show ?case
  proof (cases "st d")
    case Unvisited
    have "d \<in> V" using 4 by (auto simp: dep_closed_def)
    then obtain c st1 p1 where v: "cycle_visit n deps d (st, path) = Some (c, st1, p1)" "walk_outcome V deps (st, path) {d} (c, st1, p1)"
      using 4 Unvisited by (auto simp: edges_iff)
    show ?thesis
    proof (cases "c = []")
      case True
      then have s1: "walk_ok V deps (st1, p1)" "walk_keeps (st, path) (st1, p1)" using v(2) by (simp_all add: walk_outcome_def)
      then have "unvisited V (st1, p1) \<subseteq> unvisited V (st, path)" using 4(5) by (intro walk_unvisited)
      then have "card (unvisited V (st1, p1)) \<le> n"
        using card_mono [of "unvisited V (st, path)" "unvisited V (st1, p1)"] 4(9) fin by (simp add: unvisited_def)
      moreover have "p1 = path" using s1(2) by (simp add: walk_keeps_def)
      ultimately have "\<exists>r. cycle_deps n deps ds (st1, p1) = Some r \<and> walk_outcome V deps (st1, p1) (set ds) r"
        using 4(4-9) s1 True by (intro 4(2) [OF Unvisited v(1) refl]) simp_all
      then obtain r where "cycle_deps n deps ds (st1, p1) = Some r" "walk_outcome V deps (st1, p1) (set ds) r" by blast
      then show ?thesis using walk_outcome_goes_on v True Unvisited by fastforce
    next
      case False
      then show ?thesis using v Unvisited by (simp add: walk_outcome_def)
    qed
  next
    case InStack
    then have "\<not> dag_on V deps" using 4 by (intro walk_found [of V deps st path d]) auto
    then show ?thesis using InStack 4 by (simp add: walk_outcome_def)
  next
    case Visited
    then obtain r where "cycle_deps n deps ds (st, path) = Some r" "walk_outcome V deps (st, path) (set ds) r"
      using 4 by auto
    then show ?thesis using Visited by (auto simp: walk_outcome_def walk_keeps_def)
  qed
qed

lemma cycle_roots_correct:
  assumes fin: "finite V"
  shows "dep_closed V deps \<Longrightarrow> walk_ok V deps s \<Longrightarrow> snd s = [] \<Longrightarrow> set xs \<subseteq> V \<Longrightarrow> card V \<le> n \<Longrightarrow>
      \<exists>c. cycle_roots n deps xs s = Some c \<and> (c \<noteq> [] \<longrightarrow> \<not> dag_on V deps)
        \<and> (c = [] \<longrightarrow> (\<forall>x. x \<in> set xs \<or> fst s x = Visited \<longrightarrow> (x, x) \<notin> (dep_edges deps)\<^sup>+))"
proof (induction n deps xs s rule: cycle_roots.induct)
  case (1 n deps s)
  then show ?case by (auto simp: walk_ok_def)
next
  case (2 n deps x xs st path)
  have enough: "card (unvisited V s) \<le> n" for s
    using 2(7) card_mono [OF fin, of "unvisited V s"] by (auto simp: unvisited_def)
  show ?case
  proof (cases "st x = Unvisited")
    case True
    then obtain c st1 p1 where v: "cycle_visit n deps x (st, path) = Some (c, st1, p1)"
        "walk_outcome V deps (st, path) {x} (c, st1, p1)"
      using cycle_visit_correct(1) [OF fin 2(3,4), of x n] 2(5,6) enough by (auto simp del: cycle_visit.simps)
    show ?thesis
    proof (cases "c = []")
      case True
      with v(2) have s1: "walk_ok V deps (st1, p1)" "p1 = []" "st1 x = Visited"
          "\<forall>y. st y = Visited \<longrightarrow> st1 y = Visited"
        using 2(5) by (auto simp: walk_outcome_def walk_keeps_def)
      then have "\<exists>c. cycle_roots n deps xs (st1, p1) = Some c \<and> (c \<noteq> [] \<longrightarrow> \<not> dag_on V deps)
        \<and> (c = [] \<longrightarrow> (\<forall>y. y \<in> set xs \<or> fst (st1, p1) y = Visited \<longrightarrow> (y, y) \<notin> (dep_edges deps)\<^sup>+))"
        using 2(3-7) True by (intro 2(1) [OF \<open>st x = Unvisited\<close> v(1) refl]) simp_all
      then show ?thesis using \<open>st x = Unvisited\<close> v(1) True s1(3,4) by auto
    next
      case False
      then show ?thesis using v \<open>st x = Unvisited\<close> by (simp add: walk_outcome_def)
    qed
  next
    case False
    moreover have "st x \<noteq> InStack" using 2(4,5) by (auto simp: walk_ok_def)
    ultimately have "st x = Visited" by (cases "st x") simp_all
    moreover have "\<exists>c. cycle_roots n deps xs (st, path) = Some c \<and> (c \<noteq> [] \<longrightarrow> \<not> dag_on V deps)
        \<and> (c = [] \<longrightarrow> (\<forall>y. y \<in> set xs \<or> fst (st, path) y = Visited \<longrightarrow> (y, y) \<notin> (dep_edges deps)\<^sup>+))"
      using 2(3-7) by (intro 2(2) [OF False]) simp_all
    ultimately show ?thesis by auto
  qed
qed

text \<open>The check always returns, and returns the empty text exactly for a graph without cycles,
  whatever order the nodes are visited in.\<close>

lemma detect_cycle_exact:
  assumes "dep_closed (set order) deps"
  shows "\<exists>c. detect_cycle order deps = Some c \<and> (c = [] \<longleftrightarrow> dag_on (set order) deps)"
proof -
  have "walk_ok (set order) deps ((\<lambda>_. Unvisited), [])" by (simp add: walk_ok_def)
  moreover have "card (set order) \<le> Suc (length order)" using card_length [of order] by simp
  ultimately obtain c where c: "detect_cycle order deps = Some c" "c \<noteq> [] \<longrightarrow> \<not> dag_on (set order) deps"
      "c = [] \<longrightarrow> (\<forall>x. x \<in> set order \<longrightarrow> (x, x) \<notin> (dep_edges deps)\<^sup>+)"
    using cycle_roots_correct [of "set order" deps "((\<lambda>_. Unvisited), [])" order "Suc (length order)"] assms
    unfolding detect_cycle_def by auto
  then show ?thesis by (auto simp: dag_on_def)
qed

end
