(* ===== verification/Admission.thy ===== *)
theory Admission
  imports Gates Dag_Check Trigger_Types
begin

text \<open>
  The validating and mutating admission webhooks (\<^verbatim>\<open>internal/webhook/admission\<close>): plans, promotion
  runs, approvals, clusters, triggers and delivery units. A request carries the objects as the
  decoder returns them, so a decoding error is a value of the request; the JSON patch of a mutating
  response stands as the object it produces. A validator returns the text of its first error. The
  texts that \<^verbatim>\<open>apimachinery\<close> builds (aggregated field errors, the DNS-1123 checks) and the wording
  of a duration parse error are the parameter \<open>validation_lib\<close>; the order in which Go visits the
  index of a DAG is the function \<open>ord\<close>.
\<close>

section \<open>Requests and responses\<close>

datatype operation = OpCreate | OpUpdate | OpDelete | OpConnect | OpOther string

record user_info =
  ui_Username :: string
  ui_Groups :: "string list"

record 'o admission_request =
  rq_Operation :: operation
  rq_User :: user_info
  rq_Object :: "go_error + 'o"
  rq_OldObject :: "go_error + 'o"

datatype 'o admission_response =
    Allowed "string list"
  | Denied string
  | Errored int string
  | Patched 'o

definition StatusBadRequest :: int where "StatusBadRequest = 400"

datatype field_error =
    RequiredError string string
  | InvalidError string string string

record validation_lib =
  vl_Aggregate :: "field_error list \<Rightarrow> string"
  vl_FieldErrorText :: "field_error \<Rightarrow> string"
  vl_DNS1123Label :: "string \<Rightarrow> string list"
  vl_DNS1123Subdomain :: "string \<Rightarrow> string list"
  vl_DurationError :: "string \<Rightarrow> string"

section \<open>First errors\<close>

text \<open>A loop that returns the first error; \<open>and_then\<close> is the check that follows an early return.\<close>

fun first_error :: "('a \<Rightarrow> go_error option) \<Rightarrow> 'a list \<Rightarrow> go_error option" where
  "first_error f [] = None"
| "first_error f (x # xs) = (case f x of Some e \<Rightarrow> Some e | None \<Rightarrow> first_error f xs)"

definition and_then :: "go_error option \<Rightarrow> go_error option \<Rightarrow> go_error option" where
  "and_then a b = (case a of Some e \<Rightarrow> Some e | None \<Rightarrow> b)"

definition fail_if :: "bool \<Rightarrow> string \<Rightarrow> go_error option" where
  "fail_if bad e = (if bad then Some e else None)"

lemma first_error_None_iff: "first_error f xs = None \<longleftrightarrow> (\<forall>x \<in> set xs. f x = None)"
  by (induction xs) (auto split: option.splits)

lemma and_then_None_iff [simp]: "and_then a b = None \<longleftrightarrow> a = None \<and> b = None"
  by (auto simp: and_then_def split: option.splits)

lemma fail_if_False [simp]: "fail_if False e = None"
  by (simp add: fail_if_def)

lemma fail_if_None_iff [simp]: "fail_if bad e = None \<longleftrightarrow> \<not> bad"
  by (simp add: fail_if_def)

section \<open>The team label and the writers of runs\<close>

definition require_team_label :: "validation_lib \<Rightarrow> smap \<Rightarrow> go_error option" where
  "require_team_label vl labels =
     fail_if (smap_get labels LabelKaproTeam = [])
       (vl_FieldErrorText vl (RequiredError (''metadata.labels['' @ LabelKaproTeam @ '']'')
         ''is required (multi-tenancy ownership label; see docs/operations/rbac-tenancy.md)''))"

definition breakGlassGroup :: string where "breakGlassGroup = ''system:masters''"

definition AllowedPromotionRunWriters :: "string list" where
  "AllowedPromotionRunWriters = [''system:serviceaccount:kapro-system:kapro-operator'']"

fun split_on :: "char \<Rightarrow> string \<Rightarrow> string list" where
  "split_on c [] = [[]]"
| "split_on c (x # xs) =
     (if x = c then [] # split_on c xs
      else case split_on c xs of [] \<Rightarrow> [[x]] | p # ps \<Rightarrow> (x # p) # ps)"

text \<open>\<open>env\<close> is the value of \<^verbatim>\<open>KAPRO_PROMOTIONRUN_WRITERS\<close>.\<close>

definition allowed_writers :: "string \<Rightarrow> string list" where
  "allowed_writers env =
     (if env \<noteq> [] then map trim_space (split_on (CHR '','') env) else AllowedPromotionRunWriters)"

definition is_allowed_promotionrun_writer :: "string \<Rightarrow> user_info \<Rightarrow> bool" where
  "is_allowed_promotionrun_writer env user \<longleftrightarrow>
     list_ex (\<lambda>g. g = breakGlassGroup) (ui_Groups user) \<or>
     list_ex (\<lambda>allowed. ui_Username user = allowed) (allowed_writers env)"

section \<open>The index of a DAG\<close>

text \<open>
  The map from the name of a node to its position. A lookup of a missing name gives the zero
  value, position 0, as in Go.
\<close>

type_synonym node_index = "(string \<times> nat) list"

definition index_of :: "node_index \<Rightarrow> string \<Rightarrow> nat" where
  "index_of index name = (case map_of index name of None \<Rightarrow> 0 | Some i \<Rightarrow> i)"

definition check_cycle ::
  "string \<Rightarrow> (string list \<Rightarrow> string list) \<Rightarrow> node_index \<Rightarrow> (string \<Rightarrow> string list) \<Rightarrow> go_error option" where
  "check_cycle what ord index deps =
     (case detect_cycle (ord (map fst index)) deps of
        None \<Rightarrow> Some (what @ '': cycle check did not return'')
      | Some cycle \<Rightarrow> fail_if (cycle \<noteq> []) (what @ '': cycle detected: '' @ cycle))"

section \<open>Plans\<close>

text \<open>\<^verbatim>\<open>%d\<close> of a position\<close>

definition at_index :: "string \<Rightarrow> nat \<Rightarrow> string" where
  "at_index path i = path @ ''['' @ string_of_nat i @ '']''"

definition at_key :: "string \<Rightarrow> string \<Rightarrow> string" where
  "at_key path k = path @ ''['' @ go_quote k @ '']''"

definition gate_policy_has_inline_fields :: "gate_policy_spec \<Rightarrow> bool" where
  "gate_policy_has_inline_fields gate =
     (if pol_Mode gate \<noteq> [] \<or> pol_Approval gate \<noteq> None \<or> pol_Notifications gate \<noteq> [] then True
      else if pol_OnFailure gate \<noteq> [] \<and> pol_OnFailure gate \<noteq> ''halt'' then True
      else g_SoakTime (pol_Gate gate) \<noteq> [] \<or> g_GateTimeout (pol_Gate gate) \<noteq> [] \<or> g_HealthCheck (pol_Gate gate) \<or>
        g_Metrics (pol_Gate gate) \<noteq> [] \<or> g_Templates (pol_Gate gate) \<noteq> [] \<or> g_Verification (pol_Gate gate) \<noteq> None)"

definition validate_stage_expression_refs :: "plan \<Rightarrow> go_error option" where
  "validate_stage_expression_refs p =
     first_error (\<lambda>(i, stage).
       case sg_Gate stage of
         None \<Rightarrow> None
       | Some gate \<Rightarrow>
           (let path = at_index ''plan.spec.stages'' i @ ''.gate.expressionRef''; ref = pol_ExpressionRef gate
            in if ref = [] then None
               else if trim_space ref \<noteq> ref then Some (path @ '' must not contain surrounding whitespace'')
               else if gate_policy_has_inline_fields gate
               then Some (path @ '' is mutually exclusive with inline gate fields'')
               else Some (path @ '' is reserved until external gate expression resolution is implemented; keep enforceable gates inline'')))
       (enumerate 0 (pl_Stages p))"

definition validate_stage_metric :: "(string \<times> metric_gate) list \<Rightarrow> nat \<Rightarrow> nat \<times> metric_gate \<Rightarrow> go_error option" where
  "validate_stage_metric presets stageIndex im =
     (let path = at_index (at_index ''plan.spec.stages'' stageIndex @ ''.gate.gate.metrics'') (fst im); metric = snd im
      in if mg_Preset metric = [] then
           and_then (fail_if (mg_Provider metric = []) (path @ ''.provider must be set when preset is empty''))
             (fail_if (mg_Query metric = []) (path @ ''.query must be set when preset is empty''))
         else fail_if (map_of presets (mg_Preset metric) = None)
             (path @ ''.preset: unknown metric preset '' @ go_quote (mg_Preset metric)))"

definition validate_metric_presets :: "plan \<Rightarrow> go_error option" where
  "validate_metric_presets p =
     and_then
       (first_error (\<lambda>(name, preset).
          and_then (fail_if (mg_Provider preset = []) (at_key ''plan.spec.metricPresets'' name @ ''.provider must be set''))
            (fail_if (mg_Query preset = []) (at_key ''plan.spec.metricPresets'' name @ ''.query must be set'')))
          (pl_MetricPresets p))
       (first_error (\<lambda>(stageIndex, stage).
          case sg_Gate stage of
            None \<Rightarrow> None
          | Some gate \<Rightarrow>
              first_error (validate_stage_metric (pl_MetricPresets p) stageIndex)
                (enumerate 0 (g_Metrics (pol_Gate gate))))
          (enumerate 0 (pl_Stages p)))"

text \<open>The first loop of \<^verbatim>\<open>validateStageDAG\<close>: names are set and unique; its result is the index.\<close>

fun index_stages :: "nat \<Rightarrow> stage list \<Rightarrow> node_index \<Rightarrow> go_error + node_index" where
  "index_stages i [] index = Inr index"
| "index_stages i (s # ss) index =
     (if sg_Name s = [] then Inl (at_index ''plan.spec.stages'' i @ ''.name must be set'')
      else if map_of index (sg_Name s) \<noteq> None
      then Inl (''plan.spec.stages: duplicate stage name '' @ go_quote (sg_Name s))
      else index_stages (Suc i) ss (index @ [(sg_Name s, i)]))"

fun strategy_text :: "dependency_strategy \<Rightarrow> string" where
  "strategy_text StrategyNone = []"
| "strategy_text StrategyAll = ''all''"
| "strategy_text StrategyAny = ''any''"
| "strategy_text (StrategyOther s) = s"

definition validate_stage_dependency :: "node_index \<Rightarrow> string \<Rightarrow> stage_dependency \<Rightarrow> go_error option" where
  "validate_stage_dependency index stageName dep =
     (let path = at_key ''plan.spec.stages'' stageName @ ''.dependsOn''
      in if sd_Stage dep = [] then Some (path @ ''.stage must be set'')
         else if map_of index (sd_Stage dep) = None then Some (path @ '': unknown stage '' @ go_quote (sd_Stage dep))
         else if sd_Strategy dep \<notin> {StrategyNone, StrategyAll, StrategyAny}
         then Some (at_key path (sd_Stage dep) @ ''.strategy: unsupported value '' @ go_quote (strategy_text (sd_Strategy dep)))
         else (case sd_RequiredSoakTime dep of
                 Some d \<Rightarrow> fail_if (d < 0) (at_key path (sd_Stage dep) @ ''.requiredSoakTime must be non-negative'')
               | None \<Rightarrow> None))"

definition stage_dependency_names :: "stage_dependency list \<Rightarrow> string list" where
  "stage_dependency_names deps = map sd_Stage deps"

definition stage_deps :: "stage list \<Rightarrow> node_index \<Rightarrow> string \<Rightarrow> string list" where
  "stage_deps stages index name = stage_dependency_names (sg_DependsOn (stages ! index_of index name))"

definition validate_stage_dag :: "(string list \<Rightarrow> string list) \<Rightarrow> stage list \<Rightarrow> go_error option" where
  "validate_stage_dag ord stages =
     (if stages = [] then Some ''plan.spec.stages must contain at least one stage''
      else case index_stages 0 stages [] of
        Inl e \<Rightarrow> Some e
      | Inr index \<Rightarrow>
          and_then
            (first_error (\<lambda>s. first_error (validate_stage_dependency index (sg_Name s)) (sg_DependsOn s)) stages)
            (check_cycle ''plan.spec.stages'' ord index (stage_deps stages index)))"

definition validate_promotion_plan :: "(string list \<Rightarrow> string list) \<Rightarrow> plan \<Rightarrow> go_error option" where
  "validate_promotion_plan ord p =
     and_then (validate_stage_expression_refs p)
       (and_then (validate_metric_presets p) (validate_stage_dag ord (pl_Stages p)))"

text \<open>The end of every handler: on CREATE the team label is required.\<close>

definition team_on_create :: "validation_lib \<Rightarrow> 'o admission_request \<Rightarrow> smap \<Rightarrow> go_error option" where
  "team_on_create vl req labels =
     (if rq_Operation req = OpCreate then require_team_label vl labels else None)"

definition deny_or_allow :: "go_error option \<Rightarrow> 'o admission_response" where
  "deny_or_allow e = (case e of Some t \<Rightarrow> Denied t | None \<Rightarrow> Allowed [])"

lemma deny_or_allow_iff [simp]: "deny_or_allow e = Allowed [] \<longleftrightarrow> e = None"
  by (simp add: deny_or_allow_def split: option.split)

definition handle_plan ::
  "validation_lib \<Rightarrow> (string list \<Rightarrow> string list) \<Rightarrow> plan admission_request \<Rightarrow> plan admission_response" where
  "handle_plan vl ord req =
     (case rq_Object req of
        Inl e \<Rightarrow> Errored StatusBadRequest e
      | Inr p \<Rightarrow> deny_or_allow (and_then (validate_promotion_plan ord p) (team_on_create vl req (om_Labels (pl_Meta p)))))"

section \<open>Promotion runs\<close>

fun index_plans :: "nat \<Rightarrow> plan_ref list \<Rightarrow> node_index \<Rightarrow> go_error + node_index" where
  "index_plans i [] index = Inr index"
| "index_plans i (r # rs) index =
     (if pr_Name r = [] then Inl (at_index ''promotionRun.spec.plans'' i @ ''.name must be set'')
      else if pr_Plan r = [] then Inl (at_index ''promotionRun.spec.plans'' i @ ''.plan must be set'')
      else if map_of index (pr_Name r) \<noteq> None
      then Inl (''promotionRun.spec.plans: duplicate plan node name '' @ go_quote (pr_Name r))
      else index_plans (Suc i) rs (index @ [(pr_Name r, i)]))"

definition version_errors :: "promotion_run_spec \<Rightarrow> field_error list" where
  "version_errors spec =
     (if prs_Version spec = [] \<and> prs_Versions spec = []
      then [RequiredError ''spec'' ''version or versions is required''] else []) @
     concat (map (\<lambda>(unit, version).
       (if unit = [] then [InvalidError ''spec.versions'' unit ''unit key must be non-empty''] else []) @
       (if version = [] then [InvalidError (''spec.versions['' @ unit @ '']'') version ''version must be non-empty''] else []))
       (prs_Versions spec))"

definition plan_deps :: "plan_ref list \<Rightarrow> node_index \<Rightarrow> string \<Rightarrow> string list" where
  "plan_deps plans index name = pr_DependsOn (plans ! index_of index name)"

definition validate_plan_dag :: "(string list \<Rightarrow> string list) \<Rightarrow> plan_ref list \<Rightarrow> go_error option" where
  "validate_plan_dag ord plans =
     (if plans = [] then Some ''promotionRun.spec.plans must have at least one plan reference''
      else case index_plans 0 plans [] of
        Inl e \<Rightarrow> Some e
      | Inr index \<Rightarrow>
          and_then
            (first_error (\<lambda>r. first_error (\<lambda>dep. fail_if (map_of index dep = None)
                 (at_key ''promotionRun.spec.plans'' (pr_Name r) @ ''.dependsOn: unknown plan node '' @ go_quote dep))
               (pr_DependsOn r)) plans)
            (check_cycle ''promotionRun.spec.plans'' ord index (plan_deps plans index)))"

definition validate_promotion_run ::
  "validation_lib \<Rightarrow> (string list \<Rightarrow> string list) \<Rightarrow> promotion_run \<Rightarrow> go_error option" where
  "validate_promotion_run vl ord r =
     (let allErrs = version_errors (run_Spec r)
      in if allErrs \<noteq> [] then Some (vl_Aggregate vl allErrs)
         else validate_plan_dag ord (prs_Plans (run_Spec r)))"

text \<open>\<^verbatim>\<open>reflect.DeepEqual\<close> on the versions compares maps, whatever the order of the entries.\<close>

definition validate_promotion_run_update :: "promotion_run \<Rightarrow> promotion_run \<Rightarrow> go_error option" where
  "validate_promotion_run_update old new =
     (let o' = run_Spec old; n = run_Spec new
      in if prs_Version o' \<noteq> prs_Version n then Some ''promotionRun.spec.version is immutable after creation''
         else if \<not> smap_eq (prs_Versions o') (prs_Versions n)
         then Some ''promotionRun.spec.versions is immutable after creation''
         else if prs_Plans o' \<noteq> prs_Plans n then Some ''promotionRun.spec.plans is immutable after creation''
         else if prs_Scope o' \<noteq> prs_Scope n then Some ''promotionRun.spec.scope is immutable after creation''
         else None)"

definition handle_promotion_run ::
  "validation_lib \<Rightarrow> string \<Rightarrow> (string list \<Rightarrow> string list) \<Rightarrow> promotion_run admission_request \<Rightarrow>
    promotion_run admission_response" where
  "handle_promotion_run vl env ord req =
     (if (rq_Operation req = OpCreate \<or> rq_Operation req = OpUpdate) \<and> \<not> is_allowed_promotionrun_writer env (rq_User req)
      then Denied (''PromotionRun is controller-managed; create or update a Promotion instead (requester '' @
             go_quote (ui_Username (rq_User req)) @ '' is not in the allowed writer list)'')
      else case rq_Object req of
        Inl e \<Rightarrow> Errored StatusBadRequest e
      | Inr r \<Rightarrow>
          (case and_then (validate_promotion_run vl ord r) (team_on_create vl req (om_Labels (run_Meta r))) of
             Some e \<Rightarrow> Denied e
           | None \<Rightarrow>
               (if rq_Operation req = OpUpdate then
                  (case rq_OldObject req of
                     Inl e \<Rightarrow> Errored StatusBadRequest e
                   | Inr old \<Rightarrow> deny_or_allow (validate_promotion_run_update old r))
                else Allowed [])))"

section \<open>Approvals\<close>

definition validate_approval_bypass_comment :: "approval \<Rightarrow> go_error option" where
  "validate_approval_bypass_comment a =
     fail_if (ap_Bypass a \<and> ap_Comment a = [])
       ''approval.spec.bypass requires a non-empty spec.comment (P0 justification)''"

text \<open>The mutator: \<open>trusted\<close> is the user name of the service account of the operator.\<close>

definition mutate_approval :: "string \<Rightarrow> approval admission_request \<Rightarrow> approval admission_response" where
  "mutate_approval trusted req =
     (case rq_Object req of
        Inl e \<Rightarrow> Errored StatusBadRequest e
      | Inr a \<Rightarrow>
          (case rq_Operation req of
             OpCreate \<Rightarrow>
               (let user = ui_Username (rq_User req);
                    a' = (if user \<noteq> trusted \<or> ap_ApprovedBy a = [] then a\<lparr>ap_ApprovedBy := user\<rparr> else a)
                in case validate_approval_bypass_comment a' of Some e \<Rightarrow> Denied e | None \<Rightarrow> Patched a')
           | OpUpdate \<Rightarrow>
               (case rq_OldObject req of
                  Inl e \<Rightarrow> Errored StatusBadRequest e
                | Inr old \<Rightarrow>
                    (case validate_approval_bypass_comment a of
                       Some e \<Rightarrow> Denied e
                     | None \<Rightarrow>
                         (if ap_ApprovedBy old \<noteq> [] \<and> ap_ApprovedBy a \<noteq> ap_ApprovedBy old
                          then Denied ''approval.spec.approvedBy is immutable after creation''
                          else Patched a)))
           | _ \<Rightarrow> Patched a))"

definition validate_approval :: "approval \<Rightarrow> go_error option" where
  "validate_approval a =
     (let expectedName = approval_name (ap_PromotionRun a) (ap_Ref a)
      in if ap_PromotionRun a = [] then Some ''approval.spec.promotionRun must be non-empty''
         else if ap_Target a = [] then Some ''approval.spec.target must be non-empty''
         else if ap_Ref a = [] then Some ''approval.spec.ref must be non-empty''
         else if ap_ApprovedBy a = [] then Some ''approval.spec.approvedBy must be non-empty''
         else fail_if (om_Name (ap_Meta a) \<noteq> expectedName)
           (''approval.metadata.name must equal '' @ go_quote expectedName))"

definition handle_approval :: "approval admission_request \<Rightarrow> approval admission_response" where
  "handle_approval req =
     (case rq_Object req of
        Inl e \<Rightarrow> Errored StatusBadRequest e
      | Inr a \<Rightarrow> deny_or_allow (validate_approval a))"

section \<open>Clusters\<close>

definition labelAccelerator :: string where "labelAccelerator = ''kapro.io/accelerator''"

definition topology_accelerator :: "cluster \<Rightarrow> string" where
  "topology_accelerator c = (case cs_Topology (cl_Spec c) of None \<Rightarrow> [] | Some t \<Rightarrow> tp_Accelerator t)"

definition set_cluster_labels :: "smap \<Rightarrow> cluster \<Rightarrow> cluster" where
  "set_cluster_labels labels c = c\<lparr>cl_Meta := (cl_Meta c)\<lparr>om_Labels := labels\<rparr>\<rparr>"

definition mutate_cluster :: "cluster admission_request \<Rightarrow> cluster admission_response" where
  "mutate_cluster req =
     (case rq_Object req of
        Inl e \<Rightarrow> Errored StatusBadRequest e
      | Inr mc \<Rightarrow>
          (let labels = om_Labels (cl_Meta mc)
           in if topology_accelerator mc \<noteq> []
              then Patched (set_cluster_labels (smap_set labelAccelerator (topology_accelerator mc) labels) mc)
              else if rq_Operation req = OpUpdate then
                (case rq_OldObject req of
                   Inl e \<Rightarrow> Errored StatusBadRequest e
                 | Inr old \<Rightarrow>
                     (if topology_accelerator old \<noteq> [] \<and>
                         smap_get (om_Labels (cl_Meta old)) labelAccelerator = topology_accelerator old
                      then Patched (set_cluster_labels (AList.delete labelAccelerator labels) mc)
                      else Patched mc))
              else Patched mc))"

definition validate_fleet_cluster :: "cluster \<Rightarrow> go_error option" where
  "validate_fleet_cluster mc =
     (let act = cs_Substrate (cl_Spec mc)
      in and_then (fail_if (sb_Mode act = ModeNone) ''cluster.spec.substrate.mode must be set'')
           (fail_if (substrate_binding_name act = []) ''cluster.spec.substrate.ref must be set''))"

definition binding_param :: "substrate_binding_spec \<Rightarrow> string \<Rightarrow> string \<Rightarrow> string" where
  "binding_param d name fallback =
     (if smap_get (sb_Parameters d) name = [] then fallback else smap_get (sb_Parameters d) name)"

definition validate_resolved_substrate_parameters :: "cluster \<Rightarrow> string \<Rightarrow> string list" where
  "validate_resolved_substrate_parameters mc substrateKind =
     (let act = cs_Substrate (cl_Spec mc)
      in if substrateKind \<noteq> ''flux'' then []
         else if sb_Mode act = ModePull \<and> binding_param act ''ociRepository'' [] = []
         then [''cluster.spec.substrate.parameters.ociRepository is required by flux pull delivery; Target execution will fail until it is set'']
         else if sb_Mode act = ModePush \<and> binding_param act ''resourceSet'' [] = []
         then [''cluster.spec.substrate.parameters.resourceSet is required by flux push delivery; Target execution will fail until it is set'']
         else [])"

text \<open>A missing or unreadable substrate is a warning, never a denial.\<close>

definition validate_fleet_cluster_substrate_ref :: "'w kube \<Rightarrow> cluster \<Rightarrow> 'w \<Rightarrow> string list \<times> 'w" where
  "validate_fleet_cluster_substrate_ref reader mc w =
     (let name = substrate_binding_name (cs_Substrate (cl_Spec mc));
          path = ''cluster.spec.substrate.ref='' @ go_quote name
      in if name = [] then ([], w)
         else case kb_GetSubstrate reader name w of
           (Inl e, w') \<Rightarrow>
             ([if is_not_found e then path @ '': substrate not found yet; Target execution will wait for it''
               else path @ '': substrate lookup failed; Target execution will retry: '' @ api_error_text e], w')
         | (Inr profile, w') \<Rightarrow>
             (validate_resolved_substrate_parameters mc (substrate_kind (sub_Spec profile)), w'))"

definition handle_cluster ::
  "'w kube option \<Rightarrow> cluster admission_request \<Rightarrow> 'w \<Rightarrow> cluster admission_response \<times> 'w" where
  "handle_cluster reader req w =
     (case rq_Object req of
        Inl e \<Rightarrow> (Errored StatusBadRequest e, w)
      | Inr mc \<Rightarrow>
          (case validate_fleet_cluster mc of
             Some e \<Rightarrow> (Denied e, w)
           | None \<Rightarrow>
               (case reader of
                  None \<Rightarrow> (Allowed [], w)
                | Some kb \<Rightarrow> (case validate_fleet_cluster_substrate_ref kb mc w of (warnings, w') \<Rightarrow> (Allowed warnings, w')))))"

section \<open>Triggers\<close>

definition validate_positive_duration :: "validation_lib \<Rightarrow> string \<Rightarrow> string \<Rightarrow> go_error option" where
  "validate_positive_duration vl path value =
     (case parse_duration value of
        None \<Rightarrow> Some (path @ '' must parse as a duration: '' @ vl_DurationError vl value)
      | Some parsed \<Rightarrow> fail_if (parsed \<le> 0) (path @ '' must be greater than 0''))"

definition validate_trigger_source :: "trigger_source \<Rightarrow> go_error option" where
  "validate_trigger_source src =
     (if trs_Type src = [] then Some ''spec.source.type is required''
      else if trs_Type src = ''oci'' then
        (case trs_OCI src of
           None \<Rightarrow> Some ''spec.source.oci is required when type=oci''
         | Some oci \<Rightarrow>
             and_then (fail_if (oci_Repository oci = []) ''spec.source.oci.repository is required'')
               (fail_if (oci_TagPattern oci = []) ''spec.source.oci.tagPattern is required''))
      else Some (''spec.source.type '' @ go_quote (trs_Type src) @ '' is unsupported (built-in: oci)''))"

definition validate_promotion_trigger :: "validation_lib \<Rightarrow> trigger_spec \<Rightarrow> go_error option" where
  "validate_promotion_trigger vl spec =
     (let src = trg_Source spec; tmpl = trg_Template spec
      in and_then (validate_trigger_source src)
        (and_then (fail_if (tt_DeliveryUnitRef tmpl = []) ''spec.promotionTemplate.deliveryUnitRef is required'')
        (and_then (fail_if (tt_FleetRef tmpl = []) ''spec.promotionTemplate.fleetRef is required'')
        (and_then (fail_if (trg_MaxActive spec \<noteq> 0 \<and> trg_MaxActive spec < 1) ''spec.maxActive must be at least 1 when set'')
        (and_then (if trg_Cooldown spec \<noteq> [] then validate_positive_duration vl ''spec.cooldown'' (trg_Cooldown spec) else None)
        (and_then (case trs_OCI src of
             Some oci \<Rightarrow> (if oci_PollInterval oci \<noteq> []
                          then validate_positive_duration vl ''spec.source.oci.pollInterval'' (oci_PollInterval oci) else None)
           | None \<Rightarrow> None)
        (first_error (\<lambda>(i, ref). fail_if (pr_Name ref = []) (at_index ''spec.promotionTemplate.plans'' i @ ''.name is required''))
           (enumerate 0 (tt_Plans tmpl)))))))))"

definition handle_trigger :: "validation_lib \<Rightarrow> trigger admission_request \<Rightarrow> trigger admission_response" where
  "handle_trigger vl req =
     (case rq_Object req of
        Inl e \<Rightarrow> Errored StatusBadRequest e
      | Inr t \<Rightarrow>
          deny_or_allow (and_then (validate_promotion_trigger vl (tr_Spec t))
            (team_on_create vl req (om_Labels (tr_Meta t)))))"

section \<open>Delivery units\<close>

fun check_units :: "nat \<Rightarrow> source_unit list \<Rightarrow> (string \<times> nat) list \<Rightarrow> go_error option" where
  "check_units i [] seen = None"
| "check_units i (u # us) seen =
     (let name = trim_space (un_Name u); path = at_index ''deliveryunit.spec.source.units'' i
      in if name = [] then Some (path @ ''.name must be non-empty'')
         else if name \<noteq> un_Name u then Some (path @ ''.name must not have leading or trailing whitespace'')
         else case map_of seen name of
           Some first \<Rightarrow>
             Some (path @ ''.name duplicates '' @ at_index ''spec.source.units'' first @ ''.name '' @ go_quote name)
         | None \<Rightarrow> check_units (Suc i) us ((name, i) # seen))"

definition trigger_suffix :: "delivery_unit_trigger \<Rightarrow> string" where
  "trigger_suffix t = (if trim_space (dut_Name t) = [] then ''default'' else trim_space (dut_Name t))"

definition derived_trigger_name :: "delivery_unit \<Rightarrow> delivery_unit_trigger \<Rightarrow> string" where
  "derived_trigger_name du t = du_Name du @ ''-'' @ trigger_suffix t"

fun join_semicolon :: "string list \<Rightarrow> string" where
  "join_semicolon [] = []"
| "join_semicolon [x] = x"
| "join_semicolon (x # y # xs) = x @ ''; '' @ join_semicolon (y # xs)"

text \<open>The trigger spec that the validator builds to check an entry of \<^verbatim>\<open>spec.triggers\<close>.\<close>

definition checked_trigger :: "delivery_unit \<Rightarrow> string \<Rightarrow> delivery_unit_trigger \<Rightarrow> trigger_spec" where
  "checked_trigger du fleetRef t =
     \<lparr>trg_Suspended = None, trg_Source = dut_Source t,
      trg_Template = \<lparr>tt_DeliveryUnitRef = du_Name du, tt_FleetRef = fleetRef,
        tt_PlanRef = first_non_empty [dut_PlanRef t, dus_DefaultPlanRef (du_Spec du)], tt_NameTemplate = [], tt_Plans = [],
        tt_Suspended = dut_Suspended t, tt_Scope = None, tt_Timeout = [], tt_Labels = copy_string_map (dut_Labels t),
        tt_Annotations = copy_string_map (dut_Annotations t)\<rparr>,
      trg_Cooldown = dut_Cooldown t, trg_MaxActive = dut_MaxActive t, trg_DryRun = dut_DryRun t,
      trg_Parameters = copy_string_map (dut_Parameters t)\<rparr>"

fun check_unit_triggers ::
  "validation_lib \<Rightarrow> delivery_unit \<Rightarrow> nat \<Rightarrow> delivery_unit_trigger list \<Rightarrow> (string \<times> nat) list \<Rightarrow> go_error option" where
  "check_unit_triggers vl du i [] seen = None"
| "check_unit_triggers vl du i (t # ts) seen =
     (let path = at_index ''deliveryunit.spec.triggers'' i; suffix = trigger_suffix t; derivedName = derived_trigger_name du t;
          fleetRef = first_non_empty [dut_FleetRef t, dus_DefaultFleetRef (du_Spec du)]
      in if vl_DNS1123Label vl suffix \<noteq> []
         then Some (path @ ''.name must be a DNS-1123 label: '' @ join_semicolon (vl_DNS1123Label vl suffix))
         else if vl_DNS1123Subdomain vl derivedName \<noteq> []
         then Some (path @ ''.name derives invalid Trigger name '' @ go_quote derivedName @ '': '' @
                    join_semicolon (vl_DNS1123Subdomain vl derivedName))
         else case map_of seen derivedName of
           Some first \<Rightarrow>
             Some (path @ ''.name derives duplicate Trigger '' @ go_quote derivedName @ '' also declared by '' @
                   at_index ''spec.triggers'' first)
         | None \<Rightarrow>
             (if fleetRef = [] then Some (path @ ''.fleetRef requires fleetRef or spec.defaultFleetRef'')
              else case validate_promotion_trigger vl (checked_trigger du fleetRef t) of
                Some e \<Rightarrow> Some (path @ '': '' @ e)
              | None \<Rightarrow> check_unit_triggers vl du (Suc i) ts ((derivedName, i) # seen)))"

definition validate_delivery_unit :: "validation_lib \<Rightarrow> delivery_unit \<Rightarrow> go_error option" where
  "validate_delivery_unit vl du =
     (if du_Name du = [] then Some ''deliveryunit.metadata.name must be non-empty''
      else if srs_Units (dus_Source (du_Spec du)) = []
      then Some ''deliveryunit.spec.source.units must include at least one unit''
      else and_then
        (if dus_Triggers (du_Spec du) \<noteq> [] then
           (case require_team_label vl (om_Labels (du_Meta du)) of
              Some e \<Rightarrow> Some (''deliveryunit with spec.triggers requires '' @ LabelKaproTeam @ '': '' @ e)
            | None \<Rightarrow> None) else None)
        (and_then (check_units 0 (srs_Units (dus_Source (du_Spec du))) [])
          (check_unit_triggers vl du 0 (dus_Triggers (du_Spec du)) [])))"

text \<open>The reads of the conflict check.\<close>

record 'w unit_reader =
  ur_GetSource :: "string \<Rightarrow> 'w \<Rightarrow> (api_error + source) \<times> 'w"
  ur_GetTrigger :: "string \<Rightarrow> 'w \<Rightarrow> (api_error + trigger) \<times> 'w"

text \<open>Here an owner must carry the UID of the unit; the controller is laxer.\<close>

definition is_owned_by_delivery_unit :: "object_meta \<Rightarrow> delivery_unit \<Rightarrow> bool" where
  "is_owned_by_delivery_unit obj du \<longleftrightarrow>
     list_ex (\<lambda>ref. orf_APIVersion ref = kaproGroupVersion \<and> orf_Kind ref = ''DeliveryUnit'' \<and> orf_Name ref = du_Name du \<and>
         om_UID (du_Meta du) \<noteq> [] \<and> orf_UID ref = om_UID (du_Meta du))
       (om_OwnerReferences obj)"

fun check_trigger_conflicts ::
  "'w unit_reader \<Rightarrow> delivery_unit \<Rightarrow> delivery_unit_trigger list \<Rightarrow> 'w \<Rightarrow> go_error option \<times> 'w" where
  "check_trigger_conflicts rd du [] w = (None, w)"
| "check_trigger_conflicts rd du (t # ts) w =
     (let name = derived_trigger_name du t
      in case ur_GetTrigger rd name w of
           (Inl e, w') \<Rightarrow>
             (if is_not_found e then check_trigger_conflicts rd du ts w'
              else (Some (''deliveryunit trigger conflict lookup failed for '' @ go_quote name @ '': '' @ api_error_text e), w'))
         | (Inr existing, w') \<Rightarrow>
             (if is_owned_by_delivery_unit (tr_Meta existing) du then check_trigger_conflicts rd du ts w'
              else (Some (''deliveryunit trigger '' @ go_quote name @
                '' conflicts with an existing Trigger that is not owned by this DeliveryUnit''), w')))"

definition validate_derived_object_conflicts ::
  "'w unit_reader \<Rightarrow> delivery_unit \<Rightarrow> 'w \<Rightarrow> go_error option \<times> 'w" where
  "validate_derived_object_conflicts rd du w =
     (case ur_GetSource rd (du_Name du) w of
        (Inl e, w') \<Rightarrow>
          (if is_not_found e then check_trigger_conflicts rd du (dus_Triggers (du_Spec du)) w'
           else (Some (''deliveryunit source conflict lookup failed: '' @ api_error_text e), w'))
      | (Inr source, w') \<Rightarrow>
          (if is_owned_by_delivery_unit (src_Meta source) du
           then check_trigger_conflicts rd du (dus_Triggers (du_Spec du)) w'
           else (Some (''deliveryunit.metadata.name '' @ go_quote (du_Name du) @
             '' conflicts with an existing Source that is not owned by this DeliveryUnit''), w')))"

definition handle_delivery_unit ::
  "validation_lib \<Rightarrow> 'w unit_reader option \<Rightarrow> delivery_unit admission_request \<Rightarrow> 'w \<Rightarrow>
    delivery_unit admission_response \<times> 'w" where
  "handle_delivery_unit vl reader req w =
     (case rq_Object req of
        Inl e \<Rightarrow> (Errored StatusBadRequest e, w)
      | Inr du \<Rightarrow>
          (case validate_delivery_unit vl du of
             Some e \<Rightarrow> (Denied e, w)
           | None \<Rightarrow>
               (case reader of
                  None \<Rightarrow> (Allowed [], w)
                | Some rd \<Rightarrow> map_prod deny_or_allow id (validate_derived_object_conflicts rd du w))))"

end
