(* ===== verification/Admission_Properties.thy ===== *)
theory Admission_Properties
  imports Admission Run_Sample Promotion_Controller
begin

text \<open>
  The admission webhooks: the DAG checks accept exactly the proper DAGs, so an admitted run always
  has an eligible plan and an admitted plan never fails to resolve; an approval keeps the name of
  its author and a run its plans over any sequence of admitted writes.
\<close>

section \<open>Proper DAGs\<close>

text \<open>What a list of named nodes must be: names set and unique, dependencies inside, no cycle.\<close>

definition proper_dag :: "('n \<Rightarrow> string) \<Rightarrow> ('n \<Rightarrow> string list) \<Rightarrow> 'n list \<Rightarrow> bool" where
  "proper_dag nm dp nodes \<longleftrightarrow>
     nodes \<noteq> [] \<and> (\<forall>x \<in> set nodes. nm x \<noteq> []) \<and> distinct (map nm nodes)
     \<and> (\<forall>x \<in> set nodes. set (dp x) \<subseteq> nm ` set nodes)
     \<and> acyclic {(nm x, d) | x d. x \<in> set nodes \<and> d \<in> set (dp x)}"

text \<open>An order in which Go may visit the keys of a map.\<close>

definition map_order :: "(string list \<Rightarrow> string list) \<Rightarrow> bool" where
  "map_order ord \<longleftrightarrow> (\<forall>ks. mset (ord ks) = mset ks)"

lemma map_order_set: "map_order ord \<Longrightarrow> set (ord ks) = set ks"
  unfolding map_order_def by (metis mset_eq_setD)

lemma map_order_id: "map_order (\<lambda>ks. ks)" "map_order rev"
  by (simp_all add: map_order_def)

definition inner_edges :: "string set \<Rightarrow> (string \<Rightarrow> string list) \<Rightarrow> (string \<times> string) set" where
  "inner_edges V deps = {(x, d). x \<in> V \<and> d \<in> set (deps x)}"

lemma inner_trancl:
  assumes closed: "dep_closed V deps"
  shows "(x, y) \<in> (dep_edges deps)\<^sup>+ \<Longrightarrow> x \<in> V \<Longrightarrow> (x, y) \<in> (inner_edges V deps)\<^sup>+ \<and> y \<in> V"
proof (induction rule: trancl_induct)
  case (base y)
  then show ?case using closed by (auto simp: inner_edges_def dep_closed_def edges_iff)
next
  case (step y z)
  then have "(y, z) \<in> inner_edges V deps" "z \<in> V"
    using closed by (auto simp: inner_edges_def dep_closed_def edges_iff)
  then show ?case using step by (meson trancl.trancl_into_trancl)
qed

lemma dag_on_acyclic: "dep_closed V deps \<Longrightarrow> dag_on V deps \<longleftrightarrow> acyclic (inner_edges V deps)"
proof
  have sub: "inner_edges V deps \<subseteq> dep_edges deps" by (auto simp: inner_edges_def dep_edges_def)
  assume "dag_on V deps"
  show "acyclic (inner_edges V deps)"
  proof (rule acyclicI, rule allI, rule notI)
    fix x assume loop: "(x, x) \<in> (inner_edges V deps)\<^sup>+"
    then have "x \<in> V" by (auto dest!: tranclD simp: inner_edges_def)
    with \<open>dag_on V deps\<close> trancl_mono [OF loop sub] show False by (auto simp: dag_on_def)
  qed
next
  assume "dep_closed V deps" "acyclic (inner_edges V deps)"
  then show "dag_on V deps" by (auto simp: dag_on_def acyclic_def dest: inner_trancl)
qed

lemma index_of_zip:
  "distinct names \<Longrightarrow> i < length names \<Longrightarrow> index_of (zip names [0..<length names]) (names ! i) = i"
  by (simp add: index_of_def map_of_zip_nth)

lemma map_of_zip_None: "length xs = length ys \<Longrightarrow> map_of (zip xs ys) k = None \<longleftrightarrow> k \<notin> set xs"
  by (metis map_fst_zip map_of_eq_None_iff set_map)

text \<open>A check over the index of a list with unique names sees the dependencies of the nodes.\<close>

lemma node_deps:
  assumes "distinct (map nm nodes)" "x \<in> set nodes"
  shows "dp (nodes ! index_of (zip (map nm nodes) [0..<length nodes]) (nm x)) = dp x"
proof -
  obtain i where "i < length nodes" "x = nodes ! i" using assms(2) by (auto simp: in_set_conv_nth)
  then show ?thesis using index_of_zip [of "map nm nodes" i] assms(1) by simp
qed

lemma check_cycle_exact:
  assumes "map_order ord" "distinct (map nm nodes)" "\<forall>x \<in> set nodes. set (dp x) \<subseteq> nm ` set nodes"
    and index: "index = zip (map nm nodes) [0..<length nodes]"
  shows "check_cycle what ord index (\<lambda>n. dp (nodes ! index_of index n)) = None \<longleftrightarrow>
    acyclic {(nm x, d) | x d. x \<in> set nodes \<and> d \<in> set (dp x)}"
proof -
  let ?deps = "\<lambda>n. dp (nodes ! index_of index n)" and ?order = "ord (map fst index)"
  have V: "set ?order = nm ` set nodes" using map_order_set [OF assms(1)] index by simp
  have deps: "x \<in> set nodes \<Longrightarrow> ?deps (nm x) = dp x" for x using node_deps [OF assms(2)] index by metis
  have "dep_closed (set ?order) ?deps" unfolding dep_closed_def V using assms(3) deps by auto
  moreover have "inner_edges (set ?order) ?deps = {(nm x, d) | x d. x \<in> set nodes \<and> d \<in> set (dp x)}"
    unfolding inner_edges_def V using deps by force
  ultimately show ?thesis
    using detect_cycle_exact [of ?order ?deps] dag_on_acyclic [of "set ?order" ?deps] unfolding check_cycle_def by auto
qed

text \<open>Work on a proper DAG is never stuck: of the nodes not done one has all its dependencies done.\<close>

lemma proper_dag_source:
  assumes "proper_dag nm dp nodes" "\<exists>x \<in> set nodes. \<not> P (nm x)"
  shows "\<exists>x \<in> set nodes. \<not> P (nm x) \<and> (\<forall>d \<in> set (dp x). P d)"
proof -
  let ?E = "{(nm x, d) | x d. x \<in> set nodes \<and> d \<in> set (dp x)}"
  have "?E \<subseteq> nm ` set nodes \<times> nm ` set nodes" using assms(1) by (auto simp: proper_dag_def)
  then have "finite ?E" using finite_subset by blast
  then have "wf (?E\<inverse>)" using assms(1) by (intro finite_acyclic_wf_converse) (auto simp: proper_dag_def)
  moreover obtain a where "a \<in> {n \<in> nm ` set nodes. \<not> P n}" using assms(2) by blast
  ultimately obtain z where z: "z \<in> {n \<in> nm ` set nodes. \<not> P n}"
      "\<And>y. (y, z) \<in> ?E\<inverse> \<Longrightarrow> y \<notin> {n \<in> nm ` set nodes. \<not> P n}" by (rule wfE_min) blast
  then obtain x where "x \<in> set nodes" "z = nm x" "\<not> P (nm x)" by blast
  moreover have "P d" if "d \<in> set (dp x)" for d
    using z(2) [of d] that calculation assms(1) by (auto simp: proper_dag_def)
  ultimately show ?thesis by blast
qed

section \<open>Stages\<close>

lemma no_empty_image: "[] \<notin> f ` A \<longleftrightarrow> (\<forall>x \<in> A. f x \<noteq> [])"
  by (auto simp: image_iff)

lemma index_stages_iff:
  "index_stages i ss index = Inr index' \<longleftrightarrow>
     [] \<notin> sg_Name ` set ss \<and> distinct (map sg_Name ss) \<and> sg_Name ` set ss \<inter> fst ` set index = {}
     \<and> index' = index @ zip (map sg_Name ss) [i..<i + length ss]"
proof (induction i ss index rule: index_stages.induct)
  case (2 i s ss index)
  have "[i..<i + length (s # ss)] = i # [Suc i..<Suc i + length ss]" by (simp add: upt_rec)
  then show ?case using 2 by (auto simp: map_of_eq_None_iff simp del: upt_Suc)
qed auto

lemma index_plans_iff:
  "index_plans i rs index = Inr index' \<longleftrightarrow>
     [] \<notin> pr_Name ` set rs \<and> [] \<notin> pr_Plan ` set rs \<and> distinct (map pr_Name rs) \<and> pr_Name ` set rs \<inter> fst ` set index = {}
     \<and> index' = index @ zip (map pr_Name rs) [i..<i + length rs]"
proof (induction i rs index rule: index_plans.induct)
  case (2 i r rs index)
  have "[i..<i + length (r # rs)] = i # [Suc i..<Suc i + length rs]" by (simp add: upt_rec)
  then show ?case using 2 by (auto simp: map_of_eq_None_iff simp del: upt_Suc)
qed auto

definition sound_dependency :: "stage_dependency \<Rightarrow> bool" where
  "sound_dependency dep \<longleftrightarrow>
     sd_Strategy dep \<in> {StrategyNone, StrategyAll, StrategyAny} \<and>
     (case sd_RequiredSoakTime dep of None \<Rightarrow> True | Some d \<Rightarrow> 0 \<le> d)"

definition stage_dep_names :: "stage \<Rightarrow> string list" where
  "stage_dep_names s = map sd_Stage (sg_DependsOn s)"

lemma validate_stage_dependency_iff:
  "validate_stage_dependency index name dep = None \<longleftrightarrow>
     sd_Stage dep \<noteq> [] \<and> map_of index (sd_Stage dep) \<noteq> None \<and> sound_dependency dep"
  by (auto simp: validate_stage_dependency_def sound_dependency_def Let_def split: option.splits)

lemma admitted_stages:
  assumes "map_order ord"
  shows "validate_stage_dag ord stages = None \<longleftrightarrow>
    proper_dag sg_Name stage_dep_names stages \<and> (\<forall>s \<in> set stages. \<forall>dep \<in> set (sg_DependsOn s). sound_dependency dep)"
proof (cases "index_stages 0 stages []")
  case (Inl e)
  then have "\<not> ((\<forall>s \<in> set stages. sg_Name s \<noteq> []) \<and> distinct (map sg_Name stages))"
    using index_stages_iff [of 0 stages "[]"] by (fastforce simp: no_empty_image)
  then show ?thesis using Inl by (auto simp: validate_stage_dag_def proper_dag_def)
next
  case (Inr index)
  then have names: "[] \<notin> sg_Name ` set stages" "distinct (map sg_Name stages)"
      "index = zip (map sg_Name stages) [0..<length stages]"
    using index_stages_iff [of 0 stages "[]"] by auto
  have known: "map_of index n = None \<longleftrightarrow> n \<notin> sg_Name ` set stages" for n
    using map_of_zip_None [of "map sg_Name stages" "[0..<length stages]" n] names(3) by simp
  have deps: "stage_deps stages index = (\<lambda>n. stage_dep_names (stages ! index_of index n))"
    by (simp add: fun_eq_iff stage_deps_def stage_dependency_names_def stage_dep_names_def)
  have one: "validate_stage_dependency index n dep = None \<longleftrightarrow> sd_Stage dep \<in> sg_Name ` set stages \<and> sound_dependency dep" for n dep
    using names(1) known [of "sd_Stage dep"] by (cases "sd_Stage dep = []") (simp_all add: validate_stage_dependency_iff)
  let ?deps = "\<forall>s \<in> set stages. \<forall>dep \<in> set (sg_DependsOn s). sound_dependency dep"
  have closed: "(\<forall>s \<in> set stages. \<forall>dep \<in> set (sg_DependsOn s). validate_stage_dependency index (sg_Name s) dep = None) \<longleftrightarrow>
      (\<forall>s \<in> set stages. set (stage_dep_names s) \<subseteq> sg_Name ` set stages) \<and> ?deps"
    unfolding one by (auto simp: stage_dep_names_def)
  have split: "validate_stage_dag ord stages = None \<longleftrightarrow> stages \<noteq> [] \<and>
      (\<forall>s \<in> set stages. \<forall>dep \<in> set (sg_DependsOn s). validate_stage_dependency index (sg_Name s) dep = None) \<and>
      check_cycle ''plan.spec.stages'' ord index (stage_deps stages index) = None"
    using Inr by (simp add: validate_stage_dag_def first_error_None_iff)
  show ?thesis
    unfolding split closed deps proper_dag_def
    using check_cycle_exact [OF assms names(2) _ names(3), of stage_dep_names "''plan.spec.stages''"] names(1,2)
    by (auto simp: no_empty_image)
qed

text \<open>C15. The stage check accepts exactly the proper DAGs whose dependencies have a known strategy and a
  soak time that is not negative, whatever order Go visits its map in: no cycle gets through and
  no acyclic plan is refused.\<close>

theorem admitted_stages_are_exactly_the_dags:
  assumes "map_order ord"
  shows "validate_stage_dag ord stages = None \<longleftrightarrow>
    proper_dag sg_Name stage_dep_names stages \<and> (\<forall>s \<in> set stages. \<forall>dep \<in> set (sg_DependsOn s). sound_dependency dep)"
  using assms by (rule admitted_stages)

text \<open>The two shapes of a run that the check of its versions accepts.\<close>

definition sound_versions :: "promotion_run_spec \<Rightarrow> bool" where
  "sound_versions spec \<longleftrightarrow>
     (prs_Version spec \<noteq> [] \<or> prs_Versions spec \<noteq> []) \<and> (\<forall>(u, v) \<in> set (prs_Versions spec). u \<noteq> [] \<and> v \<noteq> [])"

lemma version_errors_Nil_iff: "version_errors spec = [] \<longleftrightarrow> sound_versions spec"
  by (auto simp: version_errors_def sound_versions_def split: if_splits)

lemma validate_plan_dag_iff:
  assumes "map_order ord"
  shows "validate_plan_dag ord plans = None \<longleftrightarrow> proper_dag pr_Name pr_DependsOn plans \<and> (\<forall>r \<in> set plans. pr_Plan r \<noteq> [])"
proof (cases "index_plans 0 plans []")
  case (Inl e)
  then have "\<not> ((\<forall>r \<in> set plans. pr_Name r \<noteq> []) \<and> (\<forall>r \<in> set plans. pr_Plan r \<noteq> []) \<and> distinct (map pr_Name plans))"
    using index_plans_iff [of 0 plans "[]"] by (fastforce simp: no_empty_image)
  then show ?thesis using Inl by (auto simp: validate_plan_dag_def proper_dag_def)
next
  case (Inr index)
  then have names: "[] \<notin> pr_Name ` set plans" "[] \<notin> pr_Plan ` set plans" "distinct (map pr_Name plans)"
      "index = zip (map pr_Name plans) [0..<length plans]"
    using index_plans_iff [of 0 plans "[]"] by auto
  have known: "map_of index n = None \<longleftrightarrow> n \<notin> pr_Name ` set plans" for n
    using map_of_zip_None [of "map pr_Name plans" "[0..<length plans]" n] names(4) by simp
  have deps: "plan_deps plans index = (\<lambda>n. pr_DependsOn (plans ! index_of index n))"
    by (simp add: fun_eq_iff plan_deps_def)
  have closed: "(\<forall>r \<in> set plans. \<forall>dep \<in> set (pr_DependsOn r). map_of index dep \<noteq> None) \<longleftrightarrow>
      (\<forall>r \<in> set plans. set (pr_DependsOn r) \<subseteq> pr_Name ` set plans)"
    using known by auto
  have split: "validate_plan_dag ord plans = None \<longleftrightarrow> plans \<noteq> [] \<and>
      (\<forall>r \<in> set plans. \<forall>dep \<in> set (pr_DependsOn r). map_of index dep \<noteq> None) \<and>
      check_cycle ''promotionRun.spec.plans'' ord index (plan_deps plans index) = None"
    using Inr by (simp add: validate_plan_dag_def first_error_None_iff)
  show ?thesis
    unfolding split closed deps proper_dag_def
    using check_cycle_exact [OF assms names(3) _ names(4), of pr_DependsOn "''promotionRun.spec.plans''"] names(1,2,3)
    by (auto simp: no_empty_image)
qed

lemma validate_promotion_run_iff:
  "map_order ord \<Longrightarrow> validate_promotion_run vl ord r = None \<longleftrightarrow>
     sound_versions (run_Spec r) \<and> proper_dag pr_Name pr_DependsOn (prs_Plans (run_Spec r)) \<and>
     (\<forall>ref \<in> set (prs_Plans (run_Spec r)). pr_Plan ref \<noteq> [])"
  by (simp add: validate_promotion_run_def version_errors_Nil_iff validate_plan_dag_iff)

text \<open>Sample stages: a diamond, and the same with a cycle.\<close>

definition stage_after :: "string \<Rightarrow> string list \<Rightarrow> stage" where
  "stage_after name deps = canary_stage\<lparr>sg_Name := name,
     sg_DependsOn := map (\<lambda>d. \<lparr>sd_Stage = d, sd_RequiredSoakTime = None, sd_Strategy = StrategyNone\<rparr>) deps\<rparr>"

definition diamond :: "stage list" where
  "diamond = [stage_after ''a'' [], stage_after ''b'' [''a''], stage_after ''c'' [''a''], stage_after ''d'' [''b'', ''c'']]"

definition looped :: "stage list" where
  "looped = [stage_after ''a'' [''b''], stage_after ''b'' [''a'']]"

lemma stage_after_simps [simp]:
  "sg_Name (stage_after n ds) = n" "stage_dep_names (stage_after n ds) = ds"
  "stage_dependency_names (sg_DependsOn (stage_after n ds)) = ds"
  by (simp_all add: stage_after_def stage_dep_names_def stage_dependency_names_def comp_def)

theorem admitted_stages_are_exactly_the_dags_witness:
  "proper_dag sg_Name stage_dep_names diamond \<and>
   \<not> (proper_dag sg_Name stage_dep_names looped \<and> list_all (\<lambda>s. list_all sound_dependency (sg_DependsOn s)) looped)"
proof -
  have "validate_stage_dag rev diamond = None" by code_simp
  moreover have "validate_stage_dag rev looped \<noteq> None" by code_simp
  ultimately show ?thesis
    using admitted_stages_are_exactly_the_dags [OF map_order_id(2)] by (simp add: list_all_iff)
qed

section \<open>What admission buys the run controller\<close>

text \<open>C31. An admitted run is never stuck on its DAG: as long as a plan row is not Complete and none is
  Failed, some plan is eligible, and the pass that reaches it and reads its plan object in the
  generation it started with reconciles its stages.\<close>

theorem admitted_run_always_has_an_eligible_plan:
  assumes "map_order ord" and "validate_promotion_run vl ord run = None"
    and "\<exists>ref \<in> set (prs_Plans (run_Spec run)). pp_Phase (plan_progress_of run (pr_Name ref)) \<noteq> ''Complete''"
    and "\<forall>ref \<in> set (prs_Plans (run_Spec run)). pp_Phase (plan_progress_of run (pr_Name ref)) \<noteq> ''Failed''"
  shows "\<exists>ref \<in> set (prs_Plans (run_Spec run)). pp_Phase (plan_progress_of run (pr_Name ref)) \<noteq> ''Complete'' \<and>
    (\<forall>env acc s plan w. kb_GetPlan (rv_Kube env) (pr_Plan ref) (rk_World s) = (Inr plan, w) \<longrightarrow>
       pp_ObservedGeneration (plan_progress_of run (pr_Name ref)) \<in> {0, om_Generation (pl_Meta plan)} \<longrightarrow>
       reconcile_plan_node env run ref acc s = reconcile_eligible_plan env run ref plan acc (run_world w s))"
proof -
  have "proper_dag pr_Name pr_DependsOn (prs_Plans (run_Spec run))"
    using assms(1,2) by (simp add: validate_promotion_run_iff)
  from proper_dag_source [OF this assms(3)] obtain ref where ref: "ref \<in> set (prs_Plans (run_Spec run))"
      "pp_Phase (plan_progress_of run (pr_Name ref)) \<noteq> ''Complete''"
      "\<forall>d \<in> set (pr_DependsOn ref). pp_Phase (plan_progress_of run d) = ''Complete''" by blast
  then have "\<not> list_ex (\<lambda>dep. pp_Phase (plan_progress_of run dep) \<noteq> ''Complete'') (pr_DependsOn ref)"
    by (simp add: list_ex_iff)
  with ref(1,2) assms(4) show ?thesis
    by (intro bexI [of _ ref]) (auto simp: reconcile_plan_node_def Let_def)
qed

definition fan_out_run :: promotion_run where
  "fan_out_run = sample_run\<lparr>run_Spec := (run_Spec sample_run)\<lparr>prs_Plans :=
     [\<lparr>pr_Name = ''eu'', pr_Plan = ''plan'', pr_DependsOn = [''canary'']\<rparr>,
      \<lparr>pr_Name = ''canary'', pr_Plan = ''plan'', pr_DependsOn = []\<rparr>]\<rparr>\<rparr>"

definition sample_validation :: validation_lib where
  "sample_validation = \<lparr>vl_Aggregate = (\<lambda>es. ''invalid''), vl_FieldErrorText = (\<lambda>e. ''required''),
     vl_DNS1123Label = (\<lambda>s. []), vl_DNS1123Subdomain = (\<lambda>s. []), vl_DurationError = (\<lambda>s. ''invalid'')\<rparr>"

theorem admitted_run_always_has_an_eligible_plan_witness:
  "\<exists>ref. ref \<in> set (prs_Plans (run_Spec fan_out_run)) \<and> pp_Phase (plan_progress_of fan_out_run (pr_Name ref)) \<noteq> ''Complete''"
proof -
  have "validate_promotion_run sample_validation rev fan_out_run = None" by code_simp
  moreover have "list_ex (\<lambda>ref. pp_Phase (plan_progress_of fan_out_run (pr_Name ref)) \<noteq> ''Complete'') (prs_Plans (run_Spec fan_out_run))"
    by code_simp
  moreover have "list_all (\<lambda>ref. pp_Phase (plan_progress_of fan_out_run (pr_Name ref)) \<noteq> ''Failed'') (prs_Plans (run_Spec fan_out_run))"
    by code_simp
  ultimately show ?thesis
    using admitted_run_always_has_an_eligible_plan [OF map_order_id(2)] unfolding list_ex_iff list_all_iff by blast
qed

lemma resolve_metrics_known:
  "(\<forall>m \<in> set ms. mg_Preset m = [] \<or> map_of presets (mg_Preset m) \<noteq> None) \<Longrightarrow>
   \<exists>r. resolve_metrics name presets i ms = Inr r"
  by (induction name presets i ms rule: resolve_metrics.induct) (auto split: option.splits)

lemma enumerate_at:
  assumes "x \<in> set xs"
  obtains i where "(i, x) \<in> set (enumerate 0 xs)"
proof -
  have "x \<in> set (map snd (enumerate 0 xs))" using assms by simp
  then show thesis using that by (auto simp del: map_snd_enumerate)
qed

lemma admitted_presets_known:
  assumes "validate_metric_presets p = None" "stage \<in> set (pl_Stages p)" "sg_Gate stage = Some gate"
    and "m \<in> set (g_Metrics (pol_Gate gate))"
  shows "mg_Preset m = [] \<or> map_of (pl_MetricPresets p) (mg_Preset m) \<noteq> None"
proof -
  obtain i where "(i, stage) \<in> set (enumerate 0 (pl_Stages p))" using assms(2) by (rule enumerate_at)
  then have "first_error (validate_stage_metric (pl_MetricPresets p) i) (enumerate 0 (g_Metrics (pol_Gate gate))) = None"
    using assms(1,3) by (force simp: validate_metric_presets_def first_error_None_iff)
  moreover obtain j where "(j, m) \<in> set (enumerate 0 (g_Metrics (pol_Gate gate)))" using assms(4) by (rule enumerate_at)
  ultimately have "validate_stage_metric (pl_MetricPresets p) i (j, m) = None" by (auto simp: first_error_None_iff)
  then show ?thesis by (auto simp: validate_stage_metric_def Let_def split: if_splits)
qed

lemma sound_dependency_verdict: "sound_dependency dep \<Longrightarrow> dependency_verdict dep names now entries \<noteq> Inl e"
  by (auto simp: dependency_verdict_def sound_dependency_def Let_def split: sum.splits dependency_strategy.splits prod.splits)

text \<open>An admitted plan never stops a run by its own text: the gate of every stage resolves, and the
  check of a dependency fails only when the targets of the stage it names cannot be listed.\<close>

theorem admitted_plan_always_resolves:
  assumes "map_order ord" and "validate_promotion_plan ord p = None" and stage: "stage \<in> set (pl_Stages p)"
  shows "(\<exists>gate. resolve_stage_gate p stage = Inr gate) \<and>
    (\<forall>env ref dep s e s'. dep \<in> set (sg_DependsOn stage) \<longrightarrow> stage_dependency_satisfied env ref p dep s = (Inl e, s') \<longrightarrow>
      (\<exists>depStage cause. promotionplan_stage_by_name p (sd_Stage dep) = Some depStage \<and>
         fst (plan_targets_for_stage env ref p depStage s) = Inl cause))"
proof (intro conjI allI impI)
  have presets: "validate_metric_presets p = None" and dag: "validate_stage_dag ord (pl_Stages p) = None"
    using assms(2) by (simp_all add: validate_promotion_plan_def)
  show "\<exists>gate. resolve_stage_gate p stage = Inr gate"
  proof (cases "sg_Gate stage")
    case (Some gate)
    then obtain r where
      "resolve_metrics (sg_Name stage) (pl_MetricPresets p) 0 (g_Metrics (pol_Gate gate)) = Inr r"
      using resolve_metrics_known admitted_presets_known [OF presets stage Some] by blast
    then show ?thesis using Some by (simp add: resolve_stage_gate_def)
  qed (simp add: resolve_stage_gate_def)
  fix env ref dep s e s'
  assume dep: "dep \<in> set (sg_DependsOn stage)" and failed: "stage_dependency_satisfied env ref p dep s = (Inl e, s')"
  have proper: "proper_dag sg_Name stage_dep_names (pl_Stages p)" and "sound_dependency dep"
    using dag dep stage admitted_stages [OF assms(1)] by blast+
  then have verdict: "dependency_verdict dep names now entries \<noteq> Inl c" for names now entries c
    by (simp add: sound_dependency_verdict)
  have "sd_Stage dep \<in> sg_Name ` set (pl_Stages p)"
    using proper stage dep by (force simp: proper_dag_def stage_dep_names_def)
  then obtain depStage where found: "promotionplan_stage_by_name p (sd_Stage dep) = Some depStage"
    by (cases "promotionplan_stage_by_name p (sd_Stage dep)") (auto simp: promotionplan_stage_by_name_def find_None_iff)
  moreover have "\<exists>cause. fst (plan_targets_for_stage env ref p depStage s) = Inl cause"
  proof (cases "plan_targets_for_stage env ref p depStage s")
    case (Pair r s1)
    then show ?thesis
      using failed found verdict
      by (cases r) (simp_all add: stage_dependency_satisfied_def run_bind_def run_wrap_def Let_def split: if_splits)
  qed
  ultimately show "\<exists>depStage cause. promotionplan_stage_by_name p (sd_Stage dep) = Some depStage \<and>
      fst (plan_targets_for_stage env ref p depStage s) = Inl cause" by blast
qed

theorem admitted_plan_always_resolves_witness:
  "\<exists>gate. resolve_stage_gate sample_plan prod_stage = Inr gate"
proof -
  have "validate_promotion_plan rev sample_plan = None" by code_simp
  moreover have "prod_stage \<in> set (pl_Stages sample_plan)" by (simp add: sample_plan_def)
  ultimately show ?thesis using admitted_plan_always_resolves [OF map_order_id(2)] by blast
qed

section \<open>Approvals over time\<close>

text \<open>What the server stores: the mutator, then the validator on the object it returns.\<close>

definition admitted_approval :: "string \<Rightarrow> approval admission_request \<Rightarrow> approval option" where
  "admitted_approval trusted req =
     (case mutate_approval trusted req of
        Patched a \<Rightarrow> (case handle_approval (req\<lparr>rq_Object := Inr a\<rparr>) of Allowed ws \<Rightarrow> Some a | _ \<Rightarrow> None)
      | _ \<Rightarrow> None)"

text \<open>An approval created by \<open>author\<close> and changed by any sequence of admitted updates of any users.\<close>

inductive stored_approval :: "string \<Rightarrow> string \<Rightarrow> approval \<Rightarrow> bool" for trusted :: string where
  created: "rq_Operation req = OpCreate \<Longrightarrow> admitted_approval trusted req = Some a \<Longrightarrow>
    stored_approval trusted (ui_Username (rq_User req)) a"
| updated: "stored_approval trusted author old \<Longrightarrow> rq_Operation req = OpUpdate \<Longrightarrow> rq_OldObject req = Inr old \<Longrightarrow>
    admitted_approval trusted req = Some a \<Longrightarrow> stored_approval trusted author a"

lemma validate_approval_None_iff:
  "validate_approval a = None \<longleftrightarrow> ap_PromotionRun a \<noteq> [] \<and> ap_Target a \<noteq> [] \<and> ap_Ref a \<noteq> [] \<and> ap_ApprovedBy a \<noteq> []
     \<and> om_Name (ap_Meta a) = approval_name (ap_PromotionRun a) (ap_Ref a)"
  by (auto simp: validate_approval_def Let_def)

lemma admitted_approval_cases:
  assumes "admitted_approval trusted req = Some a"
  shows "mutate_approval trusted req = Patched a \<and> validate_approval a = None"
  using assms by (auto simp: admitted_approval_def handle_approval_def deny_or_allow_def
      split: admission_response.splits option.splits)

lemma mutate_approval_create:
  "mutate_approval trusted req = Patched a \<Longrightarrow> rq_Operation req = OpCreate \<Longrightarrow>
   (ui_Username (rq_User req) \<noteq> trusted \<longrightarrow> ap_ApprovedBy a = ui_Username (rq_User req)) \<and>
   (ap_Bypass a \<longrightarrow> ap_Comment a \<noteq> [])"
  by (auto simp: mutate_approval_def validate_approval_bypass_comment_def fail_if_def Let_def
      split: sum.splits option.splits if_splits)

lemma mutate_approval_update:
  "mutate_approval trusted req = Patched a \<Longrightarrow> rq_Operation req = OpUpdate \<Longrightarrow> rq_OldObject req = Inr old \<Longrightarrow>
   (ap_ApprovedBy old \<noteq> [] \<longrightarrow> ap_ApprovedBy a = ap_ApprovedBy old) \<and> (ap_Bypass a \<longrightarrow> ap_Comment a \<noteq> [])"
  by (auto simp: mutate_approval_def validate_approval_bypass_comment_def fail_if_def Let_def
      split: sum.splits option.splits if_splits)

lemma stored_approval_valid: "stored_approval trusted author a \<Longrightarrow> validate_approval a = None"
  by (induction rule: stored_approval.induct) (auto dest: admitted_approval_cases)

text \<open>C17. An approver cannot be forged. Whoever is not the service account of the operator gets an approval
  in their own name; no later update by anyone changes the name, the approval stays under its
  canonical key, a bypass carries a comment, and a gate with a list of approvers lets it pass only
  when its author is on the list.\<close>

theorem approver_cannot_be_forged:
  assumes "stored_approval trusted author a" and "author \<noteq> trusted"
  shows "ap_ApprovedBy a = author \<and> om_Name (ap_Meta a) = approval_name (ap_PromotionRun a) (ap_Ref a) \<and>
    (ap_Bypass a \<longrightarrow> ap_Comment a \<noteq> []) \<and>
    (\<forall>policy conf. pol_Approval policy = Some conf \<longrightarrow> ac_Approvers conf \<noteq> [] \<longrightarrow> approver_allowed (Some policy) a \<longrightarrow>
       author \<in> set (ac_Approvers conf))"
proof -
  have "ap_ApprovedBy a = author \<and> (ap_Bypass a \<longrightarrow> ap_Comment a \<noteq> [])" using assms
  proof (induction rule: stored_approval.induct)
    case (created req a)
    then show ?case using admitted_approval_cases mutate_approval_create by blast
  next
    case (updated author old req a)
    moreover from this have "ap_ApprovedBy old \<noteq> []"
      using stored_approval_valid validate_approval_None_iff by blast
    ultimately show ?case using admitted_approval_cases [OF updated(4)] mutate_approval_update [of trusted req a old] by auto
  qed
  moreover have "om_Name (ap_Meta a) = approval_name (ap_PromotionRun a) (ap_Ref a)"
    using stored_approval_valid [OF assms(1)] by (simp add: validate_approval_None_iff)
  ultimately show ?thesis by (auto simp: approver_allowed_def list_ex_iff)
qed

definition approval_draft :: approval where
  "approval_draft = \<lparr>ap_Meta = named ''r1-step'', ap_PromotionRun = ''r1'', ap_Target = ''eu-1'', ap_Ref = ''step'',
     ap_ApprovedBy = ''boss'', ap_Bypass = False, ap_Comment = ''ok''\<rparr>"

definition request_by :: "string \<Rightarrow> operation \<Rightarrow> 'o \<Rightarrow> 'o \<Rightarrow> 'o admission_request" where
  "request_by user op old new = \<lparr>rq_Operation = op, rq_User = \<lparr>ui_Username = user, ui_Groups = []\<rparr>,
     rq_Object = Inr new, rq_OldObject = Inr old\<rparr>"

lemma anns_approval:
  "stored_approval ''operator'' ''ann'' (approval_draft\<lparr>ap_ApprovedBy := ''ann''\<rparr>)"
proof -
  have "admitted_approval ''operator'' (request_by ''ann'' OpCreate approval_draft approval_draft) =
      Some (approval_draft\<lparr>ap_ApprovedBy := ''ann''\<rparr>)" by code_simp
  from stored_approval.created [OF _ this] show ?thesis by (simp add: request_by_def)
qed

theorem approver_cannot_be_forged_witness:
  "ap_ApprovedBy approval_draft = ''boss'' \<and> ap_ApprovedBy (approval_draft\<lparr>ap_ApprovedBy := ''ann''\<rparr>) = ''ann''"
  using approver_cannot_be_forged [OF anns_approval] by (simp add: approval_draft_def)

text \<open>The bypass flag is not tied to the author: another user may set it later, in the author's name.\<close>

lemma bypass_set_in_anothers_name:
  "\<exists>a. stored_approval ''operator'' ''ann'' a \<and> ap_ApprovedBy a = ''ann'' \<and> ap_Bypass a \<and>
     admitted_approval ''operator'' (request_by ''bob'' OpUpdate (a\<lparr>ap_Bypass := False\<rparr>) a) = Some a"
proof -
  let ?old = "approval_draft\<lparr>ap_ApprovedBy := ''ann''\<rparr>" and ?new = "approval_draft\<lparr>ap_ApprovedBy := ''ann'', ap_Bypass := True\<rparr>"
  have adm: "admitted_approval ''operator'' (request_by ''bob'' OpUpdate ?old ?new) = Some ?new" by code_simp
  have "stored_approval ''operator'' ''ann'' ?new"
    by (rule stored_approval.updated [OF anns_approval _ _ adm]) (simp_all add: request_by_def)
  moreover have "?new\<lparr>ap_Bypass := False\<rparr> = ?old" by (simp add: approval_draft_def)
  ultimately show ?thesis using adm by (intro exI [of _ ?new]) (simp add: approval_draft_def)
qed

section \<open>Runs over time\<close>

text \<open>A run created by an admitted request and changed by admitted updates. A map read from JSON has
  distinct keys.\<close>

inductive stored_run :: "validation_lib \<Rightarrow> string \<Rightarrow> (string list \<Rightarrow> string list) \<Rightarrow> promotion_run \<Rightarrow> promotion_run \<Rightarrow> bool"
  for vl env ord where
  run_created: "rq_Operation req = OpCreate \<Longrightarrow> rq_Object req = Inr r \<Longrightarrow> wf_map (prs_Versions (run_Spec r)) \<Longrightarrow>
    handle_promotion_run vl env ord req = Allowed [] \<Longrightarrow> stored_run vl env ord r r"
| run_updated: "stored_run vl env ord c old \<Longrightarrow> rq_Operation req = OpUpdate \<Longrightarrow> rq_OldObject req = Inr old \<Longrightarrow>
    rq_Object req = Inr r \<Longrightarrow> wf_map (prs_Versions (run_Spec r)) \<Longrightarrow>
    handle_promotion_run vl env ord req = Allowed [] \<Longrightarrow> stored_run vl env ord c r"

lemma smap_eq_map_of:
  assumes "wf_map a" "wf_map b" "smap_eq a b"
  shows "map_of a = map_of b"
proof -
  have sub: "set a \<subseteq> set b" using assms by (auto simp: smap_eq_def wf_map_def list_all_iff dest: map_of_SomeD)
  have "distinct a" "distinct b" using assms(1,2) by (auto simp: wf_map_def distinct_map)
  then have "card (set a) = card (set b)" using assms(3) by (simp add: smap_eq_def distinct_card)
  then have "set a = set b" using sub by (simp add: card_subset_eq)
  then show ?thesis using assms(1,2) by (auto simp: wf_map_def map_of_inject_set)
qed

lemma handle_promotion_run_allowed:
  assumes "handle_promotion_run vl env ord req = Allowed []" "rq_Object req = Inr r"
  shows "validate_promotion_run vl ord r = None" "team_on_create vl req (om_Labels (run_Meta r)) = None"
    and "rq_Operation req \<in> {OpCreate, OpUpdate} \<Longrightarrow> is_allowed_promotionrun_writer env (rq_User req)"
    and "rq_Operation req = OpUpdate \<Longrightarrow> rq_OldObject req = Inr old \<Longrightarrow> validate_promotion_run_update old r = None"
  using assms by (auto simp: handle_promotion_run_def deny_or_allow_def split: if_splits option.splits)

lemma handle_promotion_run_create_iff:
  assumes "rq_Operation req = OpCreate" "rq_Object req = Inr r" "is_allowed_promotionrun_writer env (rq_User req)"
  shows "handle_promotion_run vl env ord req = Allowed [] \<longleftrightarrow>
    validate_promotion_run vl ord r = None \<and> smap_get (om_Labels (run_Meta r)) LabelKaproTeam \<noteq> []"
proof -
  have "handle_promotion_run vl env ord req = Allowed [] \<longleftrightarrow>
      and_then (validate_promotion_run vl ord r) (team_on_create vl req (om_Labels (run_Meta r))) = None"
    using assms by (cases "and_then (validate_promotion_run vl ord r) (team_on_create vl req (om_Labels (run_Meta r)))")
      (simp_all add: handle_promotion_run_def del: and_then_None_iff)
  then show ?thesis using assms(1) by (simp add: team_on_create_def require_team_label_def)
qed

lemma validate_promotion_run_update_None:
  "validate_promotion_run_update old new = None \<longleftrightarrow>
     prs_Version (run_Spec old) = prs_Version (run_Spec new) \<and> smap_eq (prs_Versions (run_Spec old)) (prs_Versions (run_Spec new))
     \<and> prs_Plans (run_Spec old) = prs_Plans (run_Spec new) \<and> prs_Scope (run_Spec old) = prs_Scope (run_Spec new)"
  by (auto simp: validate_promotion_run_update_def Let_def)

text \<open>C16. What a run promotes is fixed at its creation: over any sequence of admitted updates it keeps its
  version, its versions, its plan DAG and its scope, and the DAG stays a proper one.\<close>

theorem run_intent_is_immutable:
  assumes "stored_run vl env ord c r" and "map_order ord"
  shows "prs_Version (run_Spec r) = prs_Version (run_Spec c) \<and> map_of (prs_Versions (run_Spec r)) = map_of (prs_Versions (run_Spec c))
    \<and> prs_Plans (run_Spec r) = prs_Plans (run_Spec c) \<and> prs_Scope (run_Spec r) = prs_Scope (run_Spec c)
    \<and> sound_versions (run_Spec r) \<and> proper_dag pr_Name pr_DependsOn (prs_Plans (run_Spec r))"
proof -
  have wf: "stored_run vl env ord c r \<Longrightarrow> wf_map (prs_Versions (run_Spec r))" for c r
    by (erule stored_run.cases) auto
  show ?thesis using assms(1)
  proof (induction rule: stored_run.induct)
    case (run_created req r)
    then show ?case
      using handle_promotion_run_allowed(1) [OF run_created(4,2)] by (simp add: validate_promotion_run_iff assms(2))
  next
    case (run_updated c old req r)
    then show ?case
      using handle_promotion_run_allowed(1) [OF run_updated(6,4)] handle_promotion_run_allowed(4) [OF run_updated(6,4), of old]
        wf smap_eq_map_of
      by (auto simp: validate_promotion_run_iff assms(2) validate_promotion_run_update_None)
  qed
qed

lemma operator_run:
  "stored_run sample_validation [] rev
     (fan_out_run\<lparr>run_Meta := (run_Meta fan_out_run)\<lparr>om_Labels := [(LabelKaproTeam, ''checkout'')]\<rparr>\<rparr>)
     (fan_out_run\<lparr>run_Meta := (run_Meta fan_out_run)\<lparr>om_Labels := [(LabelKaproTeam, ''checkout'')]\<rparr>\<rparr>)"
    (is "stored_run _ _ _ ?r _")
proof -
  let ?req = "request_by ''system:serviceaccount:kapro-system:kapro-operator'' OpCreate ?r ?r"
  have "handle_promotion_run sample_validation [] rev ?req = Allowed []" by code_simp
  then show ?thesis
    by (intro stored_run.run_created [of ?req]) (simp_all add: request_by_def fan_out_run_def sample_run_def)
qed

theorem run_intent_is_immutable_witness:
  "proper_dag pr_Name pr_DependsOn (prs_Plans (run_Spec fan_out_run))"
  using run_intent_is_immutable [OF operator_run map_order_id(2)] by simp

section \<open>The attempts of a promotion\<close>

lemma attempt_labels_team: "smap_get (attempt_labels p h) LabelKaproTeam = smap_get (om_Labels (pm_Meta p)) LabelKaproTeam"
  by (simp add: attempt_labels_def Let_def smap_get_set promotion_labels kapro_labels) (simp add: smap_get_def)

lemma proper_default_plan: "name \<noteq> [] \<Longrightarrow> proper_dag pr_Name pr_DependsOn (default_plan name plan)"
  by (simp add: proper_dag_def default_plan_def acyclic_def)

lemma build_run_spec_fields:
  assumes "build_run_spec p parent unit = Inr spec"
  shows "prs_Plans spec = attempt_plans p parent unit" "prs_Plans spec \<noteq> []" "prs_Version spec = pms_Version (pm_Spec p)"
    and "prs_Versions spec = pms_Versions (pm_Spec p)" "prs_Version spec \<noteq> [] \<or> prs_Versions spec \<noteq> []"
  using assms by (auto simp: build_run_spec_def Let_def split: if_splits)

lemma attempt_plans_proper:
  assumes "attempt_plans p parent unit \<noteq> []"
  shows "proper_dag pr_Name pr_DependsOn (attempt_plans p parent unit) \<and> (\<forall>r \<in> set (attempt_plans p parent unit). pr_Plan r \<noteq> []) \<longleftrightarrow>
    (pms_Plans (pm_Spec p) \<noteq> [] \<longrightarrow> proper_dag pr_Name pr_DependsOn (pms_Plans (pm_Spec p)) \<and>
       (\<forall>r \<in> set (pms_Plans (pm_Spec p)). pr_Plan r \<noteq> []))"
proof (cases "pms_Plans (pm_Spec p) = []")
  case True
  then have "proper_dag pr_Name pr_DependsOn (attempt_plans p parent unit)"
    using assms by (auto simp: attempt_plans_def intro: proper_default_plan split: if_splits)
  moreover have "\<forall>r \<in> set (attempt_plans p parent unit). pr_Plan r \<noteq> []"
    using True assms by (auto simp: attempt_plans_def default_plan_def inline_promotion_plan_name_def split: if_splits)
  ultimately show ?thesis using True by simp
qed (simp add: attempt_plans_def)

text \<open>The run that a promotion stamps gets past the webhook exactly when the promotion carries a team
  label, its version map has no empty entry, and the plans it declares itself, if any, form a
  proper DAG of named plan objects. The webhook of runs is the only check: nothing tells the
  author of the promotion earlier.\<close>

theorem stamped_attempt_is_admitted:
  assumes "map_order ord" and spec: "build_run_spec p parent unit = Inr spec" and "is_allowed_promotionrun_writer env user"
    and "om_Labels m = attempt_labels p h"
  shows "handle_promotion_run vl env ord \<lparr>rq_Operation = OpCreate, rq_User = user,
      rq_Object = Inr ((attempt_run p spec h)\<lparr>run_Meta := m\<rparr>), rq_OldObject = old\<rparr> = Allowed [] \<longleftrightarrow>
    smap_get (om_Labels (pm_Meta p)) LabelKaproTeam \<noteq> [] \<and> (\<forall>(u, v) \<in> set (pms_Versions (pm_Spec p)). u \<noteq> [] \<and> v \<noteq> []) \<and>
    (pms_Plans (pm_Spec p) \<noteq> [] \<longrightarrow> proper_dag pr_Name pr_DependsOn (pms_Plans (pm_Spec p)) \<and>
       (\<forall>r \<in> set (pms_Plans (pm_Spec p)). pr_Plan r \<noteq> []))"
proof -
  let ?r = "(attempt_run p spec h)\<lparr>run_Meta := m\<rparr>"
  have "run_Spec ?r = spec" by (simp add: attempt_run_def)
  then have "validate_promotion_run vl ord ?r = None \<longleftrightarrow> (\<forall>(u, v) \<in> set (pms_Versions (pm_Spec p)). u \<noteq> [] \<and> v \<noteq> []) \<and>
      (pms_Plans (pm_Spec p) \<noteq> [] \<longrightarrow> proper_dag pr_Name pr_DependsOn (pms_Plans (pm_Spec p)) \<and>
         (\<forall>r \<in> set (pms_Plans (pm_Spec p)). pr_Plan r \<noteq> []))"
    using build_run_spec_fields [OF spec] attempt_plans_proper [of p parent unit]
    by (simp add: validate_promotion_run_iff assms(1) sound_versions_def)
  then show ?thesis
    using assms(3,4) by (subst handle_promotion_run_create_iff) (auto simp: attempt_labels_team)
qed

definition teamless_promotion :: promotion where
  "teamless_promotion = \<lparr>pm_Meta = named ''app'',
     pm_Spec = \<lparr>pms_DeliveryUnitRef = ''app'', pms_FleetRef = ''prod'', pms_PlanRef = ''plan'', pms_Version = ''v2'',
       pms_Versions = [], pms_Plans = [], pms_Scope = None, pms_Timeout = [], pms_Suspended = False\<rparr>,
     pm_Status = \<lparr>pmst_ObservedGeneration = 0, pmst_Phase = PromotionNone, pmst_ActiveAttemptRef = None,
       pmst_Attempts = [], pmst_ResolvedVersion = [], pmst_Conditions = []\<rparr>\<rparr>"

definition plain_unit :: delivery_unit where
  "plain_unit = \<lparr>du_Meta = named ''app'',
     du_Spec = \<lparr>dus_Source = \<lparr>srs_Units = [\<lparr>un_Name = ''app''\<rparr>], srs_Rest = []\<rparr>, dus_Triggers = [],
       dus_DefaultFleetRef = [], dus_DefaultPlanRef = [], dus_Suspended = False\<rparr>,
     du_Status = \<lparr>dust_ObservedGeneration = 0, dust_SourceRef = [], dust_TriggerRefs = [], dust_Conditions = []\<rparr>\<rparr>"

theorem stamped_attempt_is_admitted_witness:
  "handle_promotion_run sample_validation [] rev
     \<lparr>rq_Operation = OpCreate, rq_User = \<lparr>ui_Username = ''system:serviceaccount:kapro-system:kapro-operator'', ui_Groups = []\<rparr>,
      rq_Object = Inr ((attempt_run teamless_promotion (projr (build_run_spec teamless_promotion
          \<lparr>fl_Name = ''prod'', fl_Suspended = False, fl_PlanStages = []\<rparr> plain_unit)) ''h1'')
        \<lparr>run_Meta := (named ''app-h1'')\<lparr>om_Labels := attempt_labels teamless_promotion ''h1''\<rparr>\<rparr>), rq_OldObject = Inl ''none''\<rparr> \<noteq> Allowed []"
proof -
  let ?fleet = "\<lparr>fl_Name = ''prod'', fl_Suspended = False, fl_PlanStages = []\<rparr>"
  have "\<exists>spec. build_run_spec teamless_promotion ?fleet plain_unit = Inr spec"
    by (simp add: build_run_spec_def attempt_plans_def default_plan_def teamless_promotion_def)
  then obtain spec where spec: "build_run_spec teamless_promotion ?fleet plain_unit = Inr spec" ..
  moreover have "is_allowed_promotionrun_writer [] \<lparr>ui_Username = ''system:serviceaccount:kapro-system:kapro-operator'', ui_Groups = []\<rparr>"
    by code_simp
  ultimately show ?thesis
    using stamped_attempt_is_admitted [OF map_order_id(2) spec] by (simp add: teamless_promotion_def named_def)
qed

end
