(* ===== verification/Delivery_Unit.thy ===== *)
theory Delivery_Unit
  imports Admission Target_Gates
begin

text \<open>
  The delivery unit controller (\<^verbatim>\<open>internal/controller/deliveryunit_controller.go\<close>): it derives one
  source and one trigger per entry of \<^verbatim>\<open>spec.triggers\<close>, prunes the triggers that are no longer
  declared, and suspends the derived triggers of a suspended unit. A reconcile carries the world
  and the log of the writes it sends, in program order; a write is logged whether or not the server
  accepts it. The event recorder is given the message as a format text.
\<close>

section \<open>State\<close>

datatype unit_effect =
    ApplySourceCalled source
  | ApplyTriggerCalled trigger
  | DeleteTriggerCalled string
  | PatchUnitStatusCalled delivery_unit
  | UnitEvent string string string

record 'w unit_tick =
  ut_World :: 'w
  ut_Log :: "unit_effect list"

record 'w unit_env =
  ue_Kube :: "'w kube"
  ue_GetUnit :: "string \<Rightarrow> 'w \<Rightarrow> (api_error + delivery_unit) \<times> 'w"
  ue_GetSource :: "string \<Rightarrow> 'w \<Rightarrow> (api_error + source) \<times> 'w"
  ue_GetTrigger :: "string \<Rightarrow> 'w \<Rightarrow> (api_error + trigger) \<times> 'w"
  ue_ListTriggers :: "smap \<Rightarrow> 'w \<Rightarrow> (api_error + trigger list) \<times> 'w"
  ue_ApplySource :: "source \<Rightarrow> 'w \<Rightarrow> (api_error + source) \<times> 'w"
  ue_ApplyTrigger :: "trigger \<Rightarrow> 'w \<Rightarrow> (api_error + trigger) \<times> 'w"
  ue_DeleteTrigger :: "trigger \<Rightarrow> 'w \<Rightarrow> (api_error + unit) \<times> 'w"
  ue_PatchUnitStatus :: "delivery_unit \<Rightarrow> delivery_unit \<Rightarrow> 'w \<Rightarrow> (api_error + delivery_unit) \<times> 'w"
  ue_SetControllerReference :: "delivery_unit \<Rightarrow> object_meta \<Rightarrow> go_error + object_meta"
  ue_IsControlledBy :: "object_meta \<Rightarrow> delivery_unit \<Rightarrow> bool"
  ue_Recorder :: bool

text \<open>An error that is, or is not, one of the two conflict errors.\<close>

datatype derive_error = NameConflict string | DeriveError string

fun derive_error_text :: "derive_error \<Rightarrow> string" where
  "derive_error_text (NameConflict s) = s"
| "derive_error_text (DeriveError s) = s"

type_synonym ('w, 'a) unit_op = "'w unit_tick \<Rightarrow> (derive_error + 'a) \<times> 'w unit_tick"

definition unit_emit :: "unit_effect \<Rightarrow> 'w unit_tick \<Rightarrow> 'w unit_tick" where
  "unit_emit e s = s\<lparr>ut_Log := ut_Log s @ [e]\<rparr>"

definition unit_world :: "'w \<Rightarrow> 'w unit_tick \<Rightarrow> 'w unit_tick" where
  "unit_world w s = s\<lparr>ut_World := w\<rparr>"

definition unit_call :: "string \<Rightarrow> ('w \<Rightarrow> (api_error + 'a) \<times> 'w) \<Rightarrow> ('w, 'a) unit_op" where
  "unit_call wrap call s =
     (case call (ut_World s) of
        (Inl e, w) \<Rightarrow> (Inl (DeriveError (wrap @ api_error_text e)), unit_world w s)
      | (Inr x, w) \<Rightarrow> (Inr x, unit_world w s))"

definition unit_owner :: "'w unit_env \<Rightarrow> string \<Rightarrow> delivery_unit \<Rightarrow> object_meta \<Rightarrow> ('w, object_meta) unit_op" where
  "unit_owner env wrap du m s =
     (case ue_SetControllerReference env du m of
        Inl e \<Rightarrow> (Inl (DeriveError (wrap @ e)), s)
      | Inr m' \<Rightarrow> (Inr m', s))"

section \<open>Ownership and labels\<close>

definition owned_by_delivery_unit :: "object_meta \<Rightarrow> delivery_unit \<Rightarrow> bool" where
  "owned_by_delivery_unit obj du \<longleftrightarrow>
     list_ex (\<lambda>ref.
         \<not> (orf_APIVersion ref \<noteq> kaproGroupVersion \<or> orf_Kind ref \<noteq> ''DeliveryUnit'' \<or> orf_Name ref \<noteq> du_Name du) \<and>
         \<not> (om_UID (du_Meta du) \<noteq> [] \<and> orf_UID ref \<noteq> om_UID (du_Meta du)))
       (om_OwnerReferences obj)"

definition managed_labels :: "delivery_unit \<Rightarrow> smap" where
  "managed_labels du =
     smap_set LabelManagedBy ManagedByKapro (smap_set LabelUnit (du_Name du) (copy_string_map (om_Labels (du_Meta du))))"

definition derived_selector :: "delivery_unit \<Rightarrow> smap" where
  "derived_selector du = [(LabelUnit, du_Name du), (LabelManagedBy, ManagedByKapro)]"

definition derived_meta :: "string \<Rightarrow> smap \<Rightarrow> smap \<Rightarrow> object_meta" where
  "derived_meta name labels annotations =
     \<lparr>om_Name = name, om_Namespace = [], om_UID = [], om_Generation = 0, om_Labels = labels, om_Annotations = annotations,
      om_OwnerReferences = [], om_Finalizers = [], om_DeletionTimestamp = None, om_CreationTimestamp = go_zero_time\<rparr>"

definition empty_trigger_status :: trigger_status where
  "empty_trigger_status = \<lparr>trt_ObservedGeneration = 0, trt_LastCheckedAt = [], trt_LastTriggeredAt = [],
     trt_LastArtifact = None, trt_ManagedPromotion = [], trt_ActivePromotionRunCount = 0, trt_RecentArtifacts = [],
     trt_Conditions = []\<rparr>"

definition trigger_object :: "object_meta \<Rightarrow> trigger_spec \<Rightarrow> trigger" where
  "trigger_object m spec = \<lparr>tr_Meta = m, tr_Spec = spec, tr_Status = empty_trigger_status\<rparr>"

section \<open>The derived source\<close>

definition apply_source :: "'w unit_env \<Rightarrow> delivery_unit \<Rightarrow> ('w, string) unit_op" where
  "apply_source env du =
     op_bind (unit_owner env ''set DeliveryUnit owner on Source: '' du
         (derived_meta (du_Name du) (managed_labels du) (copy_string_map (om_Annotations (du_Meta du)))))
       (\<lambda>m s. let source = \<lparr>src_Meta = m, src_Spec = dus_Source (du_Spec du)\<rparr>
          in op_bind (unit_call (''apply derived Source '' @ du_Name du @ '': '') (ue_ApplySource env source))
               (\<lambda>stored. op_return (om_Name (src_Meta stored))) (unit_emit (ApplySourceCalled source) s))"

definition reconcile_source :: "'w unit_env \<Rightarrow> delivery_unit \<Rightarrow> ('w, string) unit_op" where
  "reconcile_source env du s =
     (case ue_GetSource env (du_Name du) (ut_World s) of
        (Inl e, w) \<Rightarrow>
          (if is_not_found e then apply_source env du (unit_world w s)
           else (Inl (DeriveError (''get Source '' @ du_Name du @ '' before derivation: '' @ api_error_text e)), unit_world w s))
      | (Inr existing, w) \<Rightarrow>
          (if owned_by_delivery_unit (src_Meta existing) du then apply_source env du (unit_world w s)
           else (Inl (NameConflict (''source name conflict: Source '' @ du_Name du @
                   '' already exists and is not owned by DeliveryUnit '' @ du_Name du)), unit_world w s)))"

section \<open>The derived triggers\<close>

definition derived_template_labels :: "delivery_unit \<Rightarrow> delivery_unit_trigger \<Rightarrow> smap" where
  "derived_template_labels du t =
     smap_set LabelManagedBy ManagedByKapro
       (smap_set LabelUnit (du_Name du)
         (fold (\<lambda>(k, v). smap_set k v) (dut_Labels t) (copy_string_map (om_Labels (du_Meta du)))))"

definition derived_trigger :: "delivery_unit \<Rightarrow> delivery_unit_trigger \<Rightarrow> derive_error + trigger_spec \<times> string" where
  "derived_trigger du t =
     (let name = derived_trigger_name du t;
          fleetRef = first_non_empty [dut_FleetRef t, dus_DefaultFleetRef (du_Spec du)];
          planRef = first_non_empty [dut_PlanRef t, dus_DefaultPlanRef (du_Spec du)]
      in if fleetRef = []
         then Inl (DeriveError (''deliveryunit '' @ du_Name du @ '' trigger '' @ trigger_suffix t @
                '' requires fleetRef or spec.defaultFleetRef''))
         else Inr
           (\<lparr>trg_Suspended = dut_Suspended t, trg_Source = dut_Source t,
             trg_Template = \<lparr>tt_DeliveryUnitRef = du_Name du, tt_FleetRef = fleetRef, tt_PlanRef = planRef,
               tt_NameTemplate = [],
               tt_Plans = (if planRef \<noteq> [] then [\<lparr>pr_Name = ''default'', pr_Plan = planRef, pr_DependsOn = []\<rparr>] else []),
               tt_Suspended = dut_Suspended t, tt_Scope = None, tt_Timeout = [],
               tt_Labels = derived_template_labels du t, tt_Annotations = copy_string_map (dut_Annotations t)\<rparr>,
             trg_Cooldown = dut_Cooldown t, trg_MaxActive = dut_MaxActive t, trg_DryRun = dut_DryRun t,
             trg_Parameters = copy_string_map (dut_Parameters t)\<rparr>, name))"

fun derive_triggers ::
  "delivery_unit \<Rightarrow> delivery_unit_trigger list \<Rightarrow> string list \<Rightarrow> derive_error + (trigger_spec \<times> string) list" where
  "derive_triggers du [] seen = Inr []"
| "derive_triggers du (t # ts) seen =
     sum_bind (derived_trigger du t) (\<lambda>(spec, name).
       if name \<in> set seen
       then Inl (DeriveError (''deliveryunit '' @ du_Name du @ '' has duplicate derived Trigger name '' @ go_quote name))
       else sum_bind (derive_triggers du ts (name # seen)) (\<lambda>rest. Inr ((spec, name) # rest)))"

definition apply_trigger :: "'w unit_env \<Rightarrow> delivery_unit \<Rightarrow> trigger_spec \<Rightarrow> string \<Rightarrow> ('w, unit) unit_op" where
  "apply_trigger env du spec name =
     op_bind (unit_owner env (''set DeliveryUnit owner on Trigger '' @ name @ '': '') du
         (derived_meta name (managed_labels du) (copy_string_map (om_Annotations (du_Meta du)))))
       (\<lambda>m s. let t = trigger_object m spec
          in op_bind (unit_call (''apply derived Trigger '' @ name @ '': '') (ue_ApplyTrigger env t))
               (\<lambda>_. op_return ()) (unit_emit (ApplyTriggerCalled t) s))"

text \<open>The loop that applies the triggers returns the names applied so far along with its error.\<close>

fun apply_triggers ::
  "'w unit_env \<Rightarrow> delivery_unit \<Rightarrow> (trigger_spec \<times> string) list \<Rightarrow> string list \<Rightarrow> 'w unit_tick \<Rightarrow>
    (derive_error option \<times> string list) \<times> 'w unit_tick" where
  "apply_triggers env du [] names s = ((None, names), s)"
| "apply_triggers env du ((spec, name) # rest) names s =
     (let go_on = (\<lambda>s1. case apply_trigger env du spec name s1 of
            (Inl e, s2) \<Rightarrow> ((Some e, names), s2)
          | (Inr u, s2) \<Rightarrow> apply_triggers env du rest (names @ [name]) s2)
      in case ue_GetTrigger env name (ut_World s) of
           (Inl e, w) \<Rightarrow>
             (if is_not_found e then go_on (unit_world w s)
              else ((Some (DeriveError (''get Trigger '' @ name @ '' before derivation: '' @ api_error_text e)), names), unit_world w s))
         | (Inr existing, w) \<Rightarrow>
             (if owned_by_delivery_unit (tr_Meta existing) du then go_on (unit_world w s)
              else ((Some (NameConflict (''trigger name conflict: Trigger '' @ name @
                      '' already exists and is not owned by DeliveryUnit '' @ du_Name du)), names), unit_world w s)))"

definition reconcile_triggers ::
  "'w unit_env \<Rightarrow> delivery_unit \<Rightarrow> 'w unit_tick \<Rightarrow> (derive_error option \<times> string list) \<times> 'w unit_tick" where
  "reconcile_triggers env du s =
     (case derive_triggers du (dus_Triggers (du_Spec du)) [] of
        Inl e \<Rightarrow> ((Some e, []), s)
      | Inr derived \<Rightarrow>
          (case apply_triggers env du derived [] s of
             ((None, names), s') \<Rightarrow> ((None, sort_strings names), s')
           | r \<Rightarrow> r))"

section \<open>Suspending and pruning\<close>

text \<open>\<open>on_derived\<close> lists the derived triggers and runs a step on each that the unit controls.\<close>

fun each_controlled ::
  "'w unit_env \<Rightarrow> delivery_unit \<Rightarrow> (trigger \<Rightarrow> ('w, unit) unit_op) \<Rightarrow> trigger list \<Rightarrow> ('w, unit) unit_op" where
  "each_controlled env du act [] s = (Inr (), s)"
| "each_controlled env du act (t # ts) s =
     (if \<not> ue_IsControlledBy env (tr_Meta t) du then each_controlled env du act ts s
      else op_bind (act t) (\<lambda>_. each_controlled env du act ts) s)"

definition on_derived :: "'w unit_env \<Rightarrow> delivery_unit \<Rightarrow> (trigger \<Rightarrow> ('w, unit) unit_op) \<Rightarrow> ('w, unit) unit_op" where
  "on_derived env du act =
     op_bind (unit_call ''list derived Triggers: '' (ue_ListTriggers env (derived_selector du)))
       (each_controlled env du act)"

definition suspend_trigger :: "'w unit_env \<Rightarrow> delivery_unit \<Rightarrow> trigger \<Rightarrow> ('w, unit) unit_op" where
  "suspend_trigger env du existing s =
     (if trg_Suspended (tr_Spec existing) = Some True then (Inr (), s)
      else op_bind (unit_owner env (''set DeliveryUnit owner on Trigger '' @ tr_Name existing @ '': '') du
             (derived_meta (tr_Name existing) (copy_string_map (om_Labels (tr_Meta existing)))
               (copy_string_map (om_Annotations (tr_Meta existing)))))
           (\<lambda>m s. let t = trigger_object m ((tr_Spec existing)\<lparr>trg_Suspended := Some True\<rparr>)
              in op_bind (unit_call (''suspend derived Trigger '' @ tr_Name existing @ '': '') (ue_ApplyTrigger env t))
                   (\<lambda>_. op_return ()) (unit_emit (ApplyTriggerCalled t) s)) s)"

definition suspend_derived_triggers :: "'w unit_env \<Rightarrow> delivery_unit \<Rightarrow> ('w, unit) unit_op" where
  "suspend_derived_triggers env du = on_derived env du (suspend_trigger env du)"

definition prune_trigger :: "'w unit_env \<Rightarrow> string list \<Rightarrow> trigger \<Rightarrow> ('w, unit) unit_op" where
  "prune_trigger env keep t s =
     (if tr_Name t \<in> set keep then (Inr (), s)
      else case ue_DeleteTrigger env t (ut_World s) of
        (Inl e, w) \<Rightarrow>
          ((if is_not_found e then Inr ()
            else Inl (DeriveError (''delete stale Trigger '' @ tr_Name t @ '': '' @ api_error_text e))),
           unit_world w (unit_emit (DeleteTriggerCalled (tr_Name t)) s))
      | (Inr u, w) \<Rightarrow> (Inr (), unit_world w (unit_emit (DeleteTriggerCalled (tr_Name t)) s)))"

definition prune_stale_triggers :: "'w unit_env \<Rightarrow> delivery_unit \<Rightarrow> string list \<Rightarrow> ('w, unit) unit_op" where
  "prune_stale_triggers env du keep = on_derived env du (prune_trigger env keep)"

section \<open>Status\<close>

definition record_ready_event ::
  "'w unit_env \<Rightarrow> delivery_unit \<Rightarrow> condition option \<Rightarrow> string \<Rightarrow> string \<Rightarrow> string \<Rightarrow> 'w unit_tick \<Rightarrow> 'w unit_tick" where
  "record_ready_event env du previous status reason message s =
     (let unchanged = (case previous of
            None \<Rightarrow> False
          | Some c \<Rightarrow> c_Status c = status \<and> c_Reason c = reason \<and> c_ObservedGeneration c = om_Generation (du_Meta du))
      in if \<not> ue_Recorder env \<or> unchanged then s
         else unit_emit (UnitEvent (if status \<noteq> ''True'' \<and> reason \<noteq> ''Suspended'' then ''Warning'' else ''Normal'')
                reason message) s)"

definition unit_status ::
  "'w unit_env \<Rightarrow> delivery_unit \<Rightarrow> string \<Rightarrow> string list \<Rightarrow> string \<Rightarrow> string \<Rightarrow> string \<Rightarrow> delivery_unit" where
  "unit_status env du sourceName triggerNames status reason message =
     du\<lparr>du_Status := \<lparr>dust_ObservedGeneration = om_Generation (du_Meta du), dust_SourceRef = sourceName,
       dust_TriggerRefs = triggerNames,
       dust_Conditions = kb_SetStatusCondition (ue_Kube env)
         \<lparr>c_Type = ''Ready'', c_Status = status, c_Reason = reason, c_Message = message,
          c_ObservedGeneration = om_Generation (du_Meta du), c_LastTransitionTime = go_zero_time\<rparr>
         (dust_Conditions (du_Status du))\<rparr>\<rparr>"

text \<open>
  \<^verbatim>\<open>previous\<close> is the pointer that \<^verbatim>\<open>FindStatusCondition\<close> returns into the list of conditions, and
  \<^verbatim>\<open>SetStatusCondition\<close> updates the fields of an entry that exists in place. When the event is recorded
  the pointer therefore reads the entry as it was set; only where there was none it is nil.
\<close>

definition entry_after_set :: "'w kube \<Rightarrow> condition list \<Rightarrow> condition list \<Rightarrow> string \<Rightarrow> condition option" where
  "entry_after_set kb old new typ =
     (case kb_FindStatusCondition kb old typ of None \<Rightarrow> None | Some c \<Rightarrow> kb_FindStatusCondition kb new typ)"

definition patch_unit_status ::
  "'w unit_env \<Rightarrow> delivery_unit \<Rightarrow> string \<Rightarrow> string list \<Rightarrow> string \<Rightarrow> string \<Rightarrow> string \<Rightarrow>
    'w unit_tick \<Rightarrow> (go_error + ctrl_result) \<times> 'w unit_tick" where
  "patch_unit_status env du sourceName triggerNames status reason message s =
     (let du' = unit_status env du sourceName triggerNames status reason message;
          previous = entry_after_set (ue_Kube env) (dust_Conditions (du_Status du)) (dust_Conditions (du_Status du')) ''Ready'';
          s1 = unit_emit (PatchUnitStatusCalled du') s
      in case ue_PatchUnitStatus env du du' (ut_World s1) of
           (Inl e, w) \<Rightarrow> (Inl (''patch DeliveryUnit status: '' @ api_error_text e), unit_world w s1)
         | (Inr stored, w) \<Rightarrow>
             (Inr (if status \<noteq> ''True'' \<and> reason \<noteq> ''Suspended'' then requeue_after requeueNormal else no_requeue),
              record_ready_event env stored previous status reason message (unit_world w s1)))"

section \<open>The reconcile\<close>

definition conflict_reason :: "derive_error \<Rightarrow> string \<Rightarrow> string \<Rightarrow> string" where
  "conflict_reason e conflict other = (case e of NameConflict t \<Rightarrow> conflict | DeriveError t \<Rightarrow> other)"

definition reconcile_suspended_unit ::
  "'w unit_env \<Rightarrow> delivery_unit \<Rightarrow> 'w unit_tick \<Rightarrow> (go_error + ctrl_result) \<times> 'w unit_tick" where
  "reconcile_suspended_unit env du s =
     (let patch = patch_unit_status env du (dust_SourceRef (du_Status du)) (dust_TriggerRefs (du_Status du)) ''False''
      in case suspend_derived_triggers env du s of
           (Inl e, s1) \<Rightarrow> patch ''SuspendDerivedTriggersFailed'' (derive_error_text e) s1
         | (Inr u, s1) \<Rightarrow> patch ''Suspended'' ''DeliveryUnit derivation is suspended'' s1)"

definition reconcile_active_unit ::
  "'w unit_env \<Rightarrow> delivery_unit \<Rightarrow> 'w unit_tick \<Rightarrow> (go_error + ctrl_result) \<times> 'w unit_tick" where
  "reconcile_active_unit env du s =
     (case reconcile_source env du s of
        (Inl e, s1) \<Rightarrow>
          patch_unit_status env du [] [] ''False'' (conflict_reason e ''SourceNameConflict'' ''SourceDeriveFailed'')
            (derive_error_text e) s1
      | (Inr sourceName, s1) \<Rightarrow>
          (case reconcile_triggers env du s1 of
             ((Some e, triggerNames), s2) \<Rightarrow>
               patch_unit_status env du sourceName triggerNames ''False''
                 (conflict_reason e ''TriggerNameConflict'' ''TriggerDeriveFailed'') (derive_error_text e) s2
           | ((None, triggerNames), s2) \<Rightarrow>
               (case prune_stale_triggers env du triggerNames s2 of
                  (Inl e, s3) \<Rightarrow>
                    patch_unit_status env du sourceName triggerNames ''False'' ''TriggerPruneFailed'' (derive_error_text e) s3
                | (Inr u, s3) \<Rightarrow>
                    patch_unit_status env du sourceName triggerNames ''True'' ''Derived''
                      ''derived Source and Trigger machinery is ready'' s3)))"

definition reconcile_delivery_unit ::
  "'w unit_env \<Rightarrow> string \<Rightarrow> 'w unit_tick \<Rightarrow> (go_error + ctrl_result) \<times> 'w unit_tick" where
  "reconcile_delivery_unit env name s =
     (case ue_GetUnit env name (ut_World s) of
        (Inl e, w) \<Rightarrow> ((if is_not_found e then Inr no_requeue else Inl (api_error_text e)), unit_world w s)
      | (Inr du, w) \<Rightarrow>
          (let s1 = unit_world w s
           in if om_DeletionTimestamp (du_Meta du) \<noteq> None then (Inr no_requeue, s1)
              else if dus_Suspended (du_Spec du) then reconcile_suspended_unit env du s1
              else reconcile_active_unit env du s1))"

end
