(* ===== verification/Effect_Log.thy ===== *)
theory Effect_Log
  imports Trigger_Types
begin

text \<open>
  The logs of the controllers: a step only appends, and every entry it appends satisfies a predicate.
  The locale holds for any state with a log, an operation that appends one entry and one that
  changes the world only; each controller interprets it on its own state.
\<close>

definition log_adds :: "('s \<Rightarrow> 'e list) \<Rightarrow> ('e \<Rightarrow> bool) \<Rightarrow> 's \<Rightarrow> 's \<Rightarrow> bool" where
  "log_adds log_of P s s' \<longleftrightarrow> (\<exists>es. log_of s' = log_of s @ es \<and> list_all P es)"

lemma log_adds_mono: "log_adds f P s s' \<Longrightarrow> (\<And>e. P e \<Longrightarrow> Q e) \<Longrightarrow> log_adds f Q s s'"
  unfolding log_adds_def by (auto simp: list_all_iff)

lemma log_adds_trans: "log_adds f P s t \<Longrightarrow> log_adds f P t u \<Longrightarrow> log_adds f P s u"
  unfolding log_adds_def by auto

lemma log_adds_same: "f s' = f s \<Longrightarrow> log_adds f P s s'"
  by (simp add: log_adds_def)

lemma log_adds_member: "log_adds f P s s' \<Longrightarrow> f s = [] \<Longrightarrow> e \<in> set (f s') \<Longrightarrow> P e"
  by (auto simp: log_adds_def list_all_iff)

lemma log_adds_bind:
  assumes "op_bind m g s = (r, s')"
    and "\<And>r1 s1. m s = (r1, s1) \<Longrightarrow> log_adds f P s s1"
    and "\<And>x s1. m s = (Inr x, s1) \<Longrightarrow> g x s1 = (r, s') \<Longrightarrow> log_adds f P s1 s'"
  shows "log_adds f P s s'"
  using assms by (fastforce simp: op_bind_def intro: log_adds_trans split: prod.splits sum.splits)

locale effect_log =
  fixes log_of :: "'s \<Rightarrow> 'e list" and emit :: "'e \<Rightarrow> 's \<Rightarrow> 's" and at_world :: "'w \<Rightarrow> 's \<Rightarrow> 's"
  assumes log_emit: "log_of (emit e s) = log_of s @ [e]"
    and log_world: "log_of (at_world w s) = log_of s"
begin

lemma adds_refl: "log_adds log_of P s s"
  by (simp add: log_adds_def)

lemma adds_world: "log_adds log_of P s (at_world w s)"
  by (simp add: log_adds_def log_world)

lemma adds_emit: "P e \<Longrightarrow> log_adds log_of P s (emit e s)"
  by (simp add: log_adds_def log_emit)

lemma adds_before: "log_adds log_of P (emit e s) s' \<Longrightarrow> P e \<Longrightarrow> log_adds log_of P s s'"
  by (rule log_adds_trans [OF adds_emit])

lemma adds_after: "log_adds log_of P s s' \<Longrightarrow> P e \<Longrightarrow> log_adds log_of P s (emit e s')"
  by (rule log_adds_trans [OF _ adds_emit])

lemma adds_at: "log_adds log_of P (at_world w s) s' \<longleftrightarrow> log_adds log_of P s s'"
  "log_adds log_of P s (at_world w s') \<longleftrightarrow> log_adds log_of P s s'"
  by (simp_all add: log_adds_def log_world)

end

end
