(* ===== verification/Delivery_Unit_Properties.thy ===== *)
theory Delivery_Unit_Properties
  imports Delivery_Unit Effect_Log Admission_Properties
begin

text \<open>
  Delivery units: the triggers derived from an admitted unit are admitted themselves, the writes of a
  reconcile respect what it does not own, and a pass brings a store of triggers to exactly the
  declared machinery.
\<close>

interpretation unit_log: effect_log ut_Log unit_emit unit_world
  by unfold_locales (simp_all add: unit_emit_def unit_world_def)

section \<open>Admission and derivation agree\<close>

lemma check_unit_triggers_None:
  "check_unit_triggers vl du i ts seen = None \<Longrightarrow>
     (\<forall>t \<in> set ts. first_non_empty [dut_FleetRef t, dus_DefaultFleetRef (du_Spec du)] \<noteq> [] \<and>
        validate_promotion_trigger vl (checked_trigger du (first_non_empty [dut_FleetRef t, dus_DefaultFleetRef (du_Spec du)]) t) = None)
     \<and> distinct (map (derived_trigger_name du) ts) \<and> derived_trigger_name du ` set ts \<inter> fst ` set seen = {}"
proof (induction ts arbitrary: i seen)
  case (Cons t ts)
  from Cons.prems have parts: "map_of seen (derived_trigger_name du t) = None"
      "first_non_empty [dut_FleetRef t, dus_DefaultFleetRef (du_Spec du)] \<noteq> []"
      "validate_promotion_trigger vl (checked_trigger du (first_non_empty [dut_FleetRef t, dus_DefaultFleetRef (du_Spec du)]) t) = None"
    and rest: "check_unit_triggers vl du (Suc i) ts ((derived_trigger_name du t, i) # seen) = None"
    by (auto simp: Let_def simp del: first_non_empty.simps split: if_splits option.splits)
  then show ?case using Cons.IH [OF rest] by (auto simp: map_of_eq_None_iff simp del: first_non_empty.simps)
qed simp

text \<open>The fleet of a derived trigger, and the spec it gets when the fleet is known.\<close>

abbreviation trigger_fleet :: "delivery_unit \<Rightarrow> delivery_unit_trigger \<Rightarrow> string" where
  "trigger_fleet du t \<equiv> first_non_empty [dut_FleetRef t, dus_DefaultFleetRef (du_Spec du)]"

lemma derived_trigger_valid:
  assumes "trigger_fleet du t \<noteq> []" "validate_promotion_trigger vl (checked_trigger du (trigger_fleet du t) t) = None"
  shows "\<exists>spec. derived_trigger du t = Inr (spec, derived_trigger_name du t) \<and> validate_promotion_trigger vl spec = None"
  using assms
  by (auto simp: derived_trigger_def checked_trigger_def validate_promotion_trigger_def Let_def
      simp del: first_non_empty.simps)

lemma derive_triggers_valid:
  assumes "\<forall>t \<in> set ts. trigger_fleet du t \<noteq> [] \<and> validate_promotion_trigger vl (checked_trigger du (trigger_fleet du t) t) = None"
    and "distinct (map (derived_trigger_name du) ts)" "derived_trigger_name du ` set ts \<inter> set seen = {}"
  shows "\<exists>ds. derive_triggers du ts seen = Inr ds \<and> map snd ds = map (derived_trigger_name du) ts \<and>
    (\<forall>(spec, name) \<in> set ds. validate_promotion_trigger vl spec = None)"
  using assms
proof (induction ts arbitrary: seen)
  case (Cons t ts)
  obtain spec where spec: "derived_trigger du t = Inr (spec, derived_trigger_name du t)" "validate_promotion_trigger vl spec = None"
    using derived_trigger_valid [of t du vl] Cons.prems(1) by (auto simp del: first_non_empty.simps)
  have "derived_trigger_name du ` set ts \<inter> set (derived_trigger_name du t # seen) = {}" using Cons.prems(2,3) by auto
  with Cons.IH [of "derived_trigger_name du t # seen"] Cons.prems(1,2) obtain ds where
    "derive_triggers du ts (derived_trigger_name du t # seen) = Inr ds" "map snd ds = map (derived_trigger_name du) ts"
    "\<forall>(spec, name) \<in> set ds. validate_promotion_trigger vl spec = None" by (auto simp del: first_non_empty.simps)
  then show ?case using spec Cons.prems(3) by simp
qed simp

lemma managed_labels_team: "smap_get (managed_labels du) LabelKaproTeam = smap_get (om_Labels (du_Meta du)) LabelKaproTeam"
  by (simp add: managed_labels_def smap_get_set kapro_labels copy_string_map_def)

text \<open>The webhook and the controller of delivery units agree: every trigger derived from an admitted
  unit has the name the webhook checked, no two share one, and each is itself let through by
  the webhook of triggers, the team label included.\<close>

theorem admitted_unit_derives_admitted_triggers:
  assumes "validate_delivery_unit vl du = None"
  shows "\<exists>ds. derive_triggers du (dus_Triggers (du_Spec du)) [] = Inr ds \<and>
    map snd ds = map (derived_trigger_name du) (dus_Triggers (du_Spec du)) \<and> distinct (map snd ds) \<and>
    (\<forall>(spec, name) \<in> set ds. \<forall>m user old. om_Labels m = managed_labels du \<longrightarrow>
       handle_trigger vl \<lparr>rq_Operation = OpCreate, rq_User = user, rq_Object = Inr (trigger_object m spec), rq_OldObject = old\<rparr> = Allowed [])"
proof -
  let ?ts = "dus_Triggers (du_Spec du)"
  have checked: "check_unit_triggers vl du 0 ?ts [] = None"
    and team: "?ts \<noteq> [] \<Longrightarrow> require_team_label vl (om_Labels (du_Meta du)) = None"
    using assms by (auto simp: validate_delivery_unit_def split: if_splits option.splits)
  note ok = check_unit_triggers_None [OF checked]
  then obtain ds where ds: "derive_triggers du ?ts [] = Inr ds" "map snd ds = map (derived_trigger_name du) ?ts"
      "\<forall>(spec, name) \<in> set ds. validate_promotion_trigger vl spec = None"
    using derive_triggers_valid [of ?ts du vl "[]"] by (auto simp del: first_non_empty.simps)
  have "handle_trigger vl \<lparr>rq_Operation = OpCreate, rq_User = user, rq_Object = Inr (trigger_object m spec), rq_OldObject = old\<rparr> = Allowed []"
    if "(spec, name) \<in> set ds" "om_Labels m = managed_labels du" for spec name m user old
  proof -
    have "?ts \<noteq> []" using that(1) ds(2) by auto
    then show ?thesis
      using team that ds(3) managed_labels_team [of du]
      by (auto simp: handle_trigger_def team_on_create_def require_team_label_def trigger_object_def split: prod.splits)
  qed
  then show ?thesis using ds ok by (intro exI [of _ ds]) auto
qed

section \<open>A pass against a server that stores what it is sent\<close>

text \<open>
  What a world stores: the source under the name of the unit, and the triggers by name. A read answers with
  what is stored; a list with the stored triggers of the selector; an apply stores an object
  of the same name and spec (its metadata may have been merged); a delete removes. Nobody else
  writes during the pass. \<open>own\<close> adds the owner reference, to metadata that has none, and keeps the name.
\<close>

definition answers :: "api_error + 'o \<Rightarrow> 'o option \<Rightarrow> bool" where
  "answers r stored \<longleftrightarrow> (case stored of None \<Rightarrow> \<exists>e. r = Inl e \<and> is_not_found e | Some x \<Rightarrow> r = Inr x)"

definition selected :: "delivery_unit \<Rightarrow> trigger \<Rightarrow> bool" where
  "selected du t \<longleftrightarrow> list_all (\<lambda>(k, v). smap_get (om_Labels (tr_Meta t)) k = v) (derived_selector du)"

definition unit_store ::
  "'w unit_env \<Rightarrow> delivery_unit \<Rightarrow> (object_meta \<Rightarrow> object_meta) \<Rightarrow> ('w \<Rightarrow> source option) \<Rightarrow> ('w \<Rightarrow> string \<Rightarrow> trigger option) \<Rightarrow> bool" where
  "unit_store env du own src trg \<longleftrightarrow>
     (\<forall>m. om_OwnerReferences m = [] \<longrightarrow> ue_SetControllerReference env du m = Inr (own m) \<and> om_Name (own m) = om_Name m)
     \<and> (\<forall>w. \<exists>r w'. ue_GetSource env (du_Name du) w = (r, w') \<and> answers r (src w) \<and> src w' = src w \<and> trg w' = trg w)
     \<and> (\<forall>n w. \<exists>r w'. ue_GetTrigger env n w = (r, w') \<and> answers r (trg w n) \<and> src w' = src w \<and> trg w' = trg w)
     \<and> (\<forall>x w. om_Name (src_Meta x) = du_Name du \<longrightarrow>
          (\<exists>y w'. ue_ApplySource env x w = (Inr y, w') \<and> om_Name (src_Meta y) = du_Name du \<and> src_Spec y = src_Spec x \<and>
             src w' = Some y \<and> trg w' = trg w))
     \<and> (\<forall>x w. \<exists>y w'. ue_ApplyTrigger env x w = (Inr y, w') \<and> tr_Name y = tr_Name x \<and> tr_Spec y = tr_Spec x \<and>
          src w' = src w \<and> trg w' = (trg w)(tr_Name x \<mapsto> y))
     \<and> (\<forall>w. \<exists>ts w'. ue_ListTriggers env (derived_selector du) w = (Inr ts, w') \<and> distinct (map tr_Name ts) \<and>
          (\<forall>t. t \<in> set ts \<longleftrightarrow> trg w (tr_Name t) = Some t \<and> selected du t) \<and> src w' = src w \<and> trg w' = trg w)
     \<and> (\<forall>t w. \<exists>w'. ue_DeleteTrigger env t w = (Inr (), w') \<and> src w' = src w \<and> trg w' = (trg w)(tr_Name t := None))
     \<and> (\<forall>old new w. \<exists>y w'. ue_PatchUnitStatus env old new w = (Inr y, w') \<and> src w' = src w \<and> trg w' = trg w)"

lemma unit_storeD:
  assumes "unit_store env du own src trg"
  shows "om_OwnerReferences m = [] \<Longrightarrow> ue_SetControllerReference env du m = Inr (own m)"
    "om_OwnerReferences m = [] \<Longrightarrow> om_Name (own m) = om_Name m"
    and "\<exists>r w'. ue_GetSource env (du_Name du) w = (r, w') \<and> answers r (src w) \<and> src w' = src w \<and> trg w' = trg w"
    and "\<exists>r w'. ue_GetTrigger env n w = (r, w') \<and> answers r (trg w n) \<and> src w' = src w \<and> trg w' = trg w"
    and "om_Name (src_Meta x) = du_Name du \<Longrightarrow> \<exists>y w'. ue_ApplySource env x w = (Inr y, w') \<and> om_Name (src_Meta y) = du_Name du \<and>
      src_Spec y = src_Spec x \<and> src w' = Some y \<and> trg w' = trg w"
    and "\<exists>y w'. ue_ApplyTrigger env t w = (Inr y, w') \<and> tr_Name y = tr_Name t \<and> tr_Spec y = tr_Spec t \<and>
      src w' = src w \<and> trg w' = (trg w)(tr_Name t \<mapsto> y)"
    and "\<exists>ts w'. ue_ListTriggers env (derived_selector du) w = (Inr ts, w') \<and> distinct (map tr_Name ts) \<and>
      (\<forall>t. t \<in> set ts \<longleftrightarrow> trg w (tr_Name t) = Some t \<and> selected du t) \<and> src w' = src w \<and> trg w' = trg w"
    and "\<exists>w'. ue_DeleteTrigger env t w = (Inr (), w') \<and> src w' = src w \<and> trg w' = (trg w)(tr_Name t := None)"
    and "\<exists>y w'. ue_PatchUnitStatus env old new w = (Inr y, w') \<and> src w' = src w \<and> trg w' = trg w"
  using assms unfolding unit_store_def by blast+

text \<open>A name may be written when nothing is stored under it or what is there belongs to the unit.\<close>

definition unclaimed :: "'o option \<Rightarrow> ('o \<Rightarrow> object_meta) \<Rightarrow> delivery_unit \<Rightarrow> bool" where
  "unclaimed stored meta du \<longleftrightarrow> (case stored of None \<Rightarrow> True | Some x \<Rightarrow> owned_by_delivery_unit (meta x) du)"

abbreviation own_meta :: "delivery_unit \<Rightarrow> (object_meta \<Rightarrow> object_meta) \<Rightarrow> string \<Rightarrow> object_meta" where
  "own_meta du own name \<equiv> own (derived_meta name (managed_labels du) (copy_string_map (om_Annotations (du_Meta du))))"

definition applied :: "delivery_unit \<Rightarrow> (object_meta \<Rightarrow> object_meta) \<Rightarrow> trigger_spec \<times> string \<Rightarrow> unit_effect" where
  "applied du own d = ApplyTriggerCalled (trigger_object (own_meta du own (snd d)) (fst d))"

lemma derived_meta_name [simp]: "om_Name (derived_meta n l a) = n" "om_OwnerReferences (derived_meta n l a) = []"
  by (simp_all add: derived_meta_def)

lemma unit_tick_log [simp]:
  "ut_Log (unit_world w s) = ut_Log s" "ut_Log (unit_emit e s) = ut_Log s @ [e]"
  "ut_World (unit_world w s) = w" "ut_World (unit_emit e s) = ut_World s"
  by (simp_all add: unit_world_def unit_emit_def)

lemma trigger_object_name [simp]: "tr_Name (trigger_object m spec) = om_Name m" "tr_Spec (trigger_object m spec) = spec"
  by (simp_all add: trigger_object_def)

lemma reconcile_source_ok:
  assumes store: "unit_store env du own src trg" and free: "unclaimed (src (ut_World s)) src_Meta du"
  shows "\<exists>s' y. reconcile_source env du s = (Inr (du_Name du), s') \<and>
    ut_Log s' = ut_Log s @ [ApplySourceCalled \<lparr>src_Meta = own_meta du own (du_Name du), src_Spec = dus_Source (du_Spec du)\<rparr>] \<and>
    src (ut_World s') = Some y \<and> src_Spec y = dus_Source (du_Spec du) \<and> trg (ut_World s') = trg (ut_World s)"
proof -
  let ?src = "\<lparr>src_Meta = own_meta du own (du_Name du), src_Spec = dus_Source (du_Spec du)\<rparr>"
  obtain r w where read: "ue_GetSource env (du_Name du) (ut_World s) = (r, w)" "answers r (src (ut_World s))" "trg w = trg (ut_World s)"
    using unit_storeD(3) [OF store] by blast
  then have goes: "reconcile_source env du s = apply_source env du (unit_world w s)"
    using free by (auto simp: reconcile_source_def answers_def unclaimed_def split: option.splits)
  have "om_Name (src_Meta ?src) = du_Name du" by (simp add: unit_storeD(2) [OF store])
  then obtain y w' where "ue_ApplySource env ?src w = (Inr y, w')" "om_Name (src_Meta y) = du_Name du" "src_Spec y = src_Spec ?src"
      "src w' = Some y" "trg w' = trg w"
    using unit_storeD(5) [OF store] by blast
  then show ?thesis
    using read(3)
    by (simp add: goes apply_source_def op_bind_def unit_owner_def unit_call_def op_return_def unit_storeD(1) [OF store] Let_def)
qed

lemma apply_trigger_ok:
  assumes store: "unit_store env du own src trg"
  shows "\<exists>s' y. apply_trigger env du spec name s = (Inr (), s') \<and> ut_Log s' = ut_Log s @ [applied du own (spec, name)] \<and>
    tr_Spec y = spec \<and> src (ut_World s') = src (ut_World s) \<and> trg (ut_World s') = (trg (ut_World s))(name \<mapsto> y)"
proof -
  let ?t = "trigger_object (own_meta du own name) spec"
  obtain y w' where "ue_ApplyTrigger env ?t (ut_World s) = (Inr y, w')" "tr_Spec y = spec" "src w' = src (ut_World s)"
      "trg w' = (trg (ut_World s))(tr_Name ?t \<mapsto> y)"
    using unit_storeD(6) [OF store, of ?t "ut_World s"] by auto
  moreover have "tr_Name ?t = name" by (simp add: unit_storeD(2) [OF store])
  ultimately show ?thesis
    by (auto simp: apply_trigger_def op_bind_def unit_owner_def unit_call_def op_return_def unit_storeD(1) [OF store] Let_def applied_def)
qed

text \<open>The declared triggers are stored with their specs, and no other trigger changes.\<close>

definition brings :: "(trigger_spec \<times> string) list \<Rightarrow> (string \<Rightarrow> trigger option) \<Rightarrow> (string \<Rightarrow> trigger option) \<Rightarrow> bool" where
  "brings ds m m' \<longleftrightarrow>
     (\<forall>(spec, name) \<in> set ds. \<exists>y. m' name = Some y \<and> tr_Spec y = spec) \<and> (\<forall>n. n \<notin> snd ` set ds \<longrightarrow> m' n = m n)"

lemma apply_triggers_prefix:
  assumes store: "unit_store env du own src trg"
  shows "distinct (map snd ds) \<Longrightarrow> \<forall>name \<in> snd ` set ds. unclaimed (trg (ut_World s) name) tr_Meta du \<Longrightarrow>
    \<exists>s'. apply_triggers env du (ds @ rest) names s = apply_triggers env du rest (names @ map snd ds) s' \<and>
      ut_Log s' = ut_Log s @ map (applied du own) ds \<and> src (ut_World s') = src (ut_World s) \<and>
      brings ds (trg (ut_World s)) (trg (ut_World s'))"
proof (induction ds arbitrary: names s)
  case Nil
  then show ?case by (intro exI [of _ s]) (simp add: brings_def)
next
  case (Cons d ds)
  obtain spec name where d: "d = (spec, name)" by (cases d)
  obtain r w where read: "ue_GetTrigger env name (ut_World s) = (r, w)" "answers r (trg (ut_World s) name)"
      "src w = src (ut_World s)" "trg w = trg (ut_World s)"
    using unit_storeD(4) [OF store] by blast
  obtain s1 y where s1: "apply_trigger env du spec name (unit_world w s) = (Inr (), s1)"
      "ut_Log s1 = ut_Log s @ [applied du own (spec, name)]" "tr_Spec y = spec" "src (ut_World s1) = src (ut_World s)"
      "trg (ut_World s1) = (trg (ut_World s))(name \<mapsto> y)"
    using apply_trigger_ok [OF store, of spec name "unit_world w s"] read(3,4) by auto
  have "unclaimed (trg (ut_World s) name) tr_Meta du" using Cons.prems(2) d by simp
  then have "apply_triggers env du ((d # ds) @ rest) names s = apply_triggers env du (ds @ rest) (names @ [name]) s1"
    using read(1,2) s1(1) d by (auto simp: unclaimed_def answers_def Let_def split: option.splits)
  moreover have "\<forall>n \<in> snd ` set ds. unclaimed (trg (ut_World s1) n) tr_Meta du"
    using Cons.prems d s1(5) by auto
  then obtain s' where "apply_triggers env du (ds @ rest) (names @ [name]) s1 =
      apply_triggers env du rest ((names @ [name]) @ map snd ds) s'" "ut_Log s' = ut_Log s1 @ map (applied du own) ds"
      "src (ut_World s') = src (ut_World s1)" "brings ds (trg (ut_World s1)) (trg (ut_World s'))"
    using Cons.IH [of s1 "names @ [name]"] Cons.prems(1) by auto
  moreover from this(4) have "brings (d # ds) (trg (ut_World s)) (trg (ut_World s'))"
    using Cons.prems(1) d s1(3,5) by (auto simp: brings_def)
  ultimately show ?case using s1(2,4) d by (intro exI [of _ s']) simp
qed

text \<open>A step that always succeeds, run on every controlled trigger of a list.\<close>

lemma each_controlled_ok:
  assumes "\<And>t s. \<exists>s'. act t s = (Inr (), s') \<and> ut_Log s' = ut_Log s @ es t \<and> view (ut_World s') = upd t (view (ut_World s))"
  shows "\<exists>s'. each_controlled env du act ts s = (Inr (), s') \<and>
    ut_Log s' = ut_Log s @ concat (map es (filter (\<lambda>t. ue_IsControlledBy env (tr_Meta t) du) ts)) \<and>
    view (ut_World s') = fold upd (filter (\<lambda>t. ue_IsControlledBy env (tr_Meta t) du) ts) (view (ut_World s))"
proof (induction ts arbitrary: s)
  case (Cons t ts)
  obtain s1 where s1: "act t s = (Inr (), s1)" "ut_Log s1 = ut_Log s @ es t" "view (ut_World s1) = upd t (view (ut_World s))"
    using assms by blast
  show ?case
    using Cons.IH [of s] Cons.IH [of s1] s1 by (cases "ue_IsControlledBy env (tr_Meta t) du") (auto simp: op_bind_def)
qed simp

text \<open>The list of a store: its selected triggers, each once.\<close>

definition listing_of :: "delivery_unit \<Rightarrow> (string \<Rightarrow> trigger option) \<Rightarrow> trigger list \<Rightarrow> bool" where
  "listing_of du m ts \<longleftrightarrow> distinct (map tr_Name ts) \<and> (\<forall>t. t \<in> set ts \<longleftrightarrow> m (tr_Name t) = Some t \<and> selected du t)"

lemma on_derived_ok:
  assumes "unit_store env du own src trg"
    and "\<And>t s. \<exists>s'. act t s = (Inr (), s') \<and> ut_Log s' = ut_Log s @ es t \<and> view (src (ut_World s')) (trg (ut_World s')) =
      upd t (view (src (ut_World s)) (trg (ut_World s)))"
  shows "\<exists>s' ts. listing_of du (trg (ut_World s)) ts \<and> on_derived env du act s = (Inr (), s') \<and>
    ut_Log s' = ut_Log s @ concat (map es (filter (\<lambda>t. ue_IsControlledBy env (tr_Meta t) du) ts)) \<and>
    view (src (ut_World s')) (trg (ut_World s')) =
      fold upd (filter (\<lambda>t. ue_IsControlledBy env (tr_Meta t) du) ts) (view (src (ut_World s)) (trg (ut_World s)))"
proof -
  obtain ts w where ts: "ue_ListTriggers env (derived_selector du) (ut_World s) = (Inr ts, w)" "listing_of du (trg (ut_World s)) ts"
      "src w = src (ut_World s)" "trg w = trg (ut_World s)"
    using unit_storeD(7) [OF assms(1), of "ut_World s"] by (auto simp: listing_of_def)
  show ?thesis
    using each_controlled_ok [of act es "\<lambda>w. view (src w) (trg w)" upd env du ts "unit_world w s"] assms(2) ts
    by (auto simp: on_derived_def op_bind_def unit_call_def)
qed

lemma concat_map_filter: "concat (map (\<lambda>t. if Q t then [f t] else []) (filter P ts)) = map f (filter (\<lambda>t. P t \<and> Q t) ts)"
  by (induction ts) auto

lemma fold_delete:
  "fold (\<lambda>t m. if f t \<in> keep then m else m(f t := None)) ts m = (\<lambda>n. if n \<in> f ` set ts - keep then None else m n)"
  by (induction ts arbitrary: m) (auto simp: fun_eq_iff)

lemma prune_ok:
  assumes "unit_store env du own src trg"
  shows "\<exists>s' ts. listing_of du (trg (ut_World s)) ts \<and> prune_stale_triggers env du keep s = (Inr (), s') \<and> ut_Log s' = ut_Log s @
    map (\<lambda>t. DeleteTriggerCalled (tr_Name t)) (filter (\<lambda>t. ue_IsControlledBy env (tr_Meta t) du \<and> tr_Name t \<notin> set keep) ts) \<and>
    src (ut_World s') = src (ut_World s) \<and> trg (ut_World s') = (\<lambda>n.
      if n \<in> tr_Name ` set (filter (\<lambda>t. ue_IsControlledBy env (tr_Meta t) du) ts) - set keep then None else trg (ut_World s) n)"
proof -
  define upd :: "trigger \<Rightarrow> source option \<times> (string \<Rightarrow> trigger option) \<Rightarrow> source option \<times> (string \<Rightarrow> trigger option)"
    where "upd = (\<lambda>t (x, m). (x, if tr_Name t \<in> set keep then m else m(tr_Name t := None)))"
  have step: "\<exists>s'. prune_trigger env keep t s = (Inr (), s') \<and>
      ut_Log s' = ut_Log s @ (if tr_Name t \<notin> set keep then [DeleteTriggerCalled (tr_Name t)] else []) \<and>
      (src (ut_World s'), trg (ut_World s')) = upd t (src (ut_World s), trg (ut_World s))" for t s
    using unit_storeD(8) [OF assms, of t "ut_World s"] by (auto simp: prune_trigger_def upd_def)
  have pair: "fold upd ts (x, m) = (x, fold (\<lambda>t m. if tr_Name t \<in> set keep then m else m(tr_Name t := None)) ts m)" for ts x m
    by (induction ts arbitrary: m) (auto simp: upd_def)
  from on_derived_ok [where act = "prune_trigger env keep" and view = Pair and upd = upd, OF assms step]
  show ?thesis unfolding pair fold_delete concat_map_filter prune_stale_triggers_def by auto
qed

lemma suspend_ok:
  assumes "unit_store env du own src trg"
  shows "\<exists>s' ts. listing_of du (trg (ut_World s)) ts \<and> suspend_derived_triggers env du s = (Inr (), s') \<and> ut_Log s' = ut_Log s @
    map (\<lambda>t. ApplyTriggerCalled (trigger_object (own (derived_meta (tr_Name t) (om_Labels (tr_Meta t)) (om_Annotations (tr_Meta t))))
          ((tr_Spec t)\<lparr>trg_Suspended := Some True\<rparr>)))
      (filter (\<lambda>t. ue_IsControlledBy env (tr_Meta t) du \<and> trg_Suspended (tr_Spec t) \<noteq> Some True) ts)"
proof -
  define suspended where "suspended = (\<lambda>t. trigger_object
    (own (derived_meta (tr_Name t) (om_Labels (tr_Meta t)) (om_Annotations (tr_Meta t)))) ((tr_Spec t)\<lparr>trg_Suspended := Some True\<rparr>))"
  have "\<exists>s'. suspend_trigger env du t s = (Inr (), s') \<and>
      ut_Log s' = ut_Log s @ (if trg_Suspended (tr_Spec t) \<noteq> Some True then [ApplyTriggerCalled (suspended t)] else []) \<and> () = ()" for t s
  proof (cases "trg_Suspended (tr_Spec t) = Some True")
    case False
    obtain y w' where "ue_ApplyTrigger env (suspended t) (ut_World s) = (Inr y, w')"
      using unit_storeD(6) [OF assms] by blast
    then show ?thesis
      using False
      by (simp add: suspend_trigger_def op_bind_def unit_owner_def unit_call_def op_return_def unit_storeD(1) [OF assms] Let_def
          copy_string_map_def suspended_def)
  qed (simp add: suspend_trigger_def)
  from on_derived_ok [where act = "suspend_trigger env du" and view = "\<lambda>_ _. ()" and upd = "\<lambda>_ u. u", OF assms this]
  show ?thesis unfolding suspended_def suspend_derived_triggers_def concat_map_filter by auto
qed

fun event_only :: "unit_effect \<Rightarrow> bool" where
  "event_only (UnitEvent t r m) = True"
| "event_only _ = False"

lemma record_ready_event_frame:
  "\<exists>events. list_all event_only events \<and> ut_Log (record_ready_event env du previous status reason msg s) = ut_Log s @ events \<and>
     ut_World (record_ready_event env du previous status reason msg s) = ut_World s"
  by (auto simp: record_ready_event_def Let_def)

lemma patch_unit_status_ok:
  assumes "unit_store env du own src trg"
  shows "\<exists>s' events. patch_unit_status env du sourceName names status reason msg s =
      (Inr (if status \<noteq> ''True'' \<and> reason \<noteq> ''Suspended'' then requeue_after requeueNormal else no_requeue), s') \<and>
    list_all event_only events \<and>
    ut_Log s' = ut_Log s @ PatchUnitStatusCalled (unit_status env du sourceName names status reason msg) # events \<and>
    src (ut_World s') = src (ut_World s) \<and> trg (ut_World s') = trg (ut_World s)"
proof -
  let ?new = "unit_status env du sourceName names status reason msg"
  let ?s1 = "unit_emit (PatchUnitStatusCalled ?new) s"
  obtain y w where w: "ue_PatchUnitStatus env du ?new (ut_World s) = (Inr y, w)" "src w = src (ut_World s)" "trg w = trg (ut_World s)"
    using unit_storeD(9) [OF assms] by blast
  let ?previous = "entry_after_set (ue_Kube env) (dust_Conditions (du_Status du)) (dust_Conditions (du_Status ?new)) ''Ready''"
  let ?s' = "record_ready_event env y ?previous status reason msg (unit_world w ?s1)"
  have run: "patch_unit_status env du sourceName names status reason msg s =
      (Inr (if status \<noteq> ''True'' \<and> reason \<noteq> ''Suspended'' then requeue_after requeueNormal else no_requeue), ?s')"
    using w(1) by (simp add: patch_unit_status_def Let_def)
  obtain events where "list_all event_only events" "ut_Log ?s' = ut_Log (unit_world w ?s1) @ events" "ut_World ?s' = w"
    using record_ready_event_frame [of env y ?previous status reason msg "unit_world w ?s1"] by auto
  then show ?thesis unfolding run using w(2,3) by (intro exI [of _ ?s'] exI [of _ events]) simp
qed

lemma derive_triggers_distinct:
  "derive_triggers du ts seen = Inr ds \<Longrightarrow> distinct (map snd ds) \<and> snd ` set ds \<inter> set seen = {}"
proof (induction ts arbitrary: seen ds)
  case (Cons t ts)
  obtain spec name where d: "derived_trigger du t = Inr (spec, name)" "name \<notin> set seen"
    using Cons.prems by (cases "derived_trigger du t") (auto split: if_splits)
  then obtain ds' where ds': "derive_triggers du ts (name # seen) = Inr ds'" "ds = (spec, name) # ds'"
    using Cons.prems by (cases "derive_triggers du ts (name # seen)") auto
  then show ?case using Cons.IH [OF ds'(1)] d(2) by auto
qed simp

text \<open>The stored triggers the unit selects and controls but no longer declares.\<close>

definition stale_names :: "'w unit_env \<Rightarrow> delivery_unit \<Rightarrow> string set \<Rightarrow> (string \<Rightarrow> trigger option) \<Rightarrow> string set" where
  "stale_names env du declared m =
     {n. n \<notin> declared \<and> (\<exists>t. m n = Some t \<and> tr_Name t = n \<and> selected du t \<and> ue_IsControlledBy env (tr_Meta t) du)}"

lemma lists_stale:
  assumes "listing_of du m' ts" "brings ds m m'"
  shows "distinct (map tr_Name (filter (\<lambda>t. ue_IsControlledBy env (tr_Meta t) du \<and> tr_Name t \<notin> snd ` set ds) ts))"
    and "tr_Name ` set (filter (\<lambda>t. ue_IsControlledBy env (tr_Meta t) du \<and> tr_Name t \<notin> snd ` set ds) ts) = stale_names env du (snd ` set ds) m"
  using assms by (auto simp: listing_of_def brings_def stale_names_def distinct_map_filter)

lemma names_kept [simp]: "set (sort_strings names) = set names"
  by (simp add: sort_strings_def)

text \<open>C22. A pass over an active unit whose triggers can be derived, and under whose names nothing is stored that belongs to
  someone else, on a server that stores what it is sent while nobody else writes: it applies the source, then every derived
  trigger in the order of the spec, then deletes exactly the stored triggers it selects and controls that
  are no longer declared, each once, reports the sorted names with Ready true, and is done. Afterwards the source and every
  declared trigger are stored with their declared specs, the stale ones are gone, and every other trigger is as it was.\<close>

theorem derivation_pass_is_exact:
  assumes store: "unit_store env du own src trg" and ds: "derive_triggers du (dus_Triggers (du_Spec du)) [] = Inr ds"
    and free: "unclaimed (src (ut_World s)) src_Meta du" "\<forall>name \<in> snd ` set ds. unclaimed (trg (ut_World s) name) tr_Meta du"
  shows "\<exists>s' stale events y. reconcile_active_unit env du s = (Inr no_requeue, s') \<and> list_all event_only events \<and>
    distinct stale \<and> set stale = stale_names env du (snd ` set ds) (trg (ut_World s)) \<and>
    ut_Log s' = ut_Log s @
      [ApplySourceCalled \<lparr>src_Meta = own_meta du own (du_Name du), src_Spec = dus_Source (du_Spec du)\<rparr>] @
      map (applied du own) ds @ map DeleteTriggerCalled stale @
      PatchUnitStatusCalled (unit_status env du (du_Name du) (sort_strings (map snd ds)) ''True'' ''Derived''
        ''derived Source and Trigger machinery is ready'') # events \<and>
    src (ut_World s') = Some y \<and> src_Spec y = dus_Source (du_Spec du) \<and>
    (\<forall>(spec, name) \<in> set ds. \<exists>t. trg (ut_World s') name = Some t \<and> tr_Spec t = spec) \<and>
    (\<forall>n. n \<notin> snd ` set ds \<longrightarrow> trg (ut_World s') n = (if n \<in> set stale then None else trg (ut_World s) n))"
proof -
  let ?names = "sort_strings (map snd ds)" and ?m = "trg (ut_World s)"
  obtain s1 y where s1: "reconcile_source env du s = (Inr (du_Name du), s1)"
      "ut_Log s1 = ut_Log s @ [ApplySourceCalled \<lparr>src_Meta = own_meta du own (du_Name du), src_Spec = dus_Source (du_Spec du)\<rparr>]"
      "src (ut_World s1) = Some y" "src_Spec y = dus_Source (du_Spec du)" "trg (ut_World s1) = ?m"
    using reconcile_source_ok [OF store free(1)] by blast
  have distinct: "distinct (map snd ds)" using derive_triggers_distinct [OF ds] by simp
  have free1: "\<forall>name \<in> snd ` set ds. unclaimed (trg (ut_World s1) name) tr_Meta du" using free(2) s1(5) by simp
  obtain s2 where s2: "reconcile_triggers env du s1 = ((None, ?names), s2)" "ut_Log s2 = ut_Log s1 @ map (applied du own) ds"
      "src (ut_World s2) = src (ut_World s1)" "brings ds ?m (trg (ut_World s2))"
    using apply_triggers_prefix [OF store distinct free1, of "[]" "[]"] ds s1(5) by (auto simp: reconcile_triggers_def)
  obtain s3 ts where s3: "listing_of du (trg (ut_World s2)) ts" "prune_stale_triggers env du ?names s2 = (Inr (), s3)"
      "ut_Log s3 = ut_Log s2 @ map (\<lambda>t. DeleteTriggerCalled (tr_Name t))
        (filter (\<lambda>t. ue_IsControlledBy env (tr_Meta t) du \<and> tr_Name t \<notin> snd ` set ds) ts)"
      "src (ut_World s3) = src (ut_World s2)"
      "trg (ut_World s3) = (\<lambda>n. if n \<in> tr_Name ` set (filter (\<lambda>t. ue_IsControlledBy env (tr_Meta t) du) ts) - snd ` set ds
         then None else trg (ut_World s2) n)"
    using prune_ok [OF store, of s2 ?names] by auto
  define stale where "stale = map tr_Name (filter (\<lambda>t. ue_IsControlledBy env (tr_Meta t) du \<and> tr_Name t \<notin> snd ` set ds) ts)"
  have stale: "distinct stale" "set stale = stale_names env du (snd ` set ds) ?m"
    using lists_stale [OF s3(1) s2(4), of env] by (simp_all add: stale_def)
  obtain s' events where s': "patch_unit_status env du (du_Name du) ?names ''True'' ''Derived''
        ''derived Source and Trigger machinery is ready'' s3 = (Inr no_requeue, s')" "list_all event_only events"
      "ut_Log s' = ut_Log s3 @ PatchUnitStatusCalled (unit_status env du (du_Name du) ?names ''True'' ''Derived''
        ''derived Source and Trigger machinery is ready'') # events"
      "src (ut_World s') = src (ut_World s3)" "trg (ut_World s') = trg (ut_World s3)"
    using patch_unit_status_ok [OF store, of "du_Name du" ?names "''True''" "''Derived''"
        "''derived Source and Trigger machinery is ready''" s3] by auto
  have run: "reconcile_active_unit env du s = (Inr no_requeue, s')"
    using s1(1) s2(1) s3(2) s'(1) by (simp add: reconcile_active_unit_def)
  have log: "ut_Log s' = ut_Log s @
      [ApplySourceCalled \<lparr>src_Meta = own_meta du own (du_Name du), src_Spec = dus_Source (du_Spec du)\<rparr>] @
      map (applied du own) ds @ map DeleteTriggerCalled stale @
      PatchUnitStatusCalled (unit_status env du (du_Name du) ?names ''True'' ''Derived''
        ''derived Source and Trigger machinery is ready'') # events"
    using s1(2) s2(2) s3(3) s'(3) by (simp add: stale_def comp_def)
  have declared: "\<forall>(spec, name) \<in> set ds. \<exists>t. trg (ut_World s') name = Some t \<and> tr_Spec t = spec"
    using s2(4) unfolding brings_def s'(5) s3(5) by force
  have others: "\<forall>n. n \<notin> snd ` set ds \<longrightarrow> trg (ut_World s') n = (if n \<in> set stale then None else ?m n)"
    using s2(4) by (auto simp: brings_def s'(5) s3(5) stale_def)
  show ?thesis using run log declared others stale s'(2,4) s1(3,4) s2(3) s3(4) by (intro exI conjI) (assumption | simp)+
qed

text \<open>A derived name that belongs to someone else stops the pass before it is written: the triggers
  before it are applied, nothing is applied under the name or after it, nothing is deleted, and
  the unit reports the conflict with the names applied so far and is tried again later.\<close>

lemma foreign_trigger_stops_derivation:
  assumes store: "unit_store env du own src trg"
    and ds: "derive_triggers du (dus_Triggers (du_Spec du)) [] = Inr (before @ (spec, name) # after)"
    and free: "unclaimed (src (ut_World s)) src_Meta du" "\<forall>n \<in> snd ` set before. unclaimed (trg (ut_World s) n) tr_Meta du"
    and foreign: "trg (ut_World s) name = Some x" "\<not> owned_by_delivery_unit (tr_Meta x) du"
  shows "\<exists>s' events. reconcile_active_unit env du s = (Inr (requeue_after requeueNormal), s') \<and> list_all event_only events \<and>
    trg (ut_World s') name = Some x \<and>
    ut_Log s' = ut_Log s @
      [ApplySourceCalled \<lparr>src_Meta = own_meta du own (du_Name du), src_Spec = dus_Source (du_Spec du)\<rparr>] @
      map (applied du own) before @
      PatchUnitStatusCalled (unit_status env du (du_Name du) (map snd before) ''False'' ''TriggerNameConflict''
        (''trigger name conflict: Trigger '' @ name @ '' already exists and is not owned by DeliveryUnit '' @ du_Name du)) # events"
proof -
  let ?conflict = "''trigger name conflict: Trigger '' @ name @ '' already exists and is not owned by DeliveryUnit '' @ du_Name du"
  obtain s1 where s1: "reconcile_source env du s = (Inr (du_Name du), s1)"
      "ut_Log s1 = ut_Log s @ [ApplySourceCalled \<lparr>src_Meta = own_meta du own (du_Name du), src_Spec = dus_Source (du_Spec du)\<rparr>]"
      "trg (ut_World s1) = trg (ut_World s)"
    using reconcile_source_ok [OF store free(1)] by blast
  have distinct: "distinct (map snd before)" "name \<notin> snd ` set before" using derive_triggers_distinct [OF ds] by auto
  have free1: "\<forall>n \<in> snd ` set before. unclaimed (trg (ut_World s1) n) tr_Meta du" using free(2) s1(3) by simp
  obtain s2 where s2: "apply_triggers env du (before @ (spec, name) # after) [] s1 =
      apply_triggers env du ((spec, name) # after) (map snd before) s2" "ut_Log s2 = ut_Log s1 @ map (applied du own) before"
      "brings before (trg (ut_World s1)) (trg (ut_World s2))"
    using apply_triggers_prefix [OF store distinct(1) free1, of "(spec, name) # after" "[]"] by auto
  have still: "trg (ut_World s2) name = Some x" using s2(3) distinct(2) foreign(1) s1(3) by (auto simp: brings_def)
  obtain r w' where read: "ue_GetTrigger env name (ut_World s2) = (r, w')" "answers r (trg (ut_World s2) name)" "trg w' = trg (ut_World s2)"
    using unit_storeD(4) [OF store] by blast
  have "reconcile_triggers env du s1 = ((Some (NameConflict ?conflict), map snd before), unit_world w' s2)"
    using ds s2(1) read(1,2) still foreign(2) by (simp add: reconcile_triggers_def Let_def answers_def)
  then have run: "reconcile_active_unit env du s = patch_unit_status env du (du_Name du) (map snd before) ''False'' ''TriggerNameConflict'' ?conflict (unit_world w' s2)"
    using s1(1) by (simp add: reconcile_active_unit_def conflict_reason_def)
  show ?thesis
    using patch_unit_status_ok [OF store, of "du_Name du" "map snd before" "''False''" "''TriggerNameConflict''" ?conflict "unit_world w' s2"]
      s1(2) s2(2) read(3) still unfolding run by auto
qed

text \<open>Suspending a unit suspends every running trigger it selects and controls and sends nothing else but its status: no source is
  applied, nothing is deleted, and the status keeps the names it had.\<close>

lemma suspended_unit_suspends_its_triggers:
  assumes store: "unit_store env du own src trg"
  shows "\<exists>s' ts events. listing_of du (trg (ut_World s)) ts \<and> reconcile_suspended_unit env du s = (Inr no_requeue, s') \<and>
    list_all event_only events \<and> ut_Log s' = ut_Log s @
      map (\<lambda>t. ApplyTriggerCalled (trigger_object (own (derived_meta (tr_Name t) (om_Labels (tr_Meta t)) (om_Annotations (tr_Meta t))))
            ((tr_Spec t)\<lparr>trg_Suspended := Some True\<rparr>)))
        (filter (\<lambda>t. ue_IsControlledBy env (tr_Meta t) du \<and> trg_Suspended (tr_Spec t) \<noteq> Some True) ts) @
      PatchUnitStatusCalled (unit_status env du (dust_SourceRef (du_Status du)) (dust_TriggerRefs (du_Status du)) ''False''
        ''Suspended'' ''DeliveryUnit derivation is suspended'') # events"
proof -
  obtain s1 ts where s1: "listing_of du (trg (ut_World s)) ts" "suspend_derived_triggers env du s = (Inr (), s1)"
      "ut_Log s1 = ut_Log s @
        map (\<lambda>t. ApplyTriggerCalled (trigger_object (own (derived_meta (tr_Name t) (om_Labels (tr_Meta t)) (om_Annotations (tr_Meta t))))
            ((tr_Spec t)\<lparr>trg_Suspended := Some True\<rparr>)))
        (filter (\<lambda>t. ue_IsControlledBy env (tr_Meta t) du \<and> trg_Suspended (tr_Spec t) \<noteq> Some True) ts)"
    using suspend_ok [OF store] by blast
  obtain s' events where s': "patch_unit_status env du (dust_SourceRef (du_Status du)) (dust_TriggerRefs (du_Status du)) ''False''
        ''Suspended'' ''DeliveryUnit derivation is suspended'' s1 = (Inr no_requeue, s')" "list_all event_only events"
      "ut_Log s' = ut_Log s1 @ PatchUnitStatusCalled (unit_status env du (dust_SourceRef (du_Status du)) (dust_TriggerRefs (du_Status du))
        ''False'' ''Suspended'' ''DeliveryUnit derivation is suspended'') # events"
    using patch_unit_status_ok [OF store, of "dust_SourceRef (du_Status du)" "dust_TriggerRefs (du_Status du)" "''False''"
        "''Suspended''" "''DeliveryUnit derivation is suspended''" s1] by auto
  have "reconcile_suspended_unit env du s = (Inr no_requeue, s')"
    using s1(2) s'(1) by (simp add: reconcile_suspended_unit_def)
  then show ?thesis using s1(1,3) s'(2,3) by (intro exI [of _ s'] exI [of _ ts] exI [of _ events]) simp
qed

text \<open>Only the first Ready condition of a unit is announced: the remembered condition is a pointer into the list
  that the setter updates in place, so a unit that already has the condition records no event,
  whatever its status changes to.\<close>

theorem later_ready_changes_are_silent:
  assumes stored: "\<And>old new w. \<exists>w'. ue_PatchUnitStatus env old new w = (Inr new, w')"
    and set: "\<forall>c cs. \<exists>d. kb_FindStatusCondition (ue_Kube env) (kb_SetStatusCondition (ue_Kube env) c cs) (c_Type c) = Some d \<and>
      c_Status d = c_Status c \<and> c_Reason d = c_Reason c \<and> c_ObservedGeneration d = c_ObservedGeneration c"
  shows "ut_Log (snd (patch_unit_status env du src names status reason msg s)) = ut_Log s @
    PatchUnitStatusCalled (unit_status env du src names status reason msg) #
    (if ue_Recorder env \<and> kb_FindStatusCondition (ue_Kube env) (dust_Conditions (du_Status du)) ''Ready'' = None
     then [UnitEvent (if status \<noteq> ''True'' \<and> reason \<noteq> ''Suspended'' then ''Warning'' else ''Normal'') reason msg] else [])"
proof -
  let ?new = "unit_status env du src names status reason msg"
  obtain w where w: "ue_PatchUnitStatus env du ?new (ut_World s) = (Inr ?new, w)"
    using stored by blast
  have meta: "du_Meta ?new = du_Meta du" by (simp add: unit_status_def)
  obtain d where d: "kb_FindStatusCondition (ue_Kube env) (dust_Conditions (du_Status ?new)) ''Ready'' = Some d"
      "c_Status d = status" "c_Reason d = reason" "c_ObservedGeneration d = om_Generation (du_Meta du)"
    using spec [OF spec [OF set, of "\<lparr>c_Type = ''Ready'', c_Status = status, c_Reason = reason, c_Message = msg,
        c_ObservedGeneration = om_Generation (du_Meta du), c_LastTransitionTime = go_zero_time\<rparr>"], of "dust_Conditions (du_Status du)"]
    by (auto simp: unit_status_def)
  have run: "snd (patch_unit_status env du src names status reason msg s) = record_ready_event env ?new
      (entry_after_set (ue_Kube env) (dust_Conditions (du_Status du)) (dust_Conditions (du_Status ?new)) ''Ready'')
      status reason msg (unit_world w (unit_emit (PatchUnitStatusCalled ?new) s))"
    by (simp add: patch_unit_status_def Let_def w)
  show ?thesis unfolding run
    by (simp add: record_ready_event_def entry_after_set_def d meta Let_def split: option.split)
qed

section \<open>Sample units\<close>

definition oci_source :: trigger_source where
  "oci_source = \<lparr>trs_Type = ''oci'', trs_OCI = Some \<lparr>oci_Repository = ''registry/app'', oci_TagPattern = ''v.*'',
     oci_RequireSignature = False, oci_PollInterval = ''5m'', oci_SecretRef = None\<rparr>\<rparr>"

definition watcher :: "string \<Rightarrow> delivery_unit_trigger" where
  "watcher name = \<lparr>dut_Name = name, dut_Suspended = Some False, dut_Source = oci_source, dut_FleetRef = [], dut_PlanRef = [],
     dut_Cooldown = ''30m'', dut_MaxActive = 1, dut_DryRun = False, dut_Parameters = [], dut_Labels = [], dut_Annotations = []\<rparr>"

definition watched_unit :: delivery_unit where
  "watched_unit = plain_unit\<lparr>du_Meta := (named ''app'')\<lparr>om_Labels := [(LabelKaproTeam, ''checkout'')]\<rparr>,
     du_Spec := (du_Spec plain_unit)\<lparr>dus_Triggers := [watcher [], watcher ''hotfix''], dus_DefaultFleetRef := ''prod'',
       dus_DefaultPlanRef := ''canary''\<rparr>\<rparr>"

text \<open>A server that accepts everything, answers the reads of triggers as given and lists the given triggers.\<close>

definition sample_unit_env :: "(string \<Rightarrow> api_error + trigger) \<Rightarrow> trigger list \<Rightarrow> sample unit_env" where
  "sample_unit_env existing listed = \<lparr>ue_Kube = sample_kube, ue_GetUnit = (\<lambda>n w. (Inr watched_unit, w)),
     ue_GetSource = (\<lambda>n w. (Inl (ApiNotFound ''missing''), w)), ue_GetTrigger = (\<lambda>n w. (existing n, w)),
     ue_ListTriggers = (\<lambda>sel w. (Inr listed, w)), ue_ApplySource = (\<lambda>x w. (Inr x, w)), ue_ApplyTrigger = (\<lambda>x w. (Inr x, w)),
     ue_DeleteTrigger = (\<lambda>x w. (Inr (), w)), ue_PatchUnitStatus = (\<lambda>old new w. (Inr new, w)),
     ue_SetControllerReference = (\<lambda>du m. Inr m), ue_IsControlledBy = (\<lambda>m du. smap_get (om_Labels m) LabelUnit = du_Name du),
     ue_Recorder = True\<rparr>"

definition stale_trigger :: trigger where
  "stale_trigger = trigger_object ((named ''app-old'')\<lparr>om_Labels := [(LabelUnit, ''app''), (LabelManagedBy, ManagedByKapro)]\<rparr>)
     (checked_trigger watched_unit ''prod'' (watcher ''old''))"

theorem admitted_unit_derives_admitted_triggers_witness:
  "\<exists>ds. derive_triggers watched_unit (dus_Triggers (du_Spec watched_unit)) [] = Inr ds \<and> map snd ds = [''app-default'', ''app-hotfix'']"
proof -
  have "validate_delivery_unit sample_validation watched_unit = None" by code_simp
  moreover have "map (derived_trigger_name watched_unit) (dus_Triggers (du_Spec watched_unit)) = [''app-default'', ''app-hotfix'']"
    by code_simp
  ultimately show ?thesis using admitted_unit_derives_admitted_triggers [of sample_validation watched_unit] by auto
qed

definition sample_unit_tick :: "sample unit_tick" where
  "sample_unit_tick = \<lparr>ut_World = sample_world, ut_Log = []\<rparr>"

lemma watched_unit_derives:
  "\<exists>a b. derive_triggers watched_unit (dus_Triggers (du_Spec watched_unit)) [] = Inr [(a, ''app-default''), (b, ''app-hotfix'')]"
proof -
  have "map_sum (\<lambda>e. ()) (map snd) (derive_triggers watched_unit (dus_Triggers (du_Spec watched_unit)) []) =
      Inr [''app-default'', ''app-hotfix'']" by code_simp
  then show ?thesis by (cases "derive_triggers watched_unit (dus_Triggers (du_Spec watched_unit)) []") auto
qed

text \<open>A store of one source and of triggers by name.\<close>

record unit_world_store =
  uw_Source :: "source option"
  uw_Triggers :: "(string \<times> trigger) list"

definition stored_triggers :: "unit_world_store \<Rightarrow> trigger list" where
  "stored_triggers w = filter (\<lambda>t. map_of (uw_Triggers w) (tr_Name t) = Some t) (remdups (map snd (uw_Triggers w)))"

definition not_found_or :: "'o option \<Rightarrow> api_error + 'o" where
  "not_found_or stored = (case stored of None \<Rightarrow> Inl (ApiNotFound ''missing'') | Some x \<Rightarrow> Inr x)"

definition store_unit_env :: "unit_world_store kube \<Rightarrow> delivery_unit \<Rightarrow> unit_world_store unit_env" where
  "store_unit_env kube du = \<lparr>ue_Kube = kube, ue_GetUnit = (\<lambda>n w. (Inr du, w)),
     ue_GetSource = (\<lambda>n w. (not_found_or (uw_Source w), w)),
     ue_GetTrigger = (\<lambda>n w. (not_found_or (map_of (uw_Triggers w) n), w)),
     ue_ListTriggers = (\<lambda>sel w. (Inr (filter (\<lambda>t. list_all (\<lambda>(k, v). smap_get (om_Labels (tr_Meta t)) k = v) sel) (stored_triggers w)), w)),
     ue_ApplySource = (\<lambda>x w. (Inr x, w\<lparr>uw_Source := Some x\<rparr>)),
     ue_ApplyTrigger = (\<lambda>x w. (Inr x, w\<lparr>uw_Triggers := AList.update (tr_Name x) x (uw_Triggers w)\<rparr>)),
     ue_DeleteTrigger = (\<lambda>x w. (Inr (), w\<lparr>uw_Triggers := AList.delete (tr_Name x) (uw_Triggers w)\<rparr>)),
     ue_PatchUnitStatus = (\<lambda>old new w. (Inr new, w)),
     ue_SetControllerReference = (\<lambda>du m. Inr m), ue_IsControlledBy = (\<lambda>m du. smap_get (om_Labels m) LabelUnit = du_Name du),
     ue_Recorder = True\<rparr>"

lemma stored_triggers_listed:
  "distinct (map tr_Name (stored_triggers w))" "t \<in> set (stored_triggers w) \<longleftrightarrow> map_of (uw_Triggers w) (tr_Name t) = Some t"
proof -
  have "inj_on tr_Name (set (stored_triggers w))"
  proof (rule inj_onI)
    fix x y assume "x \<in> set (stored_triggers w)" "y \<in> set (stored_triggers w)" and name: "tr_Name x = tr_Name y"
    then have "map_of (uw_Triggers w) (tr_Name x) = Some x" "map_of (uw_Triggers w) (tr_Name y) = Some y"
      unfolding stored_triggers_def by simp_all
    then show "x = y" unfolding name by (rule option.inject [THEN iffD1, OF trans [OF sym]])
  qed
  moreover have "distinct (stored_triggers w)" by (simp add: stored_triggers_def)
  ultimately show "distinct (map tr_Name (stored_triggers w))" by (simp add: distinct_map)
  show "t \<in> set (stored_triggers w) \<longleftrightarrow> map_of (uw_Triggers w) (tr_Name t) = Some t"
    by (force simp: stored_triggers_def dest: map_of_SomeD)
qed

lemma sample_store_serves:
  "unit_store (store_unit_env kube du) du (\<lambda>m. m) uw_Source (\<lambda>w. map_of (uw_Triggers w))"
  unfolding unit_store_def
  by (auto simp: store_unit_env_def answers_def not_found_or_def selected_def stored_triggers_listed distinct_map_filter
      update_conv' delete_conv' fun_eq_iff split: option.splits)

definition stale_world :: unit_world_store where
  "stale_world = \<lparr>uw_Source = None, uw_Triggers = [(''app-old'', stale_trigger)]\<rparr>"

theorem derivation_pass_is_exact_witness:
  "\<forall>kube. DeleteTriggerCalled ''app-old'' \<in> set (ut_Log (snd (reconcile_active_unit (store_unit_env kube watched_unit) watched_unit
     \<lparr>ut_World = stale_world, ut_Log = []\<rparr>)))"
proof
  fix kube
  let ?env = "store_unit_env kube watched_unit" and ?s = "\<lparr>ut_World = stale_world, ut_Log = []\<rparr>"
  obtain a b where ds: "derive_triggers watched_unit (dus_Triggers (du_Spec watched_unit)) [] = Inr [(a, ''app-default''), (b, ''app-hotfix'')]"
    using watched_unit_derives by blast
  have stale: "tr_Name stale_trigger = ''app-old''" "ue_IsControlledBy (store_unit_env kube watched_unit) (tr_Meta stale_trigger) watched_unit"
      "selected watched_unit stale_trigger"
    by (simp_all add: stale_trigger_def trigger_object_def named_def store_unit_env_def watched_unit_def smap_get_def selected_def
        derived_selector_def kapro_labels)
  have "''app-old'' \<in> stale_names (store_unit_env kube watched_unit) watched_unit (snd ` set [(a, ''app-default''), (b, ''app-hotfix'')])
      (map_of (uw_Triggers stale_world))"
    using stale by (simp add: stale_names_def stale_world_def)
  then have old: "''app-old'' \<in> stale_names ?env watched_unit (snd ` set [(a, ''app-default''), (b, ''app-hotfix'')])
      (map_of (uw_Triggers (ut_World ?s)))" by (simp only: unit_tick.simps)
  have "unclaimed (uw_Source (ut_World ?s)) src_Meta watched_unit"
      "\<forall>name \<in> snd ` set [(a, ''app-default''), (b, ''app-hotfix'')]. unclaimed (map_of (uw_Triggers (ut_World ?s)) name) tr_Meta watched_unit"
    by (simp_all add: unclaimed_def stale_world_def)
  from derivation_pass_is_exact [OF sample_store_serves [of kube] ds this]
  have "\<exists>s' stale. reconcile_active_unit ?env watched_unit ?s = (Inr no_requeue, s') \<and>
      set stale = stale_names ?env watched_unit (snd ` set [(a, ''app-default''), (b, ''app-hotfix'')]) (map_of (uw_Triggers (ut_World ?s))) \<and>
      set (map DeleteTriggerCalled stale) \<subseteq> set (ut_Log s')"
    by (elim exE conjE) (intro exI conjI, assumption, assumption, simp only: set_append, blast)
  with old show "DeleteTriggerCalled ''app-old'' \<in> set (ut_Log (snd (reconcile_active_unit ?env watched_unit ?s)))"
    unfolding set_map by (metis image_subset_iff snd_conv)
qed

lemma put_condition_find:
  "find (\<lambda>d. c_Type d = c_Type c) (put_condition c cs) = Some c"
  by (induction cs) auto

theorem later_ready_changes_are_silent_witness:
  "ut_Log (snd (patch_unit_status (sample_unit_env (\<lambda>n. Inl (ApiNotFound ''missing'')) [])
     (unit_status (sample_unit_env (\<lambda>n. Inl (ApiNotFound ''missing'')) []) watched_unit ''app'' [] ''True'' ''Derived'' ''ready'')
     [] [] ''False'' ''SourceNameConflict'' ''taken'' sample_unit_tick)) =
   [PatchUnitStatusCalled (unit_status (sample_unit_env (\<lambda>n. Inl (ApiNotFound ''missing'')) [])
     (unit_status (sample_unit_env (\<lambda>n. Inl (ApiNotFound ''missing'')) []) watched_unit ''app'' [] ''True'' ''Derived'' ''ready'')
     [] [] ''False'' ''SourceNameConflict'' ''taken'')]"
proof -
  let ?env = "sample_unit_env (\<lambda>n. Inl (ApiNotFound ''missing'')) []"
  let ?du = "unit_status ?env watched_unit ''app'' [] ''True'' ''Derived'' ''ready''"
  have kube: "ue_Kube ?env = sample_kube" by (simp add: sample_unit_env_def)
  have stored: "\<exists>w'. ue_PatchUnitStatus ?env old new w = (Inr new, w')" for old new w by (simp add: sample_unit_env_def)
  have set: "\<forall>c cs. \<exists>d. kb_FindStatusCondition (ue_Kube ?env) (kb_SetStatusCondition (ue_Kube ?env) c cs) (c_Type c) = Some d \<and>
      c_Status d = c_Status c \<and> c_Reason d = c_Reason c \<and> c_ObservedGeneration d = c_ObservedGeneration c"
    by (simp add: kube sample_kube_def put_condition_find)
  have "kb_FindStatusCondition (ue_Kube ?env) (dust_Conditions (du_Status ?du)) ''Ready'' \<noteq> None"
    by (simp add: kube sample_kube_def unit_status_def watched_unit_def plain_unit_def)
  then show ?thesis
    using later_ready_changes_are_silent [OF stored set, of ?du "[]" "[]" "''False''"
        "''SourceNameConflict''" "''taken''" sample_unit_tick]
    by (auto simp: sample_unit_tick_def)
qed

end
