(* ===== verification/Trigger_Controller.thy ===== *)
theory Trigger_Controller
  imports Promotion_Controller Delivery_Unit
begin

text \<open>
  The trigger controller (\<^verbatim>\<open>internal/controller/trigger_controller.go\<close>): it observes the newest
  matching artifact of an OCI source and creates or updates the managed promotion, unless the
  trigger is suspended or dry, the signature does not verify, the artifact is already released, the
  cooldown runs, or too many runs are active. A reconcile carries the world, the log of the writes
  it sends and the trigger with its status. Parameters are the registry and the verifier
  (interfaces of the code), the semver package, the regular expressions and templates of Go, the
  JSON text of the template, and the wording of time parse errors.
\<close>

section \<open>State\<close>

record artifact_observation =
  ao_Tag :: string
  ao_Digest :: string

datatype trigger_effect =
    CreatePromotionCalled promotion
  | UpdatePromotionCalled promotion
  | PatchTriggerStatusCalled trigger
  | TriggerEvent string string string

record 'w trigger_tick =
  gt_World :: 'w
  gt_Log :: "trigger_effect list"
  gt_Trigger :: trigger

record 'w trigger_env =
  te_Kube :: "'w kube"
  te_Lib :: validation_lib
  te_GetTrigger :: "string \<Rightarrow> 'w \<Rightarrow> (api_error + trigger) \<times> 'w"
  te_GetPromotion :: "string \<Rightarrow> 'w \<Rightarrow> (api_error + promotion) \<times> 'w"
  te_ListPromotions :: "smap \<Rightarrow> 'w \<Rightarrow> (api_error + promotion list) \<times> 'w"
  te_ListRuns :: "smap \<Rightarrow> 'w \<Rightarrow> (api_error + promotion_run list) \<times> 'w"
  te_CreatePromotion :: "promotion \<Rightarrow> 'w \<Rightarrow> (api_error + promotion) \<times> 'w"
  te_PatchPromotion :: "promotion \<Rightarrow> promotion \<Rightarrow> 'w \<Rightarrow> (api_error + promotion) \<times> 'w"
  te_PatchTriggerStatus :: "trigger \<Rightarrow> trigger \<Rightarrow> 'w \<Rightarrow> (api_error + trigger) \<times> 'w"
  te_Resolve :: "trigger \<Rightarrow> 'w \<Rightarrow> (go_error + artifact_observation option) \<times> 'w"
  te_Verifier :: "(trigger \<Rightarrow> artifact_observation \<Rightarrow> 'w \<Rightarrow> go_error option \<times> 'w) option"
  te_CompileRegexp :: "string \<Rightarrow> go_error option"
  te_ExecuteTemplate :: "string \<Rightarrow> trigger \<Rightarrow> go_error + string"
  te_TemplateJSON :: "trigger_template \<Rightarrow> string"
  te_TimeError :: "string \<Rightarrow> string"
  te_ControllerRef :: "object_meta \<Rightarrow> owner_reference option"
  te_Recorder :: bool

definition trigger_emit :: "trigger_effect \<Rightarrow> 'w trigger_tick \<Rightarrow> 'w trigger_tick" where
  "trigger_emit e s = s\<lparr>gt_Log := gt_Log s @ [e]\<rparr>"

definition trigger_world :: "'w \<Rightarrow> 'w trigger_tick \<Rightarrow> 'w trigger_tick" where
  "trigger_world w s = s\<lparr>gt_World := w\<rparr>"

definition upd_trigger_status :: "(trigger_status \<Rightarrow> trigger_status) \<Rightarrow> 'w trigger_tick \<Rightarrow> 'w trigger_tick" where
  "upd_trigger_status f s = s\<lparr>gt_Trigger := (gt_Trigger s)\<lparr>tr_Status := f (tr_Status (gt_Trigger s))\<rparr>\<rparr>"

definition trigger_now :: "'w trigger_env \<Rightarrow> 'w trigger_tick \<Rightarrow> int" where
  "trigger_now env s = kb_Now (te_Kube env) (gt_World s)"

section \<open>Constants\<close>

definition promotionTriggerLabel :: string where "promotionTriggerLabel = ''kapro.io/promotion-trigger''"
definition promotionTriggerTemplateHashLabel :: string where
  "promotionTriggerTemplateHashLabel = ''kapro.io/promotion-trigger-template-hash''"
definition promotionTriggerDigestAnno :: string where "promotionTriggerDigestAnno = ''kapro.io/promotion-trigger-digest''"
definition promotionTriggerTagAnno :: string where "promotionTriggerTagAnno = ''kapro.io/promotion-trigger-tag''"
definition promotionTriggerRepoAnno :: string where "promotionTriggerRepoAnno = ''kapro.io/promotion-trigger-repository''"
definition promotionTriggerCreatedAnno :: string where "promotionTriggerCreatedAnno = ''kapro.io/promotion-trigger-created-at''"
definition defaultTriggerCooldown :: int where "defaultTriggerCooldown = 30 * minute"
definition defaultTriggerPoll :: int where "defaultTriggerPoll = 5 * minute"
definition defaultTriggerMaxActive :: int where "defaultTriggerMaxActive = 1"

lemmas trigger_labels = promotionTriggerLabel_def promotionTriggerTemplateHashLabel_def
lemmas trigger_annotations = promotionTriggerDigestAnno_def promotionTriggerTagAnno_def promotionTriggerRepoAnno_def
  promotionTriggerCreatedAnno_def

section \<open>The name of the managed promotion\<close>

definition dns_char :: "char \<Rightarrow> bool" where
  "dns_char c \<longleftrightarrow>
     (let n = (of_char c :: nat) in (97 \<le> n \<and> n \<le> 122) \<or> (48 \<le> n \<and> n \<le> 57) \<or> n = 46 \<or> n = 45)"

definition dns_edge :: "char \<Rightarrow> bool" where
  "dns_edge c \<longleftrightarrow> c = CHR ''-'' \<or> c = CHR ''.''"

text \<open>
  \<^verbatim>\<open>strings.ToLower\<close> as far as the name depends on it: ASCII letters, and the two other runes whose
  lower case is an ASCII letter (the Kelvin sign and the dotted capital I). Every other rune beyond
  ASCII stays beyond ASCII and is replaced afterwards.
\<close>

definition kelvin_sign :: string where "kelvin_sign = map char_of [226, 132, 170 :: nat]"
definition dotted_i :: string where "dotted_i = map char_of [196, 176 :: nat]"

definition lower_char :: "char \<Rightarrow> char" where
  "lower_char c = (let n = (of_char c :: nat) in if 65 \<le> n \<and> n \<le> 90 then char_of (n + 32) else c)"

function to_lower :: "string \<Rightarrow> string" where
  "to_lower s =
     (if s = [] then []
      else if has_prefix s kelvin_sign then CHR ''k'' # to_lower (drop 3 s)
      else if has_prefix s dotted_i then CHR ''i'' # to_lower (drop 2 s)
      else lower_char (hd s) # to_lower (tl s))"
  by pat_completeness auto
termination by (relation "measure length") auto

declare to_lower.simps [simp del]

text \<open>\<^verbatim>\<open>[^a-z0-9.-]+\<close> replaced by a dash.\<close>

function dash_others :: "string \<Rightarrow> string" where
  "dash_others [] = []"
| "dash_others (c # cs) =
     (if dns_char c then c # dash_others cs else CHR ''-'' # dash_others (dropWhile (\<lambda>x. \<not> dns_char x) cs))"
  by pat_completeness auto
termination by (relation "measure length") (auto simp: le_imp_less_Suc length_dropWhile_le)

definition trim_edges_right :: "string \<Rightarrow> string" where
  "trim_edges_right s = rev (dropWhile dns_edge (rev s))"

definition dns_name :: "string \<Rightarrow> string" where
  "dns_name name =
     (let n = trim_edges_right (dropWhile dns_edge (dash_others (to_lower name)))
      in if length n > 253 then trim_edges_right (take 253 n) else n)"

definition managed_promotion_name :: "'w trigger_env \<Rightarrow> trigger \<Rightarrow> go_error + string" where
  "managed_promotion_name env t =
     (let tmpl = tt_NameTemplate (trg_Template (tr_Spec t))
      in if tmpl = [] then Inr (dns_name (tr_Name t))
         else sum_bind (te_ExecuteTemplate env tmpl t) (\<lambda>text.
           let name = dns_name text; errs = vl_DNS1123Subdomain (te_Lib env) name
           in if errs \<noteq> []
              then Inl (''nameTemplate produced invalid Promotion name '' @ go_quote name @ '': '' @ join_semicolon errs)
              else Inr name))"

section \<open>Configuration\<close>

definition positive_duration :: "validation_lib \<Rightarrow> string \<Rightarrow> string \<Rightarrow> go_error + int" where
  "positive_duration vl field value =
     (case parse_duration value of
        None \<Rightarrow> Inl (''parse '' @ field @ '' '' @ go_quote value @ '': '' @ vl_DurationError vl value)
      | Some parsed \<Rightarrow> (if parsed \<le> 0 then Inl (field @ '' must be greater than zero'') else Inr parsed))"

definition poll_interval :: "validation_lib \<Rightarrow> trigger_spec \<Rightarrow> go_error + int" where
  "poll_interval vl spec =
     (case trs_OCI (trg_Source spec) of
        None \<Rightarrow> Inr defaultTriggerPoll
      | Some oci \<Rightarrow>
          (if oci_PollInterval oci = [] then Inr defaultTriggerPoll
           else positive_duration vl ''source.oci.pollInterval'' (oci_PollInterval oci)))"

text \<open>An error carries the reason of the condition.\<close>

definition validate_trigger_config :: "'w trigger_env \<Rightarrow> trigger_spec \<Rightarrow> (string \<times> go_error) + int" where
  "validate_trigger_config env spec =
     (if trs_Type (trg_Source spec) \<noteq> ''oci''
      then Inl (''InvalidSource'', ''unsupported source.type '' @ go_quote (trs_Type (trg_Source spec)))
      else case trs_OCI (trg_Source spec) of
        None \<Rightarrow> Inl (''InvalidSource'', ''source.oci is required when source.type=oci'')
      | Some oci \<Rightarrow>
          (if oci_Repository oci = [] then Inl (''InvalidSource'', ''source.oci.repository is required'')
           else if oci_TagPattern oci = [] then Inl (''InvalidTagPattern'', ''source.oci.tagPattern is required'')
           else case te_CompileRegexp env (oci_TagPattern oci) of
             Some e \<Rightarrow> Inl (''InvalidTagPattern'', ''compile source.oci.tagPattern: '' @ e)
           | None \<Rightarrow>
               (case (if trg_Cooldown spec \<noteq> [] then positive_duration (te_Lib env) ''cooldown'' (trg_Cooldown spec) else Inr 0) of
                  Inl e \<Rightarrow> Inl (''InvalidCooldown'', e)
                | Inr d \<Rightarrow>
                    (if trg_MaxActive spec < 0 then Inl (''InvalidMaxActive'', ''maxActive must be at least 1 when set'')
                     else case poll_interval (te_Lib env) spec of
                       Inl e \<Rightarrow> Inl (''InvalidPollInterval'', e)
                     | Inr pollAfter \<Rightarrow> Inr pollAfter))))"

definition trigger_suspended :: "bool option \<Rightarrow> bool" where
  "trigger_suspended v = (case v of None \<Rightarrow> True | Some b \<Rightarrow> b)"

section \<open>Conditions\<close>

definition set_trigger_condition ::
  "'w trigger_env \<Rightarrow> int \<Rightarrow> string \<Rightarrow> string \<Rightarrow> string \<Rightarrow> string \<Rightarrow> 'w trigger_tick \<Rightarrow> 'w trigger_tick" where
  "set_trigger_condition env now typ status reason message s =
     upd_trigger_status (\<lambda>st. st\<lparr>trt_Conditions := kb_SetStatusCondition (te_Kube env)
       \<lparr>c_Type = typ, c_Status = status, c_Reason = reason, c_Message = message,
        c_ObservedGeneration = om_Generation (tr_Meta (gt_Trigger s)), c_LastTransitionTime = now\<rparr> (trt_Conditions st)\<rparr>) s"

definition clear_stalled :: "'w trigger_env \<Rightarrow> 'w trigger_tick \<Rightarrow> 'w trigger_tick" where
  "clear_stalled env =
     upd_trigger_status (\<lambda>st. st\<lparr>trt_Conditions := kb_RemoveStatusCondition (te_Kube env) ''Stalled'' (trt_Conditions st)\<rparr>)"

definition set_trigger_suspended :: "'w trigger_env \<Rightarrow> int \<Rightarrow> 'w trigger_tick \<Rightarrow> 'w trigger_tick" where
  "set_trigger_suspended env now s =
     clear_stalled env
       (set_trigger_condition env now ''Reconciling'' ''False'' ''Suspended'' ''promotion trigger is suspended''
       (set_trigger_condition env now ''Ready'' ''False'' ''Suspended'' ''promotion trigger is suspended''
       (set_trigger_condition env now ''Suspended'' ''True'' ''Suspended'' ''promotion trigger is suspended'' s)))"

definition set_trigger_active :: "'w trigger_env \<Rightarrow> int \<Rightarrow> 'w trigger_tick \<Rightarrow> 'w trigger_tick" where
  "set_trigger_active env now = set_trigger_condition env now ''Suspended'' ''False'' ''Active'' ''promotion trigger is active''"

definition set_trigger_no_artifact :: "'w trigger_env \<Rightarrow> int \<Rightarrow> 'w trigger_tick \<Rightarrow> 'w trigger_tick" where
  "set_trigger_no_artifact env now s =
     clear_stalled env
       (set_trigger_condition env now ''Reconciling'' ''False'' ''NoMatchingArtifact'' ''source check completed''
       (set_trigger_condition env now ''ArtifactObserved'' ''False'' ''NoMatchingArtifact'' ''no matching artifact observed''
       (set_trigger_condition env now ''Ready'' ''False'' ''NoMatchingArtifact'' ''no matching artifact observed''
       (set_trigger_active env now s))))"

definition set_trigger_ready :: "'w trigger_env \<Rightarrow> int \<Rightarrow> string \<Rightarrow> string \<Rightarrow> 'w trigger_tick \<Rightarrow> 'w trigger_tick" where
  "set_trigger_ready env now reason message s =
     clear_stalled env
       (set_trigger_condition env now ''Reconciling'' ''False'' reason ''source check completed''
       (set_trigger_condition env now ''Ready'' ''True'' reason message
       (set_trigger_active env now s)))"

definition set_trigger_blocked :: "'w trigger_env \<Rightarrow> int \<Rightarrow> string \<Rightarrow> string \<Rightarrow> 'w trigger_tick \<Rightarrow> 'w trigger_tick" where
  "set_trigger_blocked env now reason message s =
     set_trigger_condition env now ''Stalled'' ''True'' reason message
       (set_trigger_condition env now ''Reconciling'' ''False'' reason message
       (set_trigger_condition env now ''Ready'' ''False'' reason message
       (set_trigger_active env now s)))"

definition set_promotion_updated ::
  "'w trigger_env \<Rightarrow> int \<Rightarrow> string \<Rightarrow> string \<Rightarrow> string \<Rightarrow> 'w trigger_tick \<Rightarrow> 'w trigger_tick" where
  "set_promotion_updated env now = set_trigger_condition env now ''PromotionUpdated''"

section \<open>Active runs and cooldown\<close>

definition active_promotion_run_count ::
  "'w trigger_env \<Rightarrow> string \<Rightarrow> 'w trigger_tick \<Rightarrow> (go_error + int) \<times> 'w trigger_tick" where
  "active_promotion_run_count env managedPromotion s =
     (if managedPromotion = [] then (Inr 0, s)
      else case te_ListRuns env [(promotionOwnerLabel, managedPromotion)] (gt_World s) of
        (Inl e, w) \<Rightarrow> (Inl (api_error_text e), trigger_world w s)
      | (Inr runs, w) \<Rightarrow>
          (Inr (go_int32 (int (length (filter (\<lambda>r. \<not> run_phase_is_terminal (rst_Phase (run_Status r))) runs)))),
           trigger_world w s))"

text \<open>\<^verbatim>\<open>pick\<close> and the loop around it: the latest stamp of a list of objects. \<open>what\<close> names the kind.\<close>

fun latest_stamp :: "'w trigger_env \<Rightarrow> string \<Rightarrow> object_meta list \<Rightarrow> int \<Rightarrow> go_error + int" where
  "latest_stamp env what [] latest = Inr latest"
| "latest_stamp env what (m # ms) latest =
     (let raw = smap_get (om_Annotations m) promotionTriggerCreatedAnno
      in case (if raw \<noteq> [] then parse_rfc3339 raw else Some (om_CreationTimestamp m)) of
           None \<Rightarrow> Inl (''parse '' @ what @ '' '' @ om_Name m @ '' annotation: '' @ te_TimeError env raw)
         | Some t \<Rightarrow> latest_stamp env what ms (if t > latest then t else latest))"

definition last_trigger_promotion_created_at ::
  "'w trigger_env \<Rightarrow> 'w trigger_tick \<Rightarrow> (go_error + int) \<times> 'w trigger_tick" where
  "last_trigger_promotion_created_at env s =
     (let selector = [(promotionTriggerLabel, tr_Name (gt_Trigger s))]
      in case te_ListPromotions env selector (gt_World s) of
           (Inl e, w) \<Rightarrow> (Inl (''list managed Promotions for cooldown: '' @ api_error_text e), trigger_world w s)
         | (Inr promotions, w) \<Rightarrow>
             (case latest_stamp env ''Promotion'' (map pm_Meta promotions) go_zero_time of
                Inl e \<Rightarrow> (Inl e, trigger_world w s)
              | Inr latest \<Rightarrow>
                  (case te_ListRuns env selector w of
                     (Inl e, w') \<Rightarrow> (Inl (''list legacy PromotionRuns for cooldown: '' @ api_error_text e), trigger_world w' s)
                   | (Inr runs, w') \<Rightarrow>
                       (latest_stamp env ''PromotionRun'' (map run_Meta runs) latest, trigger_world w' s))))"

text \<open>The function \<^verbatim>\<open>cooldownRemaining\<close>, on the time of the last update as text.\<close>

definition cooldown_from :: "'w trigger_env \<Rightarrow> string \<Rightarrow> string \<Rightarrow> int \<Rightarrow> go_error + int" where
  "cooldown_from env cooldownText lastText now =
     (if lastText = [] then Inr 0
      else case (if cooldownText \<noteq> [] then parse_duration cooldownText else Some defaultTriggerCooldown) of
        None \<Rightarrow> Inl (''parse cooldown '' @ go_quote cooldownText @ '': '' @ vl_DurationError (te_Lib env) cooldownText)
      | Some cooldown \<Rightarrow>
          (case parse_rfc3339 lastText of
             None \<Rightarrow> Inl (''parse status.lastTriggeredAt '' @ go_quote lastText @ '': '' @ te_TimeError env lastText)
           | Some lastAt \<Rightarrow> Inr (if time_sub now lastAt < cooldown then go_int64 (cooldown - time_sub now lastAt) else 0)))"

text \<open>The method of the same name: the later of the stamps and the status of the trigger.\<close>

definition cooldown_remaining ::
  "'w trigger_env \<Rightarrow> int \<Rightarrow> 'w trigger_tick \<Rightarrow> (go_error + int) \<times> 'w trigger_tick" where
  "cooldown_remaining env now s =
     (case last_trigger_promotion_created_at env s of
        (Inl e, s1) \<Rightarrow> (Inl e, s1)
      | (Inr stamped, s1) \<Rightarrow>
          (let statusText = trt_LastTriggeredAt (tr_Status (gt_Trigger s))
           in case (if statusText \<noteq> [] then map_option (\<lambda>t. if t > stamped then t else stamped) (parse_rfc3339 statusText)
                    else Some stamped) of
                None \<Rightarrow> (Inl (''parse status.lastTriggeredAt '' @ go_quote statusText @ '': '' @ te_TimeError env statusText), s1)
              | Some lastAt \<Rightarrow>
                  ((if is_zero_time lastAt then Inr 0
                    else cooldown_from env (trg_Cooldown (tr_Spec (gt_Trigger s))) (format_rfc3339 lastAt) now), s1)))"

section \<open>The desired promotion\<close>

definition artifact_version :: "trigger \<Rightarrow> artifact_observation \<Rightarrow> string" where
  "artifact_version t artifact =
     (let repo = (case trs_OCI (trg_Source (tr_Spec t)) of None \<Rightarrow> [] | Some oci \<Rightarrow> oci_Repository oci)
      in (if has_prefix repo ''oci://'' then repo else ''oci://'' @ repo) @ ''@'' @ ao_Digest artifact)"

definition trigger_template_hash :: "'w trigger_env \<Rightarrow> trigger \<Rightarrow> string" where
  "trigger_template_hash env t = take 12 (sha256_hex (te_TemplateJSON env (trg_Template (tr_Spec t))))"

definition record_recent_artifact :: "trigger_artifact list \<Rightarrow> trigger_artifact \<Rightarrow> trigger_artifact list" where
  "record_recent_artifact xs current =
     (case xs of
        x # rest \<Rightarrow> (if ta_Digest x = ta_Digest current \<and> ta_Tag x = ta_Tag current then current # rest
                     else take MaxRecentArtifacts (current # xs))
      | [] \<Rightarrow> take MaxRecentArtifacts [current])"

definition build_triggered_promotion ::
  "'w trigger_env \<Rightarrow> trigger \<Rightarrow> artifact_observation \<Rightarrow> string \<Rightarrow> string \<Rightarrow> string \<Rightarrow> int \<Rightarrow> go_error + promotion" where
  "build_triggered_promotion env t artifact version managedName templateHash now =
     (let tmpl = trg_Template (tr_Spec t);
          repo = (case trs_OCI (trg_Source (tr_Spec t)) of None \<Rightarrow> [] | Some oci \<Rightarrow> oci_Repository oci)
      in if tt_DeliveryUnitRef tmpl = [] then Inl ''spec.promotionTemplate.deliveryUnitRef is required''
         else if tt_FleetRef tmpl = [] then Inl ''spec.promotionTemplate.fleetRef is required''
         else Inr
           \<lparr>pm_Meta = \<lparr>om_Name = managedName, om_Namespace = [], om_UID = [], om_Generation = 0,
              om_Labels = smap_set promotionTriggerTemplateHashLabel templateHash
                (smap_set promotionTriggerLabel (tr_Name t) (smap_set LabelUnit (tt_DeliveryUnitRef tmpl) (tt_Labels tmpl))),
              om_Annotations = smap_set promotionTriggerCreatedAnno (format_rfc3339 now)
                (smap_set promotionTriggerDigestAnno (ao_Digest artifact)
                  (smap_set promotionTriggerTagAnno (ao_Tag artifact)
                    (smap_set promotionTriggerRepoAnno repo (tt_Annotations tmpl)))),
              om_OwnerReferences = (case te_ControllerRef env (tr_Meta t) of None \<Rightarrow> [] | Some ref \<Rightarrow> [ref]),
              om_Finalizers = [], om_DeletionTimestamp = None, om_CreationTimestamp = go_zero_time\<rparr>,
            pm_Spec = \<lparr>pms_DeliveryUnitRef = tt_DeliveryUnitRef tmpl, pms_FleetRef = tt_FleetRef tmpl,
              pms_PlanRef = tt_PlanRef tmpl, pms_Version = version, pms_Versions = [], pms_Plans = tt_Plans tmpl,
              pms_Scope = tt_Scope tmpl, pms_Timeout = tt_Timeout tmpl,
              pms_Suspended = trigger_suspended (tt_Suspended tmpl)\<rparr>,
            pm_Status = \<lparr>pmst_ObservedGeneration = 0, pmst_Phase = PromotionNone, pmst_ActiveAttemptRef = None,
              pmst_Attempts = [], pmst_ResolvedVersion = [], pmst_Conditions = []\<rparr>\<rparr>)"

definition apply_trigger_to_promotion :: "promotion \<Rightarrow> promotion \<Rightarrow> promotion" where
  "apply_trigger_to_promotion existing desired =
     existing\<lparr>pm_Spec := pm_Spec desired,
       pm_Meta := (pm_Meta existing)
         \<lparr>om_Labels := fold (\<lambda>(k, v). smap_set k v) (om_Labels (pm_Meta desired)) (om_Labels (pm_Meta existing)),
          om_Annotations := fold (\<lambda>(k, v). smap_set k v) (om_Annotations (pm_Meta desired))
            (om_Annotations (pm_Meta existing))\<rparr>\<rparr>"

section \<open>The reconcile\<close>

text \<open>\<open>orig\<close> is the trigger as it was read, the base of the status patch; \<open>now\<close> the time of the pass.\<close>

definition finish_trigger ::
  "'w trigger_env \<Rightarrow> trigger \<Rightarrow> ctrl_result \<Rightarrow> 'w trigger_tick \<Rightarrow> (go_error + ctrl_result) \<times> 'w trigger_tick" where
  "finish_trigger env orig res s =
     (let s1 = trigger_emit (PatchTriggerStatusCalled (gt_Trigger s)) s
      in case te_PatchTriggerStatus env orig (gt_Trigger s) (gt_World s1) of
           (Inl e, w) \<Rightarrow> (Inl (''patch promotion trigger status: '' @ api_error_text e), trigger_world w s1)
         | (Inr stored, w) \<Rightarrow> (Inr res, trigger_world w s1))"

definition block_trigger ::
  "'w trigger_env \<Rightarrow> trigger \<Rightarrow> int \<Rightarrow> string \<Rightarrow> string \<Rightarrow> ctrl_result \<Rightarrow> 'w trigger_tick \<Rightarrow>
    (go_error + ctrl_result) \<times> 'w trigger_tick" where
  "block_trigger env orig now reason message res s =
     finish_trigger env orig res (set_trigger_blocked env now reason message s)"

text \<open>Create the promotion, or update it when it exists. The result is the operation; an error of the
  write blocks the trigger, an error of the second read is returned.\<close>

datatype upsert_failure = WriteFailed string string | ReadFailed string

definition update_promotion ::
  "'w trigger_env \<Rightarrow> promotion \<Rightarrow> promotion \<Rightarrow> 'w trigger_tick \<Rightarrow> (upsert_failure + string) \<times> 'w trigger_tick" where
  "update_promotion env managed desired s =
     (let managed' = apply_trigger_to_promotion managed desired; s1 = trigger_emit (UpdatePromotionCalled managed') s
      in case te_PatchPromotion env managed managed' (gt_World s1) of
           (Inl e, w) \<Rightarrow> (Inl (WriteFailed ''PromotionUpdateFailed'' (api_error_text e)), trigger_world w s1)
         | (Inr stored, w) \<Rightarrow> (Inr ''updated'', trigger_world w s1))"

definition upsert_promotion ::
  "'w trigger_env \<Rightarrow> promotion option \<Rightarrow> promotion \<Rightarrow> 'w trigger_tick \<Rightarrow> (upsert_failure + string) \<times> 'w trigger_tick" where
  "upsert_promotion env managed desired s =
     (case managed of
        Some m \<Rightarrow> update_promotion env m desired s
      | None \<Rightarrow>
          (let s1 = trigger_emit (CreatePromotionCalled desired) s
           in case te_CreatePromotion env desired (gt_World s1) of
                (Inr created, w) \<Rightarrow> (Inr ''created'', trigger_world w s1)
              | (Inl e, w) \<Rightarrow>
                  (if \<not> is_already_exists e
                   then (Inl (WriteFailed ''PromotionCreateFailed'' (api_error_text e)), trigger_world w s1)
                   else case te_GetPromotion env (pm_Name desired) w of
                     (Inl e', w') \<Rightarrow>
                       (Inl (ReadFailed (''re-fetch managed Promotion after AlreadyExists: '' @ api_error_text e')), trigger_world w' s1)
                   | (Inr m, w') \<Rightarrow> update_promotion env m desired (trigger_world w' s1))))"

definition release_artifact ::
  "'w trigger_env \<Rightarrow> trigger \<Rightarrow> int \<Rightarrow> int \<Rightarrow> string \<Rightarrow> string \<Rightarrow> string \<Rightarrow> promotion option \<Rightarrow> artifact_observation \<Rightarrow>
    'w trigger_tick \<Rightarrow> (go_error + ctrl_result) \<times> 'w trigger_tick" where
  "release_artifact env orig now pollAfter managedName version templateHash managed artifact s =
     (let createdAt = trigger_now env s
      in case build_triggered_promotion env (gt_Trigger s) artifact version managedName templateHash createdAt of
           Inl e \<Rightarrow> block_trigger env orig now ''InvalidPromotionTemplate'' e no_requeue s
         | Inr desired \<Rightarrow>
             (if trg_DryRun (tr_Spec (gt_Trigger s)) then
                finish_trigger env orig (requeue_after pollAfter)
                  (set_promotion_updated env now ''False'' ''DryRun'' (''dry run: would upsert Promotion '' @ pm_Name desired)
                    (set_trigger_ready env now ''DryRun''
                      (''would upsert Promotion '' @ pm_Name desired @ '' for '' @ version) s))
              else case upsert_promotion env managed desired s of
                (Inl (WriteFailed reason e), s1) \<Rightarrow> block_trigger env orig now reason e no_requeue s1
              | (Inl (ReadFailed e), s1) \<Rightarrow> (Inl e, s1)
              | (Inr op, s1) \<Rightarrow>
                  (let message = op @ '' Promotion '' @ pm_Name desired;
                       s2 = set_promotion_updated env createdAt ''True'' ''PromotionUpdated'' (message @ '' for '' @ version)
                         (set_trigger_ready env createdAt ''PromotionUpdated'' message
                           (upd_trigger_status (\<lambda>st. st\<lparr>trt_LastTriggeredAt := format_rfc3339 createdAt\<rparr>) s1));
                       s3 = (if te_Recorder env
                             then trigger_emit (TriggerEvent ''Normal'' ''PromotionUpdated'' (message @ '' for '' @ version)) s2 else s2)
                   in finish_trigger env orig (requeue_after pollAfter) s3)))"

text \<open>The guards between a verified artifact and its release: dedup, cooldown, active runs.\<close>

definition guard_release ::
  "'w trigger_env \<Rightarrow> trigger \<Rightarrow> int \<Rightarrow> int \<Rightarrow> int \<Rightarrow> string \<Rightarrow> string \<Rightarrow> string \<Rightarrow> promotion option \<Rightarrow> artifact_observation \<Rightarrow>
    'w trigger_tick \<Rightarrow> (go_error + ctrl_result) \<times> 'w trigger_tick" where
  "guard_release env orig now pollAfter activeCount managedName version templateHash managed artifact s =
     (case cooldown_remaining env now s of
        (Inl e, s1) \<Rightarrow> block_trigger env orig now ''InvalidCooldown'' e no_requeue s1
      | (Inr remaining, s1) \<Rightarrow>
          (if remaining > 0 then
             finish_trigger env orig (requeue_after (min remaining pollAfter))
               (set_promotion_updated env now ''False'' ''CooldownActive'' ''Promotion update delayed by cooldown''
                 (set_trigger_ready env now ''CooldownActive''
                   (''cooldown active for '' @ duration_string (duration_round remaining second)) s1))
           else
             let declared = trg_MaxActive (tr_Spec (gt_Trigger s1));
                 maxActive = (if declared = 0 then defaultTriggerMaxActive else declared)
             in if activeCount \<ge> maxActive then
                  finish_trigger env orig (requeue_after pollAfter)
                    (set_promotion_updated env now ''False'' ''MaxActiveReached'' ''Promotion update delayed by maxActive''
                      (set_trigger_ready env now ''MaxActiveReached''
                        (''active attempt count '' @ itoa activeCount @ '' reached maxActive '' @ itoa maxActive) s1))
                else release_artifact env orig now pollAfter managedName version templateHash managed artifact s1))"

definition lookup_managed ::
  "'w trigger_env \<Rightarrow> trigger \<Rightarrow> int \<Rightarrow> int \<Rightarrow> int \<Rightarrow> string \<Rightarrow> string \<Rightarrow> artifact_observation \<Rightarrow>
    'w trigger_tick \<Rightarrow> (go_error + ctrl_result) \<times> 'w trigger_tick" where
  "lookup_managed env orig now pollAfter activeCount managedName version artifact s0 =
     (let templateHash = trigger_template_hash env (gt_Trigger s0);
          s = upd_trigger_status (\<lambda>st. case trt_LastArtifact st of
                None \<Rightarrow> st
              | Some a \<Rightarrow> st\<lparr>trt_RecentArtifacts := record_recent_artifact (trt_RecentArtifacts st) a\<rparr>) s0
      in case te_GetPromotion env managedName (gt_World s) of
           (Inl e, w) \<Rightarrow>
             (if is_not_found e
              then guard_release env orig now pollAfter activeCount managedName version templateHash None artifact (trigger_world w s)
              else (Inl (''get managed Promotion '' @ go_quote managedName @ '': '' @ api_error_text e), trigger_world w s))
         | (Inr managed, w) \<Rightarrow>
             (if pms_Version (pm_Spec managed) = version \<and>
                 smap_get (om_Labels (pm_Meta managed)) promotionTriggerTemplateHashLabel = templateHash
              then finish_trigger env orig (requeue_after pollAfter)
                     (set_trigger_ready env now ''ArtifactAlreadyReleased''
                       ''managed Promotion already targets this digest+template'' (trigger_world w s))
              else guard_release env orig now pollAfter activeCount managedName version templateHash (Some managed) artifact
                     (trigger_world w s)))"

definition mark_verified :: "'w trigger_env \<Rightarrow> int \<Rightarrow> string \<Rightarrow> string \<Rightarrow> 'w trigger_tick \<Rightarrow> 'w trigger_tick" where
  "mark_verified env now reason message s =
     set_trigger_condition env now ''ArtifactVerified'' ''True'' reason message
       (upd_trigger_status (\<lambda>st. st\<lparr>trt_LastArtifact :=
          map_option (\<lambda>a. a\<lparr>ta_SignatureVerified := True\<rparr>) (trt_LastArtifact st)\<rparr>) s)"

definition verify_artifact ::
  "'w trigger_env \<Rightarrow> trigger \<Rightarrow> int \<Rightarrow> int \<Rightarrow> int \<Rightarrow> string \<Rightarrow> artifact_observation \<Rightarrow>
    'w trigger_tick \<Rightarrow> (go_error + ctrl_result) \<times> 'w trigger_tick" where
  "verify_artifact env orig now pollAfter activeCount managedName artifact s0 =
     (let version = artifact_version (gt_Trigger s0) artifact;
          s = set_trigger_condition env now ''ArtifactObserved'' ''True'' ''ArtifactObserved''
                (''observed artifact '' @ ao_Tag artifact @ ''@'' @ ao_Digest artifact)
                (upd_trigger_status (\<lambda>st. st\<lparr>trt_LastArtifact := Some \<lparr>ta_Tag = ao_Tag artifact, ta_Digest = ao_Digest artifact,
                   ta_Version = version, ta_ObservedAt = format_rfc3339 now, ta_SignatureVerified = False\<rparr>\<rparr>) s0);
          go_on = lookup_managed env orig now pollAfter activeCount managedName version artifact
      in if (case trs_OCI (trg_Source (tr_Spec (gt_Trigger s))) of None \<Rightarrow> False | Some oci \<Rightarrow> oci_RequireSignature oci)
         then case te_Verifier env of
             None \<Rightarrow> block_trigger env orig now ''VerifierUnavailable''
                       ''signature verification is required but no verifier is configured'' (requeue_after pollAfter) s
           | Some verify \<Rightarrow>
               (case verify (gt_Trigger s) artifact (gt_World s) of
                  (Some e, w) \<Rightarrow> block_trigger env orig now ''SignatureVerificationFailed'' e (requeue_after pollAfter) (trigger_world w s)
                | (None, w) \<Rightarrow> go_on (mark_verified env now ''SignatureVerified'' ''artifact signature verification passed''
                                   (trigger_world w s)))
         else go_on (mark_verified env now ''SignatureNotRequired'' ''signature verification is not required for this trigger'' s))"

definition observe_source ::
  "'w trigger_env \<Rightarrow> trigger \<Rightarrow> int \<Rightarrow> int \<Rightarrow> int \<Rightarrow> string \<Rightarrow> 'w trigger_tick \<Rightarrow> (go_error + ctrl_result) \<times> 'w trigger_tick" where
  "observe_source env orig now pollAfter activeCount managedName s =
     (if trigger_suspended (trg_Suspended (tr_Spec (gt_Trigger s)))
      then finish_trigger env orig no_requeue (set_trigger_suspended env now s)
      else case te_Resolve env (gt_Trigger s) (gt_World s) of
        (Inl e, w) \<Rightarrow> block_trigger env orig now ''ResolveFailed'' e (requeue_after pollAfter) (trigger_world w s)
      | (Inr None, w) \<Rightarrow>
          finish_trigger env orig (requeue_after pollAfter) (set_trigger_no_artifact env now (trigger_world w s))
      | (Inr (Some artifact), w) \<Rightarrow> verify_artifact env orig now pollAfter activeCount managedName artifact (trigger_world w s))"

definition reconcile_found ::
  "'w trigger_env \<Rightarrow> trigger \<Rightarrow> int \<Rightarrow> 'w trigger_tick \<Rightarrow> (go_error + ctrl_result) \<times> 'w trigger_tick" where
  "reconcile_found env t now s =
     (case validate_trigger_config env (tr_Spec t) of
        Inl (reason, e) \<Rightarrow> block_trigger env t now reason e no_requeue s
      | Inr pollAfter \<Rightarrow>
          (case managed_promotion_name env t of
             Inl e \<Rightarrow> block_trigger env t now ''InvalidNameTemplate'' e no_requeue s
           | Inr managedName \<Rightarrow>
               (case active_promotion_run_count env managedName
                    (upd_trigger_status (\<lambda>st. st\<lparr>trt_ManagedPromotion := managedName\<rparr>) s) of
                  (Inl e, s1) \<Rightarrow>
                    (Inl (''count active PromotionRuns for managed Promotion '' @ go_quote managedName @ '': '' @ e), s1)
                | (Inr activeCount, s1) \<Rightarrow>
                    observe_source env t now pollAfter activeCount managedName
                      (upd_trigger_status (\<lambda>st. st\<lparr>trt_ActivePromotionRunCount := activeCount\<rparr>) s1))))"

definition reconcile_trigger ::
  "'w trigger_env \<Rightarrow> string \<Rightarrow> 'w trigger_tick \<Rightarrow> (go_error + ctrl_result) \<times> 'w trigger_tick" where
  "reconcile_trigger env name s0 =
     (case te_GetTrigger env name (gt_World s0) of
        (Inl e, w) \<Rightarrow> ((if is_not_found e then Inr no_requeue else Inl (api_error_text e)), trigger_world w s0)
      | (Inr t, w) \<Rightarrow>
          (let now = kb_Now (te_Kube env) w
           in reconcile_found env t now (upd_trigger_status
                (\<lambda>st. st\<lparr>trt_ObservedGeneration := om_Generation (tr_Meta t), trt_LastCheckedAt := format_rfc3339 now\<rparr>)
                ((trigger_world w s0)\<lparr>gt_Trigger := t\<rparr>))))"

section \<open>The OCI resolver\<close>

text \<open>The registry client, the semver package and the regular expressions. Tags come in pages.\<close>

record 'w registry =
  rg_Compile :: "string \<Rightarrow> go_error option"
  rg_Match :: "string \<Rightarrow> string \<Rightarrow> bool"
  rg_NewRepository :: "string \<Rightarrow> go_error option"
  rg_Credential :: "string \<times> string \<Rightarrow> string \<Rightarrow> 'w \<Rightarrow> go_error option \<times> 'w"
  rg_Tags :: "string \<Rightarrow> 'w \<Rightarrow> (go_error + string list list) \<times> 'w"
  rg_Digest :: "string \<Rightarrow> string \<Rightarrow> 'w \<Rightarrow> (go_error + string) \<times> 'w"
  rg_Canonical :: "string \<Rightarrow> string"
  rg_Compare :: "string \<Rightarrow> string \<Rightarrow> int"

definition semver_canonical :: "'w registry \<Rightarrow> string \<Rightarrow> string" where
  "semver_canonical rg tag = (if rg_Canonical rg tag \<noteq> [] then rg_Canonical rg tag else rg_Canonical rg (CHR ''v'' # tag))"

definition tag_less :: "'w registry \<Rightarrow> string \<Rightarrow> string \<Rightarrow> bool" where
  "tag_less rg left right =
     (let l = semver_canonical rg left; r = semver_canonical rg right
      in if l \<noteq> [] \<and> r \<noteq> [] then rg_Compare rg l r < 0
         else if l \<noteq> [] then False
         else if r \<noteq> [] then True
         else left < right)"

text \<open>\<^verbatim>\<open>sort.SliceStable\<close>: the stable sort by a strict weak order is unique, so an insertion sort.\<close>

fun insert_stable :: "('a \<Rightarrow> 'a \<Rightarrow> bool) \<Rightarrow> 'a \<Rightarrow> 'a list \<Rightarrow> 'a list" where
  "insert_stable lt x [] = [x]"
| "insert_stable lt x (y # ys) = (if lt y x then y # insert_stable lt x ys else x # y # ys)"

definition sort_stable :: "('a \<Rightarrow> 'a \<Rightarrow> bool) \<Rightarrow> 'a list \<Rightarrow> 'a list" where
  "sort_stable lt xs = foldr (insert_stable lt) xs []"

definition resolve_newest ::
  "'w registry \<Rightarrow> string \<Rightarrow> string list \<Rightarrow> 'w \<Rightarrow> (go_error + artifact_observation option) \<times> 'w" where
  "resolve_newest rg repoRef tags w =
     (if tags = [] then (Inr None, w)
      else let tag = last (sort_stable (tag_less rg) tags)
        in case rg_Digest rg repoRef tag w of
             (Inl e, w') \<Rightarrow> (Inl (''resolve OCI tag '' @ go_quote tag @ '': '' @ e), w')
           | (Inr digest, w') \<Rightarrow> (Inr (Some \<lparr>ao_Tag = tag, ao_Digest = digest\<rparr>), w'))"

definition oci_resolve :: "'w registry \<Rightarrow> trigger \<Rightarrow> 'w \<Rightarrow> (go_error + artifact_observation option) \<times> 'w" where
  "oci_resolve rg t w =
     (case (if trs_Type (trg_Source (tr_Spec t)) = ''oci'' then trs_OCI (trg_Source (tr_Spec t)) else None) of
        None \<Rightarrow> (Inl ''only oci promotion trigger sources are supported'', w)
      | Some src \<Rightarrow>
          (case rg_Compile rg (oci_TagPattern src) of
             Some e \<Rightarrow> (Inl (''compile tagPattern: '' @ e), w)
           | None \<Rightarrow>
               (let repoRef = trim_prefix (oci_Repository src) ''oci://''
                in case rg_NewRepository rg repoRef of
                     Some e \<Rightarrow> (Inl (''create OCI repository '' @ go_quote (oci_Repository src) @ '': '' @ e), w)
                   | None \<Rightarrow>
                       (case (case oci_SecretRef src of None \<Rightarrow> (None, w) | Some ref \<Rightarrow> rg_Credential rg ref repoRef w) of
                          (Some e, w1) \<Rightarrow> (Inl e, w1)
                        | (None, w1) \<Rightarrow>
                            (case rg_Tags rg repoRef w1 of
                               (Inl e, w2) \<Rightarrow> (Inl (''list OCI tags: '' @ e), w2)
                             | (Inr pages, w2) \<Rightarrow>
                                 resolve_newest rg repoRef (filter (rg_Match rg (oci_TagPattern src)) (concat pages)) w2)))))"

end
