(* ===== verification/Trigger_Properties.thy ===== *)
theory Trigger_Properties
  imports Trigger_Controller Effect_Log Delivery_Unit_Properties
begin

text \<open>
  Triggers: what must hold before a promotion is written, how long the cooldown lasts and where its
  arithmetic overflows, what an update keeps of the promotion, which tag is the newest one, the names
  and the history of artifacts a trigger writes.
\<close>

interpretation trigger_log: effect_log gt_Log trigger_emit trigger_world
  by unfold_locales (simp_all add: trigger_emit_def trigger_world_def)

section \<open>Frames\<close>

named_theorems trigger_frame "what the bookkeeping of a trigger leaves unchanged"

lemma upd_trigger_status_frame [trigger_frame]:
  "gt_Log (upd_trigger_status f s) = gt_Log s" "gt_World (upd_trigger_status f s) = gt_World s"
  "tr_Spec (gt_Trigger (upd_trigger_status f s)) = tr_Spec (gt_Trigger s)"
  "tr_Meta (gt_Trigger (upd_trigger_status f s)) = tr_Meta (gt_Trigger s)"
  "tr_Status (gt_Trigger (upd_trigger_status f s)) = f (tr_Status (gt_Trigger s))"
  by (simp_all add: upd_trigger_status_def)

lemma trigger_world_frame [trigger_frame]:
  "gt_Log (trigger_world w s) = gt_Log s" "gt_World (trigger_world w s) = w" "gt_Trigger (trigger_world w s) = gt_Trigger s"
  by (simp_all add: trigger_world_def)

lemma trigger_emit_frame [trigger_frame]:
  "gt_Log (trigger_emit e s) = gt_Log s @ [e]" "gt_World (trigger_emit e s) = gt_World s"
  "gt_Trigger (trigger_emit e s) = gt_Trigger s"
  by (simp_all add: trigger_emit_def)

lemmas trigger_conditions = set_trigger_condition_def clear_stalled_def set_trigger_suspended_def set_trigger_active_def
  set_trigger_no_artifact_def set_trigger_ready_def set_trigger_blocked_def set_promotion_updated_def mark_verified_def

lemma trigger_conditions_frame [trigger_frame]:
  "gt_Log (set_trigger_blocked env now r m s) = gt_Log s" "gt_Log (set_trigger_ready env now r m s) = gt_Log s"
  "gt_Log (set_promotion_updated env now st r m s) = gt_Log s" "gt_Log (set_trigger_suspended env now s) = gt_Log s"
  "gt_Log (set_trigger_no_artifact env now s) = gt_Log s" "gt_Log (mark_verified env now r m s) = gt_Log s"
  "gt_Log (set_trigger_condition env now ty st r m s) = gt_Log s"
  "tr_Spec (gt_Trigger (mark_verified env now r m s)) = tr_Spec (gt_Trigger s)"
  "tr_Spec (gt_Trigger (set_trigger_condition env now ty st r m s)) = tr_Spec (gt_Trigger s)"
  "tr_Meta (gt_Trigger (mark_verified env now r m s)) = tr_Meta (gt_Trigger s)"
  "tr_Meta (gt_Trigger (set_trigger_condition env now ty st r m s)) = tr_Meta (gt_Trigger s)"
  "gt_World (set_trigger_blocked env now r m s) = gt_World s" "gt_World (set_trigger_ready env now r m s) = gt_World s"
  "gt_World (set_promotion_updated env now st r m s) = gt_World s"
  by (simp_all add: trigger_conditions trigger_frame)

section \<open>What must hold before a promotion is written\<close>

fun written :: "trigger_effect \<Rightarrow> promotion option" where
  "written (CreatePromotionCalled p) = Some p"
| "written (UpdatePromotionCalled p) = Some p"
| "written (PatchTriggerStatusCalled t) = None"
| "written (TriggerEvent typ reason message) = None"

abbreviation writes_only :: "(promotion \<Rightarrow> bool) \<Rightarrow> 'w trigger_tick \<Rightarrow> 'w trigger_tick \<Rightarrow> bool" where
  "writes_only Q \<equiv> log_adds gt_Log (\<lambda>e. \<forall>p. written e = Some p \<longrightarrow> Q p)"

lemma finish_writes: "finish_trigger env orig res s0 = (r, s') \<Longrightarrow> gt_Log s0 = gt_Log s \<Longrightarrow> writes_only Q s s'"
  by (auto simp: finish_trigger_def Let_def log_adds_def trigger_frame split: prod.splits sum.splits)

lemma finish_after: "finish_trigger env orig res s2 = (r, s') \<Longrightarrow> writes_only Q s s2 \<Longrightarrow> writes_only Q s s'"
  by (rule log_adds_trans [OF _ finish_writes]) auto

lemma block_writes: "block_trigger env orig now reason m res s0 = (r, s') \<Longrightarrow> gt_Log s0 = gt_Log s \<Longrightarrow> writes_only Q s s'"
  unfolding block_trigger_def by (erule finish_writes) (simp add: trigger_frame)

lemma update_writes:
  "update_promotion env m desired s = (r, s') \<Longrightarrow> writes_only (\<lambda>p. pm_Spec p = pm_Spec desired) s s'"
  by (auto simp: update_promotion_def Let_def log_adds_def trigger_frame apply_trigger_to_promotion_def
      split: prod.splits sum.splits)

lemma upsert_writes:
  assumes "upsert_promotion env managed desired s = (r, s')"
  shows "writes_only (\<lambda>p. pm_Spec p = pm_Spec desired) s s'"
proof (cases managed)
  case (Some m)
  then show ?thesis using assms update_writes [of env m desired s] by (simp add: upsert_promotion_def)
next
  case None
  let ?s1 = "trigger_emit (CreatePromotionCalled desired) s"
  have one: "writes_only (\<lambda>p. pm_Spec p = pm_Spec desired) s (trigger_world w ?s1)" for w
    by (simp add: log_adds_def trigger_frame)
  show ?thesis
    using assms None one log_adds_trans [OF one update_writes]
    by (auto simp: upsert_promotion_def Let_def split: prod.splits sum.splits if_splits)
qed

definition desired_of :: "'w trigger_env \<Rightarrow> trigger_spec \<Rightarrow> artifact_observation \<Rightarrow> string \<Rightarrow> promotion \<Rightarrow> bool" where
  "desired_of env spec artifact version p \<longleftrightarrow>
     (let tmpl = trg_Template spec
      in tt_DeliveryUnitRef tmpl \<noteq> [] \<and> tt_FleetRef tmpl \<noteq> [] \<and>
         pm_Spec p = \<lparr>pms_DeliveryUnitRef = tt_DeliveryUnitRef tmpl, pms_FleetRef = tt_FleetRef tmpl,
           pms_PlanRef = tt_PlanRef tmpl, pms_Version = version, pms_Versions = [], pms_Plans = tt_Plans tmpl,
           pms_Scope = tt_Scope tmpl, pms_Timeout = tt_Timeout tmpl, pms_Suspended = trigger_suspended (tt_Suspended tmpl)\<rparr>)"

lemma build_desired:
  "build_triggered_promotion env t artifact version name hash c = Inr desired \<Longrightarrow> pm_Spec p = pm_Spec desired \<Longrightarrow>
     desired_of env (tr_Spec t) artifact version p"
  by (auto simp: build_triggered_promotion_def desired_of_def Let_def split: if_splits)

lemma release_writes:
  assumes "release_artifact env orig now pollAfter managedName version templateHash managed artifact s = (r, s')"
  shows "writes_only (\<lambda>p. \<not> trg_DryRun (tr_Spec (gt_Trigger s)) \<and> desired_of env (tr_Spec (gt_Trigger s)) artifact version p) s s'"
    (is "writes_only ?Q s s'")
proof (cases "build_triggered_promotion env (gt_Trigger s) artifact version managedName templateHash (trigger_now env s)")
  case (Inl e)
  show ?thesis using assms
    by (simp only: release_artifact_def Let_def Inl sum.case) (erule block_writes, rule refl)
next
  case (Inr desired)
  note built = this
  show ?thesis
  proof (cases "trg_DryRun (tr_Spec (gt_Trigger s))")
    case True
    show ?thesis using assms
      by (simp only: release_artifact_def Let_def built sum.case True if_True) (erule finish_writes, simp add: trigger_frame)
  next
    case False
    obtain res s1 where up: "upsert_promotion env managed desired s = (res, s1)" by fastforce
    have first: "writes_only ?Q s s1"
      using log_adds_mono [OF upsert_writes [OF up]] build_desired [OF built] False by fastforce
    have rest: "writes_only ?Q s1 s'"
    proof (cases res)
      case (Inl f)
      show ?thesis
      proof (cases f)
        case (WriteFailed reason e)
        show ?thesis using assms
          by (simp only: release_artifact_def Let_def built sum.case False if_False up Inl WriteFailed prod.case upsert_failure.case)
            (erule block_writes, rule refl)
      next
        case (ReadFailed e)
        then show ?thesis using assms built False up Inl by (simp add: release_artifact_def log_adds_same)
      qed
    next
      case (Inr op)
      show ?thesis using assms
        by (simp only: release_artifact_def Let_def built sum.case False if_False up Inr prod.case)
          (erule finish_after, simp add: log_adds_def trigger_frame)
    qed
    from log_adds_trans [OF first rest] show ?thesis .
  qed
qed

text \<open>The trigger a pass carries: only bookkeeping of the status differs from the trigger that was read.\<close>

definition same_trigger :: "trigger \<Rightarrow> trigger \<Rightarrow> bool" where
  "same_trigger t u \<longleftrightarrow> tr_Spec u = tr_Spec t \<and> tr_Meta u = tr_Meta t \<and>
     trt_LastTriggeredAt (tr_Status u) = trt_LastTriggeredAt (tr_Status t)"

definition past_cooldown :: "'w trigger_env \<Rightarrow> int \<Rightarrow> trigger \<Rightarrow> bool" where
  "past_cooldown env now t \<longleftrightarrow>
     (\<exists>s1 s2 remaining. same_trigger t (gt_Trigger s1) \<and> cooldown_remaining env now s1 = (Inr remaining, s2) \<and> remaining \<le> 0)"

definition below_max_active :: "trigger_spec \<Rightarrow> int \<Rightarrow> bool" where
  "below_max_active spec n \<longleftrightarrow> n < (if trg_MaxActive spec = 0 then 1 else trg_MaxActive spec)"

definition not_released :: "'w trigger_env \<Rightarrow> string \<Rightarrow> string \<Rightarrow> string \<Rightarrow> bool" where
  "not_released env name version hash \<longleftrightarrow>
     (\<exists>w. case fst (te_GetPromotion env name w) of
        Inl e \<Rightarrow> is_not_found e
      | Inr m \<Rightarrow> \<not> (pms_Version (pm_Spec m) = version \<and> smap_get (om_Labels (pm_Meta m)) promotionTriggerTemplateHashLabel = hash))"

definition requires_signature :: "trigger_spec \<Rightarrow> bool" where
  "requires_signature spec \<longleftrightarrow> (case trs_OCI (trg_Source spec) of None \<Rightarrow> False | Some oci \<Rightarrow> oci_RequireSignature oci)"

definition signature_accepted :: "'w trigger_env \<Rightarrow> trigger \<Rightarrow> artifact_observation \<Rightarrow> bool" where
  "signature_accepted env t artifact \<longleftrightarrow> \<not> requires_signature (tr_Spec t) \<or>
     (\<exists>verify u w. te_Verifier env = Some verify \<and> same_trigger t u \<and> fst (verify u artifact w) = None)"

lemma cooldown_remaining_frame:
  "cooldown_remaining env now s = (r, s1) \<Longrightarrow> gt_Log s1 = gt_Log s \<and> gt_Trigger s1 = gt_Trigger s"
  by (auto simp: cooldown_remaining_def last_trigger_promotion_created_at_def Let_def trigger_frame
      split: prod.splits sum.splits option.splits if_splits)

lemma active_count_frame:
  "active_promotion_run_count env name s = (r, s1) \<Longrightarrow> gt_Log s1 = gt_Log s \<and> gt_Trigger s1 = gt_Trigger s"
  by (auto simp: active_promotion_run_count_def trigger_frame split: prod.splits sum.splits if_splits)

lemma guard_writes:
  assumes run: "guard_release env orig now pollAfter activeCount managedName version templateHash managed artifact s = (r, s')"
    and t: "same_trigger t (gt_Trigger s)"
  shows "writes_only (\<lambda>p. past_cooldown env now t \<and> below_max_active (tr_Spec t) activeCount \<and> \<not> trg_DryRun (tr_Spec t) \<and>
    desired_of env (tr_Spec t) artifact version p) s s'"
proof -
  obtain c s1 where c: "cooldown_remaining env now s = (c, s1)" by fastforce
  note frame = cooldown_remaining_frame [OF c]
  show ?thesis
  proof (cases c)
    case (Inl e)
    show ?thesis using run
      by (simp only: guard_release_def c Inl prod.case sum.case) (erule block_writes, simp add: frame)
  next
    case (Inr remaining)
    consider "remaining > 0" | "remaining \<le> 0" "\<not> below_max_active (tr_Spec t) activeCount"
      | "remaining \<le> 0" "below_max_active (tr_Spec t) activeCount" by linarith
    then show ?thesis
    proof cases
      case 1
      show ?thesis using run
        by (simp only: guard_release_def c Inr prod.case sum.case 1 if_True) (erule finish_writes, simp add: frame trigger_frame)
    next
      case 2
      then have "activeCount \<ge> (if trg_MaxActive (tr_Spec (gt_Trigger s1)) = 0 then defaultTriggerMaxActive
          else trg_MaxActive (tr_Spec (gt_Trigger s1)))" "\<not> remaining > 0"
        using t frame by (auto simp: below_max_active_def same_trigger_def defaultTriggerMaxActive_def)
      with run show ?thesis
        by (simp only: guard_release_def c Inr prod.case sum.case if_False Let_def if_True)
          (erule finish_writes, simp add: frame trigger_frame)
    next
      case 3
      then have "\<not> activeCount \<ge> (if trg_MaxActive (tr_Spec (gt_Trigger s1)) = 0 then defaultTriggerMaxActive
          else trg_MaxActive (tr_Spec (gt_Trigger s1)))" "\<not> remaining > 0"
        using t frame by (auto simp: below_max_active_def same_trigger_def defaultTriggerMaxActive_def)
      with run have "release_artifact env orig now pollAfter managedName version templateHash managed artifact s1 = (r, s')"
        by (simp only: guard_release_def c Inr prod.case sum.case if_False Let_def)
      note rel = release_writes [OF this]
      have "past_cooldown env now t" unfolding past_cooldown_def using c Inr 3(1) t by blast
      with rel 3 show ?thesis
        using t frame by (auto simp: log_adds_def same_trigger_def list_all_iff)
    qed
  qed
qed

lemma same_trigger_hash: "same_trigger t u \<Longrightarrow> trigger_template_hash env u = trigger_template_hash env t"
  by (simp add: same_trigger_def trigger_template_hash_def)

lemma same_trigger_version: "same_trigger t u \<Longrightarrow> artifact_version u artifact = artifact_version t artifact"
  by (simp add: same_trigger_def artifact_version_def)

lemma lookup_writes:
  assumes run: "lookup_managed env orig now pollAfter activeCount managedName version artifact s = (r, s')"
    and t: "same_trigger t (gt_Trigger s)"
  shows "writes_only (\<lambda>p. not_released env managedName version (trigger_template_hash env t) \<and>
    past_cooldown env now t \<and> below_max_active (tr_Spec t) activeCount \<and> \<not> trg_DryRun (tr_Spec t) \<and>
    desired_of env (tr_Spec t) artifact version p) s s'" (is "writes_only ?Q s s'")
proof -
  define u where "u = upd_trigger_status (\<lambda>st. case trt_LastArtifact st of None \<Rightarrow> st
      | Some a \<Rightarrow> st\<lparr>trt_RecentArtifacts := record_recent_artifact (trt_RecentArtifacts st) a\<rparr>) s"
  have u: "same_trigger t (gt_Trigger u)" "gt_Log u = gt_Log s"
    using t by (auto simp: u_def same_trigger_def trigger_frame split: option.splits)
  obtain g w where g: "te_GetPromotion env managedName (gt_World u) = (g, w)" by fastforce
  have guarded: "writes_only ?Q s s'" if "not_released env managedName version (trigger_template_hash env t)"
      "guard_release env orig now pollAfter activeCount managedName version (trigger_template_hash env t) managed artifact
        (trigger_world w u) = (r, s')" for managed
    using guard_writes [OF that(2), of t] u that(1) by (auto simp: trigger_frame log_adds_def list_all_iff)
  have unfolded: "lookup_managed env orig now pollAfter activeCount managedName version artifact s =
     (case g of
        Inl e \<Rightarrow> (if is_not_found e then guard_release env orig now pollAfter activeCount managedName version
             (trigger_template_hash env t) None artifact (trigger_world w u)
           else (Inl (''get managed Promotion '' @ go_quote managedName @ '': '' @ api_error_text e), trigger_world w u))
      | Inr managed \<Rightarrow>
          (if pms_Version (pm_Spec managed) = version \<and>
              smap_get (om_Labels (pm_Meta managed)) promotionTriggerTemplateHashLabel = trigger_template_hash env t
           then finish_trigger env orig (requeue_after pollAfter)
             (set_trigger_ready env now ''ArtifactAlreadyReleased'' ''managed Promotion already targets this digest+template'' (trigger_world w u))
           else guard_release env orig now pollAfter activeCount managedName version (trigger_template_hash env t)
             (Some managed) artifact (trigger_world w u)))"
    unfolding lookup_managed_def Let_def u_def [symmetric] g prod.case same_trigger_hash [OF t] by (rule refl)
  show ?thesis
  proof (cases g)
    case (Inl e)
    show ?thesis
    proof (cases "is_not_found e")
      case True
      moreover have "not_released env managedName version (trigger_template_hash env t)"
        unfolding not_released_def using g Inl True by (intro exI [of _ "gt_World u"]) simp
      ultimately show ?thesis using run Inl guarded by (simp add: unfolded)
    next
      case False
      then show ?thesis using run Inl u by (auto simp: unfolded log_adds_def trigger_frame)
    qed
  next
    case (Inr managed)
    show ?thesis
    proof (cases "pms_Version (pm_Spec managed) = version \<and>
        smap_get (om_Labels (pm_Meta managed)) promotionTriggerTemplateHashLabel = trigger_template_hash env t")
      case True
      show ?thesis using run
        by (simp only: unfolded Inr sum.case True simp_thms if_True) (erule finish_writes, simp add: u trigger_frame)
    next
      case False
      moreover have "not_released env managedName version (trigger_template_hash env t)"
        unfolding not_released_def using g Inr False by (intro exI [of _ "gt_World u"]) simp
      ultimately show ?thesis using run Inr guarded by (simp only: unfolded sum.case if_False)
    qed
  qed
qed

text \<open>What licenses a write of \<open>p\<close> for the artifact: every guard of the pass, in the order of the code.\<close>

definition licensed ::
  "'w trigger_env \<Rightarrow> int \<Rightarrow> trigger \<Rightarrow> string \<Rightarrow> int \<Rightarrow> artifact_observation \<Rightarrow> promotion \<Rightarrow> bool" where
  "licensed env now t managedName activeCount artifact p \<longleftrightarrow>
     signature_accepted env t artifact \<and>
     not_released env managedName (artifact_version t artifact) (trigger_template_hash env t) \<and>
     past_cooldown env now t \<and> below_max_active (tr_Spec t) activeCount \<and> \<not> trg_DryRun (tr_Spec t) \<and>
     desired_of env (tr_Spec t) artifact (artifact_version t artifact) p"

lemma same_trigger_steps:
  assumes "same_trigger t (gt_Trigger s)"
  shows "same_trigger t (gt_Trigger (mark_verified env now r m s))"
    "same_trigger t (gt_Trigger (set_trigger_condition env now ty st r m s))"
    "same_trigger t (gt_Trigger (trigger_world w s))"
    "(\<And>st. trt_LastTriggeredAt (f st) = trt_LastTriggeredAt st) \<Longrightarrow> same_trigger t (gt_Trigger (upd_trigger_status f s))"
  using assms by (simp_all add: same_trigger_def trigger_frame mark_verified_def set_trigger_condition_def)

lemma verify_writes:
  assumes run: "verify_artifact env orig now pollAfter activeCount managedName artifact s = (r, s')"
    and t: "same_trigger t (gt_Trigger s)"
  shows "writes_only (licensed env now t managedName activeCount artifact) s s'" (is "writes_only ?Q s s'")
proof -
  define u where "u = set_trigger_condition env now ''ArtifactObserved'' ''True'' ''ArtifactObserved''
                (''observed artifact '' @ ao_Tag artifact @ ''@'' @ ao_Digest artifact)
                (upd_trigger_status (\<lambda>st. st\<lparr>trt_LastArtifact := Some \<lparr>ta_Tag = ao_Tag artifact, ta_Digest = ao_Digest artifact,
                   ta_Version = artifact_version t artifact, ta_ObservedAt = format_rfc3339 now, ta_SignatureVerified = False\<rparr>\<rparr>) s)"
  have u: "same_trigger t (gt_Trigger u)" "gt_Log u = gt_Log s"
    unfolding u_def by (auto intro!: same_trigger_steps t simp: trigger_frame)
  have req: "(case trs_OCI (trg_Source (tr_Spec (gt_Trigger u))) of None \<Rightarrow> False | Some oci \<Rightarrow> oci_RequireSignature oci) =
      requires_signature (tr_Spec t)" using u by (simp add: requires_signature_def same_trigger_def)
  have unfolded: "verify_artifact env orig now pollAfter activeCount managedName artifact s =
      (let go_on = lookup_managed env orig now pollAfter activeCount managedName (artifact_version t artifact) artifact
       in if requires_signature (tr_Spec t)
         then case te_Verifier env of
             None \<Rightarrow> block_trigger env orig now ''VerifierUnavailable''
                       ''signature verification is required but no verifier is configured'' (requeue_after pollAfter) u
           | Some verify \<Rightarrow>
               (case verify (gt_Trigger u) artifact (gt_World u) of
                  (Some e, w) \<Rightarrow> block_trigger env orig now ''SignatureVerificationFailed'' e (requeue_after pollAfter) (trigger_world w u)
                | (None, w) \<Rightarrow> go_on (mark_verified env now ''SignatureVerified'' ''artifact signature verification passed''
                                   (trigger_world w u)))
         else go_on (mark_verified env now ''SignatureNotRequired'' ''signature verification is not required for this trigger'' u))"
    unfolding verify_artifact_def Let_def same_trigger_version [OF t] u_def [symmetric] req by (rule refl)
  have on: "writes_only ?Q s s'" if "signature_accepted env t artifact" "same_trigger t (gt_Trigger v)" "gt_Log v = gt_Log s"
      "lookup_managed env orig now pollAfter activeCount managedName (artifact_version t artifact) artifact v = (r, s')" for v
    using lookup_writes [OF that(4,2)] that(1,3) by (auto simp: licensed_def log_adds_def list_all_iff)
  show ?thesis
  proof (cases "requires_signature (tr_Spec t)")
    case False
    then have "signature_accepted env t artifact" by (simp add: signature_accepted_def)
    then show ?thesis
    proof (rule on)
      show "lookup_managed env orig now pollAfter activeCount managedName (artifact_version t artifact) artifact
        (mark_verified env now ''SignatureNotRequired'' ''signature verification is not required for this trigger'' u) = (r, s')"
        using run False by (simp only: unfolded Let_def if_False)
    qed (simp_all add: same_trigger_steps u trigger_frame)
  next
    case True
    show ?thesis
    proof (cases "te_Verifier env")
      case None
      show ?thesis using run
        by (simp only: unfolded Let_def True if_True None option.case) (erule block_writes, simp add: u)
    next
      case (Some verify)
      obtain e w where v: "verify (gt_Trigger u) artifact (gt_World u) = (e, w)" by fastforce
      show ?thesis
      proof (cases e)
        case (Some e')
        show ?thesis using run
          by (simp only: unfolded Let_def True if_True \<open>te_Verifier env = Some verify\<close> option.case v Some prod.case)
            (erule block_writes, simp add: u trigger_frame)
      next
        case None
        have "fst (verify (gt_Trigger u) artifact (gt_World u)) = None" using v None by simp
        then have "signature_accepted env t artifact" using Some u(1) by (auto simp: signature_accepted_def)
        then show ?thesis
        proof (rule on)
          show "lookup_managed env orig now pollAfter activeCount managedName (artifact_version t artifact) artifact
            (mark_verified env now ''SignatureVerified'' ''artifact signature verification passed'' (trigger_world w u)) = (r, s')"
            using run True Some v None by (simp only: unfolded Let_def if_True option.case prod.case)
        qed (simp_all add: same_trigger_steps u trigger_frame)
      qed
    qed
  qed
qed

lemma observe_writes:
  assumes run: "observe_source env orig now pollAfter activeCount managedName s = (r, s')"
    and t: "same_trigger t (gt_Trigger s)"
  shows "writes_only (\<lambda>p. trg_Suspended (tr_Spec t) = Some False \<and>
    (\<exists>u w artifact. same_trigger t u \<and> fst (te_Resolve env u w) = Inr (Some artifact) \<and>
       licensed env now t managedName activeCount artifact p)) s s'" (is "writes_only ?Q s s'")
proof -
  have spec: "tr_Spec (gt_Trigger s) = tr_Spec t" using t by (simp add: same_trigger_def)
  obtain res w where res: "te_Resolve env (gt_Trigger s) (gt_World s) = (res, w)" by fastforce
  consider "trigger_suspended (trg_Suspended (tr_Spec t))" | e where "\<not> trigger_suspended (trg_Suspended (tr_Spec t))" "res = Inl e"
    | "\<not> trigger_suspended (trg_Suspended (tr_Spec t))" "res = Inr None"
    | artifact where "\<not> trigger_suspended (trg_Suspended (tr_Spec t))" "res = Inr (Some artifact)"
    by (metis sum.exhaust option.exhaust)
  then show ?thesis
  proof cases
    case 1
    show ?thesis using run by (simp only: observe_source_def spec 1 if_True) (erule finish_writes, simp add: trigger_frame)
  next
    case 2
    show ?thesis using run
      by (simp only: observe_source_def spec 2 if_False res prod.case sum.case) (erule block_writes, simp add: trigger_frame)
  next
    case 3
    show ?thesis using run
      by (simp only: observe_source_def spec 3 if_False res prod.case sum.case option.case) (erule finish_writes, simp add: trigger_frame)
  next
    case (4 artifact)
    have "verify_artifact env orig now pollAfter activeCount managedName artifact (trigger_world w s) = (r, s')"
      using run by (simp only: observe_source_def spec 4 if_False res prod.case sum.case option.case)
    from verify_writes [OF this, of t]
    have lic: "writes_only (licensed env now t managedName activeCount artifact) s s'"
      using same_trigger_steps(3) [OF t] by (simp add: log_adds_def trigger_frame)
    have "fst (te_Resolve env (gt_Trigger s) (gt_World s)) = Inr (Some artifact)" using res 4(2) by simp
    moreover have "trg_Suspended (tr_Spec t) = Some False"
      using 4(1) by (cases "trg_Suspended (tr_Spec t)") (auto simp: trigger_suspended_def)
    ultimately show ?thesis using t by (intro log_adds_mono [OF lic]) blast
  qed
qed

lemma found_writes:
  assumes run: "reconcile_found env t now s = (r, s')" and t: "same_trigger t (gt_Trigger s)"
  shows "writes_only (\<lambda>p. trg_Suspended (tr_Spec t) = Some False \<and>
    (\<exists>pollAfter managedName activeCount artifact u w s1 s2.
       validate_trigger_config env (tr_Spec t) = Inr pollAfter \<and> managed_promotion_name env t = Inr managedName \<and>
       active_promotion_run_count env managedName s1 = (Inr activeCount, s2) \<and>
       same_trigger t u \<and> fst (te_Resolve env u w) = Inr (Some artifact) \<and>
       licensed env now t managedName activeCount artifact p)) s s'" (is "writes_only ?Q s s'")
proof (cases "validate_trigger_config env (tr_Spec t)")
  case (Inl re)
  show ?thesis using run
    by (cases re, simp only: reconcile_found_def Inl sum.case prod.case) (erule block_writes, rule refl)
next
  case valid: (Inr pollAfter)
  show ?thesis
  proof (cases "managed_promotion_name env t")
    case (Inl e')
    show ?thesis using run
      by (simp only: reconcile_found_def valid Inl sum.case prod.case) (erule block_writes, rule refl)
  next
    case named: (Inr managedName)
    let ?v = "upd_trigger_status (\<lambda>st. st\<lparr>trt_ManagedPromotion := managedName\<rparr>) s"
    obtain c s2 where c: "active_promotion_run_count env managedName ?v = (c, s2)" by fastforce
    have s2: "gt_Log s2 = gt_Log s" "same_trigger t (gt_Trigger s2)"
      using active_count_frame [OF c] same_trigger_steps(4) [OF t, of "\<lambda>st. st\<lparr>trt_ManagedPromotion := managedName\<rparr>"]
      by (simp_all add: trigger_frame)
    show ?thesis
    proof (cases c)
      case (Inl e')
      then show ?thesis using run s2 by (auto simp: reconcile_found_def valid named c log_adds_def)
    next
      case (Inr activeCount)
      let ?x = "upd_trigger_status (\<lambda>st. st\<lparr>trt_ActivePromotionRunCount := activeCount\<rparr>) s2"
      have "observe_source env t now pollAfter activeCount managedName ?x = (r, s')"
        using run by (simp only: reconcile_found_def valid named c Inr sum.case prod.case)
      from observe_writes [OF this same_trigger_steps(4) [OF s2(2)]]
      have "log_adds gt_Log (\<lambda>e. \<forall>p. written e = Some p \<longrightarrow> ?Q p) ?x s'"
        by (rule log_adds_mono) (use valid named c Inr in \<open>simp; blast\<close>)+
      then show ?thesis using s2 by (simp add: log_adds_def trigger_frame)
    qed
  qed
qed

text \<open>C6. A promotion is created or updated only past every guard: the trigger is active and not dry, its
  configuration and name are accepted, the newest artifact was resolved and its signature accepted when
  one is required, the managed promotion does not carry this version from this template yet, the
  cooldown has run out, fewer runs than the maximum are active, and what is written is the promotion
  of the template at the version of that artifact.\<close>

theorem promotion_written_only_past_guards:
  assumes rec: "reconcile_trigger env name s = (r, s')" and fresh: "gt_Log s = []"
    and wr: "e \<in> set (gt_Log s')" "written e = Some p"
  shows "\<exists>t w pollAfter managedName artifact u w1 s1 s2 activeCount.
    te_GetTrigger env name (gt_World s) = (Inr t, w) \<and> trg_Suspended (tr_Spec t) = Some False \<and>
    validate_trigger_config env (tr_Spec t) = Inr pollAfter \<and> managed_promotion_name env t = Inr managedName \<and>
    active_promotion_run_count env managedName s1 = (Inr activeCount, s2) \<and>
    same_trigger t u \<and> fst (te_Resolve env u w1) = Inr (Some artifact) \<and>
    licensed env (kb_Now (te_Kube env) w) t managedName activeCount artifact p"
proof -
  obtain g w where g: "te_GetTrigger env name (gt_World s) = (g, w)" by fastforce
  show ?thesis
  proof (cases g)
    case (Inl e')
    then have "gt_Log s' = []" using rec g fresh by (auto simp: reconcile_trigger_def trigger_frame)
    then show ?thesis using wr by simp
  next
    case (Inr t)
    define now where "now = kb_Now (te_Kube env) w"
    define u where "u = upd_trigger_status (\<lambda>st. st\<lparr>trt_ObservedGeneration := om_Generation (tr_Meta t),
                     trt_LastCheckedAt := format_rfc3339 now\<rparr>) ((trigger_world w s)\<lparr>gt_Trigger := t\<rparr>)"
    have u: "same_trigger t (gt_Trigger u)" "gt_Log u = []"
      using fresh by (simp_all add: u_def same_trigger_def trigger_frame trigger_world_def)
    have "reconcile_found env t now u = (r, s')"
      using rec by (simp only: reconcile_trigger_def Let_def g Inr prod.case sum.case now_def u_def)
    from log_adds_member [OF found_writes [OF this u(1)] u(2) wr(1)] wr(2)
    obtain pollAfter managedName activeCount artifact v w1 s1 s2 where "trg_Suspended (tr_Spec t) = Some False"
        "validate_trigger_config env (tr_Spec t) = Inr pollAfter" "managed_promotion_name env t = Inr managedName"
        "active_promotion_run_count env managedName s1 = (Inr activeCount, s2)" "same_trigger t v"
        "fst (te_Resolve env v w1) = Inr (Some artifact)" "licensed env now t managedName activeCount artifact p"
      by blast
    moreover have "te_GetTrigger env name (gt_World s) = (Inr t, w)" using g Inr by simp
    ultimately show ?thesis unfolding now_def by (intro exI conjI)
  qed
qed

section \<open>Names of promotions\<close>

definition dns_shaped :: "string \<Rightarrow> bool" where
  "dns_shaped n \<longleftrightarrow> length n \<le> 253 \<and> list_all dns_char n \<and> dropWhile dns_edge n = n \<and> dropWhile dns_edge (rev n) = rev n"

lemma dropWhile_idem: "dropWhile P (dropWhile P xs) = dropWhile P xs"
  by (induction xs) auto

lemma dropWhile_front: "dropWhile P (xs @ ys) = xs @ ys \<Longrightarrow> dropWhile P xs = xs"
proof (cases xs)
  case (Cons c cs)
  assume "dropWhile P (xs @ ys) = xs @ ys"
  then have "\<not> P c" using Cons length_dropWhile_le [of P "cs @ ys"] by (auto split: if_splits)
  then show ?thesis using Cons by simp
qed simp

lemma trim_edges_right_split: "\<exists>ys. n = trim_edges_right n @ ys"
proof -
  have "rev n = takeWhile dns_edge (rev n) @ dropWhile dns_edge (rev n)" by simp
  then have "n = rev (dropWhile dns_edge (rev n)) @ rev (takeWhile dns_edge (rev n))"
    by (metis rev_append rev_rev_ident)
  then show ?thesis unfolding trim_edges_right_def by blast
qed

lemma trim_edges_right_front: "dropWhile dns_edge n = n \<Longrightarrow> dropWhile dns_edge (trim_edges_right n) = trim_edges_right n"
  using trim_edges_right_split [of n] by (metis dropWhile_front)

lemma trim_edges_right_back: "dropWhile dns_edge (rev (trim_edges_right n)) = rev (trim_edges_right n)"
  by (simp add: trim_edges_right_def dropWhile_idem)

lemma trim_edges_right_id: "dropWhile dns_edge (rev n) = rev n \<Longrightarrow> trim_edges_right n = n"
  by (simp add: trim_edges_right_def)

lemma trim_edges_right_sub: "set (trim_edges_right n) \<subseteq> set n" "length (trim_edges_right n) \<le> length n"
  using trim_edges_right_split [of n] by (metis set_append Un_upper1, metis length_append le_add1)

lemma dash_others_chars: "list_all dns_char (dash_others s)"
  by (induction s rule: dash_others.induct) (auto simp: dns_char_def)

lemma dash_others_id: "list_all dns_char s \<Longrightarrow> dash_others s = s"
  by (induction s rule: dash_others.induct) auto

lemma to_lower_id: "list_all dns_char s \<Longrightarrow> to_lower s = s"
proof (induction s rule: to_lower.induct)
  case (1 s)
  show ?case
  proof (cases s)
    case (Cons c cs)
    then have c: "dns_char c" and rest: "list_all dns_char cs" using "1.prems" by simp_all
    have "\<not> has_prefix s kelvin_sign" "\<not> has_prefix s dotted_i" "lower_char c = c"
      using c Cons by (auto simp: kelvin_sign_def dotted_i_def lower_char_def dns_char_def Let_def)
    moreover have "to_lower (tl s) = tl s" using "1.IH"(3) [of] calculation Cons rest by simp
    ultimately show ?thesis using Cons by (subst to_lower.simps) simp
  qed (simp add: to_lower.simps)
qed

lemma dns_name_shaped: "dns_shaped (dns_name s)"
proof -
  define n where "n = trim_edges_right (dropWhile dns_edge (dash_others (to_lower s)))"
  have front: "dropWhile dns_edge n = n" unfolding n_def by (intro trim_edges_right_front dropWhile_idem)
  have chars: "list_all dns_char n"
    using trim_edges_right_sub(1) set_dropWhileD [of _ dns_edge] dash_others_chars [of "to_lower s"]
    unfolding n_def list_all_iff by (metis subsetD)
  have cut: "dropWhile dns_edge (take 253 n) = take 253 n"
    using front by (metis append_take_drop_id dropWhile_front)
  have "list_all dns_char (trim_edges_right (take 253 n))"
    using trim_edges_right_sub(1) [of "take 253 n"] chars unfolding list_all_iff by (meson in_set_takeD subsetD)
  moreover have "length (trim_edges_right (take 253 n)) \<le> 253"
    using trim_edges_right_sub(2) [of "take 253 n"] by simp
  ultimately have "dns_shaped (trim_edges_right (take 253 n))"
    using trim_edges_right_front [OF cut] trim_edges_right_back by (simp add: dns_shaped_def)
  moreover have "dns_shaped n" if "length n \<le> 253"
    using that front chars trim_edges_right_back by (simp add: dns_shaped_def n_def)
  ultimately show ?thesis by (simp add: dns_name_def n_def Let_def)
qed

text \<open>C34. The name of a managed promotion has the characters and the length of a DNS name whatever the trigger or
  the template holds: at most 253 bytes of lower-case letters, digits, dashes and dots, and no dash or
  dot at either end. The names left as they are are exactly those.\<close>

theorem promotion_names_are_dns_shaped:
  "dns_shaped (dns_name s) \<and> (dns_name s = s) = dns_shaped s"
proof -
  have "dns_name s = s" if "dns_shaped s"
    using that trim_edges_right_id [of s]
    by (simp add: dns_shaped_def dns_name_def to_lower_id dash_others_id Let_def)
  then show ?thesis using dns_name_shaped [of s] by (auto simp: eq_commute)
qed

section \<open>The history of artifacts\<close>

definition artifact_key :: "trigger_artifact \<Rightarrow> string \<times> string" where
  "artifact_key a = (ta_Digest a, ta_Tag a)"

lemma remdups_adj_push: "remdups_adj (k # ks) = (if ks \<noteq> [] \<and> hd ks = k then remdups_adj ks else k # remdups_adj ks)"
  by (cases ks) auto

text \<open>The recent artifacts of a trigger are the last twenty runs of one digest and tag, newest first, and the
  first entry is the newest observation itself: the list refines the history of observations.\<close>

theorem recent_artifacts_refine_the_history:
  "map artifact_key (fold (\<lambda>a xs. record_recent_artifact xs a) seen []) =
     take MaxRecentArtifacts (remdups_adj (rev (map artifact_key seen))) \<and>
   take 1 (fold (\<lambda>a xs. record_recent_artifact xs a) seen []) = take 1 (rev seen)"
proof (induction seen rule: rev_induct)
  case (snoc a seen)
  define xs where "xs = fold (\<lambda>a xs. record_recent_artifact xs a) seen []"
  define ks where "ks = rev (map artifact_key seen)"
  have keys: "map artifact_key xs = take MaxRecentArtifacts (remdups_adj ks)" using snoc by (simp add: xs_def ks_def)
  show ?case
  proof (cases xs)
    case Nil
    then have "ks = []" using keys by (cases ks) (auto simp: MaxRecentArtifacts_def remdups_adj_push split: if_splits)
    then show ?thesis using Nil by (simp add: ks_def xs_def [symmetric] record_recent_artifact_def MaxRecentArtifacts_def)
  next
    case (Cons x rest)
    then have "ks \<noteq> []" using keys by auto
    then have hd: "hd ks = artifact_key x"
      using keys Cons by (metis hd_remdups_adj hd_take list.sel(1) list.simps(9) take_eq_Nil list.distinct(1) remdups_adj_Nil_iff neq0_conv)
    have upd: "record_recent_artifact (x # rest) a =
        (if artifact_key x = artifact_key a then a # rest else a # take 19 (x # rest))"
      by (auto simp: record_recent_artifact_def artifact_key_def MaxRecentArtifacts_def)
    have "take 19 (map artifact_key xs) = take 19 (remdups_adj ks)" by (simp add: keys MaxRecentArtifacts_def)
    then have cut: "map artifact_key (take 19 (x # rest)) = take 19 (remdups_adj ks)" by (simp only: Cons take_map)
    have "fold (\<lambda>a xs. record_recent_artifact xs a) (seen @ [a]) [] = record_recent_artifact (x # rest) a"
      by (simp add: xs_def [symmetric] Cons)
    moreover have "rev (map artifact_key (seen @ [a])) = artifact_key a # ks" by (simp add: ks_def)
    ultimately show ?thesis
      using keys hd \<open>ks \<noteq> []\<close> cut by (auto simp: Cons upd remdups_adj_push MaxRecentArtifacts_def)
  qed
qed simp

section \<open>The newest tag\<close>

definition strict_weak :: "('a \<Rightarrow> 'a \<Rightarrow> bool) \<Rightarrow> bool" where
  "strict_weak lt \<longleftrightarrow> (\<forall>x y. lt x y \<longrightarrow> \<not> lt y x) \<and> (\<forall>x y z. \<not> lt x y \<longrightarrow> \<not> lt y z \<longrightarrow> \<not> lt x z)"

lemma insert_stable_set: "set (insert_stable lt x xs) = insert x (set xs)"
  by (induction xs) auto

lemma sort_stable_set: "set (sort_stable lt xs) = set xs"
  by (induction xs) (simp_all add: sort_stable_def insert_stable_set)

lemma sort_stable_Nil [simp]: "sort_stable lt [] = []"
  by (simp add: sort_stable_def)

lemma strict_weak_asym: "strict_weak lt \<Longrightarrow> lt x y \<Longrightarrow> \<not> lt y x"
  and strict_weak_trans: "strict_weak lt \<Longrightarrow> \<not> lt x y \<Longrightarrow> \<not> lt y z \<Longrightarrow> \<not> lt x z"
  unfolding strict_weak_def by blast+

lemma insert_stable_sorted:
  assumes lt: "strict_weak lt"
  shows "sorted_wrt (\<lambda>x y. \<not> lt y x) xs \<Longrightarrow> sorted_wrt (\<lambda>x y. \<not> lt y x) (insert_stable lt x xs)"
proof (induction xs)
  case (Cons y ys)
  show ?case
  proof (cases "lt y x")
    case True
    then show ?thesis using Cons strict_weak_asym [OF lt True] by (simp add: insert_stable_set)
  next
    case False
    have "\<not> lt z x" if "z \<in> set ys" for z
      using Cons.prems that by (intro strict_weak_trans [OF lt _ False]) simp
    then show ?thesis using Cons.prems False by simp
  qed
qed simp

lemma sort_stable_sorted: "strict_weak lt \<Longrightarrow> sorted_wrt (\<lambda>x y. \<not> lt y x) (sort_stable lt xs)"
  by (induction xs) (simp_all add: sort_stable_def insert_stable_sorted)

lemma insert_stable_filter:
  "(\<And>y. y \<in> set xs \<Longrightarrow> P y \<Longrightarrow> P x \<Longrightarrow> \<not> lt y x) \<Longrightarrow> filter P (insert_stable lt x xs) = filter P (x # xs)"
  by (induction xs) auto

lemma sort_stable_filter:
  "(\<And>x y. x \<in> set xs \<Longrightarrow> y \<in> set xs \<Longrightarrow> P y \<Longrightarrow> P x \<Longrightarrow> \<not> lt y x) \<Longrightarrow> filter P (sort_stable lt xs) = filter P xs"
proof (induction xs)
  case (Cons x xs)
  then have "filter P (sort_stable lt xs) = filter P xs" by simp
  moreover have "filter P (insert_stable lt x (sort_stable lt xs)) = filter P (x # sort_stable lt xs)"
    by (rule insert_stable_filter) (use Cons.prems in \<open>auto simp: sort_stable_set\<close>)
  ultimately show ?case by (simp add: sort_stable_def)
qed simp

lemma last_filter: "xs \<noteq> [] \<Longrightarrow> P (last xs) \<Longrightarrow> last (filter P xs) = last xs"
  by (induction xs rule: rev_induct) auto

lemma sort_stable_last_greatest:
  assumes lt: "strict_weak lt" and y: "y \<in> set xs"
  shows "\<not> lt (last (sort_stable lt xs)) y"
proof -
  have "\<not> lt y y" using strict_weak_asym [OF lt] by blast
  then have "sorted_wrt (\<lambda>x y. \<not> lt y x) ys \<Longrightarrow> y \<in> set ys \<Longrightarrow> \<not> lt (last ys) y" for ys
    by (induction ys rule: rev_induct) (auto simp: sorted_wrt_append)
  then show ?thesis using sort_stable_sorted [OF lt, of xs] y by (simp add: sort_stable_set)
qed

text \<open>The last element of a stable sort is the last of the greatest ones.\<close>

lemma sort_stable_last:
  assumes lt: "strict_weak lt" and ne: "xs \<noteq> []"
  shows "last (sort_stable lt xs) = last (filter (\<lambda>x. \<forall>y \<in> set xs. \<not> lt x y) xs)"
proof -
  let ?P = "\<lambda>x. \<forall>y \<in> set xs. \<not> lt x y" and ?ys = "sort_stable lt xs"
  have ys: "?ys \<noteq> []" using ne sort_stable_set [of lt xs] by (metis set_empty)
  have "?P (last ?ys)" using sort_stable_last_greatest [OF lt] by blast
  moreover have "filter ?P ?ys = filter ?P xs" by (rule sort_stable_filter) auto
  ultimately show ?thesis using last_filter [OF ys, of ?P] by simp
qed

definition semver_law :: "'w registry \<Rightarrow> bool" where
  "semver_law rg \<longleftrightarrow> strict_weak (\<lambda>a b. rg_Compare rg a b < 0)"

lemma tag_less_strict_weak: "semver_law rg \<Longrightarrow> strict_weak (tag_less rg)"
proof -
  assume law: "semver_law rg"
  let ?lt = "\<lambda>a b. rg_Compare rg a b < 0" and ?c = "semver_canonical rg"
  have asym: "\<not> ?lt b a" if "?lt a b" for a b using strict_weak_asym [OF law [unfolded semver_law_def]] that by blast
  have trans: "\<not> ?lt a c" if "\<not> ?lt a b" "\<not> ?lt b c" for a b c
    using strict_weak_trans [OF law [unfolded semver_law_def]] that by blast
  have less: "tag_less rg x y \<longleftrightarrow> (if ?c x \<noteq> [] then ?c y \<noteq> [] \<and> ?lt (?c x) (?c y) else ?c y \<noteq> [] \<or> x < y)" for x y
    by (simp add: tag_less_def Let_def)
  show ?thesis unfolding strict_weak_def
  proof (intro conjI allI impI)
    fix x y
    assume "tag_less rg x y"
    then show "\<not> tag_less rg y x"
      using asym [of "?c x" "?c y"] less_not_sym [of x y] by (simp add: less split: if_splits)
  next
    fix x y z
    assume "\<not> tag_less rg x y" "\<not> tag_less rg y z"
    then show "\<not> tag_less rg x z"
      using trans [of "?c x" "?c y" "?c z"] by (auto simp: less not_less split: if_splits)
  qed
qed

text \<open>C23. The resolver picks the newest tag: among the tags that match the pattern, on whatever page, none is
  greater than the chosen one, a semantic version beats any other tag, and of equal versions the one
  listed last wins; the digest is the one the registry resolves for that tag.\<close>

theorem resolver_picks_the_newest_tag:
  assumes law: "semver_law rg" and res: "oci_resolve rg t w = (Inr (Some a), w')"
  shows "\<exists>oci pages w1 w2. trs_OCI (trg_Source (tr_Spec t)) = Some oci \<and>
    rg_Tags rg (trim_prefix (oci_Repository oci) ''oci://'') w1 = (Inr pages, w2) \<and>
    (let tags = filter (rg_Match rg (oci_TagPattern oci)) (concat pages)
     in ao_Tag a \<in> set tags \<and> ao_Tag a = last (filter (\<lambda>x. \<forall>y \<in> set tags. \<not> tag_less rg x y) tags) \<and>
        (\<forall>y \<in> set tags. \<not> tag_less rg (ao_Tag a) y)) \<and>
    rg_Digest rg (trim_prefix (oci_Repository oci) ''oci://'') (ao_Tag a) w2 = (Inr (ao_Digest a), w')"
proof -
  from res obtain oci pages w1 w2 where parts: "trs_OCI (trg_Source (tr_Spec t)) = Some oci"
      "rg_Tags rg (trim_prefix (oci_Repository oci) ''oci://'') w1 = (Inr pages, w2)"
      "resolve_newest rg (trim_prefix (oci_Repository oci) ''oci://'') (filter (rg_Match rg (oci_TagPattern oci)) (concat pages)) w2 =
         (Inr (Some a), w')"
    by (auto simp: oci_resolve_def Let_def split: if_splits option.splits prod.splits sum.splits)
  define tags where "tags = filter (rg_Match rg (oci_TagPattern oci)) (concat pages)"
  have ne: "tags \<noteq> []" using parts(3) by (auto simp: resolve_newest_def tags_def)
  let ?tag = "last (sort_stable (tag_less rg) tags)"
  have tag: "ao_Tag a = ?tag" "rg_Digest rg (trim_prefix (oci_Repository oci) ''oci://'') ?tag w2 = (Inr (ao_Digest a), w')"
    using parts(3) ne by (auto simp: resolve_newest_def tags_def [symmetric] Let_def split: prod.splits sum.splits)
  note chosen = sort_stable_last [OF tag_less_strict_weak [OF law] ne]
  have "sort_stable (tag_less rg) tags \<noteq> []" using ne sort_stable_set [of "tag_less rg" tags] by (metis set_empty)
  then have "?tag \<in> set tags" using last_in_set sort_stable_set by metis
  moreover have "\<forall>y \<in> set tags. \<not> tag_less rg ?tag y"
    using sort_stable_last_greatest [OF tag_less_strict_weak [OF law]] by blast
  ultimately show ?thesis using parts(1,2) tag chosen
    by (intro exI [of _ oci] exI [of _ pages] exI [of _ w1] exI [of _ w2]) (simp add: Let_def tags_def [symmetric])
qed

section \<open>The cooldown\<close>

definition stamp_of :: "object_meta \<Rightarrow> int option" where
  "stamp_of m =
     (let raw = smap_get (om_Annotations m) promotionTriggerCreatedAnno
      in if raw \<noteq> [] then parse_rfc3339 raw else Some (om_CreationTimestamp m))"

lemma latest_stamp_fold:
  "map stamp_of ms = map Some ts \<Longrightarrow> latest_stamp env what ms latest = Inr (fold max ts latest)"
proof (induction ms arbitrary: ts latest)
  case (Cons m ms)
  then obtain t ts' where ts: "ts = t # ts'" "stamp_of m = Some t" "map stamp_of ms = map Some ts'" by (cases ts) auto
  have "latest_stamp env what (m # ms) latest = latest_stamp env what ms (if t > latest then t else latest)"
    using ts(2) by (simp add: stamp_of_def Let_def)
  also have "(if t > latest then t else latest) = max t latest" by simp
  finally show ?case using Cons.IH [OF ts(3)] ts(1) by simp
qed simp

lemma le_fold_max: "x \<le> fold max xs (x :: int)"
proof (induction xs arbitrary: x)
  case (Cons y ys)
  show ?case using Cons.IH [of "max y x"] by simp
qed simp

lemma cooldown_from_in_range:
  assumes "lastText \<noteq> []" "parse_rfc3339 lastText = Some lastAt"
    and "(if cooldownText \<noteq> [] then parse_duration cooldownText else Some defaultTriggerCooldown) = Some cooldown"
    and "\<bar>now - lastAt\<bar> < 2 ^ 63" "cooldown - (now - lastAt) < 2 ^ 63"
  shows "cooldown_from env cooldownText lastText now = Inr (max 0 (cooldown - (now - lastAt)))"
proof -
  have sub: "time_sub now lastAt = now - lastAt" using assms(4) by (auto simp: time_sub_def abs_less_iff)
  have "go_int64 (cooldown - (now - lastAt)) = cooldown - (now - lastAt)" if "now - lastAt < cooldown"
    using that assms(5) by (intro go_int64_id) linarith+
  then show ?thesis using assms(1-3) by (auto simp: cooldown_from_def sub simp del: format_rfc3339_nonempty)
qed

text \<open>The cooldown counts, to the second, from the latest of all stamps: those on the promotions and runs that
  carry the label of the trigger (their creation where they have no stamp) and the status of the
  trigger itself. What remains is the cooldown less the time since then, and never negative.\<close>

theorem cooldown_counts_from_the_latest_stamp:
  assumes lists: "te_ListPromotions env [(promotionTriggerLabel, tr_Name (gt_Trigger s))] (gt_World s) = (Inr ps, w1)"
      "te_ListRuns env [(promotionTriggerLabel, tr_Name (gt_Trigger s))] w1 = (Inr rs, w2)"
    and stamps: "map stamp_of (map pm_Meta ps) = map Some ts" "map stamp_of (map run_Meta rs) = map Some us"
    and status: "(if trt_LastTriggeredAt (tr_Status (gt_Trigger s)) = [] then Some go_zero_time
      else parse_rfc3339 (trt_LastTriggeredAt (tr_Status (gt_Trigger s)))) = Some v"
    and latest: "latest = Max (set (go_zero_time # ts @ us @ [v]))" "latest \<noteq> go_zero_time" "printable_instant latest"
    and cooldown: "(if trg_Cooldown (tr_Spec (gt_Trigger s)) \<noteq> [] then parse_duration (trg_Cooldown (tr_Spec (gt_Trigger s)))
      else Some defaultTriggerCooldown) = Some cooldown"
    and at: "at = latest - latest mod second" "\<bar>now - at\<bar> < 2 ^ 63" "cooldown - (now - at) < 2 ^ 63"
  shows "cooldown_remaining env now s = (Inr (max 0 (cooldown - (now - at))), trigger_world w2 s)"
proof -
  define stamped where "stamped = fold max us (fold max ts go_zero_time)"
  have run: "last_trigger_promotion_created_at env s = (Inr stamped, trigger_world w2 s)"
    by (simp add: last_trigger_promotion_created_at_def stamped_def lists latest_stamp_fold [OF stamps(1)]
        latest_stamp_fold [OF stamps(2)])
  have max_stamped: "latest = max v stamped"
    unfolding latest(1) Max.set_eq_fold stamped_def by simp
  have zero: "go_zero_time \<le> stamped"
    using le_fold_max [of go_zero_time ts] le_fold_max [of "fold max ts go_zero_time" us] by (simp add: stamped_def)
  have from_latest: "(if trt_LastTriggeredAt (tr_Status (gt_Trigger s)) \<noteq> []
      then map_option (\<lambda>t. if t > stamped then t else stamped) (parse_rfc3339 (trt_LastTriggeredAt (tr_Status (gt_Trigger s))))
      else Some stamped) = Some latest"
  proof (cases "trt_LastTriggeredAt (tr_Status (gt_Trigger s)) = []")
    case True
    then show ?thesis using status zero by (simp add: max_stamped max_def)
  next
    case False
    then show ?thesis using status by (simp add: max_stamped max_def)
  qed
  have "cooldown_from env (trg_Cooldown (tr_Spec (gt_Trigger s))) (format_rfc3339 latest) now = Inr (max 0 (cooldown - (now - at)))"
    using cooldown_from_in_range [OF _ _ cooldown, of "format_rfc3339 latest" at] parse_format_rfc3339 [OF latest(3)] at
    by simp
  then show ?thesis using from_latest latest(2)
    by (simp add: cooldown_remaining_def run Let_def is_zero_time_def)
qed

text \<open>A stamp more than 292 years ahead lifts the cooldown instead of extending it: the elapsed time saturates at
  the least 64-bit duration, the subtraction wraps, and what remains is negative.\<close>

theorem far_stamp_lifts_the_cooldown:
  assumes "parse_rfc3339 lastText = Some lastAt" "lastText \<noteq> []" "now + 2 ^ 63 \<le> lastAt"
    and "(if cooldownText \<noteq> [] then parse_duration cooldownText else Some defaultTriggerCooldown) = Some cooldown"
    and "0 \<le> cooldown" "cooldown < 2 ^ 63"
  shows "cooldown_from env cooldownText lastText now = Inr (cooldown - 2 ^ 63)"
proof -
  have sub: "time_sub now lastAt = - (2 ^ 63)" using assms(3) by (simp add: time_sub_def)
  have "go_int64 (cooldown + 2 ^ 63) = cooldown - 2 ^ 63"
    using assms(5,6) by (simp add: go_int64_def signed_take_bit_eq_take_bit_shift take_bit_int_def)
  then show ?thesis using assms by (simp add: cooldown_from_def sub)
qed

section \<open>Writing the promotion\<close>

lemma smap_get_fold:
  "smap_get (fold (\<lambda>(k, v). smap_set k v) kvs m) k = (case map_of (rev kvs) k of None \<Rightarrow> smap_get m k | Some v \<Rightarrow> v)"
  by (induction kvs arbitrary: m) (auto simp: smap_get_set map_add_def split: option.splits)

lemma smap_get_fold_wf: "wf_map kvs \<Longrightarrow>
  smap_get (fold (\<lambda>(k, v). smap_set k v) kvs m) k = (if k \<in> fst ` set kvs then smap_get kvs k else smap_get m k)"
proof (cases "map_of kvs k")
  case None
  assume "wf_map kvs"
  then have rev: "map_of (rev kvs) k = None" using None by (simp only: wf_map_def map_of_rev_distinct)
  have "k \<notin> fst ` set kvs" using None by (simp only: map_of_eq_None_iff not_False_eq_True)
  then show ?thesis by (simp only: smap_get_fold rev option.case if_False)
next
  case (Some v)
  assume "wf_map kvs"
  then have "map_of (rev kvs) k = Some v" using Some by (simp add: wf_map_def map_of_rev_distinct)
  moreover have "k \<in> fst ` set kvs" using Some by (metis map_of_eq_None_iff option.distinct(1))
  ultimately show ?thesis using Some by (simp add: smap_get_fold) (simp add: smap_get_def)
qed

lemma keys_smap_set: "fst ` set (smap_set k v m) = insert k (fst ` set m)"
proof -
  have "dom (map_of (smap_set k v m)) = insert k (dom (map_of m))" by (simp add: smap_set_def update_conv')
  then show ?thesis by (simp only: dom_map_of_conv_image_fst)
qed

text \<open>An update takes the whole spec of the promotion from the template, suspension included, and stamps the
  labels of the trigger, the template hash and the unit; labels and annotations the template does not
  name, the name, owners, finalizers and status of the promotion stay. A promotion that was resumed by
  hand is therefore suspended again when the template leaves \<open>suspended\<close> unset.\<close>

theorem update_takes_the_spec_and_keeps_the_rest:
  assumes built: "build_triggered_promotion env t artifact version name hash c = Inr desired"
    and wf: "wf_map (tt_Labels (trg_Template (tr_Spec t)))"
    and p: "p = apply_trigger_to_promotion managed desired"
  shows "desired_of env (tr_Spec t) artifact version p \<and>
    pms_Suspended (pm_Spec p) = (tt_Suspended (trg_Template (tr_Spec t)) \<noteq> Some False) \<and>
    smap_get (om_Labels (pm_Meta p)) promotionTriggerTemplateHashLabel = hash \<and>
    smap_get (om_Labels (pm_Meta p)) promotionTriggerLabel = tr_Name t \<and>
    smap_get (om_Labels (pm_Meta p)) LabelUnit = tt_DeliveryUnitRef (trg_Template (tr_Spec t)) \<and>
    (\<forall>k. k \<in> {promotionTriggerTemplateHashLabel, promotionTriggerLabel, LabelUnit} \<or>
         smap_get (om_Labels (pm_Meta p)) k =
           (if k \<in> fst ` set (tt_Labels (trg_Template (tr_Spec t))) then smap_get (tt_Labels (trg_Template (tr_Spec t))) k
            else smap_get (om_Labels (pm_Meta managed)) k)) \<and>
    pm_Status p = pm_Status managed \<and> pm_Name p = pm_Name managed \<and>
    om_OwnerReferences (pm_Meta p) = om_OwnerReferences (pm_Meta managed) \<and>
    om_Finalizers (pm_Meta p) = om_Finalizers (pm_Meta managed)"
proof -
  let ?tmpl = "trg_Template (tr_Spec t)"
  have spec: "pm_Spec p = pm_Spec desired" by (simp add: p apply_trigger_to_promotion_def)
  have labels: "om_Labels (pm_Meta desired) = smap_set promotionTriggerTemplateHashLabel hash
      (smap_set promotionTriggerLabel (tr_Name t) (smap_set LabelUnit (tt_DeliveryUnitRef ?tmpl) (tt_Labels ?tmpl)))"
    using built by (auto simp: build_triggered_promotion_def Let_def split: if_splits)
  have look: "smap_get (om_Labels (pm_Meta p)) k = (if k \<in> fst ` set (om_Labels (pm_Meta desired))
      then smap_get (om_Labels (pm_Meta desired)) k else smap_get (om_Labels (pm_Meta managed)) k)" for k
    using wf by (simp add: p apply_trigger_to_promotion_def labels smap_get_fold_wf wf_smap_set)
  have distinct: "promotionTriggerTemplateHashLabel \<noteq> promotionTriggerLabel" "promotionTriggerTemplateHashLabel \<noteq> LabelUnit"
      "promotionTriggerLabel \<noteq> LabelUnit"
    by (simp_all add: trigger_labels kapro_labels)
  have "pms_Suspended (pm_Spec p) = (tt_Suspended ?tmpl \<noteq> Some False)"
    using build_desired [OF built spec] by (auto simp: desired_of_def Let_def trigger_suspended_def split: option.splits)
  moreover have "pm_Status p = pm_Status managed" "pm_Name p = pm_Name managed"
      "om_OwnerReferences (pm_Meta p) = om_OwnerReferences (pm_Meta managed)"
      "om_Finalizers (pm_Meta p) = om_Finalizers (pm_Meta managed)"
    by (simp_all add: p apply_trigger_to_promotion_def)
  ultimately show ?thesis
    using build_desired [OF built spec] distinct
    by (simp add: look labels keys_smap_set smap_get_set)
qed

text \<open>A create that the server refuses, for any reason but an existing object, ends the pass with no requeue and
  no error: the trigger reports it, and the poll interval no longer brings the controller back.\<close>

theorem refused_create_ends_the_polling:
  assumes built: "build_triggered_promotion env (gt_Trigger s) artifact version name hash (trigger_now env s) = Inr desired"
    and wet: "\<not> trg_DryRun (tr_Spec (gt_Trigger s))"
    and refused: "te_CreatePromotion env desired (gt_World s) = (Inl e, w)" "\<not> is_already_exists e"
    and stored: "\<forall>new w. \<exists>x w'. te_PatchTriggerStatus env orig new w = (Inr x, w')"
  shows "\<exists>s'. release_artifact env orig now pollAfter name version hash None artifact s = (Inr no_requeue, s') \<and>
    gt_Log s' = gt_Log s @ [CreatePromotionCalled desired,
      PatchTriggerStatusCalled (gt_Trigger (set_trigger_blocked env now ''PromotionCreateFailed'' (api_error_text e) s))]"
proof -
  have up: "upsert_promotion env None desired s = (Inl (WriteFailed ''PromotionCreateFailed'' (api_error_text e)),
      trigger_world w (trigger_emit (CreatePromotionCalled desired) s))"
    using refused by (simp add: upsert_promotion_def trigger_frame)
  have same: "gt_Trigger (set_trigger_blocked env now r m (trigger_world w' (trigger_emit x s))) =
      gt_Trigger (set_trigger_blocked env now r m s)" for r m w' x
    by (simp add: trigger_conditions upd_trigger_status_def trigger_world_def trigger_emit_def)
  let ?b = "set_trigger_blocked env now ''PromotionCreateFailed'' (api_error_text e)
      (trigger_world w (trigger_emit (CreatePromotionCalled desired) s))"
  obtain x w' where "te_PatchTriggerStatus env orig (gt_Trigger ?b) (gt_World ?b) = (Inr x, w')" using stored by blast
  then show ?thesis
    using built wet up
    by (simp add: release_artifact_def block_trigger_def finish_trigger_def trigger_frame same)
qed

section \<open>Open guards\<close>

text \<open>What a released trigger has sent: the create of its promotion, or the update of the one there is.\<close>

definition released ::
  "'w trigger_env \<Rightarrow> trigger \<Rightarrow> string \<Rightarrow> artifact_observation \<Rightarrow> promotion option \<Rightarrow> trigger_effect list \<Rightarrow> bool" where
  "released env t name a managed es \<longleftrightarrow>
     (\<exists>p. desired_of env (tr_Spec t) a (artifact_version t a) p \<and> pm_Name p = name \<and>
        (case managed of
           None \<Rightarrow> CreatePromotionCalled p \<in> set es
         | Some m \<Rightarrow> UpdatePromotionCalled (apply_trigger_to_promotion m p) \<in> set es))"

lemma release_sends:
  assumes t: "same_trigger t (gt_Trigger s)" and wet: "\<not> trg_DryRun (tr_Spec t)"
    and refs: "tt_DeliveryUnitRef (trg_Template (tr_Spec t)) \<noteq> []" "tt_FleetRef (trg_Template (tr_Spec t)) \<noteq> []"
    and run: "release_artifact env orig now pollAfter name (artifact_version t a) hash managed a s = (r, s')"
  shows "released env t name a managed (gt_Log s')"
proof (cases "build_triggered_promotion env (gt_Trigger s) a (artifact_version t a) name hash (trigger_now env s)")
  case (Inl e)
  then show ?thesis using t refs by (auto simp: build_triggered_promotion_def same_trigger_def Let_def split: if_splits)
next
  case (Inr desired)
  have "pm_Name desired = name" using Inr by (auto simp: build_triggered_promotion_def Let_def split: if_splits)
  moreover have "desired_of env (tr_Spec t) a (artifact_version t a) desired"
    using build_desired [OF Inr refl] t by (simp add: same_trigger_def)
  moreover obtain x s1 where up: "upsert_promotion env managed desired s = (x, s1)" by fastforce
  then have "(case managed of None \<Rightarrow> CreatePromotionCalled desired | Some m \<Rightarrow> UpdatePromotionCalled (apply_trigger_to_promotion m desired))
      \<in> set (gt_Log s1)"
    by (cases managed) (auto simp: upsert_promotion_def update_promotion_def Let_def trigger_frame split: prod.splits sum.splits if_splits)
  then have "(case managed of None \<Rightarrow> CreatePromotionCalled desired | Some m \<Rightarrow> UpdatePromotionCalled (apply_trigger_to_promotion m desired))
      \<in> set (gt_Log s')"
    using run Inr wet t up by (auto simp: release_artifact_def same_trigger_def Let_def finish_trigger_def block_trigger_def trigger_frame
       split: sum.splits prod.splits upsert_failure.splits)
  ultimately show ?thesis by (cases managed) (auto simp: released_def)
qed

text \<open>
  The answers on the way to a release, each call in the world the one before it left: fewer active runs
  than the maximum, an artifact, its signature accepted where one is required, no promotion
  of the managed name or one at another version or template, and no cooldown left.
\<close>

definition way_is_clear ::
  "'w trigger_env \<Rightarrow> int \<Rightarrow> trigger \<Rightarrow> string \<Rightarrow> artifact_observation \<Rightarrow> promotion option \<Rightarrow> 'w \<Rightarrow> bool" where
  "way_is_clear env now t name a managed w \<longleftrightarrow>
     (\<exists>runs w1 w2 w3 got w4 r.
        name \<noteq> [] \<and> te_ListRuns env [(promotionOwnerLabel, name)] w = (Inr runs, w1) \<and> length runs < 2 ^ 31 \<and>
        below_max_active (tr_Spec t) (int (length (filter (\<lambda>r. \<not> run_phase_is_terminal (rst_Phase (run_Status r))) runs))) \<and>
        (\<forall>u. same_trigger t u \<longrightarrow> te_Resolve env u w1 = (Inr (Some a), w2)) \<and>
        (if requires_signature (tr_Spec t)
         then \<exists>verify. te_Verifier env = Some verify \<and> (\<forall>u. same_trigger t u \<longrightarrow> verify u a w2 = (None, w3))
         else w3 = w2) \<and>
        te_GetPromotion env name w3 = (got, w4) \<and>
        (case (got, managed) of
           (Inl e, None) \<Rightarrow> is_not_found e
         | (Inr m, Some m') \<Rightarrow> m' = m \<and>
             (pms_Version (pm_Spec m) \<noteq> artifact_version t a \<or>
              smap_get (om_Labels (pm_Meta m)) promotionTriggerTemplateHashLabel \<noteq> trigger_template_hash env t)
         | _ \<Rightarrow> False) \<and>
        fst (cooldown_remaining env now \<lparr>gt_World = w4, gt_Log = [], gt_Trigger = t\<rparr>) = Inr r \<and> r \<le> 0)"

definition releasable :: "trigger_spec \<Rightarrow> bool" where
  "releasable spec \<longleftrightarrow> trg_Suspended spec = Some False \<and> \<not> trg_DryRun spec \<and>
     tt_DeliveryUnitRef (trg_Template spec) \<noteq> [] \<and> tt_FleetRef (trg_Template spec) \<noteq> []"

text \<open>The cooldown looks at the trigger and the world only.\<close>

lemma cooldown_same:
  assumes "same_trigger t (gt_Trigger s)"
  shows "fst (cooldown_remaining env now s) = fst (cooldown_remaining env now \<lparr>gt_World = gt_World s, gt_Log = [], gt_Trigger = t\<rparr>)"
  using assms
  by (auto simp: cooldown_remaining_def last_trigger_promotion_created_at_def same_trigger_def Let_def
      split: prod.splits sum.splits option.splits if_splits)

lemma guard_sends:
  assumes t: "same_trigger t (gt_Trigger s)" and spec: "releasable (tr_Spec t)" and n: "below_max_active (tr_Spec t) n"
    and cool: "fst (cooldown_remaining env now \<lparr>gt_World = gt_World s, gt_Log = [], gt_Trigger = t\<rparr>) = Inr q" "q \<le> 0"
    and run: "guard_release env orig now pollAfter n name (artifact_version t a) hash managed a s = (r, s')"
  shows "released env t name a managed (gt_Log s')"
proof -
  obtain s1 where q: "cooldown_remaining env now s = (Inr q, s1)" using cool(1) cooldown_same [OF t] by (metis prod.collapse)
  have s1: "same_trigger t (gt_Trigger s1)" using cooldown_remaining_frame [OF q] t by simp
  have "\<not> n \<ge> (if trg_MaxActive (tr_Spec (gt_Trigger s1)) = 0 then defaultTriggerMaxActive
      else trg_MaxActive (tr_Spec (gt_Trigger s1)))"
    using n s1 by (auto simp: below_max_active_def same_trigger_def defaultTriggerMaxActive_def)
  moreover have "\<not> q > 0" using cool(2) by simp
  ultimately have "release_artifact env orig now pollAfter name (artifact_version t a) hash managed a s1 = (r, s')"
    using run q by (simp only: guard_release_def prod.case sum.case if_False Let_def)
  from release_sends [OF s1 _ _ _ this] spec show ?thesis by (simp add: releasable_def)
qed

lemma lookup_sends:
  assumes t: "same_trigger t (gt_Trigger s)" and spec: "releasable (tr_Spec t)" and n: "below_max_active (tr_Spec t) n"
    and got: "te_GetPromotion env name (gt_World s) = (got, w4)"
      "case (got, managed) of
           (Inl e, None) \<Rightarrow> is_not_found e
         | (Inr m, Some m') \<Rightarrow> m' = m \<and>
             (pms_Version (pm_Spec m) \<noteq> artifact_version t a \<or>
              smap_get (om_Labels (pm_Meta m)) promotionTriggerTemplateHashLabel \<noteq> trigger_template_hash env t)
         | _ \<Rightarrow> False"
    and cool: "fst (cooldown_remaining env now \<lparr>gt_World = w4, gt_Log = [], gt_Trigger = t\<rparr>) = Inr q" "q \<le> 0"
    and run: "lookup_managed env orig now pollAfter n name (artifact_version t a) a s = (r, s')"
  shows "released env t name a managed (gt_Log s')"
proof -
  define u where "u = upd_trigger_status (\<lambda>st. case trt_LastArtifact st of None \<Rightarrow> st
      | Some a \<Rightarrow> st\<lparr>trt_RecentArtifacts := record_recent_artifact (trt_RecentArtifacts st) a\<rparr>) s"
  have u: "same_trigger t (gt_Trigger (trigger_world w4 u))" "gt_World u = gt_World s"
    using t by (auto simp: u_def same_trigger_def trigger_frame split: option.splits)
  have "guard_release env orig now pollAfter n name (artifact_version t a) (trigger_template_hash env t) managed a
      (trigger_world w4 u) = (r, s')"
    using run got by (auto simp: lookup_managed_def u_def [symmetric] u(2) same_trigger_hash [OF t] Let_def split: sum.splits option.splits)
  from guard_sends [OF u(1) spec n _ cool(2) this] cool(1) show ?thesis by (simp add: trigger_frame)
qed

lemma mark_verified_world: "gt_World (mark_verified env now r m s) = gt_World s"
  by (simp add: mark_verified_def set_trigger_condition_def trigger_frame)

lemma clear_pass_releases:
  assumes get: "te_GetTrigger env key (gt_World s) = (Inr t, w)"
    and config: "validate_trigger_config env (tr_Spec t) = Inr pollAfter" "managed_promotion_name env t = Inr name"
    and spec: "releasable (tr_Spec t)" and clear: "way_is_clear env (kb_Now (te_Kube env) w) t name a managed w"
  shows "released env t name a managed (gt_Log (snd (reconcile_trigger env key s)))"
proof -
  let ?now = "kb_Now (te_Kube env) w"
  from clear obtain runs w1 w2 w3 got w4 q where
      named: "name \<noteq> []" and runs: "te_ListRuns env [(promotionOwnerLabel, name)] w = (Inr runs, w1)" "length runs < 2 ^ 31"
      "below_max_active (tr_Spec t) (int (length (filter (\<lambda>r. \<not> run_phase_is_terminal (rst_Phase (run_Status r))) runs)))"
    and res: "\<And>u. same_trigger t u \<Longrightarrow> te_Resolve env u w1 = (Inr (Some a), w2)"
    and sig: "if requires_signature (tr_Spec t)
         then \<exists>verify. te_Verifier env = Some verify \<and> (\<forall>u. same_trigger t u \<longrightarrow> verify u a w2 = (None, w3)) else w3 = w2"
    and got: "te_GetPromotion env name w3 = (got, w4)"
      "case (got, managed) of
           (Inl e, None) \<Rightarrow> is_not_found e
         | (Inr m, Some m') \<Rightarrow> m' = m \<and>
             (pms_Version (pm_Spec m) \<noteq> artifact_version t a \<or>
              smap_get (om_Labels (pm_Meta m)) promotionTriggerTemplateHashLabel \<noteq> trigger_template_hash env t)
         | _ \<Rightarrow> False"
    and cool: "fst (cooldown_remaining env ?now \<lparr>gt_World = w4, gt_Log = [], gt_Trigger = t\<rparr>) = Inr q" "q \<le> 0"
    unfolding way_is_clear_def by blast
  let ?n = "int (length (filter (\<lambda>r. \<not> run_phase_is_terminal (rst_Phase (run_Status r))) runs))"
  have "length (filter (\<lambda>r. \<not> run_phase_is_terminal (rst_Phase (run_Status r))) runs) < 2 ^ 31"
    using length_filter_le runs(2) by (rule le_less_trans)
  then have n32: "go_int32 ?n = ?n" by (intro go_int32_id) simp_all
  define x where "x = upd_trigger_status (\<lambda>st. st\<lparr>trt_ManagedPromotion := name\<rparr>) (upd_trigger_status
    (\<lambda>st. st\<lparr>trt_ObservedGeneration := om_Generation (tr_Meta t), trt_LastCheckedAt := format_rfc3339 ?now\<rparr>)
    ((trigger_world w s)\<lparr>gt_Trigger := t\<rparr>))"
  have x: "same_trigger t (gt_Trigger x)" "gt_World x = w" by (simp_all add: x_def same_trigger_def trigger_frame)
  have count: "active_promotion_run_count env name x = (Inr ?n, trigger_world w1 x)"
    using named runs(1) x(2) n32 by (simp add: active_promotion_run_count_def)
  define y where "y = upd_trigger_status (\<lambda>st. st\<lparr>trt_ActivePromotionRunCount := ?n\<rparr>) (trigger_world w1 x)"
  have y: "same_trigger t (gt_Trigger y)" "gt_World y = w1"
    using x(1) by (simp_all add: y_def same_trigger_def trigger_frame)
  have "reconcile_trigger env key s = observe_source env t ?now pollAfter ?n name y"
    by (simp add: reconcile_trigger_def reconcile_found_def get config Let_def x_def [symmetric] count y_def)
  moreover have "\<not> trigger_suspended (trg_Suspended (tr_Spec (gt_Trigger y)))"
    using y(1) spec by (simp add: releasable_def same_trigger_def trigger_suspended_def)
  ultimately have pass: "reconcile_trigger env key s = verify_artifact env t ?now pollAfter ?n name a (trigger_world w2 y)"
    using res [OF y(1)] y(2) by (simp add: observe_source_def)
  define u where "u = set_trigger_condition env ?now ''ArtifactObserved'' ''True'' ''ArtifactObserved''
      (''observed artifact '' @ ao_Tag a @ ''@'' @ ao_Digest a)
      (upd_trigger_status (\<lambda>st. st\<lparr>trt_LastArtifact := Some \<lparr>ta_Tag = ao_Tag a, ta_Digest = ao_Digest a,
         ta_Version = artifact_version t a, ta_ObservedAt = format_rfc3339 ?now, ta_SignatureVerified = False\<rparr>\<rparr>) (trigger_world w2 y))"
  have u: "same_trigger t (gt_Trigger u)" unfolding u_def by (intro same_trigger_steps y(1)) simp
  have uw: "gt_World u = w2" by (simp add: u_def set_trigger_condition_def trigger_frame)
  have version: "artifact_version (gt_Trigger (trigger_world w2 y)) a = artifact_version t a"
    using same_trigger_version [OF y(1)] by (simp add: trigger_frame)
  have needs: "(case trs_OCI (trg_Source (tr_Spec (gt_Trigger u))) of None \<Rightarrow> False | Some oci \<Rightarrow> oci_RequireSignature oci) =
      requires_signature (tr_Spec t)"
    using u by (simp add: requires_signature_def same_trigger_def)
  have unfolded: "verify_artifact env t ?now pollAfter ?n name a (trigger_world w2 y) =
      (let go_on = lookup_managed env t ?now pollAfter ?n name (artifact_version t a) a
       in if requires_signature (tr_Spec t)
         then case te_Verifier env of
             None \<Rightarrow> block_trigger env t ?now ''VerifierUnavailable''
                       ''signature verification is required but no verifier is configured'' (requeue_after pollAfter) u
           | Some verify \<Rightarrow>
               (case verify (gt_Trigger u) a (gt_World u) of
                  (Some e, w) \<Rightarrow> block_trigger env t ?now ''SignatureVerificationFailed'' e (requeue_after pollAfter) (trigger_world w u)
                | (None, w) \<Rightarrow> go_on (mark_verified env ?now ''SignatureVerified'' ''artifact signature verification passed''
                                   (trigger_world w u)))
         else go_on (mark_verified env ?now ''SignatureNotRequired'' ''signature verification is not required for this trigger'' u))"
    unfolding verify_artifact_def Let_def version u_def [symmetric] needs ..
  obtain v where v: "same_trigger t (gt_Trigger v)" "gt_World v = w3"
    "reconcile_trigger env key s = lookup_managed env t ?now pollAfter ?n name (artifact_version t a) a v"
  proof (cases "requires_signature (tr_Spec t)")
    case True
    then obtain verify where verify: "te_Verifier env = Some verify" "verify (gt_Trigger u) a w2 = (None, w3)" using sig u by auto
    let ?v = "mark_verified env ?now ''SignatureVerified'' ''artifact signature verification passed'' (trigger_world w3 u)"
    have "reconcile_trigger env key s = lookup_managed env t ?now pollAfter ?n name (artifact_version t a) a ?v"
      using True verify unfolding pass unfolded uw by (simp add: Let_def)
    then show ?thesis by (intro that [of ?v]) (simp_all add: same_trigger_steps u mark_verified_world trigger_frame)
  next
    case False
    let ?v = "mark_verified env ?now ''SignatureNotRequired'' ''signature verification is not required for this trigger'' u"
    have "reconcile_trigger env key s = lookup_managed env t ?now pollAfter ?n name (artifact_version t a) a ?v"
      using False unfolding pass unfolded by (simp add: Let_def)
    moreover have "w3 = w2" using sig False by simp
    ultimately show ?thesis by (intro that [of ?v]) (simp_all add: same_trigger_steps u uw mark_verified_world)
  qed
  obtain r s' where run: "lookup_managed env t ?now pollAfter ?n name (artifact_version t a) a v = (r, s')" by fastforce
  from lookup_sends [OF v(1) spec runs(3) _ got(2) cool run] got(1) v(2,3) run show ?thesis by simp
qed

text \<open>C30. The guards are the only obstacles: a trigger with an accepted configuration that is active and not dry
  releases the newest artifact in the very pass in which the way is clear (fewer active
  runs than the maximum; the source resolves; the verifier accepts, where a signature is required; there is no managed
  promotion, or one at another version or template; no cooldown is left): it sends the create of the promotion of its template,
  under the managed name and at the version of the artifact, or the update of the managed one to it.\<close>

theorem ready_trigger_is_released_in_the_pass:
  assumes get: "te_GetTrigger env key (gt_World s) = (Inr t, w)"
    and config: "validate_trigger_config env (tr_Spec t) = Inr pollAfter" "managed_promotion_name env t = Inr name"
    and spec: "releasable (tr_Spec t)" and clear: "way_is_clear env (kb_Now (te_Kube env) w) t name a managed w"
  shows "released env t name a managed (gt_Log (snd (reconcile_trigger env key s)))"
  by (rule clear_pass_releases [OF assms])

section \<open>Sample triggers\<close>

definition live_trigger :: trigger where
  "live_trigger = trigger_object (named ''app'') ((checked_trigger watched_unit ''prod'' (watcher []))\<lparr>trg_Suspended := Some False\<rparr>)"

text \<open>A registry with two pages of tags, and a server that finds nothing and accepts what it is told to.\<close>

definition sample_registry :: "sample registry" where
  "sample_registry = \<lparr>rg_Compile = (\<lambda>p. None), rg_Match = (\<lambda>p tag. has_prefix tag ''v''), rg_NewRepository = (\<lambda>r. None),
     rg_Credential = (\<lambda>ref host w. (None, w)), rg_Tags = (\<lambda>r w. (Inr [[''v1'', ''v3'', ''latest''], [''v2'']], w)),
     rg_Digest = (\<lambda>r tag w. (Inr (''sha256:'' @ tag), w)), rg_Canonical = (\<lambda>tag. if has_prefix tag ''v'' then tag else []),
     rg_Compare = (\<lambda>a b. if a < b then -1 else if a = b then 0 else 1)\<rparr>"

definition sample_trigger_env :: "(promotion \<Rightarrow> api_error + promotion) \<Rightarrow> promotion list \<Rightarrow> sample trigger_env" where
  "sample_trigger_env create listed = \<lparr>te_Kube = sample_kube, te_Lib = sample_validation,
     te_GetTrigger = (\<lambda>n w. (Inr live_trigger, w)), te_GetPromotion = (\<lambda>n w. (Inl (ApiNotFound ''missing''), w)),
     te_ListPromotions = (\<lambda>sel w. (Inr listed, w)), te_ListRuns = (\<lambda>sel w. (Inr [], w)),
     te_CreatePromotion = (\<lambda>p w. (create p, w)), te_PatchPromotion = (\<lambda>old new w. (Inr new, w)),
     te_PatchTriggerStatus = (\<lambda>old new w. (Inr new, w)), te_Resolve = oci_resolve sample_registry, te_Verifier = None,
     te_CompileRegexp = (\<lambda>p. None), te_ExecuteTemplate = (\<lambda>tmpl t. Inr tmpl), te_TemplateJSON = (\<lambda>t. ''{}''),
     te_TimeError = (\<lambda>s. ''invalid''), te_ControllerRef = (\<lambda>m. None), te_Recorder = True\<rparr>"

definition sample_trigger_tick :: "sample trigger_tick" where
  "sample_trigger_tick = \<lparr>gt_World = sample_world, gt_Log = [], gt_Trigger = live_trigger\<rparr>"

lemma sample_semver_law: "semver_law sample_registry"
  unfolding semver_law_def strict_weak_def
  by (auto simp: sample_registry_def split: if_splits)

theorem resolver_picks_the_newest_tag_witness:
  "fst (oci_resolve sample_registry live_trigger sample_world) = Inr (Some \<lparr>ao_Tag = ''v3'', ao_Digest = ''sha256:v3''\<rparr>) \<and>
   \<not> tag_less sample_registry ''v3'' ''v2''"
proof -
  have res: "oci_resolve sample_registry live_trigger sample_world =
      (Inr (Some \<lparr>ao_Tag = ''v3'', ao_Digest = ''sha256:v3''\<rparr>), sample_world)" by code_simp
  from resolver_picks_the_newest_tag [OF sample_semver_law res]
  have "\<forall>y \<in> set [''v1'', ''v3'', ''v2'']. \<not> tag_less sample_registry ''v3'' y"
    by (auto simp: sample_registry_def live_trigger_def trigger_object_def checked_trigger_def watcher_def oci_source_def Let_def)
  then show ?thesis using res by simp
qed

lemmas sample_trigger_defs = sample_trigger_env_def sample_trigger_tick_def live_trigger_def trigger_object_def
  checked_trigger_def watcher_def oci_source_def named_def empty_trigger_status_def watched_unit_def plain_unit_def
  sample_kube_def sample_world_def

lemma sample_config: "validate_trigger_config (sample_trigger_env create listed) (tr_Spec live_trigger) = Inr (5 * minute)"
  "managed_promotion_name (sample_trigger_env create listed) live_trigger = Inr ''app''"
  by code_simp+

lemma sample_resolve: "te_Resolve (sample_trigger_env create listed) t w = oci_resolve sample_registry t w"
  by (simp add: sample_trigger_env_def)

lemma sample_newest:
  assumes "trs_Type (trg_Source (tr_Spec u)) = ''oci''" "trs_OCI (trg_Source (tr_Spec u)) = Some src" "oci_SecretRef src = None"
  shows "oci_resolve sample_registry u w = (Inr (Some \<lparr>ao_Tag = ''v3'', ao_Digest = ''sha256:v3''\<rparr>), w)"
proof -
  have "tag_less sample_registry ''v2'' ''v3''" "tag_less sample_registry ''v1'' ''v2''" "\<not> tag_less sample_registry ''v3'' ''v2''"
      "\<not> tag_less sample_registry ''v3'' ''v1''" "\<not> tag_less sample_registry ''v2'' ''v1''" by code_simp+
  then have newest: "last (sort_stable (tag_less sample_registry) [''v1'', ''v3'', ''v2'']) = ''v3''" by (simp add: sort_stable_def)
  have "rg_Match sample_registry p = (\<lambda>tag. has_prefix tag ''v'')" "rg_Compile sample_registry p = None"
      "rg_NewRepository sample_registry p = None" "rg_Tags sample_registry p w = (Inr [[''v1'', ''v3'', ''latest''], [''v2'']], w)"
      "rg_Digest sample_registry p tag w = (Inr (''sha256:'' @ tag), w)" for p tag
    by (simp_all add: sample_registry_def)
  then show ?thesis using assms by (simp add: oci_resolve_def resolve_newest_def newest Let_def)
qed

text \<open>The same trigger where signatures are required, and a server that accepts them and has the promotion at an old version.\<close>

definition signed_trigger :: trigger where
  "signed_trigger = live_trigger\<lparr>tr_Spec := (tr_Spec live_trigger)\<lparr>trg_Source :=
     (trg_Source (tr_Spec live_trigger))\<lparr>trs_OCI := map_option (\<lambda>src. src\<lparr>oci_RequireSignature := True\<rparr>)
       (trs_OCI (trg_Source (tr_Spec live_trigger)))\<rparr>\<rparr>\<rparr>"

definition signed_env :: "sample trigger_env" where
  "signed_env = (sample_trigger_env Inr [])\<lparr>te_GetTrigger := \<lambda>n w. (Inr signed_trigger, w),
     te_GetPromotion := \<lambda>n w. (Inr teamless_promotion, w), te_Verifier := Some (\<lambda>t a w. (None, w))\<rparr>"

lemma sample_sources:
  "trs_Type (trg_Source (tr_Spec live_trigger)) = ''oci''" "trs_Type (trg_Source (tr_Spec signed_trigger)) = ''oci''"
  "\<exists>src. trs_OCI (trg_Source (tr_Spec live_trigger)) = Some src \<and> oci_SecretRef src = None \<and> \<not> oci_RequireSignature src"
  "\<exists>src. trs_OCI (trg_Source (tr_Spec signed_trigger)) = Some src \<and> oci_SecretRef src = None \<and> oci_RequireSignature src"
  by (simp_all add: sample_trigger_defs signed_trigger_def)

lemma sample_env_parts:
  "te_GetPromotion (sample_trigger_env create listed) n w = (Inl (ApiNotFound ''missing''), w)"
  "te_ListPromotions (sample_trigger_env create listed) sel w = (Inr listed, w)"
  "te_ListRuns (sample_trigger_env create listed) sel w = (Inr [], w)"
  "te_Verifier (sample_trigger_env create listed) = None"
  "te_GetTrigger signed_env n w = (Inr signed_trigger, w)" "te_GetPromotion signed_env n w = (Inr teamless_promotion, w)"
  "te_ListPromotions signed_env sel w = (Inr [], w)" "te_ListRuns signed_env sel w = (Inr [], w)"
  "te_Verifier signed_env = Some (\<lambda>t a w. (None, w))" "te_Resolve signed_env u w = oci_resolve sample_registry u w"
  by (simp_all add: sample_trigger_env_def signed_env_def)

lemma never_triggered_is_cool:
  assumes "trt_LastTriggeredAt (tr_Status t) = []" "\<And>sel w. te_ListPromotions env sel w = (Inr [], w)"
    "\<And>sel w. te_ListRuns env sel w = (Inr [], w)"
  shows "fst (cooldown_remaining env now \<lparr>gt_World = w, gt_Log = [], gt_Trigger = t\<rparr>) = Inr 0"
  using assms by (simp add: cooldown_remaining_def last_trigger_promotion_created_at_def Let_def is_zero_time_def)

lemma sample_clear:
  "way_is_clear (sample_trigger_env create []) now live_trigger ''app'' \<lparr>ao_Tag = ''v3'', ao_Digest = ''sha256:v3''\<rparr> None w"
proof -
  obtain src where src: "trs_OCI (trg_Source (tr_Spec live_trigger)) = Some src" "oci_SecretRef src = None" "\<not> oci_RequireSignature src"
    using sample_sources(3) by blast
  have res: "te_Resolve (sample_trigger_env create []) u w = (Inr (Some \<lparr>ao_Tag = ''v3'', ao_Digest = ''sha256:v3''\<rparr>), w)"
    if "same_trigger live_trigger u" for u
    using that src sample_sources(1) by (simp add: sample_resolve sample_newest same_trigger_def)
  have cool: "fst (cooldown_remaining (sample_trigger_env create []) now \<lparr>gt_World = w, gt_Log = [], gt_Trigger = live_trigger\<rparr>) = Inr 0"
    by (rule never_triggered_is_cool) (simp_all add: sample_env_parts, simp add: sample_trigger_defs)
  have few: "below_max_active (tr_Spec live_trigger) 0" by (simp add: below_max_active_def sample_trigger_defs)
  have "\<not> requires_signature (tr_Spec live_trigger)" using src by (simp add: requires_signature_def)
  then show ?thesis unfolding way_is_clear_def
    by (intro exI [of _ "[]"] exI [of _ w] exI [of _ "Inl (ApiNotFound ''missing'')"] exI [of _ 0])
      (simp add: sample_env_parts res cool few)
qed

lemma signed_clear:
  "way_is_clear signed_env now signed_trigger ''app'' \<lparr>ao_Tag = ''v3'', ao_Digest = ''sha256:v3''\<rparr> (Some teamless_promotion) w"
proof -
  obtain src where src: "trs_OCI (trg_Source (tr_Spec signed_trigger)) = Some src" "oci_SecretRef src = None" "oci_RequireSignature src"
    using sample_sources(4) by blast
  have res: "oci_resolve sample_registry u w = (Inr (Some \<lparr>ao_Tag = ''v3'', ao_Digest = ''sha256:v3''\<rparr>), w)"
    if "same_trigger signed_trigger u" for u
    using that src sample_sources(2) by (simp add: sample_newest same_trigger_def)
  have cool: "fst (cooldown_remaining signed_env now \<lparr>gt_World = w, gt_Log = [], gt_Trigger = signed_trigger\<rparr>) = Inr 0"
    by (rule never_triggered_is_cool) (simp_all add: sample_env_parts, simp add: sample_trigger_defs signed_trigger_def)
  have few: "below_max_active (tr_Spec signed_trigger) 0" by (simp add: below_max_active_def sample_trigger_defs signed_trigger_def)
  have old: "pms_Version (pm_Spec teamless_promotion) \<noteq> artifact_version signed_trigger \<lparr>ao_Tag = ''v3'', ao_Digest = ''sha256:v3''\<rparr>"
    by (auto simp: teamless_promotion_def artifact_version_def Let_def dest!: arg_cong [of _ _ last])
  have "requires_signature (tr_Spec signed_trigger)" using src by (simp add: requires_signature_def)
  then show ?thesis unfolding way_is_clear_def
    by (intro exI [of _ "[]"] exI [of _ w] exI [of _ "Inr teamless_promotion"] exI [of _ 0])
      (simp add: sample_env_parts res cool few old)
qed

lemma sample_releasable: "releasable (tr_Spec live_trigger)"
  by (simp add: releasable_def sample_trigger_defs)

lemma sample_get: "te_GetTrigger (sample_trigger_env create listed) n w = (Inr live_trigger, w)"
  by (simp add: sample_trigger_env_def)

lemma signed_config: "validate_trigger_config signed_env (tr_Spec signed_trigger) = Inr (5 * minute)"
  "managed_promotion_name signed_env signed_trigger = Inr ''app''" "releasable (tr_Spec signed_trigger)"
proof -
  obtain src where src: "trs_OCI (trg_Source (tr_Spec live_trigger)) = Some src" using sample_sources(3) by blast
  have lib: "te_Lib signed_env = te_Lib (sample_trigger_env Inr [])"
      "te_CompileRegexp signed_env = te_CompileRegexp (sample_trigger_env Inr [])" by (simp_all add: signed_env_def)
  have spec: "trs_Type (trg_Source (tr_Spec signed_trigger)) = trs_Type (trg_Source (tr_Spec live_trigger))"
      "trs_OCI (trg_Source (tr_Spec signed_trigger)) = Some (src\<lparr>oci_RequireSignature := True\<rparr>)"
      "trg_Cooldown (tr_Spec signed_trigger) = trg_Cooldown (tr_Spec live_trigger)"
      "trg_MaxActive (tr_Spec signed_trigger) = trg_MaxActive (tr_Spec live_trigger)"
    by (simp_all add: signed_trigger_def src)
  then have poll: "poll_interval vl (tr_Spec signed_trigger) = poll_interval vl (tr_Spec live_trigger)" for vl
    by (simp add: poll_interval_def src)
  have "validate_trigger_config signed_env (tr_Spec signed_trigger) = validate_trigger_config (sample_trigger_env Inr []) (tr_Spec live_trigger)"
    unfolding validate_trigger_config_def lib spec poll src by simp
  then show "validate_trigger_config signed_env (tr_Spec signed_trigger) = Inr (5 * minute)" using sample_config(1) by simp
  have "te_ExecuteTemplate (sample_trigger_env Inr []) tmpl t = Inr tmpl" for tmpl t by (simp add: sample_trigger_env_def)
  then have "managed_promotion_name signed_env signed_trigger = managed_promotion_name (sample_trigger_env Inr []) live_trigger"
    by (simp add: managed_promotion_name_def signed_env_def signed_trigger_def Let_def)
  then show "managed_promotion_name signed_env signed_trigger = Inr ''app''" using sample_config(2) by simp
  show "releasable (tr_Spec signed_trigger)" using sample_releasable by (simp add: releasable_def signed_trigger_def)
qed

theorem ready_trigger_is_released_in_the_pass_witness:
  "released signed_env signed_trigger ''app'' \<lparr>ao_Tag = ''v3'', ao_Digest = ''sha256:v3''\<rparr> (Some teamless_promotion)
     (gt_Log (snd (reconcile_trigger signed_env ''app'' sample_trigger_tick)))"
  by (rule ready_trigger_is_released_in_the_pass [OF sample_env_parts(5) signed_config signed_clear])

lemma sample_write:
  "\<exists>e p. e \<in> set (gt_Log (snd (reconcile_trigger (sample_trigger_env Inr []) ''app'' sample_trigger_tick))) \<and> written e = Some p"
proof -
  have "released (sample_trigger_env Inr []) live_trigger ''app'' \<lparr>ao_Tag = ''v3'', ao_Digest = ''sha256:v3''\<rparr> None
      (gt_Log (snd (reconcile_trigger (sample_trigger_env Inr []) ''app'' sample_trigger_tick)))"
    by (rule clear_pass_releases [OF sample_get sample_config sample_releasable sample_clear])
  then obtain p where "CreatePromotionCalled p \<in> set (gt_Log (snd (reconcile_trigger (sample_trigger_env Inr []) ''app'' sample_trigger_tick)))"
    by (auto simp: released_def)
  then show ?thesis by (intro exI [of _ "CreatePromotionCalled p"] exI [of _ p]) simp
qed

theorem promotion_written_only_past_guards_witness:
  "\<exists>managedName activeCount artifact p. licensed (sample_trigger_env Inr []) (1700000000 * second) live_trigger managedName activeCount
     artifact p"
proof -
  let ?env = "sample_trigger_env Inr []"
  obtain r s' where rec: "reconcile_trigger ?env ''app'' sample_trigger_tick = (r, s')" by fastforce
  with sample_write obtain e p where e: "e \<in> set (gt_Log s')" "written e = Some p" by auto
  have "gt_Log sample_trigger_tick = []" by (simp add: sample_trigger_tick_def)
  moreover have "te_GetTrigger ?env ''app'' w = (Inr live_trigger, w)" "kb_Now (te_Kube ?env) sample_world = 1700000000 * second" 
    "gt_World sample_trigger_tick = sample_world" for w
    by (simp_all add: sample_trigger_defs)
  ultimately show ?thesis
    using promotion_written_only_past_guards [OF rec _ e] by auto
qed

definition stamped_promotion :: promotion where
  "stamped_promotion = teamless_promotion\<lparr>pm_Meta := (named ''app'')\<lparr>om_Annotations :=
     [(promotionTriggerCreatedAnno, ''2023-11-14T22:00:00Z'')]\<rparr>\<rparr>"

theorem cooldown_counts_from_the_latest_stamp_witness:
  "fst (cooldown_remaining (sample_trigger_env Inr [stamped_promotion]) (1700000000 * second) sample_trigger_tick) =
     Inr (1000 * second)"
proof -
  let ?env = "sample_trigger_env Inr [stamped_promotion]" and ?at = "1699999200 * second"
  have parsed: "parse_rfc3339 ''2023-11-14T22:00:00Z'' = Some ?at" "parse_duration ''30m'' = Some (1800 * second)"
      "printable_instant ?at" by code_simp+
  have lists: "te_ListPromotions ?env [(promotionTriggerLabel, tr_Name (gt_Trigger sample_trigger_tick))] (gt_World sample_trigger_tick) =
        (Inr [stamped_promotion], sample_world)"
      "te_ListRuns ?env [(promotionTriggerLabel, tr_Name (gt_Trigger sample_trigger_tick))] sample_world = (Inr [], sample_world)"
    by (simp_all add: sample_trigger_env_def sample_trigger_tick_def)
  have stamps: "map stamp_of (map pm_Meta [stamped_promotion]) = map Some [?at]" "map stamp_of (map run_Meta []) = map Some []"
    by (simp_all add: stamp_of_def stamped_promotion_def smap_get_def parsed)
  have rest: "trt_LastTriggeredAt (tr_Status (gt_Trigger sample_trigger_tick)) = []"
      "trg_Cooldown (tr_Spec (gt_Trigger sample_trigger_tick)) = ''30m''"
    by (simp_all add: sample_trigger_defs)
  show ?thesis
    using cooldown_counts_from_the_latest_stamp [OF lists stamps, of go_zero_time ?at "1800 * second" ?at "1700000000 * second"]
    by (simp add: rest parsed parsed [unfolded second_def, simplified] go_zero_time_def second_def)
qed

theorem far_stamp_lifts_the_cooldown_witness:
  "\<exists>r. cooldown_from (sample_trigger_env Inr []) ''30m'' ''9999-01-01T00:00:00Z'' (1700000000 * second) = Inr r \<and> r < 0"
proof -
  have "parse_rfc3339 ''9999-01-01T00:00:00Z'' = Some (253370764800 * second)" "parse_duration ''30m'' = Some (1800 * second)"
    by code_simp+
  then have "cooldown_from (sample_trigger_env Inr []) ''30m'' ''9999-01-01T00:00:00Z'' (1700000000 * second) = Inr (1800 * second - 2 ^ 63)"
    by (intro far_stamp_lifts_the_cooldown [where lastAt = "253370764800 * second"]) (simp_all add: second_def)
  then show ?thesis by (simp add: second_def)
qed

definition resumed_promotion :: promotion where
  "resumed_promotion = teamless_promotion\<lparr>pm_Meta := (named ''app'')\<lparr>om_Labels := [(LabelKaproTeam, ''checkout'')]\<rparr>\<rparr>"

definition quiet_trigger :: trigger where
  "quiet_trigger = trigger_object (named ''app'') ((tr_Spec live_trigger)\<lparr>trg_Template := (trg_Template (tr_Spec live_trigger))\<lparr>tt_Suspended := None\<rparr>\<rparr>)"

theorem update_takes_the_spec_and_keeps_the_rest_witness:
  "pms_Suspended (pm_Spec resumed_promotion) = False \<and>
   (\<exists>desired. build_triggered_promotion (sample_trigger_env Inr []) quiet_trigger \<lparr>ao_Tag = ''v3'', ao_Digest = ''d3''\<rparr> ''v'' ''app'' ''h'' 0 =
        Inr desired \<and> pms_Suspended (pm_Spec (apply_trigger_to_promotion resumed_promotion desired)) = True \<and>
        smap_get (om_Labels (pm_Meta (apply_trigger_to_promotion resumed_promotion desired))) LabelKaproTeam = ''checkout'')"
proof -
  let ?a = "\<lparr>ao_Tag = ''v3'', ao_Digest = ''d3''\<rparr>" and ?env = "sample_trigger_env Inr []"
  have tmpl: "tt_DeliveryUnitRef (trg_Template (tr_Spec quiet_trigger)) \<noteq> []" "tt_FleetRef (trg_Template (tr_Spec quiet_trigger)) \<noteq> []"
      "tt_Labels (trg_Template (tr_Spec quiet_trigger)) = []" "tt_Suspended (trg_Template (tr_Spec quiet_trigger)) = None"
    by (simp_all add: quiet_trigger_def sample_trigger_defs copy_string_map_def)
  then obtain desired where built: "build_triggered_promotion ?env quiet_trigger ?a ''v'' ''app'' ''h'' 0 = Inr desired"
    by (simp add: build_triggered_promotion_def Let_def)
  have wf: "wf_map (tt_Labels (trg_Template (tr_Spec quiet_trigger)))" by (simp add: tmpl)
  have team: "smap_get (om_Labels (pm_Meta resumed_promotion)) LabelKaproTeam = ''checkout''"
      "LabelKaproTeam \<noteq> promotionTriggerTemplateHashLabel" "LabelKaproTeam \<noteq> promotionTriggerLabel" "LabelKaproTeam \<noteq> LabelUnit"
    by (simp_all add: trigger_labels kapro_labels resumed_promotion_def smap_get_def)
  from update_takes_the_spec_and_keeps_the_rest [OF built wf refl, of resumed_promotion] tmpl team
  have "pms_Suspended (pm_Spec (apply_trigger_to_promotion resumed_promotion desired)) = True"
      "smap_get (om_Labels (pm_Meta (apply_trigger_to_promotion resumed_promotion desired))) LabelKaproTeam = ''checkout''"
    by auto
  then show ?thesis using built by (simp add: resumed_promotion_def teamless_promotion_def)
qed

theorem refused_create_ends_the_polling_witness:
  "fst (release_artifact (sample_trigger_env (\<lambda>p. Inl (ApiOther ''timeout'')) []) live_trigger 0 (5 * minute) ''app'' ''v'' ''h'' None
     \<lparr>ao_Tag = ''v3'', ao_Digest = ''d3''\<rparr> sample_trigger_tick) = Inr no_requeue"
proof -
  let ?a = "\<lparr>ao_Tag = ''v3'', ao_Digest = ''d3''\<rparr>" and ?env = "sample_trigger_env (\<lambda>p. Inl (ApiOther ''timeout'')) []"
  have trig: "gt_Trigger sample_trigger_tick = live_trigger" by (simp add: sample_trigger_tick_def)
  obtain desired where built: "build_triggered_promotion ?env (gt_Trigger sample_trigger_tick) ?a ''v'' ''app'' ''h''
      (trigger_now ?env sample_trigger_tick) = Inr desired"
    using sample_releasable by (simp add: build_triggered_promotion_def Let_def trig releasable_def)
  have wet: "\<not> trg_DryRun (tr_Spec (gt_Trigger sample_trigger_tick))" using sample_releasable by (simp add: trig releasable_def)
  have refused: "te_CreatePromotion ?env desired (gt_World sample_trigger_tick) = (Inl (ApiOther ''timeout''), gt_World sample_trigger_tick)"
      "\<not> is_already_exists (ApiOther ''timeout'')" by (simp_all add: sample_trigger_env_def)
  have stored: "\<forall>new w. \<exists>x w'. te_PatchTriggerStatus ?env live_trigger new w = (Inr x, w')" by (simp add: sample_trigger_env_def)
  from refused_create_ends_the_polling [OF built wet refused stored, of 0 "5 * minute"] show ?thesis by (elim exE conjE) simp
qed

end
