(* ===== verification/Go_Float.thy ===== *)
theory Go_Float
  imports Go_Time "HOL-Library.Word"
begin

text \<open>
  Go's \<^verbatim>\<open>float64\<close> as its 64-bit pattern: the order \<^verbatim>\<open><\<close> of IEEE 754, false whenever an operand is
  not a number and blind to the sign of zero, and the verb \<^verbatim>\<open>%.2f\<close> of \<^verbatim>\<open>fmt\<close>, which prints the
  exact binary value rounded to hundredths, ties to even.
\<close>

section \<open>Order\<close>

definition f64_magnitude :: "64 word \<Rightarrow> nat" where
  "f64_magnitude w = unat w mod 2 ^ 63"

definition f64_negative :: "64 word \<Rightarrow> bool" where
  "f64_negative w \<longleftrightarrow> 2 ^ 63 \<le> unat w"

definition f64_nan :: "64 word \<Rightarrow> bool" where
  "f64_nan w \<longleftrightarrow> 2047 * 2 ^ 52 < f64_magnitude w"

definition f64_key :: "64 word \<Rightarrow> int" where
  "f64_key w = (if f64_negative w then - int (f64_magnitude w) else int (f64_magnitude w))"

definition f64_less :: "64 word \<Rightarrow> 64 word \<Rightarrow> bool" where
  "f64_less a b \<longleftrightarrow> \<not> f64_nan a \<and> \<not> f64_nan b \<and> f64_key a < f64_key b"

lemma f64_less_irrefl [simp]: "\<not> f64_less a a"
  by (simp add: f64_less_def)

lemma f64_less_trans: "f64_less a b \<Longrightarrow> f64_less b c \<Longrightarrow> f64_less a c"
  by (auto simp: f64_less_def)

lemma f64_not_less: "\<not> f64_nan a \<Longrightarrow> \<not> f64_nan b \<Longrightarrow> \<not> f64_less a b \<longleftrightarrow> f64_key b \<le> f64_key a"
  by (auto simp: f64_less_def)

section \<open>Printing hundredths\<close>

definition round_half_even :: "nat \<Rightarrow> nat \<Rightarrow> nat" where
  "round_half_even n d =
     (let q = n div d; r = n mod d
      in if 2 * r < d then q else if d < 2 * r then q + 1 else if even q then q else q + 1)"

definition f64_hundredths :: "nat \<Rightarrow> nat" where
  "f64_hundredths m =
     (let e = m div 2 ^ 52; f = m mod 2 ^ 52; mant = (if e = 0 then f else f + 2 ^ 52); e' = max e 1
      in if e' \<ge> 1075 then 100 * mant * 2 ^ (e' - 1075) else round_half_even (100 * mant) (2 ^ (1075 - e')))"

definition format_f2 :: "64 word \<Rightarrow> string" where
  "format_f2 w =
     (let m = f64_magnitude w; h = f64_hundredths m
      in if f64_nan w then ''NaN''
         else if m = 2047 * 2 ^ 52 then (if f64_negative w then ''-Inf'' else ''+Inf'')
         else (if f64_negative w then ''-'' else []) @ string_of_nat (h div 100) @ ''.'' @ pad2 (h mod 100))"

text \<open>Rounding is off by at most half a hundredth.\<close>

lemma round_half_even_close:
  assumes "0 < d"
  shows "2 * (round_half_even n d * d) \<le> 2 * n + d" "2 * n \<le> 2 * (round_half_even n d * d) + d"
proof -
  have n: "n div d * d + n mod d = n" by simp
  have "round_half_even n d * d = n div d * d \<and> 2 * (n mod d) \<le> d \<or>
      round_half_even n d * d = n div d * d + d \<and> d \<le> 2 * (n mod d)"
    by (simp add: round_half_even_def Let_def add.commute)
  then show "2 * (round_half_even n d * d) \<le> 2 * n + d" "2 * n \<le> 2 * (round_half_even n d * d) + d"
    using n mod_less_divisor [OF assms, of n] by linarith+
qed

end
