(* ===== verification/Agent_Policy.thy ===== *)
theory Agent_Policy
  imports Effects Go_Float Admission
begin

text \<open>
  The policies of the agents (\<^verbatim>\<open>api/kapro/v1alpha1/policy_types.go\<close>) and their enforcement by the
  decision server (\<^verbatim>\<open>internal/webhook/agentpolicy_enforcer.go\<close>): which policy governs an identity,
  what it allows, and the reservation of a slot under its rate limits by optimistic concurrency.
  The time zone database and the label selectors are parameters; a zone is its offset at an instant.
\<close>

section \<open>The policy\<close>

datatype policy_mode = PolicyAuto | PolicyRecommend | PolicyDisabled | PolicyModeOther string

fun policy_mode_string :: "policy_mode \<Rightarrow> string" where
  "policy_mode_string PolicyAuto = ''auto''"
| "policy_mode_string PolicyRecommend = ''recommend''"
| "policy_mode_string PolicyDisabled = ''disabled''"
| "policy_mode_string (PolicyModeOther s) = s"

record policy_identity =
  pi_ServiceAccountName :: string
  pi_ServiceAccountNamespace :: string

record country_risk_profile =
  crp_Countries :: "string list"
  crp_RiskTier :: string
  crp_MinConfidence :: "64 word"
  crp_Mode :: "policy_mode option"
  crp_RequireHumanCosign :: bool

record agent_scope =
  as_Stages :: "string list"
  as_ExcludeStages :: "string list"
  as_ClusterSelector :: "label_selector option"
  as_ExcludeClusters :: "string list"
  as_CountryProfiles :: "country_risk_profile list"

record agent_confidence =
  acf_Default :: "64 word"
  acf_TierOverrides :: "(string \<times> 64 word) list"
  acf_StageOverrides :: "(string \<times> 64 word) list"

record agent_escalation =
  aes_Action :: string
  aes_HoldDuration :: string

record agent_rate_limits =
  arl_MaxApprovalsPerHour :: int
  arl_MaxApprovalsPerDay :: int
  arl_MaxConcurrent :: int
  arl_Cooldown :: string

record agent_blast_radius =
  abr_MaxPercentOfFleet :: int
  abr_MaxPercentPerTier :: "(string \<times> int) list"
  abr_MaxAbsoluteClusters :: int

record agent_audit =
  aau_RequireReasoning :: bool
  aau_RequireMetricReferences :: bool
  aau_RequireConfidenceScore :: bool
  aau_MinReasoningLength :: int

record agent_time_window =
  atw_Name :: string
  atw_Timezone :: string
  atw_DaysOfWeek :: "string list"
  atw_StartTime :: string
  atw_EndTime :: string
  atw_Deny :: bool

record agent_policy_spec =
  aps_Identity :: policy_identity
  aps_Mode :: policy_mode
  aps_Scope :: agent_scope
  aps_Confidence :: agent_confidence
  aps_Escalation :: agent_escalation
  aps_RateLimits :: "agent_rate_limits option"
  aps_BlastRadius :: "agent_blast_radius option"
  aps_Audit :: agent_audit
  aps_TimeWindows :: "agent_time_window list"
  aps_Priority :: int
  aps_Suspended :: bool

record agent_policy_status =
  apst_ObservedGeneration :: int
  apst_Conditions :: "condition list"
  apst_ActiveDecisions :: int
  apst_DecisionsToday :: int
  apst_LastDecisionAt :: string

text \<open>The resource version of the metadata is a field of its own: the server compares it on an update.\<close>

record agent_policy =
  agp_Meta :: object_meta
  agp_ResourceVersion :: string
  agp_Spec :: agent_policy_spec
  agp_Status :: agent_policy_status

abbreviation agp_Name :: "agent_policy \<Rightarrow> string" where
  "agp_Name p \<equiv> om_Name (agp_Meta p)"

section \<open>Which policy governs an identity\<close>

definition service_account_prefix :: string where
  "service_account_prefix = ''system:serviceaccount:''"

definition parse_service_account_username :: "string \<Rightarrow> (string \<times> string) option" where
  "parse_service_account_username username =
     (if \<not> has_prefix username service_account_prefix then None
      else case split_on (CHR '':'') (trim_prefix username service_account_prefix) of
        [ns, name] \<Rightarrow> (if ns = [] \<or> name = [] then None else Some (ns, name))
      | _ \<Rightarrow> None)"

definition identity_matches :: "string \<Rightarrow> policy_identity \<Rightarrow> bool" where
  "identity_matches agentName i =
     (case parse_service_account_username agentName of
        Some (ns, name) \<Rightarrow>
          pi_ServiceAccountName i = name \<and>
          (pi_ServiceAccountNamespace i = [] \<or> pi_ServiceAccountNamespace i = ns)
      | None \<Rightarrow> pi_ServiceAccountName i = agentName)"

text \<open>The loop over the listed policies, with the best one so far.\<close>

fun best_policy :: "string \<Rightarrow> agent_policy option \<Rightarrow> agent_policy list \<Rightarrow> agent_policy option" where
  "best_policy agentName best [] = best"
| "best_policy agentName best (p # ps) =
     best_policy agentName
       (if \<not> identity_matches agentName (aps_Identity (agp_Spec p)) then best
        else case best of
          None \<Rightarrow> Some p
        | Some b \<Rightarrow> (if aps_Priority (agp_Spec p) < aps_Priority (agp_Spec b) then Some p else best)) ps"

section \<open>What a policy allows\<close>

record policy_decision =
  pd_Allowed :: bool
  pd_EffectiveMode :: policy_mode
  pd_EffectiveMinConf :: "64 word"
  pd_DenyReason :: string
  pd_RequireHumanCosign :: bool

definition policy_denied :: "string \<Rightarrow> policy_decision" where
  "policy_denied reason = \<lparr>pd_Allowed = False, pd_EffectiveMode = PolicyModeOther [], pd_EffectiveMinConf = 0,
     pd_DenyReason = reason, pd_RequireHumanCosign = False\<rparr>"

definition is_stage_allowed :: "agent_scope \<Rightarrow> string \<Rightarrow> bool" where
  "is_stage_allowed scope stage =
     (if stage \<in> set (as_ExcludeStages scope) then False
      else if as_Stages scope = [] then True else stage \<in> set (as_Stages scope))"

subsection \<open>Time windows\<close>

definition weekday_names :: "string list" where
  "weekday_names = [''sun'', ''mon'', ''tue'', ''wed'', ''thu'', ''fri'', ''sat'']"

text \<open>A wall clock is the instant shifted by the offset of its zone; day zero was a Thursday.\<close>

definition weekday_of :: "int \<Rightarrow> string" where
  "weekday_of wall = weekday_names ! nat ((wall div (24 * hour) + 4) mod 7)"

definition minute_of_day :: "int \<Rightarrow> nat" where
  "minute_of_day wall = nat (wall mod (24 * hour) div minute)"

text \<open>\<^verbatim>\<open>time.Parse("15:04", s)\<close>, as the minute of the day.\<close>

definition parse_clock :: "string \<Rightarrow> nat option" where
  "parse_clock s =
     Option.bind (getnum False s) (\<lambda>(hh, r).
       if 24 \<le> hh then None
       else Option.bind (expect (CHR '':'') r) (\<lambda>r1.
            Option.bind (getnum True r1) (\<lambda>(mm, r2).
              if 60 \<le> mm \<or> r2 \<noteq> [] then None else Some (hh * 60 + mm))))"

definition local_clock :: "(string \<Rightarrow> (int \<Rightarrow> int) option) \<Rightarrow> agent_time_window \<Rightarrow> int \<Rightarrow> int" where
  "local_clock zone w now =
     (case zone (atw_Timezone w) of None \<Rightarrow> now | Some offset \<Rightarrow> now + offset now)"

definition in_window :: "nat \<Rightarrow> nat \<Rightarrow> nat \<Rightarrow> bool" where
  "in_window current start end_of = (start \<le> current \<and> current \<le> end_of)"

fun scan_windows :: "(string \<Rightarrow> (int \<Rightarrow> int) option) \<Rightarrow> int \<Rightarrow> agent_time_window list \<Rightarrow> bool option" where
  "scan_windows zone now [] = None"
| "scan_windows zone now (w # ws) =
     (let wall = local_clock zone w now
      in if atw_DaysOfWeek w \<noteq> [] \<and> weekday_of wall \<notin> set (atw_DaysOfWeek w)
         then (if atw_Deny w then scan_windows zone now ws else Some False)
         else case (parse_clock (atw_StartTime w), parse_clock (atw_EndTime w)) of
           (Some start, Some end_of) \<Rightarrow>
             (if atw_Deny w \<and> in_window (minute_of_day wall) start end_of then Some False
              else if \<not> atw_Deny w \<and> in_window (minute_of_day wall) start end_of then Some True
              else scan_windows zone now ws)
         | _ \<Rightarrow> scan_windows zone now ws)"

definition is_within_time_windows ::
  "(string \<Rightarrow> (int \<Rightarrow> int) option) \<Rightarrow> int \<Rightarrow> agent_time_window list \<Rightarrow> bool" where
  "is_within_time_windows zone now ws =
     (if ws = [] then True
      else case scan_windows zone now ws of
        Some allowed \<Rightarrow> allowed
      | None \<Rightarrow> \<not> list_ex (\<lambda>w. \<not> atw_Deny w) ws)"

subsection \<open>The threshold\<close>

definition raise_to :: "64 word \<Rightarrow> 64 word \<Rightarrow> 64 word" where
  "raise_to v eff = (if f64_less eff v then v else eff)"

definition override_to :: "(string \<times> 64 word) list \<Rightarrow> string \<Rightarrow> 64 word \<Rightarrow> 64 word" where
  "override_to m k eff = (case map_of m k of Some v \<Rightarrow> raise_to v eff | None \<Rightarrow> eff)"

definition first_label :: "smap \<Rightarrow> string \<Rightarrow> string \<Rightarrow> string" where
  "first_label labels k k' = (if smap_get labels k = [] then smap_get labels k' else smap_get labels k)"

definition cluster_tier :: "cluster \<Rightarrow> string" where
  "cluster_tier c = first_label (om_Labels (cl_Meta c)) ''kapro.io/tier'' ''tier''"

definition cluster_country :: "cluster \<Rightarrow> string" where
  "cluster_country c = first_label (om_Labels (cl_Meta c)) ''kapro.io/country'' ''country''"

definition base_threshold :: "agent_confidence \<Rightarrow> cluster option \<Rightarrow> string \<Rightarrow> 64 word" where
  "base_threshold conf mc stage =
     (let tiered = (case mc of
            None \<Rightarrow> acf_Default conf
          | Some c \<Rightarrow> override_to (acf_TierOverrides conf) (cluster_tier c) (acf_Default conf))
      in override_to (acf_StageOverrides conf) stage tiered)"

definition country_profile :: "agent_scope \<Rightarrow> cluster option \<Rightarrow> country_risk_profile option" where
  "country_profile scope mc =
     (case mc of
        None \<Rightarrow> None
      | Some c \<Rightarrow> List.find (\<lambda>cp. cluster_country c \<in> set (crp_Countries cp)) (as_CountryProfiles scope))"

definition country_effect ::
  "country_risk_profile option \<Rightarrow> 64 word \<Rightarrow> policy_mode \<Rightarrow> 64 word \<times> policy_mode \<times> bool" where
  "country_effect profile eff mode =
     (case profile of
        None \<Rightarrow> (eff, mode, False)
      | Some cp \<Rightarrow>
          (raise_to (crp_MinConfidence cp) eff,
           (case crp_Mode cp of Some m \<Rightarrow> m | None \<Rightarrow> mode),
           crp_RequireHumanCosign cp))"

subsection \<open>The verdict\<close>

definition selector_mismatch :: "'w kube \<Rightarrow> agent_scope \<Rightarrow> cluster option \<Rightarrow> bool" where
  "selector_mismatch kb scope mc =
     (case (as_ClusterSelector scope, mc) of
        (Some sel, Some c) \<Rightarrow> kb_SelectorMatches kb sel (om_Labels (cl_Meta c)) = Inr False
      | _ \<Rightarrow> False)"

definition judge_policy ::
  "'w kube \<Rightarrow> (string \<Rightarrow> (int \<Rightarrow> int) option) \<Rightarrow> int \<Rightarrow> agent_policy_spec \<Rightarrow> target \<Rightarrow> cluster option \<Rightarrow>
    64 word \<Rightarrow> int \<Rightarrow> policy_decision" where
  "judge_policy kb zone now spec t mc confidence reasoningLen =
     (let stage = ts_Stage (tg_Spec t); clusterName = ts_Target (tg_Spec t); scope = aps_Scope spec;
          audit = aps_Audit spec;
          (minConf, mode, cosign) = country_effect (country_profile scope mc)
             (base_threshold (aps_Confidence spec) mc stage) (aps_Mode spec)
      in if aps_Suspended spec then policy_denied ''AgentPolicy is suspended''
         else if aps_Mode spec = PolicyDisabled then policy_denied ''AgentPolicy mode is disabled''
         else if \<not> is_stage_allowed scope stage
         then policy_denied (''stage '' @ go_quote stage @ '' is not in scope (or is excluded)'')
         else if clusterName \<in> set (as_ExcludeClusters scope)
         then policy_denied (''cluster '' @ go_quote clusterName @ '' is in excludeClusters'')
         else if selector_mismatch kb scope mc then policy_denied ''cluster labels do not match clusterSelector''
         else if f64_less confidence minConf
         then (policy_denied (''confidence '' @ format_f2 confidence @ '' below threshold '' @ format_f2 minConf))
                \<lparr>pd_EffectiveMinConf := minConf\<rparr>
         else if aau_RequireReasoning audit \<and> reasoningLen = 0
         then policy_denied ''reasoning is required but empty''
         else if aau_MinReasoningLength audit > 0 \<and> go_int32 reasoningLen < aau_MinReasoningLength audit
         then policy_denied (''reasoning length '' @ itoa reasoningLen @ '' below minimum '' @ itoa (aau_MinReasoningLength audit))
         else if \<not> is_within_time_windows zone now (aps_TimeWindows spec)
         then policy_denied ''decision outside allowed time window''
         else \<lparr>pd_Allowed = True, pd_EffectiveMode = mode, pd_EffectiveMinConf = minConf, pd_DenyReason = [],
                pd_RequireHumanCosign = cosign\<rparr>)"

definition enforce_agent_policy ::
  "'w kube \<Rightarrow> (string \<Rightarrow> (int \<Rightarrow> int) option) \<Rightarrow> int \<Rightarrow> agent_policy option \<Rightarrow> target \<Rightarrow> cluster option \<Rightarrow>
    64 word \<Rightarrow> int \<Rightarrow> policy_decision" where
  "enforce_agent_policy kb zone now policy t mc confidence reasoningLen =
     (case policy of
        None \<Rightarrow> policy_denied ''no AgentPolicy found for this agent identity''
      | Some p \<Rightarrow> judge_policy kb zone now (agp_Spec p) t mc confidence reasoningLen)"

section \<open>Slots\<close>

text \<open>Two instants fall on the same calendar day of UTC when their days since the epoch are equal.\<close>

definition same_utc_day :: "int \<Rightarrow> int \<Rightarrow> bool" where
  "same_utc_day a b \<longleftrightarrow> a div (24 * hour) = b div (24 * hour)"

definition upd_policy_status ::
  "(agent_policy_status \<Rightarrow> agent_policy_status) \<Rightarrow> agent_policy \<Rightarrow> agent_policy" where
  "upd_policy_status f p = p\<lparr>agp_Status := f (agp_Status p)\<rparr>"

definition roll_over :: "int \<Rightarrow> agent_policy \<Rightarrow> agent_policy" where
  "roll_over now p =
     (if apst_LastDecisionAt (agp_Status p) = [] then p
      else case parse_rfc3339 (apst_LastDecisionAt (agp_Status p)) of
        None \<Rightarrow> p
      | Some last_at \<Rightarrow>
          (if same_utc_day last_at now then p else upd_policy_status (\<lambda>st. st\<lparr>apst_DecisionsToday := 0\<rparr>) p))"

definition cooldown_running :: "int \<Rightarrow> string \<Rightarrow> string \<Rightarrow> bool" where
  "cooldown_running now cooldown lastText =
     (if cooldown = [] \<or> lastText = [] then False
      else case (parse_duration cooldown, parse_rfc3339 lastText) of
        (Some c, Some last_at) \<Rightarrow> time_sub now last_at < c
      | _ \<Rightarrow> False)"

definition slot_denied :: "int \<Rightarrow> agent_policy \<Rightarrow> string option" where
  "slot_denied now p =
     (case aps_RateLimits (agp_Spec p) of
        None \<Rightarrow> None
      | Some rl \<Rightarrow>
          (let st = agp_Status p
           in if arl_MaxApprovalsPerDay rl > 0 \<and> apst_DecisionsToday st \<ge> arl_MaxApprovalsPerDay rl
              then Some ''daily approval limit reached''
              else if arl_MaxConcurrent rl > 0 \<and> apst_ActiveDecisions st \<ge> arl_MaxConcurrent rl
              then Some ''concurrent approval limit reached''
              else if cooldown_running now (arl_Cooldown rl) (apst_LastDecisionAt st)
              then Some (''cooldown period not elapsed (last: '' @ apst_LastDecisionAt st @ '')'')
              else None))"

definition take_slot :: "int \<Rightarrow> agent_policy \<Rightarrow> agent_policy" where
  "take_slot now p =
     upd_policy_status (\<lambda>st. st\<lparr>apst_ActiveDecisions := go_int32 (apst_ActiveDecisions st + 1),
         apst_DecisionsToday := go_int32 (apst_DecisionsToday st + 1),
         apst_LastDecisionAt := format_rfc3339 now,
         apst_ObservedGeneration := om_Generation (agp_Meta p)\<rparr>) p"

text \<open>One pass of the loop up to the write: the reason of a refusal, or the object to write.\<close>

definition try_slot :: "int \<Rightarrow> agent_policy \<Rightarrow> string + agent_policy" where
  "try_slot now p0 =
     (let p = roll_over now p0
      in case slot_denied now p of Some reason \<Rightarrow> Inl reason | None \<Rightarrow> Inr (take_slot now p))"

definition return_slot :: "agent_policy \<Rightarrow> agent_policy" where
  "return_slot p = upd_policy_status (\<lambda>st. st\<lparr>apst_ActiveDecisions := go_int32 (apst_ActiveDecisions st - 1)\<rparr>) p"

text \<open>
  The requests of the server carry the world and the log of the writes they send, whether or not
  the server of Kubernetes accepts them.
\<close>

datatype server_effect =
    UpdatePolicyStatusCalled agent_policy
  | UpdateTargetCalled target
  | PatchTargetStatusCalled target
  | CreateApprovalCalled approval

record 'w server_tick =
  sk_World :: 'w
  sk_Log :: "server_effect list"

record 'w policy_env =
  pe_Kube :: "'w kube"
  pe_Zone :: "string \<Rightarrow> (int \<Rightarrow> int) option"
  pe_ListPolicies :: "'w \<Rightarrow> (api_error + agent_policy list) \<times> 'w"
  pe_GetPolicy :: "string \<Rightarrow> string \<Rightarrow> 'w \<Rightarrow> (api_error + agent_policy) \<times> 'w"
  pe_UpdatePolicyStatus :: "agent_policy \<Rightarrow> 'w \<Rightarrow> (api_error + agent_policy) \<times> 'w"

definition server_emit :: "server_effect \<Rightarrow> 'w server_tick \<Rightarrow> 'w server_tick" where
  "server_emit e s = s\<lparr>sk_Log := sk_Log s @ [e]\<rparr>"

definition server_world :: "'w \<Rightarrow> 'w server_tick \<Rightarrow> 'w server_tick" where
  "server_world w s = s\<lparr>sk_World := w\<rparr>"

definition resolve_agent_policy ::
  "'w policy_env \<Rightarrow> string \<Rightarrow> 'w server_tick \<Rightarrow> (go_error + agent_policy option) \<times> 'w server_tick" where
  "resolve_agent_policy env agentName s =
     (case pe_ListPolicies env (sk_World s) of
        (Inl e, w) \<Rightarrow> (Inl (''list AgentPolicies: '' @ api_error_text e), server_world w s)
      | (Inr items, w) \<Rightarrow> (Inr (best_policy agentName None items), server_world w s))"

definition max_slot_retries :: nat where "max_slot_retries = 5"

text \<open>
  The loop with the number of passes left, the local copy and the error of the last conflict. The
  copy is read again before every pass but the first; the local counters restored after a conflict
  are overwritten by that read.
\<close>

fun reserve_passes ::
  "'w policy_env \<Rightarrow> string \<Rightarrow> string \<Rightarrow> int \<Rightarrow> nat \<Rightarrow> agent_policy \<Rightarrow> 'w server_tick \<Rightarrow>
    (go_error + string + agent_policy) \<times> 'w server_tick" where
  "reserve_passes env ns name now 0 p s = (Inl [], s)"
| "reserve_passes env ns name now (Suc left_over) p s =
     (case try_slot now p of
        Inl reason \<Rightarrow> (Inr (Inl reason), s)
      | Inr p' \<Rightarrow>
          (let s1 = server_emit (UpdatePolicyStatusCalled p') s
           in case pe_UpdatePolicyStatus env p' (sk_World s1) of
                (Inr stored, w) \<Rightarrow> (Inr (Inr stored), server_world w s1)
              | (Inl e, w) \<Rightarrow>
                  (let s2 = server_world w s1
                   in if \<not> is_conflict e then (Inl (''update AgentPolicy status: '' @ api_error_text e), s2)
                      else if left_over = 0
                      then (Inl (''AgentPolicy '' @ agp_Name p @ '' rate-limit reservation lost '' @
                              itoa (int max_slot_retries) @ '' races: '' @ api_error_text e), s2)
                      else case pe_GetPolicy env ns name (sk_World s2) of
                        (Inl g, w') \<Rightarrow>
                          (Inl (''refetch AgentPolicy '' @ agp_Name p @ '' for retry: '' @ api_error_text g), server_world w' s2)
                      | (Inr fresh, w') \<Rightarrow> reserve_passes env ns name now left_over fresh (server_world w' s2))))"

definition reserve_agent_policy_slot ::
  "'w policy_env \<Rightarrow> agent_policy \<Rightarrow> 'w server_tick \<Rightarrow> (go_error + string + agent_policy) \<times> 'w server_tick" where
  "reserve_agent_policy_slot env p s =
     reserve_passes env (om_Namespace (agp_Meta p)) (agp_Name p) (kb_Now (pe_Kube env) (sk_World s)) max_slot_retries p s"

fun release_passes ::
  "'w policy_env \<Rightarrow> string \<Rightarrow> string \<Rightarrow> nat \<Rightarrow> 'w server_tick \<Rightarrow> go_error option \<times> 'w server_tick" where
  "release_passes env ns name 0 s =
     (Some (''AgentPolicy '' @ name @ '' slot release lost '' @ itoa (int max_slot_retries) @ '' races''), s)"
| "release_passes env ns name (Suc left_over) s =
     (case pe_GetPolicy env ns name (sk_World s) of
        (Inl e, w) \<Rightarrow>
          (Some (''refetch AgentPolicy '' @ name @ '' for release: '' @ api_error_text e), server_world w s)
      | (Inr fresh, w) \<Rightarrow>
          (let s1 = server_world w s
           in if apst_ActiveDecisions (agp_Status fresh) \<le> 0 then (None, s1)
              else let p' = return_slot fresh; s2 = server_emit (UpdatePolicyStatusCalled p') s1
                   in case pe_UpdatePolicyStatus env p' (sk_World s2) of
                        (Inr stored, w') \<Rightarrow> (None, server_world w' s2)
                      | (Inl e, w') \<Rightarrow>
                          (if is_conflict e then release_passes env ns name left_over (server_world w' s2)
                           else (Some (''update AgentPolicy '' @ name @ '' for release: '' @ api_error_text e),
                                 server_world w' s2))))"

definition release_agent_policy_slot ::
  "'w policy_env \<Rightarrow> agent_policy \<Rightarrow> 'w server_tick \<Rightarrow> go_error option \<times> 'w server_tick" where
  "release_agent_policy_slot env p s =
     release_passes env (om_Namespace (agp_Meta p)) (agp_Name p) max_slot_retries s"

end
