(* ===== verification/Versioned_History.thy ===== *)
theory Versioned_History
  imports Go_Strings
begin

text \<open>
  Optimistic concurrency: the server stamps every object it stores with a new resource version and
  refuses an update whose version is not the current one. A history lists the stored objects, the
  current one first. A copy read at any time carries the version of the entry it was read from, so
  a copy with the current version is the current object.
\<close>

section \<open>Versions are distinct\<close>

definition decimal_value :: "string \<Rightarrow> nat" where
  "decimal_value s = fold (\<lambda>c n. 10 * n + (of_char c - 48)) s 0"

lemma decimal_value_string_of_nat [simp]: "decimal_value (string_of_nat n) = n"
proof (induction n rule: string_of_nat.induct)
  case (1 n)
  have digit: "(of_char (char_of (48 + d) :: char) :: nat) - 48 = d" if "d < 10" for d :: nat
    using that by (simp add: of_char_of)
  show ?case
  proof (cases "n < 10")
    case True
    then have "string_of_nat n = [char_of (48 + n)]" by (simp add: string_of_nat.simps)
    then show ?thesis using digit [OF True] by (simp add: decimal_value_def)
  next
    case False
    then have "string_of_nat n = string_of_nat (n div 10) @ [char_of (48 + n mod 10)]"
      by (subst string_of_nat.simps) simp
    moreover have "decimal_value (string_of_nat (n div 10)) = n div 10" using 1 False by simp
    ultimately show ?thesis using digit [of "n mod 10"] by (simp add: decimal_value_def)
  qed
qed

lemma string_of_nat_inject: "string_of_nat m = string_of_nat n \<longleftrightarrow> m = n"
  using decimal_value_string_of_nat by metis

section \<open>Histories\<close>

definition versions_descend :: "('o \<Rightarrow> string) \<Rightarrow> 'o list \<Rightarrow> bool" where
  "versions_descend version h \<longleftrightarrow> map version h = map string_of_nat (rev [0..<length h])"

locale versioned_history =
  fixes version :: "'o \<Rightarrow> string" and stamp :: "string \<Rightarrow> 'o \<Rightarrow> 'o"
  assumes version_stamp: "version (stamp v x) = v"
begin

lemma descend_start: "versions_descend version [stamp (string_of_nat 0) x]"
  by (simp add: versions_descend_def version_stamp)

lemma descend_push:
  "versions_descend version h \<Longrightarrow> versions_descend version (stamp (string_of_nat (length h)) x # h)"
  by (simp add: versions_descend_def version_stamp)

lemma descend_distinct: "versions_descend version h \<Longrightarrow> distinct (map version h)"
  by (simp add: versions_descend_def distinct_map inj_on_def string_of_nat_inject)

text \<open>A copy that still has the current version is the current object.\<close>

lemma current_copy:
  assumes "versions_descend version h" "p \<in> set h" "version p = version (hd h)"
  shows "p = hd h"
proof -
  have "hd h \<in> set h" using assms(2) by (cases h) auto
  moreover have "inj_on version (set h)" using descend_distinct [OF assms(1)] by (simp add: distinct_map)
  ultimately show ?thesis using assms(2,3) by (simp add: inj_on_def)
qed

end

section \<open>Counting the requests in a state\<close>

lemma count_update:
  "i < length xs \<Longrightarrow>
     length (filter P (xs[i := x])) + (if P (xs ! i) then 1 else 0) = length (filter P xs) + (if P x then 1 else 0)"
  by (induction xs arbitrary: i) (fastforce simp: nth_Cons split: nat.splits if_splits)+

end
