(* ===== verification/Agent_Slots.thy ===== *)
theory Agent_Slots
  imports Agent_Policy Versioned_History
begin

text \<open>
  Concurrent requests against one policy: every request runs the loops of \<^verbatim>\<open>reserveAgentPolicySlot\<close>
  and \<^verbatim>\<open>releaseAgentPolicySlot\<close> (\<^verbatim>\<open>internal/webhook/agentpolicy_enforcer.go\<close>), and the steps of
  different requests interleave at the calls of the API. The deferred release of \<^verbatim>\<open>handleDecide\<close> starts
  over when the first one failed. A read may come from a cache and return any
  object the server ever stored; an update is accepted only on the current resource version. A
  request may be cut off at any point, by its timeout or by an error of the server.
\<close>

section \<open>The system\<close>

datatype slot_request =
    NotArrived
  | Trying int nat agent_policy
  | Holding nat
  | Returning nat agent_policy
  | Finished

record slot_system =
  sy_History :: "agent_policy list"
  sy_Requests :: "slot_request list"
  sy_Grants :: "int list"

abbreviation sy_Stored :: "slot_system \<Rightarrow> agent_policy" where
  "sy_Stored s \<equiv> hd (sy_History s)"

definition stamp_policy :: "string \<Rightarrow> agent_policy \<Rightarrow> agent_policy" where
  "stamp_policy v p = p\<lparr>agp_ResourceVersion := v\<rparr>"

interpretation policies: versioned_history agp_ResourceVersion stamp_policy
  by unfold_locales (simp add: stamp_policy_def)

definition store_policy :: "agent_policy \<Rightarrow> slot_system \<Rightarrow> slot_system" where
  "store_policy p s = s\<lparr>sy_History := stamp_policy (string_of_nat (length (sy_History s))) p # sy_History s\<rparr>"

definition set_request :: "nat \<Rightarrow> slot_request \<Rightarrow> slot_system \<Rightarrow> slot_system" where
  "set_request i r s = s\<lparr>sy_Requests := (sy_Requests s)[i := r]\<rparr>"

definition log_grant :: "int \<Rightarrow> slot_system \<Rightarrow> slot_system" where
  "log_grant now s = s\<lparr>sy_Grants := now # sy_Grants s\<rparr>"

definition is_current :: "agent_policy \<Rightarrow> slot_system \<Rightarrow> bool" where
  "is_current p s \<longleftrightarrow> agp_ResourceVersion p = agp_ResourceVersion (sy_Stored s)"

definition initial_slots :: "agent_policy \<Rightarrow> nat \<Rightarrow> slot_system" where
  "initial_slots p n =
     \<lparr>sy_History = [stamp_policy (string_of_nat 0) p], sy_Requests = replicate n NotArrived, sy_Grants = []\<rparr>"

definition holds_slot :: "slot_request \<Rightarrow> bool" where
  "holds_slot r = (case r of Holding k \<Rightarrow> True | Returning k q \<Rightarrow> True | _ \<Rightarrow> False)"

text \<open>
  \<open>clock\<close> says which times a request may take for its \<^verbatim>\<open>now\<close>, which it reads once before its loop.
\<close>

inductive slot_step :: "(int \<Rightarrow> bool) \<Rightarrow> slot_system \<Rightarrow> slot_system \<Rightarrow> bool" for clock where
  arrive: "i < length (sy_Requests s) \<Longrightarrow> sy_Requests s ! i = NotArrived \<Longrightarrow> p \<in> set (sy_History s) \<Longrightarrow> clock now \<Longrightarrow>
     slot_step clock s (set_request i (Trying now 0 p) s)"
| refuse: "i < length (sy_Requests s) \<Longrightarrow> sy_Requests s ! i = Trying now k p \<Longrightarrow> try_slot now p = Inl reason \<Longrightarrow>
     slot_step clock s (set_request i Finished s)"
| grant: "i < length (sy_Requests s) \<Longrightarrow> sy_Requests s ! i = Trying now k p \<Longrightarrow> try_slot now p = Inr p' \<Longrightarrow>
     is_current p' s \<Longrightarrow> slot_step clock s (log_grant now (store_policy p' (set_request i (Holding 0) s)))"
| reread: "i < length (sy_Requests s) \<Longrightarrow> sy_Requests s ! i = Trying now k p \<Longrightarrow> try_slot now p = Inr p' \<Longrightarrow>
     \<not> is_current p' s \<Longrightarrow> Suc k < max_slot_retries \<Longrightarrow> q \<in> set (sy_History s) \<Longrightarrow>
     slot_step clock s (set_request i (Trying now (Suc k) q) s)"
| outrun: "i < length (sy_Requests s) \<Longrightarrow> sy_Requests s ! i = Trying now k p \<Longrightarrow> try_slot now p = Inr p' \<Longrightarrow>
     \<not> is_current p' s \<Longrightarrow> Suc k = max_slot_retries \<Longrightarrow> slot_step clock s (set_request i Finished s)"
| none_active: "i < length (sy_Requests s) \<Longrightarrow> sy_Requests s ! i = Holding k \<Longrightarrow> q \<in> set (sy_History s) \<Longrightarrow>
     apst_ActiveDecisions (agp_Status q) \<le> 0 \<Longrightarrow> slot_step clock s (set_request i Finished s)"
| fetched: "i < length (sy_Requests s) \<Longrightarrow> sy_Requests s ! i = Holding k \<Longrightarrow> q \<in> set (sy_History s) \<Longrightarrow>
     \<not> apst_ActiveDecisions (agp_Status q) \<le> 0 \<Longrightarrow> slot_step clock s (set_request i (Returning k q) s)"
| returned: "i < length (sy_Requests s) \<Longrightarrow> sy_Requests s ! i = Returning k q \<Longrightarrow> is_current (return_slot q) s \<Longrightarrow>
     slot_step clock s (store_policy (return_slot q) (set_request i Finished s))"
| retry: "i < length (sy_Requests s) \<Longrightarrow> sy_Requests s ! i = Returning k q \<Longrightarrow> \<not> is_current (return_slot q) s \<Longrightarrow>
     Suc k < max_slot_retries \<Longrightarrow> slot_step clock s (set_request i (Holding (Suc k)) s)"
| leaked: "i < length (sy_Requests s) \<Longrightarrow> sy_Requests s ! i = Returning k q \<Longrightarrow> \<not> is_current (return_slot q) s \<Longrightarrow>
     Suc k = max_slot_retries \<Longrightarrow> slot_step clock s (set_request i Finished s)"
| deferred: "i < length (sy_Requests s) \<Longrightarrow> holds_slot (sy_Requests s ! i) \<Longrightarrow>
     slot_step clock s (set_request i (Holding 0) s)"
| cut_off: "i < length (sy_Requests s) \<Longrightarrow> slot_step clock s (set_request i Finished s)"

inductive slot_run :: "(int \<Rightarrow> bool) \<Rightarrow> agent_policy \<Rightarrow> nat \<Rightarrow> slot_system \<Rightarrow> bool" for clock p0 n where
  start: "slot_run clock p0 n (initial_slots p0 n)"
| step: "slot_run clock p0 n s \<Longrightarrow> slot_step clock s s' \<Longrightarrow> slot_run clock p0 n s'"

definition holders :: "slot_system \<Rightarrow> nat" where
  "holders s = length (filter holds_slot (sy_Requests s))"

lemmas slot_update_defs = store_policy_def set_request_def log_grant_def stamp_policy_def

end
