(* ===== verification/Slot_Refinement.thy ===== *)
theory Slot_Refinement
  imports Agent_Slots
begin

text \<open>
  The interleaved loops of \<^verbatim>\<open>reserveAgentPolicySlot\<close> and \<^verbatim>\<open>releaseAgentPolicySlot\<close> refine a machine that
  reserves and returns in one step each.
\<close>

section \<open>One reservation\<close>

lemma roll_over_keeps [simp]:
  "agp_Spec (roll_over now p) = agp_Spec p" "agp_Meta (roll_over now p) = agp_Meta p"
  "agp_ResourceVersion (roll_over now p) = agp_ResourceVersion p"
  "apst_ActiveDecisions (agp_Status (roll_over now p)) = apst_ActiveDecisions (agp_Status p)"
  "apst_LastDecisionAt (agp_Status (roll_over now p)) = apst_LastDecisionAt (agp_Status p)"
  by (simp_all add: roll_over_def upd_policy_status_def split: option.split)

lemma take_slot_sets [simp]:
  "agp_Spec (take_slot now p) = agp_Spec p" "agp_ResourceVersion (take_slot now p) = agp_ResourceVersion p"
  "apst_ActiveDecisions (agp_Status (take_slot now p)) = go_int32 (apst_ActiveDecisions (agp_Status p) + 1)"
  "apst_DecisionsToday (agp_Status (take_slot now p)) = go_int32 (apst_DecisionsToday (agp_Status p) + 1)"
  "apst_LastDecisionAt (agp_Status (take_slot now p)) = format_rfc3339 now"
  by (simp_all add: take_slot_def upd_policy_status_def)

lemma return_slot_sets [simp]:
  "agp_Spec (return_slot p) = agp_Spec p" "agp_ResourceVersion (return_slot p) = agp_ResourceVersion p"
  "apst_ActiveDecisions (agp_Status (return_slot p)) = go_int32 (apst_ActiveDecisions (agp_Status p) - 1)"
  "apst_DecisionsToday (agp_Status (return_slot p)) = apst_DecisionsToday (agp_Status p)"
  "apst_LastDecisionAt (agp_Status (return_slot p)) = apst_LastDecisionAt (agp_Status p)"
  by (simp_all add: return_slot_def upd_policy_status_def)

lemma try_slot_Inr:
  "try_slot now p = Inr p' \<longleftrightarrow>
     slot_denied now (roll_over now p) = None \<and> p' = take_slot now (roll_over now p)"
  by (auto simp: try_slot_def Let_def split: option.splits)

text \<open>The version plays no part in a pass.\<close>

lemma stamp_policy_keeps [simp]:
  "agp_Spec (stamp_policy v p) = agp_Spec p" "agp_Status (stamp_policy v p) = agp_Status p"
  "stamp_policy v (stamp_policy v' p) = stamp_policy v p"
  by (simp_all add: stamp_policy_def)

lemma roll_over_stamp: "roll_over now (stamp_policy v p) = stamp_policy v (roll_over now p)"
  by (simp add: roll_over_def upd_policy_status_def stamp_policy_def split: option.split)

lemma slot_denied_stamp: "slot_denied now (stamp_policy v p) = slot_denied now p"
  by (simp add: slot_denied_def Let_def split: option.split)

lemma take_slot_stamp: "take_slot now (stamp_policy v p) = stamp_policy v (take_slot now p)"
  by (simp add: take_slot_def upd_policy_status_def stamp_policy_def)

lemma return_slot_stamp: "return_slot (stamp_policy v p) = stamp_policy v (return_slot p)"
  by (simp add: return_slot_def upd_policy_status_def stamp_policy_def)

lemma try_slot_stamp: "try_slot now p = Inr p' \<Longrightarrow> try_slot now (stamp_policy v p) = Inr (stamp_policy v p')"
  by (simp add: try_slot_Inr roll_over_stamp slot_denied_stamp take_slot_stamp)

lemma slot_denied_None:
  assumes "slot_denied now p = None" "aps_RateLimits (agp_Spec p) = Some rl"
  shows "0 < arl_MaxApprovalsPerDay rl \<Longrightarrow> apst_DecisionsToday (agp_Status p) < arl_MaxApprovalsPerDay rl"
    "0 < arl_MaxConcurrent rl \<Longrightarrow> apst_ActiveDecisions (agp_Status p) < arl_MaxConcurrent rl"
    "\<not> cooldown_running now (arl_Cooldown rl) (apst_LastDecisionAt (agp_Status p))"
  using assms by (auto simp: slot_denied_def Let_def split: if_splits)

section \<open>The machine of atomic reservations\<close>

text \<open>
  Its state is the policy (without a version), the number of slots held and the times of the grants,
  the latest grant first.
\<close>

inductive atomic_slots :: "(int \<Rightarrow> bool) \<Rightarrow> agent_policy \<Rightarrow> agent_policy \<Rightarrow> nat \<Rightarrow> int list \<Rightarrow> bool" for clock p0 where
  idle: "atomic_slots clock p0 (stamp_policy [] p0) 0 []"
| reserve: "atomic_slots clock p0 p h g \<Longrightarrow> clock now \<Longrightarrow> try_slot now p = Inr p' \<Longrightarrow>
     atomic_slots clock p0 p' (Suc h) (now # g)"
| release: "atomic_slots clock p0 p (Suc h) g \<Longrightarrow> 0 < apst_ActiveDecisions (agp_Status p) \<Longrightarrow>
     atomic_slots clock p0 (return_slot p) h g"
| leak: "atomic_slots clock p0 p h g \<Longrightarrow> h' \<le> h \<Longrightarrow> atomic_slots clock p0 p h' g"

lemma atomic_spec: "atomic_slots clock p0 p h g \<Longrightarrow> agp_Spec p = agp_Spec p0"
  by (induction rule: atomic_slots.induct) (auto simp: try_slot_Inr)

section \<open>The interleaved requests are well formed\<close>

definition request_ok :: "(int \<Rightarrow> bool) \<Rightarrow> agent_policy list \<Rightarrow> slot_request \<Rightarrow> bool" where
  "request_ok clock h r =
     (case r of
        Trying now k p \<Rightarrow> p \<in> set h \<and> clock now
      | Returning k q \<Rightarrow> q \<in> set h \<and> 0 < apst_ActiveDecisions (agp_Status q)
      | _ \<Rightarrow> True)"

definition slots_ok :: "(int \<Rightarrow> bool) \<Rightarrow> slot_system \<Rightarrow> bool" where
  "slots_ok clock s \<longleftrightarrow>
     sy_History s \<noteq> [] \<and> versions_descend agp_ResourceVersion (sy_History s) \<and>
     list_all (request_ok clock (sy_History s)) (sy_Requests s)"

lemma request_ok_push: "request_ok clock h r \<Longrightarrow> request_ok clock (x # h) r"
  by (auto simp: request_ok_def split: slot_request.splits)

lemma list_all_update: "list_all P xs \<Longrightarrow> P x \<Longrightarrow> list_all P (xs[i := x])"
  using set_update_subset_insert [of xs i x] unfolding list_all_iff by blast

lemma requests_ok_set:
  "list_all (request_ok clock h) rs \<Longrightarrow> request_ok clock h r \<Longrightarrow> list_all (request_ok clock h) (rs[i := r])"
  by (rule list_all_update)

lemma requests_ok_push:
  "list_all (request_ok clock h) rs \<Longrightarrow> list_all (request_ok clock (x # h)) rs"
  by (auto simp: list_all_iff intro: request_ok_push)

lemma trying_clock:
  "list_all (request_ok clock h) rs \<Longrightarrow> i < length rs \<Longrightarrow> rs ! i = Trying now k p \<Longrightarrow> clock now"
  using nth_mem [of i rs] by (fastforce simp: list_all_iff request_ok_def)

lemma slots_ok_step: "slot_step clock s s' \<Longrightarrow> slots_ok clock s \<Longrightarrow> slots_ok clock s'"
  by (cases rule: slot_step.cases, assumption)
    (auto simp: slots_ok_def store_policy_def set_request_def log_grant_def policies.descend_push
      intro!: requests_ok_set requests_ok_push dest: trying_clock simp: request_ok_def)

lemma slots_ok_run: "slot_run clock p0 n s \<Longrightarrow> slots_ok clock s"
proof (induction rule: slot_run.induct)
  case start
  show ?case
    by (simp add: slots_ok_def initial_slots_def policies.descend_start [simplified] list_all_iff request_ok_def)
qed (rule slots_ok_step)

lemma slots_ok_request:
  "slots_ok clock s \<Longrightarrow> i < length (sy_Requests s) \<Longrightarrow> request_ok clock (sy_History s) (sy_Requests s ! i)"
  by (simp add: slots_ok_def list_all_length)

lemma slots_ok_current:
  "slots_ok clock s \<Longrightarrow> p \<in> set (sy_History s) \<Longrightarrow> is_current p s \<Longrightarrow> p = sy_Stored s"
  by (auto simp: slots_ok_def is_current_def intro: policies.current_copy)

section \<open>Every interleaving refines the atomic machine\<close>

lemma holders_set_request:
  "i < length (sy_Requests s) \<Longrightarrow>
     holders (set_request i r s) + (if holds_slot (sy_Requests s ! i) then 1 else 0) =
     holders s + (if holds_slot r then 1 else 0)"
  by (simp add: holders_def set_request_def count_update)

lemma holders_store [simp]: "holders (store_policy p s) = holders s" "holders (log_grant now s) = holders s"
  by (simp_all add: holders_def store_policy_def log_grant_def)

lemma stored_updates [simp]:
  "sy_Stored (store_policy p s) = stamp_policy (string_of_nat (length (sy_History s))) p"
  "sy_Stored (log_grant now s) = sy_Stored s" "sy_Grants (store_policy p s) = sy_Grants s"
  "sy_Grants (log_grant now s) = now # sy_Grants s" "sy_History (set_request i r s) = sy_History s"
  "sy_Grants (set_request i r s) = sy_Grants s"
  by (simp_all add: store_policy_def log_grant_def set_request_def)

lemma holds_slot_simps [simp]:
  "\<not> holds_slot NotArrived" "\<not> holds_slot Finished" "\<not> holds_slot (Trying now k p)" "holds_slot (Holding k)"
  "holds_slot (Returning k q)"
  by (simp_all add: holds_slot_def)

definition view_slots :: "slot_system \<Rightarrow> agent_policy \<times> nat \<times> int list" where
  "view_slots s = (stamp_policy [] (sy_Stored s), holders s, sy_Grants s)"

lemma slot_step_refines:
  assumes step: "slot_step clock s s'" and ok: "slots_ok clock s"
    and abs: "atomic_slots clock p0 (stamp_policy [] (sy_Stored s)) (holders s) (sy_Grants s)"
  shows "atomic_slots clock p0 (stamp_policy [] (sy_Stored s')) (holders s') (sy_Grants s')"
proof -
  have fewer: ?thesis
    if "s' = set_request i r s" "i < length (sy_Requests s)" "holds_slot r \<Longrightarrow> holds_slot (sy_Requests s ! i)" for i r
  proof -
    have "holders s' \<le> holders s"
      using holders_set_request [OF that(2), of r] that(1,3) by (cases "holds_slot r"; simp split: if_splits)
    then show ?thesis using atomic_slots.leak [OF abs] that(1) by simp
  qed
  note held = holders_set_request
  show ?thesis using step
  proof (cases rule: slot_step.cases)
    case (grant i now k p p')
    have p: "p \<in> set (sy_History s)" "clock now" using slots_ok_request [OF ok grant(2)] grant(3) by (simp_all add: request_ok_def)
    have "is_current p s" using grant(4,5) by (simp add: is_current_def try_slot_Inr)
    then have "p = sy_Stored s" using slots_ok_current [OF ok p(1)] by simp
    then have "try_slot now (stamp_policy [] (sy_Stored s)) = Inr (stamp_policy [] p')" using try_slot_stamp [OF grant(4)] by simp
    from atomic_slots.reserve [OF abs p(2) this] show ?thesis
      using held [OF grant(2), of "Holding 0"] grant(1,3) by simp
  next
    case (returned i k q)
    have q: "q \<in> set (sy_History s)" "0 < apst_ActiveDecisions (agp_Status q)"
      using slots_ok_request [OF ok returned(2)] returned(3) by (simp_all add: request_ok_def)
    have "is_current q s" using returned(4) by (simp add: is_current_def)
    then have qs: "q = sy_Stored s" using slots_ok_current [OF ok q(1)] by simp
    have h: "holders s = Suc (holders (set_request i Finished s))" using held [OF returned(2), of Finished] returned(3) by simp
    from atomic_slots.release [OF abs [unfolded h]] q(2) qs show ?thesis
      using returned(1) by (simp add: return_slot_stamp)
  qed (erule (1) fewer, simp)+
qed


lemma atomic_view:
  assumes "slot_run clock p0 n s"
  shows "atomic_slots clock p0 (stamp_policy [] (sy_Stored s)) (holders s) (sy_Grants s)"
  using assms
proof (induction rule: slot_run.induct)
  case start
  show ?case by (simp add: initial_slots_def holders_def atomic_slots.idle)
next
  case (step s s')
  then show ?case by (blast intro: slot_step_refines slots_ok_run)
qed

end
