(* ===== verification/Slot_Server.thy ===== *)
theory Slot_Server
  imports Slot_Refinement
begin

text \<open>
  The loops of \<^verbatim>\<open>reserveAgentPolicySlot\<close> and \<^verbatim>\<open>releaseAgentPolicySlot\<close> against a server that other requests
  use at the same time. The world of a loop is the system of the requests; between the calls of the loop
  the others move as they like, a read returns any object ever stored, and an update is accepted only on
  the current version. Every run of the loops is a run of the interleaved system, with the request in the
  state its result tells.
\<close>

section \<open>The server under other requests\<close>

definition other_step :: "(int \<Rightarrow> bool) \<Rightarrow> nat \<Rightarrow> slot_system \<Rightarrow> slot_system \<Rightarrow> bool" where
  "other_step clock i w w' \<longleftrightarrow> slot_step clock w w' \<and> sy_Requests w' ! i = sy_Requests w ! i"

definition others :: "(int \<Rightarrow> bool) \<Rightarrow> nat \<Rightarrow> slot_system \<Rightarrow> slot_system \<Rightarrow> bool" where
  "others clock i = (other_step clock i)\<^sup>*\<^sup>*"

definition slot_server :: "(int \<Rightarrow> bool) \<Rightarrow> nat \<Rightarrow> slot_system policy_env \<Rightarrow> bool" where
  "slot_server clock i env \<longleftrightarrow>
     (\<forall>ns name w r w'. sy_History w \<noteq> [] \<and> pe_GetPolicy env ns name w = (r, w') \<longrightarrow>
        others clock i w w' \<and> (\<forall>p. r = Inr p \<longrightarrow> p \<in> set (sy_History w'))) \<and>
     (\<forall>p w r w'. pe_UpdatePolicyStatus env p w = (r, w') \<longrightarrow>
        (\<exists>w1. others clock i w w1 \<and>
           (case r of
              Inr q \<Rightarrow> is_current p w1 \<and> w' = store_policy p w1
            | Inl e \<Rightarrow> (is_conflict e \<longrightarrow> \<not> is_current p w1) \<and> w' = w1)))"

text \<open>The state of the request once its call has returned.\<close>

definition reserved :: "nat \<Rightarrow> int \<Rightarrow> go_error + string + agent_policy \<Rightarrow> slot_system \<Rightarrow> slot_system" where
  "reserved i now res w =
     (case res of Inr (Inr q) \<Rightarrow> log_grant now (set_request i (Holding 0) w) | _ \<Rightarrow> set_request i Finished w)"

definition released :: "nat \<Rightarrow> go_error option \<Rightarrow> slot_system \<Rightarrow> slot_system" where
  "released i err w = set_request i (if err = None then Finished else Holding 0) w"

section \<open>Moves of the others\<close>

lemma set_request_twice [simp]: "set_request i r (set_request i r' w) = set_request i r w"
  by (simp add: set_request_def)

lemma set_request_commute:
  "i \<noteq> j \<Longrightarrow> set_request i r (set_request j r' w) = set_request j r' (set_request i r w)"
  by (simp add: set_request_def list_update_swap)

lemma set_request_store [simp]:
  "set_request i r (store_policy p w) = store_policy p (set_request i r w)"
  "set_request i r (log_grant now w) = log_grant now (set_request i r w)"
  by (simp_all add: slot_update_defs)

lemma length_requests [simp]:
  "length (sy_Requests (set_request i r w)) = length (sy_Requests w)"
  "sy_Requests (store_policy p w) = sy_Requests w" "sy_Requests (log_grant now w) = sy_Requests w"
  by (simp_all add: slot_update_defs)

lemma requests_set [simp]:
  "i < length (sy_Requests w) \<Longrightarrow> sy_Requests (set_request i r w) ! i = r"
  "i \<noteq> j \<Longrightarrow> sy_Requests (set_request i r w) ! j = sy_Requests w ! j"
  by (simp_all add: set_request_def)

lemma is_current_updates [simp]:
  "is_current p (set_request i r w) = is_current p w" "is_current p (log_grant now w) = is_current p w"
  by (simp_all add: is_current_def slot_update_defs)

lemma slot_step_length: "slot_step clock w w' \<Longrightarrow> length (sy_Requests w') = length (sy_Requests w)"
  by (cases rule: slot_step.cases, assumption) simp_all

lemma slot_run_length: "slot_run clock p0 n w \<Longrightarrow> length (sy_Requests w) = n"
  by (induction rule: slot_run.induct) (simp_all add: initial_slots_def slot_step_length)

lemma set_same_request [simp]: "set_request i (sy_Requests w ! i) w = w"
  by (simp add: set_request_def)

lemma step_beside:
  assumes "slot_step clock w w'" "sy_Requests w' ! i = sy_Requests w ! i" "i < length (sy_Requests w)"
  shows "w' = w \<or> slot_step clock (set_request i r w) (set_request i r w')"
proof -
  have other: ?thesis
    if "w' = set_request j x w" "i \<noteq> j \<Longrightarrow> slot_step clock (set_request i r w) (set_request j x (set_request i r w))" for j x
  proof (cases "i = j")
    case True
    then show ?thesis using that(1) assms(2,3) by auto
  next
    case False
    then show ?thesis using that set_request_commute by metis
  qed
  show ?thesis using assms(1)
  proof (cases rule: slot_step.cases)
    case (grant j now k p p')
    then have "i \<noteq> j" using assms(2,3) by auto
    moreover have "slot_step clock (set_request i r w) (log_grant now (store_policy p' (set_request j (Holding 0) (set_request i r w))))"
      using grant \<open>i \<noteq> j\<close> by (intro slot_step.grant) simp_all
    ultimately show ?thesis using grant(1) set_request_commute [of i j] by simp
  next
    case (returned j k q)
    then have "i \<noteq> j" using assms(2,3) by auto
    moreover have "slot_step clock (set_request i r w) (store_policy (return_slot q) (set_request j Finished (set_request i r w)))"
      using returned \<open>i \<noteq> j\<close> by (intro slot_step.returned) simp_all
    ultimately show ?thesis using returned(1) set_request_commute [of i j] by simp
  next
    case arrive
    then show ?thesis by (intro other [OF arrive(1)] slot_step.arrive) simp_all
  next
    case refuse
    then show ?thesis by (intro other [OF refuse(1)] slot_step.refuse) simp_all
  next
    case reread
    then show ?thesis by (intro other [OF reread(1)] slot_step.reread) simp_all
  next
    case outrun
    then show ?thesis by (intro other [OF outrun(1)] slot_step.outrun) simp_all
  next
    case none_active
    then show ?thesis by (intro other [OF none_active(1)] slot_step.none_active) simp_all
  next
    case fetched
    then show ?thesis by (intro other [OF fetched(1)] slot_step.fetched) simp_all
  next
    case retry
    then show ?thesis by (intro other [OF retry(1)] slot_step.retry) simp_all
  next
    case leaked
    then show ?thesis by (intro other [OF leaked(1)] slot_step.leaked) simp_all
  next
    case deferred
    then show ?thesis by (intro other [OF deferred(1)] slot_step.deferred) simp_all
  next
    case cut_off
    then show ?thesis by (intro other [OF cut_off(1)] slot_step.cut_off) simp_all
  qed
qed

lemma others_beside:
  assumes "others clock i w w'" "slot_run clock p0 n (set_request i r w)" "i < n"
  shows "slot_run clock p0 n (set_request i r w')"
  using assms(1) unfolding others_def
proof (induction rule: rtranclp_induct)
  case base
  show ?case by (rule assms(2))
next
  case (step w1 w2)
  have "length (sy_Requests w1) = n" using slot_run_length [OF step.IH] by simp
  then have "w2 = w1 \<or> slot_step clock (set_request i r w1) (set_request i r w2)"
    using step_beside step.hyps(2) assms(3) by (auto simp: other_step_def)
  then show ?case using step.IH by (auto intro: slot_run.step)
qed

text \<open>Histories only grow, so an outdated copy stays outdated.\<close>

lemma step_history: "slot_step clock w w' \<Longrightarrow> \<exists>h. sy_History w' = h @ sy_History w"
  by (cases rule: slot_step.cases, assumption) (auto simp: slot_update_defs)

lemma others_history: "others clock i w w' \<Longrightarrow> \<exists>h. sy_History w' = h @ sy_History w"
  unfolding others_def
proof (induction rule: rtranclp_induct)
  case (step w1 w2)
  then show ?case using step_history [of clock w1 w2] by (auto simp: other_step_def)
qed simp

lemma others_keep: "others clock i w w' \<Longrightarrow> sy_Requests w' ! i = sy_Requests w ! i"
  unfolding others_def by (induction rule: rtranclp_induct) (simp_all add: other_step_def)

lemma stays_outdated:
  assumes "others clock i w w'" "versions_descend agp_ResourceVersion (sy_History w')" "p \<in> set (sy_History w)" "agp_ResourceVersion q = agp_ResourceVersion p"
    "\<not> is_current q w"
  shows "\<not> is_current q w'"
proof
  assume "is_current q w'"
  then have "p = sy_Stored w'"
    using others_history [OF assms(1)] assms(2,3,4) by (intro policies.current_copy) (auto simp: is_current_def)
  moreover obtain h where h: "sy_History w' = h @ sy_History w" using others_history [OF assms(1)] by blast
  ultimately have "h = []"
    using assms(2,3) policies.descend_distinct [of "sy_History w'"] by (cases h) auto
  then show False using h assms(4,5) \<open>p = sy_Stored w'\<close> by (simp add: is_current_def)
qed

section \<open>The loops are runs of the interleaved system\<close>

lemma run_stored:
  assumes "slot_run clock p0 n (set_request i r w)"
  shows "sy_History w \<noteq> []"
  using slots_ok_run [OF assms] by (simp add: slots_ok_def)

lemma server_get:
  assumes "slot_server clock i env" "sy_History w \<noteq> []" "pe_GetPolicy env ns name w = (r, w')"
  shows "others clock i w w' \<and> (\<forall>p. r = Inr p \<longrightarrow> p \<in> set (sy_History w'))"
  using assms by (auto simp: slot_server_def)

lemma server_update:
  assumes "slot_server clock i env" "pe_UpdatePolicyStatus env p w = (r, w')"
  obtains w1 where "others clock i w w1"
    "\<And>q. r = Inr q \<Longrightarrow> is_current p w1 \<and> w' = store_policy p w1"
    "\<And>e. r = Inl e \<Longrightarrow> (is_conflict e \<longrightarrow> \<not> is_current p w1) \<and> w' = w1"
  using assms unfolding slot_server_def by (cases r) fastforce+

lemma run_move:
  "slot_run clock p0 n (set_request i r w) \<Longrightarrow> slot_step clock (set_request i r w) (set_request i r' w) \<Longrightarrow>
     slot_run clock p0 n (set_request i r' w)"
  by (rule slot_run.step)

lemma run_finish:
  assumes "slot_run clock p0 n (set_request i r w)" "i < n"
  shows "slot_run clock p0 n (set_request i Finished w)"
proof -
  have "slot_step clock (set_request i r w) (set_request i Finished (set_request i r w))"
    using assms slot_run_length by (intro slot_step.cut_off) fastforce
  then show ?thesis using slot_run.step [OF assms(1)] by simp
qed

lemma reserve_passes_run:
  assumes server: "slot_server clock i env" and i: "i < n"
  shows "slot_run clock p0 n (set_request i (Trying now k p) (sk_World s)) \<Longrightarrow> p \<in> set (sy_History (sk_World s)) \<Longrightarrow>
    k + left_over = max_slot_retries \<Longrightarrow> reserve_passes env ns name now left_over p s = (res, s') \<Longrightarrow>
    slot_run clock p0 n (reserved i now res (sk_World s'))"
proof (induction left_over arbitrary: k p s res s')
  case 0
  then show ?case using run_finish [OF _ i] by (auto simp: reserved_def)
next
  case (Suc left_over)
  let ?w = "sk_World s"
  have in_range: "i < length (sy_Requests w)" if "slot_run clock p0 n (set_request i r w)" for r w
    using slot_run_length [OF that] i by simp
  show ?case
  proof (cases "try_slot now p")
    case (Inl reason)
    then show ?thesis using Suc.prems(1,4) run_finish [OF _ i] by (auto simp: reserved_def)
  next
    case p': (Inr p')
    obtain r w' where upd: "pe_UpdatePolicyStatus env p' ?w = (r, w')" by fastforce
    from server_update [OF server upd] obtain w1 where w1: "others clock i ?w w1"
        "\<And>q. r = Inr q \<Longrightarrow> is_current p' w1 \<and> w' = store_policy p' w1"
        "\<And>e. r = Inl e \<Longrightarrow> (is_conflict e \<longrightarrow> \<not> is_current p' w1) \<and> w' = w1" by blast
    have run1: "slot_run clock p0 n (set_request i (Trying now k p) w1)" by (rule others_beside [OF w1(1) Suc.prems(1) i])
    have mem1: "p \<in> set (sy_History w1)" using others_history [OF w1(1)] Suc.prems(2) by auto
    show ?thesis
    proof (cases r)
      case (Inr stored)
      have "slot_step clock (set_request i (Trying now k p) w1)
          (log_grant now (store_policy p' (set_request i (Holding 0) (set_request i (Trying now k p) w1))))"
        using in_range [OF run1] p' w1(2) [OF Inr] by (intro slot_step.grant) simp_all
      then have "slot_run clock p0 n (log_grant now (store_policy p' (set_request i (Holding 0) w1)))"
        using slot_run.step [OF run1] by simp
      then show ?thesis using Suc.prems(4) p' upd Inr w1(2) [OF Inr]
        by (auto simp: reserved_def server_emit_def server_world_def Let_def)
    next
      case (Inl e)
      note w' = w1(3) [OF Inl]
      have fail1: "slot_run clock p0 n (set_request i Finished w1)" by (rule run_finish [OF run1 i])
      show ?thesis
      proof (cases "is_conflict e \<and> left_over \<noteq> 0")
        case False
        then show ?thesis using Suc.prems(4) p' upd Inl w' fail1
          by (auto simp: reserved_def server_emit_def server_world_def Let_def split: if_splits)
      next
        case retry: True
        obtain g w2 where get: "pe_GetPolicy env ns name w1 = (g, w2)" by fastforce
        from server_get [OF server run_stored [OF run1] get] have w2: "others clock i w1 w2" "\<And>q. g = Inr q \<Longrightarrow> q \<in> set (sy_History w2)" by auto
        have run2: "slot_run clock p0 n (set_request i (Trying now k p) w2)" by (rule others_beside [OF w2(1) run1 i])
        show ?thesis
        proof (cases g)
          case (Inl ge)
          then show ?thesis using Suc.prems(4) p' upd \<open>r = Inl e\<close> w' retry get run_finish [OF run2 i]
            by (auto simp: reserved_def server_emit_def server_world_def Let_def)
        next
          case (Inr q)
          have "slots_ok clock (set_request i (Trying now k p) w2)" by (rule slots_ok_run [OF run2])
          then have old: "\<not> is_current p' (set_request i (Trying now k p) w2)"
            using stays_outdated [of clock i w1 w2 p p'] w2(1) mem1 p' w' retry
            by (simp add: slots_ok_def try_slot_Inr)
          have "slot_step clock (set_request i (Trying now k p) w2)
              (set_request i (Trying now (Suc k) q) (set_request i (Trying now k p) w2))"
            using in_range [OF run2] p' old w2(2) [OF Inr] retry Suc.prems(3) by (intro slot_step.reread) simp_all
          then have run3: "slot_run clock p0 n (set_request i (Trying now (Suc k) q) w2)"
            using slot_run.step [OF run2] by simp
          show ?thesis
            by (rule Suc.IH [of "Suc k" q "server_world w2 (server_world w1 (server_emit (UpdatePolicyStatusCalled p') s))" res s'])
              (use run3 w2(2) [OF Inr] Suc.prems(3,4) p' upd Inl w' retry get Inr in
                \<open>auto simp: server_emit_def server_world_def Let_def\<close>)
        qed
      qed
    qed
  qed
qed

lemma run_defer:
  assumes "slot_run clock p0 n (set_request i r w)" "i < n" "holds_slot r"
  shows "slot_run clock p0 n (set_request i (Holding 0) w)"
proof -
  have "slot_step clock (set_request i r w) (set_request i (Holding 0) (set_request i r w))"
    using assms slot_run_length by (intro slot_step.deferred) fastforce+
  then show ?thesis using slot_run.step [OF assms(1)] by simp
qed

lemma release_passes_run:
  assumes server: "slot_server clock i env" and i: "i < n"
  shows "slot_run clock p0 n (set_request i (Holding k) (sk_World s)) \<Longrightarrow> k + left_over = max_slot_retries \<Longrightarrow>
    release_passes env ns name left_over s = (err, s') \<Longrightarrow> slot_run clock p0 n (released i err (sk_World s'))"
proof (induction left_over arbitrary: k s err s')
  case 0
  then show ?case using run_defer [OF _ i] by (auto simp: released_def)
next
  case (Suc left_over)
  let ?w = "sk_World s"
  have in_range: "i < length (sy_Requests w)" if "slot_run clock p0 n (set_request i r w)" for r w
    using slot_run_length [OF that] i by simp
  obtain g w1 where get: "pe_GetPolicy env ns name ?w = (g, w1)" by fastforce
  from server_get [OF server run_stored [OF Suc.prems(1)] get] have w1: "others clock i ?w w1" "\<And>q. g = Inr q \<Longrightarrow> q \<in> set (sy_History w1)" by auto
  have run1: "slot_run clock p0 n (set_request i (Holding k) w1)" by (rule others_beside [OF w1(1) Suc.prems(1) i])
  show ?case
  proof (cases g)
    case (Inl ge)
    then show ?thesis using Suc.prems(3) get run_defer [OF run1 i]
      by (auto simp: released_def server_world_def)
  next
    case q: (Inr q)
    show ?thesis
    proof (cases "apst_ActiveDecisions (agp_Status q) \<le> 0")
      case True
      have "slot_step clock (set_request i (Holding k) w1) (set_request i Finished (set_request i (Holding k) w1))"
        using in_range [OF run1] w1(2) [OF q] True by (intro slot_step.none_active [where q = q]) simp_all
      then show ?thesis using Suc.prems(3) get q True slot_run.step [OF run1]
        by (auto simp: released_def server_world_def)
    next
      case False
      have "slot_step clock (set_request i (Holding k) w1) (set_request i (Returning k q) (set_request i (Holding k) w1))"
        using in_range [OF run1] w1(2) [OF q] False by (intro slot_step.fetched) simp_all
      then have run2: "slot_run clock p0 n (set_request i (Returning k q) w1)" using slot_run.step [OF run1] by simp
      obtain r w' where upd: "pe_UpdatePolicyStatus env (return_slot q) w1 = (r, w')" by fastforce
      from server_update [OF server upd] obtain w2 where w2: "others clock i w1 w2"
          "\<And>x. r = Inr x \<Longrightarrow> is_current (return_slot q) w2 \<and> w' = store_policy (return_slot q) w2"
          "\<And>e. r = Inl e \<Longrightarrow> (is_conflict e \<longrightarrow> \<not> is_current (return_slot q) w2) \<and> w' = w2" by blast
      have run3: "slot_run clock p0 n (set_request i (Returning k q) w2)" by (rule others_beside [OF w2(1) run2 i])
      show ?thesis
      proof (cases r)
        case (Inr stored)
        have "slot_step clock (set_request i (Returning k q) w2)
            (store_policy (return_slot q) (set_request i Finished (set_request i (Returning k q) w2)))"
          using in_range [OF run3] w2(2) [OF Inr] by (intro slot_step.returned) simp_all
        then have "slot_run clock p0 n (store_policy (return_slot q) (set_request i Finished w2))"
          using slot_run.step [OF run3] by simp
        then show ?thesis using Suc.prems(3) get q False upd Inr w2(2) [OF Inr]
          by (auto simp: released_def server_emit_def server_world_def Let_def)
      next
        case (Inl e)
        note w' = w2(3) [OF Inl]
        show ?thesis
        proof (cases "is_conflict e \<and> left_over \<noteq> 0")
          case True
          have old: "\<not> is_current (return_slot q) w2" using w' True by blast
          have "slot_step clock (set_request i (Returning k q) w2)
              (set_request i (Holding (Suc k)) (set_request i (Returning k q) w2))"
            using in_range [OF run3] old True Suc.prems(2) by (intro slot_step.retry) simp_all
          then have run4: "slot_run clock p0 n (set_request i (Holding (Suc k)) w2)" using slot_run.step [OF run3] by simp
          show ?thesis
            by (rule Suc.IH [of "Suc k"
                  "server_world w2 (server_emit (UpdatePolicyStatusCalled (return_slot q)) (server_world w1 s))" err s'])
              (use run4 Suc.prems(2,3) get q False upd Inl w' True in
                \<open>auto simp: server_emit_def server_world_def Let_def\<close>)
        next
          case last: False
          have "slot_run clock p0 n (set_request i (Holding 0) w2)" by (rule run_defer [OF run3 i]) simp
          then show ?thesis using Suc.prems(3) get q False upd Inl w' last
            by (cases left_over) (auto simp: released_def server_emit_def server_world_def Let_def split: if_splits)
        qed
      qed
    qed
  qed
qed

text \<open>A request arrives and reserves; a request that holds a slot releases it.\<close>

lemma reserve_slot_run:
  assumes "slot_server clock i env" "slot_run clock p0 n (sk_World s)" "i < n" "sy_Requests (sk_World s) ! i = NotArrived"
    "p \<in> set (sy_History (sk_World s))" "clock (kb_Now (pe_Kube env) (sk_World s))"
    "reserve_agent_policy_slot env p s = (res, s')"
  shows "slot_run clock p0 n (reserved i (kb_Now (pe_Kube env) (sk_World s)) res (sk_World s'))"
proof -
  let ?now = "kb_Now (pe_Kube env) (sk_World s)"
  have "slot_step clock (sk_World s) (set_request i (Trying ?now 0 p) (sk_World s))"
    using assms(2-6) slot_run_length by (intro slot_step.arrive) fastforce+
  then have "slot_run clock p0 n (set_request i (Trying ?now 0 p) (sk_World s))" by (rule slot_run.step [OF assms(2)])
  then show ?thesis
    using reserve_passes_run [OF assms(1,3), of p0 ?now 0 p s max_slot_retries] assms(5,7)
    by (simp add: reserve_agent_policy_slot_def)
qed

lemma release_slot_run:
  assumes "slot_server clock i env" "slot_run clock p0 n (sk_World s)" "i < n" "sy_Requests (sk_World s) ! i = Holding 0"
    "release_agent_policy_slot env q s = (err, s')"
  shows "slot_run clock p0 n (released i err (sk_World s'))"
proof -
  have "slot_run clock p0 n (set_request i (Holding 0) (sk_World s))" using assms(2,4) set_same_request [of i "sk_World s"] by simp
  then show ?thesis
    using release_passes_run [OF assms(1,3), of p0 0 s max_slot_retries] assms(5)
    by (simp add: release_agent_policy_slot_def)
qed

section \<open>A server without other writers\<close>

text \<open>Reads answer through \<open>copy\<close>; an update on another version than the current one is a conflict.\<close>

definition compare_and_store :: "agent_policy \<Rightarrow> slot_system \<Rightarrow> (api_error + agent_policy) \<times> slot_system" where
  "compare_and_store p w =
     (if is_current p w then (Inr (sy_Stored (store_policy p w)), store_policy p w) else (Inl (ApiConflict ''conflict''), w))"

definition sole_writer :: "(slot_system \<Rightarrow> agent_policy) \<Rightarrow> slot_system policy_env \<Rightarrow> bool" where
  "sole_writer copy env \<longleftrightarrow>
     (\<forall>ns name w. pe_GetPolicy env ns name w = (Inr (copy w), w)) \<and> pe_UpdatePolicyStatus env = compare_and_store"

lemma sole_writer_serves: "sole_writer sy_Stored env \<Longrightarrow> slot_server clock i env"
  unfolding slot_server_def sole_writer_def others_def
  by (force simp: compare_and_store_def split: if_splits sum.splits)

lemma sole_writer_simps:
  assumes "sole_writer copy env"
  shows "pe_GetPolicy env ns name w = (Inr (copy w), w)" "pe_UpdatePolicyStatus env p w = compare_and_store p w"
  using assms by (simp_all add: sole_writer_def)

text \<open>
  What a reservation comes to there: a refusal of the copy the request came with stands; otherwise the
  stored object decides.
\<close>

definition decided :: "int \<Rightarrow> agent_policy \<Rightarrow> slot_system \<Rightarrow> (go_error + string + agent_policy) \<times> slot_system" where
  "decided now p w =
     (case (try_slot now p, try_slot now (sy_Stored w)) of
        (Inl reason, _) \<Rightarrow> (Inr (Inl reason), w)
      | (_, Inl reason) \<Rightarrow> (Inr (Inl reason), w)
      | (_, Inr q) \<Rightarrow> (Inr (Inr (sy_Stored (store_policy q w))), store_policy q w))"

lemma retries_Suc: "max_slot_retries = Suc (Suc (Suc (Suc (Suc 0))))"
  by (simp add: max_slot_retries_def)

lemma try_current: "try_slot now p = Inr p' \<Longrightarrow> is_current p' w \<longleftrightarrow> is_current p w"
  by (auto simp: try_slot_Inr is_current_def)

lemma stored_is_current: "is_current (sy_Stored w) w"
  by (simp add: is_current_def)

lemma sole_writer_reserves:
  assumes "sole_writer copy env" "copy (sk_World s) = sy_Stored (sk_World s)"
    "versions_descend agp_ResourceVersion (sy_History (sk_World s))" "p \<in> set (sy_History (sk_World s))"
    "reserve_agent_policy_slot env p s = (res, s')"
  shows "(res, sk_World s') = decided (kb_Now (pe_Kube env) (sk_World s)) p (sk_World s)"
proof (cases "is_current p (sk_World s)")
  case True
  then have "p = sy_Stored (sk_World s)" using policies.current_copy [OF assms(3,4)] by (simp add: is_current_def)
  then show ?thesis
    using assms(5) stored_is_current
    by (auto simp: reserve_agent_policy_slot_def retries_Suc decided_def sole_writer_simps [OF assms(1)] compare_and_store_def
        server_emit_def server_world_def Let_def try_current split: sum.splits)
next
  case False
  then show ?thesis
    using assms(2,5) stored_is_current
    by (auto simp: reserve_agent_policy_slot_def retries_Suc decided_def sole_writer_simps [OF assms(1)] compare_and_store_def
        server_emit_def server_world_def Let_def try_current split: sum.splits)
qed

lemma sole_writer_releases:
  assumes "sole_writer copy env" "copy (sk_World s) = sy_Stored (sk_World s)"
    "0 < apst_ActiveDecisions (agp_Status (sy_Stored (sk_World s)))"
    "release_agent_policy_slot env q s = (err, s')"
  shows "err = None \<and> sk_World s' = store_policy (return_slot (sy_Stored (sk_World s))) (sk_World s)"
  using assms(2-4)
  by (auto simp: release_agent_policy_slot_def retries_Suc sole_writer_simps [OF assms(1)] compare_and_store_def is_current_def
      server_emit_def server_world_def Let_def)

end
