(* ===== verification/Agent_Properties.thy ===== *)
theory Agent_Properties
  imports Slot_Server Sample_World
begin

text \<open>
  What the rate limits of an agent policy hold against any number of concurrent requests, and where
  they do not; what a policy allows. The limits are proved on the machine of atomic reservations, which
  the interleaved loops refine.
\<close>

lemma div_of_shift: "0 \<le> r \<Longrightarrow> r < k \<Longrightarrow> (q * k + r) div k = q" for q r k :: int
  by (simp add: div_pos_pos_trivial)

lemma same_utc_day_trunc: "same_utc_day (t - t mod second) u \<longleftrightarrow> same_utc_day t u"
proof -
  define r where "r = t mod (24 * hour) - t mod second"
  have "t mod second = t mod (24 * hour) mod second" by (simp add: duration_units mod_mod_cancel)
  then have "0 \<le> r" "r < 24 * hour"
    using pos_mod_bound [of "24 * hour" t] pos_mod_sign [of second t] zmod_le_nonneg_dividend [of "t mod (24 * hour)" second]
    by (simp_all add: duration_units r_def)
  moreover have "t - t mod second = t div (24 * hour) * (24 * hour) + r"
    using div_mult_mod_eq [of t "24 * hour"] by (simp add: r_def)
  ultimately have "(t - t mod second) div (24 * hour) = t div (24 * hour)" using div_of_shift by metis
  then show ?thesis by (simp add: same_utc_day_def)
qed

section \<open>The limits\<close>

text \<open>The concurrent limit on the atomic machine.\<close>

lemma atomic_concurrency:
  assumes "atomic_slots clock p0 p h g"
    and rl: "aps_RateLimits (agp_Spec p0) = Some rl" "0 < arl_MaxConcurrent rl" "arl_MaxConcurrent rl < 2 ^ 31"
    and a0: "0 \<le> apst_ActiveDecisions (agp_Status p0)" "apst_ActiveDecisions (agp_Status p0) < 2 ^ 31"
  shows "int h \<le> arl_MaxConcurrent rl \<and> int h \<le> apst_ActiveDecisions (agp_Status p) \<and>
    apst_ActiveDecisions (agp_Status p) < 2 ^ 31"
  using assms(1)
proof (induction rule: atomic_slots.induct)
  case idle
  show ?case using rl a0 by simp
next
  case (reserve p h g now p')
  have free: "apst_ActiveDecisions (agp_Status p) < arl_MaxConcurrent rl"
    using reserve.hyps(1,3) slot_denied_None(2) [of now "roll_over now p" rl] rl atomic_spec by (fastforce simp: try_slot_Inr)
  moreover have "apst_ActiveDecisions (agp_Status p') = apst_ActiveDecisions (agp_Status p) + 1"
    using reserve.hyps(3) reserve.IH free rl(3) by (auto simp: try_slot_Inr go_int32_id)
  ultimately show ?case using reserve.IH rl(3) by simp
next
  case (release p h g)
  then have "apst_ActiveDecisions (agp_Status (return_slot p)) = apst_ActiveDecisions (agp_Status p) - 1"
    by (simp add: go_int32_id)
  then show ?case using release by simp
qed auto

lemma atomic_daily:
  assumes "atomic_slots (\<lambda>t. printable_instant t \<and> t div (24 * hour) = d) p0 p h g"
    and rl: "aps_RateLimits (agp_Spec p0) = Some rl" "0 < arl_MaxApprovalsPerDay rl" "arl_MaxApprovalsPerDay rl < 2 ^ 31"
    and d0: "0 \<le> apst_DecisionsToday (agp_Status p0)"
  shows "int (length g) \<le> arl_MaxApprovalsPerDay rl \<and> 0 \<le> apst_DecisionsToday (agp_Status p) \<and>
    (g = [] \<or> int (length g) \<le> apst_DecisionsToday (agp_Status p) \<and>
      (\<exists>t. parse_rfc3339 (apst_LastDecisionAt (agp_Status p)) = Some t \<and> t div (24 * hour) = d))"
  using assms(1)
proof (induction rule: atomic_slots.induct)
  case idle
  show ?case using rl d0 by simp
next
  case (reserve p h g now p')
  let ?r = "roll_over now p"
  have clock: "printable_instant now" "now div (24 * hour) = d" using reserve.hyps(2) by auto
  have spec: "agp_Spec ?r = agp_Spec p0" using atomic_spec [OF reserve.hyps(1)] by simp
  have less: "apst_DecisionsToday (agp_Status ?r) < arl_MaxApprovalsPerDay rl"
    using reserve.hyps(3) slot_denied_None(1) [of now ?r rl] rl(1,2) spec by (simp add: try_slot_Inr)
  have today: "0 \<le> apst_DecisionsToday (agp_Status ?r)" "int (length g) \<le> apst_DecisionsToday (agp_Status ?r)"
    using reserve.IH clock(2)
    by (auto simp: roll_over_def upd_policy_status_def same_utc_day_def split: option.splits)
  have p': "apst_DecisionsToday (agp_Status p') = apst_DecisionsToday (agp_Status ?r) + 1"
      "apst_LastDecisionAt (agp_Status p') = format_rfc3339 now"
    using reserve.hyps(3) today(1) less rl(3) by (auto simp: try_slot_Inr go_int32_id)
  have "(now - now mod second) div (24 * hour) = d" using same_utc_day_trunc [of now now] clock(2) by (simp add: same_utc_day_def)
  then show ?case using p' today less parse_format_rfc3339 [OF clock(1)] by auto
next
  case (release p h g)
  then show ?case by simp
qed auto

lemma cooldown_over:
  assumes "\<not> cooldown_running now cooldown (format_rfc3339 earlier)" "parse_duration cooldown = Some c"
    "0 < c" "printable_instant earlier"
  shows "c \<le> now - (earlier - earlier mod second)"
proof -
  have "cooldown \<noteq> []" using assms(2) by (auto simp: parse_duration_def)
  then have "c \<le> time_sub now (earlier - earlier mod second)"
    using assms(1,2) parse_format_rfc3339 [OF assms(4)] by (simp add: cooldown_running_def)
  then show ?thesis using assms(3) by (simp add: time_sub_def)
qed

lemma atomic_cooldown:
  assumes "atomic_slots printable_instant p0 p h g"
    and rl: "aps_RateLimits (agp_Spec p0) = Some rl" "parse_duration (arl_Cooldown rl) = Some c" "0 < c"
  shows "successively (\<lambda>later earlier. c \<le> later - (earlier - earlier mod second)) g \<and>
    (g = [] \<or> apst_LastDecisionAt (agp_Status p) = format_rfc3339 (hd g) \<and> printable_instant (hd g))"
  using assms(1)
proof (induction rule: atomic_slots.induct)
  case (reserve p h g now p')
  have idle: "\<not> cooldown_running now (arl_Cooldown rl) (apst_LastDecisionAt (agp_Status p))"
    using slot_denied_None(3) [of now "roll_over now p" rl] reserve.hyps(1,3) rl(1) atomic_spec by (fastforce simp: try_slot_Inr)
  have "c \<le> now - (hd g - hd g mod second)" if "g \<noteq> []"
    using idle that reserve.IH rl(2,3) cooldown_over by auto
  then show ?case using reserve by (cases g) (auto simp: try_slot_Inr)
qed auto


section \<open>A sample run\<close>

definition sample_limits :: agent_rate_limits where
  "sample_limits = \<lparr>arl_MaxApprovalsPerHour = 0, arl_MaxApprovalsPerDay = 2, arl_MaxConcurrent = 1, arl_Cooldown = ''1h''\<rparr>"

definition sample_agent_policy :: "agent_rate_limits \<Rightarrow> agent_policy" where
  "sample_agent_policy rl =
     \<lparr>agp_Meta = \<lparr>om_Name = ''agent'', om_Namespace = [], om_UID = [], om_Generation = 1, om_Labels = [], om_Annotations = [],
        om_OwnerReferences = [], om_Finalizers = [], om_DeletionTimestamp = None, om_CreationTimestamp = go_zero_time\<rparr>, agp_ResourceVersion = [],
      agp_Spec = \<lparr>aps_Identity = \<lparr>pi_ServiceAccountName = ''agent'', pi_ServiceAccountNamespace = ''ops''\<rparr>,
        aps_Mode = PolicyAuto,
        aps_Scope = \<lparr>as_Stages = [], as_ExcludeStages = [''prod''], as_ClusterSelector = None, as_ExcludeClusters = [],
          as_CountryProfiles = [\<lparr>crp_Countries = [''xx''], crp_RiskTier = ''high'', crp_MinConfidence = 0,
             crp_Mode = Some PolicyDisabled, crp_RequireHumanCosign = False\<rparr>]\<rparr>,
        aps_Confidence = \<lparr>acf_Default = 0x3FE0000000000000, acf_TierOverrides = [], acf_StageOverrides = []\<rparr>,
        aps_Escalation = \<lparr>aes_Action = ''hold'', aes_HoldDuration = []\<rparr>, aps_RateLimits = Some rl, aps_BlastRadius = None,
        aps_Audit = \<lparr>aau_RequireReasoning = True, aau_RequireMetricReferences = False, aau_RequireConfidenceScore = True,
          aau_MinReasoningLength = 2\<rparr>,
        aps_TimeWindows = [], aps_Priority = 100, aps_Suspended = False\<rparr>,
      agp_Status = \<lparr>apst_ObservedGeneration = 0, apst_Conditions = [], apst_ActiveDecisions = 0, apst_DecisionsToday = 0,
        apst_LastDecisionAt = []\<rparr>\<rparr>"

text \<open>Two requests read the same object; the first reserves, the second finds its copy outdated.\<close>

definition sample_slots :: "agent_rate_limits \<Rightarrow> int \<Rightarrow> slot_system" where
  "sample_slots rl now =
     (let p = stamp_policy (string_of_nat 0) (sample_agent_policy rl)
      in log_grant now (store_policy (take_slot now p)
           (set_request 0 (Holding 0) (set_request 1 (Trying now 0 p) (set_request 0 (Trying now 0 p) (initial_slots (sample_agent_policy rl) 2))))))"

lemma sample_try:
  "try_slot now (stamp_policy v (sample_agent_policy sample_limits)) = Inr (take_slot now (stamp_policy v (sample_agent_policy sample_limits)))"
  by (simp add: try_slot_def roll_over_def sample_agent_policy_def slot_denied_def sample_limits_def stamp_policy_def cooldown_running_def)

lemma sample_slots_run:
  assumes "clock now"
  shows "slot_run clock (sample_agent_policy sample_limits) 2 (sample_slots sample_limits now)"
proof -
  let ?policy = "sample_agent_policy sample_limits"
  let ?p = "stamp_policy (string_of_nat 0) ?policy"
  let ?start = "initial_slots ?policy 2"
  let ?first = "set_request 0 (Trying now 0 ?p) ?start"
  let ?second = "set_request 1 (Trying now 0 ?p) ?first"
  have "slot_run clock ?policy 2 ?first"
    by (rule slot_run.step [OF slot_run.start], rule slot_step.arrive) (simp_all add: initial_slots_def assms)
  then have "slot_run clock ?policy 2 ?second"
    by (rule slot_run.step, intro slot_step.arrive) (simp_all add: initial_slots_def set_request_def assms)
  then show ?thesis unfolding sample_slots_def Let_def
    by (rule slot_run.step, intro slot_step.grant [OF _ _ sample_try])
      (simp_all add: initial_slots_def set_request_def is_current_def)
qed

section \<open>Properties\<close>

text \<open>A call of \<^verbatim>\<open>reserveAgentPolicySlot\<close> or \<^verbatim>\<open>releaseAgentPolicySlot\<close>, while other requests write the same
  policy between its calls of the API and its reads return any copy ever stored, leaves the stored
  policy, the slots held and the times of the grants as a machine would in which a reservation is one
  atomic step on the current policy and a return is another: the request holds a slot exactly if it was told so.
  Without other writers the stored object decides a reservation, also one that came with an outdated copy,
  and a release returns the slot.
\<close>

definition atomically :: "(int \<Rightarrow> bool) \<Rightarrow> agent_policy \<Rightarrow> nat \<Rightarrow> slot_system \<Rightarrow> bool" where
  "atomically clock p0 n w \<longleftrightarrow>
     slot_run clock p0 n w \<and> atomic_slots clock p0 (stamp_policy [] (sy_Stored w)) (holders w) (sy_Grants w)"

lemma reservation_is_atomic:
  assumes "slot_server clock i env" "slot_run clock p0 n (sk_World s)" "i < n" "sy_Requests (sk_World s) ! i = NotArrived"
    "p \<in> set (sy_History (sk_World s))" "clock (kb_Now (pe_Kube env) (sk_World s))"
  shows "case reserve_agent_policy_slot env p s of
    (res, s') \<Rightarrow> atomically clock p0 n (reserved i (kb_Now (pe_Kube env) (sk_World s)) res (sk_World s'))"
proof -
  obtain res s' where r: "reserve_agent_policy_slot env p s = (res, s')" by fastforce
  note run = reserve_slot_run [OF assms r]
  show ?thesis using run atomic_view [OF run] by (simp add: r atomically_def)
qed

lemma release_is_atomic:
  assumes "slot_server clock i env" "slot_run clock p0 n (sk_World s)" "i < n" "sy_Requests (sk_World s) ! i = Holding 0"
  shows "case release_agent_policy_slot env q s of (err, s') \<Rightarrow> atomically clock p0 n (released i err (sk_World s'))"
proof -
  obtain err s' where r: "release_agent_policy_slot env q s = (err, s')" by fastforce
  note run = release_slot_run [OF assms r]
  show ?thesis using run atomic_view [OF run] by (simp add: r atomically_def)
qed

theorem reservations_are_atomic:
  assumes "slot_server clock i env" "slot_run clock p0 n (sk_World s)" "i < n" "p \<in> set (sy_History (sk_World s))"
    "clock (kb_Now (pe_Kube env) (sk_World s))"
  shows "(sy_Requests (sk_World s) ! i = NotArrived \<longrightarrow>
      (case reserve_agent_policy_slot env p s of
         (res, s') \<Rightarrow> atomically clock p0 n (reserved i (kb_Now (pe_Kube env) (sk_World s)) res (sk_World s')))) \<and>
    (sy_Requests (sk_World s) ! i = Holding 0 \<longrightarrow>
      (case release_agent_policy_slot env q s of (err, s') \<Rightarrow> atomically clock p0 n (released i err (sk_World s')))) \<and>
    (sole_writer sy_Stored env \<longrightarrow>
      (case reserve_agent_policy_slot env p s of
         (res, s') \<Rightarrow> (res, sk_World s') = decided (kb_Now (pe_Kube env) (sk_World s)) p (sk_World s)) \<and>
      (0 < apst_ActiveDecisions (agp_Status (sy_Stored (sk_World s))) \<longrightarrow>
        (case release_agent_policy_slot env q s of
           (err, s') \<Rightarrow> err = None \<and> sk_World s' = store_policy (return_slot (sy_Stored (sk_World s))) (sk_World s))))"
proof -
  have versions: "versions_descend agp_ResourceVersion (sy_History (sk_World s))"
    using slots_ok_run [OF assms(2)] by (simp add: slots_ok_def)
  show ?thesis
  proof (intro conjI impI)
    assume sole: "sole_writer sy_Stored env"
    obtain res s' where r: "reserve_agent_policy_slot env p s = (res, s')" by fastforce
    show "case reserve_agent_policy_slot env p s of
        (res, s') \<Rightarrow> (res, sk_World s') = decided (kb_Now (pe_Kube env) (sk_World s)) p (sk_World s)"
      unfolding r using sole_writer_reserves [OF sole refl versions assms(4) r] by simp
  next
    assume sole: "sole_writer sy_Stored env" and active: "0 < apst_ActiveDecisions (agp_Status (sy_Stored (sk_World s)))"
    obtain err s' where r: "release_agent_policy_slot env q s = (err, s')" by fastforce
    show "case release_agent_policy_slot env q s of
        (err, s') \<Rightarrow> err = None \<and> sk_World s' = store_policy (return_slot (sy_Stored (sk_World s))) (sk_World s)"
      unfolding r using sole_writer_releases [OF sole refl active r] by simp
  qed (use reservation_is_atomic [OF assms(1-3) _ assms(4,5)] release_is_atomic [OF assms(1-3)] in simp_all)
qed

lemma sample_holders: "holders (sample_slots rl now) = 1" "sy_Grants (sample_slots rl now) = [now]"
  by (simp_all add: sample_slots_def holders_def initial_slots_def store_policy_def log_grant_def set_request_def
      numeral_2_eq_2 Let_def)

definition slot_env :: "slot_system kube \<Rightarrow> (slot_system \<Rightarrow> agent_policy) \<Rightarrow> slot_system policy_env" where
  "slot_env kube copy =
     \<lparr>pe_Kube = kube, pe_Zone = (\<lambda>z. None), pe_ListPolicies = (\<lambda>w. (Inr [copy w], w)),
      pe_GetPolicy = (\<lambda>ns name w. (Inr (copy w), w)), pe_UpdatePolicyStatus = compare_and_store\<rparr>"

lemma slot_env_sole [simp]: "sole_writer copy (slot_env kube copy)" "pe_Kube (slot_env kube copy) = kube"
  by (simp_all add: sole_writer_def slot_env_def)

text \<open>Two requests of which none has arrived, and a reading of the current object that never fails.\<close>

definition slots_at_start :: "agent_rate_limits \<Rightarrow> slot_system server_tick" where
  "slots_at_start rl = \<lparr>sk_World = initial_slots (sample_agent_policy rl) 2, sk_Log = []\<rparr>"

definition start_copy :: "agent_rate_limits \<Rightarrow> agent_policy" where
  "start_copy rl = stamp_policy (string_of_nat 0) (sample_agent_policy rl)"

lemma slots_at_start_simps [simp]:
  "sy_History (sk_World (slots_at_start rl)) = [start_copy rl]"
  "sy_Requests (sk_World (slots_at_start rl)) = [NotArrived, NotArrived]"
  "sy_Grants (sk_World (slots_at_start rl)) = []"
  "sk_Log (slots_at_start rl) = []"
  by (simp_all add: slots_at_start_def initial_slots_def numeral_2_eq_2 start_copy_def)

lemma slots_at_start_run [simp]: "slot_run clock (sample_agent_policy rl) 2 (sk_World (slots_at_start rl))"
  by (simp add: slots_at_start_def slot_run.start)

lemma start_try: "try_slot now (start_copy sample_limits) = Inr (take_slot now (start_copy sample_limits))"
  unfolding start_copy_def by (rule sample_try)

theorem reservations_are_atomic_witness:
  "\<forall>kube. case reserve_agent_policy_slot (slot_env kube sy_Stored) (start_copy sample_limits) (slots_at_start sample_limits) of
     (res, s') \<Rightarrow> res = Inr (Inr (sy_Stored (sk_World s'))) \<and>
       atomically (\<lambda>t. True) (sample_agent_policy sample_limits) 2
         (reserved 0 (kb_Now kube (sk_World (slots_at_start sample_limits))) res (sk_World s'))"
proof
  fix kube
  let ?env = "slot_env kube sy_Stored"
  obtain res s' where r: "reserve_agent_policy_slot ?env (start_copy sample_limits) (slots_at_start sample_limits) = (res, s')" by fastforce
  note served = reservations_are_atomic [OF sole_writer_serves [OF slot_env_sole(1)], of "\<lambda>t. True" "sample_agent_policy sample_limits" 2
      "slots_at_start sample_limits" 0 "start_copy sample_limits" kube]
  have "(res, sk_World s') = decided now (start_copy sample_limits) (sk_World (slots_at_start sample_limits)) \<Longrightarrow>
      res = Inr (Inr (sy_Stored (sk_World s')))" for now
    by (simp add: decided_def start_try)
  then show "case reserve_agent_policy_slot ?env (start_copy sample_limits) (slots_at_start sample_limits) of
     (res, s') \<Rightarrow> res = Inr (Inr (sy_Stored (sk_World s'))) \<and>
       atomically (\<lambda>t. True) (sample_agent_policy sample_limits) 2
         (reserved 0 (kb_Now kube (sk_World (slots_at_start sample_limits))) res (sk_World s'))"
    using served by (simp add: r del: stored_updates)
qed

text \<open>With \<^verbatim>\<open>maxConcurrent\<close> set, no call of \<^verbatim>\<open>reserveAgentPolicySlot\<close> or \<^verbatim>\<open>releaseAgentPolicySlot\<close>,
  however many requests race with it between its calls of the API and however old the copies it reads, ends with more requests
  holding a slot than the limit, or with the stored counter below the number of slots held.
\<close>

definition within_limit :: "agent_rate_limits \<Rightarrow> slot_system \<Rightarrow> bool" where
  "within_limit rl w \<longleftrightarrow>
     int (holders w) \<le> arl_MaxConcurrent rl \<and> int (holders w) \<le> apst_ActiveDecisions (agp_Status (sy_Stored w))"

lemma run_within_limit:
  assumes "slot_run clock p0 n w" "aps_RateLimits (agp_Spec p0) = Some rl" "0 < arl_MaxConcurrent rl"
    "arl_MaxConcurrent rl < 2 ^ 31" "0 \<le> apst_ActiveDecisions (agp_Status p0)"
    "apst_ActiveDecisions (agp_Status p0) < 2 ^ 31"
  shows "within_limit rl w"
  using atomic_concurrency [OF atomic_view [OF assms(1)] assms(2-6)] by (simp add: within_limit_def)

theorem concurrent_limit_holds:
  assumes "slot_server clock i env" "slot_run clock p0 n (sk_World s)" "i < n"
    and "aps_RateLimits (agp_Spec p0) = Some rl" "0 < arl_MaxConcurrent rl" "arl_MaxConcurrent rl < 2 ^ 31"
    and "0 \<le> apst_ActiveDecisions (agp_Status p0)" "apst_ActiveDecisions (agp_Status p0) < 2 ^ 31"
  shows "(sy_Requests (sk_World s) ! i = NotArrived \<and> p \<in> set (sy_History (sk_World s)) \<and> clock (kb_Now (pe_Kube env) (sk_World s)) \<longrightarrow>
      (case reserve_agent_policy_slot env p s of
         (res, s') \<Rightarrow> within_limit rl (reserved i (kb_Now (pe_Kube env) (sk_World s)) res (sk_World s')))) \<and>
    (sy_Requests (sk_World s) ! i = Holding 0 \<longrightarrow>
      (case release_agent_policy_slot env q s of (err, s') \<Rightarrow> within_limit rl (released i err (sk_World s'))))"
proof -
  obtain res s1 err s2 where r: "reserve_agent_policy_slot env p s = (res, s1)" "release_agent_policy_slot env q s = (err, s2)" by fastforce
  show ?thesis
    using run_within_limit [OF reserve_slot_run [OF assms(1-3) _ _ _ r(1)] assms(4-8)]
      run_within_limit [OF release_slot_run [OF assms(1-3) _ r(2)] assms(4-8)]
    by (simp add: r)
qed

lemma sample_policy_limits:
  "aps_RateLimits (agp_Spec (sample_agent_policy rl)) = Some rl" "arl_MaxConcurrent sample_limits = 1"
  "apst_ActiveDecisions (agp_Status (sample_agent_policy rl)) = 0"
  by (simp_all add: sample_agent_policy_def sample_limits_def)

theorem concurrent_limit_holds_witness:
  "\<forall>kube. case reserve_agent_policy_slot (slot_env kube sy_Stored) (start_copy sample_limits) (slots_at_start sample_limits) of
     (res, s') \<Rightarrow> within_limit sample_limits
       (reserved 0 (kb_Now kube (sk_World (slots_at_start sample_limits))) res (sk_World s'))"
proof
  fix kube
  show "case reserve_agent_policy_slot (slot_env kube sy_Stored) (start_copy sample_limits) (slots_at_start sample_limits) of
     (res, s') \<Rightarrow> within_limit sample_limits
       (reserved 0 (kb_Now kube (sk_World (slots_at_start sample_limits))) res (sk_World s'))"
    using concurrent_limit_holds [OF sole_writer_serves [OF slot_env_sole(1)], of "\<lambda>t. True" "sample_agent_policy sample_limits" 2
        "slots_at_start sample_limits" 0 sample_limits "start_copy sample_limits" kube]
    by (simp add: sample_policy_limits)
qed

text \<open>C26. With \<^verbatim>\<open>maxApprovalsPerDay\<close> set, requests that read their clock on one day of UTC are granted at
  most that many slots on it, however they interleave.
\<close>

theorem daily_limit_holds:
  assumes "slot_run (\<lambda>t. printable_instant t \<and> t div (24 * hour) = d) p0 n s"
    "aps_RateLimits (agp_Spec p0) = Some rl" "0 < arl_MaxApprovalsPerDay rl" "arl_MaxApprovalsPerDay rl < 2 ^ 31"
    "0 \<le> apst_DecisionsToday (agp_Status p0)"
  shows "int (length (sy_Grants s)) \<le> arl_MaxApprovalsPerDay rl"
  using atomic_daily [OF atomic_view [OF assms(1)] assms(2-5)] by simp

theorem daily_limit_holds_witness:
  "int (length (sy_Grants (sample_slots sample_limits 0))) \<le> 2 \<and> sy_Grants (sample_slots sample_limits 0) = [0]"
  using daily_limit_holds [OF sample_slots_run [of "\<lambda>t. printable_instant t \<and> t div (24 * hour) = 0" 0], of sample_limits]
    sample_holders
  by (simp add: sample_agent_policy_def sample_limits_def printable_instant_def epoch_day_def duration_units days_before_year_def)

text \<open>With a cooldown set, any two grants in a row are at least the cooldown apart, counted from the
  second in which the earlier one was stamped.
\<close>

theorem grants_respect_cooldown:
  assumes "slot_run printable_instant p0 n s" "aps_RateLimits (agp_Spec p0) = Some rl"
    "parse_duration (arl_Cooldown rl) = Some c" "0 < c"
  shows "successively (\<lambda>later earlier. c \<le> later - (earlier - earlier mod second)) (sy_Grants s)"
  using atomic_cooldown [OF atomic_view [OF assms(1)] assms(2-4)] by simp

lemma sample_cooldown: "parse_duration (arl_Cooldown sample_limits) = Some hour"
  by code_simp

lemma printable_zero: "printable_instant 0"
  by (simp add: printable_instant_def epoch_day_def duration_units days_before_year_def)

theorem grants_respect_cooldown_witness:
  "successively (\<lambda>later earlier. hour \<le> later - (earlier - earlier mod second)) (sy_Grants (sample_slots sample_limits 0))
   \<and> length (sy_Grants (sample_slots sample_limits 0)) = 1"
  using grants_respect_cooldown [OF sample_slots_run [of printable_instant 0, OF printable_zero] _ sample_cooldown] sample_holders
  by (simp add: sample_agent_policy_def duration_units)

lemma slot_open_at_zero:
  assumes "aps_RateLimits (agp_Spec p) = Some rl" "0 < arl_MaxApprovalsPerDay rl" "arl_MaxConcurrent rl = 0" "arl_Cooldown rl = []"
    "parse_rfc3339 (apst_LastDecisionAt (agp_Status p)) = Some t" "\<not> same_utc_day t now"
  shows "\<exists>p'. try_slot now p = Inr p' \<and> apst_DecisionsToday (agp_Status p') = 1 \<and>
    apst_LastDecisionAt (agp_Status p') = format_rfc3339 now \<and> agp_Spec p' = agp_Spec p"
proof -
  have "apst_LastDecisionAt (agp_Status p) \<noteq> []"
    using assms(5) by (auto simp: parse_rfc3339_def getyear_def getnum_def)
  then have "apst_DecisionsToday (agp_Status (roll_over now p)) = 0"
    using assms(5,6) by (simp add: roll_over_def upd_policy_status_def)
  then show ?thesis
    using assms(1-4) by (simp add: try_slot_Inr slot_denied_def Let_def cooldown_running_def go_int32_def)
qed

text \<open>C38. A request that read its clock before midnight and writes after it reopens the new day: the day's
  limit refuses a request of that day, the late request resets the counter and is granted, and the
  next request of the day is granted as if it were the first.
\<close>

theorem late_request_reopens_the_day:
  assumes "aps_RateLimits (agp_Spec p) = Some rl" "0 < arl_MaxApprovalsPerDay rl" "arl_MaxConcurrent rl = 0" "arl_Cooldown rl = []"
    and "apst_LastDecisionAt (agp_Status p) = format_rfc3339 today" "printable_instant today"
    and "arl_MaxApprovalsPerDay rl \<le> apst_DecisionsToday (agp_Status p)"
    and "printable_instant late" "\<not> same_utc_day late today"
  shows "try_slot today p = Inl ''daily approval limit reached'' \<and>
    (\<exists>p' p''. try_slot late p = Inr p' \<and> try_slot today p' = Inr p'' \<and> apst_DecisionsToday (agp_Status p'') = 1)"
proof -
  have last: "parse_rfc3339 (apst_LastDecisionAt (agp_Status p)) = Some (today - today mod second)"
    using parse_format_rfc3339 [OF assms(6)] assms(5) by simp
  have "same_utc_day (today - today mod second) today" by (simp add: same_utc_day_trunc) (simp add: same_utc_day_def)
  then have full: "try_slot today p = Inl ''daily approval limit reached''"
    using assms(1,2,7) last by (simp add: try_slot_def roll_over_def slot_denied_def Let_def)
  have "\<not> same_utc_day (today - today mod second) late"
    using assms(9) by (simp add: same_utc_day_trunc) (simp add: same_utc_day_def)
  from slot_open_at_zero [OF assms(1-4) last this] obtain p' where p': "try_slot late p = Inr p'"
    "apst_LastDecisionAt (agp_Status p') = format_rfc3339 late" "agp_Spec p' = agp_Spec p" by blast
  have "\<not> same_utc_day (late - late mod second) today" using assms(9) by (simp add: same_utc_day_trunc)
  with slot_open_at_zero [of p' rl "late - late mod second" today] p'(2,3) assms(1-4) parse_format_rfc3339 [OF assms(8)]
  show ?thesis using full p'(1) by auto
qed

definition full_policy :: agent_policy where
  "full_policy = upd_policy_status (\<lambda>st. st\<lparr>apst_DecisionsToday := 2, apst_LastDecisionAt := format_rfc3339 (24 * hour)\<rparr>)
     (sample_agent_policy (sample_limits\<lparr>arl_MaxConcurrent := 0, arl_Cooldown := []\<rparr>))"

lemma printable_day: "printable_instant (24 * hour)" "printable_instant (24 * hour - 1)"
  by (simp_all add: printable_instant_def epoch_day_def duration_units days_before_year_def)

theorem late_request_reopens_the_day_witness:
  "\<exists>p' p''. try_slot (24 * hour - 1) full_policy = Inr p' \<and> try_slot (24 * hour) p' = Inr p'' \<and>
     apst_DecisionsToday (agp_Status p'') = 1"
  using late_request_reopens_the_day [of full_policy "sample_limits\<lparr>arl_MaxConcurrent := 0, arl_Cooldown := []\<rparr>" "24 * hour" "24 * hour - 1"]
    printable_day
  by (simp add: full_policy_def upd_policy_status_def sample_agent_policy_def sample_limits_def same_utc_day_def duration_units)

text \<open>C39. The release reads the policy through the cache of the manager. When that cache still answers with the
  copy from before the reservation, which shows no active decision, \<^verbatim>\<open>releaseAgentPolicySlot\<close> ends as done
  without a write, and the slot is gone for good: with one slot every later reservation on the
  stored object is refused, whatever the time and the server.
\<close>

theorem stale_release_leaks_the_slot:
  assumes "sole_writer (\<lambda>w. old) env" "old = sy_Stored (sk_World s)" "apst_ActiveDecisions (agp_Status old) = 0"
    "aps_RateLimits (agp_Spec old) = Some rl" "arl_MaxConcurrent rl = 1" "arl_MaxApprovalsPerDay rl = 0"
    "\<not> cooldown_running (kb_Now (pe_Kube env) (sk_World s)) (arl_Cooldown rl) (apst_LastDecisionAt (agp_Status old))"
  shows "\<exists>q s1 s2. reserve_agent_policy_slot env old s = (Inr (Inr q), s1) \<and> release_agent_policy_slot env q s1 = (None, s2) \<and>
    sk_World s2 = sk_World s1 \<and> sk_Log s2 = sk_Log s1 \<and>
    (\<forall>env' t. sk_World t = sk_World s2 \<longrightarrow>
      reserve_agent_policy_slot env' (sy_Stored (sk_World t)) t = (Inr (Inl ''concurrent approval limit reached''), t))"
proof -
  let ?now = "kb_Now (pe_Kube env) (sk_World s)"
  let ?p = "take_slot ?now (roll_over ?now old)"
  have granted: "try_slot ?now old = Inr ?p"
    using assms(3-7) by (simp add: try_slot_Inr slot_denied_def Let_def)
  have current: "is_current ?p (sk_World s)" using assms(2) by (simp add: is_current_def)
  let ?s1 = "server_world (store_policy ?p (sk_World s)) (server_emit (UpdatePolicyStatusCalled ?p) s)"
  have reserve: "reserve_agent_policy_slot env old s = (Inr (Inr (sy_Stored (store_policy ?p (sk_World s)))), ?s1)"
    using granted current
    by (simp add: reserve_agent_policy_slot_def retries_Suc sole_writer_simps [OF assms(1)] compare_and_store_def
        server_emit_def server_world_def Let_def)
  have release: "release_agent_policy_slot env q t = (None, t)" for q t
    using assms(3) by (simp add: release_agent_policy_slot_def retries_Suc sole_writer_simps [OF assms(1)] server_world_def)
  have "try_slot t (sy_Stored (store_policy ?p (sk_World s))) = Inl ''concurrent approval limit reached''" for t
    using assms(3-6) by (simp add: try_slot_def Let_def slot_denied_def go_int32_def)
  then have "reserve_agent_policy_slot env' (sy_Stored (sk_World t)) t = (Inr (Inl ''concurrent approval limit reached''), t)"
    if "sk_World t = sk_World ?s1" for env' t
    using that by (simp add: reserve_agent_policy_slot_def retries_Suc server_world_def)
  then show ?thesis using reserve release by blast
qed

definition one_slot :: agent_rate_limits where
  "one_slot = sample_limits\<lparr>arl_MaxApprovalsPerDay := 0\<rparr>"

theorem stale_release_leaks_the_slot_witness:
  "\<forall>kube. \<exists>q s1 s2. reserve_agent_policy_slot (slot_env kube (\<lambda>w. start_copy one_slot)) (start_copy one_slot) (slots_at_start one_slot) =
       (Inr (Inr q), s1) \<and>
     release_agent_policy_slot (slot_env kube (\<lambda>w. start_copy one_slot)) q s1 = (None, s2) \<and> sk_World s2 = sk_World s1"
  using stale_release_leaks_the_slot
      [of "start_copy one_slot" "slot_env kube (\<lambda>w. start_copy one_slot)" "slots_at_start one_slot" one_slot for kube]
  by (fastforce simp: start_copy_def one_slot_def sample_limits_def sample_agent_policy_def stamp_policy_def cooldown_running_def)

section \<open>Time windows\<close>

definition window_covers :: "(string \<Rightarrow> (int \<Rightarrow> int) option) \<Rightarrow> int \<Rightarrow> agent_time_window \<Rightarrow> bool" where
  "window_covers zone now w \<longleftrightarrow>
     (atw_DaysOfWeek w = [] \<or> weekday_of (local_clock zone w now) \<in> set (atw_DaysOfWeek w)) \<and>
     (case (parse_clock (atw_StartTime w), parse_clock (atw_EndTime w)) of
        (Some a, Some b) \<Rightarrow> a \<le> minute_of_day (local_clock zone w now) \<and> minute_of_day (local_clock zone w now) \<le> b
      | _ \<Rightarrow> False)"


lemma deny_windows_decide:
  "list_all atw_Deny ws \<Longrightarrow> is_within_time_windows zone now ws \<longleftrightarrow> \<not> list_ex (window_covers zone now) ws"
proof -
  assume deny: "list_all atw_Deny ws"
  then have "scan_windows zone now ws = (if list_ex (window_covers zone now) ws then Some False else None)"
    by (induction ws) (auto simp: window_covers_def in_window_def Let_def split: option.splits)
  moreover have "\<not> list_ex (\<lambda>w. \<not> atw_Deny w) ws" using deny by (auto simp: list_ex_iff list_all_iff)
  ultimately show ?thesis by (cases ws) (simp_all add: is_within_time_windows_def)
qed

text \<open>A window whose end lies before its start, as one across midnight, covers nothing.\<close>

lemma overnight_window_covers_nothing:
  "parse_clock (atw_StartTime w) = Some a \<Longrightarrow> parse_clock (atw_EndTime w) = Some b \<Longrightarrow> b < a \<Longrightarrow> \<not> window_covers zone now w"
  by (simp add: window_covers_def)






definition clock_window :: "string list \<Rightarrow> string \<Rightarrow> string \<Rightarrow> bool \<Rightarrow> agent_time_window" where
  "clock_window days from_t to_t deny = \<lparr>atw_Name = ''w'', atw_Timezone = ''UTC'', atw_DaysOfWeek = days, atw_StartTime = from_t,
     atw_EndTime = to_t, atw_Deny = deny\<rparr>"

section \<open>The verdict of a policy\<close>

definition listed :: "'a option \<Rightarrow> 'a list" where
  "listed r = (case r of None \<Rightarrow> [] | Some x \<Rightarrow> [x])"

lemma listed_simps [simp]: "listed None = []" "listed (Some x) = [x]"
  by (simp_all add: listed_def)















section \<open>The order of time windows\<close>

text \<open>The order of the windows matters: an allow window of another day closes the policy whatever
  windows follow it, even one that covers the present; placed after that one it is not reached.
\<close>

theorem allow_window_of_another_day_closes:
  assumes "\<not> atw_Deny w" "atw_DaysOfWeek w \<noteq> []" "weekday_of (local_clock zone w now) \<notin> set (atw_DaysOfWeek w)"
    "\<not> atw_Deny open_now" "window_covers zone now open_now"
  shows "\<not> is_within_time_windows zone now (w # open_now # ws) \<and> is_within_time_windows zone now (open_now # w # ws)"
  using assms by (auto simp: is_within_time_windows_def window_covers_def in_window_def Let_def split: option.splits)

text \<open>The epoch is a Thursday, at midnight.\<close>

theorem allow_window_of_another_day_closes_witness:
  "\<not> is_within_time_windows (\<lambda>z. None) 0 [clock_window [''fri''] ''00:00'' ''23:59'' False, clock_window [''thu''] ''0:00'' ''23:59'' False] \<and>
   is_within_time_windows (\<lambda>z. None) 0 [clock_window [''thu''] ''0:00'' ''23:59'' False, clock_window [''fri''] ''00:00'' ''23:59'' False]"
proof -
  have "window_covers (\<lambda>z. None) 0 (clock_window [''thu''] ''0:00'' ''23:59'' False)" by code_simp
  moreover have "weekday_of (local_clock (\<lambda>z. None) (clock_window [''fri''] ''00:00'' ''23:59'' False) 0) \<notin> {''fri''}" by code_simp
  ultimately show ?thesis
    using allow_window_of_another_day_closes
      [of "clock_window [''fri''] ''00:00'' ''23:59'' False" "\<lambda>z. None" 0 "clock_window [''thu''] ''0:00'' ''23:59'' False" "[]"]
    by (simp add: clock_window_def)
qed

end
