(* ===== verification/Approval_Token.thy ===== *)
theory Approval_Token
  imports Go_Sha256 Go_Time
begin

text \<open>
  The signed approval tokens (\<^verbatim>\<open>internal/webhook/token/token.go\<close>): base64url of the claims, a dot, and
  base64url of their HMAC-SHA256. The base64 and HMAC of Go's library are written out; the JSON text
  of the claims is a pair of parameters, one for each direction.
\<close>

section \<open>base64url without padding\<close>

definition b64_char :: "nat \<Rightarrow> char" where
  "b64_char n = char_of (if n < 26 then 65 + n else if n < 52 then 71 + n else if n < 62 then n - 4
     else if n = 62 then 45 else 95)"

definition b64_val :: "char \<Rightarrow> nat option" where
  "b64_val c =
     (let n = of_char c
      in if 65 \<le> n \<and> n \<le> 90 then Some (n - 65) else if 97 \<le> n \<and> n \<le> 122 then Some (n - 71)
         else if 48 \<le> n \<and> n \<le> 57 then Some (n + 4) else if n = 45 then Some 62 else if n = 95 then Some 63 else None)"

fun b64_groups :: "nat list \<Rightarrow> nat list" where
  "b64_groups [] = []"
| "b64_groups [a] = [a div 4, a mod 4 * 16]"
| "b64_groups [a, b] = [a div 4, a mod 4 * 16 + b div 16, b mod 16 * 4]"
| "b64_groups (a # b # c # r) = a div 4 # (a mod 4 * 16 + b div 16) # (b mod 16 * 4 + c div 64) # c mod 64 # b64_groups r"

definition b64_encode :: "string \<Rightarrow> string" where
  "b64_encode s = map b64_char (b64_groups (map of_char s))"

text \<open>A last group of one digit is an error; the unused low bits of a short group are not checked.\<close>

fun b64_bytes :: "nat list \<Rightarrow> nat list option" where
  "b64_bytes [] = Some []"
| "b64_bytes [w] = None"
| "b64_bytes [w, x] = Some [w * 4 + x div 16]"
| "b64_bytes [w, x, y] = Some [w * 4 + x div 16, x mod 16 * 16 + y div 4]"
| "b64_bytes (w # x # y # z # r) =
     map_option (\<lambda>bs. (w * 4 + x div 16) # (x mod 16 * 16 + y div 4) # (y mod 4 * 64 + z) # bs) (b64_bytes r)"

text \<open>Line breaks are skipped wherever they stand.\<close>

definition is_newline :: "char \<Rightarrow> bool" where
  "is_newline c \<longleftrightarrow> (of_char c :: nat) = 10 \<or> (of_char c :: nat) = 13"

definition b64_decode :: "string \<Rightarrow> string option" where
  "b64_decode s =
     Option.bind (those (map b64_val (filter (\<lambda>c. \<not> is_newline c) s))) (\<lambda>vs. map_option (map char_of) (b64_bytes vs))"

section \<open>HMAC-SHA256\<close>

definition sha256_bytes :: "string \<Rightarrow> string" where
  "sha256_bytes s = concat (map (\<lambda>h. map char_of (be_bytes 4 (unat h))) (sha256 s))"

definition hmac_pad :: "8 word \<Rightarrow> string \<Rightarrow> string" where
  "hmac_pad x key = map (\<lambda>c. char_of (unat (of_nat (of_char c) XOR x))) (key @ replicate (64 - length key) (char_of (0 :: nat)))"

definition compute_hmac :: "string \<Rightarrow> string \<Rightarrow> string" where
  "compute_hmac data secret =
     (let key = (if length secret > 64 then sha256_bytes secret else secret)
      in sha256_bytes (hmac_pad 0x5c key @ sha256_bytes (hmac_pad 0x36 key @ data)))"

section \<open>Claims\<close>

record token_claims =
  tc_SyncName :: string
  tc_Namespace :: string
  tc_PromotionRun :: string
  tc_Target :: string
  tc_Version :: string
  tc_UID :: string
  tc_Action :: string
  tc_JTI :: string
  tc_ApprovedBy :: string
  tc_Exp :: int

datatype token_error =
    EmptySecret | TokenNotMarshalled string | MissingSeparator | BadSignatureEncoding | InvalidSignature
  | BadPayloadEncoding | BadClaims string | TokenExpired | MissingJTI

record claims_codec =
  cc_Marshal :: "token_claims \<Rightarrow> string + string"
  cc_Unmarshal :: "string \<Rightarrow> string + token_claims"

definition sign_token :: "claims_codec \<Rightarrow> token_claims \<Rightarrow> string \<Rightarrow> token_error + string" where
  "sign_token codec c secret =
     (if secret = [] then Inl EmptySecret
      else if tc_JTI c = [] then Inl MissingJTI
      else case cc_Marshal codec c of
        Inl e \<Rightarrow> Inl (TokenNotMarshalled e)
      | Inr payload \<Rightarrow>
          (let enc = b64_encode payload
           in Inr (enc @ ''.'' @ b64_encode (compute_hmac enc secret))))"

text \<open>\<^verbatim>\<open>strings.LastIndex\<close> of a dot: the text before it and the text after it.\<close>

definition split_last_dot :: "string \<Rightarrow> (string \<times> string) option" where
  "split_last_dot t =
     (if CHR ''.'' \<notin> set t then None
      else Some (rev (tl (dropWhile (\<lambda>c. c \<noteq> CHR ''.'') (rev t))), rev (takeWhile (\<lambda>c. c \<noteq> CHR ''.'') (rev t))))"

definition verify_token :: "claims_codec \<Rightarrow> int \<Rightarrow> string \<Rightarrow> string \<Rightarrow> token_error + token_claims" where
  "verify_token codec now token secret =
     (if secret = [] then Inl EmptySecret
      else case split_last_dot token of
        None \<Rightarrow> Inl MissingSeparator
      | Some (enc, sig) \<Rightarrow>
          (case b64_decode sig of
             None \<Rightarrow> Inl BadSignatureEncoding
           | Some got \<Rightarrow>
               (if got \<noteq> compute_hmac enc secret then Inl InvalidSignature
                else case b64_decode enc of
                  None \<Rightarrow> Inl BadPayloadEncoding
                | Some payload \<Rightarrow>
                    (case cc_Unmarshal codec payload of
                       Inl e \<Rightarrow> Inl (BadClaims e)
                     | Inr c \<Rightarrow>
                         (if now div second > tc_Exp c then Inl TokenExpired
                          else if tc_JTI c = [] then Inl MissingJTI
                          else Inr c)))))"

section \<open>What is encoded decodes back\<close>

lemma b64_groups_small: "list_all (\<lambda>b. b < 256) bs \<Longrightarrow> list_all (\<lambda>v. v < 64) (b64_groups bs)"
  by (induction bs rule: b64_groups.induct) auto

lemma b64_bytes_groups: "list_all (\<lambda>b. b < 256) bs \<Longrightarrow> b64_bytes (b64_groups bs) = Some bs"
proof (induction bs rule: b64_groups.induct)
  case (4 a b c r)
  have "a div 4 * 4 + (a mod 4 * 16 + b div 16) div 16 = a" "(a mod 4 * 16 + b div 16) mod 16 * 16 + (b mod 16 * 4 + c div 64) div 4 = b"
    "(b mod 16 * 4 + c div 64) mod 4 * 64 + c mod 64 = c"
    using 4(2) less_mult_imp_div_less [of b 16 16] less_mult_imp_div_less [of c 4 64] by (simp_all add: div_mult_mod_eq)
  then show ?case using 4 by simp
next
  case (2 a)
  then show ?case by simp
next
  case (3 a b)
  then show ?case using less_mult_imp_div_less [of b 16 16] by (simp add: div_mult_mod_eq)
qed simp

lemma b64_val_char: "n < 64 \<Longrightarrow> b64_val (b64_char n) = Some n"
  by (auto simp: b64_val_def b64_char_def of_char_of Let_def)

lemma b64_char_plain: "n < 64 \<Longrightarrow> \<not> is_newline (b64_char n) \<and> b64_char n \<noteq> CHR ''.''"
proof -
  assume n: "n < 64"
  have code: "(of_char (b64_char n) :: nat) = (if n < 26 then 65 + n else if n < 52 then 71 + n else if n < 62 then n - 4
      else if n = 62 then 45 else 95)"
    using n by (auto simp: b64_char_def of_char_of)
  have "(of_char (b64_char n) :: nat) \<noteq> of_char (CHR ''.'')" using code n by (auto split: if_splits)
  then show ?thesis using code n by (auto simp: is_newline_def split: if_splits)
qed

lemma those_b64: "list_all (\<lambda>v. v < 64) vs \<Longrightarrow> those (map b64_val (map b64_char vs)) = Some vs"
  by (induction vs) (simp_all add: b64_val_char)

lemma b64_decode_encode: "b64_decode (b64_encode s) = Some s"
proof -
  let ?vs = "b64_groups (map of_char s)"
  have bytes: "list_all (\<lambda>b. b < 256) (map of_char s :: nat list)" by (simp add: list_all_iff)
  have "filter (\<lambda>c. \<not> is_newline c) (b64_encode s) = b64_encode s"
    using b64_groups_small [OF bytes] b64_char_plain by (auto simp: b64_encode_def filter_id_conv list_all_iff)
  then show ?thesis
    using those_b64 [OF b64_groups_small [OF bytes]] b64_bytes_groups [OF bytes]
    by (simp add: b64_decode_def b64_encode_def)
qed

lemma b64_encode_no_dot: "CHR ''.'' \<notin> set (b64_encode s)"
  using b64_groups_small [of "map of_char s"] b64_char_plain by (force simp: b64_encode_def list_all_iff)

lemma split_last_dot_join:
  "CHR ''.'' \<notin> set b \<Longrightarrow> split_last_dot (a @ CHR ''.'' # b) = Some (a, b)"
  by (simp add: split_last_dot_def takeWhile_append dropWhile_append)

lemma split_last_dot_sound:
  "split_last_dot t = Some (a, b) \<Longrightarrow> t = a @ CHR ''.'' # b \<and> CHR ''.'' \<notin> set b"
proof -
  assume s: "split_last_dot t = Some (a, b)"
  then have "CHR ''.'' \<in> set (rev t)" by (auto simp: split_last_dot_def split: if_splits)
  then obtain u v where uv: "rev t = u @ CHR ''.'' # v" "CHR ''.'' \<notin> set u" by (meson split_list_first)
  then have "t = rev v @ CHR ''.'' # rev u" by (metis rev_append rev_rev_ident rev.simps(2) append_assoc append_Cons append_Nil)
  then show ?thesis using split_last_dot_join [of "rev u" "rev v"] uv(2) s by auto
qed

end
