(* ===== verification/Approval_Server.thy ===== *)
theory Approval_Server
  imports Approval_Token Agent_Policy
begin

text \<open>
  The approval server (\<^verbatim>\<open>internal/webhook/server.go\<close>): a signed token approves or rejects one target
  of one run, after it was recorded on the target. A handler takes the request, the world and the log
  of the writes and returns the status code and the body. The retry of \<^verbatim>\<open>client-go\<close> is a number of
  attempts, repeated while the error is a conflict; pauses between them are time in the world.
\<close>

section \<open>Requests and replies\<close>

record http_request =
  rq_Method :: string
  rq_Path :: string
  rq_PathValue :: string
  rq_RawQuery :: string
  rq_Authorization :: string

datatype approval_reply = ErrorText string | JsonMap smap | DecisionPage string string

type_synonym ('w, 'b) reply_handler = "'w server_tick \<Rightarrow> (int \<times> 'b) \<times> 'w server_tick"

definition StatusOK :: int where "StatusOK = 200"
definition StatusUnauthorized :: int where "StatusUnauthorized = 401"
definition StatusForbidden :: int where "StatusForbidden = 403"
definition StatusNotFound :: int where "StatusNotFound = 404"
definition StatusMethodNotAllowed :: int where "StatusMethodNotAllowed = 405"
definition StatusConflict :: int where "StatusConflict = 409"
definition StatusRequestEntityTooLarge :: int where "StatusRequestEntityTooLarge = 413"
definition StatusUnprocessableEntity :: int where "StatusUnprocessableEntity = 422"
definition StatusTooManyRequests :: int where "StatusTooManyRequests = 429"
definition StatusInternalServerError :: int where "StatusInternalServerError = 500"
definition StatusServiceUnavailable :: int where "StatusServiceUnavailable = 503"

lemmas http_status = StatusOK_def StatusBadRequest_def StatusUnauthorized_def StatusForbidden_def StatusNotFound_def
  StatusMethodNotAllowed_def StatusConflict_def StatusRequestEntityTooLarge_def StatusUnprocessableEntity_def
  StatusTooManyRequests_def StatusInternalServerError_def StatusServiceUnavailable_def

definition MethodGet :: string where "MethodGet = ''GET''"
definition MethodPost :: string where "MethodPost = ''POST''"

record 'w approval_env =
  av_Kube :: "'w kube"
  av_GetRunIn :: "string \<Rightarrow> string \<Rightarrow> 'w \<Rightarrow> (api_error + promotion_run) \<times> 'w"
  av_UpdateTarget :: "target \<Rightarrow> 'w \<Rightarrow> (api_error + target) \<times> 'w"
  av_PatchTargetStatus :: "target \<Rightarrow> target \<Rightarrow> 'w \<Rightarrow> (api_error + target) \<times> 'w"
  av_CreateApproval :: "approval \<Rightarrow> 'w \<Rightarrow> (api_error + approval) \<times> 'w"
  av_Codec :: claims_codec
  av_TokenSecret :: string
  av_OperatorNamespace :: string
  av_RetrySteps :: nat

section \<open>The token of a request\<close>

definition bearer_prefix :: string where "bearer_prefix = ''Bearer ''"
definition maxApprovalTokenLen :: nat where "maxApprovalTokenLen = 4 * 1024"

datatype request_token_error =
    TokenInQuery | MissingBearer | TokenTooLarge | TokenRefused token_error | WrongAction string | ClaimsMissingJTI

definition request_token :: "'w approval_env \<Rightarrow> int \<Rightarrow> http_request \<Rightarrow> string \<Rightarrow> request_token_error + token_claims" where
  "request_token env now r expectedAction =
     (if rq_RawQuery r \<noteq> [] then Inl TokenInQuery
      else if \<not> has_prefix (rq_Authorization r) bearer_prefix then Inl MissingBearer
      else let t = trim_space (trim_prefix (rq_Authorization r) bearer_prefix)
           in if length t > maxApprovalTokenLen then Inl TokenTooLarge
              else case verify_token (av_Codec env) now t (av_TokenSecret env) of
                Inl e \<Rightarrow> Inl (TokenRefused e)
              | Inr claims \<Rightarrow>
                  (if tc_Action claims \<noteq> expectedAction then Inl (WrongAction (tc_Action claims))
                   else if tc_JTI claims = [] then Inl ClaimsMissingJTI
                   else Inr claims))"

section \<open>Claiming the token\<close>

definition approvalDecisionTokenJTIAnnotation :: string where
  "approvalDecisionTokenJTIAnnotation = ''kapro.io/approval-token-jti''"
definition approvalDecisionTokenActionAnnotation :: string where
  "approvalDecisionTokenActionAnnotation = ''kapro.io/approval-token-action''"

datatype claim_error = ClaimApi api_error | ClaimMismatch | ClaimRedeemed
datatype claim_verdict = ClaimRefused claim_error | ClaimKept | ClaimWrite target

definition token_annotations :: "token_claims \<Rightarrow> smap \<Rightarrow> smap" where
  "token_annotations c annotations =
     smap_set approvalDecisionTokenActionAnnotation (tc_Action c)
       (smap_set approvalDecisionTokenJTIAnnotation (tc_JTI c) annotations)"

definition try_claim :: "token_claims \<Rightarrow> target \<Rightarrow> claim_verdict" where
  "try_claim c t =
     (let annotations = om_Annotations (tg_Meta t)
      in if ts_PromotionRunRef (tg_Spec t) \<noteq> tc_PromotionRun c then ClaimRefused ClaimMismatch
         else if smap_get annotations approvalDecisionTokenJTIAnnotation \<noteq> []
         then (if smap_get annotations approvalDecisionTokenJTIAnnotation = tc_JTI c \<and>
                  smap_get annotations approvalDecisionTokenActionAnnotation = tc_Action c
               then ClaimKept else ClaimRefused ClaimRedeemed)
         else ClaimWrite (t\<lparr>tg_Meta := (tg_Meta t)\<lparr>om_Annotations := token_annotations c annotations\<rparr>\<rparr>))"

fun claim_attempts ::
  "'w approval_env \<Rightarrow> string \<Rightarrow> token_claims \<Rightarrow> nat \<Rightarrow> api_error option \<Rightarrow> 'w server_tick \<Rightarrow>
    (claim_error + target) \<times> 'w server_tick" where
  "claim_attempts env key c 0 last_error s =
     (Inl (ClaimApi (case last_error of None \<Rightarrow> ApiOther [] | Some e \<Rightarrow> e)), s)"
| "claim_attempts env key c (Suc n) last_error s =
     (case kb_GetTarget (av_Kube env) key (sk_World s) of
        (Inl e, w) \<Rightarrow>
          (if is_conflict e then claim_attempts env key c n (Some e) (server_world w s)
           else (Inl (ClaimApi e), server_world w s))
      | (Inr t, w) \<Rightarrow>
          (case try_claim c t of
             ClaimRefused e \<Rightarrow> (Inl e, server_world w s)
           | ClaimKept \<Rightarrow> (Inr t, server_world w s)
           | ClaimWrite t' \<Rightarrow>
               (let s1 = server_emit (UpdateTargetCalled t') (server_world w s)
                in case av_UpdateTarget env t' (sk_World s1) of
                     (Inl e, w') \<Rightarrow>
                       (if is_conflict e then claim_attempts env key c n (Some e) (server_world w' s1)
                        else (Inl (ClaimApi e), server_world w' s1))
                   | (Inr stored, w') \<Rightarrow> (Inr stored, server_world w' s1))))"

definition claim_decision_token ::
  "'w approval_env \<Rightarrow> string \<Rightarrow> token_claims \<Rightarrow> 'w server_tick \<Rightarrow> (claim_error + target) \<times> 'w server_tick" where
  "claim_decision_token env key c s = claim_attempts env key c (av_RetrySteps env) None s"

definition claim_error_reply :: "claim_error \<Rightarrow> int \<times> approval_reply" where
  "claim_error_reply e =
     (case e of
        ClaimMismatch \<Rightarrow> (StatusConflict, ErrorText ''target/promotionrun mismatch'')
      | ClaimRedeemed \<Rightarrow> (StatusConflict, JsonMap [(''status'', ''token_already_redeemed'')])
      | ClaimApi a \<Rightarrow>
          (if is_not_found a then (StatusNotFound, ErrorText ''target entry not found'')
           else (StatusInternalServerError, ErrorText ''internal error'')))"

section \<open>Handlers\<close>

text \<open>\<^verbatim>\<open>trimPrefix\<close> of the server cuts by length, whatever the text.\<close>

definition cut_prefix :: "string \<Rightarrow> string \<Rightarrow> string" where
  "cut_prefix s p = (if length s > length p then drop (length p) s else [])"

definition request_target_key :: "string \<Rightarrow> http_request \<Rightarrow> string" where
  "request_target_key route r = (if rq_PathValue r = [] then cut_prefix (rq_Path r) route else rq_PathValue r)"

definition build_approval :: "token_claims \<Rightarrow> approval" where
  "build_approval c =
     \<lparr>ap_Meta = \<lparr>om_Name = tc_PromotionRun c @ ''-'' @ tc_SyncName c, om_Namespace = [], om_UID = [], om_Generation = 0, om_Labels = [],
        om_Annotations = [], om_OwnerReferences = [], om_Finalizers = [], om_DeletionTimestamp = None,
        om_CreationTimestamp = go_zero_time\<rparr>,
      ap_PromotionRun = tc_PromotionRun c, ap_Target = tc_Target c, ap_Ref = tc_SyncName c,
      ap_ApprovedBy = (if tc_ApprovedBy c = [] then ''webhook'' else tc_ApprovedBy c), ap_Bypass = False,
      ap_Comment = ''approved via webhook for version '' @ tc_Version c\<rparr>"

text \<open>The part that approve and reject share: the token, the run it is bound to, and the claim.\<close>

definition with_claimed_target ::
  "'w approval_env \<Rightarrow> string \<Rightarrow> string \<Rightarrow> http_request \<Rightarrow>
    (token_claims \<Rightarrow> target \<Rightarrow> ('w, approval_reply) reply_handler) \<Rightarrow> ('w, approval_reply) reply_handler" where
  "with_claimed_target env action key r act s =
     (case request_token env (kb_Now (av_Kube env) (sk_World s)) r action of
        Inl e \<Rightarrow> ((StatusUnauthorized, ErrorText ''invalid token''), s)
      | Inr claims \<Rightarrow>
          (case av_GetRunIn env (tc_Namespace claims) (tc_PromotionRun claims) (sk_World s) of
             (Inl e, w) \<Rightarrow> ((StatusNotFound, ErrorText ''promotionrun not found''), server_world w s)
           | (Inr run, w) \<Rightarrow>
               (let s1 = server_world w s
                in if om_UID (run_Meta run) @ ''/'' @ key \<noteq> tc_UID claims
                   then ((StatusConflict, ErrorText ''token bound to different promotionrun instance''), s1)
                   else case claim_decision_token env key claims s1 of
                     (Inl e, s2) \<Rightarrow> (claim_error_reply e, s2)
                   | (Inr t, s2) \<Rightarrow> act claims t s2)))"

definition create_approval :: "'w approval_env \<Rightarrow> string \<Rightarrow> token_claims \<Rightarrow> target \<Rightarrow> ('w, approval_reply) reply_handler" where
  "create_approval env key claims t s =
     (let a = build_approval claims; s1 = server_emit (CreateApprovalCalled a) s
      in case av_CreateApproval env a (sk_World s1) of
           (Inl e, w) \<Rightarrow>
             ((if is_already_exists e then (StatusConflict, JsonMap [(''status'', ''already_approved'')])
               else (StatusInternalServerError, ErrorText ''internal error'')), server_world w s1)
         | (Inr stored, w) \<Rightarrow>
             ((StatusOK, JsonMap [(''status'', ''approved''), (''targetKey'', key), (''target'', tc_Target claims),
                 (''version'', tc_Version claims)]), server_world w s1))"

definition handle_approve :: "'w approval_env \<Rightarrow> http_request \<Rightarrow> ('w, approval_reply) reply_handler" where
  "handle_approve env r s =
     (if rq_Method r = MethodGet then ((StatusOK, DecisionPage ''approve'' (cut_prefix (rq_Path r) ''/approve/'')), s)
      else if rq_Method r \<noteq> MethodPost then ((StatusMethodNotAllowed, ErrorText ''method not allowed''), s)
      else let key = request_target_key ''/approve/'' r
           in with_claimed_target env ''approve'' key r (create_approval env key) s)"

definition rejected_target :: "token_claims \<Rightarrow> target \<Rightarrow> target" where
  "rejected_target c t =
     t\<lparr>tg_Status := (tg_Status t)\<lparr>tst_Exec := (tst_Exec (tg_Status t))\<lparr>te_Rejected := True,
         te_RejectedBy := (if tc_ApprovedBy c = [] then ''webhook'' else tc_ApprovedBy c)\<rparr>\<rparr>\<rparr>"

definition reject_target :: "'w approval_env \<Rightarrow> string \<Rightarrow> token_claims \<Rightarrow> target \<Rightarrow> ('w, approval_reply) reply_handler" where
  "reject_target env key claims t s =
     (if te_Rejected (tst_Exec (tg_Status t))
      then ((StatusConflict, JsonMap [(''status'', ''already-rejected''), (''targetKey'', key), (''target'', tc_Target claims)]), s)
      else let t' = rejected_target claims t; s1 = server_emit (PatchTargetStatusCalled t') s
           in case av_PatchTargetStatus env t t' (sk_World s1) of
                (Inl e, w) \<Rightarrow> ((StatusInternalServerError, ErrorText ''internal error''), server_world w s1)
              | (Inr stored, w) \<Rightarrow>
                  ((StatusOK, JsonMap [(''status'', ''rejected''), (''targetKey'', key), (''target'', tc_Target claims)]), server_world w s1))"

definition handle_reject :: "'w approval_env \<Rightarrow> http_request \<Rightarrow> ('w, approval_reply) reply_handler" where
  "handle_reject env r s =
     (if rq_Method r = MethodGet then ((StatusOK, DecisionPage ''reject'' (cut_prefix (rq_Path r) ''/reject/'')), s)
      else if rq_Method r \<noteq> MethodPost then ((StatusMethodNotAllowed, ErrorText ''method not allowed''), s)
      else let key = request_target_key ''/reject/'' r
           in with_claimed_target env ''reject'' key r (reject_target env key) s)"

definition handle_status :: "'w approval_env \<Rightarrow> http_request \<Rightarrow> ('w, approval_reply) reply_handler" where
  "handle_status env r s =
     (let not_found = (StatusNotFound, ErrorText ''target not found'');
          ns = (if av_OperatorNamespace env = [] then ''kapro-system'' else av_OperatorNamespace env)
      in if rq_Method r \<noteq> MethodGet then ((StatusMethodNotAllowed, ErrorText ''method not allowed''), s)
         else case kb_GetTarget (av_Kube env) (request_target_key ''/status/'' r) (sk_World s) of
           (Inl e, w) \<Rightarrow> (not_found, server_world w s)
         | (Inr t, w) \<Rightarrow>
             (let run = ts_PromotionRunRef (tg_Spec t)
              in if run = [] then (not_found, server_world w s)
                 else case av_GetRunIn env ns run w of
                   (Inl e, w') \<Rightarrow> (not_found, server_world w' s)
                 | (Inr _, w') \<Rightarrow>
                     ((StatusOK, JsonMap [(''phase'', target_phase_string (tg_Phase t)), (''version'', ts_Version (tg_Spec t)),
                        (''target'', ts_Target (tg_Spec t)), (''promotionrun'', run)]), server_world w' s)))"

end
