(* ===== verification/Approval_Properties.thy ===== *)
theory Approval_Properties
  imports Approval_Server Sample_World
begin

text \<open>
  What the signed tokens guarantee: a token round trip, that an approval or a rejection needs a token
  signed for it and bound to the run and the target, and that one target accepts one token only,
  whatever the other requests and the other clients of the target write meanwhile.
\<close>

section \<open>Tokens\<close>

lemma sign_verify:
  assumes "sign_token codec c secret = Inr t" "cc_Marshal codec c = Inr payload" "cc_Unmarshal codec payload = Inr c"
    "now div second \<le> tc_Exp c"
  shows "verify_token codec now t secret = Inr c"
proof -
  have t: "t = b64_encode payload @ CHR ''.'' # b64_encode (compute_hmac (b64_encode payload) secret)"
    and "secret \<noteq> []" "tc_JTI c \<noteq> []"
    using assms(1,2) by (auto simp: sign_token_def Let_def split: if_splits)
  then show ?thesis
    using assms(3,4) split_last_dot_join [OF b64_encode_no_dot]
    by (simp add: verify_token_def t b64_decode_encode)
qed

text \<open>C33. A signed token verifies, before it expires, to the claims it was signed for, whatever bytes
  their text holds, provided the JSON decoder reads back what the encoder wrote; with any other
  secret a token verifies only if that secret gives the same code.
\<close>

theorem signed_token_verifies:
  assumes "sign_token codec c secret = Inr t" "cc_Marshal codec c = Inr payload" "cc_Unmarshal codec payload = Inr c"
    "now div second \<le> tc_Exp c"
  shows "verify_token codec now t secret = Inr c \<and>
    (verify_token codec now t other = Inr c' \<longrightarrow>
       compute_hmac (b64_encode payload) other = compute_hmac (b64_encode payload) secret)"
proof -
  have "t = b64_encode payload @ CHR ''.'' # b64_encode (compute_hmac (b64_encode payload) secret)"
    using assms(1,2) by (auto simp: sign_token_def Let_def split: if_splits)
  then have "split_last_dot t = Some (b64_encode payload, b64_encode (compute_hmac (b64_encode payload) secret))"
    using split_last_dot_join [OF b64_encode_no_dot] by simp
  then have "verify_token codec now t other = Inr c' \<Longrightarrow>
      compute_hmac (b64_encode payload) other = compute_hmac (b64_encode payload) secret"
    by (auto simp: verify_token_def b64_decode_encode split: if_splits)
  then show ?thesis using sign_verify [OF assms] by blast
qed

definition sample_claims :: "string \<Rightarrow> token_claims" where
  "sample_claims action = \<lparr>tc_SyncName = ''run-c1'', tc_Namespace = ''kapro-system'', tc_PromotionRun = ''run'', tc_Target = ''c1'',
     tc_Version = ''v1'', tc_UID = ''u1/t1'', tc_Action = action, tc_JTI = ''j1'', tc_ApprovedBy = ''ann'', tc_Exp = 100\<rparr>"

definition sample_codec :: claims_codec where
  "sample_codec = \<lparr>cc_Marshal = (\<lambda>c. Inr (tc_Action c)), cc_Unmarshal = (\<lambda>s. Inr (sample_claims s))\<rparr>"

theorem signed_token_verifies_witness:
  "\<exists>t. sign_token sample_codec (sample_claims ''approve'') ''k'' = Inr t \<and>
     verify_token sample_codec 0 t ''k'' = Inr (sample_claims ''approve'')"
proof -
  have marshal: "cc_Marshal sample_codec (sample_claims ''approve'') = Inr ''approve''"
    "cc_Unmarshal sample_codec ''approve'' = Inr (sample_claims ''approve'')"
    "0 div second \<le> tc_Exp (sample_claims ''approve'')"
    by (simp_all add: sample_codec_def sample_claims_def)
  obtain t where t: "sign_token sample_codec (sample_claims ''approve'') ''k'' = Inr t"
    using marshal(1) by (auto simp: sign_token_def Let_def sample_claims_def)
  show ?thesis using signed_token_verifies [OF t marshal] t by blast
qed

lemma verified_token:
  assumes "verify_token codec now t secret = Inr c"
  shows "secret \<noteq> [] \<and> now div second \<le> tc_Exp c \<and> tc_JTI c \<noteq> [] \<and>
    (\<exists>enc sig payload. t = enc @ CHR ''.'' # sig \<and> b64_decode sig = Some (compute_hmac enc secret) \<and>
       b64_decode enc = Some payload \<and> cc_Unmarshal codec payload = Inr c)"
  using assms by (fastforce simp: verify_token_def dest: split_last_dot_sound split: if_splits option.splits sum.splits)

section \<open>Who may decide\<close>

lemma request_token_sound:
  "request_token env now r action = Inr c \<Longrightarrow>
     rq_RawQuery r = [] \<and> tc_Action c = action \<and> tc_JTI c \<noteq> [] \<and>
     (\<exists>t. has_prefix (rq_Authorization r) bearer_prefix \<and> t = trim_space (trim_prefix (rq_Authorization r) bearer_prefix) \<and>
        verify_token (av_Codec env) now t (av_TokenSecret env) = Inr c)"
  by (auto simp: request_token_def Let_def split: if_splits sum.splits)

text \<open>A claim only writes the target with the two annotations of the token.\<close>

lemma claim_attempts_log:
  "claim_attempts env key c n last_error s = (r, s') \<Longrightarrow>
     \<exists>ts. sk_Log s' = sk_Log s @ map UpdateTargetCalled ts \<and>
       (\<forall>t \<in> set ts. smap_get (om_Annotations (tg_Meta t)) approvalDecisionTokenJTIAnnotation = tc_JTI c \<and>
          smap_get (om_Annotations (tg_Meta t)) approvalDecisionTokenActionAnnotation = tc_Action c \<and>
          ts_PromotionRunRef (tg_Spec t) = tc_PromotionRun c)"
proof (induction env key c n last_error s arbitrary: r s' rule: claim_attempts.induct)
  case (2 env key c n last_error s)
  have annotated: "smap_get (om_Annotations (tg_Meta t')) approvalDecisionTokenJTIAnnotation = tc_JTI c \<and>
      smap_get (om_Annotations (tg_Meta t')) approvalDecisionTokenActionAnnotation = tc_Action c \<and>
      ts_PromotionRunRef (tg_Spec t') = tc_PromotionRun c" if "try_claim c t = ClaimWrite t'" for t t'
    using that
    by (auto simp: try_claim_def Let_def token_annotations_def smap_get_set approvalDecisionTokenJTIAnnotation_def
        approvalDecisionTokenActionAnnotation_def split: if_splits)
  show ?case using 2
    by (fastforce simp: server_emit_def server_world_def Let_def dest!: annotated
        split: prod.splits sum.splits if_splits claim_verdict.splits
        intro: exI [of _ "[]"] exI [of _ "x # xs" for x xs])
qed (auto intro: exI [of _ "[]"])


text \<open>What the request shows in the world it arrives in: the clock and the run are those of that world.\<close>

definition signed_for :: "'w approval_env \<Rightarrow> string \<Rightarrow> token_claims \<Rightarrow> bool" where
  "signed_for env token c \<longleftrightarrow>
     av_TokenSecret env \<noteq> [] \<and>
     (\<exists>enc code payload. token = enc @ CHR ''.'' # code \<and> b64_decode code = Some (compute_hmac enc (av_TokenSecret env)) \<and>
        b64_decode enc = Some payload \<and> cc_Unmarshal (av_Codec env) payload = Inr c)"

definition authorised_by :: "'w approval_env \<Rightarrow> 'w \<Rightarrow> http_request \<Rightarrow> string \<Rightarrow> string \<Rightarrow> token_claims \<Rightarrow> bool" where
  "authorised_by env w r action key c \<longleftrightarrow>
     rq_RawQuery r = [] \<and> has_prefix (rq_Authorization r) bearer_prefix \<and>
     signed_for env (trim_space (trim_prefix (rq_Authorization r) bearer_prefix)) c \<and>
     tc_Action c = action \<and> tc_JTI c \<noteq> [] \<and> kb_Now (av_Kube env) w div second \<le> tc_Exp c \<and>
     (\<exists>run. fst (av_GetRunIn env (tc_Namespace c) (tc_PromotionRun c) w) = Inr run \<and>
        om_UID (run_Meta run) @ ''/'' @ key = tc_UID c)"

lemma with_claimed_target_cases:
  assumes "with_claimed_target env action key r act s = (reply, s')" "sk_Log s = []"
  obtains (refused) ts where "sk_Log s' = map UpdateTargetCalled ts"
  | (claimed) c t s1 ts where "authorised_by env (sk_World s) r action key c" "act c t s1 = (reply, s')" "sk_Log s1 = map UpdateTargetCalled ts"
proof (cases "request_token env (kb_Now (av_Kube env) (sk_World s)) r action")
  case (Inl e)
  then show ?thesis using assms refused [of "[]"] by (auto simp: with_claimed_target_def)
next
  case tok: (Inr c)
  note sound = request_token_sound [OF tok]
  show ?thesis
  proof (cases "av_GetRunIn env (tc_Namespace c) (tc_PromotionRun c) (sk_World s)")
    case (Pair res w)
    show ?thesis
    proof (cases res)
      case (Inl e)
      then show ?thesis using assms tok Pair refused [of "[]"] by (auto simp: with_claimed_target_def server_world_def)
    next
      case run: (Inr run)
      show ?thesis
      proof (cases "om_UID (run_Meta run) @ ''/'' @ key = tc_UID c")
        case False
        then show ?thesis using assms tok Pair run refused [of "[]"] by (auto simp: with_claimed_target_def server_world_def)
      next
        case True
        then have auth: "authorised_by env (sk_World s) r action key c"
          using sound Pair run by (auto simp: authorised_by_def signed_for_def dest!: verified_token)
        obtain res' s2 where claim: "claim_decision_token env key c (server_world w s) = (res', s2)" by fastforce
        obtain ts where log: "sk_Log s2 = map UpdateTargetCalled ts"
          using claim_attempts_log [OF claim [unfolded claim_decision_token_def]] assms(2) by (auto simp: server_world_def)
        show ?thesis
        proof (cases res')
          case (Inl e)
          then show ?thesis using assms tok Pair run True claim log refused [of ts] by (auto simp: with_claimed_target_def)
        next
          case (Inr t)
          then have "act c t s2 = (reply, s')" using assms tok Pair run True claim by (simp add: with_claimed_target_def)
          then show ?thesis using claimed [OF auth _ log] by blast
        qed
      qed
    qed
  qed
qed

text \<open>C5. A request creates an approval only when it posts a token, in the header and not in the query,
  whose code is the HMAC of its claims under the server's secret, whose action is approving, that has not
  expired by the clock at the arrival of the request, and that is bound to the UID of the run stored then and to
  the target of the request; the approval is the one the token describes, approver included.
\<close>

theorem approval_needs_a_bound_token:
  assumes "handle_approve env r s = (reply, s')" "sk_Log s = []" "CreateApprovalCalled a \<in> set (sk_Log s')"
  shows "\<exists>c. rq_Method r = MethodPost \<and> authorised_by env (sk_World s) r ''approve'' (request_target_key ''/approve/'' r) c \<and> a = build_approval c"
proof -
  have post: "rq_Method r = MethodPost"
    using assms by (auto simp: handle_approve_def split: if_splits)
  have run: "with_claimed_target env ''approve'' (request_target_key ''/approve/'' r) r (create_approval env (request_target_key ''/approve/'' r)) s = (reply, s')"
    using assms(1) post by (simp add: handle_approve_def MethodPost_def MethodGet_def Let_def)
  show ?thesis using run assms(2)
  proof (cases rule: with_claimed_target_cases)
    case (refused ts)
    then show ?thesis using assms(3) by auto
  next
    case (claimed c t s1 ts)
    then have "a = build_approval c"
      using assms(3) by (auto simp: create_approval_def server_emit_def server_world_def Let_def split: prod.splits sum.splits)
    then show ?thesis using post claimed(1) by blast
  qed
qed

lemma rejection_needs_a_bound_token:
  assumes "handle_reject env r s = (reply, s')" "sk_Log s = []" "PatchTargetStatusCalled t' \<in> set (sk_Log s')"
  shows "\<exists>c t. rq_Method r = MethodPost \<and> authorised_by env (sk_World s) r ''reject'' (request_target_key ''/reject/'' r) c \<and>
    \<not> te_Rejected (tst_Exec (tg_Status t)) \<and> t' = rejected_target c t"
proof -
  have post: "rq_Method r = MethodPost"
    using assms by (auto simp: handle_reject_def split: if_splits)
  have run: "with_claimed_target env ''reject'' (request_target_key ''/reject/'' r) r (reject_target env (request_target_key ''/reject/'' r)) s = (reply, s')"
    using assms(1) post by (simp add: handle_reject_def MethodPost_def MethodGet_def Let_def)
  show ?thesis using run assms(2)
  proof (cases rule: with_claimed_target_cases)
    case (refused ts)
    then show ?thesis using assms(3) by auto
  next
    case (claimed c t s1 ts)
    then have "t' = rejected_target c t \<and> \<not> te_Rejected (tst_Exec (tg_Status t))"
      using assms(3) by (auto simp: reject_target_def server_emit_def server_world_def Let_def split: prod.splits sum.splits if_splits)
    then show ?thesis using post claimed(1) by blast
  qed
qed

section \<open>One token per target\<close>

text \<open>
  The stored versions of one target, the current one first, and the number of the version the request
  at hand has read last (the resource version of its copy).
\<close>

record claim_world =
  cw_History :: "target list"
  cw_Read :: nat

definition redeemed :: "target \<Rightarrow> string \<times> string" where
  "redeemed t = (smap_get (om_Annotations (tg_Meta t)) approvalDecisionTokenJTIAnnotation,
     smap_get (om_Annotations (tg_Meta t)) approvalDecisionTokenActionAnnotation)"

text \<open>
  Nobody changes the two annotations once they are set: the other clients patch other fields, and that the
  requests themselves obey is part of the property.
\<close>

definition keeps_claim :: "target \<Rightarrow> target \<Rightarrow> bool" where
  "keeps_claim t t' \<longleftrightarrow> fst (redeemed t) = [] \<or> redeemed t' = redeemed t"

inductive claim_history :: "target list \<Rightarrow> bool" where
  created: "claim_history [t]"
| stored: "claim_history h \<Longrightarrow> keeps_claim (hd h) t \<Longrightarrow> claim_history (t # h)"

definition evolves :: "claim_world \<Rightarrow> claim_world \<Rightarrow> bool" where
  "evolves w w' \<longleftrightarrow>
     (claim_history (cw_History w) \<longrightarrow> claim_history (cw_History w')) \<and> (\<exists>ts. cw_History w' = ts @ cw_History w)"

text \<open>
  A read returns some stored version, the current one or an outdated one of a cache. An update is
  accepted on the condition that the version read last is still the current one; an error writes
  nothing. Around each call the others write what they like within the rule.
\<close>

definition claim_server :: "claim_world approval_env \<Rightarrow> bool" where
  "claim_server env \<longleftrightarrow>
     (\<forall>key w r w'. kb_GetTarget (av_Kube env) key w = (r, w') \<longrightarrow>
        evolves w w' \<and>
        (\<forall>t. r = Inr t \<longrightarrow> (\<exists>later earlier. cw_History w' = later @ t # earlier \<and> cw_Read w' = length (t # earlier)))) \<and>
     (\<forall>t w r w'. av_UpdateTarget env t w = (r, w') \<longrightarrow>
        (\<exists>w1. evolves w w1 \<and> cw_Read w1 = cw_Read w \<and>
           (case r of
              Inr stored \<Rightarrow> cw_Read w1 = length (cw_History w1) \<and> w' = w1\<lparr>cw_History := t # cw_History w1\<rparr>
            | Inl e \<Rightarrow> w' = w1)))"

lemma evolves_refl [simp]: "evolves w w"
  by (simp add: evolves_def)

lemma evolves_trans: "evolves w w' \<Longrightarrow> evolves w' w'' \<Longrightarrow> evolves w w''"
  by (auto simp: evolves_def)

text \<open>Every version ever stored is unclaimed or agrees with the current one.\<close>

lemma claim_is_kept: "claim_history h \<Longrightarrow> t \<in> set h \<Longrightarrow> fst (redeemed t) \<noteq> [] \<Longrightarrow> redeemed (hd h) = redeemed t"
  by (induction rule: claim_history.induct) (auto simp: keeps_claim_def)

lemma try_claim_write:
  "try_claim c t = ClaimWrite t' \<Longrightarrow> fst (redeemed t) = [] \<and> redeemed t' = (tc_JTI c, tc_Action c)"
  by (auto simp: try_claim_def Let_def redeemed_def token_annotations_def smap_get_set approvalDecisionTokenJTIAnnotation_def
      approvalDecisionTokenActionAnnotation_def split: if_splits)

lemma try_claim_spec: "try_claim c t = ClaimWrite t' \<Longrightarrow> tg_Spec t' = tg_Spec t"
  by (auto simp: try_claim_def Let_def split: if_splits)

lemma try_claim_kept: "try_claim c t = ClaimKept \<Longrightarrow> redeemed t = (tc_JTI c, tc_Action c)"
  by (auto simp: try_claim_def Let_def redeemed_def split: if_splits)

text \<open>One attempt: what was accepted was written over the very version that was read.\<close>

lemma accepted_claim:
  assumes "claim_server env" "kb_GetTarget (av_Kube env) key w = (Inr t, w1)" "try_claim c t = ClaimWrite t'"
    "av_UpdateTarget env t' w1 = (r, w2)"
  shows "evolves w w2 \<and> (\<forall>stored. r = Inr stored \<longrightarrow> redeemed (hd (cw_History w2)) = (tc_JTI c, tc_Action c))"
proof -
  from assms(1,2) obtain later earlier where w1: "evolves w w1" "cw_History w1 = later @ t # earlier" "cw_Read w1 = length (t # earlier)"
    unfolding claim_server_def by blast
  from assms(1,4) obtain w' where w': "evolves w1 w'" "cw_Read w' = cw_Read w1"
      "case r of Inr stored \<Rightarrow> cw_Read w' = length (cw_History w') \<and> w2 = w'\<lparr>cw_History := t' # cw_History w'\<rparr> | Inl e \<Rightarrow> w2 = w'"
    unfolding claim_server_def by blast
  show ?thesis
  proof (cases r)
    case (Inl e)
    then show ?thesis using evolves_trans [OF w1(1) w'(1)] w'(3) by simp
  next
    case (Inr stored)
    obtain more where "cw_History w' = more @ later @ t # earlier" using w'(1) w1(2) by (auto simp: evolves_def)
    then have "cw_History w' = t # earlier" using w'(2,3) w1(3) Inr by simp
    then have "evolves w' w2"
      using w'(3) Inr try_claim_write [OF assms(3)] by (auto simp: evolves_def keeps_claim_def intro: claim_history.stored)
    then have "evolves w w2" by (rule evolves_trans [OF evolves_trans [OF w1(1) w'(1)]])
    then show ?thesis using w'(3) Inr try_claim_write [OF assms(3)] by simp
  qed
qed

lemma claim_attempts_claim:
  assumes server: "claim_server env" and token: "tc_JTI c \<noteq> []"
  shows "claim_attempts env key c n last_error s = (r, s') \<Longrightarrow> claim_history (cw_History (sk_World s)) \<Longrightarrow>
    evolves (sk_World s) (sk_World s') \<and>
    (\<forall>t. r = Inr t \<longrightarrow> redeemed (hd (cw_History (sk_World s'))) = (tc_JTI c, tc_Action c))"
proof (induction n arbitrary: last_error s r s')
  case 0
  then show ?case by auto
next
  case (Suc n)
  obtain g w where get: "kb_GetTarget (av_Kube env) key (sk_World s) = (g, w)" by fastforce
  have w: "evolves (sk_World s) w" "\<And>t. g = Inr t \<Longrightarrow> t \<in> set (cw_History w)"
    using server get unfolding claim_server_def by fastforce+
  have hist: "claim_history (cw_History w)" using w(1) Suc.prems(2) by (simp add: evolves_def)
  show ?case
  proof (cases g)
    case (Inl e)
    then show ?thesis
      using Suc.prems(1) get w(1) hist Suc.IH [of "Some e" "server_world w s" r s'] evolves_trans
      by (auto simp: server_world_def split: if_splits)
  next
    case t: (Inr t)
    show ?thesis
    proof (cases "try_claim c t")
      case (ClaimRefused e)
      then show ?thesis using Suc.prems(1) get t w(1) by (auto simp: server_world_def)
    next
      case ClaimKept
      then show ?thesis
        using Suc.prems(1) get t w claim_is_kept [OF hist w(2) [OF t]] try_claim_kept [OF ClaimKept] token
        by (auto simp: server_world_def)
    next
      case wr: (ClaimWrite t')
      obtain u w2 where upd: "av_UpdateTarget env t' w = (u, w2)" by fastforce
      note acc = accepted_claim [OF server get [unfolded t] wr upd]
      let ?s2 = "server_world w2 (server_emit (UpdateTargetCalled t') (server_world w s))"
      have hist2: "claim_history (cw_History w2)" using acc Suc.prems(2) by (simp add: evolves_def)
      show ?thesis
      proof (cases "\<exists>e. u = Inl e \<and> is_conflict e")
        case True
        then obtain e where "u = Inl e" "is_conflict e" by blast
        then have "claim_attempts env key c n (Some e) ?s2 = (r, s')"
          using Suc.prems(1) get t wr upd by (simp add: server_world_def server_emit_def Let_def)
        from Suc.IH [OF this] hist2 acc evolves_trans show ?thesis by (auto simp: server_world_def)
      next
        case False
        then show ?thesis
          using Suc.prems(1) get t wr upd acc by (cases u) (auto simp: server_world_def server_emit_def Let_def)
      qed
    qed
  qed
qed

text \<open>C14. One target accepts one token: whatever other requests and clients write between the calls of
  \<^verbatim>\<open>claimDecisionToken\<close> and however outdated the copies it reads, two requests whose claims both succeed on
  the same target carry the same token for the same action. A second token, or the same one for the
  other action, never gets through. And a claim that runs, whatever comes of it, leaves an earlier token in place.
\<close>

theorem one_token_per_target:
  assumes "claim_server env1" "claim_server env2" "tc_JTI c1 \<noteq> []" "tc_JTI c2 \<noteq> []"
    and "claim_history (cw_History (sk_World s1))" "claim_history (cw_History (sk_World s2))"
    and "claim_decision_token env1 key1 c1 s1 = (r1, s1')" "claim_decision_token env2 key2 c2 s2 = (r2, s2')"
    and "evolves (sk_World s1') (sk_World s2')"
  shows "(\<forall>t1 t2. r1 = Inr t1 \<and> r2 = Inr t2 \<longrightarrow> tc_JTI c1 = tc_JTI c2 \<and> tc_Action c1 = tc_Action c2) \<and>
    evolves (sk_World s1) (sk_World s1')"
proof -
  note first = claim_attempts_claim [OF assms(1,3) assms(7) [unfolded claim_decision_token_def] assms(5)]
  note second = claim_attempts_claim [OF assms(2,4) assms(8) [unfolded claim_decision_token_def] assms(6)]
  have same: "tc_JTI c1 = tc_JTI c2 \<and> tc_Action c1 = tc_Action c2" if "r1 = Inr t1" "r2 = Inr t2" for t1 t2
  proof -
    let ?h = "cw_History (sk_World s1')"
    have h: "claim_history ?h" using first assms(5) by (simp add: evolves_def)
    then have "?h \<noteq> []" by (cases rule: claim_history.cases) auto
    moreover obtain ts where ts: "cw_History (sk_World s2') = ts @ ?h" using assms(9) by (auto simp: evolves_def)
    ultimately have "hd ?h \<in> set (cw_History (sk_World s2'))" by simp
    moreover have "claim_history (cw_History (sk_World s2'))" using second assms(6) by (simp add: evolves_def)
    ultimately show ?thesis using claim_is_kept first second that assms(3) by fastforce
  qed
  then show ?thesis using first by blast
qed

definition sample_store :: "token_claims \<Rightarrow> target" where
  "sample_store c = (case try_claim c sample_target of ClaimWrite t \<Rightarrow> t | _ \<Rightarrow> sample_target)"

text \<open>A server without other clients.\<close>

definition claim_kube :: "claim_world kube \<Rightarrow> claim_world kube" where
  "claim_kube kube = kube\<lparr>kb_GetTarget := \<lambda>key w.
     if cw_History w = [] then (Inl (ApiNotFound ''not found''), w)
     else (Inr (hd (cw_History w)), w\<lparr>cw_Read := length (cw_History w)\<rparr>)\<rparr>"

definition claim_env :: "claim_world kube \<Rightarrow> claim_world approval_env" where
  "claim_env kube =
     \<lparr>av_Kube = claim_kube kube, av_GetRunIn = (\<lambda>ns n w. (Inl (ApiNotFound ''not found''), w)),
      av_UpdateTarget = (\<lambda>t w. if cw_Read w = length (cw_History w) then (Inr t, w\<lparr>cw_History := t # cw_History w\<rparr>)
         else (Inl (ApiConflict ''conflict''), w)),
      av_PatchTargetStatus = (\<lambda>old new w. (Inr new, w)), av_CreateApproval = (\<lambda>a w. (Inr a, w)),
      av_Codec = sample_codec, av_TokenSecret = ''k'', av_OperatorNamespace = [], av_RetrySteps = 4\<rparr>"

lemma claim_env_serves: "claim_server (claim_env kube)"
proof -
  have "\<exists>later earlier. cw_History w = later @ hd (cw_History w) # earlier \<and> length (cw_History w) = Suc (length earlier)"
    if "cw_History w \<noteq> []" for w
    using that by (intro exI [of _ "[]"] exI [of _ "tl (cw_History w)"]) simp
  then show ?thesis
    by (auto simp: claim_server_def claim_env_def claim_kube_def evolves_def split: if_splits)
qed

text \<open>
  A token for approving claims the target, the same one again finds it claimed, and one for rejecting
  with the same identifier is refused.
\<close>

theorem one_token_per_target_witness:
  "\<forall>kube. \<exists>r1 s1 r2 s2.
     claim_decision_token (claim_env kube) ''t1'' ((sample_claims ''approve'')\<lparr>tc_PromotionRun := ''r1''\<rparr>)
       \<lparr>sk_World = \<lparr>cw_History = [sample_target], cw_Read = 0\<rparr>, sk_Log = []\<rparr> = (Inr r1, s1) \<and>
     claim_decision_token (claim_env kube) ''t1'' ((sample_claims ''approve'')\<lparr>tc_PromotionRun := ''r1''\<rparr>) s1 = (Inr r2, s2) \<and>
     length (sk_Log s2) = 1 \<and>
     (\<forall>t. fst (claim_decision_token (claim_env kube) ''t1'' ((sample_claims ''reject'')\<lparr>tc_PromotionRun := ''r1''\<rparr>) s2) \<noteq> Inr t)"
proof
  fix kube
  let ?a = "(sample_claims ''approve'')\<lparr>tc_PromotionRun := ''r1''\<rparr>"
  let ?r = "(sample_claims ''reject'')\<lparr>tc_PromotionRun := ''r1''\<rparr>"
  let ?s = "\<lparr>sk_World = \<lparr>cw_History = [sample_target], cw_Read = 0\<rparr>, sk_Log = []\<rparr>"
  let ?t = "sample_store ?a"
  let ?s1 = "\<lparr>sk_World = \<lparr>cw_History = [?t, sample_target], cw_Read = 1\<rparr>, sk_Log = [UpdateTargetCalled ?t]\<rparr>"
  let ?s2 = "\<lparr>sk_World = \<lparr>cw_History = [?t, sample_target], cw_Read = 2\<rparr>, sk_Log = [UpdateTargetCalled ?t]\<rparr>"
  have free: "try_claim ?a sample_target = ClaimWrite ?t"
    by (simp add: sample_store_def try_claim_def Let_def sample_target_def named_def)
  have "redeemed ?t = (''j1'', ''approve'')" using try_claim_write [OF free] by (simp add: sample_claims_def)
  moreover have "tg_Spec ?t = tg_Spec sample_target" by (rule try_claim_spec [OF free])
  ultimately have kept: "try_claim ?a ?t = ClaimKept"
    by (simp add: try_claim_def Let_def redeemed_def) (simp add: sample_claims_def sample_target_def)
  have steps: "av_RetrySteps (claim_env kube) = Suc 3" by (simp add: claim_env_def)
  have first: "claim_decision_token (claim_env kube) ''t1'' ?a ?s = (Inr ?t, ?s1)"
    unfolding claim_decision_token_def steps
    by (subst claim_attempts.simps) (simp add: claim_env_def claim_kube_def free server_world_def server_emit_def)
  have again: "claim_decision_token (claim_env kube) ''t1'' ?a ?s1 = (Inr ?t, ?s2)"
    unfolding claim_decision_token_def steps
    by (subst claim_attempts.simps) (simp add: claim_env_def claim_kube_def kept server_world_def server_emit_def)
  obtain r3 s3 where third: "claim_decision_token (claim_env kube) ''t1'' ?r ?s2 = (r3, s3)" by fastforce
  have hist: "claim_history [sample_target]" "claim_history [?t, sample_target]"
    using try_claim_write [OF free] by (auto intro!: claim_history.intros simp: keeps_claim_def)
  have "evolves (sk_World ?s2) (sk_World s3)"
    using claim_attempts_claim [OF claim_env_serves _ third [unfolded claim_decision_token_def]] hist(2)
    by (simp add: sample_claims_def)
  then have later: "evolves (sk_World ?s1) (sk_World s3)" by (auto simp: evolves_def)
  have "\<forall>t1 t2. (Inr ?t :: claim_error + target) = Inr t1 \<and> r3 = Inr t2 \<longrightarrow> tc_Action ?a = tc_Action ?r"
    using one_token_per_target [OF claim_env_serves claim_env_serves _ _ _ _ first third later] hist
    by (simp add: sample_claims_def)
  then have "\<forall>t. fst (claim_decision_token (claim_env kube) ''t1'' ?r ?s2) \<noteq> Inr t"
    using third by (simp add: sample_claims_def)
  then show "\<exists>r1 s1 r2 s2. claim_decision_token (claim_env kube) ''t1'' ?a ?s = (Inr r1, s1) \<and>
      claim_decision_token (claim_env kube) ''t1'' ?a s1 = (Inr r2, s2) \<and> length (sk_Log s2) = 1 \<and>
      (\<forall>t. fst (claim_decision_token (claim_env kube) ''t1'' ?r s2) \<noteq> Inr t)"
    using first again by (intro exI [of _ ?t] exI [of _ ?s1] exI [of _ ?s2] conjI) simp_all
qed

section \<open>A posted token\<close>

lemma length_b64: "length (b64_encode s) \<le> 2 * length s"
proof -
  have "length (b64_groups bs) \<le> 2 * length bs" for bs by (induction bs rule: b64_groups.induct) auto
  from this [of "map of_char s"] show ?thesis by (simp add: b64_encode_def)
qed

lemma length_sha256_bytes [simp]: "length (sha256_bytes s) = 32"
proof -
  have "length (sha256 s) = 8" by (simp add: sha256_def length_sha256_blocks sha256_init_def)
  moreover have "length (concat (map (\<lambda>h. map char_of (be_bytes 4 (unat h))) hs)) = 4 * length hs" for hs :: "32 word list"
    by (induction hs) (simp_all add: be_bytes_def)
  ultimately show ?thesis by (simp add: sha256_bytes_def)
qed

lemma b64_char_no_space: "n < 64 \<Longrightarrow> r \<in> set space_runes \<Longrightarrow> r \<noteq> [] \<Longrightarrow> b64_char n \<noteq> hd r \<and> b64_char n \<noteq> last r"
proof -
  assume n: "n < 64" and r: "r \<in> set space_runes" "r \<noteq> []"
  have "list_all (\<lambda>r. r = [] \<or> b64_val (hd r) = None \<and> b64_val (last r) = None) space_runes" by code_simp
  then show ?thesis using r b64_val_char [OF n] by (force simp: list_all_iff)
qed


lemma trim_space_token:
  assumes "a \<noteq> []" "b \<noteq> []"
  shows "trim_space (b64_encode a @ CHR ''.'' # b64_encode b) = b64_encode a @ CHR ''.'' # b64_encode b"
proof -
  have edge: "\<exists>n < 64. hd (b64_encode x) = b64_char n" "\<exists>n < 64. last (b64_encode x) = b64_char n" "b64_encode x \<noteq> []"
    if "x \<noteq> []" for x
  proof -
    have small: "list_all (\<lambda>v. v < 64) (b64_groups (map of_char x))"
      by (rule b64_groups_small) (simp add: list_all_iff)
    have ne: "b64_groups (map of_char x) \<noteq> []"
      using that by (cases "map of_char x :: nat list" rule: b64_groups.cases) auto
    show "b64_encode x \<noteq> []" using ne by (simp add: b64_encode_def)
    show "\<exists>n < 64. hd (b64_encode x) = b64_char n" "\<exists>n < 64. last (b64_encode x) = b64_char n"
      using small ne by (auto simp: b64_encode_def hd_map last_map list_all_iff)
  qed
  let ?t = "b64_encode a @ CHR ''.'' # b64_encode b"
  have front: "\<not> has_prefix ?t r" if "r \<in> set space_runes" "r \<noteq> []" for r
  proof
    assume "has_prefix ?t r"
    then have "hd ?t = hd r" using that(2) by (auto simp: has_prefix_iff)
    then have "hd (b64_encode a) = hd r" using edge(3) [OF assms(1)] by simp
    then show False using edge(1) [OF assms(1)] b64_char_no_space that by metis
  qed
  have at_end: "\<not> has_prefix (rev ?t) (rev r)" if "r \<in> set space_runes" "r \<noteq> []" for r
  proof
    assume "has_prefix (rev ?t) (rev r)"
    then have "hd (rev ?t) = hd (rev r)" using that(2) by (auto simp: has_prefix_iff)
    then have "last (b64_encode b) = last r" using edge(3) [OF assms(2)] by (simp add: hd_rev)
    then show False using edge(2) [OF assms(2)] b64_char_no_space that by metis
  qed
  have "trim_runes space_runes ?t = ?t" using front by (rule trim_runes_no_space)
  moreover have "trim_runes (map rev space_runes) (rev ?t) = rev ?t"
    using at_end by (intro trim_runes_no_space) auto
  ultimately show ?thesis by (simp add: trim_space_def)
qed

definition posted_claims :: token_claims where
  "posted_claims = (sample_claims ''approve'')\<lparr>tc_PromotionRun := ''r1'', tc_UID := ''/t1'', tc_Exp := 2000000000\<rparr>"

definition sample_approval_env :: "sample approval_env" where
  "sample_approval_env =
     \<lparr>av_Kube = sample_kube, av_GetRunIn = (\<lambda>ns n w. (fetch (sw_Runs w) n, w)), av_UpdateTarget = (\<lambda>t w. (Inr t, w)),
      av_PatchTargetStatus = (\<lambda>old new w. (Inr new, w)), av_CreateApproval = (\<lambda>a w. (Inr a, w)),
      av_Codec = \<lparr>cc_Marshal = (\<lambda>c. Inr ''approve''), cc_Unmarshal = (\<lambda>s. Inr posted_claims)\<rparr>,
      av_TokenSecret = ''k'', av_OperatorNamespace = [], av_RetrySteps = 4\<rparr>"

definition sample_post :: "string \<Rightarrow> http_request" where
  "sample_post t = \<lparr>rq_Method = MethodPost, rq_Path = ''/approve/t1'', rq_PathValue = [], rq_RawQuery = [],
     rq_Authorization = bearer_prefix @ t\<rparr>"

lemma sample_post_token:
  assumes t: "sign_token (av_Codec sample_approval_env) posted_claims ''k'' = Inr t"
  shows "request_token sample_approval_env (1700000000 * second) (sample_post t) ''approve'' = Inr posted_claims"
proof -
  let ?enc = "b64_encode ''approve''"
  have shape: "t = ?enc @ CHR ''.'' # b64_encode (compute_hmac ?enc ''k'')"
    using t by (auto simp: sign_token_def sample_approval_env_def Let_def split: if_splits)
  have code: "length (compute_hmac ?enc ''k'') = 32" by (simp add: compute_hmac_def Let_def)
  then have "trim_space t = t" unfolding shape by (intro trim_space_token) auto
  moreover have "length t \<le> maxApprovalTokenLen"
    using length_b64 [of "''approve''"] length_b64 [of "compute_hmac ?enc ''k''"] code
    unfolding shape by (simp add: maxApprovalTokenLen_def)
  moreover have "verify_token (av_Codec sample_approval_env) (1700000000 * second) t ''k'' = Inr posted_claims"
    by (rule sign_verify [OF t, of "''approve''"])
      (simp_all add: sample_approval_env_def posted_claims_def sample_claims_def second_def)
  ultimately show ?thesis
    by (simp add: request_token_def sample_post_def has_prefix_iff sample_approval_env_def posted_claims_def sample_claims_def)
qed

theorem approval_needs_a_bound_token_witness:
  "\<exists>t c. sign_token (av_Codec sample_approval_env) posted_claims ''k'' = Inr t \<and>
     fst (fst (handle_approve sample_approval_env (sample_post t) \<lparr>sk_World = sample_world, sk_Log = []\<rparr>)) = StatusOK \<and>
     authorised_by sample_approval_env sample_world (sample_post t) ''approve'' ''t1'' c \<and> build_approval posted_claims = build_approval c"
proof -
  let ?s = "\<lparr>sk_World = sample_world, sk_Log = []\<rparr>"
  obtain t where t: "sign_token (av_Codec sample_approval_env) posted_claims ''k'' = Inr t"
    by (auto simp: sign_token_def sample_approval_env_def posted_claims_def sample_claims_def Let_def)
  have claims: "tc_Namespace posted_claims = ''kapro-system''" "tc_PromotionRun posted_claims = ''r1''" "tc_UID posted_claims = ''/t1''"
    by (simp_all add: posted_claims_def sample_claims_def)
  have now: "kb_Now (av_Kube sample_approval_env) sample_world = 1700000000 * second"
    by (simp add: sample_approval_env_def sample_kube_def sample_world_def)
  have key: "request_target_key ''/approve/'' (sample_post t) = ''t1''" by (simp add: request_target_key_def sample_post_def cut_prefix_def)
  have get: "av_GetRunIn sample_approval_env ''kapro-system'' ''r1'' sample_world = (Inr sample_run, sample_world)"
    by (simp add: sample_approval_env_def fetch_def sample_world_def)
  have target: "kb_GetTarget (av_Kube sample_approval_env) ''t1'' sample_world = (Inr sample_target, sample_world)"
    by (simp add: sample_approval_env_def sample_kube_def fetch_def sample_world_def)
  have claim: "try_claim posted_claims sample_target = ClaimWrite (sample_store posted_claims)"
    by (simp add: sample_store_def try_claim_def Let_def sample_target_def named_def claims)
  have steps: "av_RetrySteps sample_approval_env = Suc 3" by (simp add: sample_approval_env_def)
  have claimed: "claim_decision_token sample_approval_env ''t1'' posted_claims ?s =
      (Inr (sample_store posted_claims), \<lparr>sk_World = sample_world, sk_Log = [UpdateTargetCalled (sample_store posted_claims)]\<rparr>)"
    unfolding claim_decision_token_def steps
    by (subst claim_attempts.simps) (simp add: target claim server_world_def server_emit_def, simp add: sample_approval_env_def server_world_def)
  have uid: "om_UID (run_Meta sample_run) = []" by (simp add: sample_run_def named_def)
  obtain reply s' where run: "handle_approve sample_approval_env (sample_post t) ?s = (reply, s')" by fastforce
  have "with_claimed_target sample_approval_env ''approve'' ''t1'' (sample_post t) (create_approval sample_approval_env ''t1'') ?s = (reply, s')"
    using run key by (simp add: handle_approve_def sample_post_def MethodPost_def MethodGet_def Let_def)
  then have "create_approval sample_approval_env ''t1'' posted_claims (sample_store posted_claims)
      \<lparr>sk_World = sample_world, sk_Log = [UpdateTargetCalled (sample_store posted_claims)]\<rparr> = (reply, s')"
    using sample_post_token [OF t] claimed by (simp add: with_claimed_target_def now claims get uid server_world_def)
  then have final: "fst reply = StatusOK \<and> CreateApprovalCalled (build_approval posted_claims) \<in> set (sk_Log s')"
    by (auto simp: create_approval_def server_emit_def server_world_def sample_approval_env_def Let_def)
  from approval_needs_a_bound_token [OF run] final key t run show ?thesis by auto
qed

end
