(* ===== verification/Decision_Types.thy ===== *)
theory Decision_Types
  imports Approval_Server
begin

text \<open>
  Types of the decision API (\<^verbatim>\<open>internal/webhook/decision_api.go\<close>, \<^verbatim>\<open>decision_auth.go\<close>): requests,
  replies, the bounded listing of objects and the access check. A request carries its query as the
  map \<^verbatim>\<open>URL.Query\<close> reads and its body as the JSON decoder returns it. Selectors are a type of their
  own, since \<^verbatim>\<open>apimachinery\<close> parses and extends them.
\<close>

section \<open>Requests and replies\<close>

record decision_request =
  dr_Decision :: string
  dr_Confidence :: "64 word"
  dr_Reasoning :: string
  dr_Factors :: "decision_factor list"
  dr_ReqConditions :: "decision_condition list"
  dr_IdempotencyKey :: string
  dr_ExpiresAt :: string

record override_request =
  or_Action :: string
  or_Reason :: string
  or_Identity :: string

record api_request =
  aq_Method :: string
  aq_Path :: string
  aq_Query :: smap
  aq_Authorization :: string
  aq_ReadBody :: "go_error + string"

record decision_response =
  dp_Accepted :: bool
  dp_DecisionID :: string
  dp_EffectiveDecision :: string
  dp_Reason :: string

record decision_page =
  pg_Limit :: int
  pg_LabelSelector :: string
  pg_Phase :: string
  pg_Truncated :: bool
  pg_Counts :: "(string \<times> int) list"

record cluster_summary =
  csm_Name :: string
  csm_Labels :: smap
  csm_Phase :: string
  csm_Healthy :: bool
  csm_LastHeartbeat :: string
  csm_Versions :: smap

record run_overview =
  rov_Name :: string
  rov_Phase :: string
  rov_Plan :: string
  rov_StartedAt :: string

record fleet_summary =
  fs_GeneratedAt :: string
  fs_TotalClusters :: int
  fs_HealthyClusters :: int
  fs_DegradedClusters :: int
  fs_ActivePromotionRuns :: int
  fs_PendingDecisions :: int
  fs_Clusters :: "cluster_summary list"
  fs_PromotionRuns :: "run_overview list"
  fs_Page :: decision_page

record run_context =
  rcx_GeneratedAt :: string
  rcx_PromotionRun :: promotion_run
  rcx_Plan :: "plan option"
  rcx_Targets :: "target list"
  rcx_Page :: decision_page

record gate_view =
  gvx_GeneratedAt :: string
  gvx_Target :: target
  gvx_PromotionRun :: promotion_run
  gvx_Cluster :: "cluster option"

datatype api_reply =
    ApiError string
  | DecisionJson decision_response
  | OverrideJson smap
  | FleetJson fleet_summary
  | RunContextJson run_context
  | GateContextJson gate_view
  | ClusterHealthJson cluster

section \<open>Access\<close>

record resource_attributes =
  ra_Group :: string
  ra_Verb :: string
  ra_Resource :: string
  ra_Subresource :: string
  ra_Name :: string

definition kapro_attrs :: "string \<Rightarrow> string \<Rightarrow> string \<Rightarrow> resource_attributes" where
  "kapro_attrs verb resource name =
     \<lparr>ra_Group = ''kapro.io'', ra_Verb = verb, ra_Resource = resource, ra_Subresource = [], ra_Name = name\<rparr>"

definition kapro_subresource_attrs :: "string \<Rightarrow> string \<Rightarrow> string \<Rightarrow> string \<Rightarrow> resource_attributes" where
  "kapro_subresource_attrs verb resource subresource name =
     \<lparr>ra_Group = ''kapro.io'', ra_Verb = verb, ra_Resource = resource, ra_Subresource = subresource, ra_Name = name\<rparr>"

record 'w access_env =
  ax_Authenticate :: "(string \<Rightarrow> 'w \<Rightarrow> (go_error + user_info) \<times> 'w) option"
  ax_Authorize :: "(user_info \<Rightarrow> resource_attributes \<Rightarrow> 'w \<Rightarrow> go_error option \<times> 'w) option"

definition bearer_token :: "string \<Rightarrow> string option" where
  "bearer_token auth =
     (if \<not> has_prefix auth bearer_prefix then None
      else let t = trim_space (trim_prefix auth bearer_prefix) in if t = [] then None else Some t)"

fun authorize_all ::
  "(user_info \<Rightarrow> resource_attributes \<Rightarrow> 'w \<Rightarrow> go_error option \<times> 'w) \<Rightarrow> user_info \<Rightarrow> resource_attributes list \<Rightarrow>
    'w \<Rightarrow> go_error option \<times> 'w" where
  "authorize_all authorize user [] w = (None, w)"
| "authorize_all authorize user (a # as) w =
     (case authorize user a w of
        (Some e, w') \<Rightarrow> (Some e, w')
      | (None, w') \<Rightarrow> authorize_all authorize user as w')"

definition authorize_decision_user ::
  "'w access_env \<Rightarrow> user_info \<Rightarrow> resource_attributes list \<Rightarrow> 'w \<Rightarrow> go_error option \<times> 'w" where
  "authorize_decision_user env user attrs w =
     (case ax_Authorize env of
        None \<Rightarrow> (Some ''decision API authorization is not configured'', w)
      | Some authorize \<Rightarrow> authorize_all authorize user attrs w)"

definition require_decision_access ::
  "'w access_env \<Rightarrow> string \<Rightarrow> resource_attributes list \<Rightarrow> 'w \<Rightarrow> (int \<times> api_reply + user_info) \<times> 'w" where
  "require_decision_access env auth attrs w =
     (case (ax_Authenticate env, ax_Authorize env) of
        (Some authenticate, Some authorize) \<Rightarrow>
          (case bearer_token auth of
             None \<Rightarrow> (Inl (StatusUnauthorized, ApiError ''missing bearer token''), w)
           | Some token \<Rightarrow>
               (case authenticate token w of
                  (Inl e, w1) \<Rightarrow> (Inl (StatusUnauthorized, ApiError ''unauthorized''), w1)
                | (Inr user, w1) \<Rightarrow>
                    (case authorize_decision_user env user attrs w1 of
                       (Some e, w2) \<Rightarrow> (Inl (StatusForbidden, ApiError ''forbidden''), w2)
                     | (None, w2) \<Rightarrow> (Inr user, w2))))
      | _ \<Rightarrow> (Inl (StatusServiceUnavailable, ApiError ''Decision API authentication is not configured''), w))"

section \<open>Options of a listing\<close>

definition defaultDecisionAPILimit :: int where "defaultDecisionAPILimit = 100"
definition maxDecisionAPILimit :: int where "maxDecisionAPILimit = 500"
definition decisionAPIScanLimitMultiplier :: int where "decisionAPIScanLimitMultiplier = 10"
definition maxDecisionTraceHistory :: nat where "maxDecisionTraceHistory = 10"
definition maxDecisionReasoningLen :: nat where "maxDecisionReasoningLen = 8 * 1024"
definition maxIdempotencyKeyLen :: nat where "maxIdempotencyKeyLen = 256"

record 'sel list_options =
  lo_Limit :: int
  lo_LabelSelector :: string
  lo_Selector :: 'sel
  lo_Phase :: string

text \<open>\<^verbatim>\<open>strconv.Atoi\<close>\<close>

definition atoi :: "string \<Rightarrow> int option" where
  "atoi s =
     (let neg = (s \<noteq> [] \<and> hd s = CHR ''-'');
          ds = (if s \<noteq> [] \<and> (hd s = CHR ''-'' \<or> hd s = CHR ''+'') then tl s else s);
          v = (if neg then - int (digits_val ds) else int (digits_val ds))
      in if ds = [] \<or> \<not> list_all is_digit ds \<or> v < - (2 ^ 63) \<or> 2 ^ 63 \<le> v then None else Some v)"

definition list_options_from ::
  "'sel \<Rightarrow> (string \<Rightarrow> go_error + 'sel) \<Rightarrow> smap \<Rightarrow> go_error + 'sel list_options" where
  "list_options_from everything parse q =
     (let raw = smap_get q ''limit'';
          limit = (if raw = [] then Some defaultDecisionAPILimit
            else case atoi raw of
              None \<Rightarrow> None
            | Some n \<Rightarrow> (if n < 1 \<or> n > maxDecisionAPILimit then None else Some n));
          sel = smap_get q ''labelSelector''
      in case limit of
           None \<Rightarrow> Inl (''limit must be an integer between 1 and '' @ itoa maxDecisionAPILimit)
         | Some n \<Rightarrow>
             sum_bind (if sel = [] then Inr everything
                 else case parse sel of Inl e \<Rightarrow> Inl (''labelSelector is invalid: '' @ e) | Inr x \<Rightarrow> Inr x)
               (\<lambda>x. Inr \<lparr>lo_Limit = n, lo_LabelSelector = sel, lo_Selector = x, lo_Phase = smap_get q ''phase''\<rparr>))"

definition with_run_selector ::
  "(string \<Rightarrow> 'sel \<Rightarrow> 'sel option) \<Rightarrow> string \<Rightarrow> 'sel list_options \<Rightarrow> 'sel list_options" where
  "with_run_selector add run opts =
     (case add run (lo_Selector opts) of None \<Rightarrow> opts | Some x \<Rightarrow> opts\<lparr>lo_Selector := x\<rparr>)"

section \<open>The bounded listing\<close>

text \<open>
  A page call takes the page size and the continue token and answers the items and the next token.
  The loop has no bound of its own: where it does not return, its value is \<open>None\<close>.
\<close>

type_synonym ('w, 'o) page_call = "int \<Rightarrow> string \<Rightarrow> 'w \<Rightarrow> (api_error + 'o list \<times> string) \<times> 'w"

definition scan_limit :: "int \<Rightarrow> int" where
  "scan_limit limit =
     (let n = limit * decisionAPIScanLimitMultiplier in if n < limit + 1 then limit + 1 else n)"

partial_function (option) list_pages ::
  "('w, 'o) page_call \<Rightarrow> ('o list \<Rightarrow> 'o list) \<Rightarrow> int \<Rightarrow> 'o list \<Rightarrow> int \<Rightarrow> string \<Rightarrow> 'w \<Rightarrow>
    ((api_error + 'o list \<times> bool) \<times> 'w) option" where
  "list_pages call keep limit out scanned token w =
     (let remaining = scan_limit limit - scanned
      in if remaining \<le> 0 then Some (Inr (out, True), w)
         else case call (if remaining < limit + 1 then remaining else limit + 1) token w of
           (Inl e, w') \<Rightarrow> Some (Inl e, w')
         | (Inr (items, next_token), w') \<Rightarrow>
             (let scanned' = scanned + int (length items); out' = out @ keep items
              in if int (length out') > limit then Some (Inr (take (nat limit) out', True), w')
                 else if scanned' > scan_limit limit then Some (Inr (out', True), w')
                 else if next_token = [] then Some (Inr (out', False), w')
                 else if scanned' \<ge> scan_limit limit then Some (Inr (out', True), w')
                 else list_pages call keep limit out' scanned' next_token w'))"

definition list_decision_items ::
  "('w, 'o) page_call \<Rightarrow> ('o list \<Rightarrow> 'o list) \<Rightarrow> int \<Rightarrow> 'w \<Rightarrow> ((api_error + 'o list \<times> int \<times> bool) \<times> 'w) option" where
  "list_decision_items call keep limit w =
     map_option (\<lambda>(r, w'). (map_sum id (\<lambda>(out, truncated). (out, int (length out), truncated)) r, w'))
       (list_pages call keep limit [] 0 [] w)"

text \<open>
  \<^verbatim>\<open>strings.EqualFold\<close> of a phase: letters of ASCII without case, and the two other runes that fold
  to one of them (the long s and the Kelvin sign).
\<close>

definition long_s :: string where "long_s = map char_of [197, 191 :: nat]"
definition kelvin :: string where "kelvin = map char_of [226, 132, 170 :: nat]"

function fold_case :: "string \<Rightarrow> string" where
  "fold_case s =
     (if s = [] then []
      else if has_prefix s long_s then CHR ''s'' # fold_case (drop 2 s)
      else if has_prefix s kelvin then CHR ''k'' # fold_case (drop 3 s)
      else (let n = (of_char (hd s) :: nat) in if 65 \<le> n \<and> n \<le> 90 then char_of (n + 32) else hd s) # fold_case (tl s))"
  by pat_completeness auto
termination by (relation "measure length") auto

declare fold_case.simps [simp del]

definition equal_fold :: "string \<Rightarrow> string \<Rightarrow> bool" where
  "equal_fold a b \<longleftrightarrow> fold_case a = fold_case b"

definition filter_clusters_by_phase :: "string \<Rightarrow> cluster list \<Rightarrow> cluster list" where
  "filter_clusters_by_phase phase items =
     (if phase = [] then items
      else filter (\<lambda>c. equal_fold (cluster_phase_string (cst_Phase (cl_Status c))) phase) items)"

definition filter_runs_by_phase :: "string \<Rightarrow> promotion_run list \<Rightarrow> promotion_run list" where
  "filter_runs_by_phase phase items =
     (if phase = [] then items else filter (\<lambda>r. equal_fold (run_phase_string (rst_Phase (run_Status r))) phase) items)"

definition filter_targets_for_run :: "string \<Rightarrow> string \<Rightarrow> target list \<Rightarrow> target list" where
  "filter_targets_for_run run phase items =
     filter (\<lambda>t. \<not> ts_PromotionRunRef (tg_Spec t) \<noteq> run \<and>
       \<not> (phase \<noteq> [] \<and> \<not> equal_fold (target_phase_string (tg_Phase t)) phase)) items"

definition filter_pending_targets :: "string \<Rightarrow> target list \<Rightarrow> target list" where
  "filter_pending_targets phase items =
     (if phase \<noteq> [] \<and> \<not> equal_fold (target_phase_string PhaseWaitingApproval) phase then []
      else filter (\<lambda>t. tg_Phase t = PhaseWaitingApproval) items)"

end
