(* ===== verification/Listing_Properties.thy ===== *)
theory Listing_Properties
  imports Decision_Types Versioned_History
begin

text \<open>
  The bounded listing of the decision API: against a server that pages through a fixed list it ends
  and returns exactly the first matching objects within the scan budget, with the truncation flag
  set exactly when something was left out or not looked at; a server that answers empty pages with
  a continue token keeps it going forever, since only objects use up the budget.
\<close>

section \<open>A server that pages through a list\<close>

definition page_server :: "'o list \<Rightarrow> ('w, 'o) page_call" where
  "page_server xs sz token w =
     (let off = decimal_value token; n = nat sz
      in (Inr (take n (drop off xs), if off + n < length xs then string_of_nat (off + n) else []), w))"

lemma string_of_nat_nonempty [simp]: "string_of_nat n \<noteq> []"
  by (subst string_of_nat.simps) simp

lemma decimal_value_Nil [simp]: "decimal_value [] = 0"
  by (simp add: decimal_value_def)

lemma scan_limit_bounds: "1 \<le> limit \<Longrightarrow> limit + 1 \<le> scan_limit limit"
  by (simp add: scan_limit_def decisionAPIScanLimitMultiplier_def)

lemma filter_take_prefix:
  "n \<le> m \<Longrightarrow> \<exists>ys. filter P (take m xs) = filter P (take n xs) @ ys"
proof -
  assume "n \<le> m"
  then have "take m xs = take n xs @ take (m - n) (drop n xs)" by (metis le_add_diff_inverse take_add)
  then show ?thesis by (metis filter_append)
qed

lemma list_pages_exact:
  assumes "1 \<le> limit" "int off < scan_limit limit" "off = 0 \<or> off < length xs" "decimal_value token = off"
    "int (length (filter P (take off xs))) \<le> limit"
  shows "list_pages (page_server xs) (filter P) limit (filter P (take off xs)) (int off) token w =
    (let M = filter P (take (nat (scan_limit limit)) xs)
     in Some (Inr (take (nat limit) M, limit < int (length M) \<or> scan_limit limit < int (length xs)), w))"
  using assms(2-)
proof (induction "nat (scan_limit limit) - off" arbitrary: off token rule: less_induct)
  case less
  let ?S = "scan_limit limit"
  define sz where "sz = (if ?S - int off < limit + 1 then ?S - int off else limit + 1)"
  define k where "k = nat sz"
  have k: "0 < k" "int k = sz" "off + k \<le> nat ?S" "int k \<le> ?S - int off"
    using less.prems(1) assms(1) by (auto simp: k_def sz_def)
  let ?M = "filter P (take (nat ?S) xs)"
  let ?out = "filter P (take (off + k) xs)"
  obtain rest where rest: "?M = ?out @ rest" using filter_take_prefix [OF k(3)] by blast
  have page: "page_server xs sz token w =
      (Inr (take k (drop off xs), if off + k < length xs then string_of_nat (off + k) else []), w)"
    by (simp add: page_server_def less.prems(3) k_def Let_def)
  have grown: "filter P (take off xs) @ filter P (take k (drop off xs)) = ?out"
    by (metis filter_append take_add)
  have unfolded: "list_pages (page_server xs) (filter P) limit (filter P (take off xs)) (int off) token w =
      (if limit < int (length ?out) then Some (Inr (take (nat limit) ?out, True), w)
       else if off + k < length xs
       then (if int (off + k) \<ge> ?S then Some (Inr (?out, True), w)
             else list_pages (page_server xs) (filter P) limit ?out (int (off + k)) (string_of_nat (off + k)) w)
       else Some (Inr (?out, False), w))"
  proof -
    have "length (take k (drop off xs)) \<le> k" by simp
    then have few: "\<not> int off + int (length (take k (drop off xs))) > ?S" using k(4) by linarith
    have full: "int (length (take k (drop off xs))) = int k" if "off + k < length xs" using that by simp
    show ?thesis
      by (subst list_pages.simps, unfold Let_def sz_def [symmetric] page prod.case sum.case grown)
        (use less.prems(1) few full in simp)
  qed
  show ?case
  proof (cases "limit < int (length ?out)")
    case True
    then show ?thesis using unfolded rest by (simp add: Let_def)
  next
    case small: False
    show ?thesis
    proof (cases "off + k < length xs")
      case False
      then have "take (off + k) xs = xs" "take (nat ?S) xs = xs" using k(3) by simp_all
      moreover have "\<not> ?S < int (length xs)" using False k(4) by linarith
      ultimately show ?thesis using unfolded small False by (simp add: Let_def)
    next
      case more: True
      show ?thesis
      proof (cases "int (off + k) \<ge> ?S")
        case True
        then have "off + k = nat ?S" using k(3) by linarith
        moreover have "?S < int (length xs)" using True more k(4) by linarith
        ultimately show ?thesis using unfolded small more True by (simp add: Let_def)
      next
        case False
        then have "nat ?S - (off + k) < nat ?S - off" using k(1) by linarith
        from less.hyps [OF this _ _ decimal_value_string_of_nat] False more small unfolded
        show ?thesis by simp
      qed
    qed
  qed
qed

text \<open>C27. Against a server that pages through a list, the listing ends with the first \<^verbatim>\<open>limit\<close> matching
  objects among the first \<^verbatim>\<open>scanLimit\<close> ones, in order, counts them, and reports truncation exactly
  when more of those match or there are objects it did not look at.
\<close>

theorem bounded_listing_is_exact:
  assumes "1 \<le> limit"
  shows "list_decision_items (page_server xs) (filter P) limit w =
    (let M = filter P (take (nat (scan_limit limit)) xs); found = take (nat limit) M
     in Some (Inr (found, int (length found), limit < int (length M) \<or> scan_limit limit < int (length xs)), w))"
  using list_pages_exact [of limit 0 xs "[]" P w] assms scan_limit_bounds [OF assms]
  by (simp add: list_decision_items_def Let_def)

theorem bounded_listing_is_exact_witness:
  "\<exists>count. list_decision_items (page_server (map nat [1..60])) (filter even) 5 () = Some (Inr ([2, 4, 6, 8, 10], count, True), ())"
proof -
  have "filter even (take (nat (scan_limit 5)) (map nat [1..60])) = map nat (filter even [1..50])" by code_simp
  moreover have "take (nat 5) (map nat (filter even [1..50])) = [2, 4, 6, 8, 10]" by code_simp
  moreover have "length (map nat (filter even [1..50])) = 25" by code_simp
  ultimately show ?thesis
    using bounded_listing_is_exact [of 5 "map nat [1..60]" even "()"] by (simp add: Let_def)
qed

text \<open>A server that always answers an empty page and a token: the loop has no value.\<close>

lemma empty_pages_have_no_value:
  assumes "list_pages call keep limit out scanned token w = Some y"
  shows "call = (\<lambda>n token w. (Inr ([], ''more''), w)) \<longrightarrow> keep [] = [] \<longrightarrow> scanned = 0 \<longrightarrow> int (length out) \<le> limit \<longrightarrow> \<not> 1 \<le> limit"
proof (rule list_pages.raw_induct [OF _ assms])
  fix f :: "('w, 'o) page_call \<Rightarrow> ('o list \<Rightarrow> 'o list) \<Rightarrow> int \<Rightarrow> 'o list \<Rightarrow> int \<Rightarrow> string \<Rightarrow> 'w \<Rightarrow>
    ((api_error + 'o list \<times> bool) \<times> 'w) option"
    and call keep limit out scanned token w y
  assume IH: "\<And>call keep limit out scanned token w y. f call keep limit out scanned token w = Some y \<Longrightarrow>
      call = (\<lambda>n token w. (Inr ([], ''more''), w)) \<longrightarrow> keep [] = [] \<longrightarrow> scanned = 0 \<longrightarrow> int (length out) \<le> limit \<longrightarrow> \<not> 1 \<le> limit"
    and body: "(let remaining = scan_limit limit - scanned
      in if remaining \<le> 0 then Some (Inr (out, True), w)
         else case call (if remaining < limit + 1 then remaining else limit + 1) token w of
           (Inl e, w') \<Rightarrow> Some (Inl e, w')
         | (Inr (items, next_token), w') \<Rightarrow>
             (let scanned' = scanned + int (length items); out' = out @ keep items
              in if int (length out') > limit then Some (Inr (take (nat limit) out', True), w')
                 else if scanned' > scan_limit limit then Some (Inr (out', True), w')
                 else if next_token = [] then Some (Inr (out', False), w')
                 else if scanned' \<ge> scan_limit limit then Some (Inr (out', True), w')
                 else f call keep limit out' scanned' next_token w')) = Some y"
  show "call = (\<lambda>n token w. (Inr ([], ''more''), w)) \<longrightarrow> keep [] = [] \<longrightarrow> scanned = 0 \<longrightarrow> int (length out) \<le> limit \<longrightarrow> \<not> 1 \<le> limit"
    using body scan_limit_bounds [of limit] by (auto simp: Let_def split: if_splits dest: IH)
qed

text \<open>Only objects use up the scan budget: against a server that keeps answering an empty page with a
  continue token the listing never ends.
\<close>

theorem empty_pages_never_end:
  assumes "1 \<le> limit"
  shows "list_decision_items (\<lambda>n token w. (Inr ([], ''more''), w)) (filter P) limit w = None"
proof (cases "list_pages (\<lambda>n token w. (Inr ([], ''more''), w)) (filter P) limit [] 0 [] w")
  case (Some y)
  from empty_pages_have_no_value [OF this] assms show ?thesis by simp
qed (simp add: list_decision_items_def)

theorem empty_pages_never_end_witness:
  "list_decision_items (\<lambda>n token w. (Inr ([], ''more''), w)) (filter even) 5 () = (None :: ((api_error + nat list \<times> int \<times> bool) \<times> unit) option)"
  by (rule empty_pages_never_end) simp

section \<open>Every other listing ends\<close>

text \<open>A server makes progress when a page that carries a token carries an object too; errors end the loop anyway.\<close>

definition progressing :: "('w, 'o) page_call \<Rightarrow> bool" where
  "progressing call \<longleftrightarrow>
     (\<forall>n token w items next_token w'. call n token w = (Inr (items, next_token), w') \<and> next_token \<noteq> [] \<longrightarrow> items \<noteq> [])"

lemma list_pages_ends:
  assumes "progressing call"
  shows "\<exists>y. list_pages call keep limit out scanned token w = Some y"
proof (induction "nat (scan_limit limit - scanned)" arbitrary: out scanned token w rule: less_induct)
  case less
  show ?case
  proof (cases "scan_limit limit - scanned \<le> 0")
    case True
    then show ?thesis by (subst list_pages.simps) simp
  next
    case False
    let ?sz = "if scan_limit limit - scanned < limit + 1 then scan_limit limit - scanned else limit + 1"
    obtain page w' where page: "call ?sz token w = (page, w')" by fastforce
    show ?thesis
    proof (cases page)
      case (Inl e)
      then show ?thesis using page by (subst list_pages.simps) (simp add: Let_def)
    next
      case (Inr got)
      obtain items next_token where got: "got = (items, next_token)" by fastforce
      have again: "\<exists>y. list_pages call keep limit out' (scanned + int (length items)) next_token w' = Some y"
        if "next_token \<noteq> []" for out'
      proof (rule less)
        have "items \<noteq> []" using assms page Inr got that unfolding progressing_def by blast
        then show "nat (scan_limit limit - (scanned + int (length items))) < nat (scan_limit limit - scanned)"
          using False by (cases items) simp_all
      qed
      show ?thesis
        using page Inr got again by (subst list_pages.simps) (simp add: Let_def)
    qed
  qed
qed

text \<open>C37. The listing ends, whatever the server answers, as long as a page with a continue token is never
  empty: the scan budget bounds the number of pages.
\<close>

theorem progressing_listing_ends:
  assumes "progressing call"
  shows "\<exists>y. list_decision_items call keep limit w = Some y"
proof -
  obtain y where "list_pages call keep limit [] 0 [] w = Some y" using list_pages_ends [OF assms] by blast
  then show ?thesis by (simp add: list_decision_items_def)
qed

theorem progressing_listing_ends_witness:
  "\<exists>y. list_decision_items (\<lambda>n token w. (Inr ([w], ''more''), w + 1)) (filter even) 5 (0 :: nat) = Some y"
  by (rule progressing_listing_ends) (simp add: progressing_def)

end
