(* ===== verification/Decision_Api.thy ===== *)
theory Decision_Api
  imports Decision_Types
begin

text \<open>
  The handlers of the decision API (\<^verbatim>\<open>internal/webhook/decision_api.go\<close>). The mutating ones are
  sequences of steps that return early with a reply; the reads answer \<open>None\<close> where their listing
  does not come to an end. \<^verbatim>\<open>Client\<close> and \<^verbatim>\<open>DecisionReader\<close> are two clients.
\<close>

record ('w, 'sel) decision_env =
  dv_Kube :: "'w kube"
  dv_Reader :: "'w kube"
  dv_Policy :: "'w policy_env"
  dv_Access :: "'w access_env"
  dv_PatchTargetStatus :: "target \<Rightarrow> target \<Rightarrow> 'w \<Rightarrow> (api_error + target) \<times> 'w"
  dv_CreateApproval :: "approval \<Rightarrow> 'w \<Rightarrow> (api_error + approval) \<times> 'w"
  dv_DecodeDecision :: "string \<Rightarrow> go_error + decision_request"
  dv_DecodeOverride :: "string \<Rightarrow> go_error + override_request"
  dv_Everything :: 'sel
  dv_ParseSelector :: "string \<Rightarrow> go_error + 'sel"
  dv_AddRun :: "string \<Rightarrow> 'sel \<Rightarrow> 'sel option"
  dv_ListClusters :: "'sel \<Rightarrow> ('w, cluster) page_call"
  dv_ListRuns :: "'sel \<Rightarrow> ('w, promotion_run) page_call"
  dv_ListTargets :: "'sel \<Rightarrow> ('w, target) page_call"

type_synonym reply = "int \<times> api_reply"
type_synonym ('w, 'a) api_step = "'w server_tick \<Rightarrow> (reply + 'a) \<times> 'w server_tick"

definition reply_of :: "('w, reply) api_step \<Rightarrow> 'w server_tick \<Rightarrow> reply \<times> 'w server_tick" where
  "reply_of m s = (case m s of (Inl r, s') \<Rightarrow> (r, s') | (Inr r, s') \<Rightarrow> (r, s'))"

definition stop_if :: "bool \<Rightarrow> reply \<Rightarrow> ('w, unit) api_step" where
  "stop_if bad r s = ((if bad then Inl r else Inr ()), s)"

text \<open>A call of the API whose failure is the reply \<open>f e\<close>.\<close>

definition api_call :: "(api_error \<Rightarrow> reply) \<Rightarrow> ('w \<Rightarrow> (api_error + 'a) \<times> 'w) \<Rightarrow> ('w, 'a) api_step" where
  "api_call f call s =
     (case call (sk_World s) of (Inl e, w) \<Rightarrow> (Inl (f e), server_world w s) | (Inr x, w) \<Rightarrow> (Inr x, server_world w s))"

definition need_access :: "('w, 'sel) decision_env \<Rightarrow> string \<Rightarrow> resource_attributes list \<Rightarrow> ('w, user_info) api_step" where
  "need_access env auth attrs s =
     (case require_decision_access (dv_Access env) auth attrs (sk_World s) of (r, w) \<Rightarrow> (r, server_world w s))"

definition need_create_approvals :: "('w, 'sel) decision_env \<Rightarrow> user_info \<Rightarrow> bool \<Rightarrow> ('w, unit) api_step" where
  "need_create_approvals env user needed s =
     (if \<not> needed then (Inr (), s)
      else case authorize_decision_user (dv_Access env) user [kapro_attrs ''create'' ''approvals'' []] (sk_World s) of
        (Some e, w) \<Rightarrow> (Inl (StatusForbidden, ApiError ''forbidden''), server_world w s)
      | (None, w) \<Rightarrow> (Inr (), server_world w s))"

definition method_not_allowed :: reply where
  "method_not_allowed = (StatusMethodNotAllowed, ApiError ''method not allowed'')"

text \<open>Reading the body up to a limit and decoding it.\<close>

definition read_request :: "nat \<Rightarrow> (string \<Rightarrow> go_error + 'a) \<Rightarrow> api_request \<Rightarrow> ('w, 'a) api_step" where
  "read_request limit decode r s =
     (case aq_ReadBody r of
        Inl e \<Rightarrow> (Inl (StatusBadRequest, ApiError ''failed to read body''), s)
      | Inr body \<Rightarrow>
          (case decode (take limit body) of
             Inl e \<Rightarrow> (Inl (StatusBadRequest, ApiError (''invalid JSON: '' @ e)), s)
           | Inr x \<Rightarrow> (Inr x, s)))"

section \<open>Identities\<close>

definition decision_identity_name :: "user_info option \<Rightarrow> string" where
  "decision_identity_name user =
     (case user of None \<Rightarrow> ''unknown'' | Some u \<Rightarrow> (if ui_Username u \<noteq> [] then ui_Username u else ''unknown''))"

definition decision_identity_type :: "user_info option \<Rightarrow> string" where
  "decision_identity_type user =
     (case user of
        None \<Rightarrow> ''Unknown''
      | Some u \<Rightarrow>
          (if has_prefix (ui_Username u) ''system:serviceaccount:'' then ''ServiceAccount''
           else if has_prefix (ui_Username u) ''system:node:'' then ''Node'' else ''User''))"

definition extract_jwt_fingerprint :: "string \<Rightarrow> string" where
  "extract_jwt_fingerprint auth =
     (if has_prefix auth bearer_prefix then ''sha256:'' @ take 16 (sha256_hex (trim_prefix auth bearer_prefix)) else [])"

section \<open>A decision\<close>

definition rejected_response :: "string \<Rightarrow> decision_response" where
  "rejected_response reason = \<lparr>dp_Accepted = False, dp_DecisionID = [], dp_EffectiveDecision = [], dp_Reason = reason\<rparr>"

definition validate_decision :: "decision_request \<Rightarrow> reply option" where
  "validate_decision req =
     (if dr_Decision req = [] \<or> dr_IdempotencyKey req = []
      then Some (StatusBadRequest, ApiError ''decision and idempotencyKey are required'')
      else if dr_Decision req \<notin> {''Approve'', ''Reject'', ''Defer''}
      then Some (StatusBadRequest, ApiError ''decision must be Approve, Reject, or Defer'')
      else if length (dr_Reasoning req) > maxDecisionReasoningLen
      then Some (StatusRequestEntityTooLarge, ApiError (''reasoning exceeds '' @ itoa (int maxDecisionReasoningLen) @ '' bytes''))
      else if length (dr_IdempotencyKey req) > maxIdempotencyKeyLen
      then Some (StatusRequestEntityTooLarge, ApiError (''idempotencyKey exceeds '' @ itoa (int maxIdempotencyKeyLen) @ '' bytes''))
      else None)"

definition check_decision :: "decision_request \<Rightarrow> ('w, unit) api_step" where
  "check_decision req s = ((case validate_decision req of Some r \<Rightarrow> Inl r | None \<Rightarrow> Inr ()), s)"

definition current_decision :: "target \<Rightarrow> decision_entry option" where
  "current_decision t = Option.bind (tst_DecisionTrace (tg_Status t)) tdt_Current"

text \<open>The answer when the target carries a decision already.\<close>

definition existing_reply :: "decision_request \<Rightarrow> decision_entry \<Rightarrow> reply" where
  "existing_reply req e =
     (let response = (\<lambda>accepted reason. \<lparr>dp_Accepted = accepted, dp_DecisionID = de_DecisionID e,
            dp_EffectiveDecision = de_EffectiveDecision e, dp_Reason = reason\<rparr>)
      in if de_DecisionID e = dr_IdempotencyKey req
         then (if de_Decision e = dr_Decision req then (StatusOK, DecisionJson (response True ''idempotent replay''))
               else (StatusConflict, DecisionJson (response False ''idempotencyKey already used with different decision'')))
         else (StatusConflict, DecisionJson (response False (''target already has decision from '' @ di_Name (de_Identity e)))))"

definition open_target ::
  "('w, 'sel) decision_env \<Rightarrow> string \<Rightarrow> string \<Rightarrow> decision_request \<Rightarrow> ('w, target) api_step" where
  "open_target env runName key req =
     op_bind (api_call (\<lambda>e. (StatusNotFound, ApiError ''promotionrun not found'')) (kb_GetRun (dv_Kube env) runName)) (\<lambda>run.
     op_bind (stop_if (prs_Suspended (run_Spec run)) (StatusConflict, ApiError ''promotionrun is suspended'')) (\<lambda>_.
     op_bind (api_call (\<lambda>e. (StatusNotFound, ApiError ''target not found'')) (kb_GetTarget (dv_Kube env) key)) (\<lambda>t.
     op_bind (stop_if (ts_PromotionRunRef (tg_Spec t) \<noteq> runName) (StatusConflict, ApiError ''target/promotionrun mismatch'')) (\<lambda>_.
     op_bind (stop_if (tg_Phase t \<noteq> PhaseWaitingApproval)
       (StatusUnprocessableEntity, DecisionJson (rejected_response
          (''target is in '' @ target_phase_string (tg_Phase t) @ '', not WaitingApproval'')))) (\<lambda>_ s.
       case current_decision t of
         Some e \<Rightarrow> (Inl (existing_reply req e), s)
       | None \<Rightarrow> (Inr t, s))))))"

text \<open>The policy of the agent, when one is found: a failed listing counts as none.\<close>

definition find_policy :: "('w, 'sel) decision_env \<Rightarrow> string \<Rightarrow> ('w, agent_policy option) api_step" where
  "find_policy env agentName s =
     (case resolve_agent_policy (dv_Policy env) agentName s of
        (Inl e, s') \<Rightarrow> (Inr None, s')
      | (Inr p, s') \<Rightarrow> (Inr p, s'))"

definition effective_decision :: "policy_decision \<Rightarrow> string \<Rightarrow> string" where
  "effective_decision pd decision =
     (let d = (if pd_EffectiveMode pd = PolicyRecommend then ''Recommended'' else decision)
      in if pd_RequireHumanCosign pd \<and> decision = ''Approve'' then ''PendingHumanConfirm'' else d)"

text \<open>The effective decision and the trust level.\<close>

definition apply_policy ::
  "('w, 'sel) decision_env \<Rightarrow> agent_policy option \<Rightarrow> target \<Rightarrow> decision_request \<Rightarrow> ('w, string \<times> string) api_step" where
  "apply_policy env policy t req s =
     (case policy of
        None \<Rightarrow> (Inr (dr_Decision req, ''none''), s)
      | Some p \<Rightarrow>
          (case kb_GetCluster (dv_Kube env) (ts_Target (tg_Spec t)) (sk_World s) of
             (got, w) \<Rightarrow>
               (let mc = (case got of Inl e \<Rightarrow> None | Inr c \<Rightarrow> Some c);
                    pd = enforce_agent_policy (dv_Kube env) (pe_Zone (dv_Policy env)) (kb_Now (dv_Kube env) w) (Some p) t mc
                           (dr_Confidence req) (int (length (dr_Reasoning req)))
                in if \<not> pd_Allowed pd
                   then (Inl (StatusForbidden, DecisionJson (rejected_response (''AgentPolicy denied: '' @ pd_DenyReason pd))),
                         server_world w s)
                   else (Inr (effective_decision pd (dr_Decision req), policy_mode_string (pd_EffectiveMode pd)),
                         server_world w s))))"

definition reserve_slot ::
  "('w, 'sel) decision_env \<Rightarrow> agent_policy option \<Rightarrow> ('w, agent_policy option) api_step" where
  "reserve_slot env policy s =
     (case policy of
        None \<Rightarrow> (Inr None, s)
      | Some p \<Rightarrow>
          (case reserve_agent_policy_slot (dv_Policy env) p s of
             (Inl e, s') \<Rightarrow> (Inl (StatusInternalServerError, ApiError ''internal error reserving agent policy slot''), s')
           | (Inr (Inl reason), s') \<Rightarrow>
               (Inl (StatusTooManyRequests, DecisionJson (rejected_response (''AgentPolicy denied: '' @ reason))), s')
           | (Inr (Inr stored), s') \<Rightarrow> (Inr (Some stored), s')))"

definition decision_entry_of ::
  "decision_request \<Rightarrow> string \<Rightarrow> string \<Rightarrow> user_info \<Rightarrow> string \<Rightarrow> string \<Rightarrow> decision_entry" where
  "decision_entry_of req effective trust user fingerprint now =
     \<lparr>de_DecisionID = dr_IdempotencyKey req, de_Decision = dr_Decision req, de_EffectiveDecision = effective,
      de_Identity = \<lparr>di_Name = decision_identity_name (Some user), di_Type = decision_identity_type (Some user), di_Namespace = [],
        di_TrustLevel = trust, di_JWTFingerprint = fingerprint\<rparr>,
      de_Confidence = dr_Confidence req, de_Reasoning = dr_Reasoning req, de_Factors = dr_Factors req,
      de_Conditions = dr_ReqConditions req, de_DecidedAt = now, de_ExpiresAt = dr_ExpiresAt req, de_SupersededBy = [],
      de_SupersededReason = [], de_HumanConfirmation = None\<rparr>"

definition empty_trace :: target_decision_trace where
  "empty_trace = \<lparr>tdt_Current = None, tdt_History = [], tdt_HumanOverrides = []\<rparr>"

definition decision_trace_of :: "target \<Rightarrow> target_decision_trace" where
  "decision_trace_of t = (case tst_DecisionTrace (tg_Status t) of None \<Rightarrow> empty_trace | Some tr \<Rightarrow> tr)"

definition with_trace :: "target_decision_trace \<Rightarrow> target \<Rightarrow> target" where
  "with_trace tr t = t\<lparr>tg_Status := (tg_Status t)\<lparr>tst_DecisionTrace := Some tr\<rparr>\<rparr>"

definition push_history :: "string \<Rightarrow> target_decision_trace \<Rightarrow> target_decision_trace" where
  "push_history newID tr =
     (case tdt_Current tr of
        None \<Rightarrow> tr
      | Some prev \<Rightarrow>
          (let h = tdt_History tr @ [prev\<lparr>de_SupersededBy := newID, de_SupersededReason := ''NewDecision''\<rparr>]
           in tr\<lparr>tdt_History := (if length h > maxDecisionTraceHistory then drop (length h - maxDecisionTraceHistory) h else h)\<rparr>))"

definition decided_target :: "decision_entry \<Rightarrow> target \<Rightarrow> target" where
  "decided_target entry t =
     with_trace ((push_history (de_DecisionID entry) (decision_trace_of t))\<lparr>tdt_Current := Some entry\<rparr>) t"

definition approval_object :: "string \<Rightarrow> string \<Rightarrow> string \<Rightarrow> string \<Rightarrow> string \<Rightarrow> approval" where
  "approval_object runName key targetName approvedBy comment =
     \<lparr>ap_Meta = \<lparr>om_Name = runName @ ''-'' @ key, om_Namespace = [], om_UID = [], om_Generation = 0, om_Labels = [], om_Annotations = [],
        om_OwnerReferences = [], om_Finalizers = [], om_DeletionTimestamp = None, om_CreationTimestamp = go_zero_time\<rparr>,
      ap_PromotionRun = runName, ap_Target = targetName, ap_Ref = key, ap_ApprovedBy = approvedBy, ap_Bypass = False,
      ap_Comment = comment\<rparr>"

definition decision_comment :: "decision_request \<Rightarrow> string" where
  "decision_comment req = ''confidence: '' @ format_f2 (dr_Confidence req) @ char_of (10 :: nat) # dr_Reasoning req"

text \<open>Recording the decision, up to the point where the slot is released on success.\<close>

definition record_decision ::
  "('w, 'sel) decision_env \<Rightarrow> string \<Rightarrow> string \<Rightarrow> decision_request \<Rightarrow> string \<Rightarrow> decision_entry \<Rightarrow> target \<Rightarrow> ('w, unit) api_step" where
  "record_decision env runName key req agentName entry t s =
     (let t' = decided_target entry t; s1 = server_emit (PatchTargetStatusCalled t') s
      in case dv_PatchTargetStatus env t t' (sk_World s1) of
           (Inl e, w) \<Rightarrow> (Inl (StatusInternalServerError, ApiError ''internal error''), server_world w s1)
         | (Inr stored, w) \<Rightarrow>
             (let s2 = server_world w s1
              in if dr_Decision req = ''Approve'' \<and> de_EffectiveDecision entry = ''Approve''
                 then let a = approval_object runName key (ts_Target (tg_Spec stored)) (''agent:'' @ agentName) (decision_comment req);
                          s3 = server_emit (CreateApprovalCalled a) s2
                      in case dv_CreateApproval env a (sk_World s3) of
                           (Inl e, w') \<Rightarrow>
                             ((if is_already_exists e then Inr ()
                               else Inl (StatusInternalServerError, ApiError ''internal error creating approval'')), server_world w' s3)
                         | (Inr _, w') \<Rightarrow> (Inr (), server_world w' s3)
                 else (Inr (), s2)))"

text \<open>
  The release: once on success, and once more by the deferred call when the recording failed or the
  first release did.
\<close>

definition release_slot ::
  "('w, 'sel) decision_env \<Rightarrow> agent_policy option \<Rightarrow> 'w server_tick \<Rightarrow> bool \<times> 'w server_tick" where
  "release_slot env policy s =
     (case policy of
        None \<Rightarrow> (True, s)
      | Some p \<Rightarrow> (case release_agent_policy_slot (dv_Policy env) p s of (err, s') \<Rightarrow> (err = None, s')))"

definition with_slot ::
  "('w, 'sel) decision_env \<Rightarrow> agent_policy option \<Rightarrow> ('w, unit) api_step \<Rightarrow> reply \<Rightarrow> ('w, reply) api_step" where
  "with_slot env policy m ok s =
     (case m s of
        (Inl r, s1) \<Rightarrow> (case release_slot env policy s1 of (released, s2) \<Rightarrow> (Inl r, s2))
      | (Inr u, s1) \<Rightarrow>
          (case release_slot env policy s1 of
             (released, s2) \<Rightarrow>
               (if released then (Inr ok, s2)
                else case release_slot env policy s2 of (again, s3) \<Rightarrow> (Inr ok, s3))))"

definition decide_open_target ::
  "('w, 'sel) decision_env \<Rightarrow> api_request \<Rightarrow> string \<Rightarrow> string \<Rightarrow> user_info \<Rightarrow> decision_request \<Rightarrow> target \<Rightarrow> ('w, reply) api_step" where
  "decide_open_target env r runName key user req t s =
     (let now = rfc_now (dv_Kube env) (sk_World s); agentName = decision_identity_name (Some user)
      in op_bind (find_policy env agentName) (\<lambda>policy.
         op_bind (apply_policy env policy t req) (\<lambda>(effective, trust).
         op_bind (need_create_approvals env user (dr_Decision req = ''Approve'')) (\<lambda>_.
         op_bind (reserve_slot env policy) (\<lambda>slot.
           let entry = decision_entry_of req effective trust user (extract_jwt_fingerprint (aq_Authorization r)) now
           in with_slot env slot (record_decision env runName key req agentName entry t)
                (StatusOK, DecisionJson \<lparr>dp_Accepted = True, dp_DecisionID = de_DecisionID entry,
                   dp_EffectiveDecision = de_EffectiveDecision entry, dp_Reason = ''decision recorded''\<rparr>))))) s)"

definition decision_attrs :: "string \<Rightarrow> string \<Rightarrow> resource_attributes list" where
  "decision_attrs runName key =
     [kapro_attrs ''get'' ''promotionruns'' runName, kapro_attrs ''get'' ''targets'' key,
      kapro_subresource_attrs ''patch'' ''targets'' ''status'' key]"

definition handle_decide ::
  "('w, 'sel) decision_env \<Rightarrow> api_request \<Rightarrow> string \<Rightarrow> string \<Rightarrow> 'w server_tick \<Rightarrow> reply \<times> 'w server_tick" where
  "handle_decide env r runName key =
     reply_of (
       op_bind (stop_if (aq_Method r \<noteq> MethodPost) method_not_allowed) (\<lambda>_.
       op_bind (need_access env (aq_Authorization r) (decision_attrs runName key)) (\<lambda>user.
       op_bind (read_request (64 * 1024) (dv_DecodeDecision env) r) (\<lambda>req.
       op_bind (check_decision req) (\<lambda>_.
       op_bind (open_target env runName key req) (\<lambda>t.
         decide_open_target env r runName key user req t))))))"

section \<open>A human override\<close>

text \<open>The local time of the server in the layout \<^verbatim>\<open>20060102-150405\<close> is a parameter of the request.\<close>

definition override_entry :: "override_request \<Rightarrow> string \<Rightarrow> string \<Rightarrow> user_info \<Rightarrow> target \<Rightarrow> string \<Rightarrow> human_override" where
  "override_entry req stamp key user t now =
     \<lparr>ho_OverrideID = ''o-'' @ stamp @ ''-'' @ key,
      ho_OverriddenDecisionID = (case current_decision t of None \<Rightarrow> [] | Some e \<Rightarrow> de_DecisionID e),
      ho_Action = or_Action req, ho_Identity = decision_identity_name (Some user), ho_Reason = or_Reason req, ho_OverriddenAt = now\<rparr>"

definition overridden_target :: "human_override \<Rightarrow> target \<Rightarrow> target" where
  "overridden_target o_entry t =
     with_trace ((decision_trace_of t)\<lparr>tdt_HumanOverrides := tdt_HumanOverrides (decision_trace_of t) @ [o_entry]\<rparr>) t"

definition record_override ::
  "('w, 'sel) decision_env \<Rightarrow> (int \<Rightarrow> string) \<Rightarrow> string \<Rightarrow> string \<Rightarrow> override_request \<Rightarrow> user_info \<Rightarrow> target \<Rightarrow> ('w, reply) api_step" where
  "record_override env stamp runName key req user t s =
     (let entry = override_entry req (stamp (kb_Now (dv_Kube env) (sk_World s))) key user t (rfc_now (dv_Kube env) (sk_World s));
          t' = overridden_target entry t; s1 = server_emit (PatchTargetStatusCalled t') s;
          ok = (StatusOK, OverrideJson [(''status'', ''override recorded''), (''overrideId'', ho_OverrideID entry), (''action'', or_Action req)])
      in case dv_PatchTargetStatus env t t' (sk_World s1) of
           (Inl e, w) \<Rightarrow> (Inl (StatusInternalServerError, ApiError ''internal error''), server_world w s1)
         | (Inr stored, w) \<Rightarrow>
             (let s2 = server_world w s1
              in if or_Action req = ''Approve''
                 then let a = approval_object runName key (ts_Target (tg_Spec stored)) (decision_identity_name (Some user))
                                (''human override: '' @ or_Reason req);
                          s3 = server_emit (CreateApprovalCalled a) s2
                      in (Inr ok, server_world (snd (dv_CreateApproval env a (sk_World s3))) s3)
                 else (Inr ok, s2)))"

definition handle_override ::
  "('w, 'sel) decision_env \<Rightarrow> (int \<Rightarrow> string) \<Rightarrow> api_request \<Rightarrow> string \<Rightarrow> string \<Rightarrow> 'w server_tick \<Rightarrow> reply \<times> 'w server_tick" where
  "handle_override env stamp r runName key =
     reply_of (
       op_bind (stop_if (aq_Method r \<noteq> MethodPost) method_not_allowed) (\<lambda>_.
       op_bind (need_access env (aq_Authorization r) (decision_attrs runName key)) (\<lambda>user.
       op_bind (read_request (16 * 1024) (dv_DecodeOverride env) r) (\<lambda>req.
       op_bind (stop_if (or_Action req = [] \<or> or_Reason req = []) (StatusBadRequest, ApiError ''action and reason are required'')) (\<lambda>_.
       op_bind (api_call (\<lambda>e. (StatusNotFound, ApiError ''target not found'')) (kb_GetTarget (dv_Kube env) key)) (\<lambda>t.
       op_bind (stop_if (ts_PromotionRunRef (tg_Spec t) \<noteq> runName) (StatusConflict, ApiError ''target/promotionrun mismatch'')) (\<lambda>_.
       op_bind (need_create_approvals env user (or_Action req = ''Approve'')) (\<lambda>_.
         record_override env stamp runName key req user t))))))))"

end
