(* ===== verification/Decision_Reads.thy ===== *)
theory Decision_Reads
  imports Decision_Api
begin

text \<open>
  The reading handlers of the decision API and its router (\<^verbatim>\<open>internal/webhook/decision_api.go\<close>). A
  listing may go on forever when the server answers empty pages with a continue token; the handler
  then has no value.
\<close>

type_synonym 'w read_result = "(reply \<times> 'w) option"

text \<open>\<open>with_read_access\<close> is the method check and the access check of every read.\<close>

definition with_read_access ::
  "('w, 'sel) decision_env \<Rightarrow> api_request \<Rightarrow> resource_attributes list \<Rightarrow> ('w \<Rightarrow> 'w read_result) \<Rightarrow> 'w \<Rightarrow> 'w read_result" where
  "with_read_access env r attrs act w =
     (case require_decision_access (dv_Access env) (aq_Authorization r) attrs w of
        (Inl reply, w') \<Rightarrow> Some (reply, w')
      | (Inr user, w') \<Rightarrow> act w')"

definition with_options ::
  "('w, 'sel) decision_env \<Rightarrow> api_request \<Rightarrow> ('sel list_options \<Rightarrow> 'w \<Rightarrow> 'w read_result) \<Rightarrow> 'w \<Rightarrow> 'w read_result" where
  "with_options env r act w =
     (case list_options_from (dv_Everything env) (dv_ParseSelector env) (aq_Query r) of
        Inl e \<Rightarrow> Some ((StatusBadRequest, ApiError e), w)
      | Inr opts \<Rightarrow> act opts w)"

text \<open>A listing whose failure is the reply \<open>failed\<close>.\<close>

definition with_listing ::
  "('w, 'o) page_call \<Rightarrow> ('o list \<Rightarrow> 'o list) \<Rightarrow> int \<Rightarrow> string \<Rightarrow> ('o list \<times> int \<times> bool \<Rightarrow> 'w \<Rightarrow> 'w read_result) \<Rightarrow> 'w \<Rightarrow> 'w read_result" where
  "with_listing call keep limit failed act w =
     (case list_decision_items call keep limit w of
        None \<Rightarrow> None
      | Some (Inl e, w') \<Rightarrow> Some ((StatusInternalServerError, ApiError failed), w')
      | Some (Inr found, w') \<Rightarrow> act found w')"

definition cluster_summary_of :: "cluster \<Rightarrow> cluster_summary" where
  "cluster_summary_of c =
     \<lparr>csm_Name = cl_Name c, csm_Labels = om_Labels (cl_Meta c), csm_Phase = cluster_phase_string (cst_Phase (cl_Status c)),
      csm_Healthy = h_AllWorkloadsReady (cst_Health (cl_Status c)), csm_LastHeartbeat = cst_LastHeartbeat (cl_Status c),
      csm_Versions = cst_CurrentVersions (cl_Status c)\<rparr>"

definition run_overview_of :: "promotion_run \<Rightarrow> run_overview" where
  "run_overview_of r =
     \<lparr>rov_Name = run_Name r, rov_Phase = run_phase_string (rst_Phase (run_Status r)),
      rov_Plan = (case prs_Plans (run_Spec r) of [] \<Rightarrow> [] | p # ps \<Rightarrow> pr_Plan p), rov_StartedAt = rst_StartedAt (run_Status r)\<rparr>"

definition count_if :: "('o \<Rightarrow> bool) \<Rightarrow> 'o list \<Rightarrow> int" where
  "count_if P xs = int (length (filter P xs))"

definition cluster_ready :: "cluster \<Rightarrow> bool" where
  "cluster_ready c \<longleftrightarrow> h_AllWorkloadsReady (cst_Health (cl_Status c))"

definition fleet_view ::
  "'sel list_options \<Rightarrow> string \<Rightarrow> cluster list \<times> int \<times> bool \<Rightarrow> promotion_run list \<times> int \<times> bool \<Rightarrow> target list \<times> int \<times> bool \<Rightarrow> fleet_summary" where
  "fleet_view opts now clusters runs pending =
     (let (cs, nc, tc) = clusters; (rs, nr, tr) = runs; (ts, nt, tt) = pending
      in \<lparr>fs_GeneratedAt = now, fs_TotalClusters = int (length cs), fs_HealthyClusters = count_if cluster_ready cs,
          fs_DegradedClusters = count_if (\<lambda>c. \<not> cluster_ready c) cs,
          fs_ActivePromotionRuns = count_if (\<lambda>r. rst_Phase (run_Status r) = RunProgressing) rs,
          fs_PendingDecisions = count_if (\<lambda>t. tg_Phase t = PhaseWaitingApproval) ts,
          fs_Clusters = map cluster_summary_of cs, fs_PromotionRuns = map run_overview_of rs,
          fs_Page = \<lparr>pg_Limit = lo_Limit opts, pg_LabelSelector = lo_LabelSelector opts, pg_Phase = lo_Phase opts,
            pg_Truncated = (tc \<or> tr \<or> tt),
            pg_Counts = [(''clusters'', nc), (''promotionruns'', nr), (''pendingdecisions'', nt)]\<rparr>\<rparr>)"

definition handle_fleet :: "('w, 'sel) decision_env \<Rightarrow> api_request \<Rightarrow> 'w \<Rightarrow> 'w read_result" where
  "handle_fleet env r w =
     (if aq_Method r \<noteq> MethodGet then Some (method_not_allowed, w)
      else with_read_access env r
        [kapro_attrs ''list'' ''clusters'' [], kapro_attrs ''list'' ''promotionruns'' [], kapro_attrs ''list'' ''targets'' []]
        (with_options env r (\<lambda>opts.
           with_listing (dv_ListClusters env (lo_Selector opts)) (filter_clusters_by_phase (lo_Phase opts)) (lo_Limit opts)
             ''failed to list clusters'' (\<lambda>clusters.
           with_listing (dv_ListRuns env (lo_Selector opts)) (filter_runs_by_phase (lo_Phase opts)) (lo_Limit opts)
             ''failed to list promotionruns'' (\<lambda>runs.
             let finish = (\<lambda>pending w'. Some ((StatusOK, FleetJson (fleet_view opts (rfc_now (dv_Kube env) w') clusters runs pending)), w'))
             in if lo_Phase opts = [] \<or> equal_fold (target_phase_string PhaseWaitingApproval) (lo_Phase opts)
                then with_listing (dv_ListTargets env (lo_Selector opts)) (filter_pending_targets (lo_Phase opts)) (lo_Limit opts)
                       ''failed to list targets'' finish
                else finish ([], 0, False))))) w)"

definition handle_run_context :: "('w, 'sel) decision_env \<Rightarrow> api_request \<Rightarrow> string \<Rightarrow> 'w \<Rightarrow> 'w read_result" where
  "handle_run_context env r runName w =
     (if aq_Method r \<noteq> MethodGet then Some (method_not_allowed, w)
      else with_read_access env r [kapro_attrs ''get'' ''promotionruns'' runName, kapro_attrs ''list'' ''targets'' []]
        (with_options env r (\<lambda>opts w1.
           case kb_GetRun (dv_Reader env) runName w1 of
             (Inl e, w2) \<Rightarrow> Some ((StatusNotFound, ApiError ''promotionrun not found''), w2)
           | (Inr run, w2) \<Rightarrow>
               (let (pl, w3) = (case prs_Plans (run_Spec run) of
                      [] \<Rightarrow> (None, w2)
                    | p # ps \<Rightarrow>
                        (case kb_GetPlan (dv_Reader env) (pr_Plan p) w2 of (Inl e, w') \<Rightarrow> (None, w') | (Inr x, w') \<Rightarrow> (Some x, w')));
                    opts' = with_run_selector (dv_AddRun env) runName opts
                in with_listing (dv_ListTargets env (lo_Selector opts')) (filter_targets_for_run runName (lo_Phase opts')) (lo_Limit opts')
                     ''failed to list targets'' (\<lambda>(ts, n, truncated) w4.
                       Some ((StatusOK, RunContextJson
                         \<lparr>rcx_GeneratedAt = rfc_now (dv_Kube env) w4, rcx_PromotionRun = run, rcx_Plan = pl, rcx_Targets = ts,
                          rcx_Page = \<lparr>pg_Limit = lo_Limit opts, pg_LabelSelector = lo_LabelSelector opts, pg_Phase = lo_Phase opts,
                            pg_Truncated = truncated, pg_Counts = [(''targets'', n)]\<rparr>\<rparr>), w4)) w3))) w)"

definition handle_gate_context :: "('w, 'sel) decision_env \<Rightarrow> api_request \<Rightarrow> string \<Rightarrow> string \<Rightarrow> 'w \<Rightarrow> 'w read_result" where
  "handle_gate_context env r runName key w =
     (if aq_Method r \<noteq> MethodGet then Some (method_not_allowed, w)
      else with_read_access env r [kapro_attrs ''get'' ''promotionruns'' runName, kapro_attrs ''get'' ''targets'' key] (\<lambda>w1.
        case kb_GetRun (dv_Reader env) runName w1 of
          (Inl e, w2) \<Rightarrow> Some ((StatusNotFound, ApiError ''promotionrun not found''), w2)
        | (Inr run, w2) \<Rightarrow>
            (case kb_GetTarget (dv_Reader env) key w2 of
               (Inl e, w3) \<Rightarrow> Some ((StatusNotFound, ApiError ''target not found''), w3)
             | (Inr t, w3) \<Rightarrow>
                 (if ts_PromotionRunRef (tg_Spec t) \<noteq> runName
                  then Some ((StatusConflict, ApiError ''target/promotionrun mismatch''), w3)
                  else case kb_GetCluster (dv_Reader env) (ts_Target (tg_Spec t)) w3 of
                    (got, w4) \<Rightarrow>
                      Some ((StatusOK, GateContextJson
                        \<lparr>gvx_GeneratedAt = rfc_now (dv_Kube env) w4, gvx_Target = t, gvx_PromotionRun = run,
                         gvx_Cluster = (case got of Inl e \<Rightarrow> None | Inr c \<Rightarrow> Some c)\<rparr>), w4)))) w)"

text \<open>\<^verbatim>\<open>strings.TrimSuffix\<close>\<close>

definition trim_suffix :: "string \<Rightarrow> string \<Rightarrow> string" where
  "trim_suffix s suffix = rev (trim_prefix (rev s) (rev suffix))"

definition handle_cluster_health :: "('w, 'sel) decision_env \<Rightarrow> api_request \<Rightarrow> 'w \<Rightarrow> 'w read_result" where
  "handle_cluster_health env r w =
     (let name = trim_suffix (trim_prefix (aq_Path r) ''/api/v1/clusters/'') ''/health''
      in if aq_Method r \<noteq> MethodGet then Some (method_not_allowed, w)
         else if name = [] then Some ((StatusBadRequest, ApiError ''cluster name required''), w)
         else with_read_access env r [kapro_attrs ''get'' ''clusters'' name] (\<lambda>w1.
           case kb_GetCluster (dv_Reader env) name w1 of
             (Inl e, w2) \<Rightarrow> Some ((StatusNotFound, ApiError ''cluster not found''), w2)
           | (Inr c, w2) \<Rightarrow> Some ((StatusOK, ClusterHealthJson c), w2)) w)"

section \<open>The router of runs\<close>

datatype run_route =
    RouteContext string
  | RouteGate string string
  | RouteDecide string string
  | RouteOverride string string
  | RouteNotFound

definition route_promotion_run :: "string \<Rightarrow> run_route" where
  "route_promotion_run path =
     (case split_on (CHR ''/'') (trim_prefix path ''/api/v1/promotionruns/'') of
        [name, last_part] \<Rightarrow> (if last_part = ''context'' then RouteContext name else RouteNotFound)
      | [name, middle, key, last_part] \<Rightarrow>
          (if middle \<noteq> ''targets'' then RouteNotFound
           else if last_part = ''gate'' then RouteGate name key
           else if last_part = ''decide'' then RouteDecide name key
           else if last_part = ''override'' then RouteOverride name key
           else RouteNotFound)
      | _ \<Rightarrow> RouteNotFound)"

text \<open>A request on a run: the tick of a read is unchanged but for the world.\<close>

definition serve_promotion_run ::
  "('w, 'sel) decision_env \<Rightarrow> (int \<Rightarrow> string) \<Rightarrow> api_request \<Rightarrow> 'w server_tick \<Rightarrow> (reply \<times> 'w server_tick) option" where
  "serve_promotion_run env stamp r s =
     (let read = map_option (\<lambda>(reply, w). (reply, server_world w s))
      in case route_promotion_run (aq_Path r) of
           RouteContext name \<Rightarrow> read (handle_run_context env r name (sk_World s))
         | RouteGate name key \<Rightarrow> read (handle_gate_context env r name key (sk_World s))
         | RouteDecide name key \<Rightarrow> Some (handle_decide env r name key s)
         | RouteOverride name key \<Rightarrow> Some (handle_override env stamp r name key s)
         | RouteNotFound \<Rightarrow> Some ((StatusNotFound, ApiError ''not found''), s))"

end
