(* ===== verification/Decision_Properties.thy ===== *)
theory Decision_Properties
  imports Decision_Reads Agent_Properties Approval_Properties Effect_Log
begin

text \<open>
  What the decision API guarantees, and where it does not do what it means to: an approval is
  created only for an authenticated and authorised request on an open target that the policy
  allows; a recorded decision is final; the bounded listing is exact; and the ways in which a policy
  is bypassed, an approval is lost and the documented role is refused.
\<close>

interpretation server_log: effect_log sk_Log server_emit server_world
  by unfold_locales (simp_all add: server_emit_def server_world_def)

lemma op_bind_result:
  assumes "op_bind m f s = (r, s')"
  obtains (stopped) e where "m s = (Inl e, s')" "r = Inl e"
  | (went_on) x s1 where "m s = (Inr x, s1)" "f x s1 = (r, s')"
  using assms by (auto simp: op_bind_def split: prod.splits sum.splits)

section \<open>Steps that write nothing\<close>

text \<open>A quiet step leaves the log as it is.\<close>

definition writes_nothing :: "('w, 'a) api_step \<Rightarrow> bool" where
  "writes_nothing m \<longleftrightarrow> (\<forall>s. sk_Log (snd (m s)) = sk_Log s)"

lemma quietD: "writes_nothing m \<Longrightarrow> m s = (r, s') \<Longrightarrow> sk_Log s' = sk_Log s"
  by (metis writes_nothing_def snd_conv)

lemma quiet_bind: "writes_nothing m \<Longrightarrow> (\<And>x. writes_nothing (f x)) \<Longrightarrow> writes_nothing (op_bind m f)"
  by (auto simp: writes_nothing_def op_bind_def split: prod.splits sum.splits) (metis snd_conv)+

lemma server_world_log [simp]: "sk_Log (server_world w s) = sk_Log s"
  by (simp add: server_world_def)

lemma quiet_steps:
  "writes_nothing (stop_if b r)" "writes_nothing (api_call f call)" "writes_nothing (need_access env auth attrs)" "writes_nothing (need_create_approvals env user b)"
  "writes_nothing (read_request n decode q)" "writes_nothing (check_decision req)" "writes_nothing (find_policy env name)" "writes_nothing (apply_policy env p t req)"
  by (auto simp: writes_nothing_def stop_if_def api_call_def need_access_def need_create_approvals_def read_request_def check_decision_def
      find_policy_def resolve_agent_policy_def apply_policy_def Let_def split: prod.splits sum.splits option.splits)

lemma quiet_open_target: "writes_nothing (open_target env runName key req)"
  unfolding open_target_def
  by (intro quiet_bind quiet_steps) (auto simp: writes_nothing_def split: option.splits)

section \<open>Slots write the status of the policy only\<close>

fun policy_write :: "server_effect \<Rightarrow> bool" where
  "policy_write (UpdatePolicyStatusCalled p) = True"
| "policy_write _ = False"

lemma policy_write_emit:
  "log_adds sk_Log policy_write s (server_emit (UpdatePolicyStatusCalled p) s)"
  "log_adds sk_Log policy_write (server_emit (UpdatePolicyStatusCalled p) s) s' \<Longrightarrow> log_adds sk_Log policy_write s s'"
  by (simp_all add: server_log.adds_emit server_log.adds_before)

lemmas policy_write_steps = server_log.adds_refl server_log.adds_at policy_write_emit(1)

lemma reserve_passes_writes:
  "reserve_passes env ns name now n p s = (r, s') \<Longrightarrow> log_adds sk_Log policy_write s s'"
proof (induction env ns name now n p s arbitrary: r s' rule: reserve_passes.induct)
  case (2 env ns name now n p s)
  show ?case
  proof (cases "try_slot now p")
    case (Inl reason)
    then show ?thesis using 2(2) by (simp add: policy_write_steps)
  next
    case (Inr p')
    let ?s = "server_emit (UpdatePolicyStatusCalled p') s"
    have "log_adds sk_Log policy_write ?s s'"
      using 2(1) [OF Inr refl] 2(2) Inr
      by (auto simp: Let_def policy_write_steps split: sum.splits prod.splits if_splits)
    then show ?thesis by (rule policy_write_emit(2))
  qed
qed (simp add: policy_write_steps)

lemma release_passes_writes:
  "release_passes env ns name n s = (r, s') \<Longrightarrow> log_adds sk_Log policy_write s s'"
proof (induction env ns name n s arbitrary: r s' rule: release_passes.induct)
  case (2 env ns name n s)
  show ?case
  proof (cases "pe_GetPolicy env ns name (sk_World s)")
    case (Pair got w)
    show ?thesis
    proof (cases got)
      case (Inl e)
      then show ?thesis using 2(2) Pair by (auto simp: policy_write_steps)
    next
      case (Inr fresh)
      show ?thesis
      proof (cases "apst_ActiveDecisions (agp_Status fresh) \<le> 0")
        case True
        then show ?thesis using 2(2) Pair Inr by (auto simp: Let_def policy_write_steps)
      next
        case False
        let ?s = "server_emit (UpdatePolicyStatusCalled (return_slot fresh)) (server_world w s)"
        have "log_adds sk_Log policy_write ?s s'"
          using 2(1) [OF Pair [symmetric] Inr refl False refl refl] 2(2) Pair Inr False
          by (auto simp: Let_def policy_write_steps split: sum.splits prod.splits if_splits)
        then have "log_adds sk_Log policy_write (server_world w s) s'" by (rule policy_write_emit(2))
        then show ?thesis by (simp add: policy_write_steps)
      qed
    qed
  qed
qed (simp add: policy_write_steps)

lemma reserve_slot_writes: "reserve_slot env policy s = (r, s') \<Longrightarrow> log_adds sk_Log policy_write s s'"
  by (auto simp: reserve_slot_def reserve_agent_policy_slot_def policy_write_steps split: option.splits prod.splits sum.splits
      dest: reserve_passes_writes)

lemma release_slot_writes: "release_slot env policy s = (b, s') \<Longrightarrow> log_adds sk_Log policy_write s s'"
  by (auto simp: release_slot_def release_agent_policy_slot_def policy_write_steps split: option.splits prod.splits
      dest: release_passes_writes)

section \<open>Who may decide\<close>

text \<open>The rights are asked for one after the other, each in the world the answer before it left.\<close>

fun granted_in_turn ::
  "(user_info \<Rightarrow> resource_attributes \<Rightarrow> 'w \<Rightarrow> go_error option \<times> 'w) \<Rightarrow> user_info \<Rightarrow> resource_attributes list \<Rightarrow> 'w \<Rightarrow> 'w \<Rightarrow> bool" where
  "granted_in_turn authorize user [] w w' \<longleftrightarrow> w' = w"
| "granted_in_turn authorize user (a # as) w w' \<longleftrightarrow>
     fst (authorize user a w) = None \<and> granted_in_turn authorize user as (snd (authorize user a w)) w'"

definition access_at :: "'w access_env \<Rightarrow> string \<Rightarrow> user_info \<Rightarrow> resource_attributes list \<Rightarrow> 'w \<Rightarrow> 'w \<Rightarrow> bool" where
  "access_at env auth user attrs w w' \<longleftrightarrow>
     (\<exists>authenticate authorize token w1. ax_Authenticate env = Some authenticate \<and> ax_Authorize env = Some authorize \<and>
        bearer_token auth = Some token \<and> authenticate token w = (Inr user, w1) \<and> granted_in_turn authorize user attrs w1 w')"

lemma authorize_all_granted:
  "authorize_all authorize user attrs w = (None, w') \<Longrightarrow> granted_in_turn authorize user attrs w w'"
  by (induction attrs arbitrary: w) (auto split: prod.splits option.splits)

lemma need_access_granted:
  assumes "need_access env auth attrs s = (Inr user, s')"
  shows "access_at (dv_Access env) auth user attrs (sk_World s) (sk_World s')"
proof -
  obtain authenticate authorize where ax: "ax_Authenticate (dv_Access env) = Some authenticate" "ax_Authorize (dv_Access env) = Some authorize"
    using assms by (auto simp: need_access_def require_decision_access_def split: option.splits)
  obtain token where token: "bearer_token auth = Some token"
    using assms ax by (auto simp: need_access_def require_decision_access_def split: option.splits)
  obtain got w1 where got: "authenticate token (sk_World s) = (got, w1)" by fastforce
  have "authenticate token (sk_World s) = (Inr user, w1) \<and> authorize_all authorize user attrs w1 = (None, sk_World s')"
  proof (cases got)
    case (Inl e)
    then show ?thesis using assms ax token got by (simp add: need_access_def require_decision_access_def)
  next
    case (Inr u)
    obtain denied w2 where asked: "authorize_all authorize u attrs w1 = (denied, w2)" by fastforce
    then show ?thesis
      using assms ax token got Inr
      by (cases denied) (auto simp: need_access_def require_decision_access_def authorize_decision_user_def server_world_def)
  qed
  then show ?thesis using ax token authorize_all_granted [of authorize user attrs w1 "sk_World s'"] by (simp add: access_at_def)
qed

lemma need_create_granted:
  assumes "need_create_approvals env user True s = (Inr u, s')"
  shows "\<exists>authorize. ax_Authorize (dv_Access env) = Some authorize \<and>
    authorize user (kapro_attrs ''create'' ''approvals'' []) (sk_World s) = (None, sk_World s')"
  using assms
  by (auto simp: need_create_approvals_def authorize_decision_user_def server_world_def split: prod.splits option.splits)

text \<open>The run and then the target are read: the run is not suspended, the target is its own, waits and is undecided.\<close>

definition open_at :: "('w, 'sel) decision_env \<Rightarrow> string \<Rightarrow> string \<Rightarrow> target \<Rightarrow> 'w \<Rightarrow> 'w \<Rightarrow> bool" where
  "open_at env runName key t w w' \<longleftrightarrow>
     (\<exists>run w1. kb_GetRun (dv_Kube env) runName w = (Inr run, w1) \<and> \<not> prs_Suspended (run_Spec run) \<and>
        kb_GetTarget (dv_Kube env) key w1 = (Inr t, w')) \<and>
     ts_PromotionRunRef (tg_Spec t) = runName \<and> tg_Phase t = PhaseWaitingApproval \<and> current_decision t = None"

lemma stop_if_Inr: "stop_if b r s = (Inr u, s') \<longleftrightarrow> \<not> b \<and> s' = s"
  by (auto simp: stop_if_def)

lemma api_call_Inr: "api_call f call s = (Inr x, s') \<longleftrightarrow> (\<exists>w. call (sk_World s) = (Inr x, w) \<and> s' = server_world w s)"
  by (auto simp: api_call_def split: prod.splits sum.splits)

lemma op_bind_Inr: "op_bind m f s = (Inr y, s') \<longleftrightarrow> (\<exists>x s1. m s = (Inr x, s1) \<and> f x s1 = (Inr y, s'))"
  by (auto simp: op_bind_def split: prod.splits sum.splits)

lemma open_target_open:
  assumes "open_target env runName key req s = (Inr t, s')"
  shows "open_at env runName key t (sk_World s) (sk_World s')"
  using assms unfolding open_target_def open_at_def
  by (auto simp: op_bind_Inr stop_if_Inr api_call_Inr server_world_def split: option.splits)

text \<open>
  What the policies have to say: the listing failed, or it names no policy for the agent, or the one
  it names, judged by the clock and the cluster read after it, allows the decision and turns it neither into a
  recommendation nor into a request for a human.
\<close>

definition policies_allow :: "('w, 'sel) decision_env \<Rightarrow> string \<Rightarrow> target \<Rightarrow> decision_request \<Rightarrow> 'w \<Rightarrow> 'w \<Rightarrow> bool" where
  "policies_allow env agentName t req w w' \<longleftrightarrow>
     (\<exists>listing w1. pe_ListPolicies (dv_Policy env) w = (listing, w1) \<and>
        (case listing of
           Inl e \<Rightarrow> w' = w1
         | Inr ps \<Rightarrow>
             (case best_policy agentName None ps of
                None \<Rightarrow> w' = w1
              | Some p \<Rightarrow>
                  (\<exists>got. kb_GetCluster (dv_Kube env) (ts_Target (tg_Spec t)) w1 = (got, w') \<and>
                    (let pd = judge_policy (dv_Kube env) (pe_Zone (dv_Policy env)) (kb_Now (dv_Kube env) w') (agp_Spec p) t
                          (case got of Inl e \<Rightarrow> None | Inr c \<Rightarrow> Some c) (dr_Confidence req) (int (length (dr_Reasoning req)))
                     in pd_Allowed pd \<and> pd_EffectiveMode pd \<noteq> PolicyRecommend \<and> \<not> pd_RequireHumanCosign pd)))))"

lemma effective_approval:
  "effective_decision pd ''Approve'' = ''Approve'' \<longleftrightarrow> pd_EffectiveMode pd \<noteq> PolicyRecommend \<and> \<not> pd_RequireHumanCosign pd"
  by (simp add: effective_decision_def)

lemma policy_steps_allow:
  assumes "find_policy env agentName s = (Inr policy, s1)" "apply_policy env policy t req s1 = (Inr (''Approve'', trust), s2)"
    "dr_Decision req = ''Approve''"
  shows "policies_allow env agentName t req (sk_World s) (sk_World s2)"
proof -
  obtain listing w where list: "pe_ListPolicies (dv_Policy env) (sk_World s) = (listing, w)" by fastforce
  have w: "sk_World s1 = w"
    using assms(1) list by (auto simp: find_policy_def resolve_agent_policy_def server_world_def split: sum.splits)
  show ?thesis
  proof (cases listing)
    case (Inl e)
    then have "policy = None" using assms(1) list by (auto simp: find_policy_def resolve_agent_policy_def)
    then show ?thesis using assms(2) list Inl w by (simp add: policies_allow_def apply_policy_def)
  next
    case (Inr ps)
    then have best: "best_policy agentName None ps = policy" using assms(1) list by (auto simp: find_policy_def resolve_agent_policy_def)
    show ?thesis
    proof (cases policy)
      case None
      then show ?thesis using assms(2) list Inr best w by (simp add: policies_allow_def apply_policy_def)
    next
      case (Some p)
      obtain got w2 where got: "kb_GetCluster (dv_Kube env) (ts_Target (tg_Spec t)) w = (got, w2)" by fastforce
      let ?pd = "judge_policy (dv_Kube env) (pe_Zone (dv_Policy env)) (kb_Now (dv_Kube env) w2) (agp_Spec p) t
        (case got of Inl e \<Rightarrow> None | Inr c \<Rightarrow> Some c) (dr_Confidence req) (int (length (dr_Reasoning req)))"
      have "pd_Allowed ?pd \<and> effective_decision ?pd (dr_Decision req) = ''Approve'' \<and> sk_World s2 = w2"
        using assms(2) Some got w by (auto simp: apply_policy_def enforce_agent_policy_def Let_def server_world_def split: if_splits)
      then show ?thesis
        using list Inr best Some got effective_approval [of ?pd] assms(3) by (simp add: policies_allow_def Let_def)
    qed
  qed
qed

text \<open>The request, up to the open target, from the world it arrives in.\<close>

definition asked ::
  "('w, 'sel) decision_env \<Rightarrow> api_request \<Rightarrow> string \<Rightarrow> string \<Rightarrow> 'w \<Rightarrow> user_info \<Rightarrow> decision_request \<Rightarrow> target \<Rightarrow> 'w \<Rightarrow> bool" where
  "asked env r runName key w user req t w' \<longleftrightarrow>
     aq_Method r = MethodPost \<and>
     (\<exists>w1 body. access_at (dv_Access env) (aq_Authorization r) user (decision_attrs runName key) w w1 \<and>
        aq_ReadBody r = Inr body \<and> dv_DecodeDecision env (take (64 * 1024) body) = Inr req \<and>
        open_at env runName key t w1 w')"

definition approval_earned :: "('w, 'sel) decision_env \<Rightarrow> api_request \<Rightarrow> string \<Rightarrow> string \<Rightarrow> 'w \<Rightarrow> approval \<Rightarrow> bool" where
  "approval_earned env r runName key w a \<longleftrightarrow>
     (\<exists>user req t w1 w2 authorize w3 entry w4 stored w5.
        asked env r runName key w user req t w1 \<and> dr_Decision req = ''Approve'' \<and>
        policies_allow env (decision_identity_name (Some user)) t req w1 w2 \<and>
        ax_Authorize (dv_Access env) = Some authorize \<and> authorize user (kapro_attrs ''create'' ''approvals'' []) w2 = (None, w3) \<and>
        de_EffectiveDecision entry = ''Approve'' \<and> dv_PatchTargetStatus env t (decided_target entry t) w4 = (Inr stored, w5) \<and>
        a = approval_object runName key (ts_Target (tg_Spec stored)) (''agent:'' @ decision_identity_name (Some user)) (decision_comment req))"

definition write_earned :: "('w, 'sel) decision_env \<Rightarrow> api_request \<Rightarrow> string \<Rightarrow> string \<Rightarrow> 'w \<Rightarrow> server_effect \<Rightarrow> bool" where
  "write_earned env r runName key w e = (case e of CreateApprovalCalled a \<Rightarrow> approval_earned env r runName key w a | _ \<Rightarrow> True)"

lemma policy_write_earned: "policy_write e \<Longrightarrow> write_earned env r runName key w e"
  by (cases e) (simp_all add: write_earned_def)

lemma record_decision_writes:
  assumes "record_decision env runName key req agentName entry t s = (res, s')"
    and earned: "\<And>w stored w'. dr_Decision req = ''Approve'' \<Longrightarrow> de_EffectiveDecision entry = ''Approve'' \<Longrightarrow>
      dv_PatchTargetStatus env t (decided_target entry t) w = (Inr stored, w') \<Longrightarrow>
      P (CreateApprovalCalled (approval_object runName key (ts_Target (tg_Spec stored)) (''agent:'' @ agentName) (decision_comment req)))"
    and patch: "\<And>x. P (PatchTargetStatusCalled x)"
  shows "log_adds sk_Log P s s'"
  using assms(1) earned patch
  by (auto simp: record_decision_def Let_def server_log.adds_at intro!: server_log.adds_after server_log.adds_refl
      split: prod.splits sum.splits if_splits)

lemma with_slot_writes:
  assumes "with_slot env policy m ok s = (r, s')" "\<And>res s1. m s = (res, s1) \<Longrightarrow> log_adds sk_Log P s s1"
    and "\<And>e. policy_write e \<Longrightarrow> P e"
  shows "log_adds sk_Log P s s'"
proof -
  have release: "log_adds sk_Log P x y" if "release_slot env policy x = (b, y)" for x y b
    using log_adds_mono [OF release_slot_writes [OF that]] assms(3) by blast
  show ?thesis
    using assms(1,2) release
    by (auto simp: with_slot_def split: prod.splits sum.splits if_splits) (meson log_adds_trans)+
qed

lemma decide_open_target_writes:
  assumes run: "decide_open_target env r runName key user req t s = (res, s')"
    and asked: "asked env r runName key w user req t (sk_World s)"
  shows "log_adds sk_Log (write_earned env r runName key w) s s'"
proof -
  let ?P = "write_earned env r runName key w"
  have same: "log_adds sk_Log ?P x y" if "writes_nothing m" "m x = (z, y)" for x y z and m :: "('w, 'c) api_step"
    using quietD [OF that] by (rule log_adds_same)
  note chain = run [unfolded decide_open_target_def Let_def]
  show ?thesis using chain
  proof (cases rule: op_bind_result)
    case (stopped e)
    then show ?thesis using quietD [OF quiet_steps(7)] by (metis log_adds_same)
  next
    case (went_on policy s1)
    have a1: "log_adds sk_Log ?P s s1" using quietD [OF quiet_steps(7) went_on(1)] by (rule log_adds_same)
    show ?thesis using went_on(2)
    proof (cases rule: op_bind_result)
      case (stopped e)
      then show ?thesis using a1 quietD [OF quiet_steps(8)] by (metis log_adds_same log_adds_trans)
    next
      case judged: (went_on pair s2)
      obtain effective trust where pair: "pair = (effective, trust)" by (cases pair)
      have allow: "policies_allow env (decision_identity_name (Some user)) t req (sk_World s) (sk_World s2)"
        if "dr_Decision req = ''Approve''" "effective = ''Approve''"
        using policy_steps_allow [OF went_on(1)] judged(1) pair that by simp
      have a2: "log_adds sk_Log ?P s s2"
        using a1 quietD [OF quiet_steps(8) judged(1)] by (metis log_adds_same log_adds_trans)
      show ?thesis using judged(2) unfolding pair prod.case
      proof (cases rule: op_bind_result)
        case (stopped e)
        then show ?thesis using a2 quietD [OF quiet_steps(4)] by (metis log_adds_same log_adds_trans)
      next
        case checked: (went_on u s3)
        have a3: "log_adds sk_Log ?P s s3"
          using a2 quietD [OF quiet_steps(4) checked(1)] by (metis log_adds_same log_adds_trans)
        have earned: "?P (CreateApprovalCalled (approval_object runName key (ts_Target (tg_Spec stored))
            (''agent:'' @ decision_identity_name (Some user)) (decision_comment req)))"
          if "dr_Decision req = ''Approve''" "effective = ''Approve''" "de_EffectiveDecision entry = effective"
            "dv_PatchTargetStatus env t (decided_target entry t) w4 = (Inr stored, w5)" for entry w4 stored w5
          using that asked allow need_create_granted [of env user s2 u s3] checked(1)
          unfolding write_earned_def server_effect.case approval_earned_def by fastforce
        show ?thesis using checked(2)
        proof (cases rule: op_bind_result)
          case (stopped e)
          then show ?thesis
            using a3 log_adds_mono [OF reserve_slot_writes] policy_write_earned by (metis log_adds_trans)
        next
          case reserved: (went_on slot s4)
          have a4: "log_adds sk_Log ?P s s4"
            using a3 log_adds_mono [OF reserve_slot_writes [OF reserved(1)]] policy_write_earned by (metis log_adds_trans)
          let ?entry = "decision_entry_of req effective trust user (extract_jwt_fingerprint (aq_Authorization r)) (rfc_now (dv_Kube env) (sk_World s))"
          have effective: "de_EffectiveDecision ?entry = effective" by (simp add: decision_entry_of_def)
          have "log_adds sk_Log ?P s4 s'"
          proof (rule with_slot_writes [OF reserved(2)])
            fix res2 s5
            assume "record_decision env runName key req (decision_identity_name (Some user))
              (decision_entry_of req effective trust user (extract_jwt_fingerprint (aq_Authorization r)) (rfc_now (dv_Kube env) (sk_World s))) t s4
              = (res2, s5)"
            then show "log_adds sk_Log ?P s4 s5"
            proof (rule record_decision_writes)
              fix w4 stored w5
              assume d: "dr_Decision req = ''Approve''" and e: "de_EffectiveDecision ?entry = ''Approve''"
                and p: "dv_PatchTargetStatus env t (decided_target ?entry t) w4 = (Inr stored, w5)"
              show "?P (CreateApprovalCalled (approval_object runName key (ts_Target (tg_Spec stored))
                  (''agent:'' @ decision_identity_name (Some user)) (decision_comment req)))"
                by (rule earned [OF d _ effective p]) (use e effective in simp)
            qed (simp add: write_earned_def)
          qed (rule policy_write_earned)
          then show ?thesis using a4 by (rule log_adds_trans [rotated])
        qed
      qed
    qed
  qed
qed

section \<open>The whole request\<close>

text \<open>A request ends before the target is open, without a write, or goes on with an open target.\<close>

lemma handle_decide_reaches:
  assumes "handle_decide env r runName key s = (reply, s')"
  obtains (early) "sk_Log s' = sk_Log s"
  | (reached) user req t s1 where "asked env r runName key (sk_World s) user req t (sk_World s1)" "sk_Log s1 = sk_Log s"
    "reply_of (decide_open_target env r runName key user req t) s1 = (reply, s')"
proof -
  let ?late = "\<lambda>user req t. decide_open_target env r runName key user req t"
  let ?chain = "op_bind (stop_if (aq_Method r \<noteq> MethodPost) method_not_allowed) (\<lambda>_.
       op_bind (need_access env (aq_Authorization r) (decision_attrs runName key)) (\<lambda>user.
       op_bind (read_request (64 * 1024) (dv_DecodeDecision env) r) (\<lambda>req.
       op_bind (check_decision req) (\<lambda>_.
       op_bind (open_target env runName key req) (?late user req)))))"
  obtain res where res: "?chain s = (res, s')" and reply: "reply_of (\<lambda>_. (res, s')) s = (reply, s')"
    using assms unfolding handle_decide_def reply_of_def by (cases "?chain s") (auto split: sum.splits)
  note log = quietD [OF quiet_steps(1)] quietD [OF quiet_steps(3)] quietD [OF quiet_steps(5)] quietD [OF quiet_steps(6)]
    quietD [OF quiet_open_target]
  show ?thesis using res
  proof (cases rule: op_bind_result)
    case (stopped e)
    then show ?thesis using early log(1) by blast
  next
    case 1: (went_on u s1)
    show ?thesis using 1(2)
    proof (cases rule: op_bind_result)
      case (stopped e)
      then show ?thesis using early log(1) [OF 1(1)] log(2) by metis
    next
      case 2: (went_on user s2)
      show ?thesis using 2(2)
      proof (cases rule: op_bind_result)
        case (stopped e)
        then show ?thesis using early log(1) [OF 1(1)] log(2) [OF 2(1)] log(3) by metis
      next
        case 3: (went_on req s3)
        show ?thesis using 3(2)
        proof (cases rule: op_bind_result)
          case (stopped e)
          then show ?thesis using early log(1) [OF 1(1)] log(2) [OF 2(1)] log(3) [OF 3(1)] log(4) by metis
        next
          case 4: (went_on v s4)
          show ?thesis using 4(2)
          proof (cases rule: op_bind_result)
            case (stopped e)
            then show ?thesis using early log(1) [OF 1(1)] log(2) [OF 2(1)] log(3) [OF 3(1)] log(4) [OF 4(1)] log(5) by metis
          next
            case 5: (went_on t s5)
            have "sk_Log s5 = sk_Log s"
              using log(1) [OF 1(1)] log(2) [OF 2(1)] log(3) [OF 3(1)] log(4) [OF 4(1)] log(5) [OF 5(1)] by simp
            moreover have "reply_of (?late user req t) s5 = (reply, s')" using 5(2) reply by (simp add: reply_of_def)
            moreover have "asked env r runName key (sk_World s) user req t (sk_World s5)"
              using 1(1) need_access_granted [OF 2(1)] open_target_open [OF 5(1)] 3(1) 4(1)
              by (auto simp: asked_def stop_if_Inr read_request_def check_decision_def split: sum.splits option.splits)
            ultimately show ?thesis using reached by blast
          qed
        qed
      qed
    qed
  qed
qed

text \<open>C4. The decision API creates an approval only for a post whose bearer token is authenticated as a user
  who, asked in turn, may read the run and the target and patch its status; whose body decodes to a decision to approve; the run,
  read next, is not suspended, and the target, read after it, belongs to it, waits for approval and carries no
  decision; unless the listing of the policies then fails or names none for the user, the policy it names allows the decision
  by the clock and the cluster read after it and makes it neither a recommendation nor a matter for a human; the user may create
  approvals; and the decision has been stored as effective. The approval names the authenticated user and the stored target. (A policy
  whose country profile is disabled counts as allowing, as the code has it.)
\<close>

theorem agent_approval_is_earned:
  assumes "handle_decide env r runName key s = (reply, s')" "sk_Log s = []" "CreateApprovalCalled a \<in> set (sk_Log s')"
  shows "approval_earned env r runName key (sk_World s) a"
  using assms(1)
proof (cases rule: handle_decide_reaches)
  case early
  then show ?thesis using assms(2,3) by simp
next
  case (reached user req t s1)
  obtain res where "decide_open_target env r runName key user req t s1 = (res, s')"
    using reached(3) by (auto simp: reply_of_def split: prod.splits sum.splits)
  from decide_open_target_writes [OF this reached(1)] have "write_earned env r runName key (sk_World s) (CreateApprovalCalled a)"
    by (rule log_adds_member) (use reached(2) assms(2,3) in simp_all)
  then show ?thesis by (simp add: write_earned_def)
qed

text \<open>C20. The first decision is final: once a target carries one, no request writes anything through the
  decision endpoint, whatever it decides, a deferral included.
\<close>

theorem first_decision_is_final:
  assumes "kb_GetTarget (dv_Kube env) key = (\<lambda>w. (Inr t, w))" "current_decision t = Some e"
    "handle_decide env r runName key s = (reply, s')"
  shows "sk_Log s' = sk_Log s"
  using assms(3)
proof (cases rule: handle_decide_reaches)
  case (reached user req t' s1)
  then have "t' = t" using assms(1) by (auto simp: asked_def open_at_def)
  then show ?thesis using reached(1) assms(2) by (auto simp: asked_def open_at_def)
qed

section \<open>Where the policy does not hold\<close>

text \<open>Without a policy, a decision to approve that is authorised is recorded and creates its approval.\<close>

lemma decide_without_policy:
  assumes "find_policy env (decision_identity_name (Some user)) s = (Inr None, s)"
    "ax_Authorize (dv_Access env) = Some (\<lambda>u a w. (None, w))"
    "dv_PatchTargetStatus env = (\<lambda>old new w. (Inr new, w))" "dv_CreateApproval env = (\<lambda>a w. (Inr a, w))"
    "dr_Decision req = ''Approve''"
  shows "decide_open_target env r runName key user req t s =
     (Inr (StatusOK, DecisionJson \<lparr>dp_Accepted = True, dp_DecisionID = dr_IdempotencyKey req, dp_EffectiveDecision = ''Approve'',
        dp_Reason = ''decision recorded''\<rparr>),
      s\<lparr>sk_Log := sk_Log s @
        [PatchTargetStatusCalled (decided_target (decision_entry_of req ''Approve'' ''none'' user
            (extract_jwt_fingerprint (aq_Authorization r)) (rfc_now (dv_Kube env) (sk_World s))) t),
         CreateApprovalCalled (approval_object runName key (ts_Target (tg_Spec t)) (''agent:'' @ decision_identity_name (Some user))
            (decision_comment req))]\<rparr>)"
  using assms
  by (simp add: decide_open_target_def Let_def op_bind_def apply_policy_def
      need_create_approvals_def authorize_decision_user_def reserve_slot_def with_slot_def record_decision_def release_slot_def
      server_world_def server_emit_def decision_entry_of_def decided_target_def with_trace_def)

text \<open>When the policies cannot be listed the decision goes on as if there were none: an approval is
  created at any confidence, although the verdict on a missing policy is to deny.
\<close>

theorem failed_listing_lifts_the_policy:
  assumes "pe_ListPolicies (dv_Policy env) = (\<lambda>w. (Inl err, w))" "ax_Authorize (dv_Access env) = Some (\<lambda>u a w. (None, w))"
    "dv_PatchTargetStatus env = (\<lambda>old new w. (Inr new, w))" "dv_CreateApproval env = (\<lambda>a w. (Inr a, w))"
    "dr_Decision req = ''Approve''"
  shows "\<not> pd_Allowed (enforce_agent_policy kb zone now None t mc confidence n) \<and>
    (\<exists>entry a. de_Confidence entry = dr_Confidence req \<and> de_EffectiveDecision entry = ''Approve'' \<and>
       snd (decide_open_target env r runName key user req t s) =
         s\<lparr>sk_Log := sk_Log s @ [PatchTargetStatusCalled (decided_target entry t), CreateApprovalCalled a]\<rparr>)"
proof -
  have "find_policy env (decision_identity_name (Some user)) s = (Inr None, s)"
    using assms(1) by (simp add: find_policy_def resolve_agent_policy_def server_world_def)
  note run = decide_without_policy [OF this assms(2-5), of r runName key t]
  have "\<not> pd_Allowed (enforce_agent_policy kb zone now None t mc confidence n)"
    by (simp add: enforce_agent_policy_def policy_denied_def)
  then show ?thesis
    by (intro conjI exI [of _ "decision_entry_of req ''Approve'' ''none'' user (extract_jwt_fingerprint (aq_Authorization r))
          (rfc_now (dv_Kube env) (sk_World s))"] exI)
      (simp_all add: run, simp_all add: decision_entry_of_def)
qed

text \<open>A country profile whose mode is \<^verbatim>\<open>disabled\<close> does not disable the agent in that country: the
  policy still allows the decision, and an approval stays an approval.
\<close>

theorem disabled_country_still_approves:
  assumes "pd_Allowed (judge_policy kb zone now spec t mc confidence n)"
    "country_profile (aps_Scope spec) mc = Some cp" "crp_Mode cp = Some PolicyDisabled" "\<not> crp_RequireHumanCosign cp"
  shows "pd_EffectiveMode (judge_policy kb zone now spec t mc confidence n) = PolicyDisabled \<and>
    effective_decision (judge_policy kb zone now spec t mc confidence n) ''Approve'' = ''Approve''"
  using assms
  by (auto simp: judge_policy_def country_effect_def Let_def policy_denied_def effective_decision_def split: if_splits)

section \<open>What happens to the approval\<close>

text \<open>A server that keeps one target and grants the user of the request everything; no policy names the user.\<close>

definition keeps_target :: "('w \<Rightarrow> target) \<Rightarrow> ('w, 'sel) decision_env \<Rightarrow> string \<Rightarrow> bool" where
  "keeps_target view env key \<longleftrightarrow>
     (\<forall>w. kb_GetTarget (dv_Kube env) key w = (Inr (view w), w)) \<and>
     (\<forall>old new w. \<exists>w'. dv_PatchTargetStatus env old new w = (Inr new, w') \<and> view w' = new)"

definition grants_all :: "('w, 'sel) decision_env \<Rightarrow> user_info \<Rightarrow> bool" where
  "grants_all env user \<longleftrightarrow>
     ax_Authenticate (dv_Access env) = Some (\<lambda>token w. (Inr user, w)) \<and>
     ax_Authorize (dv_Access env) = Some (\<lambda>u a w. (None, w)) \<and> pe_ListPolicies (dv_Policy env) = (\<lambda>w. (Inr [], w))"

text \<open>A well-formed post of the decision \<open>req\<close>.\<close>

definition posts_decision :: "('w, 'sel) decision_env \<Rightarrow> api_request \<Rightarrow> decision_request \<Rightarrow> bool" where
  "posts_decision env r req \<longleftrightarrow>
     aq_Method r = MethodPost \<and> bearer_token (aq_Authorization r) \<noteq> None \<and>
     (\<exists>body. aq_ReadBody r = Inr body \<and> dv_DecodeDecision env (take (64 * 1024) body) = Inr req) \<and> validate_decision req = None"

lemma posted_decision_reaches:
  assumes "keeps_target view env key" "grants_all env user" "posts_decision env r req"
    "kb_GetRun (dv_Kube env) runName = (\<lambda>w. (Inr run, w))" "\<not> prs_Suspended (run_Spec run)"
    "ts_PromotionRunRef (tg_Spec (view (sk_World s))) = runName" "tg_Phase (view (sk_World s)) = PhaseWaitingApproval"
  shows "handle_decide env r runName key s =
    (case current_decision (view (sk_World s)) of
       Some e \<Rightarrow> (existing_reply req e, s)
     | None \<Rightarrow> reply_of (decide_open_target env r runName key user req (view (sk_World s))) s)"
  using assms
  by (auto simp: handle_decide_def op_bind_def stop_if_def need_access_def require_decision_access_def authorize_decision_user_def
      decision_attrs_def read_request_def check_decision_def open_target_def api_call_def server_world_def reply_of_def
      keeps_target_def grants_all_def posts_decision_def split: option.splits)

lemma approval_cannot_be_created:
  assumes "keeps_target view env key" "grants_all env user" "dr_Decision req = ''Approve''"
    and failing: "\<And>a w. \<exists>w'. dv_CreateApproval env a w = (Inl (ApiOther msg), w') \<and> view w' = view w"
  shows "\<exists>s1 entry. decide_open_target env r runName key user req t s =
      (Inl (StatusInternalServerError, ApiError ''internal error creating approval''), s1) \<and>
    view (sk_World s1) = decided_target entry t \<and> de_DecisionID entry = dr_IdempotencyKey req \<and>
    de_Decision entry = ''Approve'' \<and> de_EffectiveDecision entry = ''Approve''"
proof -
  let ?entry = "decision_entry_of req ''Approve'' ''none'' user (extract_jwt_fingerprint (aq_Authorization r)) (rfc_now (dv_Kube env) (sk_World s))"
  from assms(1) obtain w where w: "dv_PatchTargetStatus env t (decided_target ?entry t) (sk_World s) = (Inr (decided_target ?entry t), w)"
      "view w = decided_target ?entry t"
    unfolding keeps_target_def by blast
  let ?a = "approval_object runName key (ts_Target (tg_Spec (decided_target ?entry t))) (''agent:'' @ decision_identity_name (Some user))
    (decision_comment req)"
  from failing obtain w' where w': "dv_CreateApproval env ?a w = (Inl (ApiOther msg), w')" "view w' = view w" by blast
  have listed: "find_policy env (decision_identity_name (Some user)) s = (Inr None, s)"
    using assms(2) by (simp add: find_policy_def resolve_agent_policy_def grants_all_def server_world_def)
  have "decide_open_target env r runName key user req t s =
      (Inl (StatusInternalServerError, ApiError ''internal error creating approval''),
       server_world w' (server_emit (CreateApprovalCalled ?a) (server_world w (server_emit (PatchTargetStatusCalled (decided_target ?entry t)) s))))"
    using listed assms(2,3) w(1) w'(1)
    by (simp add: decide_open_target_def Let_def op_bind_def apply_policy_def grants_all_def need_create_approvals_def
        authorize_decision_user_def reserve_slot_def with_slot_def record_decision_def release_slot_def server_world_def
        server_emit_def) (simp add: decision_entry_of_def)
  moreover have "de_DecisionID ?entry = dr_IdempotencyKey req" "de_Decision ?entry = ''Approve''" "de_EffectiveDecision ?entry = ''Approve''"
    using assms(3) by (simp_all add: decision_entry_of_def)
  ultimately show ?thesis using w(2) w'(2) by (auto simp: server_world_def)
qed

text \<open>C40. When a decision to approve is stored on its target but its approval cannot be created, the request fails with
  an internal error and the approval is lost: the same request again, on the server as the first one
  left it, is answered as accepted and writes nothing, and so is every repetition.
\<close>

theorem lost_approval_stays_lost:
  assumes "keeps_target view env key" "grants_all env user" "posts_decision env r req" "dr_Decision req = ''Approve''"
    and failing: "\<And>a w. \<exists>w'. dv_CreateApproval env a w = (Inl (ApiOther msg), w') \<and> view w' = view w"
    and run: "kb_GetRun (dv_Kube env) runName = (\<lambda>w. (Inr run, w))" "\<not> prs_Suspended (run_Spec run)"
    and t: "ts_PromotionRunRef (tg_Spec (view (sk_World s))) = runName" "tg_Phase (view (sk_World s)) = PhaseWaitingApproval"
      "current_decision (view (sk_World s)) = None"
  shows "\<exists>s1. handle_decide env r runName key s = ((StatusInternalServerError, ApiError ''internal error creating approval''), s1) \<and>
    handle_decide env r runName key s1 =
      ((StatusOK, DecisionJson \<lparr>dp_Accepted = True, dp_DecisionID = dr_IdempotencyKey req, dp_EffectiveDecision = ''Approve'',
         dp_Reason = ''idempotent replay''\<rparr>), s1)"
proof -
  note reaches = posted_decision_reaches [OF assms(1-3) run]
  from approval_cannot_be_created [OF assms(1,2,4) failing, of r runName "view (sk_World s)" s]
  obtain s1 entry where s1: "decide_open_target env r runName key user req (view (sk_World s)) s =
        (Inl (StatusInternalServerError, ApiError ''internal error creating approval''), s1)"
      "view (sk_World s1) = decided_target entry (view (sk_World s))" "de_DecisionID entry = dr_IdempotencyKey req"
      "de_Decision entry = ''Approve''" "de_EffectiveDecision entry = ''Approve''" by blast
  have first: "handle_decide env r runName key s = ((StatusInternalServerError, ApiError ''internal error creating approval''), s1)"
    using reaches [OF t(1,2)] t(3) s1(1) by (simp add: reply_of_def)
  have kept: "current_decision (view (sk_World s1)) = Some entry" "tg_Spec (view (sk_World s1)) = tg_Spec (view (sk_World s))"
      "tg_Phase (view (sk_World s1)) = tg_Phase (view (sk_World s))"
    by (simp_all add: s1(2) current_decision_def decided_target_def with_trace_def)
  have "handle_decide env r runName key s1 = (existing_reply req entry, s1)"
    using reaches [of s1] t kept by simp
  then show ?thesis using first s1(3-5) assms(4) by (auto simp: existing_reply_def Let_def)
qed

text \<open>An override reports success when its approval could not be created.\<close>

lemma override_hides_a_failed_approval:
  assumes "dv_PatchTargetStatus env = (\<lambda>old new w. (Inr new, w))" "dv_CreateApproval env = (\<lambda>a w. (Inl (ApiOther msg), w))"
    "or_Action req = ''Approve''"
  shows "\<exists>body s'. record_override env stamp runName key req user t s = (Inr (StatusOK, OverrideJson body), s')"
  using assms by (simp add: record_override_def Let_def)

text \<open>C32. The approval that a decision creates is the one the approval gate of the target reads, unless
  the target is a rollback: then it carries a name that no gate reads.
\<close>

theorem agent_approval_reaches_its_gate:
  assumes "te_PromotionRunRef t = run_Name (ev_PromotionRun tenv)"
  shows "om_Name (ap_Meta (approval_object (te_PromotionRunRef t) (promotion_target_object_name t) target by_user comment)) =
      approval_name (gx_PromotionRunRef (target_to_gate_context tenv t)) (gx_Name (target_to_gate_context tenv t)) \<longleftrightarrow>
    \<not> te_Rollback t"
  using assms
  by (simp add: approval_object_def approval_name_def target_to_gate_context_def Let_def promotion_target_object_name_def)

section \<open>The documented role\<close>

text \<open>
  The rules of \<^verbatim>\<open>docs/getting-started/install.md\<close> for an approver. Runs and targets are served under
  \<^verbatim>\<open>runtime.kapro.io\<close>, and that is the group of the rules.
\<close>

definition documented_role :: "resource_attributes \<Rightarrow> bool" where
  "documented_role a \<longleftrightarrow>
     (ra_Group a = ''runtime.kapro.io'' \<and> ra_Resource a \<in> {''promotionruns'', ''targets''} \<and> ra_Subresource a = [] \<and> ra_Verb a = ''get'') \<or>
     (ra_Group a = ''runtime.kapro.io'' \<and> ra_Resource a = ''targets'' \<and> ra_Subresource a = ''status'' \<and>
        ra_Verb a \<in> {''update'', ''patch''}) \<or>
     (ra_Group a = ''kapro.io'' \<and> ra_Resource a = ''approvals'' \<and> ra_Subresource a = [] \<and> ra_Verb a = ''create'')"

text \<open>A user who holds exactly the role documented for approvers is refused on every decision: the
  server asks for the group \<^verbatim>\<open>kapro.io\<close>, under which runs and targets are not served.
\<close>

theorem documented_role_is_refused:
  assumes "ax_Authorize (dv_Access env) = Some (\<lambda>u a w. (if documented_role a then None else Some ''RBAC denied'', w))"
    "ax_Authenticate (dv_Access env) = Some (\<lambda>token w. (Inr user, w))" "bearer_token (aq_Authorization r) = Some token"
    "aq_Method r = MethodPost"
  shows "handle_decide env r runName key s = ((StatusForbidden, ApiError ''forbidden''), s) \<and>
    handle_override env stamp r runName key s = ((StatusForbidden, ApiError ''forbidden''), s)"
  using assms
  by (simp add: handle_decide_def handle_override_def reply_of_def op_bind_def stop_if_def need_access_def require_decision_access_def
      authorize_decision_user_def decision_attrs_def kapro_attrs_def documented_role_def server_world_def)

section \<open>Concrete requests\<close>

definition sample_user :: user_info where
  "sample_user = \<lparr>ui_Username = ''system:serviceaccount:ops:agent'', ui_Groups = []\<rparr>"

definition sample_decision :: decision_request where
  "sample_decision = \<lparr>dr_Decision = ''Approve'', dr_Confidence = 0, dr_Reasoning = ''fine'', dr_Factors = [], dr_ReqConditions = [],
     dr_IdempotencyKey = ''k1'', dr_ExpiresAt = []\<rparr>"

definition waiting_target :: target where
  "waiting_target = sample_target\<lparr>tg_Status := (tg_Status sample_target)\<lparr>tst_Exec := empty_target\<lparr>te_Phase := PhaseWaitingApproval\<rparr>\<rparr>\<rparr>"

definition sample_decision_env ::
  "(api_error + agent_policy list) \<Rightarrow> (resource_attributes \<Rightarrow> bool) \<Rightarrow> (api_error + unit) \<Rightarrow> target \<Rightarrow> (sample, unit) decision_env" where
  "sample_decision_env listing role create t =
     \<lparr>dv_Kube = sample_kube\<lparr>kb_GetTarget := (\<lambda>n w. (Inr t, w))\<rparr>, dv_Reader = sample_kube,
      dv_Policy = \<lparr>pe_Kube = sample_kube, pe_Zone = (\<lambda>z. None), pe_ListPolicies = (\<lambda>w. (listing, w)),
        pe_GetPolicy = (\<lambda>ns n w. (Inr (sample_agent_policy sample_limits), w)), pe_UpdatePolicyStatus = (\<lambda>p w. (Inr p, w))\<rparr>,
      dv_Access = \<lparr>ax_Authenticate = Some (\<lambda>token w. (Inr sample_user, w)),
        ax_Authorize = Some (\<lambda>u a w. (if role a then None else Some ''RBAC denied'', w))\<rparr>,
      dv_PatchTargetStatus = (\<lambda>old new w. (Inr new, w)),
      dv_CreateApproval = (\<lambda>a w. (case create of Inl e \<Rightarrow> Inl e | Inr u \<Rightarrow> Inr a, w)),
      dv_DecodeDecision = (\<lambda>s. Inr sample_decision), dv_DecodeOverride = (\<lambda>s. Inl []), dv_Everything = (),
      dv_ParseSelector = (\<lambda>s. Inr ()), dv_AddRun = (\<lambda>r sel. Some sel), dv_ListClusters = (\<lambda>sel n token w. (Inr ([], []), w)),
      dv_ListRuns = (\<lambda>sel n token w. (Inr ([], []), w)), dv_ListTargets = (\<lambda>sel n token w. (Inr ([], []), w))\<rparr>"

definition sample_decide :: api_request where
  "sample_decide = \<lparr>aq_Method = MethodPost, aq_Path = [], aq_Query = [], aq_Authorization = ''Bearer x'', aq_ReadBody = Inr []\<rparr>"

lemma sample_bearer: "bearer_token (aq_Authorization sample_decide) = Some ''x''"
  by code_simp

abbreviation sample_request_tick :: "sample server_tick" where
  "sample_request_tick \<equiv> \<lparr>sk_World = sample_world, sk_Log = []\<rparr>"

lemma sample_decide_opens:
  assumes "current_decision t = None" "ts_PromotionRunRef (tg_Spec t) = ''r1''" "tg_Phase t = PhaseWaitingApproval"
  shows "handle_decide (sample_decision_env listing (\<lambda>a. True) create t) sample_decide ''r1'' key sample_request_tick =
    reply_of (decide_open_target (sample_decision_env listing (\<lambda>a. True) create t) sample_decide ''r1'' key sample_user sample_decision t)
      sample_request_tick"
  using sample_bearer assms
  by (simp add: handle_decide_def op_bind_def stop_if_def need_access_def require_decision_access_def authorize_decision_user_def
      decision_attrs_def sample_decision_env_def read_request_def check_decision_def validate_decision_def sample_decision_def
      maxDecisionReasoningLen_def maxIdempotencyKeyLen_def open_target_def api_call_def server_world_def sample_kube_def fetch_def
      sample_world_def sample_run_def reply_of_def sample_decide_def [THEN arg_cong [where f = aq_Method]]
      sample_decide_def [THEN arg_cong [where f = aq_ReadBody]])

lemma waiting_target_open:
  "current_decision waiting_target = None" "ts_PromotionRunRef (tg_Spec waiting_target) = ''r1''" "tg_Phase waiting_target = PhaseWaitingApproval"
  by (simp_all add: waiting_target_def sample_target_def current_decision_def)

abbreviation sample_server :: "(api_error + agent_policy list) \<Rightarrow> (sample, unit) decision_env" where
  "sample_server listing \<equiv> sample_decision_env listing (\<lambda>a. True) (Inr ()) waiting_target"

lemma sample_server_parts:
  "pe_ListPolicies (dv_Policy (sample_server listing)) = (\<lambda>w. (listing, w))"
  "ax_Authorize (dv_Access (sample_server listing)) = Some (\<lambda>u a w. (None, w))"
  "dv_PatchTargetStatus (sample_server listing) = (\<lambda>old new w. (Inr new, w))"
  "dv_CreateApproval (sample_server listing) = (\<lambda>a w. (Inr a, w))"
  "dr_Decision sample_decision = ''Approve''"
  by (simp_all add: sample_decision_env_def sample_decision_def)

theorem agent_approval_is_earned_witness:
  "\<exists>a. CreateApprovalCalled a \<in> set (sk_Log (snd (handle_decide (sample_server (Inr [])) sample_decide ''r1'' ''t1''
       sample_request_tick))) \<and>
     approval_earned (sample_server (Inr [])) sample_decide ''r1'' ''t1'' sample_world a"
proof -
  obtain reply s' where run: "handle_decide (sample_server (Inr [])) sample_decide ''r1'' ''t1'' sample_request_tick = (reply, s')" by fastforce
  let ?a = "approval_object ''r1'' ''t1'' (ts_Target (tg_Spec waiting_target)) (''agent:'' @ decision_identity_name (Some sample_user))
    (decision_comment sample_decision)"
  have "find_policy (sample_server (Inr [])) (decision_identity_name (Some sample_user)) sample_request_tick = (Inr None, sample_request_tick)"
    by (simp add: find_policy_def resolve_agent_policy_def sample_server_parts server_world_def)
  note decided = decide_without_policy [OF this sample_server_parts(2-5), of sample_decide "''r1''" "''t1''" waiting_target]
  have "CreateApprovalCalled ?a \<in> set (sk_Log s')"
    using run by (auto simp: sample_decide_opens [OF waiting_target_open] reply_of_def decided)
  then show ?thesis using agent_approval_is_earned [OF run] run by auto
qed

text \<open>A second request, whatever it decides, is answered from the trace.\<close>

theorem first_decision_is_final_witness:
  "sk_Log (snd (handle_decide (sample_decision_env (Inr []) (\<lambda>a. True) (Inr ())
     (decided_target (decision_entry_of sample_decision ''Approve'' ''none'' sample_user [] []) waiting_target))
     sample_decide ''r1'' ''t1'' sample_request_tick)) = []"
proof -
  let ?t = "decided_target (decision_entry_of sample_decision ''Approve'' ''none'' sample_user [] []) waiting_target"
  let ?env = "sample_decision_env (Inr []) (\<lambda>a. True) (Inr ()) ?t"
  obtain reply s' where "handle_decide ?env sample_decide ''r1'' ''t1'' sample_request_tick = (reply, s')" by fastforce
  moreover have "kb_GetTarget (dv_Kube ?env) ''t1'' = (\<lambda>w. (Inr ?t, w))" by (simp add: sample_decision_env_def)
  moreover have "current_decision ?t = Some (decision_entry_of sample_decision ''Approve'' ''none'' sample_user [] [])"
    by (simp add: current_decision_def decided_target_def with_trace_def)
  ultimately show ?thesis using first_decision_is_final by fastforce
qed

theorem failed_listing_lifts_the_policy_witness:
  "\<exists>entry a. de_EffectiveDecision entry = ''Approve'' \<and>
     snd (decide_open_target (sample_server (Inl (ApiOther ''timeout''))) sample_decide ''r1'' ''t1'' sample_user sample_decision
       waiting_target sample_request_tick) =
     sample_request_tick\<lparr>sk_Log := [PatchTargetStatusCalled (decided_target entry waiting_target), CreateApprovalCalled a]\<rparr>"
proof -
  have listing: "pe_ListPolicies (dv_Policy (sample_server (Inl (ApiOther ''timeout'')))) = (\<lambda>w. (Inl (ApiOther ''timeout''), w))"
    by (rule sample_server_parts)
  show ?thesis
    using failed_listing_lifts_the_policy [OF listing sample_server_parts(2-5), where s = sample_request_tick and t = waiting_target
      and r = sample_decide and runName = "''r1''" and key = "''t1''" and user = sample_user and kb = sample_kube
      and zone = "\<lambda>z. None" and now = 0 and mc = None and confidence = 0 and n = 0]
    by auto
qed

definition labelled_cluster :: cluster where
  "labelled_cluster = sample_cluster\<lparr>cl_Meta := (cl_Meta sample_cluster)\<lparr>om_Labels := [(''country'', ''xx'')]\<rparr>\<rparr>"

lemma labelled_country: "cluster_country labelled_cluster = ''xx''"
  by code_simp

theorem disabled_country_still_approves_witness:
  "effective_decision (judge_policy sample_kube (\<lambda>z. None) 0 (agp_Spec (sample_agent_policy sample_limits)) waiting_target
     (Some labelled_cluster) 0x3FE8000000000000 5) ''Approve'' = ''Approve''"
proof -
  let ?spec = "agp_Spec (sample_agent_policy sample_limits)"
  have "pd_Allowed (judge_policy sample_kube (\<lambda>z. None) 0 ?spec waiting_target (Some labelled_cluster) 0x3FE8000000000000 5)"
    by code_simp
  moreover have "country_profile (aps_Scope ?spec) (Some labelled_cluster) = Some (hd (as_CountryProfiles (aps_Scope ?spec)))"
    by (simp add: country_profile_def labelled_country sample_agent_policy_def)
  moreover have "crp_Mode (hd (as_CountryProfiles (aps_Scope ?spec))) = Some PolicyDisabled"
    "\<not> crp_RequireHumanCosign (hd (as_CountryProfiles (aps_Scope ?spec)))"
    by (simp_all add: sample_agent_policy_def)
  ultimately show ?thesis using disabled_country_still_approves by blast
qed

text \<open>The world is the stored target; no approval can be created in it.\<close>

definition lossy_env :: "target kube \<Rightarrow> (target, unit) decision_env" where
  "lossy_env kube =
     \<lparr>dv_Kube = kube\<lparr>kb_GetTarget := (\<lambda>n w. (Inr w, w)), kb_GetRun := (\<lambda>n w. (Inr sample_run, w))\<rparr>, dv_Reader = kube,
      dv_Policy = \<lparr>pe_Kube = kube, pe_Zone = (\<lambda>z. None), pe_ListPolicies = (\<lambda>w. (Inr [], w)),
        pe_GetPolicy = (\<lambda>ns n w. (Inr (sample_agent_policy sample_limits), w)), pe_UpdatePolicyStatus = (\<lambda>p w. (Inr p, w))\<rparr>,
      dv_Access = \<lparr>ax_Authenticate = Some (\<lambda>token w. (Inr sample_user, w)), ax_Authorize = Some (\<lambda>u a w. (None, w))\<rparr>,
      dv_PatchTargetStatus = (\<lambda>old new w. (Inr new, new)),
      dv_CreateApproval = (\<lambda>a w. (Inl (ApiOther ''timeout''), w)),
      dv_DecodeDecision = (\<lambda>s. Inr sample_decision), dv_DecodeOverride = (\<lambda>s. Inl []), dv_Everything = (),
      dv_ParseSelector = (\<lambda>s. Inr ()), dv_AddRun = (\<lambda>r sel. Some sel), dv_ListClusters = (\<lambda>sel n token w. (Inr ([], []), w)),
      dv_ListRuns = (\<lambda>sel n token w. (Inr ([], []), w)), dv_ListTargets = (\<lambda>sel n token w. (Inr ([], []), w))\<rparr>"

theorem lost_approval_stays_lost_witness:
  "\<forall>kube. \<exists>s1 reply.
     handle_decide (lossy_env kube) sample_decide ''r1'' ''t1'' \<lparr>sk_World = waiting_target, sk_Log = []\<rparr> =
       ((StatusInternalServerError, ApiError ''internal error creating approval''), s1) \<and>
     handle_decide (lossy_env kube) sample_decide ''r1'' ''t1'' s1 = ((StatusOK, DecisionJson reply), s1) \<and> dp_Accepted reply"
proof
  fix kube
  have "keeps_target id (lossy_env kube) ''t1''" "grants_all (lossy_env kube) sample_user"
    by (simp_all add: keeps_target_def grants_all_def lossy_env_def)
  moreover have "posts_decision (lossy_env kube) sample_decide sample_decision"
    using sample_bearer
    by (auto simp: posts_decision_def validate_decision_def lossy_env_def sample_decision_def sample_decide_def
        maxDecisionReasoningLen_def maxIdempotencyKeyLen_def)
  moreover have "\<exists>w'. dv_CreateApproval (lossy_env kube) a w = (Inl (ApiOther ''timeout''), w') \<and> id w' = id w" for a w
    by (simp add: lossy_env_def)
  moreover have "kb_GetRun (dv_Kube (lossy_env kube)) ''r1'' = (\<lambda>w. (Inr sample_run, w))" "\<not> prs_Suspended (run_Spec sample_run)"
    by (simp_all add: lossy_env_def sample_run_def)
  ultimately show "\<exists>s1 reply.
     handle_decide (lossy_env kube) sample_decide ''r1'' ''t1'' \<lparr>sk_World = waiting_target, sk_Log = []\<rparr> =
       ((StatusInternalServerError, ApiError ''internal error creating approval''), s1) \<and>
     handle_decide (lossy_env kube) sample_decide ''r1'' ''t1'' s1 = ((StatusOK, DecisionJson reply), s1) \<and> dp_Accepted reply"
    using lost_approval_stays_lost [of id "lossy_env kube" "''t1''" sample_user sample_decide sample_decision "''timeout''" "''r1''" sample_run
        "\<lparr>sk_World = waiting_target, sk_Log = []\<rparr>"] waiting_target_open sample_server_parts(5)
    by fastforce
qed

theorem agent_approval_reaches_its_gate_witness:
  "om_Name (ap_Meta (approval_object ''r1'' (promotion_target_object_name sample_exec) ''eu-1'' ''ann'' [])) =
     approval_name (gx_PromotionRunRef (target_to_gate_context sample_env sample_exec)) (gx_Name (target_to_gate_context sample_env sample_exec)) \<and>
   om_Name (ap_Meta (approval_object ''r1'' (promotion_target_object_name (sample_exec\<lparr>te_Rollback := True\<rparr>)) ''eu-1'' ''ann'' [])) \<noteq>
     approval_name (gx_PromotionRunRef (target_to_gate_context sample_env sample_exec)) (gx_Name (target_to_gate_context sample_env sample_exec))"
proof -
  have run: "te_PromotionRunRef sample_exec = ''r1''" "run_Name (ev_PromotionRun sample_env) = ''r1''"
    "\<not> te_Rollback sample_exec"
    by (simp_all add: sample_exec_def sample_env_def sample_run_def named_def empty_target_def)
  have "gx_PromotionRunRef (target_to_gate_context sample_env (sample_exec\<lparr>te_Rollback := True\<rparr>)) =
        gx_PromotionRunRef (target_to_gate_context sample_env sample_exec)"
    "gx_Name (target_to_gate_context sample_env (sample_exec\<lparr>te_Rollback := True\<rparr>)) = gx_Name (target_to_gate_context sample_env sample_exec)"
    by (simp_all add: target_to_gate_context_def Let_def)
  then show ?thesis
    using agent_approval_reaches_its_gate [of sample_exec sample_env "''eu-1''" "''ann''" "[]"]
      agent_approval_reaches_its_gate [of "sample_exec\<lparr>te_Rollback := True\<rparr>" sample_env "''eu-1''" "''ann''" "[]"] run
    by simp
qed

theorem documented_role_is_refused_witness:
  "fst (handle_decide (sample_decision_env (Inr []) documented_role (Inr ()) waiting_target) sample_decide ''r1'' ''t1'' sample_request_tick) =
     (StatusForbidden, ApiError ''forbidden'')"
proof -
  let ?env = "sample_decision_env (Inr []) documented_role (Inr ()) waiting_target"
  have "ax_Authorize (dv_Access ?env) = Some (\<lambda>u a w. (if documented_role a then None else Some ''RBAC denied'', w))"
    "ax_Authenticate (dv_Access ?env) = Some (\<lambda>token w. (Inr sample_user, w))"
    by (simp_all add: sample_decision_env_def)
  moreover have "aq_Method sample_decide = MethodPost" by (simp add: sample_decide_def)
  ultimately show ?thesis using documented_role_is_refused sample_bearer by fastforce
qed

end
