(* ===== verification/Spec2Isabelle.thy ===== *)
theory Spec2Isabelle
  imports Target_Properties Target_Gate_Properties Target_Failure_Properties Target_Progress_Properties
    Planner_Properties Run_Aggregate_Properties Run_Target_Properties Run_Stage_Properties Run_Properties
    Retention_Properties Heartbeat_Properties Promotion_Properties
    Admission_Properties Delivery_Unit_Properties Trigger_Properties
    Agent_Properties Approval_Properties Listing_Properties Decision_Properties
begin

text \<open>
  Kapro promotes versions of delivery units across a fleet of clusters. A promotion run
  (\<^verbatim>\<open>PromotionRun\<close>) walks a DAG of plans, each a DAG of stages; a stage selects clusters, the planner
  filters and orders them, and every planned cluster gets a target row and a child object
  (\<^verbatim>\<open>Target\<close>). The target controller drives each child through a phase machine (verification, health
  check, soak, metrics, approval, applying) and calls an actuator when the target is Applying; the
  run controller observes the phases of its children, applies the failure policy of the stage
  (halt, skip, rollback), and aggregates the result. Above it, a \<^verbatim>\<open>Promotion\<close> stamps a numbered attempt
  (a run) whenever its spec changes and supersedes the older ones; beside it, the heartbeat controller
  turns the lease of a cluster into the \<^verbatim>\<open>Ready\<close> condition that the targets consult, and the retention
  controller deletes finished runs. A \<^verbatim>\<open>DeliveryUnit\<close> derives a source and its triggers; a \<^verbatim>\<open>Trigger\<close>
  watches a registry and writes the promotion of each new artifact; the admission webhooks check what
  users and controllers write. People approve a waiting target through a signed token, agents through
  the decision API under the policy of their identity; both end in an \<^verbatim>\<open>Approval\<close> object, which the
  approval gate of the target reads.

  \<^bold>\<open>Parts and theories\<close> (sources under \<^verbatim>\<open>src/\<close>):

  \<^item> \<^verbatim>\<open>Kapro_Prelude\<close>, \<^verbatim>\<open>Go_Strings\<close>, \<^verbatim>\<open>Go_Time\<close>: Go maps as association lists, error sums, the parts of
    \<^verbatim>\<open>strconv\<close>, \<^verbatim>\<open>fmt\<close>, \<^verbatim>\<open>hash/fnv\<close> and \<^verbatim>\<open>time\<close> that the code uses (durations, RFC 3339).
  \<^item> \<^verbatim>\<open>Registry_Spec\<close> (locale \<open>keyed_registry\<close>), \<^verbatim>\<open>Fsm_Machine\<close> (\<^verbatim>\<open>internal/promotion/fsm/machine.go\<close>).
  \<^item> \<^verbatim>\<open>Kapro_Types\<close> (\<^verbatim>\<open>api/kapro/v1alpha1\<close>, \<^verbatim>\<open>api/kaproruntime/v1alpha1\<close>), \<^verbatim>\<open>Effects\<close> (notifications,
    decision traces, the log of effects, the Kubernetes client as a record of operations).
  \<^item> \<^verbatim>\<open>Gates\<close> (\<^verbatim>\<open>pkg/kapro/gate\<close>, \<^verbatim>\<open>internal/gate/soak.go\<close>, \<^verbatim>\<open>approval.go\<close>), \<^verbatim>\<open>Actuators\<close>
    (\<^verbatim>\<open>pkg/kapro/actuator\<close>, resolution of the actuator of a cluster).
  \<^item> \<^verbatim>\<open>Target_Naming\<close>, \<^verbatim>\<open>Target_Fsm\<close>, \<^verbatim>\<open>Target_Gates\<close>, \<^verbatim>\<open>Target_Handlers\<close>, \<^verbatim>\<open>Target_Controller\<close>: the target
    controller (\<^verbatim>\<open>internal/controller/target_controller.go\<close>, \<^verbatim>\<open>target_fsm.go\<close>, \<^verbatim>\<open>heartbeat.go\<close>,
    \<^verbatim>\<open>conflict_retry.go\<close>). A tick carries the target row, the world and the log; each handler is one
    definition.
  \<^item> \<^verbatim>\<open>Planner\<close> (\<^verbatim>\<open>pkg/planner\<close>): statuses, plugins as records of optional phases, one planning cycle.
  \<^item> \<^verbatim>\<open>Run_State\<close>, \<^verbatim>\<open>Run_Targets\<close>, \<^verbatim>\<open>Run_Aggregate\<close>, \<^verbatim>\<open>Run_Stages\<close>, \<^verbatim>\<open>Run_Controller\<close>: the run controller
    (\<^verbatim>\<open>promotionrun_controller.go\<close>, \<^verbatim>\<open>promotionrun_targets.go\<close>, \<^verbatim>\<open>promotionrun_notifications.go\<close>,
    \<^verbatim>\<open>triggerTargetRollback\<close>). A run tick carries the run, the buffer of target rows, the world and the
    log; an operation that can fail returns a sum and the tick.
  \<^item> \<^verbatim>\<open>Retention\<close> (\<^verbatim>\<open>promotionrun_gc_controller.go\<close>): the split of the runs into unfinished and finished,
    expiry by age, the cap by count and the pass that deletes, over the client record \<open>gc_client\<close>.
  \<^item> \<^verbatim>\<open>Heartbeat\<close> (\<^verbatim>\<open>cluster_heartbeat_controller.go\<close>): one lease observation as \<open>heartbeat_env\<close>, the miss
    counter, the phase and the conditions of the cluster status, the mapping from a lease to its cluster.
  \<^item> \<^verbatim>\<open>Go_Sha256\<close> (SHA-256 and hex as \<^verbatim>\<open>crypto/sha256\<close>, \<^verbatim>\<open>encoding/hex\<close> compute them),
    \<^verbatim>\<open>Promotion_Intent\<close>, \<^verbatim>\<open>Promotion_Controller\<close> (\<^verbatim>\<open>promotion_controller.go\<close>, \<^verbatim>\<open>promotion_types.go\<close>): the
    canonical text of a spec and its hash, the names of attempts, superseding, suspension, the
    attempt history and the reconcile pass over the client record \<open>promotion_env\<close>.
  \<^item> \<^verbatim>\<open>Trigger_Types\<close> (\<^verbatim>\<open>deliveryunit_types.go\<close>, \<^verbatim>\<open>source_types.go\<close>, \<^verbatim>\<open>trigger_types.go\<close>, \<^verbatim>\<open>strings.TrimSpace\<close>),
    \<^verbatim>\<open>Dag_Check\<close> (the cycle check of the webhooks), \<^verbatim>\<open>Admission\<close> (\<^verbatim>\<open>internal/webhook/admission\<close>: one validator
    or mutator per kind, from a decoded request to a response).
  \<^item> \<^verbatim>\<open>Delivery_Unit\<close> (\<^verbatim>\<open>deliveryunit_controller.go\<close>): the derived objects and the pass that applies, prunes
    and suspends them. \<^verbatim>\<open>Trigger_Controller\<close> (\<^verbatim>\<open>trigger_controller.go\<close>): configuration, names, the chain of
    guards from the observed artifact to the write, and the OCI resolver over a registry. Both carry a
    tick of world and log; \<^verbatim>\<open>Effect_Log\<close> is the locale for what their steps append.
  \<^item> \<^verbatim>\<open>Go_Float\<close> (comparison and two decimals of IEEE doubles as 64-bit words), \<^verbatim>\<open>Agent_Policy\<close>
    (\<^verbatim>\<open>policy_types.go\<close>, \<^verbatim>\<open>internal/webhook/agentpolicy_enforcer.go\<close>): which policy governs an identity, its
    verdict, the reservation of a slot by compare and swap. \<^verbatim>\<open>Versioned_History\<close> (a locale for objects
    guarded by a resource version), \<^verbatim>\<open>Agent_Slots\<close> (requests racing for slots as a step relation, a history
    of all that can happen at the server), \<^verbatim>\<open>Slot_Refinement\<close> (that relation refines a machine of atomic
    reservations), \<^verbatim>\<open>Slot_Server\<close> (a server that other requests use between the calls of a loop; every
    run of the loops of \<^verbatim>\<open>Agent_Policy\<close> against it is a run of the relation, so what is shown of the
    relation holds of the code's loops).
  \<^item> \<^verbatim>\<open>Approval_Token\<close> (\<^verbatim>\<open>internal/webhook/token\<close>: URL-safe base64 and HMAC-SHA256 written out),
    \<^verbatim>\<open>Approval_Server\<close> (\<^verbatim>\<open>internal/webhook/server.go\<close>: approve, reject, status, claiming a token).
  \<^item> \<^verbatim>\<open>Decision_Types\<close>, \<^verbatim>\<open>Decision_Api\<close>, \<^verbatim>\<open>Decision_Reads\<close> (\<^verbatim>\<open>decision_auth.go\<close>, \<^verbatim>\<open>decision_api.go\<close>): access
    check, the bounded listing, deciding, overriding, the reads and the router. The mutating handlers
    are sequences of steps that return early with a reply; a read is an option, \<open>None\<close> where its listing
    does not end.
  \<^item> \<^verbatim>\<open>Sample_World\<close>, \<^verbatim>\<open>Run_Sample\<close>: the concrete worlds of the witnesses.

  \<^bold>\<open>What is shown.\<close> \<^verbatim>\<open>Ranked_Loop\<close> (a locale for loops with a rank), \<^verbatim>\<open>Target_Steps\<close> and \<^verbatim>\<open>Target_Safety\<close>
  are the library behind the target properties: every tick follows the declared graph, deliveries
  are issued once, only in Applying and only on a cluster that carries the claim of the run
  (\<^verbatim>\<open>Target_Properties\<close>); approval, soak, gate templates and metrics (\<^verbatim>\<open>Target_Gate_Properties\<close>); missing
  clusters, stale heartbeats, cancellation, conflict retry (\<^verbatim>\<open>Target_Failure_Properties\<close>); healthy
  targets reach Applying and converge (\<^verbatim>\<open>Target_Progress_Properties\<close>). \<^verbatim>\<open>Planner_Properties\<close>: a cycle
  accounts for every candidate, the default framework is a filter and a sort, the plugin table
  refines a map. \<^verbatim>\<open>Run_Aggregate_Properties\<close>: normalisation, report, summary, audit trail.
  \<^verbatim>\<open>Run_Target_Properties\<close>: rollback rows, release of claims, the round trip between rows and child
  objects, what persisting overwrites, colliding names. \<^verbatim>\<open>Run_Stage_Properties\<close>: the parallelism limit,
  completion of a stage, dependencies with soak, empty stages. \<^verbatim>\<open>Run_Frame\<close> proves every operation of the
  run controller steady (it keeps the phase and reports no undeclared transition), on which
  \<^verbatim>\<open>Run_Properties\<close> rests: the phase graph, completion of a run, timeout, and the runs a cluster wakes.
  \<^verbatim>\<open>Retention_Properties\<close>: where the cap has room for the unfinished runs and the floors, what is kept is
  exactly the cap with the floor of every outcome, oldest first; what the code does where it has not
  (it prunes every finished run, against its comment and ADR-0015) is a lemma; the bound on deletes. \<^verbatim>\<open>Heartbeat_Properties\<close>: the controller refines a miss counter, becomes
  Unreachable after the threshold, and a target goes on only on a fresh lease; that a failed read takes Ready
  away, against the comment of the code, is a lemma and no part of the contract. \<^verbatim>\<open>Promotion_Properties\<close>:
  a new attempt is stamped after the open ones are superseded, names of attempts are bounded and
  injective, the history stays numbered, the hash does not depend on map order, suspension. \<^verbatim>\<open>Admission_Properties\<close>: exactly the DAGs are
  admitted and the run controller cannot get stuck on one, approvers and the intent of runs over any
  sequence of admitted writes, which attempts of a promotion the webhook lets in.
  \<^verbatim>\<open>Delivery_Unit_Properties\<close>: an admitted unit derives admitted triggers, a pass is exact and respects
  what the unit does not own, which status changes are announced. \<^verbatim>\<open>Trigger_Properties\<close>: the guards before
  a promotion is written and that nothing else stands in the way, names, the history of artifacts,
  the newest tag, the cooldown with its overflow, updates and refused writes. \<^verbatim>\<open>Agent_Properties\<close>: the two loops
  on a server under other requests refine an atomic machine, from which the concurrent and the daily limit and the cooldown
  follow; the verdict of a policy is a conjunction of its rules (for windows of the plain form and no disabled
  country profile; what the code makes of the other windows and of such a profile are lemmas); midnight and
  stale copies break the counters. \<^verbatim>\<open>Approval_Properties\<close>: tokens round trip, approvals and rejections need a token bound to the run stored, and not expired by the
  clock, at the arrival of the request; one token per target, whatever is written between the calls of the claim loop. \<^verbatim>\<open>Listing_Properties\<close>: the bounded listing is exact and ends.
  \<^verbatim>\<open>Decision_Properties\<close>: an agent's approval is earned, a decision is final, what lifts the policy, which
  approvals are lost or never read, and that the documented role is refused.

  \<^bold>\<open>Bounds.\<close> The loops of the code are recursions over their lists. The one loop with a budget is
  \<^verbatim>\<open>advanceTargetUntilStable\<close> (eight immediate advances, shown never to bind: seven suffice because every
  immediate advance moves up the phase order); \<^verbatim>\<open>StatusUpdateWithRetry\<close> has its five attempts; the
  missing-cluster counter its threshold of ten. Retention deletes at most its cap in one pass; SHA-256
  runs its 64 rounds over a list of words, its schedule being a fold. The recursive cycle check has
  fuel for one nested call more than there are nodes, which is shown to be enough: a walk enters a
  node once. The reservation and the release of a slot have their five attempts, claiming a token those
  of \<^verbatim>\<open>client-go\<close> (a number of the environment); the bounded listing is a partial function.

  \<^bold>\<open>Parameters.\<close> The Kubernetes API server, its client and \<^verbatim>\<open>apimachinery\<close> are the record \<open>kube\<close> over an
  opaque world \<open>'w\<close>: every read and write may answer anything and change the world, so interleaving
  with other controllers is included; what a property needs of the server is a named hypothesis
  (\<open>answers_phase\<close>, \<open>accepts\<close>, \<open>keeps_labels\<close>, \<open>reads_only\<close>). Actuators, gates and planner plugins are
  records of functions in the same style. The clock is read from the world. \<open>gc_client\<close>,
  \<open>heartbeat_env\<close> and \<open>promotion_env\<close> are the clients of the smaller controllers, with the answers of
  the reads they make; what \<^verbatim>\<open>sort.Slice\<close> makes of equal keys is open, so the sorted
  list of runs is an argument with the law \<open>newest_first\<close>; the order in which Go visits the index of a DAG
  is any \<open>map_order\<close>, the one in which retention visits its buckets any \<open>range_order\<close>;
  \<open>unit_env\<close> and \<open>trigger_env\<close> are the clients of the unit and the trigger controller (\<open>unit_store\<close>: a
  server that stores what it is sent and lists what it stores, used while nobody else writes; \<open>way_is_clear\<close>:
  the answers a trigger meets on the way to a release, each in the world the call before it left), \<open>registry\<close> the registry client with the semver package
  (\<open>semver_law\<close>), \<open>policy_env\<close>, \<open>approval_env\<close>, \<open>decision_env\<close> and \<open>access_env\<close> the clients of the
  webhook server, (\<open>slot_server\<close>, \<open>claim_server\<close>: updates are
  compared on the resource version, a read answers with any object ever stored, an update that fails
  stores nothing, and between two calls other requests write; of a target other clients leave the two claim
  annotations in place), with the time zone database, the label selectors, the JSON decoders and encoders, the
  layout of the local time of an override, TokenReview and SubjectAccessReview as functions;
  \<open>validation_lib\<close> the texts and DNS checks of \<^verbatim>\<open>apimachinery\<close>; the setters of conditions obey the hypothesis \<open>conditions_law\<close>.

  \<^bold>\<open>Simplifications.\<close> Log lines, metric counters other than the undeclared-transition one, tracing spans
  and mutexes are left out; the event recorder and the trace emitter are present; \<^verbatim>\<open>buildApprovalURLs\<close>
  is a parameter; formatting of \<^verbatim>\<open>float64\<close> is a parameter; struct fields no modelled code reads are
  omitted; Go \<^verbatim>\<open>int\<close> counters are unbounded integers, the \<^verbatim>\<open>int32\<close> conversions of the summary are not;
  the miss counter wraps as \<^verbatim>\<open>int32\<close>; \<^verbatim>\<open>time.Sub\<close> saturates where
  \<open>time_sub\<close> stands (the cooldown, the age of a lease) and is plain subtraction elsewhere, which differs for instants more than
  292 years apart; a \<^verbatim>\<open>PreFilter\<close> plugin of the planner cannot edit the slice of candidates in place
  (what \<^verbatim>\<open>NormalizeScore\<close> makes of its scores is modelled); \<open>answers_phase\<close>, a hypothesis of the properties
  of one pass of the run, says that a patch answers with the phase that was sent, which excludes a concurrent writer of the
  phase; the process is
  taken to run in UTC; nil and empty slices and maps are one value; the values of a planning cycle's state stand as text;
  a Go map is an association list in any order. The webhooks start from decoded objects and the JSON
  patch of a mutator stands as the object it gives; Go's regular expressions, templates and JSON text
  and the wording of parse errors are parameters; of a source only the names of its units are read.

  \<^bold>\<open>Not modelled.\<close> The fleet, substrate, bootstrap, plugin and approval controllers; the watch mappers of
  the promotion controller; the reading of registry credentials; the metrics gate with its
  statistics, the CEL, job and webhook gates; the actuator implementations; the HTML page, the mux and
  the random token identifiers of the webhook server, and case folding beyond the runes that fold to
  ASCII letters; the lifecycle dispatcher; the spoke controller; the command line; OCI and bundle I/O;
  registration of watches and indexes with the manager; generated code.
\<close>

end
